(* ===== verification/Prelude.thy ===== *)
theory Prelude
  imports Main "HOL-Library.Multiset" "HOL-Library.Sublist" "HOL-Library.List_Lexorder" "HOL-Library.Char_ord"
begin

text \<open>
  Shared vocabulary of the development: Python values and exceptions, the string and
  collection operations the analyzer uses, and the lemmas about them.

  A Python \<open>str\<close> is modelled by its UTF-8 bytes (a \<open>string\<close>); UTF-8 keeps the order of
  code points, so the lexicographic order of \<open>List_Lexorder\<close> is Python's order of strings.
  A raised exception is the left summand of a result.
\<close>

section \<open>Collections of rules\<close>

named_theorems post_init_simps \<open>the validating constructors (\<open>__post_init__\<close>) unfolded\<close>
named_theorems usort_simps \<open>facts about sorted duplicate-free tuples\<close>

section \<open>Values and results\<close>

text \<open>The plain values that records are read from and identities are computed over.\<close>

datatype json =
    JNull
  | JBool bool
  | JInt int
  | JStr string
  | JArr "json list"
  | JObj "(string \<times> json) list"

text \<open>Exceptions: the analyzer's own error with code, message and details, and the
  built-in ones that its code can let escape; \<open>PyInterrupt\<close> stands for those that are not
  an \<open>Exception\<close> (a keyboard interrupt, an exit), \<open>PyException\<close> for any other, by name.\<close>

datatype py_exc =
    AnalyzerError (exc_code: string) (exc_message: string) (exc_details: "(string \<times> json) list")
  | PyKeyError string
  | PyValueError string
  | PyIndexError
  | PyTypeError string
  | PyOSError string
  | PyInterrupt string
  | PyException string

type_synonym 'a res = "py_exc + 'a"

definition res_bind :: "'a res \<Rightarrow> ('a \<Rightarrow> 'b res) \<Rightarrow> 'b res" where
  "res_bind r k = (case r of Inl e \<Rightarrow> Inl e | Inr x \<Rightarrow> k x)"

lemma res_bind_simps [simp]:
  "res_bind (Inl e) k = Inl e"
  "res_bind (Inr x) k = k x"
  by (simp_all add: res_bind_def)

text \<open>The continuation is simplified only after the first step is known.\<close>

lemma res_bind_weak_cong [cong]: "r = r' \<Longrightarrow> res_bind r k = res_bind r' k"
  by simp

lemma res_bind_Inr_iff:
  "res_bind r k = Inr y \<longleftrightarrow> (\<exists>x. r = Inr x \<and> k x = Inr y)"
  by (cases r) auto

definition is_ok :: "'a res \<Rightarrow> bool" where
  "is_ok r = (case r of Inl _ \<Rightarrow> False | Inr _ \<Rightarrow> True)"

lemma is_ok_simps [simp]: "is_ok (Inr x)" "\<not> is_ok (Inl e)"
  by (simp_all add: is_ok_def)

lemma is_ok_iff: "is_ok r \<longleftrightarrow> (\<exists>x. r = Inr x)"
  by (cases r) auto

text \<open>A comprehension whose element expression may raise: the first error wins.\<close>

fun map_res :: "('a \<Rightarrow> 'b res) \<Rightarrow> 'a list \<Rightarrow> 'b list res" where
  "map_res f [] = Inr []"
| "map_res f (x # xs) = (case f x of Inl e \<Rightarrow> Inl e
     | Inr y \<Rightarrow> (case map_res f xs of Inl e \<Rightarrow> Inl e | Inr ys \<Rightarrow> Inr (y # ys)))"

lemma map_res_Inr: "(\<forall>x \<in> set xs. f x = Inr (g x)) \<Longrightarrow> map_res f xs = Inr (map g xs)"
  by (induction xs) auto

lemma map_res_Inr_D: "map_res f xs = Inr ys \<Longrightarrow> list_all2 (\<lambda>x y. f x = Inr y) xs ys"
  by (induction xs arbitrary: ys) (auto split: sum.splits)

lemma map_res_Inr_member: "map_res f xs = Inr ys \<Longrightarrow> x \<in> set xs \<Longrightarrow> \<exists>y \<in> set ys. f x = Inr y"
  by (induction xs arbitrary: ys) (auto split: sum.splits)

text \<open>A loop that updates a state and may raise.\<close>

fun fold_res :: "('s \<Rightarrow> 'a \<Rightarrow> 's res) \<Rightarrow> 's \<Rightarrow> 'a list \<Rightarrow> 's res" where
  "fold_res f s [] = Inr s"
| "fold_res f s (x # xs) = res_bind (f s x) (\<lambda>s'. fold_res f s' xs)"

lemma fold_res_invariant:
  assumes "fold_res f s xs = Inr s'" "I s"
    "\<And>s x s'. x \<in> set xs \<Longrightarrow> I s \<Longrightarrow> f s x = Inr s' \<Longrightarrow> I s'"
  shows "I s'"
  using assms by (induction xs arbitrary: s) (auto simp: res_bind_Inr_iff)

text \<open>\<open>mapping[key]\<close>: a missing key raises.\<close>

definition item :: "(string \<rightharpoonup> 'v) \<Rightarrow> string \<Rightarrow> 'v res" where
  "item m k = (case m k of None \<Rightarrow> Inl (PyKeyError k) | Some v \<Rightarrow> Inr v)"

lemma item_Some [simp]: "m k = Some v \<Longrightarrow> item m k = Inr v"
  by (simp add: item_def)

lemma map_res_item:
  "set ks \<subseteq> dom m \<Longrightarrow> map_res (item m) ks = Inr (map (\<lambda>k. the (m k)) ks)"
  by (rule map_res_Inr) (auto simp: item_def split: option.splits)

text \<open>\<open>{key(x): x for x in xs}\<close>: a later element replaces an earlier one of the same key.\<close>

definition index_by :: "('a \<Rightarrow> string) \<Rightarrow> 'a list \<Rightarrow> (string \<rightharpoonup> 'a)" where
  "index_by key xs = map_of (rev (map (\<lambda>x. (key x, x)) xs))"

lemma index_by_Some: "index_by key xs k = Some x \<Longrightarrow> x \<in> set xs \<and> key x = k"
  by (auto simp: index_by_def dest!: map_of_SomeD)

lemma dom_index_by: "dom (index_by key xs) = key ` set xs"
  by (force simp: index_by_def dom_map_of_conv_image_fst)

lemma set_map_filter_iff: "y \<in> set (List.map_filter f xs) \<longleftrightarrow> (\<exists>x \<in> set xs. f x = Some y)"
  by (induction xs) (auto simp: List.map_filter_simps split: option.splits)

lemma distinct_singleton_list: "set ys = {c} \<Longrightarrow> distinct ys \<Longrightarrow> ys = [c]"
  by (cases ys; cases "tl ys") auto

lemma index_by_unique:
  assumes "distinct (map key xs)" "x \<in> set xs"
  shows "index_by key xs (key x) = Some x"
proof -
  have "distinct (map fst (rev (map (\<lambda>x. (key x, x)) xs)))"
    using assms(1) by (simp add: rev_map comp_def flip: rev_map)
  then show ?thesis
    using assms(2) unfolding index_by_def by (intro map_of_is_SomeI) auto
qed

section \<open>Literal types\<close>

text \<open>
  A \<open>Literal[...]\<close> field that its class checks on construction is a datatype with a
  naming function; reading a string is \<open>parse_literal\<close>. The locale states what every such
  type promises.
\<close>

definition parse_literal :: "('e \<Rightarrow> string) \<Rightarrow> 'e list \<Rightarrow> string \<Rightarrow> 'e option" where
  "parse_literal name all s = find (\<lambda>x. name x = s) all"

locale literal_type =
  fixes name :: "'e \<Rightarrow> string" and all :: "'e list"
  assumes complete: "x \<in> set all"
    and distinct_names: "distinct (map name all)"
begin

lemma name_inj: "name x = name y \<longleftrightarrow> x = y"
  using complete distinct_names by (metis distinct_map inj_on_eq_iff)

lemma parse_name: "parse_literal name all (name x) = Some x"
proof -
  have "find (\<lambda>y. name y = name x) all = find (\<lambda>y. y = x) all"
    by (simp add: name_inj)
  moreover have "find (\<lambda>y. y = x) xs = Some x" if "x \<in> set xs" for xs
    using that by (induction xs) auto
  ultimately show ?thesis
    using complete by (simp add: parse_literal_def)
qed

lemma parse_Some: "parse_literal name all s = Some x \<longleftrightarrow> s = name x"
  by (auto simp: parse_name) (auto simp: parse_literal_def find_Some_iff)

lemma parse_None: "parse_literal name all s = None \<longleftrightarrow> s \<notin> range name"
  by (metis not_None_eq parse_Some rangeE rangeI)

end

section \<open>Sorted duplicate-free tuples\<close>

text \<open>\<open>tuple(sorted(set(xs)))\<close>, the canonical form of every tuple of strings.\<close>

definition usort :: "'a::linorder list \<Rightarrow> 'a list" where
  "usort xs = sort (remdups xs)"

lemma set_usort [simp]: "set (usort xs) = set xs"
  by (simp add: usort_def)

lemma sorted_usort [simp]: "sorted (usort xs)"
  by (simp add: usort_def)

lemma distinct_usort [simp]: "distinct (usort xs)"
  by (simp add: usort_def)

lemma usort_eq_iff: "usort xs = usort ys \<longleftrightarrow> set xs = set ys"
  by (metis distinct_usort set_usort sorted_distinct_set_unique sorted_usort)

lemma usort_id: "sorted xs \<Longrightarrow> distinct xs \<Longrightarrow> usort xs = xs"
  by (simp add: usort_def sorted_sort_id)

lemma usort_idem [simp]: "usort (usort xs) = usort xs"
  by (rule usort_id) simp_all

lemma usort_Nil_iff [simp]: "usort xs = [] \<longleftrightarrow> xs = []" "[] = usort xs \<longleftrightarrow> xs = []"
  by (metis set_empty set_usort)+

lemma usort_singleton: "set xs = {x} \<Longrightarrow> usort xs = [x]"
  by (metis distinct.simps distinct_singleton list.set(1) list.simps(15) sorted1 usort_eq_iff
      usort_id)

lemma usort_cong: "set xs = set ys \<Longrightarrow> usort xs = usort ys"
  by (simp add: usort_eq_iff)

lemma usort_fixed_iff: "usort xs = xs \<longleftrightarrow> sorted xs \<and> distinct xs"
  by (metis distinct_usort sorted_usort usort_id)

lemma usort_empty [simp]: "usort [] = []"
  by (simp add: usort_def)

lemma usort_one [simp]: "usort [x] = [x]"
  by (simp add: usort_def)

lemmas usort_facts = set_usort sorted_usort distinct_usort usort_idem usort_eq_iff
declare usort_facts [usort_simps]

lemma Min_hd_usort: "xs \<noteq> [] \<Longrightarrow> hd (usort xs) = Min (set xs)"
proof -
  assume "xs \<noteq> []"
  then obtain y ys where u: "usort xs = y # ys"
    by (metis neq_Nil_conv usort_Nil_iff(1))
  have "\<forall>z \<in> set (y # ys). y \<le> z"
    using sorted_usort[of xs] by (simp add: u)
  moreover have "set xs = set (y # ys)"
    by (metis set_usort u)
  ultimately show ?thesis
    by (metis List.finite_set Min_eqI list.sel(1) list.set_intros(1) u)
qed

text \<open>\<open>sorted(xs, key=f)\<close> does not depend on the order of \<open>xs\<close> when keys are distinct.\<close>

lemma sort_key_perm:
  assumes "mset xs = mset ys" "distinct (map f xs)"
  shows "sort_key f xs = sort_key f ys"
proof (rule map_sorted_distinct_set_unique)
  have same: "set xs = set ys" using assms(1) by (rule mset_eq_setD)
  then show "inj_on f (set (sort_key f xs) \<union> set (sort_key f ys))"
    using assms(2) by (simp add: distinct_map)
  show "distinct (map f (sort_key f xs))" "distinct (map f (sort_key f ys))"
    using assms by (simp_all add: distinct_map) (metis mset_eq_imp_distinct_iff mset_eq_setD)+
  show "set (sort_key f xs) = set (sort_key f ys)" using same by simp
qed simp_all

end
