(* ===== verification/EntryCoverage.thy ===== *)
theory EntryCoverage
  imports PyString
begin

text \<open>
  \<open>dosweb/entries/coverage.py\<close>: the registration patterns the analyzer models, their exact
  coverage identities, and the test that an identity belongs to a framework.
\<close>

section \<open>The modelled patterns\<close>

definition pattern_bindings :: "((string \<times> string) \<times> string list) list" where
  "pattern_bindings =
     [((''spring_mvc'', ''annotation_mapping''),
         [''spring_annotation_mapping'', ''spring_spel_source_default_modeled_entry'']),
      ((''spring_mvc'', ''static_registration''), [''armeria_annotated_service_registration'']),
      ((''servlet'', ''annotation_mapping''),
         [''servlet_annotation_mapping'', ''spring_component_filter_default_registration'']),
      ((''servlet'', ''static_registration''),
         [''filter_registration_bean'', ''jetty_servlet_holder_registration'',
          ''web_xml_servlet_mapping'']),
      ((''netty'', ''pipeline_registration''),
         [''netty_pipeline_registration'', ''netty_source_switch_route_alias'']),
      ((''mqtt'', ''subscription_registration''), [''mqtt_subscription_registration'']),
      ((''mqtt'', ''broker_registration''),
         [''jmqtt_anonymous_channel_initializer'', ''jmqtt_object_callback_mqtt_conversion'',
          ''jmqtt_validate_message_process_protocol'']),
      ((''jax_rs'', ''static_registration''),
         [''airlift_jaxrs_source_registration'', ''dropwizard_guice_source_registration'',
          ''jax_rs_static_registration'', ''sisu_named_guice_source_registration'']),
      ((''grpc'', ''static_registration''),
         [''grpc_generated_client_or_bidi_streaming_registration'',
          ''grpc_generated_rpc_static_registration''])]"

text \<open>\<open>_PATTERN_BINDINGS.get((framework, kind), frozenset())\<close>\<close>

definition patterns_for :: "string \<Rightarrow> string \<Rightarrow> string list" where
  "patterns_for framework kind =
     (case map_of pattern_bindings (framework, kind) of None \<Rightarrow> [] | Some ps \<Rightarrow> ps)"

definition registration_coverage_pattern_id :: "string \<Rightarrow> string \<Rightarrow> string \<Rightarrow> string option" where
  "registration_coverage_pattern_id framework kind supported =
     (if supported \<notin> set (patterns_for framework kind) then None
      else Some (''entry-registration-coverage:'' @ framework @ '':'' @ kind @ '':'' @ supported))"

definition registration_coverage_pattern_ids :: "string \<Rightarrow> string \<Rightarrow> string list" where
  "registration_coverage_pattern_ids framework kind =
     sort (List.map_filter (registration_coverage_pattern_id framework kind) (patterns_for framework kind))"

definition registration_coverage_pattern_belongs_to_framework :: "string \<Rightarrow> string \<Rightarrow> bool" where
  "registration_coverage_pattern_belongs_to_framework framework pattern_id =
     list_ex (\<lambda>(modeled, kind). pattern_id \<in> set (registration_coverage_pattern_ids framework kind))
       (filter (\<lambda>(modeled, kind). modeled = framework) (map fst pattern_bindings))"

section \<open>Exactness\<close>

lemma pattern_ids_iff:
  "i \<in> set (registration_coverage_pattern_ids f k)
     \<longleftrightarrow> (\<exists>p \<in> set (patterns_for f k). registration_coverage_pattern_id f k p = Some i)"
  by (auto simp: registration_coverage_pattern_ids_def map_filter_def
      registration_coverage_pattern_id_def split: if_splits)

lemma patterns_for_binding:
  "p \<in> set (patterns_for f k) \<Longrightarrow> ((f, k), patterns_for f k) \<in> set pattern_bindings"
  by (auto simp: patterns_for_def split: option.splits dest: map_of_SomeD)

text \<open>Neither names nor patterns contain the separator, so an identity can be taken apart.\<close>

lemma bindings_colon_free:
  "list_all (\<lambda>((f, k), ps). CHR '':'' \<notin> set f \<and> CHR '':'' \<notin> set k \<and> list_all (\<lambda>p. CHR '':'' \<notin> set p) ps)
     pattern_bindings"
  by (simp add: pattern_bindings_def)

lemma patterns_colon_free:
  "p \<in> set (patterns_for f k) \<Longrightarrow> CHR '':'' \<notin> set f \<and> CHR '':'' \<notin> set k \<and> CHR '':'' \<notin> set p"
  using patterns_for_binding[of p f k] bindings_colon_free by (force simp: list_all_iff)

lemma pattern_id_split:
  assumes "registration_coverage_pattern_id f k p = Some i"
  shows "split_on CHR '':'' i = [''entry-registration-coverage'', f, k, p]"
proof -
  have p: "p \<in> set (patterns_for f k)"
    and i: "i = ''entry-registration-coverage'' @ CHR '':'' # (f @ CHR '':'' # (k @ CHR '':'' # p))"
    using assms by (auto simp: registration_coverage_pattern_id_def split: if_splits)
  show ?thesis
    using patterns_colon_free[OF p] unfolding i
    by (simp add: split_on_append split_on_no_occ del: append.simps)
qed

lemma pattern_id_in:
  "registration_coverage_pattern_id f k p = Some i \<Longrightarrow> p \<in> set (patterns_for f k)"
  by (simp add: registration_coverage_pattern_id_def split: if_splits)

lemma belongs_iff:
  "registration_coverage_pattern_belongs_to_framework f i
     \<longleftrightarrow> (\<exists>k p. registration_coverage_pattern_id f k p = Some i)" (is "?L \<longleftrightarrow> ?R")
proof
  assume ?L
  then show ?R
    by (auto simp: registration_coverage_pattern_belongs_to_framework_def list_ex_iff pattern_ids_iff)
next
  assume ?R
  then obtain k p where i: "registration_coverage_pattern_id f k p = Some i" by blast
  then have p: "p \<in> set (patterns_for f k)"
    by (auto simp: registration_coverage_pattern_id_def split: if_splits)
  then have "i \<in> set (registration_coverage_pattern_ids f k)"
    using i by (auto simp: pattern_ids_iff)
  moreover have "(f, k) \<in> set (map fst pattern_bindings)"
    using patterns_for_binding[OF p] by (metis fst_conv image_eqI set_map)
  ultimately show ?L
    unfolding registration_coverage_pattern_belongs_to_framework_def list_ex_iff
    by (intro bexI[of _ "(f, k)"]) simp_all
qed

text \<open>An exact coverage identity determines its framework, registration kind and pattern,
  so it belongs to exactly one framework: no identity can be inherited by another framework
  or another registration kind, however similar the names.\<close>

theorem pattern_identity_exact:
  assumes "registration_coverage_pattern_id f k p = Some i"
  shows "(registration_coverage_pattern_belongs_to_framework g i \<longleftrightarrow> g = f)
    \<and> (registration_coverage_pattern_id g k' p' = Some i \<longleftrightarrow> g = f \<and> k' = k \<and> p' = p)
    \<and> (i \<in> set (registration_coverage_pattern_ids g k') \<longleftrightarrow> g = f \<and> k' = k)"
proof -
  have *: "registration_coverage_pattern_id g k' p' = Some i \<longleftrightarrow> g = f \<and> k' = k \<and> p' = p" for g k' p'
    using pattern_id_split[OF assms] pattern_id_split[of g k' p' i] assms by auto
  moreover have "p \<in> set (patterns_for f k)"
    using assms by (rule pattern_id_in)
  ultimately have "i \<in> set (registration_coverage_pattern_ids g k') \<longleftrightarrow> g = f \<and> k' = k"
    unfolding pattern_ids_iff by blast
  with * show ?thesis by (auto simp: belongs_iff)
qed

theorem pattern_identity_exact_witness:
  "registration_coverage_pattern_belongs_to_framework ''netty''
     ''entry-registration-coverage:netty:pipeline_registration:netty_pipeline_registration''
   \<and> \<not> registration_coverage_pattern_belongs_to_framework ''servlet''
     ''entry-registration-coverage:netty:pipeline_registration:netty_pipeline_registration''"
proof -
  have "registration_coverage_pattern_id ''netty'' ''pipeline_registration'' ''netty_pipeline_registration''
      = Some ''entry-registration-coverage:netty:pipeline_registration:netty_pipeline_registration''"
    by (simp add: registration_coverage_pattern_id_def patterns_for_def pattern_bindings_def)
  from pattern_identity_exact[OF this, of "''netty''"] pattern_identity_exact[OF this, of "''servlet''"]
  show ?thesis by simp
qed

end
