(* ===== verification/Identifiers.thy ===== *)
theory Identifiers
  imports PyString "HOL-Library.Word"
begin

text \<open>
  \<open>dosweb/errors.py\<close> (exit statuses) and \<open>dosweb/artifacts/identifiers.py\<close> (canonical JSON and
  the stable identifiers derived from it). SHA-256, which the code takes from \<open>hashlib\<close>, is
  written out, so identifiers are closed terms; no proof depends on the digest being free of
  collisions.
\<close>

unbundle bit_operations_syntax

section \<open>Error codes and exit statuses\<close>

definition exit_status_by_prefix :: "(string \<times> int) list" where
  "exit_status_by_prefix =
     [(''CONFIG_'', 2), (''CODEQL_'', 3), (''LLM_'', 4), (''ARTIFACT_'', 5), (''TOP50_'', 5),
      (''BATCH_'', 5), (''ANALYSIS_'', 6), (''COVERAGE_'', 6), (''INTERNAL_'', 6)]"

definition exit_status :: "string \<Rightarrow> int" where
  "exit_status code =
     (case find (\<lambda>(p, _). startswith code p) exit_status_by_prefix of
        Some (_, status) \<Rightarrow> status | None \<Rightarrow> 6)"

section \<open>SHA-256\<close>

type_synonym w32 = "32 word"

definition sha_rotr :: "nat \<Rightarrow> w32 \<Rightarrow> w32" where
  "sha_rotr n x = drop_bit n x OR push_bit (32 - n) x"

definition sha_ch :: "w32 \<Rightarrow> w32 \<Rightarrow> w32 \<Rightarrow> w32" where
  "sha_ch x y z = (x AND y) XOR (NOT x AND z)"

definition sha_maj :: "w32 \<Rightarrow> w32 \<Rightarrow> w32 \<Rightarrow> w32" where
  "sha_maj x y z = (x AND y) XOR (x AND z) XOR (y AND z)"

definition sha_big0 :: "w32 \<Rightarrow> w32" where
  "sha_big0 x = sha_rotr 2 x XOR sha_rotr 13 x XOR sha_rotr 22 x"

definition sha_big1 :: "w32 \<Rightarrow> w32" where
  "sha_big1 x = sha_rotr 6 x XOR sha_rotr 11 x XOR sha_rotr 25 x"

definition sha_small0 :: "w32 \<Rightarrow> w32" where
  "sha_small0 x = sha_rotr 7 x XOR sha_rotr 18 x XOR drop_bit 3 x"

definition sha_small1 :: "w32 \<Rightarrow> w32" where
  "sha_small1 x = sha_rotr 17 x XOR sha_rotr 19 x XOR drop_bit 10 x"

text \<open>The constants of the standard are the first 32 fractional bits of the cube roots of the first 64
  primes and of the square roots of the first 8; the roots are found bit by bit.\<close>

definition sha_primes :: "int list" where
  "sha_primes =
    [2, 3, 5, 7, 11, 13, 17, 19, 23, 29, 31, 37, 41, 43, 47, 53, 59, 61, 67, 71, 73, 79,
     83, 89, 97, 101, 103, 107, 109, 113, 127, 131, 137, 139, 149, 151, 157, 163, 167,
     173, 179, 181, 191, 193, 197, 199, 211, 223, 227, 229, 233, 239, 241, 251, 257, 263,
     269, 271, 277, 281, 283, 293, 307, 311]"

fun root_bits :: "nat \<Rightarrow> int \<Rightarrow> nat \<Rightarrow> int \<Rightarrow> int" where
  "root_bits k n 0 r = r"
| "root_bits k n (Suc i) r = root_bits k n i (if (r + 2 ^ i) ^ k \<le> n then r + 2 ^ i else r)"

definition root_fraction :: "nat \<Rightarrow> int \<Rightarrow> w32" where
  "root_fraction k p = of_int (root_bits k (p * 2 ^ (32 * k)) 35 0)"

definition sha_k :: "w32 list" where
  "sha_k = map (root_fraction 3) sha_primes"

definition sha_h0 :: "w32 list" where
  "sha_h0 = map (root_fraction 2) (take 8 sha_primes)"

definition sha_schedule :: "w32 list \<Rightarrow> w32 list" where
  "sha_schedule block =
     fold (\<lambda>t ws. ws @ [sha_small1 (ws ! (t - 2)) + ws ! (t - 7) + sha_small0 (ws ! (t - 15)) + ws ! (t - 16)])
       [16..<64] block"

fun sha_round :: "w32 \<times> w32 \<Rightarrow> w32 list \<Rightarrow> w32 list" where
  "sha_round (k, w) [a, b, c, d, e, f, g, h] =
     (let t1 = h + sha_big1 e + sha_ch e f g + k + w;
          t2 = sha_big0 a + sha_maj a b c
      in [t1 + t2, a, b, c, d + t1, e, f, g])"
| "sha_round _ s = s"

definition sha_compress :: "w32 list \<Rightarrow> w32 list \<Rightarrow> w32 list" where
  "sha_compress hs block =
     map2 (+) hs (fold sha_round (zip sha_k (sha_schedule block)) hs)"

fun be_bytes :: "nat \<Rightarrow> int \<Rightarrow> int list" where
  "be_bytes 0 n = []"
| "be_bytes (Suc k) n = be_bytes k (n div 256) @ [n mod 256]"

definition sha_pad :: "int list \<Rightarrow> int list" where
  "sha_pad m = m @ [128] @ replicate ((119 - length m mod 64) mod 64) 0 @ be_bytes 8 (8 * int (length m))"

fun sha_words :: "int list \<Rightarrow> w32 list" where
  "sha_words (a # b # c # d # bs) = of_int (((a * 256 + b) * 256 + c) * 256 + d) # sha_words bs"
| "sha_words _ = []"

fun sha_blocks :: "w32 list \<Rightarrow> w32 list list" where
  "sha_blocks ws = (if length ws < 16 then [] else take 16 ws # sha_blocks (drop 16 ws))"

declare sha_blocks.simps [simp del]

definition hex_char :: "nat \<Rightarrow> char" where
  "hex_char n = ''0123456789abcdef'' ! n"

definition hex_word :: "w32 \<Rightarrow> string" where
  "hex_word w = map (\<lambda>i. hex_char (nat (uint (drop_bit (4 * (7 - i)) w) mod 16))) [0..<8]"

definition sha256_hex :: "string \<Rightarrow> string" where
  "sha256_hex s =
     concat (map hex_word (fold (\<lambda>b hs. sha_compress hs b)
       (sha_blocks (sha_words (sha_pad (map of_char s)))) sha_h0))"

section \<open>Canonical JSON\<close>

text \<open>\<open>json.dumps(..., sort_keys=True, separators=(",", ":"), ensure_ascii=False)\<close>.\<close>

definition json_escape :: "char \<Rightarrow> string" where
  "json_escape c =
     (let n = of_char c :: nat in
      if n = 34 then [char_of (92::nat), char_of (34::nat)]
      else if n = 92 then [char_of (92::nat), char_of (92::nat)]
      else if n = 10 then [char_of (92::nat), CHR ''n'']
      else if n = 13 then [char_of (92::nat), CHR ''r'']
      else if n = 9 then [char_of (92::nat), CHR ''t'']
      else if n = 12 then [char_of (92::nat), CHR ''f'']
      else if n = 8 then [char_of (92::nat), CHR ''b'']
      else if n < 32 then [char_of (92::nat), CHR ''u'', CHR ''0'', CHR ''0'', hex_char (n div 16), hex_char (n mod 16)]
      else [c])"

definition json_string :: "string \<Rightarrow> string" where
  "json_string s = char_of (34::nat) # concat (map json_escape s) @ [char_of (34::nat)]"

fun canonical_json :: "json \<Rightarrow> string" where
  "canonical_json JNull = ''null''"
| "canonical_json (JBool b) = (if b then ''true'' else ''false'')"
| "canonical_json (JInt i) = int_str i"
| "canonical_json (JStr s) = json_string s"
| "canonical_json (JArr vs) = ''['' @ join '','' (map canonical_json vs) @ '']''"
| "canonical_json (JObj kvs) =
     ''{'' @ join '','' (map (\<lambda>(k, t). json_string k @ '':'' @ t)
        (sort_key fst (map (\<lambda>(k, v). (k, canonical_json v)) kvs))) @ ''}''"

definition sha256_canonical_json :: "json \<Rightarrow> string" where
  "sha256_canonical_json v = sha256_hex (canonical_json v)"

definition stable_identifier :: "string \<Rightarrow> json \<Rightarrow> string" where
  "stable_identifier p identity = p @ '':'' @ take 24 (sha256_canonical_json identity)"

section \<open>Lemmas\<close>

lemma length_hex_word [simp]: "length (hex_word w) = 8"
  by (simp add: hex_word_def)

lemma length_sha_round: "length hs = 8 \<Longrightarrow> length (sha_round x hs) = 8"
  by (induction x hs rule: sha_round.induct) (simp_all only: sha_round.simps Let_def list.size)

lemma length_sha_rounds: "length hs = 8 \<Longrightarrow> length (fold sha_round xs hs) = 8"
  by (induction xs arbitrary: hs) (simp_all add: length_sha_round)

lemma length_sha_compress: "length hs = 8 \<Longrightarrow> length (sha_compress hs b) = 8"
  by (simp add: sha_compress_def length_sha_rounds)

lemma length_sha_fold: "length hs = 8 \<Longrightarrow> length (fold (\<lambda>b hs. sha_compress hs b) bs hs) = 8"
  by (induction bs arbitrary: hs) (simp_all add: length_sha_compress)

lemma length_sha_primes: "length sha_primes = 64" by (simp add: sha_primes_def)

lemma length_sha256_hex [simp]: "length (sha256_hex s) = 64"
proof -
  have "length (concat (map hex_word ws)) = 8 * length ws" for ws
    by (induction ws) simp_all
  then show ?thesis
    by (simp add: sha256_hex_def length_sha_fold sha_h0_def length_sha_primes)
qed

definition is_hex :: "char \<Rightarrow> bool" where
  "is_hex c = (c \<in> set ''0123456789abcdef'')"

lemma hex_char_is_hex: "n < 16 \<Longrightarrow> is_hex (hex_char n)"
  by (simp only: is_hex_def hex_char_def) (rule nth_mem, simp)

lemma sha256_hex_is_hex: "list_all is_hex (sha256_hex s)"
proof -
  have "list_all is_hex (hex_word w)" for w
    by (simp add: hex_word_def list_all_iff hex_char_is_hex)
  then show ?thesis
    by (auto simp: sha256_hex_def list_all_iff)
qed

text \<open>Every identifier is its kind, a colon and 24 hexadecimal digits.\<close>

lemma stable_identifier_shape:
  "\<exists>d. stable_identifier p v = p @ '':'' @ d \<and> length d = 24 \<and> list_all is_hex d"
proof (intro exI conjI)
  show "stable_identifier p v = p @ '':'' @ take 24 (sha256_canonical_json v)"
    by (simp add: stable_identifier_def)
  show "length (take 24 (sha256_canonical_json v)) = 24"
    by (simp add: sha256_canonical_json_def)
  show "list_all is_hex (take 24 (sha256_canonical_json v))"
    using sha256_hex_is_hex[of "canonical_json v"]
    by (auto simp: sha256_canonical_json_def list_all_iff dest: in_set_takeD)
qed

lemma stable_identifier_prefix [simp]: "startswith (stable_identifier p v) (p @ '':'')"
  by (simp add: stable_identifier_def startswith_def)

lemma stable_identifier_nonempty [simp]: "stable_identifier p v \<noteq> []"
  by (simp add: stable_identifier_def)

text \<open>Identifiers of different kinds are different.\<close>

lemma stable_identifier_kind:
  assumes "CHR '':'' \<notin> set p" "CHR '':'' \<notin> set q" "stable_identifier p v = stable_identifier q w"
  shows "p = q"
proof -
  have "split_once CHR '':'' (p @ CHR '':'' # a) = Some (p, a)"
    "split_once CHR '':'' (q @ CHR '':'' # b) = Some (q, b)" for a b
    using assms(1,2) by (simp_all add: split_once_Some)
  then show ?thesis
    using assms(3) by (metis append_Cons append_Nil fst_conv option.inject stable_identifier_def)
qed

text \<open>The order in which a dictionary was filled does not matter.\<close>

lemma canonical_json_perm:
  assumes "mset kvs = mset kvs'" "distinct (map fst kvs)"
  shows "canonical_json (JObj kvs) = canonical_json (JObj kvs')"
proof -
  have "sort_key fst (map (\<lambda>(k, v). (k, canonical_json v)) kvs)
      = sort_key fst (map (\<lambda>(k, v). (k, canonical_json v)) kvs')"
    using assms by (intro sort_key_perm) (simp_all add: case_prod_beta comp_def)
  then show ?thesis by simp
qed

end
