(* ===== verification/EntryModel.thy ===== *)
theory EntryModel
  imports EntryCoverage Identifiers "HOL-Library.Product_Lexorder"
begin

text \<open>
  \<open>dosweb/entries/models.py\<close>: the registered-entry facts. A fact is a record; the function
  that stands for its class's construction (\<open>__post_init__\<close>) checks and normalizes its
  arguments and returns the record or the error. Values that come from outside (query rows,
  JSON records) are \<open>json\<close>, so every type test of the code is a branch.
\<close>

section \<open>Vocabulary\<close>

definition entry_frameworks :: "string list" where
  "entry_frameworks = [''spring_mvc'', ''servlet'', ''netty'', ''mqtt'', ''jax_rs'', ''grpc'']"

definition entry_protocols :: "string list" where
  "entry_protocols = [''http'', ''tcp'', ''mqtt'', ''grpc'']"

definition auth_contexts :: "string list" where
  "auth_contexts = [''unauthenticated'', ''low_privilege'', ''privileged'', ''unknown'']"

definition materialization_phases :: "string list" where
  "materialization_phases = [''before_handler'', ''in_handler'', ''streaming'', ''unknown'']"

definition input_kinds :: "string list" where
  "input_kinds = [''request_body'', ''request_parameter'', ''model_attribute'', ''path_parameter'',
     ''header'', ''message_payload'', ''stream'', ''unknown'']"

definition registration_kinds :: "string list" where
  "registration_kinds = [''annotation_mapping'', ''static_registration'', ''pipeline_registration'',
     ''subscription_registration'', ''broker_registration'']"

definition framework_protocols :: "string \<rightharpoonup> string" where
  "framework_protocols = map_of [(''spring_mvc'', ''http''), (''servlet'', ''http''), (''netty'', ''tcp''),
     (''mqtt'', ''mqtt''), (''jax_rs'', ''http''), (''grpc'', ''grpc'')]"

definition framework_registrations :: "string \<Rightarrow> string list" where
  "framework_registrations f =
     (if f \<in> {''spring_mvc'', ''servlet'', ''jax_rs''} then [''annotation_mapping'', ''static_registration'']
      else if f = ''netty'' then [''pipeline_registration'']
      else if f = ''mqtt'' then [''subscription_registration'', ''broker_registration'']
      else if f = ''grpc'' then [''static_registration''] else [])"

definition http_methods :: "string list" where
  "http_methods = [''GET'', ''POST'', ''PUT'', ''DELETE'', ''PATCH'', ''HEAD'', ''OPTIONS'', ''TRACE'', ''CONNECT'']"

definition max_string_bytes :: nat where
  "max_string_bytes = 65536"

section \<open>Checked values\<close>

definition reason_details :: "string \<Rightarrow> string option \<Rightarrow> (string \<times> json) list" where
  "reason_details reason field =
     (''reason'', JStr (take 128 reason))
       # (case field of None \<Rightarrow> [] | Some f \<Rightarrow> [(''field'', JStr (take 128 f))])"

definition entry_invalid :: "string \<Rightarrow> string option \<Rightarrow> py_exc" where
  "entry_invalid reason field = AnalyzerError ''ANALYSIS_ENTRY_INVALID''
     ''Entry fact violates the registered-entry contract.'' (reason_details reason field)"

definition coverage_invalid :: "string \<Rightarrow> string option \<Rightarrow> py_exc" where
  "coverage_invalid reason field = AnalyzerError ''COVERAGE_ENTRY_INVALID''
     ''Framework entry coverage is inconsistent.'' (reason_details reason field)"

definition good_string :: "string \<Rightarrow> bool" where
  "good_string s = (s \<noteq> [] \<and> CHR 0x00 \<notin> set s)"

definition nonempty_string :: "json \<Rightarrow> string \<Rightarrow> string res" where
  "nonempty_string value field = (case value of
       JStr s \<Rightarrow> (if \<not> good_string s then Inl (entry_invalid ''STRING_REQUIRED'' (Some field))
         else if length s > max_string_bytes then Inl (entry_invalid ''STRING_LIMIT'' (Some field))
         else Inr s)
     | _ \<Rightarrow> Inl (entry_invalid ''STRING_REQUIRED'' (Some field)))"

definition positive_line :: "json \<Rightarrow> string \<Rightarrow> int res" where
  "positive_line value field = (case value of
       JInt n \<Rightarrow> (if n \<le> 0 then Inl (entry_invalid ''POSITIVE_LINE_REQUIRED'' (Some field)) else Inr n)
     | _ \<Rightarrow> Inl (entry_invalid ''POSITIVE_LINE_REQUIRED'' (Some field)))"

definition enum_value :: "json \<Rightarrow> string list \<Rightarrow> string \<Rightarrow> string res" where
  "enum_value value allowed field = res_bind (nonempty_string value field) (\<lambda>s.
     if s \<notin> set allowed then Inl (entry_invalid ''ENUM_INVALID'' (Some field)) else Inr s)"

text \<open>\<open>s.replace("\\", "/")\<close>, and the parts and the canonical spelling of a
  \<open>PurePosixPath\<close>: empty parts and single dots disappear.\<close>

definition slashes :: "string \<Rightarrow> string" where
  "slashes s = map (\<lambda>c. if c = CHR 0x5C then CHR ''/'' else c) s"

definition path_parts :: "string \<Rightarrow> string list" where
  "path_parts s = filter (\<lambda>p. p \<notin> {'''', ''.''}) (split_on CHR ''/'' s)"

definition source_path :: "json \<Rightarrow> string \<Rightarrow> string res" where
  "source_path value field = res_bind (nonempty_string value field) (\<lambda>s.
     let normalized = slashes s; parts = path_parts normalized in
     if startswith normalized ''/'' \<or> parts = [] \<or> list_ex (\<lambda>p. p \<in> {'''', ''.'', ''..''}) parts
     then Inl (entry_invalid ''PATH_INVALID'' (Some field))
     else Inr (join ''/'' parts))"

definition route_parts :: "string \<Rightarrow> string list" where
  "route_parts s = filter (\<lambda>p. p \<noteq> []) (split_on CHR ''/'' (slashes s))"

definition canonical_route :: "json \<Rightarrow> string \<Rightarrow> string res" where
  "canonical_route value framework = res_bind (nonempty_string value ''route_or_event'') (\<lambda>route.
     let (head, separator, path) = partition_on CHR '' '' route in
     if framework \<in> {''spring_mvc'', ''servlet'', ''jax_rs''} then
       (let method = (if separator \<and> upper head \<in> set http_methods then upper head else []);
            raw_path = (if method \<noteq> [] then path else route);
            normalized = ''/'' @ join ''/'' (route_parts raw_path)
        in Inr (if method \<noteq> [] then method @ '' '' @ normalized else normalized))
     else if framework = ''netty'' \<and> separator \<and> upper head \<in> set http_methods \<and> startswith path ''/'' then
       Inr (upper head @ '' /'' @ join ''/'' (route_parts path))
     else Inr route)"

section \<open>The facts\<close>

record handler_fact =
  h_callable :: string
  h_file :: string
  h_start_line :: int

definition HandlerFact :: "json \<Rightarrow> json \<Rightarrow> json \<Rightarrow> handler_fact res" where
  "HandlerFact callable file start_line =
     res_bind (nonempty_string callable ''handler.callable'') (\<lambda>c.
     res_bind (source_path file ''handler.file'') (\<lambda>f.
     res_bind (positive_line start_line ''handler.start_line'') (\<lambda>l.
     Inr \<lparr>h_callable = c, h_file = f, h_start_line = l\<rparr>)))"

definition handler_to_dict :: "handler_fact \<Rightarrow> json" where
  "handler_to_dict h = JObj [(''callable'', JStr (h_callable h)), (''file'', JStr (h_file h)),
     (''start_line'', JInt (h_start_line h))]"

record registration_fact =
  r_kind :: string
  r_callable :: string
  r_file :: string
  r_start_line :: int

definition RegistrationFact :: "json \<Rightarrow> json \<Rightarrow> json \<Rightarrow> json \<Rightarrow> registration_fact res" where
  "RegistrationFact kind callable file start_line =
     res_bind (enum_value kind registration_kinds ''registration.kind'') (\<lambda>k.
     res_bind (nonempty_string callable ''registration.callable'') (\<lambda>c.
     res_bind (source_path file ''registration.file'') (\<lambda>f.
     res_bind (positive_line start_line ''registration.start_line'') (\<lambda>l.
     Inr \<lparr>r_kind = k, r_callable = c, r_file = f, r_start_line = l\<rparr>))))"

definition registration_to_dict :: "registration_fact \<Rightarrow> json" where
  "registration_to_dict r = JObj [(''kind'', JStr (r_kind r)), (''callable'', JStr (r_callable r)),
     (''file'', JStr (r_file r)), (''start_line'', JInt (r_start_line r))]"

text \<open>Attacker inputs are sorted, so they carry the field order of their dataclass.\<close>

datatype attacker_input = AttackerInput (ai_name: string) (ai_type: string) (ai_kind: string)

definition ai_key :: "attacker_input \<Rightarrow> string \<times> string \<times> string" where
  "ai_key a = (ai_name a, ai_type a, ai_kind a)"

lemma ai_key_inj: "ai_key a = ai_key b \<longleftrightarrow> a = b"
  by (cases a; cases b) (auto simp: ai_key_def)

instantiation attacker_input :: linorder
begin

definition less_eq_attacker_input :: "attacker_input \<Rightarrow> attacker_input \<Rightarrow> bool" where
  "less_eq_attacker_input a b = (ai_key a \<le> ai_key b)"

definition less_attacker_input :: "attacker_input \<Rightarrow> attacker_input \<Rightarrow> bool" where
  "less_attacker_input a b = (ai_key a < ai_key b)"

instance
  by standard (auto simp: less_eq_attacker_input_def less_attacker_input_def ai_key_inj less_le_not_le)

end

definition AttackerInputFact :: "json \<Rightarrow> json \<Rightarrow> json \<Rightarrow> attacker_input res" where
  "AttackerInputFact name type kind =
     res_bind (nonempty_string name ''attacker_input.name'') (\<lambda>n.
     res_bind (nonempty_string type ''attacker_input.type'') (\<lambda>t.
     res_bind (enum_value kind input_kinds ''attacker_input.kind'') (\<lambda>k.
     Inr (AttackerInput n t k))))"

definition attacker_input_to_dict :: "attacker_input \<Rightarrow> json" where
  "attacker_input_to_dict a =
     JObj [(''name'', JStr (ai_name a)), (''type'', JStr (ai_type a)), (''kind'', JStr (ai_kind a))]"

record entry_fact =
  entry_id :: string
  e_framework :: string
  e_protocol :: string
  e_handler :: handler_fact
  e_registration :: registration_fact
  registration_pattern_id :: string
  route_or_event :: string
  auth_context :: string
  attacker_inputs :: "attacker_input list"
  materialization_phase :: string

definition entry_semantic_identity :: "entry_fact \<Rightarrow> (string \<times> json) list" where
  "entry_semantic_identity e =
     [(''framework'', JStr (e_framework e)), (''protocol'', JStr (e_protocol e)),
      (''handler'', handler_to_dict (e_handler e)),
      (''registration'', registration_to_dict (e_registration e)),
      (''registration_pattern_id'', JStr (registration_pattern_id e)),
      (''route_or_event'', JStr (route_or_event e)), (''auth_context'', JStr (auth_context e)),
      (''attacker_inputs'', JArr (map attacker_input_to_dict (attacker_inputs e))),
      (''materialization_phase'', JStr (materialization_phase e))]"

definition entry_to_dict :: "entry_fact \<Rightarrow> (string \<times> json) list" where
  "entry_to_dict e = (''entry_id'', JStr (entry_id e)) # entry_semantic_identity e"

text \<open>\<open>EntryFact(...)\<close>: the construction of an entry.\<close>

definition EntryFact :: "string \<Rightarrow> json \<Rightarrow> json \<Rightarrow> handler_fact \<Rightarrow> registration_fact \<Rightarrow> json \<Rightarrow> json \<Rightarrow> json
    \<Rightarrow> attacker_input list \<Rightarrow> json \<Rightarrow> entry_fact res" where
  "EntryFact eid framework protocol handler registration pattern_id route auth inputs phase =
     res_bind (enum_value framework entry_frameworks ''framework'') (\<lambda>f.
     res_bind (enum_value protocol entry_protocols ''protocol'') (\<lambda>p.
     res_bind (enum_value auth auth_contexts ''auth_context'') (\<lambda>a.
     if Some p \<noteq> framework_protocols f
     then Inl (entry_invalid ''PROTOCOL_NOT_MODELED_FOR_FRAMEWORK'' (Some ''protocol'')) else
     res_bind (enum_value phase materialization_phases ''materialization_phase'') (\<lambda>m.
     if r_kind registration \<notin> set (framework_registrations f)
     then Inl (entry_invalid ''REGISTRATION_NOT_MODELED_FOR_FRAMEWORK'' (Some ''registration_kind'')) else
     res_bind (nonempty_string pattern_id ''registration_pattern_id'') (\<lambda>pid.
     if pid \<notin> set (registration_coverage_pattern_ids f (r_kind registration))
     then Inl (coverage_invalid ''REGISTRATION_PATTERN_UNMODELED'' (Some ''registration_pattern_id'')) else
     if inputs = [] then Inl (entry_invalid ''ATTACKER_INPUT_REQUIRED'' (Some ''attacker_inputs'')) else
     res_bind (canonical_route route f) (\<lambda>rt.
     let e = \<lparr>entry_id = eid, e_framework = f, e_protocol = p, e_handler = handler,
              e_registration = registration, registration_pattern_id = pid, route_or_event = rt,
              auth_context = a, attacker_inputs = usort inputs, materialization_phase = m\<rparr>
     in if eid \<noteq> stable_identifier ''entry'' (JObj (entry_semantic_identity e))
        then Inl (entry_invalid ''ENTRY_ID_MISMATCH'' (Some ''entry_id'')) else Inr e))))))"

section \<open>Reading entries\<close>

text \<open>\<open>raw[key]\<close> on a mapping whose keys have been checked.\<close>

definition field_of :: "(string \<times> json) list \<Rightarrow> string \<Rightarrow> json" where
  "field_of kvs k = (case map_of kvs k of None \<Rightarrow> JNull | Some v \<Rightarrow> v)"

text \<open>\<open>isinstance(value, Mapping) and set(value) == fields\<close>\<close>

definition has_fields :: "json \<Rightarrow> string list \<Rightarrow> bool" where
  "has_fields v keys = (case v of JObj kvs \<Rightarrow> set (map fst kvs) = set keys | _ \<Rightarrow> False)"

definition members :: "json \<Rightarrow> (string \<times> json) list" where
  "members v = (case v of JObj kvs \<Rightarrow> kvs | _ \<Rightarrow> [])"

definition entry_raw_fields :: "string list" where
  "entry_raw_fields = [''framework'', ''protocol'', ''handler_fqn'', ''handler_file'', ''handler_start_line'',
     ''registration_kind'', ''registration_fqn'', ''registration_file'', ''registration_start_line'',
     ''route_or_event'', ''auth_context'', ''attacker_input_name'', ''attacker_input_type'',
     ''attacker_input_kind'', ''materialization_phase'', ''coverage_status'', ''coverage_note'']"

definition provenance_fields :: "string list" where
  "provenance_fields = [''query_name'', ''query_sha256'', ''handler_location'', ''registration_location'']"

text \<open>\<open>missing or extra\<close>: the offending keys of a row, none for a well-formed one.\<close>

definition bad_fields :: "string list \<Rightarrow> string list" where
  "bad_fields ks =
     (let missing = filter (\<lambda>k. k \<notin> set ks) entry_raw_fields;
          extra = filter (\<lambda>k. k \<notin> set entry_raw_fields \<and> k \<notin> set provenance_fields) ks
      in if missing \<noteq> [] then missing else extra)"

definition entry_from_raw :: "json \<Rightarrow> entry_fact res" where
  "entry_from_raw raw = (case raw of JObj kvs \<Rightarrow>
     (let bad = bad_fields (map fst kvs); r = field_of kvs in
      if bad \<noteq> [] then Inl (entry_invalid ''ROW_FIELDS_INVALID'' (Some (hd (sort bad)))) else
      if r ''registration_kind'' = JStr ''dynamic_unresolved''
      then Inl (entry_invalid ''UNRESOLVED_REGISTRATION'' (Some ''registration_kind'')) else
      if r ''coverage_status'' \<noteq> JStr ''complete''
      then Inl (entry_invalid ''ENTRY_COVERAGE_INCOMPLETE'' (Some ''coverage_status'')) else
      res_bind (enum_value (r ''framework'') entry_frameworks ''framework'') (\<lambda>framework.
      res_bind (enum_value (r ''protocol'') entry_protocols ''protocol'') (\<lambda>protocol.
      if Some protocol \<noteq> framework_protocols framework
      then Inl (entry_invalid ''PROTOCOL_NOT_MODELED_FOR_FRAMEWORK'' (Some ''protocol'')) else
      res_bind (nonempty_string (r ''handler_fqn'') ''handler_fqn'') (\<lambda>hc.
      res_bind (source_path (r ''handler_file'') ''handler_file'') (\<lambda>hf.
      res_bind (positive_line (r ''handler_start_line'') ''handler_start_line'') (\<lambda>hl.
      res_bind (HandlerFact (JStr hc) (JStr hf) (JInt hl)) (\<lambda>handler.
      res_bind (nonempty_string (r ''registration_kind'') ''registration_kind'') (\<lambda>rk.
      res_bind (nonempty_string (r ''registration_fqn'') ''registration_fqn'') (\<lambda>rc.
      res_bind (source_path (r ''registration_file'') ''registration_file'') (\<lambda>rf.
      res_bind (positive_line (r ''registration_start_line'') ''registration_start_line'') (\<lambda>rl.
      res_bind (RegistrationFact (JStr rk) (JStr rc) (JStr rf) (JInt rl)) (\<lambda>registration.
      if r_kind registration \<notin> set (framework_registrations framework)
      then Inl (entry_invalid ''REGISTRATION_NOT_MODELED_FOR_FRAMEWORK'' (Some ''registration_kind'')) else
      res_bind (nonempty_string (r ''coverage_note'') ''coverage_note'') (\<lambda>note.
      case registration_coverage_pattern_id framework (r_kind registration) note of
        None \<Rightarrow> Inl (coverage_invalid ''REGISTRATION_PATTERN_UNMODELED'' (Some ''coverage_note''))
      | Some pid \<Rightarrow>
      res_bind (nonempty_string (r ''attacker_input_name'') ''attacker_input_name'') (\<lambda>an.
      res_bind (nonempty_string (r ''attacker_input_type'') ''attacker_input_type'') (\<lambda>at.
      res_bind (nonempty_string (r ''attacker_input_kind'') ''attacker_input_kind'') (\<lambda>ak.
      res_bind (AttackerInputFact (JStr an) (JStr at) (JStr ak)) (\<lambda>input.
      res_bind (canonical_route (r ''route_or_event'') framework) (\<lambda>route.
      res_bind (enum_value (r ''auth_context'') auth_contexts ''auth_context'') (\<lambda>auth.
      res_bind (enum_value (r ''materialization_phase'') materialization_phases ''materialization_phase'') (\<lambda>phase.
      let provisional = \<lparr>entry_id = [], e_framework = framework, e_protocol = protocol,
            e_handler = handler, e_registration = registration, registration_pattern_id = pid,
            route_or_event = route, auth_context = auth, attacker_inputs = [input],
            materialization_phase = phase\<rparr>
      in EntryFact (stable_identifier ''entry'' (JObj (entry_semantic_identity provisional)))
           (JStr framework) (JStr protocol) handler registration (JStr pid) (JStr route) (JStr auth)
           [input] (JStr phase)))))))))))))))))))))
     | _ \<Rightarrow> Inl (entry_invalid ''ROW_NOT_MAPPING'' None))"

definition entry_record_fields :: "string list" where
  "entry_record_fields = [''entry_id'', ''framework'', ''protocol'', ''handler'', ''registration'',
     ''registration_pattern_id'', ''route_or_event'', ''auth_context'', ''attacker_inputs'',
     ''materialization_phase'']"

definition read_attacker_input :: "json \<Rightarrow> attacker_input res" where
  "read_attacker_input v =
     (if \<not> has_fields v [''name'', ''type'', ''kind'']
      then Inl (entry_invalid ''NESTED_FACT_INVALID'' (Some ''attacker_inputs''))
      else AttackerInputFact (field_of (members v) ''name'') (field_of (members v) ''type'')
        (field_of (members v) ''kind''))"

definition entry_from_dict :: "json \<Rightarrow> entry_fact res" where
  "entry_from_dict raw =
     (if \<not> has_fields raw entry_record_fields then Inl (entry_invalid ''RECORD_FIELDS_INVALID'' None) else
      let r = field_of (members raw); h = r ''handler''; g = r ''registration'' in
      if \<not> has_fields h [''callable'', ''file'', ''start_line'']
      then Inl (entry_invalid ''NESTED_FACT_INVALID'' (Some ''handler'')) else
      if \<not> has_fields g [''kind'', ''callable'', ''file'', ''start_line'']
      then Inl (entry_invalid ''NESTED_FACT_INVALID'' (Some ''registration'')) else
      case r ''attacker_inputs'' of JArr inputs \<Rightarrow>
        (if inputs = [] \<or> length inputs > 64
         then Inl (entry_invalid ''ATTACKER_INPUT_REQUIRED'' (Some ''attacker_inputs'')) else
         res_bind (map_res read_attacker_input inputs) (\<lambda>attacker_inputs.
         res_bind (nonempty_string (r ''entry_id'') ''entry_id'') (\<lambda>eid.
         res_bind (HandlerFact (field_of (members h) ''callable'') (field_of (members h) ''file'')
             (field_of (members h) ''start_line'')) (\<lambda>handler.
         res_bind (RegistrationFact (field_of (members g) ''kind'') (field_of (members g) ''callable'')
             (field_of (members g) ''file'') (field_of (members g) ''start_line'')) (\<lambda>registration.
         EntryFact eid (r ''framework'') (r ''protocol'') handler registration
           (r ''registration_pattern_id'') (r ''route_or_event'') (r ''auth_context'') attacker_inputs
           (r ''materialization_phase''))))))
      | _ \<Rightarrow> Inl (entry_invalid ''ATTACKER_INPUT_REQUIRED'' (Some ''attacker_inputs'')))"

definition entry_create :: "string \<Rightarrow> string \<Rightarrow> handler_fact \<Rightarrow> registration_fact \<Rightarrow> string \<Rightarrow> string
    \<Rightarrow> string \<Rightarrow> attacker_input list \<Rightarrow> string \<Rightarrow> entry_fact res" where
  "entry_create framework protocol handler registration pid route auth inputs phase =
     (if inputs = [] then Inl (entry_invalid ''ATTACKER_INPUT_REQUIRED'' (Some ''attacker_inputs'')) else
      res_bind (canonical_route (JStr route) framework) (\<lambda>rt.
      let identity =
        [(''framework'', JStr framework), (''protocol'', JStr protocol),
         (''handler'', handler_to_dict handler), (''registration'', registration_to_dict registration),
         (''registration_pattern_id'', JStr pid), (''route_or_event'', JStr rt),
         (''auth_context'', JStr auth),
         (''attacker_inputs'', JArr (map attacker_input_to_dict (usort inputs))),
         (''materialization_phase'', JStr phase)]
      in EntryFact (stable_identifier ''entry'' (JObj identity)) (JStr framework) (JStr protocol) handler
           registration (JStr pid) (JStr route) (JStr auth) inputs (JStr phase)))"

text \<open>\<open>load_entry_facts\<close> after the records have been read and validated.\<close>

definition load_entry_facts :: "json list \<Rightarrow> entry_fact list res" where
  "load_entry_facts records = res_bind (map_res entry_from_dict records) (\<lambda>facts.
     if \<not> distinct (map entry_id facts)
     then Inl (entry_invalid ''DUPLICATE_ENTRY_ID'' (Some ''entry_id'')) else Inr facts)"

section \<open>Framework coverage\<close>

record framework_coverage =
  fc_framework :: string
  fc_status :: string
  fc_supported :: "string list"
  fc_unsupported :: "string list"
  fc_effect :: string

definition coverage_patterns :: "string list \<Rightarrow> string \<Rightarrow> string list res" where
  "coverage_patterns values field = res_bind
     (map_res (\<lambda>v. if \<not> good_string v then Inl (coverage_invalid ''PATTERN_INVALID'' (Some field))
        else if length v > max_string_bytes then Inl (coverage_invalid ''PATTERN_LIMIT'' (Some field))
        else Inr v) values)
     (\<lambda>normalized. Inr (usort normalized))"

definition FrameworkCoverage :: "string \<Rightarrow> string \<Rightarrow> string list \<Rightarrow> string list \<Rightarrow> string
    \<Rightarrow> framework_coverage res" where
  "FrameworkCoverage framework status supported_patterns unsupported_patterns effect =
     (if framework \<notin> set entry_frameworks then Inl (coverage_invalid ''FRAMEWORK_INVALID'' (Some ''framework''))
      else if status \<notin> {''complete'', ''partial'', ''unsupported''}
      then Inl (coverage_invalid ''STATUS_INVALID'' (Some ''status''))
      else if effect \<notin> {''none'', ''forces_unknown''}
      then Inl (coverage_invalid ''EFFECT_INVALID'' (Some ''effect_on_verdict'')) else
      res_bind (coverage_patterns supported_patterns ''supported_patterns'') (\<lambda>supported.
      res_bind (coverage_patterns unsupported_patterns ''unsupported_patterns'') (\<lambda>unsupported.
      if effect \<noteq> (if status = ''complete'' then ''none'' else ''forces_unknown'')
      then Inl (coverage_invalid ''EFFECT_STATUS_MISMATCH'' (Some ''effect_on_verdict''))
      else if set supported \<inter> set unsupported \<noteq> {}
      then Inl (coverage_invalid ''PATTERN_OVERLAP'' (Some ''unsupported_patterns''))
      else if status = ''complete'' \<and> unsupported \<noteq> []
      then Inl (coverage_invalid ''COMPLETE_HAS_GAPS'' (Some ''unsupported_patterns''))
      else if status \<noteq> ''complete'' \<and> unsupported = []
      then Inl (coverage_invalid ''GAP_PATTERN_REQUIRED'' (Some ''unsupported_patterns''))
      else if list_ex (\<lambda>p. \<not> registration_coverage_pattern_belongs_to_framework framework p) supported
      then Inl (coverage_invalid ''SUPPORTED_PATTERN_ID_INVALID'' (Some ''supported_patterns''))
      else Inr \<lparr>fc_framework = framework, fc_status = status, fc_supported = supported,
                fc_unsupported = unsupported, fc_effect = effect\<rparr>)))"

definition coverage_to_dict :: "framework_coverage \<Rightarrow> (string \<times> json) list" where
  "coverage_to_dict c =
     [(''framework'', JStr (fc_framework c)), (''status'', JStr (fc_status c)),
      (''supported_patterns'', JArr (map JStr (fc_supported c))),
      (''unsupported_patterns'', JArr (map JStr (fc_unsupported c))),
      (''effect_on_verdict'', JStr (fc_effect c))]"

end
