(* ===== verification/EntryLaws.thy ===== *)
theory EntryLaws
  imports EntryModel
begin

text \<open>
  What the construction of an entry guarantees: checked values are fixed points of the
  checks, a constructed entry satisfies \<open>wf_entry\<close>, and its record reads back as the entry.
\<close>

section \<open>Checked values\<close>

lemma nonempty_string_Inr:
  "nonempty_string v f = Inr s \<longleftrightarrow> v = JStr s \<and> good_string s \<and> length s \<le> max_string_bytes"
  by (auto simp: nonempty_string_def split: json.splits)

lemma positive_line_Inr: "positive_line v f = Inr n \<longleftrightarrow> v = JInt n \<and> 0 < n"
  by (auto simp: positive_line_def split: json.splits)

lemma enum_value_Inr:
  "enum_value v allowed f = Inr s \<longleftrightarrow> nonempty_string v f = Inr s \<and> s \<in> set allowed"
  by (auto simp: enum_value_def res_bind_Inr_iff)

lemma nonempty_string_field: "nonempty_string v f = Inr s \<Longrightarrow> nonempty_string (JStr s) g = Inr s"
  by (simp add: nonempty_string_Inr)

lemma enum_value_field: "enum_value v a f = Inr s \<Longrightarrow> enum_value (JStr s) a g = Inr s"
  by (auto simp: enum_value_Inr intro: nonempty_string_field)

section \<open>Paths\<close>

lemma slashes_id: "CHR 0x5C \<notin> set s \<Longrightarrow> slashes s = s"
  by (induction s) (auto simp: slashes_def)

lemma slashes_no_backslash: "CHR 0x5C \<notin> set (slashes s)"
  by (auto simp: slashes_def)

lemma length_slashes [simp]: "length (slashes s) = length s"
  by (simp add: slashes_def)

lemma slashes_no_nul: "CHR 0x00 \<notin> set s \<Longrightarrow> CHR 0x00 \<notin> set (slashes s)"
  by (auto simp: slashes_def)

lemma set_split_on: "p \<in> set (split_on c s) \<Longrightarrow> set p \<subseteq> set s"
proof (induction s arbitrary: p)
  case (Cons x s)
  obtain q qs where q: "split_on c s = q # qs"
    by (cases "split_on c s") auto
  from Cons.prems consider "p = []" | "p \<in> set (split_on c s)" | "p = x # q"
    by (auto simp: q split: if_splits)
  then show ?case
    by cases (use Cons.IH[of p] Cons.IH[of q] q in auto)
qed simp

lemma set_join: "set (join sep ps) \<subseteq> set sep \<union> \<Union> (set ` set ps)"
  by (induction sep ps rule: join.induct) auto

lemma join_cons: "join sep (p # ps) = (if ps = [] then p else p @ sep @ join sep ps)"
  by (cases ps) auto

lemma length_join_filter: "length (join [c] (filter P ps)) \<le> length (join [c] ps)"
proof (induction ps)
  case (Cons p ps)
  then show ?case
    by (auto simp: join_cons)
qed simp

lemma join_nonempty: "ps \<noteq> [] \<Longrightarrow> hd ps \<noteq> [] \<Longrightarrow> join sep ps \<noteq> [] \<and> hd (join sep ps) = hd (hd ps)"
  by (cases ps rule: remdups_adj.cases) auto

text \<open>Splitting a joined list of separator-free parts at the separator gives it back.\<close>

lemma filter_split_join:
  assumes "\<forall>p \<in> set ps. c \<notin> set p \<and> P p" "\<not> P []"
  shows "filter P (split_on c (join [c] ps)) = ps"
proof (cases "ps = []")
  case False
  with assms show ?thesis by (simp add: split_on_join)
qed (use assms in simp)

lemma path_parts_props:
  "p \<in> set (path_parts s) \<Longrightarrow> p \<noteq> [] \<and> p \<noteq> ''.'' \<and> CHR ''/'' \<notin> set p \<and> set p \<subseteq> set s"
  by (auto simp: path_parts_def dest: split_on_no_sep set_split_on)

lemma path_parts_join: "path_parts (join ''/'' (path_parts s)) = path_parts s"
proof -
  have "filter (\<lambda>p. p \<notin> {'''', ''.''}) (split_on CHR ''/'' (join ''/'' (path_parts s))) = path_parts s"
    by (rule filter_split_join) (auto dest: path_parts_props)
  then show ?thesis by (simp add: path_parts_def)
qed

lemma route_parts_props:
  "p \<in> set (route_parts s) \<Longrightarrow> p \<noteq> [] \<and> CHR ''/'' \<notin> set p \<and> CHR 0x5C \<notin> set p \<and> set p \<subseteq> set (slashes s)"
  using slashes_no_backslash[of s]
  by (auto simp: route_parts_def dest: split_on_no_sep set_split_on)

lemma join_route_parts_clean: "CHR 0x5C \<notin> set (join ''/'' (route_parts s))"
  using set_join[of "''/''" "route_parts s"] route_parts_props by fastforce

text \<open>A leading slash adds one empty part, which is dropped.\<close>

lemma route_parts_join: "route_parts (''/'' @ join ''/'' (route_parts s)) = route_parts s"
proof -
  have "filter (\<lambda>p. p \<noteq> []) (split_on CHR ''/'' (join ''/'' (route_parts s))) = route_parts s"
    by (rule filter_split_join) (auto dest: route_parts_props)
  then show ?thesis
    using join_route_parts_clean[of s] by (subst route_parts_def) (simp add: slashes_id)
qed

lemma source_path_Inr_D:
  assumes "source_path v f = Inr s"
  shows "source_path (JStr s) g = Inr s" "good_string s" "length s \<le> max_string_bytes"
proof -
  obtain t where t: "good_string t" "length t \<le> max_string_bytes"
    and parts: "path_parts (slashes t) \<noteq> []" "\<forall>p \<in> set (path_parts (slashes t)). p \<noteq> [] \<and> p \<noteq> ''..''"
    and s: "s = join ''/'' (path_parts (slashes t))"
    using assms
    by (auto simp: source_path_def res_bind_Inr_iff nonempty_string_Inr Let_def list_ex_iff split: if_splits)
  let ?ps = "path_parts (slashes t)"
  have no: "CHR 0x5C \<notin> set s" "CHR 0x00 \<notin> set s"
    using set_join[of "''/''" ?ps] path_parts_props[of _ "slashes t"] slashes_no_backslash[of t]
      slashes_no_nul[of t] t(1) unfolding s good_string_def by fastforce+
  have hd: "s \<noteq> []" "hd s = hd (hd ?ps)"
    using join_nonempty[of ?ps "''/''"] parts unfolding s by (cases ?ps; auto)+
  have hdp: "hd ?ps \<in> set ?ps" using parts(1) by simp
  then have "hd s \<noteq> CHR ''/''"
    using path_parts_props[OF hdp] hd by (metis list.set_sel(1))
  then have abs: "\<not> startswith s ''/''"
    using hd(1) by (cases s) (auto simp: startswith_def)
  show good: "good_string s" using hd no by (simp add: good_string_def)
  have "length s \<le> length (slashes t)"
    using length_join_filter[of "CHR ''/''" "\<lambda>p. p \<notin> {'''', ''.''}" "split_on CHR ''/'' (slashes t)"]
    by (simp add: s path_parts_def join_split_on)
  then show len: "length s \<le> max_string_bytes" using t by simp
  have "path_parts s = ?ps" unfolding s by (rule path_parts_join)
  then show "source_path (JStr s) g = Inr s"
    using good len abs parts no(1) path_parts_props[of _ "slashes t"]
    by (auto simp: source_path_def nonempty_string_Inr[THEN iffD2] Let_def list_ex_iff slashes_id
        s[symmetric])
qed

section \<open>Routes\<close>

lemma partition_on_append: "c \<notin> set h \<Longrightarrow> partition_on c (h @ c # t) = (h, True, t)"
  by (induction h) (auto simp: partition_on_def)

lemma http_method_props: "m \<in> set http_methods \<Longrightarrow> m \<noteq> [] \<and> CHR '' '' \<notin> set m \<and> upper m = m"
  by (auto simp: http_methods_def upper_def upper_char_def)

lemma http_method_first: "upper (CHR ''/'' # h) \<notin> set http_methods"
  by (auto simp: http_methods_def upper_def upper_char_def)

text \<open>The three shapes of a canonical route, and the canonical form of each.\<close>

lemma http_route_with_method:
  assumes "m \<in> set http_methods" "nonempty_string (JStr (m @ '' '' @ ''/'' @ join ''/'' (route_parts s))) ''route_or_event''
      = Inr (m @ '' '' @ ''/'' @ join ''/'' (route_parts s))"
    "f \<in> {''spring_mvc'', ''servlet'', ''jax_rs'', ''netty''}"
  shows "canonical_route (JStr (m @ '' '' @ ''/'' @ join ''/'' (route_parts s))) f
      = Inr (m @ '' '' @ ''/'' @ join ''/'' (route_parts s))"
  using assms http_method_props[OF assms(1)] route_parts_join[of s]
    partition_on_append[of "CHR '' ''" m "''/'' @ join ''/'' (route_parts s)"]
  by (auto simp: canonical_route_def startswith_def)

lemma http_route_without_method:
  assumes "nonempty_string (JStr (''/'' @ join ''/'' (route_parts s))) ''route_or_event''
      = Inr (''/'' @ join ''/'' (route_parts s))"
    "f \<in> {''spring_mvc'', ''servlet'', ''jax_rs''}"
  shows "canonical_route (JStr (''/'' @ join ''/'' (route_parts s))) f
      = Inr (''/'' @ join ''/'' (route_parts s))"
  using assms route_parts_join[of s] http_method_first
  by (auto simp: canonical_route_def partition_on_def Let_def)

lemma route_parts_no_nul:
  "CHR 0x00 \<notin> set s \<Longrightarrow> CHR 0x00 \<notin> set (join ''/'' (route_parts s))"
  using set_join[of "''/''" "route_parts s"] route_parts_props[of _ s] slashes_no_nul[of s] by fastforce

lemma method_no_nul: "m \<in> set http_methods \<Longrightarrow> CHR 0x00 \<notin> set m"
  by (auto simp: http_methods_def)

text \<open>Canonicalisation is idempotent, up to the size limit that it checks first.\<close>

lemma canonical_route_idem:
  assumes "canonical_route v f = Inr rt" "length rt \<le> max_string_bytes"
  shows "canonical_route (JStr rt) f = Inr rt"
proof -
  obtain s where s: "v = JStr s" "good_string s" "length s \<le> max_string_bytes"
    using assms(1) by (auto simp: canonical_route_def res_bind_Inr_iff nonempty_string_Inr)
  obtain h sep t where part: "partition_on CHR '' '' s = (h, sep, t)" by (metis prod_cases3)
  have nul: "CHR 0x00 \<notin> set s" "CHR 0x00 \<notin> set t"
    using s(2) part by (auto simp: good_string_def partition_on_def dest: in_set_dropD set_dropWhileD)
  have ok: "nonempty_string (JStr rt) ''route_or_event'' = Inr rt" if "good_string rt"
    using that assms(2) by (simp add: nonempty_string_Inr)
  let ?m = "sep \<and> upper h \<in> set http_methods"
  have def: "canonical_route v f =
     (if f \<in> {''spring_mvc'', ''servlet'', ''jax_rs''} then
        Inr (if ?m then upper h @ '' '' @ ''/'' @ join ''/'' (route_parts t)
             else ''/'' @ join ''/'' (route_parts s))
      else if f = ''netty'' \<and> ?m \<and> startswith t ''/'' then
        Inr (upper h @ '' '' @ ''/'' @ join ''/'' (route_parts t))
      else Inr s)"
    using s part http_method_props[of "upper h"]
    by (auto simp: canonical_route_def nonempty_string_Inr[THEN iffD2] Let_def)
  consider (with_method) "f \<in> {''spring_mvc'', ''servlet'', ''jax_rs'', ''netty''}" "?m"
      "rt = upper h @ '' '' @ ''/'' @ join ''/'' (route_parts t)"
    | (plain) "f \<in> {''spring_mvc'', ''servlet'', ''jax_rs''}" "rt = ''/'' @ join ''/'' (route_parts s)"
    | (raw) "rt = s"
    using assms(1) def by (auto split: if_splits)
  then show ?thesis
  proof cases
    case with_method
    then have "good_string rt"
      using route_parts_no_nul[OF nul(2)] method_no_nul[of "upper h"] by (auto simp: good_string_def)
    from ok[OF this] http_route_with_method[of "upper h" t f] with_method show ?thesis by simp
  next
    case plain
    then have "good_string rt"
      using route_parts_no_nul[OF nul(1)] by (auto simp: good_string_def)
    from ok[OF this] http_route_without_method[of s f] plain show ?thesis by simp
  next
    case raw
    then show ?thesis using assms(1) s by simp
  qed
qed

section \<open>Constructed entries\<close>

definition wf_handler :: "handler_fact \<Rightarrow> bool" where
  "wf_handler h = (HandlerFact (JStr (h_callable h)) (JStr (h_file h)) (JInt (h_start_line h)) = Inr h)"

definition wf_registration :: "registration_fact \<Rightarrow> bool" where
  "wf_registration r =
     (RegistrationFact (JStr (r_kind r)) (JStr (r_callable r)) (JStr (r_file r)) (JInt (r_start_line r)) = Inr r)"

definition wf_input :: "attacker_input \<Rightarrow> bool" where
  "wf_input a = (AttackerInputFact (JStr (ai_name a)) (JStr (ai_type a)) (JStr (ai_kind a)) = Inr a)"

lemma HandlerFact_wf: "HandlerFact c f l = Inr h \<Longrightarrow> wf_handler h"
  by (auto simp: wf_handler_def HandlerFact_def res_bind_Inr_iff positive_line_Inr
      nonempty_string_Inr source_path_Inr_D(1))

lemma RegistrationFact_wf: "RegistrationFact k c f l = Inr r \<Longrightarrow> wf_registration r"
  by (auto simp: wf_registration_def RegistrationFact_def res_bind_Inr_iff positive_line_Inr
      nonempty_string_Inr enum_value_Inr source_path_Inr_D(1))

lemma AttackerInputFact_wf: "AttackerInputFact n t k = Inr a \<Longrightarrow> wf_input a"
  by (auto simp: wf_input_def AttackerInputFact_def res_bind_Inr_iff nonempty_string_Inr enum_value_Inr)

text \<open>
  The invariant of an entry: every part is a checked value, protocol, registration and
  pattern belong to the framework, and the identifier is that of the content.
\<close>

definition wf_entry :: "entry_fact \<Rightarrow> bool" where
  "wf_entry e \<longleftrightarrow>
     e_framework e \<in> set entry_frameworks
   \<and> framework_protocols (e_framework e) = Some (e_protocol e)
   \<and> auth_context e \<in> set auth_contexts
   \<and> materialization_phase e \<in> set materialization_phases
   \<and> wf_handler (e_handler e) \<and> wf_registration (e_registration e)
   \<and> r_kind (e_registration e) \<in> set (framework_registrations (e_framework e))
   \<and> registration_pattern_id e
        \<in> set (registration_coverage_pattern_ids (e_framework e) (r_kind (e_registration e)))
   \<and> attacker_inputs e \<noteq> [] \<and> sorted (attacker_inputs e) \<and> distinct (attacker_inputs e)
   \<and> list_all wf_input (attacker_inputs e)
   \<and> (\<exists>v. canonical_route v (e_framework e) = Inr (route_or_event e))
   \<and> entry_id e = stable_identifier ''entry'' (JObj (entry_semantic_identity e))"

lemma EntryFact_wf:
  assumes "EntryFact i f p h r pid rt a ins ph = Inr e"
    "wf_handler h" "wf_registration r" "list_all wf_input ins"
  shows "wf_entry e"
  using assms
  by (auto simp: EntryFact_def wf_entry_def res_bind_Inr_iff enum_value_Inr Let_def list_all_iff
      split: if_splits)

lemma entry_from_raw_final:
  assumes "entry_from_raw row = Inr e"
  shows "wf_entry e \<and> length (attacker_inputs e) = 1 \<and> length (route_or_event e) \<le> max_string_bytes"
proof (cases row)
  case (JObj kvs)
  then obtain i f p h r pid rt a ph input v hc hf hl rk rc rf rl n t k where
    e: "EntryFact i (JStr f) (JStr p) h r (JStr pid) (JStr rt) (JStr a) [input] (JStr ph) = Inr e"
    and h: "HandlerFact hc hf hl = Inr h" and r: "RegistrationFact rk rc rf rl = Inr r"
    and input: "AttackerInputFact n t k = Inr input" and rt: "canonical_route v f = Inr rt"
    using assms
    by (auto simp: entry_from_raw_def res_bind_Inr_iff Let_def split: if_splits option.splits)
  from e have rt': "canonical_route (JStr rt) f = Inr (route_or_event e)" "attacker_inputs e = [input]"
    by (auto simp: EntryFact_def res_bind_Inr_iff enum_value_Inr nonempty_string_Inr Let_def split: if_splits)
  then have "length rt \<le> max_string_bytes"
    by (auto simp: canonical_route_def res_bind_Inr_iff nonempty_string_Inr)
  with rt rt' have "route_or_event e = rt" using canonical_route_idem by fastforce
  with \<open>length rt \<le> _\<close> rt' EntryFact_wf[OF e HandlerFact_wf[OF h] RegistrationFact_wf[OF r]]
    AttackerInputFact_wf[OF input]
  show ?thesis by simp
qed (use assms in \<open>simp_all add: entry_from_raw_def\<close>)

lemma entry_create_wf:
  assumes "entry_create f p h r pid rt a ins ph = Inr e"
    "wf_handler h" "wf_registration r" "list_all wf_input ins"
  shows "wf_entry e"
  using assms EntryFact_wf[OF _ assms(2-4)]
  by (auto simp: entry_create_def res_bind_Inr_iff Let_def split: if_splits)

section \<open>Records read back\<close>

lemma stable_identifier_good:
  assumes "CHR 0x00 \<notin> set p" "length p \<le> 1000"
  shows "good_string (stable_identifier p v)" "length (stable_identifier p v) \<le> max_string_bytes"
proof -
  obtain d where d: "stable_identifier p v = p @ '':'' @ d" "length d = 24" "list_all is_hex d"
    using stable_identifier_shape by blast
  then show "length (stable_identifier p v) \<le> max_string_bytes"
    using assms(2) by (simp add: max_string_bytes_def)
  have "\<not> is_hex CHR 0x00" by (simp add: is_hex_def)
  with d assms show "good_string (stable_identifier p v)"
    by (auto simp: good_string_def list_all_iff)
qed

lemma patterns_short:
  "list_all (\<lambda>((f, k), ps). length f + length k < 100 \<and> CHR 0x00 \<notin> set f \<and> CHR 0x00 \<notin> set k
     \<and> list_all (\<lambda>p. length p < 100 \<and> CHR 0x00 \<notin> set p) ps) pattern_bindings"
  by (simp add: pattern_bindings_def)

lemma pattern_id_good:
  assumes "i \<in> set (registration_coverage_pattern_ids f k)"
  shows "nonempty_string (JStr i) g = Inr i"
proof -
  obtain p where p: "p \<in> set (patterns_for f k)"
    and i: "i = ''entry-registration-coverage:'' @ f @ '':'' @ k @ '':'' @ p"
    using assms by (auto simp: pattern_ids_iff registration_coverage_pattern_id_def split: if_splits)
  from patterns_for_binding[OF p] patterns_short p
  have "length f + length k < 100" "length p < 100" "CHR 0x00 \<notin> set f" "CHR 0x00 \<notin> set k" "CHR 0x00 \<notin> set p"
    by (force simp: list_all_iff)+
  then show ?thesis
    unfolding i by (auto simp: nonempty_string_Inr good_string_def max_string_bytes_def)
qed

lemma enum_values_good:
  "s \<in> set entry_frameworks \<Longrightarrow> enum_value (JStr s) entry_frameworks g = Inr s"
  "s \<in> set entry_protocols \<Longrightarrow> enum_value (JStr s) entry_protocols g = Inr s"
  "s \<in> set auth_contexts \<Longrightarrow> enum_value (JStr s) auth_contexts g = Inr s"
  "s \<in> set materialization_phases \<Longrightarrow> enum_value (JStr s) materialization_phases g = Inr s"
  by (auto simp: enum_value_Inr nonempty_string_Inr good_string_def max_string_bytes_def
      entry_frameworks_def entry_protocols_def auth_contexts_def materialization_phases_def)

lemma framework_protocols_in: "framework_protocols f = Some p \<Longrightarrow> p \<in> set entry_protocols"
  by (auto simp: framework_protocols_def entry_protocols_def split: if_splits)

lemma EntryFact_of_wf:
  assumes "wf_entry e" "length (route_or_event e) \<le> max_string_bytes"
  shows "EntryFact (entry_id e) (JStr (e_framework e)) (JStr (e_protocol e)) (e_handler e)
     (e_registration e) (JStr (registration_pattern_id e)) (JStr (route_or_event e))
     (JStr (auth_context e)) (attacker_inputs e) (JStr (materialization_phase e)) = Inr e"
proof -
  have rt: "canonical_route (JStr (route_or_event e)) (e_framework e) = Inr (route_or_event e)"
    using assms canonical_route_idem by (auto simp: wf_entry_def)
  have "usort (attacker_inputs e) = attacker_inputs e"
    using assms(1) by (simp add: wf_entry_def usort_id)
  then show ?thesis
    using assms(1) rt framework_protocols_in[of "e_framework e" "e_protocol e"]
      pattern_id_good[of "registration_pattern_id e" "e_framework e" "r_kind (e_registration e)"]
    by (simp add: EntryFact_def wf_entry_def enum_values_good Let_def)
      (simp add: entry_semantic_identity_def)
qed

lemma read_attacker_input_dict: "wf_input a \<Longrightarrow> read_attacker_input (attacker_input_to_dict a) = Inr a"
  by (auto simp: read_attacker_input_def attacker_input_to_dict_def has_fields_def members_def
      field_of_def wf_input_def)

lemma entry_from_dict_to_dict:
  assumes "wf_entry e" "length (route_or_event e) \<le> max_string_bytes"
  shows "entry_from_dict (JObj (entry_to_dict e)) = Inr e \<longleftrightarrow> length (attacker_inputs e) \<le> 64"
proof -
  have ins: "map_res read_attacker_input (map attacker_input_to_dict (attacker_inputs e)) = Inr (attacker_inputs e)"
  proof -
    have "map_res (\<lambda>a. read_attacker_input (attacker_input_to_dict a)) xs = Inr xs"
      if "list_all wf_input xs" for xs
      using that by (induction xs) (simp_all add: read_attacker_input_dict)
    moreover have "map_res f (map g xs) = map_res (\<lambda>x. f (g x)) xs"
      for f :: "json \<Rightarrow> attacker_input res" and g :: "attacker_input \<Rightarrow> json" and xs
      by (induction xs) (auto split: sum.splits)
    ultimately show ?thesis using assms(1) by (simp add: wf_entry_def)
  qed
  have eid: "nonempty_string (JStr (entry_id e)) ''entry_id'' = Inr (entry_id e)"
    using assms(1) stable_identifier_good[of "''entry''"]
    by (simp add: wf_entry_def nonempty_string_Inr)
  have fields: "has_fields (JObj (entry_to_dict e)) entry_record_fields"
    by (auto simp: has_fields_def entry_to_dict_def entry_semantic_identity_def entry_record_fields_def)
  have "has_fields (handler_to_dict (e_handler e)) [''callable'', ''file'', ''start_line'']"
    "has_fields (registration_to_dict (e_registration e)) [''kind'', ''callable'', ''file'', ''start_line'']"
    by (auto simp: has_fields_def handler_to_dict_def registration_to_dict_def)
  moreover have "HandlerFact (JStr (h_callable (e_handler e))) (JStr (h_file (e_handler e)))
      (JInt (h_start_line (e_handler e))) = Inr (e_handler e)"
    "RegistrationFact (JStr (r_kind (e_registration e))) (JStr (r_callable (e_registration e)))
       (JStr (r_file (e_registration e))) (JInt (r_start_line (e_registration e))) = Inr (e_registration e)"
    "attacker_inputs e \<noteq> []"
    using assms(1) by (simp_all add: wf_entry_def wf_handler_def wf_registration_def)
  ultimately show ?thesis
    using fields ins eid EntryFact_of_wf[OF assms]
    by (simp add: entry_from_dict_def members_def field_of_def entry_to_dict_def
        entry_semantic_identity_def handler_to_dict_def registration_to_dict_def Let_def)
qed

section \<open>The record of an entry\<close>

text \<open>C36. An entry built from a query row satisfies the invariant of registered entries, and
  the record written for it is read back as the same entry.\<close>

theorem entry_row_roundtrip:
  assumes "entry_from_raw row = Inr e"
  shows "wf_entry e \<and> entry_from_dict (JObj (entry_to_dict e)) = Inr e"
  using entry_from_raw_final[OF assms] entry_from_dict_to_dict[of e] by simp

definition sample_row :: json where
  "sample_row = JObj
     [(''framework'', JStr ''spring_mvc''), (''protocol'', JStr ''http''),
      (''handler_fqn'', JStr ''com.acme.UploadController.upload''),
      (''handler_file'', JStr ''src/./main/Upload.java''), (''handler_start_line'', JInt 12),
      (''registration_kind'', JStr ''annotation_mapping''),
      (''registration_fqn'', JStr ''com.acme.UploadController''),
      (''registration_file'', JStr ''src/main/Upload.java''), (''registration_start_line'', JInt 7),
      (''route_or_event'', JStr ''post //api/upload/''), (''auth_context'', JStr ''unknown''),
      (''attacker_input_name'', JStr ''body''), (''attacker_input_type'', JStr ''byte[]''),
      (''attacker_input_kind'', JStr ''request_body''), (''materialization_phase'', JStr ''in_handler''),
      (''coverage_status'', JStr ''complete''), (''coverage_note'', JStr ''spring_annotation_mapping''),
      (''query_name'', JStr ''entries/spring'')]"

lemma sample_route_pieces:
  "partition_on CHR '' '' ''post //api/upload/'' = (''post'', True, ''//api/upload/'')"
  "partition_on CHR '' '' ''POST /api/upload'' = (''POST'', True, ''/api/upload'')"
  "route_parts ''//api/upload/'' = [''api'', ''upload'']"
  "route_parts ''/api/upload'' = [''api'', ''upload'']"
  "''POST'' \<in> set http_methods"
  by (simp_all add: partition_on_def route_parts_def slashes_def http_methods_def)

lemma sample_upper: "upper ''post'' = ''POST''" "upper ''POST'' = ''POST''"
  by code_simp+

lemma sample_leaves:
  "source_path (JStr ''src/./main/Upload.java'') ''handler_file'' = Inr ''src/main/Upload.java''"
  "registration_coverage_pattern_id ''spring_mvc'' ''annotation_mapping'' ''spring_annotation_mapping''
     = Some ''entry-registration-coverage:spring_mvc:annotation_mapping:spring_annotation_mapping''"
  by (simp_all add: source_path_def nonempty_string_def good_string_def max_string_bytes_def slashes_def
      path_parts_def Let_def startswith_def registration_coverage_pattern_id_def patterns_for_def
      pattern_bindings_def)

lemma sample_routes:
  "canonical_route (JStr ''post //api/upload/'') ''spring_mvc'' = Inr ''POST /api/upload''"
  "canonical_route (JStr ''POST /api/upload'') ''spring_mvc'' = Inr ''POST /api/upload''"
  by (simp_all add: canonical_route_def nonempty_string_def good_string_def max_string_bytes_def
      sample_route_pieces sample_upper)

lemma sample_members:
  "''annotation_mapping'' \<in> set (framework_registrations ''spring_mvc'')"
  "framework_protocols ''spring_mvc'' = Some ''http''"
  by (simp_all add: framework_registrations_def framework_protocols_def)

lemma sample_pattern:
  "''entry-registration-coverage:spring_mvc:annotation_mapping:spring_annotation_mapping''
     \<in> set (registration_coverage_pattern_ids ''spring_mvc'' ''annotation_mapping'')"
  unfolding pattern_ids_iff using sample_leaves(2) pattern_id_in by blast

lemma sample_path: "source_path (JStr ''src/main/Upload.java'') g = Inr ''src/main/Upload.java''"
  using sample_leaves(1) by (rule source_path_Inr_D(1))

lemma sample_strings:
  "enum_value (JStr ''spring_mvc'') entry_frameworks g = Inr ''spring_mvc''"
  "enum_value (JStr ''http'') entry_protocols g = Inr ''http''"
  "enum_value (JStr ''annotation_mapping'') registration_kinds g = Inr ''annotation_mapping''"
  "enum_value (JStr ''request_body'') input_kinds g = Inr ''request_body''"
  "enum_value (JStr ''unknown'') auth_contexts g = Inr ''unknown''"
  "enum_value (JStr ''in_handler'') materialization_phases g = Inr ''in_handler''"
  "nonempty_string (JStr ''com.acme.UploadController.upload'') g = Inr ''com.acme.UploadController.upload''"
  "nonempty_string (JStr ''annotation_mapping'') g = Inr ''annotation_mapping''"
  "nonempty_string (JStr ''com.acme.UploadController'') g = Inr ''com.acme.UploadController''"
  "nonempty_string (JStr ''spring_annotation_mapping'') g = Inr ''spring_annotation_mapping''"
  "nonempty_string (JStr ''body'') g = Inr ''body''"
  "nonempty_string (JStr ''byte[]'') g = Inr ''byte[]''"
  "nonempty_string (JStr ''request_body'') g = Inr ''request_body''"
  "nonempty_string
     (JStr ''entry-registration-coverage:spring_mvc:annotation_mapping:spring_annotation_mapping'') g
   = Inr ''entry-registration-coverage:spring_mvc:annotation_mapping:spring_annotation_mapping''"
  by (simp_all add: enum_value_Inr nonempty_string_Inr good_string_def max_string_bytes_def
      entry_frameworks_def entry_protocols_def auth_contexts_def materialization_phases_def
      registration_kinds_def input_kinds_def)

lemma positive_line_pos: "0 < n \<Longrightarrow> positive_line (JInt n) g = Inr n"
  by (simp add: positive_line_Inr)

lemma sample_entry_facts:
  "HandlerFact (JStr ''com.acme.UploadController.upload'') (JStr ''src/main/Upload.java'') (JInt 12)
     = Inr \<lparr>h_callable = ''com.acme.UploadController.upload'', h_file = ''src/main/Upload.java'',
            h_start_line = 12\<rparr>"
  "RegistrationFact (JStr ''annotation_mapping'') (JStr ''com.acme.UploadController'')
     (JStr ''src/main/Upload.java'') (JInt 7)
     = Inr \<lparr>r_kind = ''annotation_mapping'', r_callable = ''com.acme.UploadController'',
            r_file = ''src/main/Upload.java'', r_start_line = 7\<rparr>"
  "AttackerInputFact (JStr ''body'') (JStr ''byte[]'') (JStr ''request_body'')
     = Inr (AttackerInput ''body'' ''byte[]'' ''request_body'')"
  by (simp_all add: HandlerFact_def RegistrationFact_def AttackerInputFact_def sample_strings
      sample_path positive_line_pos)

lemma sample_bad_fields: "bad_fields (map fst (members sample_row)) = []"
  by (simp add: bad_fields_def entry_raw_fields_def provenance_fields_def sample_row_def members_def)

lemma sample_row_entry:
  "\<exists>e. entry_from_raw sample_row = Inr e \<and> route_or_event e = ''POST /api/upload''
     \<and> h_file (e_handler e) = ''src/main/Upload.java''"
proof -
  define kvs where "kvs = members sample_row"
  have "bad_fields (map fst kvs) = []" by (simp add: kvs_def sample_bad_fields)
  moreover have row: "sample_row = JObj kvs" by (simp add: kvs_def sample_row_def members_def)
  moreover have "field_of kvs ''framework'' = JStr ''spring_mvc''"
    "field_of kvs ''protocol'' = JStr ''http''"
    "field_of kvs ''handler_fqn'' = JStr ''com.acme.UploadController.upload''"
    "field_of kvs ''handler_file'' = JStr ''src/./main/Upload.java''"
    "field_of kvs ''handler_start_line'' = JInt 12"
    "field_of kvs ''registration_kind'' = JStr ''annotation_mapping''"
    "field_of kvs ''registration_fqn'' = JStr ''com.acme.UploadController''"
    "field_of kvs ''registration_file'' = JStr ''src/main/Upload.java''"
    "field_of kvs ''registration_start_line'' = JInt 7"
    "field_of kvs ''route_or_event'' = JStr ''post //api/upload/''"
    "field_of kvs ''auth_context'' = JStr ''unknown''"
    "field_of kvs ''attacker_input_name'' = JStr ''body''"
    "field_of kvs ''attacker_input_type'' = JStr ''byte[]''"
    "field_of kvs ''attacker_input_kind'' = JStr ''request_body''"
    "field_of kvs ''materialization_phase'' = JStr ''in_handler''"
    "field_of kvs ''coverage_status'' = JStr ''complete''"
    "field_of kvs ''coverage_note'' = JStr ''spring_annotation_mapping''"
    by (simp_all add: kvs_def sample_row_def members_def field_of_def)
  ultimately show ?thesis
    unfolding entry_from_raw_def row json.case Let_def
    by (simp add: sample_leaves sample_routes sample_members sample_pattern sample_path sample_entry_facts
        sample_strings positive_line_pos EntryFact_def entry_semantic_identity_def)
qed

theorem entry_row_roundtrip_witness:
  "\<exists>e. wf_entry e \<and> entry_from_dict (JObj (entry_to_dict e)) = Inr e
     \<and> route_or_event e = ''POST /api/upload''"
proof -
  obtain e where "entry_from_raw sample_row = Inr e" "route_or_event e = ''POST /api/upload''"
    using sample_row_entry by blast
  with entry_row_roundtrip[of sample_row e] show ?thesis by blast
qed

text \<open>Canonicalising a route twice is canonicalising it once, for every framework, as long as
  the canonical form respects the size limit of strings.\<close>

theorem canonical_route_idempotent:
  assumes "canonical_route v f = Inr rt" "length rt \<le> max_string_bytes"
  shows "canonical_route (JStr rt) f = Inr rt"
  using assms by (rule canonical_route_idem)

theorem canonical_route_idempotent_witness:
  "canonical_route (JStr ''POST /api/upload'') ''spring_mvc'' = Inr ''POST /api/upload''"
  using canonical_route_idempotent[OF sample_routes(1)] by (simp add: max_string_bytes_def)

text \<open>The reader of entry records bounds the attacker inputs and the writer does not: a
  well-formed entry reads back exactly when it has at most 64 of them.\<close>

theorem entry_record_limit:
  assumes "entry_create f p h r pid rt a ins ph = Inr e"
    "wf_handler h" "wf_registration r" "list_all wf_input ins"
    "length (route_or_event e) \<le> max_string_bytes"
  shows "entry_from_dict (JObj (entry_to_dict e)) = Inr e \<longleftrightarrow> card (set ins) \<le> 64"
proof -
  have "attacker_inputs e = usort ins"
    using assms(1) by (auto simp: entry_create_def EntryFact_def res_bind_Inr_iff Let_def split: if_splits)
  then have "length (attacker_inputs e) = card (set ins)"
    by (metis distinct_card distinct_usort set_usort)
  with entry_from_dict_to_dict[OF entry_create_wf[OF assms(1-4)] assms(5)] show ?thesis by simp
qed

theorem entry_record_limit_witness:
  "\<exists>e. entry_from_dict (JObj (entry_to_dict e)) = Inr e
     \<and> attacker_inputs e = [AttackerInput ''body'' ''byte[]'' ''request_body'']"
proof -
  let ?h = "\<lparr>h_callable = ''com.acme.UploadController.upload'', h_file = ''src/main/Upload.java'',
            h_start_line = 12\<rparr>"
  let ?r = "\<lparr>r_kind = ''annotation_mapping'', r_callable = ''com.acme.UploadController'',
            r_file = ''src/main/Upload.java'', r_start_line = 7\<rparr>"
  let ?ins = "[AttackerInput ''body'' ''byte[]'' ''request_body'']"
  let ?pid = "''entry-registration-coverage:spring_mvc:annotation_mapping:spring_annotation_mapping''"
  have wf: "wf_handler ?h" "wf_registration ?r" "list_all wf_input ?ins"
    using HandlerFact_wf[OF sample_entry_facts(1)] RegistrationFact_wf[OF sample_entry_facts(2)]
      AttackerInputFact_wf[OF sample_entry_facts(3)] by simp_all
  obtain e where e: "entry_create ''spring_mvc'' ''http'' ?h ?r ?pid ''POST /api/upload'' ''unknown''
      ?ins ''in_handler'' = Inr e"
    and a: "attacker_inputs e = ?ins" "route_or_event e = ''POST /api/upload''"
    by (simp add: entry_create_def EntryFact_def sample_routes sample_strings sample_members
        sample_pattern entry_semantic_identity_def)
  have "entry_from_dict (JObj (entry_to_dict e)) = Inr e"
    using entry_record_limit[OF e wf] a by (simp add: max_string_bytes_def)
  with a(1) show ?thesis by blast
qed

end
