(* ===== verification/GrowthModel.thy ===== *)
theory GrowthModel
  imports EntryLaws
begin

text \<open>
  \<open>dosweb/growth/slices.py\<close> (the candidate Growth) and the parts of
  \<open>dosweb/growth/models.py\<close> its verification reads: static facts, attacker influence, the
  Growth Contract and the bounded slice.
\<close>

section \<open>Checked values with a component's own error\<close>

definition checked_string :: "(string \<Rightarrow> string option \<Rightarrow> py_exc) \<Rightarrow> json \<Rightarrow> string \<Rightarrow> string res" where
  "checked_string invalid value field = (case value of
       JStr s \<Rightarrow> (if \<not> good_string s then Inl (invalid ''STRING_REQUIRED'' (Some field))
         else if length s > max_string_bytes then Inl (invalid ''STRING_LIMIT'' (Some field))
         else Inr s)
     | _ \<Rightarrow> Inl (invalid ''STRING_REQUIRED'' (Some field)))"

definition checked_enum :: "(string \<Rightarrow> string option \<Rightarrow> py_exc) \<Rightarrow> json \<Rightarrow> string list \<Rightarrow> string \<Rightarrow> string res" where
  "checked_enum invalid value allowed field = res_bind (checked_string invalid value field) (\<lambda>s.
     if s \<notin> set allowed then Inl (invalid ''ENUM_INVALID'' (Some field)) else Inr s)"

definition checked_path :: "(string \<Rightarrow> string option \<Rightarrow> py_exc) \<Rightarrow> json \<Rightarrow> string \<Rightarrow> string res" where
  "checked_path invalid value field = res_bind (checked_string invalid value field) (\<lambda>s.
     let normalized = slashes s; parts = path_parts normalized in
     if startswith normalized ''/'' \<or> parts = [] \<or> list_ex (\<lambda>p. p \<in> {'''', ''.'', ''..''}) parts
     then Inl (invalid ''PATH_INVALID'' (Some field))
     else Inr (join ''/'' parts))"

definition max_line :: int where
  "max_line = 2147483647"

definition checked_line :: "(string \<Rightarrow> string option \<Rightarrow> py_exc) \<Rightarrow> json \<Rightarrow> string \<Rightarrow> int res" where
  "checked_line invalid value field = (case value of
       JInt n \<Rightarrow> (if 1 \<le> n \<and> n \<le> max_line then Inr n
         else Inl (invalid ''POSITIVE_LINE_REQUIRED'' (Some field)))
     | _ \<Rightarrow> Inl (invalid ''POSITIVE_LINE_REQUIRED'' (Some field)))"

lemma checked_string_Inr:
  "checked_string e v f = Inr s \<longleftrightarrow> v = JStr s \<and> good_string s \<and> length s \<le> max_string_bytes"
  by (auto simp: checked_string_def split: json.splits)

lemma checked_enum_Inr:
  "checked_enum e v allowed f = Inr s \<longleftrightarrow>
     v = JStr s \<and> good_string s \<and> length s \<le> max_string_bytes \<and> s \<in> set allowed"
  by (auto simp: checked_enum_def res_bind_Inr_iff checked_string_Inr)

lemma checked_line_Inr: "checked_line e v f = Inr n \<longleftrightarrow> v = JInt n \<and> 1 \<le> n \<and> n \<le> max_line"
  by (auto simp: checked_line_def split: json.splits)

section \<open>Candidates\<close>

definition growth_kinds :: "string list" where
  "growth_kinds = [''input_materialization'', ''direct_allocation'', ''container_growth'', ''async_work_growth'']"

definition resource_dimensions :: "string list" where
  "resource_dimensions = [''entries'', ''bytes'', ''tasks'', ''connections'', ''objects'']"

definition demand_roles :: "string list" where
  "demand_roles = [''size'', ''key'', ''value'', ''iteration_count'', ''submission_count'', ''unknown'']"

definition escape_scopes :: "string list" where
  "escape_scopes = [''request'', ''session'', ''instance'', ''global'', ''unknown'']"

definition growth_coverage :: "string list" where
  "growth_coverage = [''complete'', ''partial'']"

definition growth_invalid :: "string \<Rightarrow> string option \<Rightarrow> py_exc" where
  "growth_invalid reason field = AnalyzerError ''ANALYSIS_GROWTH_INVALID''
     ''Growth candidate violates the normalized static-analysis contract.'' (reason_details reason field)"

record source_location =
  sl_file :: string
  sl_line :: int

definition SourceLocation :: "json \<Rightarrow> json \<Rightarrow> source_location res" where
  "SourceLocation file start_line =
     res_bind (checked_path growth_invalid file ''site_file'') (\<lambda>f.
     res_bind (checked_line growth_invalid start_line ''site_start_line'') (\<lambda>l.
     Inr \<lparr>sl_file = f, sl_line = l\<rparr>))"

definition location_to_dict :: "source_location \<Rightarrow> json" where
  "location_to_dict s = JObj [(''file'', JStr (sl_file s)), (''start_line'', JInt (sl_line s))]"

datatype demand_input = Demand (d_name: string) (d_role: string)

definition demand_key :: "demand_input \<Rightarrow> string \<times> string" where
  "demand_key d = (d_name d, d_role d)"

lemma demand_key_inj: "demand_key a = demand_key b \<longleftrightarrow> a = b"
  by (cases a; cases b) (auto simp: demand_key_def)

instantiation demand_input :: linorder
begin

definition less_eq_demand_input :: "demand_input \<Rightarrow> demand_input \<Rightarrow> bool" where
  "less_eq_demand_input a b = (demand_key a \<le> demand_key b)"

definition less_demand_input :: "demand_input \<Rightarrow> demand_input \<Rightarrow> bool" where
  "less_demand_input a b = (demand_key a < demand_key b)"

instance
  by standard (auto simp: less_eq_demand_input_def less_demand_input_def demand_key_inj less_le_not_le)

end

definition DemandInput :: "json \<Rightarrow> json \<Rightarrow> demand_input res" where
  "DemandInput name role =
     res_bind (checked_string growth_invalid name ''demand_input_name'') (\<lambda>n.
     res_bind (checked_enum growth_invalid role demand_roles ''demand_input_role'') (\<lambda>r.
     Inr (Demand n r)))"

definition demand_to_dict :: "demand_input \<Rightarrow> json" where
  "demand_to_dict d = JObj [(''name'', JStr (d_name d)), (''role'', JStr (d_role d))]"

definition fact_id_chars :: string where
  "fact_id_chars = ''ABCDEFGHIJKLMNOPQRSTUVWXYZabcdefghijklmnopqrstuvwxyz0123456789._-''"

definition is_fact_id :: "string \<Rightarrow> bool" where
  "is_fact_id s = (startswith s ''fact:'' \<and> drop 5 s \<noteq> [] \<and> list_all (\<lambda>c. c \<in> set fact_id_chars) (drop 5 s))"

text \<open>A frozen set of strings is represented by its sorted duplicate-free list.\<close>

record growth_candidate =
  growth_id :: string
  g_site :: source_location
  g_kind :: string
  g_operation :: string
  resource_id :: string
  g_dimension :: string
  g_receiver :: string
  g_field_path :: string
  g_demands :: "demand_input list"
  g_escape_scope :: string
  g_evidence :: "string list"
  g_coverage_status :: string
  g_coverage_notes :: "string list"

definition growth_resource_identity :: "growth_candidate \<Rightarrow> json" where
  "growth_resource_identity g = JObj [(''dimension'', JStr (g_dimension g)),
     (''receiver'', JStr (g_receiver g)), (''field_path'', JStr (g_field_path g))]"

definition growth_semantic_identity :: "growth_candidate \<Rightarrow> json" where
  "growth_semantic_identity g = JObj
     [(''site'', location_to_dict (g_site g)), (''kind'', JStr (g_kind g)),
      (''operation'', JStr (g_operation g)), (''resource_id'', JStr (resource_id g)),
      (''resource_dimension'', JStr (g_dimension g)), (''receiver'', JStr (g_receiver g)),
      (''field_path'', JStr (g_field_path g)),
      (''demand_inputs'', JArr (map demand_to_dict (g_demands g))),
      (''escape_scope'', JStr (g_escape_scope g)),
      (''evidence_ids'', JArr (map JStr (g_evidence g))),
      (''coverage_status'', JStr (g_coverage_status g)),
      (''coverage_notes'', JArr (map JStr (g_coverage_notes g)))]"

text \<open>\<open>GrowthCandidate.__post_init__\<close>\<close>

definition GrowthCandidate :: "growth_candidate \<Rightarrow> growth_candidate res" where
  "GrowthCandidate g =
     res_bind (checked_enum growth_invalid (JStr (g_kind g)) growth_kinds ''growth_kind'') (\<lambda>_.
     res_bind (checked_string growth_invalid (JStr (g_operation g)) ''operation'') (\<lambda>_.
     res_bind (checked_enum growth_invalid (JStr (g_dimension g)) resource_dimensions ''resource_dimension'') (\<lambda>_.
     res_bind (checked_enum growth_invalid (JStr (g_escape_scope g)) escape_scopes ''escape_scope'') (\<lambda>_.
     res_bind (checked_enum growth_invalid (JStr (g_coverage_status g)) growth_coverage ''coverage_status'') (\<lambda>_.
     res_bind (checked_string growth_invalid (JStr (g_receiver g)) ''receiver'') (\<lambda>_.
     res_bind (checked_string growth_invalid (JStr (g_field_path g)) ''field_path'') (\<lambda>_.
     let demands = usort (g_demands g); evidence = usort (g_evidence g); notes = usort (g_coverage_notes g) in
     if demands = [] \<or> length demands > 64 then Inl (growth_invalid ''DEMAND_INPUTS_INVALID'' (Some ''demand_inputs''))
     else if evidence = [] \<or> length evidence > 64 \<or> \<not> list_all is_fact_id evidence
     then Inl (growth_invalid ''EVIDENCE_INVALID'' (Some ''evidence_ids''))
     else if notes = [] \<or> length notes > 64 then Inl (growth_invalid ''COVERAGE_NOTES_INVALID'' (Some ''coverage_notes''))
     else res_bind (map_res (\<lambda>n. checked_string growth_invalid (JStr n) ''coverage_notes'') notes) (\<lambda>_.
     let g' = g\<lparr>g_demands := demands, g_evidence := evidence, g_coverage_notes := notes\<rparr> in
     if resource_id g' \<noteq> stable_identifier ''resource'' (growth_resource_identity g')
     then Inl (growth_invalid ''RESOURCE_ID_MISMATCH'' (Some ''resource_id''))
     else if growth_id g' \<noteq> stable_identifier ''growth'' (growth_semantic_identity g')
     then Inl (growth_invalid ''GROWTH_ID_MISMATCH'' (Some ''growth_id''))
     else Inr g'))))))))"

definition growth_create :: "source_location \<Rightarrow> string \<Rightarrow> string \<Rightarrow> string \<Rightarrow> string \<Rightarrow> string
    \<Rightarrow> demand_input list \<Rightarrow> string \<Rightarrow> string list \<Rightarrow> string \<Rightarrow> string list \<Rightarrow> growth_candidate res" where
  "growth_create site kind operation dimension receiver field_path demands escape evidence status notes =
     (let rid = stable_identifier ''resource'' (JObj [(''dimension'', JStr dimension),
            (''receiver'', JStr receiver), (''field_path'', JStr field_path)]);
          g = \<lparr>growth_id = [], g_site = site, g_kind = kind, g_operation = operation, resource_id = rid,
               g_dimension = dimension, g_receiver = receiver, g_field_path = field_path,
               g_demands = usort demands, g_escape_scope = escape, g_evidence = usort evidence,
               g_coverage_status = status, g_coverage_notes = usort notes\<rparr>
      in GrowthCandidate (g\<lparr>growth_id := stable_identifier ''growth'' (growth_semantic_identity g)\<rparr>))"

definition growth_to_dict :: "growth_candidate \<Rightarrow> json" where
  "growth_to_dict g = JObj
     [(''growth_id'', JStr (growth_id g)), (''site'', location_to_dict (g_site g)),
      (''kind'', JStr (g_kind g)), (''operation'', JStr (g_operation g)),
      (''resource_point'', JObj [(''resource_id'', JStr (resource_id g)), (''dimension'', JStr (g_dimension g)),
         (''receiver'', JStr (g_receiver g)), (''field_path'', JStr (g_field_path g))]),
      (''demand_inputs'', JArr (map demand_to_dict (g_demands g))),
      (''escape_scope'', JStr (g_escape_scope g)),
      (''candidate_evidence'', JArr (map JStr (g_evidence g))),
      (''coverage_status'', JStr (g_coverage_status g)),
      (''coverage_notes'', JArr (map JStr (g_coverage_notes g)))]"

section \<open>Candidates from query rows\<close>

definition growth_raw_fields :: "string list" where
  "growth_raw_fields = [''site_file'', ''site_start_line'', ''growth_kind'', ''operation'',
     ''resource_dimension'', ''receiver'', ''field_path'', ''demand_input_name'', ''demand_input_role'',
     ''escape_scope'', ''candidate_evidence'', ''coverage_status'', ''coverage_note'',
     ''query_name'', ''query_sha256'', ''site_location'']"

definition growth_evidence_id :: "json \<Rightarrow> source_location \<Rightarrow> string res" where
  "growth_evidence_id value site =
     res_bind (checked_string growth_invalid value ''candidate_evidence'') (\<lambda>evidence.
     if startswith evidence ''fact:'' then
       (if is_fact_id evidence then Inr evidence
        else Inl (growth_invalid ''EVIDENCE_ID_INVALID'' (Some ''candidate_evidence'')))
     else Inr (stable_identifier ''fact''
       (JObj [(''candidate_evidence'', JStr evidence), (''site'', location_to_dict site)])))"

record growth_row =
  gr_site :: source_location
  gr_kind :: string
  gr_operation :: string
  gr_dimension :: string
  gr_receiver :: string
  gr_field_path :: string
  gr_demand :: demand_input
  gr_escape_scope :: string
  gr_evidence_id :: string
  gr_coverage_status :: string
  gr_coverage_note :: string

definition growth_validated_raw :: "json \<Rightarrow> growth_row res" where
  "growth_validated_raw raw =
     (if \<not> has_fields raw growth_raw_fields then Inl (growth_invalid ''RAW_FIELDS_INVALID'' None) else
      let r = field_of (members raw); str = (\<lambda>f. checked_string growth_invalid (r f) f) in
      res_bind (checked_enum growth_invalid (r ''coverage_status'') growth_coverage ''coverage_status'') (\<lambda>status.
      res_bind (str ''coverage_note'') (\<lambda>note.
      res_bind (checked_path growth_invalid (r ''site_file'') ''site_file'') (\<lambda>file.
      res_bind (checked_line growth_invalid (r ''site_start_line'') ''site_start_line'') (\<lambda>line.
      res_bind (SourceLocation (JStr file) (JInt line)) (\<lambda>site.
      res_bind (checked_enum growth_invalid (r ''growth_kind'') growth_kinds ''growth_kind'') (\<lambda>kind.
      res_bind (str ''operation'') (\<lambda>operation.
      res_bind (checked_enum growth_invalid (r ''resource_dimension'') resource_dimensions ''resource_dimension'') (\<lambda>dimension.
      res_bind (str ''receiver'') (\<lambda>receiver.
      res_bind (str ''field_path'') (\<lambda>field_path.
      res_bind (str ''demand_input_name'') (\<lambda>dn.
      res_bind (checked_enum growth_invalid (r ''demand_input_role'') demand_roles ''demand_input_role'') (\<lambda>dr.
      res_bind (DemandInput (JStr dn) (JStr dr)) (\<lambda>demand.
      res_bind (checked_enum growth_invalid (r ''escape_scope'') escape_scopes ''escape_scope'') (\<lambda>escape.
      res_bind (growth_evidence_id (r ''candidate_evidence'') site) (\<lambda>evidence.
      Inr \<lparr>gr_site = site, gr_kind = kind, gr_operation = operation, gr_dimension = dimension,
           gr_receiver = receiver, gr_field_path = field_path, gr_demand = demand, gr_escape_scope = escape,
           gr_evidence_id = evidence, gr_coverage_status = status, gr_coverage_note = note\<rparr>))))))))))))))))"

definition growth_row_group :: "growth_row \<Rightarrow> json" where
  "growth_row_group i = JObj
     [(''site'', location_to_dict (gr_site i)), (''kind'', JStr (gr_kind i)),
      (''operation'', JStr (gr_operation i)), (''resource_dimension'', JStr (gr_dimension i)),
      (''receiver'', JStr (gr_receiver i)), (''field_path'', JStr (gr_field_path i)),
      (''escape_scope'', JStr (gr_escape_scope i))]"

definition candidate_from_rows :: "json list \<Rightarrow> growth_candidate res" where
  "candidate_from_rows rows = res_bind (map_res growth_validated_raw rows) (\<lambda>normalized.
     case normalized of [] \<Rightarrow> Inl (growth_invalid ''ROWS_REQUIRED'' None)
     | first # rest \<Rightarrow>
       (if list_ex (\<lambda>i. gr_site i \<noteq> gr_site first \<or> gr_kind i \<noteq> gr_kind first
             \<or> gr_operation i \<noteq> gr_operation first \<or> gr_dimension i \<noteq> gr_dimension first
             \<or> gr_receiver i \<noteq> gr_receiver first \<or> gr_field_path i \<noteq> gr_field_path first
             \<or> gr_escape_scope i \<noteq> gr_escape_scope first) rest
        then Inl (growth_invalid ''ROW_GROUP_MISMATCH'' None)
        else growth_create (gr_site first) (gr_kind first) (gr_operation first) (gr_dimension first)
          (gr_receiver first) (gr_field_path first) (map gr_demand normalized) (gr_escape_scope first)
          (map gr_evidence_id normalized)
          (if list_ex (\<lambda>i. gr_coverage_status i \<noteq> ''complete'') normalized then ''partial'' else ''complete'')
          (map gr_coverage_note normalized)))"

text \<open>\<open>groups.setdefault(key, []).append(row)\<close> on an insertion-ordered dictionary.\<close>

fun group_append :: "'k \<Rightarrow> 'a \<Rightarrow> ('k \<times> 'a list) list \<Rightarrow> ('k \<times> 'a list) list" where
  "group_append k x [] = [(k, [x])]"
| "group_append k x ((l, xs) # gs) = (if k = l then (l, xs @ [x]) # gs else (l, xs) # group_append k x gs)"

definition normalize_growth_rows :: "json list \<Rightarrow> json list res" where
  "normalize_growth_rows rows =
     (if length rows > 4096 then Inl (growth_invalid ''ROW_LIMIT'' None) else
      res_bind (map_res growth_validated_raw rows) (\<lambda>normalized.
      let groups = fold (\<lambda>(i, row). group_append (canonical_json (growth_row_group i)) row)
                     (zip normalized rows) []
      in res_bind (map_res (\<lambda>(_, group). candidate_from_rows group) (sort_key fst groups)) (\<lambda>candidates.
         Inr (map growth_to_dict
           (sort_key (\<lambda>g. canonical_json (growth_semantic_identity g)) candidates)))))"

end
