(* ===== verification/GrowthSlice.thy ===== *)
theory GrowthSlice
  imports GrowthModel
begin

text \<open>
  \<open>dosweb/growth/models.py\<close>: source excerpts, static facts, configuration and registration
  facts, the bounded slice with its limits; and \<open>build_bounded_slice\<close> of
  \<open>dosweb/growth/slices.py\<close>, the only producer of slices.
\<close>

definition slice_invalid :: py_exc where
  "slice_invalid = AnalyzerError ''LLM_BOUNDED_SLICE_INVALID''
     ''Bounded slice violates the strict public-source schema.'' []"

text \<open>\<open>_id(value, prefix)\<close>: at most 256 bytes and \<open>[a-z_]+:[A-Za-z0-9._-]+\<close>.\<close>

definition kind_chars :: string where
  "kind_chars = ''abcdefghijklmnopqrstuvwxyz_''"

definition is_id :: "string \<Rightarrow> string \<Rightarrow> bool" where
  "is_id value p = (length value \<le> 256 \<and> startswith value p \<and>
     (case split_once CHR '':'' value of None \<Rightarrow> False
      | Some (kind, rest) \<Rightarrow> kind \<noteq> [] \<and> list_all (\<lambda>c. c \<in> set kind_chars) kind
          \<and> rest \<noteq> [] \<and> list_all (\<lambda>c. c \<in> set fact_id_chars) rest))"

definition is_sha :: "string \<Rightarrow> bool" where
  "is_sha s = (length s = 64 \<and> list_all is_hex s)"

definition path_chars :: string where
  "path_chars = ''ABCDEFGHIJKLMNOPQRSTUVWXYZabcdefghijklmnopqrstuvwxyz0123456789._/-''"

section \<open>Excerpts and facts\<close>

record redaction_event =
  re_line :: int
  re_pattern :: string

record source_excerpt =
  excerpt_id :: string
  sx_path :: string
  sx_start_line :: int
  sx_end_line :: int
  sx_content :: string
  sx_git_blob_sha256 :: string
  sx_sha256 :: string
  sx_original_sha256 :: string
  sx_redactions :: "redaction_event list"
  sx_redaction_version :: string

definition redaction_patterns :: "string list" where
  "redaction_patterns = [''credential_assignment'', ''credential_header'', ''credential_mutator'']"

definition excerpt_valid :: "source_excerpt \<Rightarrow> bool" where
  "excerpt_valid x = (is_id (excerpt_id x) ''excerpt:''
     \<and> sx_path x \<noteq> [] \<and> length (sx_path x) \<le> 512 \<and> \<not> startswith (sx_path x) ''/''
     \<and> ''..'' \<notin> set (split_on CHR ''/'' (sx_path x)) \<and> list_all (\<lambda>c. c \<in> set path_chars) (sx_path x)
     \<and> 1 \<le> sx_start_line x \<and> sx_start_line x \<le> max_line
     \<and> sx_start_line x \<le> sx_end_line x \<and> sx_end_line x \<le> max_line
     \<and> sx_content x \<noteq> [] \<and> length (sx_content x) \<le> 16384
     \<and> is_sha (sx_git_blob_sha256 x) \<and> is_sha (sx_sha256 x) \<and> is_sha (sx_original_sha256 x)
     \<and> sha256_hex (sx_content x) = sx_sha256 x
     \<and> sx_redaction_version x \<noteq> [] \<and> length (sx_redaction_version x) \<le> 32)"

definition SourceExcerpt :: "source_excerpt \<Rightarrow> source_excerpt res" where
  "SourceExcerpt x0 =
     (let x = (if sx_original_sha256 x0 = [] then x0\<lparr>sx_original_sha256 := sx_sha256 x0\<rparr> else x0) in
      if length (sx_redactions x) > 256
         \<or> \<not> list_all (\<lambda>e. 1 \<le> re_line e \<and> re_line e \<le> max_line \<and> re_pattern e \<in> set redaction_patterns)
               (sx_redactions x)
         \<or> \<not> excerpt_valid x
      then Inl slice_invalid else Inr x)"

definition excerpt_to_dict :: "source_excerpt \<Rightarrow> json" where
  "excerpt_to_dict x = JObj
     [(''excerpt_id'', JStr (excerpt_id x)), (''repo_relative_path'', JStr (sx_path x)),
      (''start_line'', JInt (sx_start_line x)), (''end_line'', JInt (sx_end_line x)),
      (''content'', JStr (sx_content x)), (''git_blob_sha256'', JStr (sx_git_blob_sha256 x)),
      (''excerpt_sha256'', JStr (sx_sha256 x)), (''original_excerpt_sha256'', JStr (sx_original_sha256 x)),
      (''redaction_events'', JArr (map (\<lambda>e. JObj [(''line'', JInt (re_line e)),
         (''pattern_id'', JStr (re_pattern e))]) (sx_redactions x))),
      (''redaction_version'', JStr (sx_redaction_version x))]"

record static_fact =
  fact_id :: string
  sf_kind :: string
  sf_location_ref :: string
  sf_relation :: string
  sf_value_ref :: "string option"
  sf_value :: "string option"

definition static_fact_kinds :: "string list" where
  "static_fact_kinds = [''container_write'', ''allocation'', ''input_materialization'', ''async_submission'',
     ''flow'', ''guard'', ''bound'', ''release'', ''driver_origin'', ''value_space'', ''escape_scope'',
     ''retention'', ''amplification'', ''loop_multiplicity'', ''field_identity'',
     ''materialization_phase'', ''known_limit_location'', ''attacker_target'']"

definition static_fact_values :: "string \<rightharpoonup> string list" where
  "static_fact_values = map_of
     [(''driver_origin'', [''request_body'', ''request_parameter'', ''request_path'', ''request_header'',
         ''request_stream'', ''network_message'', ''server_controlled'', ''unknown'']),
      (''value_space'', [''stream'', ''unlimited'', ''large'', ''limited'', ''server_controlled'', ''unknown'']),
      (''escape_scope'', [''request'', ''session'', ''instance'', ''global'', ''unknown'']),
      (''retention'', [''request'', ''session'', ''process'', ''until_release'', ''unknown'']),
      (''amplification'', [''superlinear'', ''large_single_request'', ''concurrent_retention'',
         ''queue_instability'', ''high_cardinality_retention'', ''low_amplification'', ''unknown'']),
      (''loop_multiplicity'', [''single_operation'', ''repeated_requests'', ''attacker_controlled_loop'',
         ''concurrent_requests'', ''unknown'']),
      (''field_identity'', [''attacker_key'', ''attacker_value'', ''field_backed'', ''request_local'',
         ''fixed_key'', ''unknown'']),
      (''materialization_phase'', [''before_handler'', ''in_handler'', ''streaming'', ''after_handler'',
         ''unknown'']),
      (''known_limit_location'', [''pre_growth'', ''post_growth'', ''configured_unknown_phase'', ''none'',
         ''unknown'']),
      (''attacker_target'', [''size'', ''key'', ''value'', ''iteration_count'', ''submission_count'', ''unknown''])]"

definition normalized_valid :: "string \<Rightarrow> string option \<Rightarrow> bool" where
  "normalized_valid kind value = (case static_fact_values kind of
       Some allowed \<Rightarrow> (case value of None \<Rightarrow> False | Some v \<Rightarrow> v \<in> set allowed)
     | None \<Rightarrow> (case value of None \<Rightarrow> True
         | Some v \<Rightarrow> kind = ''flow'' \<and> v \<in> set (the (static_fact_values ''driver_origin''))))"

definition StaticFact :: "static_fact \<Rightarrow> static_fact res" where
  "StaticFact f = (if \<not> is_id (fact_id f) ''fact:'' \<or> sf_kind f \<notin> set static_fact_kinds
       \<or> \<not> is_id (sf_location_ref f) ''excerpt:''
       \<or> sf_relation f \<notin> {''source'', ''sink'', ''flows_to'', ''guards'', ''bounds'', ''releases''}
       \<or> (case sf_value_ref f of None \<Rightarrow> False | Some v \<Rightarrow> \<not> is_id v ''fact:'')
       \<or> \<not> normalized_valid (sf_kind f) (sf_value f)
     then Inl slice_invalid else Inr f)"

definition opt_str :: "string option \<Rightarrow> json" where
  "opt_str v = (case v of None \<Rightarrow> JNull | Some s \<Rightarrow> JStr s)"

definition static_fact_to_dict :: "static_fact \<Rightarrow> json" where
  "static_fact_to_dict f = JObj
     [(''fact_id'', JStr (fact_id f)), (''kind'', JStr (sf_kind f)),
      (''location_ref'', JStr (sf_location_ref f)), (''relation'', JStr (sf_relation f)),
      (''value_ref'', opt_str (sf_value_ref f)), (''normalized_value'', opt_str (sf_value f))]"

record cfg_summary =
  cfg_path_ids :: "string list"
  cfg_phases :: "string list"
  cfg_branch_facts :: "string list"

definition CfgSummary :: "cfg_summary \<Rightarrow> cfg_summary res" where
  "CfgSummary c = (if length (cfg_path_ids c) > 64 \<or> length (cfg_phases c) > 16 \<or> length (cfg_branch_facts c) > 256
       \<or> \<not> list_all (\<lambda>x. is_id x ''path:'') (cfg_path_ids c) \<or> \<not> distinct (cfg_path_ids c)
       \<or> \<not> list_all (\<lambda>x. x \<in> {''before_handler'', ''in_handler'', ''streaming'', ''after_handler''}) (cfg_phases c)
       \<or> \<not> list_all (\<lambda>x. is_id x ''fact:'') (cfg_branch_facts c)
     then Inl slice_invalid else Inr c)"

definition cfg_to_dict :: "cfg_summary \<Rightarrow> json" where
  "cfg_to_dict c = JObj [(''path_ids'', JArr (map JStr (cfg_path_ids c))),
     (''phases'', JArr (map JStr (cfg_phases c))), (''branch_facts'', JArr (map JStr (cfg_branch_facts c)))]"

record slice_registration =
  sr_kind :: string
  sr_location_ref :: string

definition slice_registration_to_dict :: "slice_registration \<Rightarrow> json" where
  "slice_registration_to_dict r = JObj [(''kind'', JStr (sr_kind r)), (''location_ref'', JStr (sr_location_ref r))]"

definition SliceRegistration :: "slice_registration \<Rightarrow> slice_registration res" where
  "SliceRegistration r = (if sr_kind r \<notin> {''spring_mvc'', ''servlet'', ''netty'', ''mqtt'', ''jax_rs'', ''grpc''}
       \<or> \<not> is_id (sr_location_ref r) ''excerpt:'' then Inl slice_invalid else Inr r)"

datatype config_value = ConfigWord string | ConfigNumber int

record config_fact =
  cf_kind :: string
  cf_value :: config_value
  cf_location_ref :: string
  cf_config_id :: "string option"

definition max_config_integer :: int where
  "max_config_integer = 9223372036854775807"

definition ConfigFact :: "config_fact \<Rightarrow> config_fact res" where
  "ConfigFact f =
     (let valid_value = (case cf_value f of
            ConfigWord w \<Rightarrow> w \<in> {''enabled'', ''disabled'', ''finite'', ''unbounded'', ''unknown''}
          | ConfigNumber n \<Rightarrow> - max_config_integer \<le> n \<and> n \<le> max_config_integer) in
      if cf_kind f \<notin> {''request_limit'', ''timeout'', ''capacity'', ''feature_state''} \<or> \<not> valid_value
         \<or> \<not> (is_id (cf_location_ref f) ''excerpt:'' \<or> is_id (cf_location_ref f) ''config:'')
         \<or> (case cf_config_id f of None \<Rightarrow> False | Some i \<Rightarrow> \<not> is_id i ''config:'')
      then Inl slice_invalid
      else if startswith (cf_location_ref f) ''config:'' \<and> Some (cf_location_ref f) \<noteq> cf_config_id f
      then Inl slice_invalid else Inr f)"

definition config_fact_to_dict :: "config_fact \<Rightarrow> json" where
  "config_fact_to_dict f = JObj
     [(''kind'', JStr (cf_kind f)),
      (''normalized_value'', case cf_value f of ConfigWord w \<Rightarrow> JStr w | ConfigNumber n \<Rightarrow> JInt n),
      (''source_location_ref'', JStr (cf_location_ref f)), (''config_id'', opt_str (cf_config_id f))]"

section \<open>The bounded slice\<close>

record slice_payload =
  sp_entry_id :: string
  sp_growth_id :: string
  sp_excerpts :: "source_excerpt list"
  sp_facts :: "static_fact list"
  sp_cfg :: cfg_summary
  sp_registrations :: "slice_registration list"
  sp_configs :: "config_fact list"

definition payload_to_dict :: "slice_payload \<Rightarrow> json" where
  "payload_to_dict p = JObj
     [(''entry_id'', JStr (sp_entry_id p)), (''growth_id'', JStr (sp_growth_id p)),
      (''source_excerpts'', JArr (map excerpt_to_dict (sp_excerpts p))),
      (''static_facts'', JArr (map static_fact_to_dict (sp_facts p))),
      (''cfg_summary'', cfg_to_dict (sp_cfg p)),
      (''registration_facts'', JArr (map slice_registration_to_dict (sp_registrations p))),
      (''config_facts'', JArr (map config_fact_to_dict (sp_configs p)))]"

definition BoundedSlicePayload :: "slice_payload \<Rightarrow> slice_payload res" where
  "BoundedSlicePayload p =
     (let refs = map excerpt_id (sp_excerpts p); facts = map fact_id (sp_facts p);
          source_locs = map sf_location_ref (sp_facts p) @ map sr_location_ref (sp_registrations p);
          config_locs_valid = list_all (\<lambda>c. cf_location_ref c \<in> set refs
            \<or> Some (cf_location_ref c) = cf_config_id c) (sp_configs p)
      in if length (sp_excerpts p) > 64 \<or> length (sp_facts p) > 256 \<or> length (sp_registrations p) > 64
            \<or> length (sp_configs p) > 64
         then Inl slice_invalid
         else if \<not> is_id (sp_entry_id p) ''entry:'' \<or> \<not> is_id (sp_growth_id p) ''growth:''
            \<or> refs = [] \<or> \<not> distinct refs \<or> \<not> distinct facts
            \<or> \<not> list_all (\<lambda>x. x \<in> set refs) source_locs \<or> \<not> config_locs_valid
            \<or> \<not> list_all (\<lambda>x. x \<in> set facts) (cfg_branch_facts (sp_cfg p))
            \<or> \<not> list_all (\<lambda>f. case sf_value_ref f of None \<Rightarrow> True | Some v \<Rightarrow> v \<in> set facts) (sp_facts p)
         then Inl slice_invalid
         else if list_ex (\<lambda>x. length (sx_content x) > 16384) (sp_excerpts p)
            \<or> sum_list (map (\<lambda>x. length (sx_content x)) (sp_excerpts p)) > 65536
         then Inl slice_invalid
         else if length (canonical_json (payload_to_dict p)) > 131072 then Inl slice_invalid
         else Inr p)"

record bounded_slice =
  slice_id :: string
  slice_body :: slice_payload

definition BoundedSlice :: "bounded_slice \<Rightarrow> bounded_slice res" where
  "BoundedSlice s = (if \<not> is_id (slice_id s) ''slice:'' then Inl slice_invalid else Inr s)"

definition build_bounded_slice :: "string \<Rightarrow> growth_candidate \<Rightarrow> source_excerpt list \<Rightarrow> static_fact list
    \<Rightarrow> cfg_summary \<Rightarrow> slice_registration list \<Rightarrow> config_fact list \<Rightarrow> bounded_slice res" where
  "build_bounded_slice eid candidate source_excerpts static_facts cfg registrations configs =
     (if \<not> startswith eid ''entry:'' then Inl (growth_invalid ''SLICE_IDENTITY_INVALID'' None) else
      let excerpts = sort_key (\<lambda>x. canonical_json (excerpt_to_dict x)) source_excerpts;
          facts = sort_key fact_id static_facts;
          regs = sort_key (\<lambda>r. canonical_json (slice_registration_to_dict r)) registrations;
          cfs = sort_key (\<lambda>c. canonical_json (config_fact_to_dict c)) configs in
      if excerpts = [] \<or> \<not> list_ex (\<lambda>x. sx_path x = sl_file (g_site candidate)
           \<and> sx_start_line x \<le> sl_line (g_site candidate) \<and> sl_line (g_site candidate) \<le> sx_end_line x) excerpts
      then Inl (growth_invalid ''CANDIDATE_LOCATION_OUTSIDE_SLICE'' None)
      else if \<not> list_all (\<lambda>e. e \<in> set (map fact_id facts)) (g_evidence candidate)
      then Inl (growth_invalid ''CANDIDATE_EVIDENCE_UNMAPPED'' (Some ''evidence_ids'')) else
      res_bind (CfgSummary (cfg\<lparr>cfg_branch_facts := usort (cfg_branch_facts cfg)\<rparr>)) (\<lambda>normalized_cfg.
      res_bind (BoundedSlicePayload \<lparr>sp_entry_id = eid, sp_growth_id = growth_id candidate,
          sp_excerpts = excerpts, sp_facts = facts, sp_cfg = normalized_cfg, sp_registrations = regs,
          sp_configs = cfs\<rparr>) (\<lambda>payload.
      BoundedSlice \<lparr>slice_id = stable_identifier ''slice'' (payload_to_dict payload), slice_body = payload\<rparr>)))"

text \<open>The local contract that binds the provider's answer to a candidate.\<close>

record attacker_influence =
  ai_target :: string
  ai_evidence_id :: string

record growth_contract =
  gc_is_resource_growth :: string
  gc_growth_kind :: string
  gc_resource_dimension :: string
  gc_attacker_influence :: "attacker_influence list"
  gc_resource_effect :: string
  gc_attacker_variable :: string
  gc_attacker_value_space :: string
  gc_growth_unit :: string
  gc_growth_function :: string
  gc_amplification_class :: string
  gc_requests_to_pressure :: string
  gc_concurrency_model :: string
  gc_retention_window :: string
  gc_failure_mechanism :: string
  gc_failure_signal :: string
  gc_required_static_evidence :: "string list"
  gc_contract_status :: string
  gc_rejection_reason :: string
  gc_confidence :: string

end
