(* ===== verification/CheckChain.thy ===== *)
theory CheckChain
  imports Prelude
begin

text \<open>
  The verification functions of the analyzer are sequences of checks with early return: a
  failing check is recorded with its reason and ends the run with a status, a passing one is
  recorded and the run goes on; when every check has passed the status is the positive one.
  A run is modelled as a list of gates in the order of the code.
\<close>

record check =
  check_name :: string
  passed :: bool
  reason_code :: "string option"

definition ok_check :: "string \<Rightarrow> check" where
  "ok_check n = \<lparr>check_name = n, passed = True, reason_code = None\<rparr>"

definition failed_check :: "string \<Rightarrow> string \<Rightarrow> check" where
  "failed_check n r = \<lparr>check_name = n, passed = False, reason_code = Some r\<rparr>"

text \<open>A gate: its check, whether it passes, and what a failure returns. The reason of the
  failed check is the first of the returned reasons.\<close>

record 'st gate =
  gate_name :: string
  gate_ok :: bool
  gate_status :: 'st
  gate_reasons :: "string list"
  gate_unresolved :: "string list"

record 'st outcome =
  oc_status :: 'st
  oc_reasons :: "string list"
  oc_checks :: "check list"
  oc_unresolved :: "string list"

fun run_gates :: "'st \<Rightarrow> 'st gate list \<Rightarrow> check list \<Rightarrow> 'st outcome" where
  "run_gates good [] checks = \<lparr>oc_status = good, oc_reasons = [], oc_checks = checks, oc_unresolved = []\<rparr>"
| "run_gates good (g # gs) checks =
     (if gate_ok g then run_gates good gs (checks @ [ok_check (gate_name g)])
      else \<lparr>oc_status = gate_status g, oc_reasons = gate_reasons g,
            oc_checks = checks @ [failed_check (gate_name g) (hd (gate_reasons g))],
            oc_unresolved = gate_unresolved g\<rparr>)"

definition first_failure :: "'st gate list \<Rightarrow> 'st gate option" where
  "first_failure gs = find (\<lambda>g. \<not> gate_ok g) gs"

lemma passed_simps [simp]:
  "passed (ok_check n)" "\<not> passed (failed_check n r)"
  "check_name (ok_check n) = n" "check_name (failed_check n r) = n"
  by (simp_all add: ok_check_def failed_check_def)

lemma run_gates_outcome:
  "run_gates good gs checks = (case first_failure gs of
       None \<Rightarrow> \<lparr>oc_status = good, oc_reasons = [], oc_checks = checks @ map (\<lambda>g. ok_check (gate_name g)) gs,
               oc_unresolved = []\<rparr>
     | Some g \<Rightarrow> \<lparr>oc_status = gate_status g, oc_reasons = gate_reasons g,
          oc_checks = checks @ map (\<lambda>g. ok_check (gate_name g)) (takeWhile gate_ok gs)
             @ [failed_check (gate_name g) (hd (gate_reasons g))],
          oc_unresolved = gate_unresolved g\<rparr>)"
  by (induction good gs checks rule: run_gates.induct) (simp_all add: first_failure_def split: option.split)

lemma first_failure_None: "first_failure gs = None \<longleftrightarrow> list_all gate_ok gs"
  by (auto simp: first_failure_def find_None_iff list_all_iff)

lemma first_failure_SomeD: "first_failure gs = Some g \<Longrightarrow> g \<in> set gs \<and> \<not> gate_ok g"
  by (auto simp: first_failure_def find_Some_iff)

section \<open>What every such run guarantees\<close>

locale check_chain =
  fixes gates :: "'a \<Rightarrow> 'st gate list" and good :: 'st
  assumes failures_are_not_good: "g \<in> set (gates x) \<Longrightarrow> gate_status g \<noteq> good"
    and failures_have_reasons: "g \<in> set (gates x) \<Longrightarrow> gate_reasons g \<noteq> []"
begin

lemma good_iff: "oc_status (run_gates good (gates x) cs) = good \<longleftrightarrow> list_all gate_ok (gates x)"
  using failures_are_not_good first_failure_SomeD
  by (fastforce simp: run_gates_outcome first_failure_None[symmetric] split: option.splits)

lemma reasons_iff: "oc_reasons (run_gates good (gates x) cs) = [] \<longleftrightarrow> oc_status (run_gates good (gates x) cs) = good"
  using failures_are_not_good failures_have_reasons first_failure_SomeD
  by (fastforce simp: run_gates_outcome split: option.splits)

lemma all_passed_iff:
  "list_all passed cs \<Longrightarrow> list_all passed (oc_checks (run_gates good (gates x) cs))
     \<longleftrightarrow> oc_status (run_gates good (gates x) cs) = good"
  using failures_are_not_good first_failure_SomeD
  by (fastforce simp: run_gates_outcome list_all_iff split: option.splits)

lemma failure:
  assumes "oc_status (run_gates good (gates x) cs) \<noteq> good"
  obtains g where "g \<in> set (gates x)" "\<not> gate_ok g" "first_failure (gates x) = Some g"
    "oc_status (run_gates good (gates x) cs) = gate_status g"
    "oc_reasons (run_gates good (gates x) cs) = gate_reasons g"
  using assms first_failure_SomeD[of "gates x"]
  by (auto simp: run_gates_outcome split: option.splits)

lemma checks_nonempty: "gates x \<noteq> [] \<Longrightarrow> oc_checks (run_gates good (gates x) cs) \<noteq> []"
  by (auto simp: run_gates_outcome split: option.splits)

end

end
