(* ===== verification/GrowthVerify.thy ===== *)
theory GrowthVerify
  imports GrowthSlice CheckChain
begin

text \<open>
  \<open>dosweb/growth/verify.py\<close>: the verification of a provider's Growth Contract against the
  static facts of the bounded slice. A provider assertion is accepted only where independent
  static evidence confirms it.
\<close>

section \<open>Status and result\<close>

datatype growth_status = Verified | Rejected | Unresolved

fun growth_status_name :: "growth_status \<Rightarrow> string" where
  "growth_status_name Verified = ''verified''"
| "growth_status_name Rejected = ''rejected''"
| "growth_status_name Unresolved = ''unresolved''"

definition growth_statuses :: "growth_status list" where
  "growth_statuses = [Verified, Rejected, Unresolved]"

interpretation growth_status: literal_type growth_status_name growth_statuses
proof
  fix x show "x \<in> set growth_statuses" by (cases x) (simp_all add: growth_statuses_def)
qed (simp add: growth_statuses_def)

record verified_growth =
  verified_growth_id :: string
  vg_growth_id :: string
  vg_slice_id :: string
  vg_status :: growth_status
  vg_reasons :: "string list"
  vg_checks :: "check list"
  vg_candidate :: "growth_candidate option"

definition growth_verification_invalid :: "string \<Rightarrow> py_exc" where
  "growth_verification_invalid message = AnalyzerError ''ANALYSIS_GROWTH_VERIFICATION_INVALID'' message []"

definition VerifiedGrowthResult :: "verified_growth \<Rightarrow> verified_growth res" where
  "VerifiedGrowthResult r =
     (if \<not> startswith (verified_growth_id r) ''verified_growth:'' \<or> \<not> startswith (vg_growth_id r) ''growth:''
         \<or> \<not> startswith (vg_slice_id r) ''slice:'' \<or> \<not> list_all (\<lambda>x. x \<noteq> []) (vg_reasons r)
      then Inl (growth_verification_invalid ''Growth verification result is malformed.'')
      else if vg_status r = Verified \<and> (vg_reasons r \<noteq> [] \<or> vg_checks r = [] \<or> \<not> list_all passed (vg_checks r))
      then Inl (growth_verification_invalid ''Verified growth requires successful checks and no failure reasons.'')
      else if vg_status r \<noteq> Verified \<and> vg_reasons r = []
      then Inl (growth_verification_invalid ''Non-verified growth requires a reason.'')
      else if (case vg_candidate r of None \<Rightarrow> False | Some c \<Rightarrow> growth_id c \<noteq> vg_growth_id r)
      then Inl (growth_verification_invalid ''Growth semantic context is incompatible.'')
      else Inr r)"

definition check_to_dict :: "check \<Rightarrow> json" where
  "check_to_dict c = JObj [(''name'', JStr (check_name c)), (''passed'', JBool (passed c)),
     (''reason_code'', opt_str (reason_code c))]"

definition verified_growth_identity :: "verified_growth \<Rightarrow> (string \<times> json) list" where
  "verified_growth_identity r =
     [(''growth_id'', JStr (vg_growth_id r)), (''slice_id'', JStr (vg_slice_id r)),
      (''status'', JStr (growth_status_name (vg_status r))),
      (''reason_codes'', JArr (map JStr (vg_reasons r))),
      (''checks'', JArr (map check_to_dict (vg_checks r)))]"

definition verified_growth_to_dict :: "verified_growth \<Rightarrow> (string \<times> json) list" where
  "verified_growth_to_dict r = (''verified_growth_id'', JStr (verified_growth_id r)) # verified_growth_identity r"

definition verified_growth_create :: "growth_candidate \<Rightarrow> string \<Rightarrow> growth_status \<Rightarrow> string list \<Rightarrow> check list
    \<Rightarrow> verified_growth res" where
  "verified_growth_create candidate sid status reasons checks =
     (let r = \<lparr>verified_growth_id = [], vg_growth_id = growth_id candidate, vg_slice_id = sid,
               vg_status = status, vg_reasons = reasons, vg_checks = checks, vg_candidate = Some candidate\<rparr>
      in VerifiedGrowthResult
           (r\<lparr>verified_growth_id := stable_identifier ''verified_growth'' (JObj (verified_growth_identity r))\<rparr>))"

section \<open>The checks\<close>

text \<open>The checks of one verification, in the order of the code. The last three look at the
  facts the contract requires; the facts it cites are those and the ones of its attacker
  influences.\<close>

type_synonym fact_index = "string \<rightharpoonup> static_fact"

definition slice_facts :: "bounded_slice \<Rightarrow> fact_index" where
  "slice_facts s = index_by fact_id (sp_facts (slice_body s))"

definition influence_ids :: "growth_contract \<Rightarrow> string list" where
  "influence_ids c = map ai_evidence_id (gc_attacker_influence c)"

definition cited_ids :: "growth_contract \<Rightarrow> string list" where
  "cited_ids c = gc_required_static_evidence c @ influence_ids c"

definition origin_relation :: "static_fact \<Rightarrow> bool" where
  "origin_relation f = (sf_relation f \<in> {''source'', ''flows_to''})"

definition influence_ok :: "growth_candidate \<Rightarrow> bounded_slice \<Rightarrow> fact_index \<Rightarrow> attacker_influence \<Rightarrow> bool" where
  "influence_ok candidate s index i =
     (ai_target i \<in> d_role ` set (g_demands candidate)
      \<and> (case index (ai_evidence_id i) of None \<Rightarrow> False | Some f \<Rightarrow> origin_relation f)
      \<and> (case slice_facts s (ai_evidence_id i) of None \<Rightarrow> False | Some f \<Rightarrow> origin_relation f))"

definition driver_values :: "string list" where
  "driver_values = [''request_body'', ''request_parameter'', ''request_path'', ''request_header'',
     ''request_stream'', ''network_message'']"

definition driver_ok :: "fact_index \<Rightarrow> attacker_influence \<Rightarrow> bool" where
  "driver_ok index i = (case index (ai_evidence_id i) of None \<Rightarrow> False
     | Some f \<Rightarrow> sf_kind f \<in> {''flow'', ''driver_origin''} \<and> sf_value f \<in> Some ` set driver_values)"

definition required_fact :: "growth_contract \<Rightarrow> fact_index \<Rightarrow> (static_fact \<Rightarrow> bool) \<Rightarrow> bool" where
  "required_fact c index P =
     list_ex (\<lambda>i. case index i of None \<Rightarrow> False | Some f \<Rightarrow> P f) (gc_required_static_evidence c)"

definition growth_gate :: "string \<Rightarrow> bool \<Rightarrow> growth_status \<Rightarrow> string \<Rightarrow> growth_status gate" where
  "growth_gate name ok status reason = \<lparr>gate_name = name, gate_ok = ok, gate_status = status,
     gate_reasons = [reason], gate_unresolved = []\<rparr>"

text \<open>The checks of the candidate against its contract, then those of the cited evidence.\<close>

definition contract_gates :: "growth_candidate \<Rightarrow> growth_contract \<Rightarrow> growth_status gate list" where
  "contract_gates candidate c =
     [growth_gate ''growth_coverage'' (g_coverage_status candidate = ''complete'') Unresolved
        ''GROWTH_COVERAGE_INCOMPLETE'',
      growth_gate ''dos_relevance'' (gc_contract_status c \<notin> {''growth_not_dos_relevant'', ''unknown''})
        (if gc_contract_status c = ''growth_not_dos_relevant'' then Rejected else Unresolved)
        (if gc_contract_status c = ''growth_not_dos_relevant'' then ''GROWTH_NOT_DOS_RELEVANT''
         else ''GROWTH_DOS_RELEVANCE_UNKNOWN''),
      growth_gate ''resource_growth'' (gc_is_resource_growth c \<notin> {''no'', ''unknown''})
        (if gc_is_resource_growth c = ''no'' then Rejected else Unresolved)
        (if gc_is_resource_growth c = ''no'' then ''GROWTH_CONTRACT_NEGATED'' else ''GROWTH_CONTRACT_UNKNOWN''),
      growth_gate ''growth_kind'' (gc_growth_kind c = g_kind candidate) Unresolved ''GROWTH_KIND_MISMATCH'',
      growth_gate ''resource_dimension'' (gc_resource_dimension c = g_dimension candidate) Unresolved
          ''GROWTH_DIMENSION_MISMATCH'',
      growth_gate ''failure_mechanism'' (gc_failure_mechanism c \<notin> {''none'', ''unknown''}) Unresolved
          ''GROWTH_FAILURE_MECHANISM_UNPROVEN'',
      growth_gate ''requests_to_pressure'' (gc_requests_to_pressure c \<noteq> ''implausible'') Unresolved
          ''GROWTH_PRESSURE_IMPLAUSIBLE'',
      growth_gate ''attacker_value_space'' (gc_attacker_value_space c \<in> {''stream'', ''unlimited'', ''large''})
          Unresolved ''GROWTH_ATTACKER_VALUE_SPACE_UNPROVEN'',
      growth_gate ''amplification_class'' (gc_amplification_class c \<notin> {''low_amplification'', ''unknown''})
          Unresolved ''GROWTH_AMPLIFICATION_NOT_DOS_RELEVANT'']"

definition evidence_gates :: "growth_candidate \<Rightarrow> bounded_slice \<Rightarrow> growth_contract \<Rightarrow> fact_index
    \<Rightarrow> growth_status gate list" where
  "evidence_gates candidate s c index =
    (let allowed_locations = excerpt_id ` set (sp_excerpts (slice_body s)) in
     [growth_gate ''required_static_evidence''
          (gc_required_static_evidence c \<noteq> [] \<and> influence_ids c \<noteq> []
           \<and> list_all (\<lambda>i. slice_facts s i \<noteq> None \<and> index i \<noteq> None) (cited_ids c))
          Unresolved ''GROWTH_UNMAPPED_REQUIRED_EVIDENCE'',
      growth_gate ''allowed_locations''
          (list_all (\<lambda>i. case index i of None \<Rightarrow> True | Some f \<Rightarrow> sf_location_ref f \<in> allowed_locations)
             (cited_ids c))
          Unresolved ''GROWTH_LOCATION_OUTSIDE_SLICE'',
      growth_gate ''evidence_identity'' (list_all (\<lambda>i. index i = slice_facts s i) (cited_ids c))
          Unresolved ''GROWTH_UNMAPPED_REQUIRED_EVIDENCE'',
      growth_gate ''attacker_influence'' (list_all (influence_ok candidate s index) (gc_attacker_influence c))
          Unresolved ''GROWTH_UNMAPPED_ATTACKER_INFLUENCE'',
      growth_gate ''driver_origin'' (list_all (driver_ok index) (gc_attacker_influence c))
          Unresolved ''GROWTH_DRIVER_EVIDENCE_UNMAPPED'',
      growth_gate ''value_space_evidence'' (required_fact c index (\<lambda>f. sf_kind f = ''value_space''
            \<and> sf_value f = Some (gc_attacker_value_space c) \<and> origin_relation f))
          Unresolved ''GROWTH_VALUE_SPACE_EVIDENCE_UNMAPPED'',
      growth_gate ''retention_evidence'' (required_fact c index (\<lambda>f. sf_kind f = ''retention''
            \<and> sf_value f = Some (gc_retention_window c) \<and> sf_relation f = ''sink''))
          Unresolved ''GROWTH_RETENTION_EVIDENCE_UNMAPPED'',
      growth_gate ''amplification_evidence'' (required_fact c index (\<lambda>f. sf_kind f = ''amplification''
            \<and> sf_value f = Some (gc_amplification_class c) \<and> sf_relation f = ''sink''))
          Unresolved ''GROWTH_AMPLIFICATION_EVIDENCE_UNMAPPED''])"

definition growth_gates :: "growth_candidate \<times> bounded_slice \<times> growth_contract \<times> fact_index
    \<Rightarrow> growth_status gate list" where
  "growth_gates = (\<lambda>(candidate, s, c, index). contract_gates candidate c @ evidence_gates candidate s c index)"

lemmas growth_gates_defs = growth_gates_def contract_gates_def evidence_gates_def

definition verify_growth_contract :: "growth_candidate \<Rightarrow> bounded_slice \<Rightarrow> growth_contract \<Rightarrow> fact_index
    \<Rightarrow> verified_growth res" where
  "verify_growth_contract candidate s contract index =
     (if sp_growth_id (slice_body s) \<noteq> growth_id candidate
      then Inl (growth_verification_invalid ''Growth verification inputs are incompatible.'')
      else let o' = run_gates Verified (growth_gates (candidate, s, contract, index)) [] in
        verified_growth_create candidate (slice_id s) (oc_status o') (oc_reasons o') (oc_checks o'))"

section \<open>Interpretation of the check chain\<close>

lemma growth_gate_ok: "gate_ok (growth_gate n ok st r) = ok"
  by (simp add: growth_gate_def)

definition negative_gate :: "growth_status gate \<Rightarrow> bool" where
  "negative_gate \<gamma> = (gate_status \<gamma> \<noteq> Verified \<and> gate_reasons \<gamma> \<noteq> [] \<and> [] \<notin> set (gate_reasons \<gamma>))"

lemma negative_growth_gate: "negative_gate (growth_gate n ok st r) = (st \<noteq> Verified \<and> r \<noteq> [])"
  by (auto simp: negative_gate_def growth_gate_def)

lemma growth_gates_negative: "list_all negative_gate (growth_gates x)"
  unfolding growth_gates_defs Let_def case_prod_beta append.simps
  by (simp only: list.pred_inject negative_growth_gate simp_thms growth_status.simps list.simps split: if_split)

lemma growth_gates_negative_in: "\<gamma> \<in> set (growth_gates x) \<Longrightarrow> negative_gate \<gamma>"
  using growth_gates_negative by (auto simp: list_all_iff)

interpretation growth_chain: check_chain growth_gates Verified
  by standard (simp_all add: growth_gates_negative_in[unfolded negative_gate_def])

text \<open>What it takes for a Growth to be verified.\<close>

definition growth_contract_admitted :: "growth_candidate \<Rightarrow> growth_contract \<Rightarrow> bool" where
  "growth_contract_admitted g c \<longleftrightarrow>
     g_coverage_status g = ''complete''
   \<and> gc_contract_status c \<notin> {''growth_not_dos_relevant'', ''unknown''}
   \<and> gc_is_resource_growth c \<notin> {''no'', ''unknown''}
   \<and> gc_growth_kind c = g_kind g \<and> gc_resource_dimension c = g_dimension g
   \<and> gc_failure_mechanism c \<notin> {''none'', ''unknown''}
   \<and> gc_requests_to_pressure c \<noteq> ''implausible''
   \<and> gc_attacker_value_space c \<in> {''stream'', ''unlimited'', ''large''}
   \<and> gc_amplification_class c \<notin> {''low_amplification'', ''unknown''}"

text \<open>A fact confirms a citation when the index and the slice hold the same fact under the
  identifier and the fact lies in an excerpt of the slice.\<close>

definition confirmed_fact :: "bounded_slice \<Rightarrow> fact_index \<Rightarrow> string \<Rightarrow> static_fact \<Rightarrow> bool" where
  "confirmed_fact s index i f \<longleftrightarrow> index i = Some f \<and> slice_facts s i = Some f
     \<and> sf_location_ref f \<in> excerpt_id ` set (sp_excerpts (slice_body s))"

definition growth_evidence_complete :: "growth_candidate \<Rightarrow> bounded_slice \<Rightarrow> growth_contract \<Rightarrow> fact_index \<Rightarrow> bool" where
  "growth_evidence_complete g s c index \<longleftrightarrow>
     gc_attacker_influence c \<noteq> []
   \<and> (\<forall>i \<in> set (gc_attacker_influence c). ai_target i \<in> d_role ` set (g_demands g)
        \<and> (\<exists>f. confirmed_fact s index (ai_evidence_id i) f \<and> origin_relation f
             \<and> sf_kind f \<in> {''flow'', ''driver_origin''} \<and> sf_value f \<in> Some ` set driver_values))
   \<and> (\<forall>i \<in> set (gc_required_static_evidence c). \<exists>f. confirmed_fact s index i f)
   \<and> (\<exists>i \<in> set (gc_required_static_evidence c). \<exists>f. confirmed_fact s index i f \<and> origin_relation f
        \<and> sf_kind f = ''value_space'' \<and> sf_value f = Some (gc_attacker_value_space c))
   \<and> (\<exists>i \<in> set (gc_required_static_evidence c). \<exists>f. confirmed_fact s index i f \<and> sf_relation f = ''sink''
        \<and> sf_kind f = ''retention'' \<and> sf_value f = Some (gc_retention_window c))
   \<and> (\<exists>i \<in> set (gc_required_static_evidence c). \<exists>f. confirmed_fact s index i f \<and> sf_relation f = ''sink''
        \<and> sf_kind f = ''amplification'' \<and> sf_value f = Some (gc_amplification_class c))"

lemma confirmed_case:
  assumes "\<exists>f. confirmed_fact s index i f"
  shows "(case index i of None \<Rightarrow> False | Some f \<Rightarrow> P f) \<longleftrightarrow> (\<exists>f. confirmed_fact s index i f \<and> P f)"
    "(case slice_facts s i of None \<Rightarrow> False | Some f \<Rightarrow> P f) \<longleftrightarrow> (\<exists>f. confirmed_fact s index i f \<and> P f)"
  using assms by (auto simp: confirmed_fact_def)

lemma confirmed_unique: "confirmed_fact s index i f \<Longrightarrow> confirmed_fact s index i f' \<Longrightarrow> f = f'"
  by (simp add: confirmed_fact_def)

lemma confirmed_required:
  assumes "\<forall>i \<in> set (cited_ids c). \<exists>f. confirmed_fact s index i f"
  shows "required_fact c index P \<longleftrightarrow>
    (\<exists>i \<in> set (gc_required_static_evidence c). \<exists>f. confirmed_fact s index i f \<and> P f)"
proof -
  have "(case index i of None \<Rightarrow> False | Some f \<Rightarrow> P f) \<longleftrightarrow> (\<exists>f. confirmed_fact s index i f \<and> P f)"
    if "i \<in> set (gc_required_static_evidence c)" for i
    using assms that by (intro confirmed_case) (simp add: cited_ids_def)
  then show ?thesis by (auto simp: required_fact_def list_ex_iff)
qed

lemma confirmed_influence:
  assumes "\<exists>f. confirmed_fact s index (ai_evidence_id i) f"
  shows "influence_ok g s index i \<and> driver_ok index i \<longleftrightarrow>
    ai_target i \<in> d_role ` set (g_demands g)
    \<and> (\<exists>f. confirmed_fact s index (ai_evidence_id i) f \<and> origin_relation f
         \<and> sf_kind f \<in> {''flow'', ''driver_origin''} \<and> sf_value f \<in> Some ` set driver_values)"
  unfolding influence_ok_def driver_ok_def confirmed_case[OF assms] using confirmed_unique by blast

lemma growth_gates_pass_iff:
  "list_all gate_ok (growth_gates (g, s, c, index)) \<longleftrightarrow>
     growth_contract_admitted g c \<and> growth_evidence_complete g s c index" (is "?L \<longleftrightarrow> ?R")
proof -
  let ?E = "gc_required_static_evidence c \<noteq> [] \<and> influence_ids c \<noteq> []
      \<and> list_all (\<lambda>i. slice_facts s i \<noteq> None \<and> index i \<noteq> None) (cited_ids c)
      \<and> list_all (\<lambda>i. case index i of None \<Rightarrow> True
           | Some f \<Rightarrow> sf_location_ref f \<in> excerpt_id ` set (sp_excerpts (slice_body s))) (cited_ids c)
      \<and> list_all (\<lambda>i. index i = slice_facts s i) (cited_ids c)"
  have E: "?E \<longleftrightarrow> gc_required_static_evidence c \<noteq> [] \<and> gc_attacker_influence c \<noteq> []
      \<and> (\<forall>i \<in> set (cited_ids c). \<exists>f. confirmed_fact s index i f)"
    by (fastforce simp: confirmed_fact_def list_all_iff influence_ids_def split: option.splits)
  have L: "?L \<longleftrightarrow> growth_contract_admitted g c \<and> ?E
      \<and> list_all (influence_ok g s index) (gc_attacker_influence c)
      \<and> list_all (driver_ok index) (gc_attacker_influence c)
      \<and> required_fact c index (\<lambda>f. sf_kind f = ''value_space''
            \<and> sf_value f = Some (gc_attacker_value_space c) \<and> origin_relation f)
      \<and> required_fact c index (\<lambda>f. sf_kind f = ''retention''
            \<and> sf_value f = Some (gc_retention_window c) \<and> sf_relation f = ''sink'')
      \<and> required_fact c index (\<lambda>f. sf_kind f = ''amplification''
            \<and> sf_value f = Some (gc_amplification_class c) \<and> sf_relation f = ''sink'')"
    unfolding growth_gates_defs growth_contract_admitted_def Let_def split append.simps
    by (simp only: list.pred_inject growth_gate_ok conj_assoc simp_thms)
  show ?thesis
  proof (cases "\<forall>i \<in> set (cited_ids c). \<exists>f. confirmed_fact s index i f")
    case True
    then have "list_all (influence_ok g s index) (gc_attacker_influence c)
        \<and> list_all (driver_ok index) (gc_attacker_influence c)
      \<longleftrightarrow> (\<forall>i \<in> set (gc_attacker_influence c). ai_target i \<in> d_role ` set (g_demands g)
          \<and> (\<exists>f. confirmed_fact s index (ai_evidence_id i) f \<and> origin_relation f
             \<and> sf_kind f \<in> {''flow'', ''driver_origin''} \<and> sf_value f \<in> Some ` set driver_values))"
      using confirmed_influence[of s index _ g]
      by (simp add: list_all_iff cited_ids_def influence_ids_def flip: ball_conj_distrib)
    moreover have "\<forall>i \<in> set (gc_required_static_evidence c). \<exists>f. confirmed_fact s index i f"
      using True by (simp add: cited_ids_def)
    moreover have "required_fact c index P \<Longrightarrow> gc_required_static_evidence c \<noteq> []" for P
      by (auto simp: required_fact_def)
    ultimately show ?thesis
      unfolding L E growth_evidence_complete_def
      using True confirmed_required[OF True] by (simp add: conj_ac) blast
  next
    case False
    then show ?thesis
      unfolding L E growth_evidence_complete_def by (auto simp: cited_ids_def influence_ids_def)
  qed
qed

section \<open>Soundness and completeness\<close>

lemma growth_outcome_reasons: "[] \<notin> set (oc_reasons (run_gates Verified (growth_gates x) cs))"
proof (cases "oc_status (run_gates Verified (growth_gates x) cs) = Verified")
  case False
  then show ?thesis
    by (rule growth_chain.failure) (metis growth_gates_negative_in negative_gate_def)
qed (simp add: growth_chain.reasons_iff[THEN iffD2])

lemma run_gates_step:
  "run_gates good (growth_gate n ok st r # gs) cs = (if ok then run_gates good gs (cs @ [ok_check n])
     else \<lparr>oc_status = st, oc_reasons = [r], oc_checks = cs @ [failed_check n r], oc_unresolved = []\<rparr>)"
  by (simp add: growth_gate_def)

text \<open>After the first three checks no contract is rejected any more.\<close>

lemma unresolved_gates:
  "\<forall>\<gamma> \<in> set gs. gate_status \<gamma> = Unresolved \<Longrightarrow> oc_status (run_gates Verified gs cs) \<noteq> Rejected"
  by (induction gs arbitrary: cs) simp_all

lemma growth_gates_tail:
  obtains gs where "growth_gates (g, s, c, index) =
      growth_gate ''growth_coverage'' (g_coverage_status g = ''complete'') Unresolved ''GROWTH_COVERAGE_INCOMPLETE''
      # growth_gate ''dos_relevance'' (gc_contract_status c \<notin> {''growth_not_dos_relevant'', ''unknown''})
        (if gc_contract_status c = ''growth_not_dos_relevant'' then Rejected else Unresolved)
        (if gc_contract_status c = ''growth_not_dos_relevant'' then ''GROWTH_NOT_DOS_RELEVANT''
         else ''GROWTH_DOS_RELEVANCE_UNKNOWN'')
      # growth_gate ''resource_growth'' (gc_is_resource_growth c \<notin> {''no'', ''unknown''})
        (if gc_is_resource_growth c = ''no'' then Rejected else Unresolved)
        (if gc_is_resource_growth c = ''no'' then ''GROWTH_CONTRACT_NEGATED'' else ''GROWTH_CONTRACT_UNKNOWN'')
      # gs" "\<forall>\<gamma> \<in> set gs. gate_status \<gamma> = Unresolved"
proof -
  have st: "gate_status (growth_gate n ok st r) = st" for n ok st r by (simp add: growth_gate_def)
  show ?thesis
    by (rule that, unfold growth_gates_defs Let_def split append.simps, rule refl)
      (simp only: list.set insert_iff ball_simps st simp_thms)
qed

lemma growth_rejected_iff:
  "oc_status (run_gates Verified (growth_gates (g, s, c, index)) cs) = Rejected \<longleftrightarrow>
     g_coverage_status g = ''complete''
     \<and> (gc_contract_status c = ''growth_not_dos_relevant''
        \<or> gc_contract_status c \<noteq> ''unknown'' \<and> gc_is_resource_growth c = ''no'')"
proof -
  obtain gs where gs: "\<forall>\<gamma> \<in> set gs. gate_status \<gamma> = Unresolved"
    and eq: "growth_gates (g, s, c, index) =
      growth_gate ''growth_coverage'' (g_coverage_status g = ''complete'') Unresolved ''GROWTH_COVERAGE_INCOMPLETE''
      # growth_gate ''dos_relevance'' (gc_contract_status c \<notin> {''growth_not_dos_relevant'', ''unknown''})
        (if gc_contract_status c = ''growth_not_dos_relevant'' then Rejected else Unresolved)
        (if gc_contract_status c = ''growth_not_dos_relevant'' then ''GROWTH_NOT_DOS_RELEVANT''
         else ''GROWTH_DOS_RELEVANCE_UNKNOWN'')
      # growth_gate ''resource_growth'' (gc_is_resource_growth c \<notin> {''no'', ''unknown''})
        (if gc_is_resource_growth c = ''no'' then Rejected else Unresolved)
        (if gc_is_resource_growth c = ''no'' then ''GROWTH_CONTRACT_NEGATED'' else ''GROWTH_CONTRACT_UNKNOWN'')
      # gs"
    by (rule growth_gates_tail)
  show ?thesis
    unfolding eq run_gates_step using unresolved_gates[OF gs] by simp
qed

lemma verify_growth_result:
  assumes "sp_growth_id (slice_body s) = growth_id g" "startswith (growth_id g) ''growth:''"
    "startswith (slice_id s) ''slice:''"
  obtains r where "verify_growth_contract g s c index = Inr r" "VerifiedGrowthResult r = Inr r"
    "vg_growth_id r = growth_id g" "vg_slice_id r = slice_id s" "vg_candidate r = Some g"
    "vg_status r = oc_status (run_gates Verified (growth_gates (g, s, c, index)) [])"
    "vg_reasons r = oc_reasons (run_gates Verified (growth_gates (g, s, c, index)) [])"
    "vg_checks r = oc_checks (run_gates Verified (growth_gates (g, s, c, index)) [])"
proof -
  let ?o = "run_gates Verified (growth_gates (g, s, c, index)) []"
  define r0 where "r0 = \<lparr>verified_growth_id = [], vg_growth_id = growth_id g, vg_slice_id = slice_id s,
     vg_status = oc_status ?o, vg_reasons = oc_reasons ?o, vg_checks = oc_checks ?o, vg_candidate = Some g\<rparr>"
  define r where "r = r0\<lparr>verified_growth_id :=
     stable_identifier ''verified_growth'' (JObj (verified_growth_identity r0))\<rparr>"
  have sel: "startswith (verified_growth_id r) ''verified_growth:''" "vg_growth_id r = growth_id g"
    "vg_slice_id r = slice_id s" "vg_candidate r = Some g" "vg_status r = oc_status ?o"
    "vg_reasons r = oc_reasons ?o" "vg_checks r = oc_checks ?o"
    using stable_identifier_prefix[of "''verified_growth''"] by (simp_all add: r_def r0_def)
  have "growth_gates (g, s, c, index) \<noteq> []" by (simp add: growth_gates_defs Let_def)
  then have ok: "VerifiedGrowthResult r = Inr r"
    using assms sel growth_outcome_reasons[of "(g, s, c, index)" "[]"]
      growth_chain.reasons_iff[of "(g, s, c, index)" "[]"]
      growth_chain.all_passed_iff[of "[]" "(g, s, c, index)"]
      growth_chain.checks_nonempty[of "(g, s, c, index)" "[]"]
    by (auto simp: VerifiedGrowthResult_def list_all_iff)
  have "verify_growth_contract g s c index = Inr r"
    using assms(1) ok by (simp add: verify_growth_contract_def verified_growth_create_def Let_def r_def r0_def)
  with ok sel that show ?thesis by blast
qed

text \<open>C16. On a candidate and its own slice the verification of a Growth Contract returns a
  well-formed result; it is verified exactly when the contract claims a DoS-relevant growth of
  the candidate's kind and dimension with a proven failure mechanism, and every cited fact,
  every attacker influence, the value space, the retention and the amplification are confirmed
  by the same fact of the index and of the slice; it is rejected exactly when the contract
  itself denies the growth of a completely covered candidate.\<close>

theorem verify_growth_contract_correct:
  assumes "sp_growth_id (slice_body s) = growth_id g" "startswith (growth_id g) ''growth:''"
    "startswith (slice_id s) ''slice:''"
  shows "\<exists>r. verify_growth_contract g s c index = Inr r \<and> VerifiedGrowthResult r = Inr r
    \<and> vg_growth_id r = growth_id g \<and> vg_candidate r = Some g
    \<and> (vg_status r = Verified \<longleftrightarrow> growth_contract_admitted g c \<and> growth_evidence_complete g s c index)
    \<and> (vg_status r = Rejected \<longleftrightarrow> g_coverage_status g = ''complete''
         \<and> (gc_contract_status c = ''growth_not_dos_relevant''
            \<or> gc_contract_status c \<noteq> ''unknown'' \<and> gc_is_resource_growth c = ''no''))"
proof -
  obtain r where "verify_growth_contract g s c index = Inr r" "VerifiedGrowthResult r = Inr r"
    "vg_growth_id r = growth_id g" "vg_candidate r = Some g"
    "vg_status r = oc_status (run_gates Verified (growth_gates (g, s, c, index)) [])"
    using verify_growth_result[OF assms] by metis
  then show ?thesis
    by (auto simp: growth_chain.good_iff growth_gates_pass_iff growth_rejected_iff)
qed

definition sample_fact :: "string \<Rightarrow> string \<Rightarrow> string \<Rightarrow> string \<Rightarrow> static_fact" where
  "sample_fact i kind relation value = \<lparr>fact_id = i, sf_kind = kind, sf_location_ref = ''excerpt:a'',
     sf_relation = relation, sf_value_ref = None, sf_value = Some value\<rparr>"

definition sample_facts :: "static_fact list" where
  "sample_facts = [sample_fact ''fact:o'' ''driver_origin'' ''source'' ''request_body'',
     sample_fact ''fact:v'' ''value_space'' ''source'' ''unlimited'',
     sample_fact ''fact:r'' ''retention'' ''sink'' ''process'',
     sample_fact ''fact:m'' ''amplification'' ''sink'' ''high_cardinality_retention'']"

definition sample_candidate :: growth_candidate where
  "sample_candidate = \<lparr>growth_id = ''growth:1'', g_site = \<lparr>sl_file = ''A.java'', sl_line = 3\<rparr>,
     g_kind = ''container_growth'', g_operation = ''put'', resource_id = ''resource:1'',
     g_dimension = ''entries'', g_receiver = ''cache'', g_field_path = ''this.cache'',
     g_demands = [Demand ''name'' ''key''], g_escape_scope = ''global'', g_evidence = [''fact:o''],
     g_coverage_status = ''complete'', g_coverage_notes = [''normalized'']\<rparr>"

definition sample_slice :: bounded_slice where
  "sample_slice = \<lparr>slice_id = ''slice:1'', slice_body = \<lparr>sp_entry_id = ''entry:1'', sp_growth_id = ''growth:1'',
     sp_excerpts = [\<lparr>excerpt_id = ''excerpt:a'', sx_path = ''A.java'', sx_start_line = 1, sx_end_line = 9,
        sx_content = ''x'', sx_git_blob_sha256 = [], sx_sha256 = [], sx_original_sha256 = [],
        sx_redactions = [], sx_redaction_version = ''1''\<rparr>],
     sp_facts = sample_facts, sp_cfg = \<lparr>cfg_path_ids = [], cfg_phases = [], cfg_branch_facts = []\<rparr>,
     sp_registrations = [], sp_configs = []\<rparr>\<rparr>"

definition sample_contract :: growth_contract where
  "sample_contract = \<lparr>gc_is_resource_growth = ''yes'', gc_growth_kind = ''container_growth'',
     gc_resource_dimension = ''entries'',
     gc_attacker_influence = [\<lparr>ai_target = ''key'', ai_evidence_id = ''fact:o''\<rparr>],
     gc_resource_effect = ''adds_entries'', gc_attacker_variable = ''name'',
     gc_attacker_value_space = ''unlimited'', gc_growth_unit = ''entry'', gc_growth_function = ''n'',
     gc_amplification_class = ''high_cardinality_retention'', gc_requests_to_pressure = ''many'',
     gc_concurrency_model = ''any'', gc_retention_window = ''process'',
     gc_failure_mechanism = ''heap_exhaustion'', gc_failure_signal = ''oom'',
     gc_required_static_evidence = [''fact:v'', ''fact:r'', ''fact:m''],
     gc_contract_status = ''dos_relevant'', gc_rejection_reason = ''none'', gc_confidence = ''high''\<rparr>"

lemma sample_index:
  "index_by fact_id sample_facts ''fact:o'' = Some (sample_fact ''fact:o'' ''driver_origin'' ''source'' ''request_body'')"
  "index_by fact_id sample_facts ''fact:v'' = Some (sample_fact ''fact:v'' ''value_space'' ''source'' ''unlimited'')"
  "index_by fact_id sample_facts ''fact:r'' = Some (sample_fact ''fact:r'' ''retention'' ''sink'' ''process'')"
  "index_by fact_id sample_facts ''fact:m''
     = Some (sample_fact ''fact:m'' ''amplification'' ''sink'' ''high_cardinality_retention'')"
  by (simp_all add: index_by_def sample_facts_def sample_fact_def)

theorem verify_growth_contract_correct_witness:
  "\<exists>r. verify_growth_contract sample_candidate sample_slice sample_contract (index_by fact_id sample_facts)
       = Inr r \<and> vg_status r = Verified"
proof -
  have "growth_contract_admitted sample_candidate sample_contract"
    by (simp add: growth_contract_admitted_def sample_candidate_def sample_contract_def)
  moreover have "growth_evidence_complete sample_candidate sample_slice sample_contract (index_by fact_id sample_facts)"
    by (simp add: growth_evidence_complete_def confirmed_fact_def slice_facts_def sample_candidate_def
        sample_slice_def sample_contract_def sample_index origin_relation_def driver_values_def)
      (simp add: sample_fact_def)
  moreover have "sp_growth_id (slice_body sample_slice) = growth_id sample_candidate"
    "startswith (growth_id sample_candidate) ''growth:''" "startswith (slice_id sample_slice) ''slice:''"
    by (simp_all add: sample_slice_def sample_candidate_def startswith_def)
  ultimately show ?thesis
    using verify_growth_contract_correct[of sample_slice sample_candidate sample_contract] by blast
qed

text \<open>Only the cited facts matter: two indexes that agree on them give the same result,
  whatever else they hold.\<close>

theorem verify_growth_contract_local:
  assumes "\<forall>i \<in> set (cited_ids c). index i = index' i"
  shows "verify_growth_contract g s c index = verify_growth_contract g s c index'"
proof -
  have req: "required_fact c index P = required_fact c index' P" for P
    using assms by (auto simp: required_fact_def list_ex_iff cited_ids_def)
  have "influence_ok g s index i = influence_ok g s index' i \<and> driver_ok index i = driver_ok index' i"
    if "i \<in> set (gc_attacker_influence c)" for i
    using assms that by (simp add: influence_ok_def driver_ok_def cited_ids_def influence_ids_def)
  then have "list_all (influence_ok g s index) (gc_attacker_influence c)
        = list_all (influence_ok g s index') (gc_attacker_influence c)"
    "list_all (driver_ok index) (gc_attacker_influence c) = list_all (driver_ok index') (gc_attacker_influence c)"
    by (auto simp: list_all_iff)
  moreover have "list_all (\<lambda>i. slice_facts s i \<noteq> None \<and> index i \<noteq> None) (cited_ids c)
      = list_all (\<lambda>i. slice_facts s i \<noteq> None \<and> index' i \<noteq> None) (cited_ids c)"
    "list_all (\<lambda>i. case index i of None \<Rightarrow> True | Some f \<Rightarrow> L f) (cited_ids c)
      = list_all (\<lambda>i. case index' i of None \<Rightarrow> True | Some f \<Rightarrow> L f) (cited_ids c)"
    "list_all (\<lambda>i. index i = slice_facts s i) (cited_ids c)
      = list_all (\<lambda>i. index' i = slice_facts s i) (cited_ids c)" for L
    using assms by (auto simp: list_all_iff)
  ultimately have "growth_gates (g, s, c, index) = growth_gates (g, s, c, index')"
    unfolding growth_gates_def evidence_gates_def split Let_def req by (simp only:)
  then show ?thesis by (simp add: verify_growth_contract_def)
qed

theorem verify_growth_contract_local_witness:
  "verify_growth_contract sample_candidate sample_slice sample_contract (index_by fact_id sample_facts)
   = verify_growth_contract sample_candidate sample_slice sample_contract
       ((index_by fact_id sample_facts)(''fact:other'' \<mapsto> sample_fact ''fact:other'' ''guard'' ''guards'' ''none''))"
  by (rule verify_growth_contract_local)
    (simp add: sample_contract_def cited_ids_def influence_ids_def)

end
