(* ===== verification/FlowModel.thy ===== *)
theory FlowModel
  imports GrowthVerify
begin

text \<open>
  \<open>dosweb/flows/models.py\<close>: the proofs of attacker control from a registered entry to a
  verified Growth, the token matching between expressions and demands, and the
  normalization of raw flow rows.
\<close>

definition flow_invalid :: "string \<Rightarrow> string option \<Rightarrow> py_exc" where
  "flow_invalid reason field = AnalyzerError ''ANALYSIS_FLOW_INVALID''
     ''Flow proof violates the normalized static-analysis contract.'' (reason_details reason field)"

section \<open>Expressions and demands\<close>

definition letters :: string where
  "letters = ''ABCDEFGHIJKLMNOPQRSTUVWXYZabcdefghijklmnopqrstuvwxyz''"

definition ident_start :: "char \<Rightarrow> bool" where
  "ident_start c = (c \<in> set letters \<or> c = CHR ''_'' \<or> c = CHR ''$'')"

definition ident_part :: "char \<Rightarrow> bool" where
  "ident_part c = (ident_start c \<or> is_digit c)"

text \<open>\<open>[A-Za-z_$][A-Za-z0-9_$]*\<close>: \<open>fullmatch\<close> and \<open>findall\<close>.\<close>

definition is_identifier :: "string \<Rightarrow> bool" where
  "is_identifier s = (case s of [] \<Rightarrow> False | c # cs \<Rightarrow> ident_start c \<and> list_all ident_part cs)"

function find_identifiers :: "string \<Rightarrow> string list" where
  "find_identifiers [] = []"
| "find_identifiers (c # s) =
     (if ident_start c then (c # takeWhile ident_part s) # find_identifiers (dropWhile ident_part s)
      else find_identifiers s)"
  by pat_completeness auto
termination
  by (relation "measure length") (simp_all add: le_imp_less_Suc length_dropWhile_le)

definition expression_binds_demand :: "string \<Rightarrow> string \<Rightarrow> bool" where
  "expression_binds_demand name expression =
     (name = expression \<or> is_identifier name \<and> name \<in> set (find_identifiers expression))"

section \<open>Flow proofs\<close>

definition attacker_targets :: "string list" where
  "attacker_targets = [''size'', ''key'', ''value'', ''iteration_count'', ''submission_count'']"

definition flow_confidences :: "string list" where
  "flow_confidences = [''proven'', ''partial'']"

definition flow_coverages :: "string list" where
  "flow_coverages = [''complete'', ''partial'', ''unsupported'']"

definition data_flow_kinds :: "string list" where
  "data_flow_kinds = [''data_flow'', ''local_data_flow'']"

record attacker_control =
  ac_target :: string
  ac_source :: string
  ac_sink :: string

definition AttackerControl :: "json \<Rightarrow> json \<Rightarrow> json \<Rightarrow> attacker_control res" where
  "AttackerControl target source sink =
     res_bind (checked_enum flow_invalid target attacker_targets ''attacker_target'') (\<lambda>t.
     res_bind (checked_string flow_invalid source ''attacker_source'') (\<lambda>so.
     res_bind (checked_string flow_invalid sink ''attacker_sink'') (\<lambda>si.
     Inr \<lparr>ac_target = t, ac_source = so, ac_sink = si\<rparr>)))"

definition control_to_dict :: "attacker_control \<Rightarrow> json" where
  "control_to_dict c = JObj [(''target'', JStr (ac_target c)), (''source'', JStr (ac_source c)),
     (''sink'', JStr (ac_sink c))]"

definition flow_sequence :: "json \<Rightarrow> string \<Rightarrow> string list res" where
  "flow_sequence value field =
     res_bind (case value of
         JStr s \<Rightarrow> Inr (map (\<lambda>p. JStr (strip p)) (split_on CHR ''>'' s))
       | JArr vs \<Rightarrow> Inr vs
       | _ \<Rightarrow> Inl (flow_invalid ''SEQUENCE_INVALID'' (Some field))) (\<lambda>values.
     if values = [] \<or> length values > 64 then Inl (flow_invalid ''SEQUENCE_LIMIT'' (Some field))
     else map_res (\<lambda>v. checked_string flow_invalid v field) values)"

record flow_proof =
  path_id :: string
  fl_entry_id :: string
  fl_growth_id :: string
  fl_control :: attacker_control
  fl_call_path :: "string list"
  fl_phases :: "string list"
  fl_confidence :: string
  fl_kind :: string
  fl_coverage_status :: string
  fl_coverage_note :: string

definition flow_semantic_identity :: "flow_proof \<Rightarrow> (string \<times> json) list" where
  "flow_semantic_identity f =
     [(''entry_id'', JStr (fl_entry_id f)), (''growth_id'', JStr (fl_growth_id f)),
      (''attacker_control'', control_to_dict (fl_control f)),
      (''call_path'', JArr (map JStr (fl_call_path f))),
      (''phase_sequence'', JArr (map JStr (fl_phases f))), (''confidence'', JStr (fl_confidence f))]"

definition FlowProof :: "flow_proof \<Rightarrow> flow_proof res" where
  "FlowProof f =
     (if \<not> startswith (fl_entry_id f) ''entry:'' then Inl (flow_invalid ''ENTRY_ID_INVALID'' (Some ''entry_id''))
      else if \<not> startswith (fl_growth_id f) ''growth:'' then Inl (flow_invalid ''GROWTH_ID_INVALID'' (Some ''growth_id''))
      else
      res_bind (flow_sequence (JArr (map JStr (fl_call_path f))) ''call_path'') (\<lambda>_.
      res_bind (flow_sequence (JArr (map JStr (fl_phases f))) ''phase_sequence'') (\<lambda>_.
      res_bind (checked_enum flow_invalid (JStr (fl_confidence f)) flow_confidences ''confidence'') (\<lambda>_.
      res_bind (checked_string flow_invalid (JStr (fl_kind f)) ''flow_kind'') (\<lambda>_.
      res_bind (checked_enum flow_invalid (JStr (fl_coverage_status f)) flow_coverages ''coverage_status'') (\<lambda>_.
      res_bind (checked_string flow_invalid (JStr (fl_coverage_note f)) ''coverage_note'') (\<lambda>_.
      if fl_confidence f = ''proven'' \<and> (fl_kind f \<notin> set data_flow_kinds \<or> fl_coverage_status f \<noteq> ''complete'')
      then Inl (flow_invalid ''PROVEN_FLOW_REQUIRES_COMPLETE_DATA_FLOW'' None)
      else if path_id f \<noteq> stable_identifier ''flow'' (JObj (flow_semantic_identity f))
      then Inl (flow_invalid ''PATH_ID_MISMATCH'' (Some ''path_id''))
      else Inr f)))))))"

definition flow_create :: "string \<Rightarrow> string \<Rightarrow> attacker_control \<Rightarrow> string list \<Rightarrow> string list \<Rightarrow> string
    \<Rightarrow> string \<Rightarrow> string \<Rightarrow> string \<Rightarrow> flow_proof res" where
  "flow_create eid gid control call_path phases confidence kind coverage note =
     res_bind (flow_sequence (JArr (map JStr call_path)) ''call_path'') (\<lambda>calls.
     res_bind (flow_sequence (JArr (map JStr phases)) ''phase_sequence'') (\<lambda>phs.
     let f = \<lparr>path_id = [], fl_entry_id = eid, fl_growth_id = gid, fl_control = control,
              fl_call_path = calls, fl_phases = phs, fl_confidence = confidence, fl_kind = kind,
              fl_coverage_status = coverage, fl_coverage_note = note\<rparr>
     in FlowProof (f\<lparr>path_id := stable_identifier ''flow'' (JObj (flow_semantic_identity f))\<rparr>)))"

definition flow_to_dict :: "flow_proof \<Rightarrow> (string \<times> json) list" where
  "flow_to_dict f = (''path_id'', JStr (path_id f)) # flow_semantic_identity f
     @ [(''flow_kind'', JStr (fl_kind f)), (''coverage_status'', JStr (fl_coverage_status f)),
        (''coverage_note'', JStr (fl_coverage_note f))]"

section \<open>The entries a flow row may refer to\<close>

definition entry_registration_identity :: "entry_fact \<Rightarrow> string \<times> string \<times> string \<times> int \<times> string" where
  "entry_registration_identity e =
     (r_kind (e_registration e), r_callable (e_registration e), r_file (e_registration e),
      r_start_line (e_registration e), registration_pattern_id e)"

definition entry_semantic_key :: "entry_fact \<Rightarrow> string \<times> string \<times> string \<times> string \<times> int \<times> string \<times> string
    \<times> (string \<times> string \<times> string) list \<times> string \<times> string" where
  "entry_semantic_key e =
     (e_framework e, e_protocol e, h_callable (e_handler e), h_file (e_handler e), h_start_line (e_handler e),
      route_or_event e, auth_context e, map ai_key (attacker_inputs e), materialization_phase e,
      registration_pattern_id e)"

definition input_names :: "entry_fact \<Rightarrow> string set" where
  "input_names e = ai_name ` set (attacker_inputs e)"

text \<open>\<open>len({key(x) for x in xs}) == 1\<close> and \<open>min(xs, key=key)\<close>.\<close>

definition one_key :: "('a \<Rightarrow> 'k) \<Rightarrow> 'a list \<Rightarrow> bool" where
  "one_key key xs = (length (remdups (map key xs)) = 1)"

definition min_by :: "('a \<Rightarrow> 'k::linorder) \<Rightarrow> 'a list \<Rightarrow> 'a" where
  "min_by key xs = hd (sort_key key xs)"

definition entries_for_growth :: "entry_fact list \<Rightarrow> verified_growth \<Rightarrow> entry_fact list res" where
  "entries_for_growth matches growth_result = (case vg_candidate growth_result of
       None \<Rightarrow> Inl (flow_invalid ''FLOW_REFERENCE_AMBIGUOUS'' None)
     | Some candidate \<Rightarrow>
       let demand_names = d_name ` set (g_demands candidate);
           demand_matched = filter (\<lambda>e. demand_names \<inter> input_names e \<noteq> {}) matches;
           narrowed = (if demand_names \<noteq> {} \<and> demand_matched \<noteq> [] then demand_matched else matches)
       in if length narrowed = 1 then Inr narrowed
          else if one_key entry_semantic_key narrowed
          then Inr [min_by (\<lambda>e. (entry_registration_identity e, entry_id e)) narrowed]
          else if one_key entry_registration_identity narrowed then Inr [min_by entry_id narrowed]
          else if one_key (\<lambda>e. (h_callable (e_handler e), h_file (e_handler e), h_start_line (e_handler e))) narrowed
             \<and> length (remdups (map route_or_event narrowed)) > 1
          then Inr (sort_key entry_id narrowed)
          else Inl (flow_invalid ''FLOW_REFERENCE_AMBIGUOUS'' None))"

section \<open>Normalization of flow rows\<close>

definition flow_raw_fields :: "string list" where
  "flow_raw_fields = [''source_file'', ''source_start_line'', ''sink_file'', ''sink_start_line'',
     ''attacker_target'', ''attacker_source'', ''attacker_sink'', ''call_path'', ''phase_sequence'',
     ''flow_kind'', ''confidence'', ''coverage_status'', ''coverage_note'']"

definition flow_provenance_fields :: "string list" where
  "flow_provenance_fields = [''query_name'', ''query_sha256'', ''source_location'', ''sink_location'']"

definition flow_bad_fields :: "string list \<Rightarrow> string list" where
  "flow_bad_fields ks =
     (let missing = filter (\<lambda>k. k \<notin> set ks) flow_raw_fields;
          extra = filter (\<lambda>k. k \<notin> set flow_raw_fields \<and> k \<notin> set flow_provenance_fields) ks
      in if missing \<noteq> [] then missing else extra)"

definition demand_binds :: "attacker_control \<Rightarrow> growth_candidate \<Rightarrow> bool" where
  "demand_binds control candidate =
     list_ex (\<lambda>d. d_role d = ac_target control \<and> expression_binds_demand (d_name d) (ac_sink control))
       (g_demands candidate)"

definition growth_at :: "string \<Rightarrow> int \<Rightarrow> attacker_control \<Rightarrow> verified_growth \<Rightarrow> bool" where
  "growth_at file line control r = (case vg_candidate r of None \<Rightarrow> False | Some c \<Rightarrow>
     sl_file (g_site c) = file \<and> sl_line (g_site c) = line
     \<and> ac_target control \<in> d_role ` set (g_demands c) \<and> demand_binds control c)"

definition resolve_flow_entries :: "(string \<times> entry_fact) list \<Rightarrow> (string \<rightharpoonup> string) option \<Rightarrow> attacker_control
    \<Rightarrow> entry_fact list \<Rightarrow> verified_growth \<Rightarrow> entry_fact list res" where
  "resolve_flow_entries entries canonical control entry_matches growth_result =
     (let source_matched = filter (\<lambda>e. ac_source control \<in> input_names e) entry_matches;
          domain = sort_key entry_id (if source_matched \<noteq> [] then source_matched else entry_matches)
      in case canonical of
           None \<Rightarrow> entries_for_growth domain growth_result
         | Some ids \<Rightarrow> (case ids (vg_growth_id growth_result) of
               None \<Rightarrow> Inl (flow_invalid ''FLOW_CANONICAL_ENTRY_MISMATCH'' None)
             | Some i \<Rightarrow> (case map_of entries i of
                   None \<Rightarrow> Inl (flow_invalid ''FLOW_CANONICAL_ENTRY_MISMATCH'' None)
                 | Some e \<Rightarrow> if e \<notin> set domain
                     then Inl (flow_invalid ''FLOW_CANONICAL_ENTRY_MISMATCH'' None) else Inr [e])))"

definition flow_row_proof :: "(string \<Rightarrow> json) \<Rightarrow> attacker_control \<Rightarrow> string \<Rightarrow> bool \<Rightarrow> string \<Rightarrow> string \<Rightarrow> string \<Rightarrow> string
    \<Rightarrow> (string \<times> flow_proof) list \<Rightarrow> entry_fact \<Rightarrow> (string \<times> flow_proof) list res" where
  "flow_row_proof row control gid several raw_coverage raw_confidence flow_kind raw_note proofs entry =
     (if ac_source control \<notin> input_names entry
      then Inl (flow_invalid ''ATTACKER_SOURCE_NOT_ENTRY_INPUT'' (Some ''attacker_source'')) else
      let coverage = (if several then ''partial'' else raw_coverage);
          confidence = (if several \<or> raw_coverage \<noteq> ''complete'' \<or> flow_kind \<notin> set data_flow_kinds
                        then ''partial'' else raw_confidence);
          note = (if several then ''multiple_route_registrations_require_path_coverage'' else raw_note) in
      res_bind (flow_sequence (row ''call_path'') ''call_path'') (\<lambda>calls.
      res_bind (flow_sequence (row ''phase_sequence'') ''phase_sequence'') (\<lambda>phases.
      res_bind (flow_create (entry_id entry) gid control calls phases confidence flow_kind coverage note) (\<lambda>proof.
      if path_id proof \<in> set (map fst proofs) then Inl (flow_invalid ''DUPLICATE_PATH_ID'' None)
      else Inr (proofs @ [(path_id proof, proof)])))))"

text \<open>The part of the loop body behind the reading of the locations and the control.\<close>

definition bind_flow_row :: "(string \<times> entry_fact) list \<Rightarrow> (string \<times> verified_growth) list
    \<Rightarrow> (string \<rightharpoonup> string) option \<Rightarrow> (string \<times> flow_proof) list \<Rightarrow> (string \<Rightarrow> json)
    \<Rightarrow> entry_fact list \<Rightarrow> verified_growth list \<Rightarrow> attacker_control \<Rightarrow> (string \<times> flow_proof) list res" where
  "bind_flow_row entries growth canonical proofs row entry_matches growth_matches control =
     (case growth_matches of
        [growth_result] \<Rightarrow>
          (if entry_matches = [] then Inl (flow_invalid ''FLOW_REFERENCE_AMBIGUOUS'' None) else
           res_bind (resolve_flow_entries entries canonical control entry_matches growth_result) (\<lambda>resolved.
           let candidate = the (vg_candidate growth_result) in
           if ac_target control \<notin> d_role ` set (g_demands candidate)
           then Inl (flow_invalid ''ATTACKER_TARGET_NOT_GROWTH_DEMAND'' (Some ''attacker_target''))
           else if \<not> demand_binds control candidate
           then Inl (flow_invalid ''ATTACKER_SINK_NOT_GROWTH_DEMAND'' (Some ''attacker_sink'')) else
           res_bind (checked_enum flow_invalid (row ''coverage_status'') flow_coverages ''coverage_status'') (\<lambda>coverage.
           res_bind (checked_enum flow_invalid (row ''confidence'') flow_confidences ''confidence'') (\<lambda>confidence.
           res_bind (checked_string flow_invalid (row ''flow_kind'') ''flow_kind'') (\<lambda>flow_kind.
           res_bind (checked_string flow_invalid (row ''coverage_note'') ''coverage_note'') (\<lambda>note.
           fold_res (flow_row_proof row control (vg_growth_id growth_result) (length resolved > 1)
               coverage confidence flow_kind note) proofs resolved))))))
      | _ \<Rightarrow> Inl (flow_invalid ''FLOW_REFERENCE_AMBIGUOUS'' None))"

definition normalize_flow_row :: "(string \<times> entry_fact) list \<Rightarrow> (string \<times> verified_growth) list
    \<Rightarrow> (string \<rightharpoonup> string) option \<Rightarrow> (string \<times> flow_proof) list \<Rightarrow> json \<Rightarrow> (string \<times> flow_proof) list res" where
  "normalize_flow_row entries growth canonical proofs raw = (case raw of JObj kvs \<Rightarrow>
     (let bad = flow_bad_fields (map fst kvs); row = field_of kvs in
      if bad \<noteq> [] then Inl (flow_invalid ''RAW_FIELDS_INVALID'' (Some (hd (sort bad)))) else
      res_bind (checked_path flow_invalid (row ''source_file'') ''source_file'') (\<lambda>source_file.
      res_bind (checked_line flow_invalid (row ''source_start_line'') ''source_start_line'') (\<lambda>source_line.
      res_bind (checked_path flow_invalid (row ''sink_file'') ''sink_file'') (\<lambda>sink_file.
      res_bind (checked_line flow_invalid (row ''sink_start_line'') ''sink_start_line'') (\<lambda>sink_line.
      res_bind (checked_string flow_invalid (row ''attacker_source'') ''attacker_source'') (\<lambda>so.
      res_bind (checked_string flow_invalid (row ''attacker_sink'') ''attacker_sink'') (\<lambda>si.
      res_bind (AttackerControl (row ''attacker_target'') (JStr so) (JStr si)) (\<lambda>control.
      bind_flow_row entries growth canonical proofs row
        (filter (\<lambda>e. h_file (e_handler e) = source_file \<and> h_start_line (e_handler e) = source_line)
           (map snd entries))
        (filter (growth_at sink_file sink_line control) (map snd growth)) control))))))))
     | _ \<Rightarrow> Inl (flow_invalid ''ROW_NOT_MAPPING'' None))"

definition normalize_flow_proofs :: "json list \<Rightarrow> (string \<times> entry_fact) list \<Rightarrow> (string \<times> verified_growth) list
    \<Rightarrow> (string \<rightharpoonup> string) option \<Rightarrow> flow_proof list res" where
  "normalize_flow_proofs rows entries growth canonical =
     (if length rows > 4096 then Inl (flow_invalid ''ROW_LIMIT'' None) else
      res_bind (fold_res (normalize_flow_row entries growth canonical) [] rows) (\<lambda>proofs.
      Inr (sort_key (\<lambda>p. canonical_json (JObj (flow_semantic_identity p))) (map snd proofs))))"

definition normalize_flow_rows :: "json list \<Rightarrow> (string \<times> entry_fact) list \<Rightarrow> (string \<times> verified_growth) list
    \<Rightarrow> (string \<rightharpoonup> string) option \<Rightarrow> json list res" where
  "normalize_flow_rows rows entries growth canonical =
     res_bind (normalize_flow_proofs rows entries growth canonical) (\<lambda>proofs.
     Inr (map (\<lambda>p. JObj (flow_to_dict p)) proofs))"

end
