(* ===== verification/FlowVerify.thy ===== *)
theory FlowVerify
  imports FlowModel
begin

text \<open>
  \<open>dosweb/flows/verify.py\<close>: the verification of a flow proof against its entry and its
  verified Growth, the chain of call edges, and the verified flow.
\<close>

section \<open>Status and result\<close>

datatype flow_status = FlowVerified | FlowPartial | FlowUnresolved

fun flow_status_name :: "flow_status \<Rightarrow> string" where
  "flow_status_name FlowVerified = ''verified''"
| "flow_status_name FlowPartial = ''partial''"
| "flow_status_name FlowUnresolved = ''unresolved''"

definition flow_statuses :: "flow_status list" where
  "flow_statuses = [FlowVerified, FlowPartial, FlowUnresolved]"

interpretation flow_status: literal_type flow_status_name flow_statuses
proof
  fix x show "x \<in> set flow_statuses" by (cases x) (simp_all add: flow_statuses_def)
qed (simp add: flow_statuses_def)

record verified_flow =
  verified_flow_id :: string
  vf_path_id :: string
  vf_entry_id :: string
  vf_growth_id :: string
  vf_status :: flow_status
  vf_reasons :: "string list"
  vf_checks :: "check list"
  vf_evidence_ids :: "string list"
  vf_unresolved :: "string list"
  vf_proof :: flow_proof

definition flow_error :: "string \<Rightarrow> py_exc" where
  "flow_error message = AnalyzerError ''ANALYSIS_FLOW_INVALID'' message []"

definition verified_flow_identity :: "verified_flow \<Rightarrow> json" where
  "verified_flow_identity v = JObj
     [(''path_id'', JStr (vf_path_id v)), (''entry_id'', JStr (vf_entry_id v)),
      (''growth_id'', JStr (vf_growth_id v)), (''status'', JStr (flow_status_name (vf_status v))),
      (''reason_codes'', JArr (map JStr (vf_reasons v))),
      (''checks'', JArr (map (\<lambda>c. JArr [JStr (check_name c), JBool (passed c), opt_str (reason_code c)]) (vf_checks v))),
      (''evidence_ids'', JArr (map JStr (vf_evidence_ids v))),
      (''unresolved_facts'', JArr (map JStr (vf_unresolved v)))]"

definition VerifiedFlow :: "verified_flow \<Rightarrow> verified_flow res" where
  "VerifiedFlow v =
     (if vf_path_id v \<noteq> path_id (vf_proof v) \<or> vf_entry_id v \<noteq> fl_entry_id (vf_proof v)
         \<or> vf_growth_id v \<noteq> fl_growth_id (vf_proof v) \<or> vf_checks v = []
         \<or> (vf_status v = FlowVerified \<and> (vf_reasons v \<noteq> [] \<or> \<not> list_all passed (vf_checks v)))
         \<or> (vf_status v \<noteq> FlowVerified \<and> vf_reasons v = [])
      then Inl (flow_error ''Verified flow result is malformed.'')
      else if verified_flow_id v \<noteq> stable_identifier ''verified_flow'' (verified_flow_identity v)
      then Inl (flow_error ''Verified flow identifier is malformed.'') else Inr v)"

definition satisfies_premise :: "verified_flow \<Rightarrow> bool" where
  "satisfies_premise v = (vf_status v = FlowVerified)"

definition verified_flow_to_dict :: "verified_flow \<Rightarrow> json" where
  "verified_flow_to_dict v = JObj
     [(''verified_flow_id'', JStr (verified_flow_id v)), (''path_id'', JStr (vf_path_id v)),
      (''entry_id'', JStr (vf_entry_id v)), (''growth_id'', JStr (vf_growth_id v)),
      (''status'', JStr (flow_status_name (vf_status v))),
      (''reason_codes'', JArr (map JStr (vf_reasons v))),
      (''checks'', JArr (map check_to_dict (vf_checks v))),
      (''evidence_ids'', JArr (map JStr (vf_evidence_ids v))),
      (''unresolved_facts'', JArr (map JStr (vf_unresolved v))),
      (''proof'', JObj (flow_to_dict (vf_proof v)))]"

section \<open>Call edges\<close>

text \<open>\<open>edge.count(c)\<close> and \<open>line.lstrip("0")\<close>\<close>

definition count_char :: "char \<Rightarrow> string \<Rightarrow> nat" where
  "count_char c s = length (filter (\<lambda>x. x = c) s)"

definition lstrip_zeros :: "string \<Rightarrow> string" where
  "lstrip_zeros s = dropWhile (\<lambda>c. c = CHR ''0'') s"

definition edge_line_ok :: "string \<Rightarrow> bool" where
  "edge_line_ok line =
     (let normalized = lstrip_zeros line in
      isdigit line \<and> normalized \<noteq> [] \<and> length normalized \<le> 10
      \<and> \<not> (length normalized = 10 \<and> normalized > ''2147483647''))"

text \<open>The loop over \<open>call_path[1:]\<close>. Unpacking \<open>callables.split("~", 1)\<close> raises when the
  tilde stands behind the at-sign.\<close>

fun call_edges_are_bound :: "string list \<Rightarrow> string \<Rightarrow> bool res" where
  "call_edges_are_bound [] current = Inr True"
| "call_edges_are_bound (edge # edges) current =
     (if count_char CHR ''~'' edge \<noteq> 1 \<or> count_char CHR ''@'' edge \<noteq> 1 then Inr False else
      case rsplit_once CHR ''@'' edge of None \<Rightarrow> Inl (PyValueError ''unpack'') | Some (callables, location) \<Rightarrow>
      (case split_once CHR ''~'' callables of None \<Rightarrow> Inl (PyValueError ''unpack'') | Some (src, tgt) \<Rightarrow>
       if src \<noteq> current \<or> tgt = [] then Inr False else
       (case rsplit_once CHR '':'' location of None \<Rightarrow> Inr False | Some (path, line) \<Rightarrow>
        if path = [] \<or> startswith path ''/'' \<or> ''..'' \<in> set (split_on CHR ''/'' path) \<or> \<not> edge_line_ok line
        then Inr False else call_edges_are_bound edges tgt)))"

definition call_path_bound :: "string list \<Rightarrow> string \<Rightarrow> bool res" where
  "call_path_bound call_path entry_callable =
     (if length call_path \<le> 4 \<and> distinct call_path
         \<and> list_all (\<lambda>e. e \<notin> {''unmodeled_flow'', ''unknown''}) call_path
      then call_edges_are_bound (tl call_path) entry_callable else Inr False)"

section \<open>Verification\<close>

definition dangling :: "string \<Rightarrow> string \<Rightarrow> py_exc" where
  "dangling kind identifier = AnalyzerError ''ANALYSIS_DANGLING_FACT_REFERENCE''
     ''Flow proof refers to a missing normalized fact.''
     [(''kind'', JStr kind), (''identifier'', JStr (take 128 identifier))]"

definition finish_flow :: "flow_proof \<Rightarrow> string list \<Rightarrow> flow_status outcome \<Rightarrow> verified_flow res" where
  "finish_flow flow evidence r =
     (let v = \<lparr>verified_flow_id = [], vf_path_id = path_id flow, vf_entry_id = fl_entry_id flow,
               vf_growth_id = fl_growth_id flow, vf_status = oc_status r, vf_reasons = usort (oc_reasons r),
               vf_checks = oc_checks r, vf_evidence_ids = evidence, vf_unresolved = usort (oc_unresolved r),
               vf_proof = flow\<rparr>
      in VerifiedFlow (v\<lparr>verified_flow_id := stable_identifier ''verified_flow'' (verified_flow_identity v)\<rparr>))"

definition flow_semantics_ok :: "flow_proof \<Rightarrow> entry_fact \<Rightarrow> growth_candidate \<Rightarrow> bool" where
  "flow_semantics_ok flow entry candidate =
     (ac_source (fl_control flow) \<in> input_names entry \<and> demand_binds (fl_control flow) candidate)"

definition entry_rooted :: "flow_proof \<Rightarrow> entry_fact \<Rightarrow> bool res" where
  "entry_rooted flow entry = (case fl_call_path flow of [] \<Rightarrow> Inl PyIndexError | first_edge # _ \<Rightarrow>
     Inr (first_edge = h_callable (e_handler entry) \<or> startswith first_edge (h_callable (e_handler entry) @ ''[''))) "

text \<open>The checks behind the two references, for a Growth with its candidate.\<close>

definition flow_gates :: "flow_proof \<times> entry_fact \<times> verified_growth \<times> growth_candidate \<times> bool \<times> bool
    \<Rightarrow> flow_status gate list" where
  "flow_gates = (\<lambda>(flow, entry, growth_result, candidate, rooted, bound).
     [\<lparr>gate_name = ''entry_source_location'', gate_ok = True, gate_status = FlowUnresolved,
        gate_reasons = [''unreachable''], gate_unresolved = []\<rparr>,
      \<lparr>gate_name = ''growth_sink_location'', gate_ok = True, gate_status = FlowUnresolved,
        gate_reasons = [''unreachable''], gate_unresolved = []\<rparr>,
      \<lparr>gate_name = ''flow_semantics'', gate_ok = flow_semantics_ok flow entry candidate,
        gate_status = FlowUnresolved, gate_reasons = [''FLOW_SEMANTIC_MAPPING_INVALID''],
        gate_unresolved = [''attacker_control'']\<rparr>,
      \<lparr>gate_name = ''call_path_edges'', gate_ok = rooted \<and> bound, gate_status = FlowPartial,
        gate_reasons = [if rooted then ''FLOW_CALL_PATH_EDGE_INVALID'' else ''FLOW_CALL_PATH_ENTRY_MISMATCH''],
        gate_unresolved = [if rooted then ''call_path_edges'' else ''call_path'']\<rparr>,
      \<lparr>gate_name = ''verified_growth'', gate_ok = vg_status growth_result = Verified,
        gate_status = FlowUnresolved, gate_reasons = [''FLOW_GROWTH_NOT_VERIFIED''],
        gate_unresolved = [growth_status_name (vg_status growth_result)]\<rparr>,
      \<lparr>gate_name = ''data_flow_kind'', gate_ok = fl_kind flow \<in> set data_flow_kinds,
        gate_status = FlowPartial, gate_reasons = [''FLOW_KIND_NOT_PROVEN''],
        gate_unresolved = [''flow_kind'']\<rparr>,
      \<lparr>gate_name = ''complete_coverage'', gate_ok = fl_coverage_status flow = ''complete'',
        gate_status = FlowPartial,
        gate_reasons = ''FLOW_COVERAGE_INCOMPLETE''
          # (if fl_confidence flow = ''partial'' then [''FLOW_CONFIDENCE_PARTIAL''] else []),
        gate_unresolved = [''flow_coverage'']\<rparr>,
      \<lparr>gate_name = ''proven_confidence'', gate_ok = fl_confidence flow \<noteq> ''partial'',
        gate_status = FlowPartial, gate_reasons = [''FLOW_CONFIDENCE_PARTIAL''],
        gate_unresolved = [''flow_confidence'']\<rparr>])"

definition reference_checks :: "check list" where
  "reference_checks = [ok_check ''entry_reference'', ok_check ''growth_reference'']"

definition verify_flow :: "flow_proof \<Rightarrow> (string \<rightharpoonup> entry_fact) \<Rightarrow> (string \<rightharpoonup> verified_growth) \<Rightarrow> verified_flow res" where
  "verify_flow flow entries growth = (case entries (fl_entry_id flow) of
       None \<Rightarrow> Inl (dangling ''entry'' (fl_entry_id flow))
     | Some entry \<Rightarrow> (case growth (fl_growth_id flow) of
         None \<Rightarrow> Inl (dangling ''growth'' (fl_growth_id flow))
       | Some growth_result \<Rightarrow>
         if entry_id entry \<noteq> fl_entry_id flow \<or> vg_growth_id growth_result \<noteq> fl_growth_id flow
         then Inl (flow_error ''Flow references are incompatible.'') else
         let evidence = usort ([path_id flow, entry_id entry, vg_growth_id growth_result]
               @ (case vg_candidate growth_result of None \<Rightarrow> [] | Some c \<Rightarrow> g_evidence c)) in
         (case vg_candidate growth_result of
            None \<Rightarrow> finish_flow flow evidence
              \<lparr>oc_status = FlowUnresolved, oc_reasons = [''FLOW_GROWTH_CONTEXT_MISSING''],
               oc_checks = reference_checks @ [failed_check ''flow_semantics'' ''FLOW_GROWTH_CONTEXT_MISSING''],
               oc_unresolved = [''growth_context'']\<rparr>
          | Some candidate \<Rightarrow>
            res_bind (if flow_semantics_ok flow entry candidate then entry_rooted flow entry else Inr False) (\<lambda>rooted.
            res_bind (if rooted then call_path_bound (fl_call_path flow) (h_callable (e_handler entry))
                      else Inr False) (\<lambda>bound.
            finish_flow flow evidence
              (run_gates FlowVerified (flow_gates (flow, entry, growth_result, candidate, rooted, bound))
                 reference_checks))))))"

end
