(* ===== verification/FlowLaws.thy ===== *)
theory FlowLaws
  imports FlowVerify
begin

text \<open>
  What flow verification promises: the meaning of a bound chain of call edges, of the token
  match between an expression and a demand, and of a verified flow; the soundness of the
  normalized flow proofs.
\<close>

section \<open>Digit strings in lexicographic and numeric order\<close>

lemma digits_val_acc: "foldl (\<lambda>a c. 10 * a + digit_val c) n s = n * 10 ^ length s + digits_val s"
proof (induction s arbitrary: n)
  case (Cons c s)
  show ?case
    using Cons[of "10 * n + digit_val c"] Cons[of "digit_val c"]
    by (simp add: digits_val_def algebra_simps)
qed (simp add: digits_val_def)

lemma digits_val_Cons: "digits_val (c # s) = digit_val c * 10 ^ length s + digits_val s"
  using digits_val_acc[of "digit_val c" s] by (simp add: digits_val_def)

lemma digits_val_bound: "list_all is_digit s \<Longrightarrow> digits_val s < 10 ^ length s"
proof (induction s)
  case (Cons c s)
  then have "digit_val c \<le> 9" "digits_val s < 10 ^ length s"
    by (auto simp: is_digit_def digit_val_def Let_def)
  then have "digit_val c * 10 ^ length s + digits_val s < 9 * 10 ^ length s + 10 ^ length s"
    by (intro add_le_less_mono mult_le_mono1)
  then show ?case by (simp add: digits_val_Cons)
qed (simp add: digits_val_def)

lemma digit_less_iff: "is_digit c \<Longrightarrow> is_digit d \<Longrightarrow> c < d \<longleftrightarrow> digit_val c < digit_val d"
  by (auto simp: is_digit_def digit_val_def Let_def less_char_def)

lemma digits_order:
  "list_all is_digit s \<Longrightarrow> list_all is_digit t \<Longrightarrow> length s = length t
     \<Longrightarrow> s < t \<longleftrightarrow> digits_val s < digits_val t"
proof (induction s arbitrary: t)
  case (Cons c s)
  then obtain d t' where t: "t = d # t'" by (cases t) auto
  have digs: "is_digit c" "is_digit d" and len: "length s = length t'"
    and lt: "s < t' \<longleftrightarrow> digits_val s < digits_val t'"
    and b: "digits_val s < 10 ^ length s" "digits_val t' < 10 ^ length s"
    using Cons t digits_val_bound[of s] digits_val_bound[of t'] by auto
  have eq: "c = d \<longleftrightarrow> digit_val c = digit_val d"
    using digit_less_iff[OF digs] digit_less_iff[OF digs(2,1)] by (metis less_irrefl linorder_neqE)
  have "digit_val c * N + x < digit_val d * N + y"
    if "digit_val c < digit_val d" "x < N" for x y N :: nat
  proof -
    have "Suc (digit_val c) * N \<le> digit_val d * N" using that(1) by (intro mult_le_mono1) simp
    then show ?thesis using that(2) by simp
  qed
  note less = this
  have "digit_val d * N + y < digit_val c * N + x"
    if "digit_val d < digit_val c" "y < N" for x y N :: nat
  proof -
    have "Suc (digit_val d) * N \<le> digit_val c * N" using that(1) by (intro mult_le_mono1) simp
    then show ?thesis using that(2) by simp
  qed
  note greater = this
  show ?case
    using less[of "digits_val s" "10 ^ length s" "digits_val t'"]
      greater[of "digits_val t'" "10 ^ length s" "digits_val s"] b lt eq digit_less_iff[OF digs]
    by (cases "digit_val c" "digit_val d" rule: linorder_cases) (auto simp: t digits_val_Cons len[symmetric])
qed simp

lemma lstrip_zeros_val: "digits_val (lstrip_zeros s) = digits_val s"
proof (induction s)
  case (Cons c s)
  have "digit_val CHR ''0'' = 0" by (simp add: digit_val_def)
  with Cons show ?case by (auto simp: lstrip_zeros_def digits_val_Cons)
qed (simp add: lstrip_zeros_def)

lemma lstrip_zeros_digits: "list_all is_digit s \<Longrightarrow> list_all is_digit (lstrip_zeros s)"
  by (auto simp: lstrip_zeros_def list_all_iff dest: set_dropWhileD)

lemma lstrip_zeros_lower:
  assumes "list_all is_digit s" "lstrip_zeros s \<noteq> []"
  shows "10 ^ (length (lstrip_zeros s) - 1) \<le> digits_val s"
proof -
  obtain c t where ct: "lstrip_zeros s = c # t" using assms(2) by (cases "lstrip_zeros s") auto
  then have "c \<noteq> CHR ''0''"
    using hd_dropWhile[of "\<lambda>c. c = CHR ''0''" s] by (simp add: lstrip_zeros_def)
  moreover have "is_digit c" using lstrip_zeros_digits[OF assms(1)] by (simp add: ct)
  ultimately have "digit_val c > 0"
    using of_char_eq_iff[of c "CHR ''0''", where ?'a = nat] by (auto simp: is_digit_def digit_val_def Let_def)
  then have "10 ^ length t \<le> digits_val (lstrip_zeros s)"
    by (cases "digit_val c") (simp_all add: ct digits_val_Cons)
  then show ?thesis unfolding lstrip_zeros_val using ct by simp
qed

lemma edge_line_ok_iff:
  "edge_line_ok line \<longleftrightarrow> isdigit line \<and> 1 \<le> digits_val line \<and> digits_val line \<le> 2147483647"
proof (cases "isdigit line")
  case True
  let ?n = "lstrip_zeros line"
  have d: "list_all is_digit line" "list_all is_digit ?n"
    using True lstrip_zeros_digits by (auto simp: isdigit_def)
  have v: "digits_val ?n = digits_val line" by (rule lstrip_zeros_val)
  have m: "list_all is_digit ''2147483647''" "digits_val ''2147483647'' = 2147483647"
    by (simp_all add: is_digit_def digits_val_def digit_val_def)
  consider "?n = []" | "?n \<noteq> []" "length ?n < 10" | "?n \<noteq> []" "length ?n = 10" | "10 < length ?n"
    by linarith
  then show ?thesis
  proof cases
    case 1
    then have "digits_val line = 0" using v by (simp add: digits_val_def)
    with 1 show ?thesis by (simp add: edge_line_ok_def Let_def)
  next
    case 2
    have "(10::nat) ^ length ?n \<le> 10 ^ 9" using 2 by (intro power_increasing) simp_all
    then have "digits_val line < 10 ^ 9" using digits_val_bound[OF d(2)] v by linarith
    moreover have "(1::nat) \<le> 10 ^ (length ?n - 1)" by simp
    then have "1 \<le> digits_val line" using lstrip_zeros_lower[OF d(1) 2(1)] by linarith
    ultimately show ?thesis using 2 True by (simp add: edge_line_ok_def Let_def)
  next
    case 3
    then have "1 \<le> digits_val line" using lstrip_zeros_lower[OF d(1)] by simp
    moreover have "''2147483647'' < ?n \<longleftrightarrow> 2147483647 < digits_val line"
      using digits_order[OF m(1) d(2)] 3 by (simp add: m v)
    ultimately show ?thesis using 3 True by (auto simp: edge_line_ok_def Let_def)
  next
    case 4
    have "(10::nat) ^ 10 \<le> 10 ^ (length ?n - 1)" using 4 by (intro power_increasing) simp_all
    moreover have "?n \<noteq> []" using 4 by auto
    ultimately have "2147483647 < digits_val line" using lstrip_zeros_lower[OF d(1)] by simp
    then show ?thesis using 4 by (simp add: edge_line_ok_def Let_def)
  qed
qed (simp add: edge_line_ok_def)

section \<open>Chains of call edges\<close>

text \<open>An edge with its parts: source, target, path and line of the call.\<close>

record call_edge =
  ce_source :: string
  ce_target :: string
  ce_path :: string
  ce_line :: string

definition edge_text :: "call_edge \<Rightarrow> string" where
  "edge_text e = ce_source e @ ''~'' @ ce_target e @ ''@'' @ ce_path e @ '':'' @ ce_line e"

definition edge_wf :: "call_edge \<Rightarrow> bool" where
  "edge_wf e \<longleftrightarrow> CHR ''~'' \<notin> set (ce_source e) \<union> set (ce_target e) \<union> set (ce_path e)
     \<and> CHR ''@'' \<notin> set (ce_source e) \<union> set (ce_target e) \<union> set (ce_path e)
     \<and> ce_target e \<noteq> [] \<and> ce_path e \<noteq> [] \<and> \<not> startswith (ce_path e) ''/''
     \<and> ''..'' \<notin> set (split_on CHR ''/'' (ce_path e))
     \<and> isdigit (ce_line e) \<and> 1 \<le> digits_val (ce_line e) \<and> digits_val (ce_line e) \<le> 2147483647"

fun chained :: "string \<Rightarrow> call_edge list \<Rightarrow> bool" where
  "chained current [] = True"
| "chained current (e # es) = (ce_source e = current \<and> chained (ce_target e) es)"

lemma count_char_append: "count_char c (s @ t) = count_char c s + count_char c t"
  by (simp add: count_char_def)

lemma count_char_0: "count_char c s = 0 \<longleftrightarrow> c \<notin> set s"
  by (auto simp: count_char_def filter_empty_conv)

lemma count_char_Cons: "count_char c (x # s) = (if x = c then Suc (count_char c s) else count_char c s)"
  by (simp add: count_char_def)

lemma digits_no_sep: "isdigit s \<Longrightarrow> CHR '':'' \<notin> set s \<and> CHR ''~'' \<notin> set s \<and> CHR ''@'' \<notin> set s"
proof -
  assume "isdigit s"
  then have "\<forall>c \<in> set s. is_digit c" by (simp add: isdigit_def list_all_iff)
  moreover have "\<not> is_digit CHR '':''" "\<not> is_digit CHR ''~''" "\<not> is_digit CHR ''@''"
    by (simp_all add: is_digit_def)
  ultimately show ?thesis by blast
qed

text \<open>One step of the loop, on an edge given by its parts and on an arbitrary one.\<close>

lemma bound_step:
  assumes "edge_wf e"
  shows "call_edges_are_bound (edge_text e # es) current
    = (if ce_source e = current then call_edges_are_bound es (ce_target e) else Inr False)"
proof -
  have no: "CHR '':'' \<notin> set (ce_line e)" "CHR ''~'' \<notin> set (ce_line e)" "CHR ''@'' \<notin> set (ce_line e)"
    using digits_no_sep[of "ce_line e"] assms by (auto simp: edge_wf_def)
  have c: "count_char CHR ''~'' (edge_text e) = 1" "count_char CHR ''@'' (edge_text e) = 1"
    using assms no by (auto simp: edge_text_def edge_wf_def count_char_append count_char_Cons count_char_0)
  have "rsplit_once CHR ''@'' (edge_text e) = Some (ce_source e @ ''~'' @ ce_target e, ce_path e @ '':'' @ ce_line e)"
    using rsplit_once_Some[of "CHR ''@''" "ce_path e @ '':'' @ ce_line e" "ce_source e @ ''~'' @ ce_target e"]
      assms no by (simp add: edge_text_def edge_wf_def)
  moreover have "split_once CHR ''~'' (ce_source e @ ''~'' @ ce_target e) = Some (ce_source e, ce_target e)"
    using split_once_Some[of "CHR ''~''" "ce_source e" "ce_target e"] assms by (simp add: edge_wf_def)
  moreover have "rsplit_once CHR '':'' (ce_path e @ '':'' @ ce_line e) = Some (ce_path e, ce_line e)"
    using rsplit_once_Some[of "CHR '':''" "ce_line e" "ce_path e"] no by simp
  ultimately show ?thesis
    using c assms by (simp add: edge_wf_def edge_line_ok_iff)
qed

lemma bound_edge_parts:
  assumes "call_edges_are_bound (x # es) current = Inr True"
  obtains e where "x = edge_text e" "edge_wf e"
proof -
  obtain callables location where at: "rsplit_once CHR ''@'' x = Some (callables, location)"
    and cnt: "count_char CHR ''~'' x = 1" "count_char CHR ''@'' x = 1"
    using assms by (auto split: if_splits option.splits)
  obtain src tgt where tilde: "split_once CHR ''~'' callables = Some (src, tgt)"
    using assms at cnt by (auto split: if_splits option.splits)
  obtain path line where colon: "rsplit_once CHR '':'' location = Some (path, line)"
    and ok: "tgt \<noteq> []" "path \<noteq> []" "\<not> startswith path ''/''" "''..'' \<notin> set (split_on CHR ''/'' path)"
      "edge_line_ok line"
    using assms at tilde cnt by (auto split: if_splits option.splits)
  have x: "x = src @ ''~'' @ tgt @ ''@'' @ path @ '':'' @ line"
    using rsplit_once_SomeD[OF at] split_once_SomeD[OF tilde] rsplit_once_SomeD[OF colon] by simp
  have "count_char CHR ''~'' src = 0" "count_char CHR ''~'' tgt = 0" "count_char CHR ''~'' path = 0"
    "count_char CHR ''@'' src = 0" "count_char CHR ''@'' tgt = 0" "count_char CHR ''@'' path = 0"
    using cnt unfolding x by (simp_all add: count_char_append count_char_Cons)
  then have "edge_wf \<lparr>ce_source = src, ce_target = tgt, ce_path = path, ce_line = line\<rparr>"
    using ok by (simp add: edge_wf_def edge_line_ok_iff count_char_0)
  then show thesis
    by (rule that[rotated]) (simp add: x edge_text_def)
qed

lemma call_edges_are_bound_iff:
  "call_edges_are_bound es current = Inr True \<longleftrightarrow>
     (\<exists>ds. es = map edge_text ds \<and> list_all edge_wf ds \<and> chained current ds)"
proof (induction es arbitrary: current)
  case (Cons x es)
  show ?case
  proof
    assume h: "call_edges_are_bound (x # es) current = Inr True"
    then obtain e where e: "x = edge_text e" "edge_wf e" by (rule bound_edge_parts)
    with h Cons obtain ds where "ce_source e = current" "es = map edge_text ds" "list_all edge_wf ds"
        "chained (ce_target e) ds"
      by (auto simp: bound_step simp del: call_edges_are_bound.simps split: if_splits)
    with e have "x # es = map edge_text (e # ds) \<and> list_all edge_wf (e # ds) \<and> chained current (e # ds)"
      by simp
    then show "\<exists>ds. x # es = map edge_text ds \<and> list_all edge_wf ds \<and> chained current ds"
      by (rule exI)
  next
    assume "\<exists>ds. x # es = map edge_text ds \<and> list_all edge_wf ds \<and> chained current ds"
    then show "call_edges_are_bound (x # es) current = Inr True"
      using Cons by (auto simp: bound_step simp del: call_edges_are_bound.simps)
  qed
qed simp


text \<open>The loop can raise: an edge with its at-sign before its tilde has no target to unpack.\<close>

definition misordered :: "string \<Rightarrow> bool" where
  "misordered x = (\<exists>a b d. x = a @ ''@'' @ b @ ''~'' @ d \<and> CHR ''@'' \<notin> set (a @ b @ d) \<and> CHR ''~'' \<notin> set (a @ b @ d))"

lemma rsplit_once_None: "rsplit_once c s = None \<longleftrightarrow> c \<notin> set s"
  by (auto simp: rsplit_once_def split_once_def)

lemma split_once_None: "split_once c s = None \<longleftrightarrow> c \<notin> set s"
  by (auto simp: split_once_def)

lemma call_edge_error_iff: "(\<exists>e. call_edges_are_bound [x] current = Inl e) \<longleftrightarrow> misordered x"
proof (cases "count_char CHR ''~'' x = 1 \<and> count_char CHR ''@'' x = 1")
  case True
  then have "CHR ''@'' \<in> set x" using count_char_0[of "CHR ''@''" x] by auto
  then obtain l r where lr: "rsplit_once CHR ''@'' x = Some (l, r)"
    by (metis option.exhaust rsplit_once_None surj_pair)
  have x: "x = l @ CHR ''@'' # r" using rsplit_once_SomeD[OF lr] by simp
  have cnt: "count_char CHR ''~'' l + count_char CHR ''~'' r = 1" "count_char CHR ''@'' l = 0" "count_char CHR ''@'' r = 0"
    using True by (simp_all add: x count_char_append count_char_Cons)
  have err: "(\<exists>e. call_edges_are_bound [x] current = Inl e) \<longleftrightarrow> CHR ''~'' \<notin> set l"
    using True lr by (auto simp: split_once_None[symmetric] split: option.splits prod.splits)
  show ?thesis
  proof (cases "CHR ''~'' \<in> set l")
    case False
    then have "count_char CHR ''~'' r = 1" using cnt(1) count_char_0[of "CHR ''~''" l] by simp
    then obtain b d where "split_once CHR ''~'' r = Some (b, d)"
      by (metis count_char_0 option.exhaust split_once_None surj_pair zero_neq_one)
    from split_once_SomeD[OF this] have r: "r = b @ CHR ''~'' # d" by simp
    with \<open>count_char CHR ''~'' r = 1\<close> have "count_char CHR ''~'' b = 0" "count_char CHR ''~'' d = 0"
      by (simp_all add: count_char_append count_char_Cons)
    with cnt r x False have "misordered x"
      unfolding misordered_def
      by (intro exI[of _ l] exI[of _ b] exI[of _ d]) (auto simp: count_char_0)
    with err False show ?thesis by blast
  next
    case in_l: True
    have "\<not> misordered x"
    proof
      assume "misordered x"
      then obtain a b d where "x = a @ CHR ''@'' # (b @ CHR ''~'' # d)" "CHR ''@'' \<notin> set (b @ CHR ''~'' # d)"
        "CHR ''~'' \<notin> set a" by (auto simp: misordered_def)
      then have "rsplit_once CHR ''@'' x = Some (a, b @ CHR ''~'' # d)" using rsplit_once_Some by metis
      with lr in_l \<open>CHR ''~'' \<notin> set a\<close> show False by simp
    qed
    with err in_l show ?thesis by blast
  qed
next
  case False
  have "\<not> misordered x"
  proof
    assume "misordered x"
    then obtain a b d where "x = a @ ''@'' @ b @ ''~'' @ d" "CHR ''@'' \<notin> set (a @ b @ d)" "CHR ''~'' \<notin> set (a @ b @ d)"
      by (auto simp: misordered_def)
    then have "count_char CHR ''~'' x = 1 \<and> count_char CHR ''@'' x = 1"
      by (simp add: count_char_append count_char_Cons count_char_0[THEN iffD2])
    with False show False by blast
  qed
  with False show ?thesis by auto
qed

section \<open>Identifier tokens\<close>

text \<open>The identifier characters that end a text.\<close>

definition trailing_run :: "string \<Rightarrow> string" where
  "trailing_run p = takeWhile ident_part (rev p)"

lemma trailing_run_Cons:
  "list_all ident_part p \<Longrightarrow> set (trailing_run (c # p)) = set p \<union> (if ident_part c then {c} else {})"
  "\<not> list_all ident_part p \<Longrightarrow> trailing_run (c # p) = trailing_run p"
  by (auto simp: trailing_run_def takeWhile_append list_all_iff split: if_splits)

lemma trailing_run_append: "\<not> list_all ident_part q \<Longrightarrow> trailing_run (p @ q) = trailing_run q"
  by (simp add: trailing_run_def takeWhile_append list_all_iff) blast

lemma trailing_run_all: "list_all ident_part p \<Longrightarrow> trailing_run p = rev p"
  by (simp add: trailing_run_def list_all_iff)

lemma ident_part_cases: "ident_part c \<longleftrightarrow> ident_start c \<or> is_digit c" "ident_start c \<Longrightarrow> \<not> is_digit c"
  by (auto simp: ident_part_def ident_start_def letters_def is_digit_def)

definition token_of :: "string \<Rightarrow> string \<Rightarrow> bool" where
  "token_of name e \<longleftrightarrow> is_identifier name \<and> (\<exists>pre post. e = pre @ name @ post
     \<and> list_all is_digit (trailing_run pre) \<and> (post = [] \<or> \<not> ident_part (hd post)))"

lemma is_identifier_Cons: "is_identifier s \<longleftrightarrow> (\<exists>c cs. s = c # cs \<and> ident_start c \<and> list_all ident_part cs)"
  by (cases s) (auto simp: is_identifier_def)

lemma token_skip:
  assumes "\<not> ident_start c"
  shows "token_of name (c # s) \<longleftrightarrow> token_of name s"
proof
  assume "token_of name (c # s)"
  then obtain pre post where p: "is_identifier name" "c # s = pre @ name @ post"
    "list_all is_digit (trailing_run pre)" "post = [] \<or> \<not> ident_part (hd post)"
    by (auto simp: token_of_def)
  with assms obtain pre' where pre: "pre = c # pre'" by (cases pre) (auto simp: is_identifier_Cons)
  then have "list_all is_digit (trailing_run pre')"
    using p(3) trailing_run_Cons[of pre' c] trailing_run_all[of pre']
    by (cases "list_all ident_part pre'") (auto simp: list_all_iff)
  with p pre show "token_of name s" by (auto simp: token_of_def)
next
  assume "token_of name s"
  then obtain pre post where p: "is_identifier name" "s = pre @ name @ post"
    "list_all is_digit (trailing_run pre)" "post = [] \<or> \<not> ident_part (hd post)"
    by (auto simp: token_of_def)
  then have "list_all is_digit (trailing_run (c # pre))"
    using assms trailing_run_Cons[of pre c] trailing_run_all[of pre] ident_part_cases(1)[of c]
    by (cases "list_all ident_part pre") (auto simp: list_all_iff)
  with p show "token_of name (c # s)"
    unfolding token_of_def by (metis append_Cons)
qed

lemma token_first:
  assumes "ident_start c"
  shows "token_of name (c # s) \<longleftrightarrow> name = c # takeWhile ident_part s \<or> token_of name (dropWhile ident_part s)"
proof
  assume "token_of name (c # s)"
  then obtain pre post where p: "is_identifier name" "c # s = pre @ name @ post"
    "list_all is_digit (trailing_run pre)" "post = [] \<or> \<not> ident_part (hd post)"
    by (auto simp: token_of_def)
  show "name = c # takeWhile ident_part s \<or> token_of name (dropWhile ident_part s)"
  proof (cases pre)
    case Nil
    then obtain cs where "name = c # cs" "list_all ident_part cs" "s = cs @ post"
      using p by (auto simp: is_identifier_Cons)
    moreover have "takeWhile ident_part post = []" using p(4) by (cases post) auto
    ultimately show ?thesis by (simp add: takeWhile_append list_all_iff)
  next
    case (Cons c' pre')
    with p have s: "s = pre' @ name @ post" "c' = c" by simp_all
    have np: "\<not> list_all ident_part pre'"
    proof
      assume "list_all ident_part pre'"
      then have "c \<in> set (trailing_run pre)"
        using trailing_run_Cons(1)[of pre' c] assms ident_part_cases(1)[of c] by (simp add: Cons s)
      with p(3) assms ident_part_cases(2) show False by (auto simp: list_all_iff)
    qed
    then have "dropWhile ident_part s = dropWhile ident_part pre' @ name @ post"
      by (auto simp: s dropWhile_append list_all_iff)
    moreover have "trailing_run (dropWhile ident_part pre') = trailing_run pre'"
    proof -
      have "\<not> list_all ident_part (dropWhile ident_part pre')"
        using np by (induction pre') auto
      then show ?thesis
        using trailing_run_append[of "dropWhile ident_part pre'" "takeWhile ident_part pre'"] by simp
    qed
    moreover have "trailing_run pre = trailing_run pre'" using np Cons trailing_run_Cons(2) by simp
    ultimately have "token_of name (dropWhile ident_part s)"
      unfolding token_of_def using p
      by (intro conjI exI[of _ "dropWhile ident_part pre'"] exI[of _ post]) simp_all
    then show ?thesis ..
  qed
next
  assume "name = c # takeWhile ident_part s \<or> token_of name (dropWhile ident_part s)"
  then show "token_of name (c # s)"
  proof
    assume name: "name = c # takeWhile ident_part s"
    have "post = [] \<or> \<not> ident_part (hd post)" if "post = dropWhile ident_part s" for post
      using that hd_dropWhile by blast
    moreover have "is_identifier name"
      using assms by (auto simp: name is_identifier_def list_all_iff dest: set_takeWhileD)
    ultimately show ?thesis
      unfolding token_of_def
      by (intro conjI exI[of _ "[]"] exI[of _ "dropWhile ident_part s"]) (simp_all add: name trailing_run_def)
  next
    assume "token_of name (dropWhile ident_part s)"
    then obtain pre post where p: "is_identifier name" "dropWhile ident_part s = pre @ name @ post"
      "list_all is_digit (trailing_run pre)" "post = [] \<or> \<not> ident_part (hd post)"
      by (auto simp: token_of_def)
    obtain d ds where name: "name = d # ds" "ident_start d" using p(1) by (auto simp: is_identifier_Cons)
    have "\<not> ident_part (hd (pre @ name @ post))"
      using p(2) name hd_dropWhile[of ident_part s] by simp
    then have "\<not> list_all ident_part pre"
      using name ident_part_cases(1)[of d] by (cases pre) simp_all
    then have "trailing_run ((c # takeWhile ident_part s) @ pre) = trailing_run pre"
      by (rule trailing_run_append)
    moreover have "c # s = ((c # takeWhile ident_part s) @ pre) @ name @ post"
      using p(2) takeWhile_dropWhile_id[of ident_part s] by (metis append.assoc append_Cons)
    ultimately show ?thesis
      unfolding token_of_def using p
      by (intro conjI exI[of _ "(c # takeWhile ident_part s) @ pre"] exI[of _ post]) simp_all
  qed
qed

lemma find_identifiers_iff: "name \<in> set (find_identifiers e) \<longleftrightarrow> token_of name e"
proof (induction e rule: find_identifiers.induct)
  case 1
  then show ?case by (auto simp: token_of_def is_identifier_Cons)
next
  case (2 c s)
  then show ?case by (cases "ident_start c") (simp_all add: token_first token_skip)
qed


text \<open>An expression binds a demand exactly when it is the demand, or the demand is a Java
  identifier that occurs in it as a whole token: not followed by an identifier character and
  preceded only by characters that cannot belong to an identifier it would be the end of.\<close>

theorem expression_binds_demand_iff:
  "expression_binds_demand name e \<longleftrightarrow> name = e \<or> token_of name e"
  by (auto simp: expression_binds_demand_def find_identifiers_iff token_of_def)

section \<open>Verified flows\<close>

interpretation flow_chain: check_chain flow_gates FlowVerified
  by standard (auto simp: flow_gates_def)

definition call_path_grounded :: "string list \<Rightarrow> string \<Rightarrow> bool" where
  "call_path_grounded path callable \<longleftrightarrow> path \<noteq> []
     \<and> (hd path = callable \<or> startswith (hd path) (callable @ ''[''))
     \<and> length path \<le> 4 \<and> distinct path \<and> set path \<inter> {''unmodeled_flow'', ''unknown''} = {}
     \<and> (\<exists>ds. tl path = map edge_text ds \<and> list_all edge_wf ds \<and> chained callable ds)"

definition flow_proven :: "flow_proof \<Rightarrow> entry_fact \<Rightarrow> verified_growth \<Rightarrow> growth_candidate \<Rightarrow> bool" where
  "flow_proven flow entry growth_result candidate \<longleftrightarrow>
     ac_source (fl_control flow) \<in> input_names entry
   \<and> (\<exists>d \<in> set (g_demands candidate). d_role d = ac_target (fl_control flow)
        \<and> (d_name d = ac_sink (fl_control flow) \<or> token_of (d_name d) (ac_sink (fl_control flow))))
   \<and> call_path_grounded (fl_call_path flow) (h_callable (e_handler entry))
   \<and> vg_status growth_result = Verified
   \<and> fl_kind flow \<in> {''data_flow'', ''local_data_flow''}
   \<and> fl_coverage_status flow = ''complete'' \<and> fl_confidence flow \<noteq> ''partial''"

lemma call_path_bound_iff:
  "p \<noteq> [] \<Longrightarrow> entry_ok = (hd p = c \<or> startswith (hd p) (c @ ''['')) \<Longrightarrow>
     entry_ok \<and> call_path_bound p c = Inr True \<longleftrightarrow> call_path_grounded p c"
  by (auto simp: call_path_bound_def call_path_grounded_def call_edges_are_bound_iff list_all_iff)

lemma flow_gates_pass_iff:
  "list_all gate_ok (flow_gates (flow, entry, r, c, rooted, bound)) \<longleftrightarrow>
     flow_semantics_ok flow entry c \<and> rooted \<and> bound \<and> vg_status r = Verified
     \<and> fl_kind flow \<in> {''data_flow'', ''local_data_flow''}
     \<and> fl_coverage_status flow = ''complete'' \<and> fl_confidence flow \<noteq> ''partial''"
  unfolding flow_gates_def split data_flow_kinds_def list.set
  by (simp only: list.pred_inject gate.simps conj_assoc simp_thms)

lemma flow_semantics_iff:
  "flow_semantics_ok flow entry c \<longleftrightarrow> ac_source (fl_control flow) \<in> input_names entry
   \<and> (\<exists>d \<in> set (g_demands c). d_role d = ac_target (fl_control flow)
        \<and> (d_name d = ac_sink (fl_control flow) \<or> token_of (d_name d) (ac_sink (fl_control flow))))"
  by (auto simp: flow_semantics_ok_def demand_binds_def list_ex_iff expression_binds_demand_def
      find_identifiers_iff token_of_def)

lemma flow_gates_reference_checks:
  "oc_checks (run_gates FlowVerified (flow_gates x) reference_checks) \<noteq> []"
  by (auto simp: run_gates_outcome reference_checks_def split: option.splits)

text \<open>Wrapping an outcome of the chain never fails.\<close>

lemma finish_flow_outcome:
  obtains v where "finish_flow flow ev (run_gates FlowVerified (flow_gates x) reference_checks) = Inr v"
    "VerifiedFlow v = Inr v" "vf_proof v = flow"
    "vf_status v = oc_status (run_gates FlowVerified (flow_gates x) reference_checks)"
proof -
  let ?o = "run_gates FlowVerified (flow_gates x) reference_checks"
  define v0 where "v0 = \<lparr>verified_flow_id = [], vf_path_id = path_id flow, vf_entry_id = fl_entry_id flow,
     vf_growth_id = fl_growth_id flow, vf_status = oc_status ?o, vf_reasons = usort (oc_reasons ?o),
     vf_checks = oc_checks ?o, vf_evidence_ids = ev, vf_unresolved = usort (oc_unresolved ?o), vf_proof = flow\<rparr>"
  define v where "v = v0\<lparr>verified_flow_id := stable_identifier ''verified_flow'' (verified_flow_identity v0)\<rparr>"
  have "list_all passed reference_checks" by (simp add: reference_checks_def)
  then have "VerifiedFlow v = Inr v"
    using flow_gates_reference_checks[of x] flow_chain.reasons_iff[of x reference_checks]
      flow_chain.all_passed_iff[of reference_checks x]
    by (auto simp: VerifiedFlow_def v_def v0_def verified_flow_identity_def)
  moreover from this have "finish_flow flow ev ?o = Inr v"
    by (simp add: finish_flow_def Let_def v_def v0_def)
  moreover have "vf_proof v = flow" "vf_status v = oc_status ?o" by (simp_all add: v_def v0_def)
  ultimately show thesis using that by blast
qed

lemma call_edges_error_step:
  assumes "call_edges_are_bound (x # es) c = Inl err"
  shows "(\<exists>e. call_edges_are_bound [x] c = Inl e) \<or> (\<exists>c'. call_edges_are_bound es c' = Inl err)"
  using assms by (auto split: if_splits option.splits)

lemma call_edges_return:
  assumes "\<forall>x \<in> set es. \<not> misordered x"
  shows "\<exists>b. call_edges_are_bound es c = Inr b"
  using assms
proof (induction es arbitrary: c)
  case (Cons x es)
  then show ?case
    using call_edges_error_step[of x es c] call_edge_error_iff[of x c]
    by (metis list.set_intros(1) list.set_intros(2) obj_sumE sum.distinct(1))
qed auto

text \<open>C15. For a proof whose entry and Growth (with its candidate) are known, and whose call path
  has no edge with its at-sign before its tilde, the verification returns a well-formed result;
  the flow satisfies the attacker-control premise exactly when its source is an input of the
  entry, its sink names a demand of the Growth in the claimed role, its call path is a chain of
  at most three located calls from the handler, the Growth is verified, and the evidence is a
  complete and proven data flow.\<close>

theorem verify_flow_correct:
  assumes "entries (fl_entry_id flow) = Some entry" "entry_id entry = fl_entry_id flow"
    "growth (fl_growth_id flow) = Some r" "vg_growth_id r = fl_growth_id flow"
    "vg_candidate r = Some candidate"
    "fl_call_path flow \<noteq> []" "\<forall>x \<in> set (tl (fl_call_path flow)). \<not> misordered x"
  shows "\<exists>v. verify_flow flow entries growth = Inr v \<and> VerifiedFlow v = Inr v \<and> vf_proof v = flow
    \<and> (satisfies_premise v \<longleftrightarrow> flow_proven flow entry r candidate)"
proof -
  let ?c = "h_callable (e_handler entry)" and ?sem = "flow_semantics_ok flow entry candidate"
  let ?root = "hd (fl_call_path flow) = ?c \<or> startswith (hd (fl_call_path flow)) (?c @ ''['')"
  have root: "entry_rooted flow entry = Inr ?root"
    using assms(6) by (cases "fl_call_path flow") (simp_all add: entry_rooted_def)
  have "\<exists>b. call_path_bound (fl_call_path flow) ?c = Inr b"
    using call_edges_return[OF assms(7), of ?c] by (auto simp: call_path_bound_def)
  then obtain b where b: "call_path_bound (fl_call_path flow) ?c = Inr b" by blast
  let ?rooted = "?sem \<and> ?root" and ?bound = "?sem \<and> ?root \<and> b"
  obtain v where v: "finish_flow flow (usort ([path_id flow, entry_id entry, vg_growth_id r] @ g_evidence candidate))
      (run_gates FlowVerified (flow_gates (flow, entry, r, candidate, ?rooted, ?bound)) reference_checks) = Inr v"
    "VerifiedFlow v = Inr v" "vf_proof v = flow"
    "vf_status v = oc_status (run_gates FlowVerified (flow_gates (flow, entry, r, candidate, ?rooted, ?bound)) reference_checks)"
    by (rule finish_flow_outcome)
  have res: "verify_flow flow entries growth = Inr v"
    using assms(1-5) root b v(1)
    by (cases ?sem; cases ?root) (simp_all add: verify_flow_def Let_def)
  have "satisfies_premise v \<longleftrightarrow> list_all gate_ok (flow_gates (flow, entry, r, candidate, ?rooted, ?bound))"
    unfolding satisfies_premise_def v(4) by (rule flow_chain.good_iff)
  moreover have "?root \<and> b \<longleftrightarrow> call_path_grounded (fl_call_path flow) ?c"
    using call_path_bound_iff[OF assms(6) refl, of ?c] b by simp
  ultimately have "satisfies_premise v \<longleftrightarrow> flow_proven flow entry r candidate"
    unfolding flow_gates_pass_iff flow_proven_def flow_semantics_iff by blast
  with res v show ?thesis by blast
qed

definition sample_entry :: entry_fact where
  "sample_entry = \<lparr>entry_id = ''entry:1'', e_framework = ''spring_mvc'', e_protocol = ''http'',
     e_handler = \<lparr>h_callable = ''C.m'', h_file = ''A.java'', h_start_line = 4\<rparr>,
     e_registration = \<lparr>r_kind = ''annotation_mapping'', r_callable = ''C'', r_file = ''A.java'', r_start_line = 1\<rparr>,
     registration_pattern_id = [], route_or_event = ''/m'', auth_context = ''unknown'',
     attacker_inputs = [AttackerInput ''name'' ''String'' ''request_parameter''],
     materialization_phase = ''in_handler''\<rparr>"

definition sample_growth :: verified_growth where
  "sample_growth = \<lparr>verified_growth_id = ''verified_growth:1'', vg_growth_id = ''growth:1'',
     vg_slice_id = ''slice:1'', vg_status = Verified, vg_reasons = [], vg_checks = [],
     vg_candidate = Some sample_candidate\<rparr>"

definition sample_flow :: "string list \<Rightarrow> flow_proof" where
  "sample_flow calls = \<lparr>path_id = ''flow:1'', fl_entry_id = ''entry:1'', fl_growth_id = ''growth:1'',
     fl_control = \<lparr>ac_target = ''key'', ac_source = ''name'', ac_sink = ''put(name, v)''\<rparr>,
     fl_call_path = calls, fl_phases = [''in_handler''], fl_confidence = ''proven'', fl_kind = ''data_flow'',
     fl_coverage_status = ''complete'', fl_coverage_note = ''normalized''\<rparr>"

definition sample_edge :: call_edge where
  "sample_edge = \<lparr>ce_source = ''C.m'', ce_target = ''D.put'', ce_path = ''A.java'', ce_line = ''12''\<rparr>"

lemma sample_token: "token_of ''name'' ''put(name, v)''"
proof -
  have "''name'' \<in> set (find_identifiers ''put(name, v)'')"
    by (simp add: ident_part_def ident_start_def letters_def is_digit_def)
  then show ?thesis by (simp only: find_identifiers_iff)
qed

lemma sample_edge_wf: "edge_wf sample_edge"
  by (simp add: edge_wf_def sample_edge_def startswith_def isdigit_def is_digit_def digits_val_def digit_val_def)

lemma sample_edge_text: "edge_text sample_edge = ''C.m~D.put@A.java:12''"
  by (simp add: edge_text_def sample_edge_def)

lemma sample_not_misordered: "\<not> misordered ''C.m~D.put@A.java:12''"
proof -
  have "call_edges_are_bound [edge_text sample_edge] ''C.m'' = Inr True"
    unfolding bound_step[OF sample_edge_wf] by (simp add: sample_edge_def)
  then show ?thesis
    unfolding sample_edge_text using call_edge_error_iff[of "''C.m~D.put@A.java:12''" "''C.m''"]
    by (simp only: sum.distinct simp_thms)
qed

theorem verify_flow_correct_witness:
  "\<exists>v. verify_flow (sample_flow [''C.m'', ''C.m~D.put@A.java:12'']) [''entry:1'' \<mapsto> sample_entry]
     [''growth:1'' \<mapsto> sample_growth] = Inr v \<and> satisfies_premise v"
proof -
  let ?f = "sample_flow [''C.m'', ''C.m~D.put@A.java:12'']"
  have "call_path_grounded (fl_call_path ?f) ''C.m''"
    unfolding call_path_grounded_def
    using sample_edge_wf sample_edge_text
    by (auto simp: sample_flow_def intro!: exI[of _ "[sample_edge]"]) (simp add: sample_edge_def)
  then have "flow_proven ?f sample_entry sample_growth sample_candidate"
    using sample_token
    by (simp add: flow_proven_def sample_flow_def sample_entry_def sample_growth_def sample_candidate_def
        input_names_def)
  moreover have "\<forall>x \<in> set (tl (fl_call_path ?f)). \<not> misordered x"
    using sample_not_misordered by (simp add: sample_flow_def)
  moreover have "[''entry:1'' \<mapsto> sample_entry] (fl_entry_id ?f) = Some sample_entry"
    "[''growth:1'' \<mapsto> sample_growth] (fl_growth_id ?f) = Some sample_growth"
    "entry_id sample_entry = fl_entry_id ?f" "vg_growth_id sample_growth = fl_growth_id ?f"
    "vg_candidate sample_growth = Some sample_candidate" "fl_call_path ?f \<noteq> []"
    by (simp_all add: sample_flow_def sample_entry_def sample_growth_def)
  ultimately show ?thesis
    using verify_flow_correct[of "[''entry:1'' \<mapsto> sample_entry]" ?f sample_entry
        "[''growth:1'' \<mapsto> sample_growth]" sample_growth sample_candidate] by blast
qed

text \<open>The verification does not return for a call edge whose at-sign stands before its tilde:
  unpacking the edge raises a \<open>ValueError\<close> that nothing catches.\<close>

theorem verify_flow_misordered_edge:
  assumes "entries (fl_entry_id flow) = Some entry" "entry_id entry = fl_entry_id flow"
    "growth (fl_growth_id flow) = Some r" "vg_growth_id r = fl_growth_id flow"
    "vg_candidate r = Some candidate" "flow_semantics_ok flow entry candidate"
    "fl_call_path flow = [h_callable (e_handler entry), x]" "misordered x"
    "h_callable (e_handler entry) \<notin> {x, ''unmodeled_flow'', ''unknown''}"
  shows "verify_flow flow entries growth = Inl (PyValueError ''unpack'')"
proof -
  have "x \<noteq> ''unmodeled_flow''" "x \<noteq> ''unknown''"
    using assms(8) by (auto simp: misordered_def append_eq_Cons_conv)
  moreover have "call_edges_are_bound [x] (h_callable (e_handler entry)) = Inl (PyValueError ''unpack'')"
    using call_edge_error_iff[of x "h_callable (e_handler entry)"] assms(8)
    by (auto split: if_splits option.splits)
  ultimately show ?thesis
    using assms by (simp add: verify_flow_def entry_rooted_def call_path_bound_def)
qed

theorem verify_flow_misordered_edge_witness:
  "verify_flow (sample_flow [''C.m'', ''C.m@A~D:12'']) [''entry:1'' \<mapsto> sample_entry]
     [''growth:1'' \<mapsto> sample_growth] = Inl (PyValueError ''unpack'')"
proof (rule verify_flow_misordered_edge)
  show "[''growth:1'' \<mapsto> sample_growth] (fl_growth_id (sample_flow [''C.m'', ''C.m@A~D:12''])) = Some sample_growth"
    "[''entry:1'' \<mapsto> sample_entry] (fl_entry_id (sample_flow [''C.m'', ''C.m@A~D:12''])) = Some sample_entry"
    by (simp_all add: sample_flow_def)
  show "vg_candidate sample_growth = Some sample_candidate" by (simp add: sample_growth_def)
  show "flow_semantics_ok (sample_flow [''C.m'', ''C.m@A~D:12'']) sample_entry sample_candidate"
    using sample_token
    by (simp add: flow_semantics_iff sample_flow_def sample_entry_def input_names_def sample_candidate_def)
  show "misordered ''C.m@A~D:12''"
    unfolding misordered_def
    by (intro exI[of _ "''C.m''"] exI[of _ "''A''"] exI[of _ "''D:12''"]) simp
qed (simp_all add: sample_flow_def sample_entry_def sample_growth_def)

section \<open>Normalized proofs\<close>

lemma FlowProof_id: "FlowProof f = Inr g \<Longrightarrow> g = f"
  by (auto simp: FlowProof_def res_bind_Inr_iff split: if_splits)

lemma FlowProof_proven:
  "FlowProof f = Inr f \<Longrightarrow> fl_confidence f = ''proven''
     \<Longrightarrow> fl_kind f \<in> set data_flow_kinds \<and> fl_coverage_status f = ''complete''"
  by (auto simp: FlowProof_def res_bind_Inr_iff split: if_splits)

lemma flow_create_Inr:
  assumes "flow_create eid gid control calls phases conf kind cov note = Inr p"
  shows "FlowProof p = Inr p" "fl_entry_id p = eid" "fl_growth_id p = gid" "fl_control p = control"
    "fl_confidence p = conf"
  using assms FlowProof_id by (force simp: flow_create_def res_bind_Inr_iff Let_def)+

lemma min_by_in: "xs \<noteq> [] \<Longrightarrow> min_by key xs \<in> set xs"
  by (metis hd_in_set length_0_conv length_sort min_by_def set_sort)

lemma one_key_nonempty: "one_key key xs \<Longrightarrow> xs \<noteq> []"
  by (auto simp: one_key_def)

lemma min_by_one_key: "one_key key xs \<Longrightarrow> min_by key' xs \<in> set xs"
  by (rule min_by_in) (rule one_key_nonempty)

lemma entries_for_growth_subset:
  assumes "entries_for_growth es g = Inr r"
  shows "set r \<subseteq> set es"
proof -
  obtain c where c: "vg_candidate g = Some c"
    using assms by (auto simp: entries_for_growth_def split: option.splits)
  define matched where "matched = filter (\<lambda>e. d_name ` set (g_demands c) \<inter> input_names e \<noteq> {}) es"
  define narrowed where "narrowed = (if d_name ` set (g_demands c) \<noteq> {} \<and> matched \<noteq> [] then matched else es)"
  have sub: "set narrowed \<subseteq> set es" by (auto simp: narrowed_def matched_def)
  have "set r \<subseteq> set narrowed"
    using assms
    unfolding entries_for_growth_def c option.case Let_def matched_def[symmetric] narrowed_def[symmetric]
    by (auto split: if_splits intro: min_by_one_key)
  with sub show ?thesis by blast
qed

lemma resolve_flow_entries_subset:
  assumes "resolve_flow_entries entries canonical control ms g = Inr r"
  shows "set r \<subseteq> set ms"
proof -
  define dom' where "dom' = sort_key entry_id
    (if filter (\<lambda>e. ac_source control \<in> input_names e) ms \<noteq> [] then filter (\<lambda>e. ac_source control \<in> input_names e) ms else ms)"
  have sub: "set dom' \<subseteq> set ms" by (auto simp: dom'_def)
  have "set r \<subseteq> set dom'"
    using assms entries_for_growth_subset[of dom' g r]
    unfolding resolve_flow_entries_def Let_def dom'_def[symmetric]
    by (auto split: option.splits if_splits)
  with sub show ?thesis by blast
qed

text \<open>What a normalized proof is known to satisfy.\<close>

definition sound_proof :: "(string \<times> entry_fact) list \<Rightarrow> (string \<times> verified_growth) list \<Rightarrow> flow_proof \<Rightarrow> bool" where
  "sound_proof entries growth p \<longleftrightarrow> FlowProof p = Inr p
     \<and> (\<exists>e \<in> snd ` set entries. entry_id e = fl_entry_id p \<and> ac_source (fl_control p) \<in> input_names e)
     \<and> (\<exists>g \<in> snd ` set growth. vg_growth_id g = fl_growth_id p
          \<and> (\<exists>c. vg_candidate g = Some c \<and> demand_binds (fl_control p) c))"

definition proofs_ok :: "(string \<times> entry_fact) list \<Rightarrow> (string \<times> verified_growth) list
    \<Rightarrow> (string \<times> flow_proof) list \<Rightarrow> bool" where
  "proofs_ok entries growth ps \<longleftrightarrow> distinct (map fst ps)
     \<and> (\<forall>(i, p) \<in> set ps. i = path_id p \<and> sound_proof entries growth p)"

lemma proofs_ok_snoc:
  "proofs_ok es gs ps \<Longrightarrow> path_id p \<notin> set (map fst ps) \<Longrightarrow> sound_proof es gs p
     \<Longrightarrow> proofs_ok es gs (ps @ [(path_id p, p)])"
  by (auto simp: proofs_ok_def)

lemma flow_row_proof_ok:
  assumes "flow_row_proof row control gid several cov conf kind note ps e = Inr ps'" "proofs_ok entries growth ps"
    "e \<in> snd ` set entries" "g \<in> snd ` set growth" "vg_growth_id g = gid" "vg_candidate g = Some c"
    "demand_binds control c"
  shows "proofs_ok entries growth ps'"
proof -
  obtain calls phases conf' cov' note' p where p: "flow_create (entry_id e) gid control calls phases conf' kind cov' note' = Inr p"
    and src: "ac_source control \<in> input_names e"
    and ps': "path_id p \<notin> set (map fst ps)" "ps' = ps @ [(path_id p, p)]"
    using assms(1) unfolding flow_row_proof_def Let_def
    by (auto simp: res_bind_Inr_iff split: if_split_asm)
  have "sound_proof entries growth p"
    unfolding sound_proof_def using flow_create_Inr[OF p] src assms(3-7) by auto
  with ps' assms(2) show ?thesis by (simp add: proofs_ok_snoc)
qed

lemma bind_flow_row_ok:
  assumes "bind_flow_row entries growth canonical ps row ms gms control = Inr ps'" "proofs_ok entries growth ps"
    "set ms \<subseteq> snd ` set entries" "set gms \<subseteq> {g \<in> snd ` set growth. vg_candidate g \<noteq> None}"
  shows "proofs_ok entries growth ps'"
proof -
  obtain gr where gr: "gms = [gr]"
    using assms(1) by (auto simp: bind_flow_row_def split: list.splits)
  then obtain c where c: "gr \<in> snd ` set growth" "vg_candidate gr = Some c" using assms(4) by auto
  obtain resolved cov conf kind nt where
    res: "resolve_flow_entries entries canonical control ms gr = Inr resolved"
    and binds: "demand_binds control c"
    and fold: "fold_res (flow_row_proof row control (vg_growth_id gr) (length resolved > 1) cov conf kind nt)
       ps resolved = Inr ps'"
    using assms(1) unfolding bind_flow_row_def gr Let_def
    by (auto simp: c res_bind_Inr_iff split: if_split_asm)
  have sub: "set resolved \<subseteq> snd ` set entries"
    using resolve_flow_entries_subset[OF res] assms(3) by blast
  show ?thesis
  proof (rule fold_res_invariant[where I = "proofs_ok entries growth", OF fold assms(2)])
    fix s e s'
    assume "e \<in> set resolved" "proofs_ok entries growth s"
      "flow_row_proof row control (vg_growth_id gr) (length resolved > 1) cov conf kind nt s e = Inr s'"
    then show "proofs_ok entries growth s'"
      using flow_row_proof_ok[of row control "vg_growth_id gr" _ cov conf kind nt s e s' entries growth gr c]
        c binds sub by blast
  qed
qed

lemma normalize_flow_row_ok:
  assumes "normalize_flow_row entries growth canonical ps raw = Inr ps'" "proofs_ok entries growth ps"
  shows "proofs_ok entries growth ps'"
proof -
  obtain row control sf sl kf kl where
    "bind_flow_row entries growth canonical ps row
        (filter (\<lambda>e. h_file (e_handler e) = sf \<and> h_start_line (e_handler e) = sl) (map snd entries))
        (filter (growth_at kf kl control) (map snd growth)) control = Inr ps'"
    using assms(1) unfolding normalize_flow_row_def Let_def
    by (auto simp: res_bind_Inr_iff split: json.split_asm if_split_asm)
  moreover have "set (filter (growth_at kf kl control) (map snd growth))
      \<subseteq> {g \<in> snd ` set growth. vg_candidate g \<noteq> None}"
    by (auto simp: growth_at_def split: option.split_asm)
  moreover have "set (filter P (map snd entries)) \<subseteq> snd ` set entries" for P by auto
  ultimately show ?thesis using bind_flow_row_ok assms(2) by blast
qed

text \<open>C35. Every normalized flow proof is a well-formed proof whose source is an input of a known
  entry, whose sink names a demand of a known Growth in the claimed role, and which is called
  proven only for a completely covered data flow; identifiers are unique.\<close>

theorem normalize_flow_proofs_sound:
  assumes "normalize_flow_proofs rows entries growth canonical = Inr ps"
  shows "distinct (map path_id ps) \<and> (\<forall>p \<in> set ps. sound_proof entries growth p
    \<and> (fl_confidence p = ''proven'' \<longrightarrow>
         fl_kind p \<in> set data_flow_kinds \<and> fl_coverage_status p = ''complete''))"
proof -
  obtain st where st: "fold_res (normalize_flow_row entries growth canonical) [] rows = Inr st"
    and ps: "ps = sort_key (\<lambda>p. canonical_json (JObj (flow_semantic_identity p))) (map snd st)"
    using assms by (auto simp: normalize_flow_proofs_def res_bind_Inr_iff split: if_splits)
  have ok: "proofs_ok entries growth st"
    by (rule fold_res_invariant[OF st]) (auto simp: proofs_ok_def[of _ _ "[]"] intro: normalize_flow_row_ok)
  have "map path_id (map snd st) = map fst st"
    using ok by (auto simp: proofs_ok_def)
  moreover have "mset (map path_id ps) = mset (map path_id (map snd st))"
    unfolding ps by (metis mset_map mset_sort)
  ultimately have "distinct (map path_id ps)"
    using ok mset_eq_imp_distinct_iff by (metis proofs_ok_def)
  moreover have "sound_proof entries growth p" if "p \<in> set ps" for p
    using that ok by (auto simp: ps proofs_ok_def)
  ultimately show ?thesis using FlowProof_proven by (auto simp: sound_proof_def)
qed

definition sample_flow_row :: json where
  "sample_flow_row = JObj
     [(''source_file'', JStr ''A.java''), (''source_start_line'', JInt 4), (''sink_file'', JStr ''A.java''),
      (''sink_start_line'', JInt 3), (''attacker_target'', JStr ''key''), (''attacker_source'', JStr ''name''),
      (''attacker_sink'', JStr ''put(name, v)''), (''call_path'', JStr ''C.m > C.m~D.put@A.java:3''),
      (''phase_sequence'', JStr ''in_handler''), (''flow_kind'', JStr ''data_flow''),
      (''confidence'', JStr ''proven''), (''coverage_status'', JStr ''partial''),
      (''coverage_note'', JStr ''bounded'')]"

lemma sample_row_values:
  "checked_path flow_invalid (JStr ''A.java'') g = Inr ''A.java''"
  "checked_string flow_invalid (JStr ''name'') g = Inr ''name''"
  "checked_string flow_invalid (JStr ''put(name, v)'') g = Inr ''put(name, v)''"
  "checked_string flow_invalid (JStr ''data_flow'') g = Inr ''data_flow''"
  "checked_string flow_invalid (JStr ''bounded'') g = Inr ''bounded''"
  "checked_string flow_invalid (JStr ''C.m'') g = Inr ''C.m''"
  "checked_string flow_invalid (JStr ''C.m~D.put@A.java:3'') g = Inr ''C.m~D.put@A.java:3''"
  "checked_string flow_invalid (JStr ''in_handler'') g = Inr ''in_handler''"
  "checked_enum flow_invalid (JStr ''key'') attacker_targets g = Inr ''key''"
  "checked_enum flow_invalid (JStr ''partial'') flow_coverages g = Inr ''partial''"
  "checked_enum flow_invalid (JStr ''partial'') flow_confidences g = Inr ''partial''"
  "checked_enum flow_invalid (JStr ''proven'') flow_confidences g = Inr ''proven''"
  by (simp_all add: checked_path_def checked_string_def checked_enum_def good_string_def
      max_string_bytes_def slashes_def path_parts_def startswith_def attacker_targets_def
      flow_coverages_def flow_confidences_def Let_def)

lemma sample_row_sequences:
  "flow_sequence (JStr ''C.m > C.m~D.put@A.java:3'') g = Inr [''C.m'', ''C.m~D.put@A.java:3'']"
  "flow_sequence (JStr ''in_handler'') g = Inr [''in_handler'']"
  "flow_sequence (JArr [JStr ''C.m'', JStr ''C.m~D.put@A.java:3'']) g = Inr [''C.m'', ''C.m~D.put@A.java:3'']"
  "flow_sequence (JArr [JStr ''in_handler'']) g = Inr [''in_handler'']"
  by (simp_all add: flow_sequence_def sample_row_values strip_def is_blank_def)

lemma sample_binds: "expression_binds_demand ''name'' ''put(name, v)''"
  by (simp add: expression_binds_demand_def is_identifier_def ident_part_def ident_start_def letters_def
      is_digit_def)

definition sample_control :: attacker_control where
  "sample_control = \<lparr>ac_target = ''key'', ac_source = ''name'', ac_sink = ''put(name, v)''\<rparr>"

lemma sample_created:
  obtains p where "flow_create ''entry:1'' ''growth:1'' sample_control [''C.m'', ''C.m~D.put@A.java:3'']
      [''in_handler''] ''partial'' ''data_flow'' ''partial'' ''bounded'' = Inr p" "fl_confidence p = ''partial''"
  by (rule that, simp add: flow_create_def FlowProof_def sample_row_values sample_row_sequences
      startswith_def flow_semantic_identity_def Let_def) (simp add: Let_def)

lemma sample_matches:
  "growth_at ''A.java'' 3 sample_control sample_growth"
  "resolve_flow_entries es None sample_control [sample_entry] sample_growth = Inr [sample_entry]"
  "demand_binds sample_control sample_candidate" "''key'' \<in> d_role ` set (g_demands sample_candidate)"
  "ac_source sample_control \<in> input_names sample_entry"
  "entry_id sample_entry = ''entry:1''" "vg_growth_id sample_growth = ''growth:1''"
  "vg_candidate sample_growth = Some sample_candidate" "ac_target sample_control = ''key''"
  "h_file (e_handler sample_entry) = ''A.java''" "h_start_line (e_handler sample_entry) = 4"
  using sample_binds
  by (auto simp: growth_at_def sample_control_def sample_growth_def sample_candidate_def demand_binds_def
      resolve_flow_entries_def entries_for_growth_def sample_entry_def input_names_def Let_def)

theorem normalize_flow_proofs_sound_witness:
  "\<exists>p. normalize_flow_proofs [sample_flow_row] [(''entry:1'', sample_entry)] [(''growth:1'', sample_growth)] None
       = Inr [p] \<and> sound_proof [(''entry:1'', sample_entry)] [(''growth:1'', sample_growth)] p
     \<and> fl_confidence p = ''partial''"
proof -
  obtain p where p: "flow_create ''entry:1'' ''growth:1'' sample_control [''C.m'', ''C.m~D.put@A.java:3'']
      [''in_handler''] ''partial'' ''data_flow'' ''partial'' ''bounded'' = Inr p" "fl_confidence p = ''partial''"
    by (rule sample_created)
  define kvs where "kvs = members sample_flow_row"
  have row: "sample_flow_row = JObj kvs" by (simp add: kvs_def sample_flow_row_def members_def)
  have bad: "flow_bad_fields (map fst kvs) = []"
    by (simp add: kvs_def sample_flow_row_def members_def flow_bad_fields_def flow_raw_fields_def)
  have f: "field_of kvs ''source_file'' = JStr ''A.java''" "field_of kvs ''source_start_line'' = JInt 4"
    "field_of kvs ''sink_file'' = JStr ''A.java''" "field_of kvs ''sink_start_line'' = JInt 3"
    "field_of kvs ''attacker_target'' = JStr ''key''" "field_of kvs ''attacker_source'' = JStr ''name''"
    "field_of kvs ''attacker_sink'' = JStr ''put(name, v)''"
    "field_of kvs ''call_path'' = JStr ''C.m > C.m~D.put@A.java:3''"
    "field_of kvs ''phase_sequence'' = JStr ''in_handler''" "field_of kvs ''flow_kind'' = JStr ''data_flow''"
    "field_of kvs ''confidence'' = JStr ''proven''" "field_of kvs ''coverage_status'' = JStr ''partial''"
    "field_of kvs ''coverage_note'' = JStr ''bounded''"
    by (simp_all add: kvs_def sample_flow_row_def members_def field_of_def)
  have control: "AttackerControl (JStr ''key'') (JStr ''name'') (JStr ''put(name, v)'') = Inr sample_control"
    by (simp add: AttackerControl_def sample_row_values sample_control_def)
  have "normalize_flow_row [(''entry:1'', sample_entry)] [(''growth:1'', sample_growth)] None [] sample_flow_row
      = Inr [(path_id p, p)]"
    unfolding row
    by (simp add: normalize_flow_row_def bad f sample_row_values checked_line_def max_line_def control
        bind_flow_row_def sample_matches flow_row_proof_def sample_row_sequences p(1) Let_def)
  then have n: "normalize_flow_proofs [sample_flow_row] [(''entry:1'', sample_entry)]
      [(''growth:1'', sample_growth)] None = Inr [p]"
    by (simp add: normalize_flow_proofs_def)
  with normalize_flow_proofs_sound[OF n] p(2) show ?thesis by auto
qed

end
