(* ===== verification/Lifecycle.thy ===== *)
theory Lifecycle
  imports FlowLaws
begin

text \<open>
  \<open>dosweb/lifecycle/{guards,bounds,releases,framework_limits}.py\<close>: the evaluation of the
  guard, bound and release candidates of one entry-to-Growth path under the modeled
  configuration.
\<close>

section \<open>Shared parts\<close>

definition lifecycle_invalid :: "string \<Rightarrow> py_exc" where
  "lifecycle_invalid message = AnalyzerError ''ANALYSIS_LIFECYCLE_INVALID'' message []"

record decision_check =
  dc_name :: string
  dc_passed :: bool
  dc_reason :: "string option"
  dc_evidence :: "string list"

datatype cfg_value = CfgStr string | CfgInt int | CfgBool bool

type_synonym modeled_configuration = "(string \<times> cfg_value) list"

definition ModeledConfiguration :: "modeled_configuration \<Rightarrow> modeled_configuration res" where
  "ModeledConfiguration values =
     (if length values > 256 \<or> list_ex (\<lambda>(k, v). k = []) values
      then Inl (AnalyzerError ''ANALYSIS_CONFIGURATION_INVALID'' ''Modeled configuration is malformed.'' [])
      else if \<not> distinct (map fst values)
      then Inl (AnalyzerError ''ANALYSIS_CONFIGURATION_INVALID'' ''Modeled configuration contains duplicate keys.'' [])
      else Inr (sort_key fst values))"

definition config_get :: "modeled_configuration \<Rightarrow> string \<Rightarrow> cfg_value option" where
  "config_get configuration key = map_of configuration key"

definition lifecycle_site :: "string \<Rightarrow> int \<Rightarrow> (string \<times> int) res" where
  "lifecycle_site f line =
     (if f = [] \<or> startswith f ''/'' \<or> ''..'' \<in> set (path_parts f)
      then Inl (lifecycle_invalid ''Lifecycle candidate path is invalid.'')
      else if line \<le> 0 then Inl (lifecycle_invalid ''Lifecycle candidate line is invalid.'')
      else Inr (f, line))"

definition lifecycle_evidence :: "string list \<Rightarrow> string list res" where
  "lifecycle_evidence values =
     (if values = [] \<or> length values > 64 \<or> list_ex (\<lambda>e. e = [] \<or> length e > 256) (usort values)
      then Inl (lifecycle_invalid ''Lifecycle evidence is invalid.'') else Inr (usort values))"

text \<open>\<open>_validate_context\<close>; it returns the candidate of the Growth that it has checked to exist.\<close>

definition validate_context :: "entry_fact \<Rightarrow> verified_growth \<Rightarrow> verified_flow \<Rightarrow> growth_candidate res" where
  "validate_context entry growth flow =
     (if vf_entry_id flow \<noteq> entry_id entry \<or> vf_growth_id flow \<noteq> vg_growth_id growth
      then Inl (AnalyzerError ''ANALYSIS_DANGLING_FACT_REFERENCE''
        ''Lifecycle decision inputs do not reference the same E-to-G path.'' [])
      else if \<not> satisfies_premise flow \<or> vg_status growth \<noteq> Verified
      then Inl (lifecycle_invalid ''Lifecycle evaluation requires a proven flow and verified Growth.'')
      else case vg_candidate growth of
          None \<Rightarrow> Inl (lifecycle_invalid ''Lifecycle evaluation requires a proven flow and verified Growth.'')
        | Some candidate \<Rightarrow> Inr candidate)"

text \<open>\<open>DecisionCheck(reason.removeprefix(prefix).lower(), False, reason, evidence)\<close>, and the
  checks of one candidate.\<close>

definition reason_check :: "string \<Rightarrow> string list \<Rightarrow> string \<Rightarrow> decision_check" where
  "reason_check p evidence reason = \<lparr>dc_name = lower (removeprefix reason p), dc_passed = False,
     dc_reason = Some reason, dc_evidence = evidence\<rparr>"

definition candidate_checks :: "string \<Rightarrow> string \<Rightarrow> string list \<Rightarrow> string list \<Rightarrow> decision_check list" where
  "candidate_checks p effective_name reasons evidence =
     (if reasons = [] then [\<lparr>dc_name = effective_name, dc_passed = True, dc_reason = None, dc_evidence = evidence\<rparr>]
      else map (reason_check p evidence) reasons)"

text \<open>The treatment of a configured limit, written twice in the code with the prefixes of guards
  and bounds: the reason it adds, if any, and the fact it leaves unresolved. The integer 0 is
  \<open>== False\<close> and counts as disabled.\<close>

definition config_reason :: "string \<Rightarrow> string \<Rightarrow> string \<Rightarrow> modeled_configuration \<Rightarrow> string list" where
  "config_reason p key value configuration =
     (if key = ''literal'' then
        (case py_int value of None \<Rightarrow> [p @ ''CONFIGURATION_UNKNOWN'']
         | Some n \<Rightarrow> if n \<le> 0 then [p @ ''CONFIGURATION_UNKNOWN''] else [])
      else (case config_get configuration key of
          None \<Rightarrow> [p @ ''CONFIGURATION_UNKNOWN'']
        | Some (CfgBool b) \<Rightarrow> if b then [p @ ''CONFIGURATION_UNKNOWN''] else [p @ ''DISABLED_CONFIGURATION'']
        | Some (CfgStr s) \<Rightarrow> if s = ''disabled'' then [p @ ''DISABLED_CONFIGURATION'']
            else if s = ''unbounded'' then [p @ ''UNBOUNDED_CONFIGURATION''] else [p @ ''CONFIGURATION_UNKNOWN'']
        | Some (CfgInt n) \<Rightarrow> if n = 0 then [p @ ''DISABLED_CONFIGURATION'']
            else if n < 0 then [p @ ''CONFIGURATION_UNKNOWN'']
            else if int_str n \<noteq> value then [p @ ''CONFIGURATION_MISMATCH''] else []))"

definition config_unresolved :: "string \<Rightarrow> string \<Rightarrow> string \<Rightarrow> string \<Rightarrow> modeled_configuration \<Rightarrow> string list" where
  "config_unresolved p literal_name key value configuration =
     (if config_reason p key value configuration = [p @ ''CONFIGURATION_UNKNOWN'']
      then [if key = ''literal'' then literal_name else key] else [])"

definition all_evidence :: "('c \<Rightarrow> string list) \<Rightarrow> 'c list \<Rightarrow> string list" where
  "all_evidence evidence cs = usort (concat (map evidence cs))"

section \<open>Guards\<close>

record guard_candidate =
  guard_id :: string
  gd_site_file :: string
  gd_site_line :: int
  gd_kind :: string
  gd_dimension :: string
  gd_scope :: string
  gd_behavior :: string
  gd_dominates_growth :: bool
  gd_reject_path_reaches_growth :: bool
  gd_config_key :: string
  gd_config_value :: string
  gd_representation :: string
  gd_phase :: string
  gd_covers_materialization :: bool
  gd_authorization_only :: bool
  gd_evidence :: "string list"
  gd_coverage_status :: string

definition guard_identity :: "guard_candidate \<Rightarrow> json" where
  "guard_identity c = JObj
     [(''site_file'', JStr (gd_site_file c)), (''site_start_line'', JInt (gd_site_line c)),
      (''kind'', JStr (gd_kind c)), (''resource_dimension'', JStr (gd_dimension c)),
      (''scope'', JStr (gd_scope c)), (''behavior'', JStr (gd_behavior c)),
      (''dominates_growth'', JBool (gd_dominates_growth c)),
      (''reject_path_reaches_growth'', JBool (gd_reject_path_reaches_growth c)),
      (''configuration_key'', JStr (gd_config_key c)), (''configuration_value'', JStr (gd_config_value c)),
      (''representation'', JStr (gd_representation c)), (''phase'', JStr (gd_phase c)),
      (''covers_materialization'', JBool (gd_covers_materialization c)),
      (''authorization_only'', JBool (gd_authorization_only c)),
      (''evidence'', JArr (map JStr (gd_evidence c))), (''coverage_status'', JStr (gd_coverage_status c))]"

text \<open>\<open>GuardCandidate.create\<close>; the identifier of the argument is not read.\<close>

definition guard_create :: "guard_candidate \<Rightarrow> guard_candidate res" where
  "guard_create values =
     res_bind (lifecycle_site (gd_site_file values) (gd_site_line values)) (\<lambda>_.
     res_bind (lifecycle_evidence (gd_evidence values)) (\<lambda>evidence.
     let c = values\<lparr>gd_evidence := evidence\<rparr>
     in Inr (c\<lparr>guard_id := stable_identifier ''guard'' (guard_identity c)\<rparr>)))"

datatype guard_status = GuardEffective | GuardIneffective | GuardUnknown

record guard_decision =
  gdec_status :: guard_status
  gdec_reasons :: "string list"
  gdec_checks :: "decision_check list"
  gdec_evidence_ids :: "string list"
  gdec_unresolved :: "string list"
  gdec_candidate_ids :: "string list"

definition guard_reasons :: "growth_candidate \<Rightarrow> modeled_configuration \<Rightarrow> guard_candidate \<Rightarrow> string list" where
  "guard_reasons growth configuration c =
     (if gd_phase c \<notin> {''before_growth'', ''inside_growth''} then [''GUARD_AFTER_MATERIALIZATION''] else [])
     @ (if \<not> gd_dominates_growth c then [''GUARD_DOES_NOT_DOMINATE_FLOW''] else [])
     @ (if gd_reject_path_reaches_growth c then [''GUARD_REJECT_PATH_REACHES_GROWTH''] else [])
     @ (if gd_dimension c \<noteq> g_dimension growth then [''GUARD_DIMENSION_MISMATCH''] else [])
     @ (if gd_scope c \<noteq> g_escape_scope growth then [''GUARD_SCOPE_MISMATCH''] else [])
     @ (if gd_representation c \<notin> {''raw_body'', ''same'', g_field_path growth}
        then [''GUARD_REPRESENTATION_MISMATCH''] else [])
     @ (if gd_behavior c \<notin> {''reject'', ''block''} then [''GUARD_FAIL_OPEN''] else [])
     @ (if \<not> gd_covers_materialization c
        then [if gd_coverage_status c = ''complete'' then ''GUARD_DOES_NOT_COVER_GROWTH''
              else ''GUARD_COVERAGE_UNKNOWN''] else [])
     @ (if gd_authorization_only c then [''GUARD_AUTHORIZATION_ONLY''] else [])
     @ config_reason ''GUARD_'' (gd_config_key c) (gd_config_value c) configuration
     @ (if gd_coverage_status c \<noteq> ''complete'' then [''GUARD_COVERAGE_UNKNOWN''] else [])"

definition guard_unresolved :: "modeled_configuration \<Rightarrow> guard_candidate \<Rightarrow> string list" where
  "guard_unresolved configuration c =
     config_unresolved ''GUARD_'' ''literal_limit'' (gd_config_key c) (gd_config_value c) configuration
     @ (if gd_coverage_status c \<noteq> ''complete'' then [guard_id c] else [])"

definition coverage_statuses :: "string list" where
  "coverage_statuses = [''complete'', ''partial'', ''unsupported'']"

definition decide_guards :: "growth_candidate \<Rightarrow> modeled_configuration \<Rightarrow> guard_candidate list \<Rightarrow> guard_decision" where
  "decide_guards growth configuration ordered =
     (let reasons = usort (concat (map (guard_reasons growth configuration) ordered));
          effective = list_ex (\<lambda>c. guard_reasons growth configuration c = []) ordered
      in \<lparr>gdec_status = (if effective then GuardEffective
            else if list_ex (\<lambda>r. endswith r ''UNKNOWN'') reasons then GuardUnknown else GuardIneffective),
          gdec_reasons = (if effective then [] else reasons),
          gdec_checks = concat (map (\<lambda>c. candidate_checks ''GUARD_'' ''guard_effective''
             (guard_reasons growth configuration c) (gd_evidence c)) ordered),
          gdec_evidence_ids = all_evidence gd_evidence ordered,
          gdec_unresolved = usort (concat (map (guard_unresolved configuration) ordered)),
          gdec_candidate_ids = map guard_id ordered\<rparr>)"

definition evaluate_guard :: "entry_fact \<Rightarrow> verified_growth \<Rightarrow> verified_flow \<Rightarrow> guard_candidate list
    \<Rightarrow> modeled_configuration \<Rightarrow> string \<Rightarrow> guard_decision res" where
  "evaluate_guard entry growth flow candidates configuration coverage_status =
     res_bind (validate_context entry growth flow) (\<lambda>g.
     if coverage_status \<notin> set coverage_statuses
     then Inl (lifecycle_invalid ''Guard coverage status is invalid.'')
     else if candidates = [] then
       (if coverage_status = ''complete''
        then Inr \<lparr>gdec_status = GuardIneffective, gdec_reasons = [''GUARD_ABSENT''], gdec_checks = [],
               gdec_evidence_ids = [], gdec_unresolved = [], gdec_candidate_ids = []\<rparr>
        else Inr \<lparr>gdec_status = GuardUnknown, gdec_reasons = [''GUARD_COVERAGE_UNKNOWN''], gdec_checks = [],
               gdec_evidence_ids = [], gdec_unresolved = [''guard_coverage''], gdec_candidate_ids = []\<rparr>)
     else Inr (decide_guards g configuration (sort_key guard_id candidates)))"

section \<open>Bounds\<close>

record bound_candidate =
  bound_id :: string
  bd_site_file :: string
  bd_site_line :: int
  bd_kind :: string
  bd_dimension :: string
  bd_scope :: string
  bd_behavior :: string
  bd_receiver :: string
  bd_field_path :: string
  bd_result_checked :: bool
  bd_config_key :: string
  bd_config_value :: string
  bd_phase :: string
  bd_covers_flow :: bool
  bd_request_encoding :: string
  bd_queue_resource :: string
  bd_product_bound :: bool
  bd_evidence :: "string list"
  bd_coverage_status :: string

definition bound_identity :: "bound_candidate \<Rightarrow> json" where
  "bound_identity c = JObj
     [(''site_file'', JStr (bd_site_file c)), (''site_start_line'', JInt (bd_site_line c)),
      (''kind'', JStr (bd_kind c)), (''resource_dimension'', JStr (bd_dimension c)),
      (''scope'', JStr (bd_scope c)), (''behavior'', JStr (bd_behavior c)),
      (''receiver'', JStr (bd_receiver c)), (''field_path'', JStr (bd_field_path c)),
      (''result_checked'', JBool (bd_result_checked c)),
      (''configuration_key'', JStr (bd_config_key c)), (''configuration_value'', JStr (bd_config_value c)),
      (''phase'', JStr (bd_phase c)), (''covers_flow'', JBool (bd_covers_flow c)),
      (''request_encoding'', JStr (bd_request_encoding c)), (''queue_resource'', JStr (bd_queue_resource c)),
      (''product_bound'', JBool (bd_product_bound c)),
      (''evidence'', JArr (map JStr (bd_evidence c))), (''coverage_status'', JStr (bd_coverage_status c))]"

definition bound_create :: "bound_candidate \<Rightarrow> bound_candidate res" where
  "bound_create values =
     res_bind (lifecycle_site (bd_site_file values) (bd_site_line values)) (\<lambda>_.
     res_bind (lifecycle_evidence (bd_evidence values)) (\<lambda>evidence.
     let c = values\<lparr>bd_evidence := evidence\<rparr>
     in Inr (c\<lparr>bound_id := stable_identifier ''bound'' (bound_identity c)\<rparr>)))"

datatype bound_status =
    BoundAbsent | BoundScopeMismatched | BoundDimensionMismatched | BoundPossiblyOverBudget
  | BoundEffective | BoundUnknown

record bound_decision =
  bdec_status :: bound_status
  bdec_reasons :: "string list"
  bdec_checks :: "decision_check list"
  bdec_evidence_ids :: "string list"
  bdec_unresolved :: "string list"
  bdec_candidate_ids :: "string list"

text \<open>The framework-enforced request limits: evidence marker, frameworks, encoding and key.\<close>

record limit_domain =
  ld_evidence :: string
  ld_frameworks :: "string list"
  ld_request_encoding :: string
  ld_config_key :: string

definition limit_domains :: "limit_domain list" where
  "limit_domains =
     [\<lparr>ld_evidence = ''jackson_stream_read_constraints_literal'',
       ld_frameworks = [''spring_mvc'', ''servlet'', ''jax_rs'', ''netty''],
       ld_request_encoding = ''json'', ld_config_key = ''literal''\<rparr>,
      \<lparr>ld_evidence = ''netty_http_object_aggregator_literal'', ld_frameworks = [''netty''],
       ld_request_encoding = ''aggregated_http'', ld_config_key = ''literal''\<rparr>,
      \<lparr>ld_evidence = ''servlet_multipart_config_literal'', ld_frameworks = [''spring_mvc'', ''servlet''],
       ld_request_encoding = ''multipart'', ld_config_key = ''literal''\<rparr>,
      \<lparr>ld_evidence = ''solr_formdata_upload_limit_literal'', ld_frameworks = [''servlet''],
       ld_request_encoding = ''form_urlencoded'', ld_config_key = ''literal''\<rparr>]"

definition limit_domain_of :: "bound_candidate \<Rightarrow> limit_domain option" where
  "limit_domain_of c = (case filter (\<lambda>d. ld_evidence d \<in> set (bd_evidence c)) limit_domains of
       [d] \<Rightarrow> if bd_kind c = ''limit'' then Some d else None | _ \<Rightarrow> None)"

definition is_framework_limit_candidate :: "bound_candidate \<Rightarrow> bool" where
  "is_framework_limit_candidate c = (limit_domain_of c \<noteq> None)"

definition framework_limit_reason_codes :: "entry_fact \<Rightarrow> bound_candidate \<Rightarrow> string list option" where
  "framework_limit_reason_codes entry c = map_option (\<lambda>d.
       (if e_framework entry \<notin> set (ld_frameworks d) then [''BOUND_FRAMEWORK_MISMATCH''] else [])
     @ (if bd_request_encoding c \<noteq> ld_request_encoding d then [''BOUND_REQUEST_ENCODING_MISMATCH''] else [])
     @ (if bd_config_key c \<noteq> ld_config_key d then [''BOUND_CONFIGURATION_PROVENANCE_MISMATCH''] else []))
     (limit_domain_of c)"

definition bound_reasons :: "entry_fact \<Rightarrow> growth_candidate \<Rightarrow> modeled_configuration \<Rightarrow> bound_candidate \<Rightarrow> string list" where
  "bound_reasons entry growth configuration c =
     (if bd_scope c \<noteq> g_escape_scope growth then [''BOUND_SCOPE_MISMATCH''] else [])
     @ (if bd_dimension c \<noteq> g_dimension growth then [''BOUND_DIMENSION_MISMATCH''] else [])
     @ (if bd_receiver c \<noteq> g_receiver growth then [''BOUND_RECEIVER_MISMATCH''] else [])
     @ (if \<not> bd_result_checked c then [''BOUND_RESULT_IGNORED''] else [])
     @ (if bd_queue_resource c \<noteq> g_field_path growth then [''BOUND_QUEUE_CONFIGURATION_MISMATCH''] else [])
     @ (case framework_limit_reason_codes entry c of
          None \<Rightarrow> if bd_request_encoding c \<notin> {''raw_body'', ''any''}
                 then [''BOUND_REQUEST_ENCODING_MISMATCH''] else []
        | Some framework_reasons \<Rightarrow> framework_reasons)
     @ (if \<not> bd_product_bound c then [''BOUND_MULTIPLICATIVE_DEMAND_UNCOVERED''] else [])
     @ (if bd_phase c \<notin> {''before_growth'', ''inside_growth''} \<or> \<not> bd_covers_flow c
           \<or> bd_behavior c \<notin> {''reject'', ''block'', ''evict'', ''clamp''}
        then [''BOUND_POSSIBLY_OVER_BUDGET''] else [])
     @ config_reason ''BOUND_'' (bd_config_key c) (bd_config_value c) configuration
     @ (if bd_coverage_status c \<noteq> ''complete'' then [''BOUND_COVERAGE_UNKNOWN''] else [])"

definition bound_unresolved :: "modeled_configuration \<Rightarrow> bound_candidate \<Rightarrow> string list" where
  "bound_unresolved configuration c =
     config_unresolved ''BOUND_'' ''literal_capacity'' (bd_config_key c) (bd_config_value c) configuration
     @ (if bd_coverage_status c \<noteq> ''complete'' then [bound_id c] else [])"

definition decide_bounds :: "entry_fact \<Rightarrow> growth_candidate \<Rightarrow> modeled_configuration \<Rightarrow> bound_candidate list
    \<Rightarrow> bound_decision" where
  "decide_bounds entry growth configuration ordered =
     (let reasons = usort (concat (map (bound_reasons entry growth configuration) ordered));
          effective = list_ex (\<lambda>c. bound_reasons entry growth configuration c = []) ordered;
          (status, output) =
            (if effective then (BoundEffective, [])
             else if list_ex (\<lambda>r. endswith r ''UNKNOWN'') reasons then (BoundUnknown, reasons)
             else if reasons = [''BOUND_SCOPE_MISMATCH''] then (BoundScopeMismatched, reasons)
             else if reasons = [''BOUND_DIMENSION_MISMATCH''] then (BoundDimensionMismatched, reasons)
             else (BoundPossiblyOverBudget, usort (''BOUND_POSSIBLY_OVER_BUDGET'' # reasons)))
      in \<lparr>bdec_status = status, bdec_reasons = output,
          bdec_checks = concat (map (\<lambda>c. candidate_checks ''BOUND_'' ''bound_effective''
             (bound_reasons entry growth configuration c) (bd_evidence c)) ordered),
          bdec_evidence_ids = all_evidence bd_evidence ordered,
          bdec_unresolved = usort (concat (map (bound_unresolved configuration) ordered)),
          bdec_candidate_ids = map bound_id ordered\<rparr>)"

definition evaluate_bound :: "entry_fact \<Rightarrow> verified_growth \<Rightarrow> verified_flow \<Rightarrow> bound_candidate list
    \<Rightarrow> modeled_configuration \<Rightarrow> string \<Rightarrow> bound_decision res" where
  "evaluate_bound entry growth flow candidates configuration coverage_status =
     res_bind (validate_context entry growth flow) (\<lambda>g.
     if coverage_status \<notin> set coverage_statuses
     then Inl (lifecycle_invalid ''Bound coverage status is invalid.'')
     else if candidates = [] then
       (if coverage_status = ''complete''
        then Inr \<lparr>bdec_status = BoundAbsent, bdec_reasons = [''BOUND_ABSENT''], bdec_checks = [],
               bdec_evidence_ids = [], bdec_unresolved = [], bdec_candidate_ids = []\<rparr>
        else Inr \<lparr>bdec_status = BoundUnknown, bdec_reasons = [''BOUND_COVERAGE_UNKNOWN''], bdec_checks = [],
               bdec_evidence_ids = [], bdec_unresolved = [''bound_coverage''], bdec_candidate_ids = []\<rparr>)
     else Inr (decide_bounds entry g configuration (sort_key bound_id candidates)))"

definition normalize_framework_limit :: "entry_fact \<Rightarrow> verified_growth \<Rightarrow> verified_flow \<Rightarrow> bound_candidate
    \<Rightarrow> modeled_configuration \<Rightarrow> bound_decision res" where
  "normalize_framework_limit entry growth flow c configuration =
     res_bind (validate_context entry growth flow) (\<lambda>_.
     case framework_limit_reason_codes entry c of
       None \<Rightarrow> Inr \<lparr>bdec_status = BoundUnknown, bdec_reasons = [''BOUND_FRAMEWORK_LIMIT_DOMAIN_UNMODELED''],
         bdec_checks = [\<lparr>dc_name = ''framework_limit_domain'', dc_passed = False,
            dc_reason = Some ''BOUND_FRAMEWORK_LIMIT_DOMAIN_UNMODELED'', dc_evidence = bd_evidence c\<rparr>],
         bdec_evidence_ids = bd_evidence c, bdec_unresolved = [''framework_limit_domain''],
         bdec_candidate_ids = [bound_id c]\<rparr>
     | Some _ \<Rightarrow> evaluate_bound entry growth flow [c] configuration ''complete'')"

section \<open>Releases\<close>

record release_candidate =
  release_id :: string
  rl_site_file :: string
  rl_site_line :: int
  rl_kind :: string
  rl_dimension :: string
  rl_scope :: string
  rl_receiver :: string
  rl_key_identity :: string
  rl_synchronous :: bool
  rl_normal_path :: bool
  rl_exceptional_path :: bool
  rl_actual_reduction :: bool
  rl_after_growth :: bool
  rl_transfer_only :: bool
  rl_async_kind :: string
  rl_evidence :: "string list"
  rl_coverage_status :: string

definition release_identity :: "release_candidate \<Rightarrow> json" where
  "release_identity c = JObj
     [(''site_file'', JStr (rl_site_file c)), (''site_start_line'', JInt (rl_site_line c)),
      (''kind'', JStr (rl_kind c)), (''resource_dimension'', JStr (rl_dimension c)),
      (''scope'', JStr (rl_scope c)), (''receiver'', JStr (rl_receiver c)),
      (''key_identity'', JStr (rl_key_identity c)), (''synchronous'', JBool (rl_synchronous c)),
      (''normal_path'', JBool (rl_normal_path c)), (''exceptional_path'', JBool (rl_exceptional_path c)),
      (''actual_reduction'', JBool (rl_actual_reduction c)), (''after_growth'', JBool (rl_after_growth c)),
      (''transfer_only'', JBool (rl_transfer_only c)), (''async_kind'', JStr (rl_async_kind c)),
      (''evidence'', JArr (map JStr (rl_evidence c))), (''coverage_status'', JStr (rl_coverage_status c))]"

definition release_create :: "release_candidate \<Rightarrow> release_candidate res" where
  "release_create values =
     res_bind (lifecycle_site (rl_site_file values) (rl_site_line values)) (\<lambda>_.
     res_bind (lifecycle_evidence (rl_evidence values)) (\<lambda>evidence.
     let c = values\<lparr>rl_evidence := evidence\<rparr>
     in Inr (c\<lparr>release_id := stable_identifier ''release'' (release_identity c)\<rparr>)))"

datatype release_status = ReleaseEffective | ReleaseIneffective | ReleaseUnknown | ReleaseAbsent

datatype release_class =
    SynchronousEffective | InsufficientPathCoverage | ReceiverOrKeyMismatched | PotentialAsync
  | NotEffective | ClassUnknown | ClassAbsent

record release_decision =
  rdec_status :: release_status
  rdec_class :: release_class
  rdec_reasons :: "string list"
  rdec_checks :: "decision_check list"
  rdec_evidence_ids :: "string list"
  rdec_unresolved :: "string list"
  rdec_candidate_ids :: "string list"

definition release_async :: "release_candidate \<Rightarrow> bool" where
  "release_async c = (\<not> rl_synchronous c \<or> rl_async_kind c \<noteq> ''none'')"

definition release_mismatched :: "growth_candidate \<Rightarrow> release_candidate \<Rightarrow> bool" where
  "release_mismatched growth c =
     (let whole_resource = rl_kind c \<in> {''clear'', ''close''} \<and> rl_key_identity c = ''none'' in
      rl_dimension c \<noteq> g_dimension growth \<or> rl_scope c \<noteq> g_escape_scope growth
      \<or> rl_receiver c \<noteq> g_receiver growth
      \<or> (\<not> whole_resource \<and> rl_key_identity c \<notin> d_name ` set (g_demands growth)))"

definition release_partial_path :: "release_candidate \<Rightarrow> bool" where
  "release_partial_path c = (\<not> rl_after_growth c \<or> \<not> rl_normal_path c \<or> \<not> rl_exceptional_path c)"

definition release_reasons :: "growth_candidate \<Rightarrow> release_candidate \<Rightarrow> string list" where
  "release_reasons growth c =
     (if release_async c then [''RELEASE_POTENTIAL_ASYNC''] else [])
     @ (if release_mismatched growth c then [''RELEASE_RECEIVER_OR_KEY_MISMATCHED''] else [])
     @ (if release_partial_path c then [''RELEASE_INSUFFICIENT_PATH_COVERAGE''] else [])
     @ (if \<not> rl_actual_reduction c then [''RELEASE_NO_ACTUAL_REDUCTION''] else [])
     @ (if rl_transfer_only c then [''RELEASE_PAYLOAD_TRANSFER_ONLY''] else [])
     @ (if rl_coverage_status c \<noteq> ''complete'' then [''RELEASE_COVERAGE_UNKNOWN''] else [])"

definition release_unresolved :: "release_candidate \<Rightarrow> string list" where
  "release_unresolved c =
     (if release_async c then [rl_async_kind c] else [])
     @ (if rl_transfer_only c then [release_id c] else [])
     @ (if rl_coverage_status c \<noteq> ''complete'' then [release_id c] else [])"

text \<open>The classification that one turn of the loop leaves behind.\<close>

definition release_class_step :: "growth_candidate \<Rightarrow> release_candidate \<Rightarrow> release_class \<Rightarrow> release_class" where
  "release_class_step growth c cl =
     (let c1 = (if release_async c then PotentialAsync else cl);
          c2 = (if release_mismatched growth c then ReceiverOrKeyMismatched else c1);
          c3 = (if release_partial_path c then InsufficientPathCoverage else c2);
          c4 = (if rl_transfer_only c then ClassUnknown else c3);
          c5 = (if rl_coverage_status c \<noteq> ''complete'' then ClassUnknown else c4)
      in if release_reasons growth c = [] then SynchronousEffective else c5)"

definition decide_releases :: "growth_candidate \<Rightarrow> release_candidate list \<Rightarrow> release_decision" where
  "decide_releases growth ordered =
     (let reasons = usort (concat (map (release_reasons growth) ordered));
          looped = fold (release_class_step growth) ordered NotEffective;
          effective = list_ex (\<lambda>c. release_reasons growth c = []) ordered;
          unresolved_release = list_ex (\<lambda>r. r \<in> {''RELEASE_POTENTIAL_ASYNC'',
             ''RELEASE_PAYLOAD_TRANSFER_ONLY'', ''RELEASE_COVERAGE_UNKNOWN''}) reasons;
          cl = (if ''RELEASE_POTENTIAL_ASYNC'' \<in> set reasons then PotentialAsync
                else if ''RELEASE_PAYLOAD_TRANSFER_ONLY'' \<in> set reasons
                  \<or> ''RELEASE_COVERAGE_UNKNOWN'' \<in> set reasons then ClassUnknown
                else if ''RELEASE_RECEIVER_OR_KEY_MISMATCHED'' \<in> set reasons then ReceiverOrKeyMismatched
                else if ''RELEASE_INSUFFICIENT_PATH_COVERAGE'' \<in> set reasons then InsufficientPathCoverage
                else looped);
          (status, classification, output) =
            (if effective \<and> \<not> unresolved_release then (ReleaseEffective, SynchronousEffective, [])
             else (if cl \<in> {PotentialAsync, ClassUnknown} then ReleaseUnknown else ReleaseIneffective, cl, reasons))
      in \<lparr>rdec_status = status, rdec_class = classification, rdec_reasons = output,
          rdec_checks = concat (map (\<lambda>c. candidate_checks ''RELEASE_'' ''synchronous_release''
             (release_reasons growth c) (rl_evidence c)) ordered),
          rdec_evidence_ids = all_evidence rl_evidence ordered,
          rdec_unresolved = usort (concat (map release_unresolved ordered)),
          rdec_candidate_ids = map release_id ordered\<rparr>)"

definition evaluate_synchronous_release :: "entry_fact \<Rightarrow> verified_growth \<Rightarrow> verified_flow
    \<Rightarrow> release_candidate list \<Rightarrow> string \<Rightarrow> release_decision res" where
  "evaluate_synchronous_release entry growth flow candidates coverage_status =
     res_bind (validate_context entry growth flow) (\<lambda>g.
     if coverage_status \<notin> set coverage_statuses
     then Inl (lifecycle_invalid ''Release coverage status is invalid.'')
     else if candidates = [] then
       (if coverage_status = ''complete''
        then Inr \<lparr>rdec_status = ReleaseAbsent, rdec_class = ClassAbsent, rdec_reasons = [''RELEASE_ABSENT''],
               rdec_checks = [], rdec_evidence_ids = [], rdec_unresolved = [], rdec_candidate_ids = []\<rparr>
        else Inr \<lparr>rdec_status = ReleaseUnknown, rdec_class = ClassUnknown,
               rdec_reasons = [''RELEASE_COVERAGE_UNKNOWN''], rdec_checks = [], rdec_evidence_ids = [],
               rdec_unresolved = [''release_coverage''], rdec_candidate_ids = []\<rparr>)
     else Inr (decide_releases g (sort_key release_id candidates)))"

end
