(* ===== verification/LifecycleLaws.thy ===== *)
theory LifecycleLaws
  imports Lifecycle
begin

text \<open>
  What the lifecycle evaluations promise: the exact meaning of an effective decision, fail
  closed behaviour on unknown coverage, and independence of the order of the candidates.
\<close>

section \<open>Evaluations of a candidate set\<close>

text \<open>The contract the three evaluations share: they decide on the candidates in the order of
  their identifiers and cite exactly them.\<close>

locale ordered_evaluation =
  fixes ident :: "'c \<Rightarrow> string" and decide :: "'c list \<Rightarrow> 'd" and cited :: "'d \<Rightarrow> string list"
  assumes cites_candidates: "cited (decide cs) = map ident cs"
begin

lemma order_independent:
  assumes "mset cs = mset cs'" "distinct (map ident cs)"
  shows "decide (sort_key ident cs) = decide (sort_key ident cs')"
  using sort_key_perm[OF assms] by simp

lemma cited_sorted: "sorted (cited (decide (sort_key ident cs)))"
  by (simp add: cites_candidates)

lemma cited_complete: "set (cited (decide (sort_key ident cs))) = ident ` set cs"
  by (simp add: cites_candidates)

end

interpretation guard_evaluation: ordered_evaluation guard_id "decide_guards g configuration" gdec_candidate_ids
  for g configuration
  by standard (simp add: decide_guards_def Let_def)

interpretation bound_evaluation:
  ordered_evaluation bound_id "decide_bounds entry g configuration" bdec_candidate_ids
  for entry g configuration
  by standard (simp add: decide_bounds_def Let_def case_prod_beta)

interpretation release_evaluation: ordered_evaluation release_id "decide_releases g" rdec_candidate_ids for g
  by standard (simp add: decide_releases_def Let_def case_prod_beta)

section \<open>Context\<close>

definition lifecycle_context :: "entry_fact \<Rightarrow> verified_growth \<Rightarrow> verified_flow \<Rightarrow> growth_candidate \<Rightarrow> bool" where
  "lifecycle_context entry growth flow g \<longleftrightarrow> vf_entry_id flow = entry_id entry
     \<and> vf_growth_id flow = vg_growth_id growth \<and> satisfies_premise flow
     \<and> vg_status growth = Verified \<and> vg_candidate growth = Some g"

lemma validate_context_iff:
  "validate_context entry growth flow = Inr g \<longleftrightarrow> lifecycle_context entry growth flow g"
  by (auto simp: validate_context_def lifecycle_context_def split: option.splits)

section \<open>Configured limits\<close>

text \<open>A limit is modeled when it is a positive literal or the value of the configured key.\<close>

definition limit_modeled :: "string \<Rightarrow> string \<Rightarrow> modeled_configuration \<Rightarrow> bool" where
  "limit_modeled key value configuration \<longleftrightarrow>
     (if key = ''literal'' then \<exists>n. py_int value = Some n \<and> 0 < n
      else \<exists>n. config_get configuration key = Some (CfgInt n) \<and> 0 < n \<and> int_str n = value)"

lemma config_reason_Nil: "config_reason p key value configuration = [] \<longleftrightarrow> limit_modeled key value configuration"
  by (auto simp: config_reason_def limit_modeled_def split: option.splits cfg_value.splits)

section \<open>Guards\<close>

text \<open>A guard that stops the Growth before it happens, on the demand's own resource.\<close>

definition guard_protects :: "growth_candidate \<Rightarrow> modeled_configuration \<Rightarrow> guard_candidate \<Rightarrow> bool" where
  "guard_protects g configuration c \<longleftrightarrow>
     gd_phase c \<in> {''before_growth'', ''inside_growth''} \<and> gd_dominates_growth c
   \<and> \<not> gd_reject_path_reaches_growth c \<and> gd_dimension c = g_dimension g \<and> gd_scope c = g_escape_scope g
   \<and> gd_representation c \<in> {''raw_body'', ''same'', g_field_path g}
   \<and> gd_behavior c \<in> {''reject'', ''block''} \<and> gd_covers_materialization c \<and> \<not> gd_authorization_only c
   \<and> limit_modeled (gd_config_key c) (gd_config_value c) configuration \<and> gd_coverage_status c = ''complete''"

lemma guard_reasons_Nil: "guard_reasons g configuration c = [] \<longleftrightarrow> guard_protects g configuration c"
  unfolding guard_reasons_def guard_protects_def config_reason_Nil[of "''GUARD_''", symmetric]
  by (simp only: append_is_Nil_conv if_split_eq1 list.distinct not_False_eq_True simp_thms)

lemma guard_status_cases:
  "gdec_status (decide_guards g configuration cs) = GuardEffective \<longleftrightarrow> (\<exists>c \<in> set cs. guard_protects g configuration c)"
  by (simp add: decide_guards_def Let_def list_ex_iff guard_reasons_Nil)

text \<open>A limit whose value cannot be determined.\<close>

definition limit_unknown :: "string \<Rightarrow> string \<Rightarrow> modeled_configuration \<Rightarrow> bool" where
  "limit_unknown key value configuration \<longleftrightarrow>
     (if key = ''literal'' then (case py_int value of None \<Rightarrow> True | Some n \<Rightarrow> n \<le> 0)
      else (case config_get configuration key of None \<Rightarrow> True | Some (CfgBool b) \<Rightarrow> b
        | Some (CfgStr s) \<Rightarrow> s \<notin> {''disabled'', ''unbounded''} | Some (CfgInt n) \<Rightarrow> n < 0))"

lemma config_reason_unknown:
  "list_ex (\<lambda>r. endswith r ''UNKNOWN'') (config_reason p key value configuration)
     \<longleftrightarrow> limit_unknown key value configuration"
  by (auto simp: config_reason_def limit_unknown_def endswith_def suffix_to_prefix
      split: option.splits cfg_value.splits)

lemma endswith_unknown:
  "endswith ''GUARD_COVERAGE_UNKNOWN'' ''UNKNOWN''" "endswith ''BOUND_COVERAGE_UNKNOWN'' ''UNKNOWN''"
  "\<not> endswith ''GUARD_AFTER_MATERIALIZATION'' ''UNKNOWN''" "\<not> endswith ''GUARD_DOES_NOT_DOMINATE_FLOW'' ''UNKNOWN''"
  "\<not> endswith ''GUARD_REJECT_PATH_REACHES_GROWTH'' ''UNKNOWN''" "\<not> endswith ''GUARD_DIMENSION_MISMATCH'' ''UNKNOWN''"
  "\<not> endswith ''GUARD_SCOPE_MISMATCH'' ''UNKNOWN''" "\<not> endswith ''GUARD_REPRESENTATION_MISMATCH'' ''UNKNOWN''"
  "\<not> endswith ''GUARD_FAIL_OPEN'' ''UNKNOWN''" "\<not> endswith ''GUARD_DOES_NOT_COVER_GROWTH'' ''UNKNOWN''"
  "\<not> endswith ''GUARD_AUTHORIZATION_ONLY'' ''UNKNOWN''"
  "\<not> endswith ''BOUND_SCOPE_MISMATCH'' ''UNKNOWN''" "\<not> endswith ''BOUND_DIMENSION_MISMATCH'' ''UNKNOWN''"
  "\<not> endswith ''BOUND_RECEIVER_MISMATCH'' ''UNKNOWN''" "\<not> endswith ''BOUND_RESULT_IGNORED'' ''UNKNOWN''"
  "\<not> endswith ''BOUND_QUEUE_CONFIGURATION_MISMATCH'' ''UNKNOWN''"
  "\<not> endswith ''BOUND_REQUEST_ENCODING_MISMATCH'' ''UNKNOWN''" "\<not> endswith ''BOUND_FRAMEWORK_MISMATCH'' ''UNKNOWN''"
  "\<not> endswith ''BOUND_CONFIGURATION_PROVENANCE_MISMATCH'' ''UNKNOWN''"
  "\<not> endswith ''BOUND_MULTIPLICATIVE_DEMAND_UNCOVERED'' ''UNKNOWN''"
  "\<not> endswith ''BOUND_POSSIBLY_OVER_BUDGET'' ''UNKNOWN''"
  by (simp_all add: endswith_def suffix_to_prefix)

lemma list_ex_Cons_Nil: "list_ex P (x # xs) = (P x \<or> list_ex P xs)" "list_ex P [] = False"
  by simp_all

lemma endswith_if: "endswith (if b then x else y) z = (if b then endswith x z else endswith y z)"
  by simp

lemma list_ex_if: "list_ex P (if b then xs else ys) = (if b then list_ex P xs else list_ex P ys)"
  by simp

lemma guard_reasons_unknown:
  "list_ex (\<lambda>r. endswith r ''UNKNOWN'') (guard_reasons g configuration c)
     \<longleftrightarrow> gd_coverage_status c \<noteq> ''complete'' \<or> limit_unknown (gd_config_key c) (gd_config_value c) configuration"
  unfolding guard_reasons_def list_ex_append list_ex_if config_reason_unknown
  by (simp only: list_ex_Cons_Nil endswith_if endswith_unknown simp_thms if_cancel if_bool_eq_disj) blast

lemma list_ex_usort_concat: "list_ex P (usort (concat (map f cs))) \<longleftrightarrow> (\<exists>c \<in> set cs. list_ex P (f c))"
  by (auto simp: list_ex_iff)

lemma guard_status_unknown:
  "gdec_status (decide_guards g configuration cs) = GuardUnknown \<longleftrightarrow>
     \<not> (\<exists>c \<in> set cs. guard_protects g configuration c)
     \<and> (\<exists>c \<in> set cs. gd_coverage_status c \<noteq> ''complete''
          \<or> limit_unknown (gd_config_key c) (gd_config_value c) configuration)"
  unfolding decide_guards_def Let_def list_ex_usort_concat guard_reasons_unknown
  by (simp add: list_ex_iff guard_reasons_Nil)

text \<open>C25. On a verified path the guard evaluation returns a decision; it is effective exactly
  when some candidate stops the Growth on the demand's own resource under a modeled positive
  limit, and unknown exactly when none does and the coverage of the guards, of a candidate or
  of a configured limit is open.\<close>

theorem evaluate_guard_correct:
  assumes "lifecycle_context entry growth flow g" "coverage \<in> {''complete'', ''partial'', ''unsupported''}"
  shows "\<exists>d. evaluate_guard entry growth flow cs configuration coverage = Inr d
    \<and> (gdec_status d = GuardEffective \<longleftrightarrow> (\<exists>c \<in> set cs. guard_protects g configuration c))
    \<and> (gdec_status d = GuardUnknown \<longleftrightarrow> \<not> (\<exists>c \<in> set cs. guard_protects g configuration c)
         \<and> (cs = [] \<and> coverage \<noteq> ''complete''
            \<or> (\<exists>c \<in> set cs. gd_coverage_status c \<noteq> ''complete''
                 \<or> limit_unknown (gd_config_key c) (gd_config_value c) configuration)))
    \<and> set (gdec_candidate_ids d) = guard_id ` set cs"
proof (cases "cs = []")
  case True
  then show ?thesis
    using assms by (auto simp: evaluate_guard_def validate_context_iff[symmetric] coverage_statuses_def)
next
  case False
  then have "evaluate_guard entry growth flow cs configuration coverage
      = Inr (decide_guards g configuration (sort_key guard_id cs))"
    using assms by (auto simp: evaluate_guard_def validate_context_iff[symmetric] coverage_statuses_def)
  then show ?thesis
    using False guard_status_cases[of g configuration "sort_key guard_id cs"]
      guard_status_unknown[of g configuration "sort_key guard_id cs"]
      guard_evaluation.cited_complete[of g configuration cs] by simp
qed

section \<open>Bounds\<close>

definition bound_encoding_ok :: "entry_fact \<Rightarrow> bound_candidate \<Rightarrow> bool" where
  "bound_encoding_ok entry c \<longleftrightarrow> (case limit_domain_of c of
       None \<Rightarrow> bd_request_encoding c \<in> {''raw_body'', ''any''}
     | Some d \<Rightarrow> e_framework entry \<in> set (ld_frameworks d)
         \<and> bd_request_encoding c = ld_request_encoding d \<and> bd_config_key c = ld_config_key d)"

definition bound_protects :: "entry_fact \<Rightarrow> growth_candidate \<Rightarrow> modeled_configuration \<Rightarrow> bound_candidate \<Rightarrow> bool" where
  "bound_protects entry g configuration c \<longleftrightarrow>
     bd_scope c = g_escape_scope g \<and> bd_dimension c = g_dimension g \<and> bd_receiver c = g_receiver g
   \<and> bd_result_checked c \<and> bd_queue_resource c = g_field_path g \<and> bound_encoding_ok entry c
   \<and> bd_product_bound c \<and> bd_phase c \<in> {''before_growth'', ''inside_growth''} \<and> bd_covers_flow c
   \<and> bd_behavior c \<in> {''reject'', ''block'', ''evict'', ''clamp''}
   \<and> limit_modeled (bd_config_key c) (bd_config_value c) configuration \<and> bd_coverage_status c = ''complete''"

lemma bound_encoding_Nil:
  "(case framework_limit_reason_codes entry c of
      None \<Rightarrow> if bd_request_encoding c \<notin> {''raw_body'', ''any''} then [''BOUND_REQUEST_ENCODING_MISMATCH''] else []
    | Some rs \<Rightarrow> rs) = [] \<longleftrightarrow> bound_encoding_ok entry c"
  by (auto simp: framework_limit_reason_codes_def bound_encoding_ok_def split: option.splits)

lemma bound_encoding_unknown:
  fixes entry c
  shows "\<not> list_ex (\<lambda>r. endswith r ''UNKNOWN'') (case framework_limit_reason_codes entry c of
      None \<Rightarrow> if bd_request_encoding c \<notin> {''raw_body'', ''any''} then [''BOUND_REQUEST_ENCODING_MISMATCH''] else []
    | Some rs \<Rightarrow> rs)"
  by (auto simp: framework_limit_reason_codes_def endswith_unknown split: option.splits)

lemma bound_reasons_Nil: "bound_reasons entry g configuration c = [] \<longleftrightarrow> bound_protects entry g configuration c"
  unfolding bound_reasons_def bound_protects_def config_reason_Nil[of "''BOUND_''", symmetric] append_is_Nil_conv
    bound_encoding_Nil
  by (simp only: if_split_eq1 list.distinct not_False_eq_True simp_thms de_Morgan_disj not_not conj_assoc)

lemma bound_reasons_unknown:
  "list_ex (\<lambda>r. endswith r ''UNKNOWN'') (bound_reasons entry g configuration c)
     \<longleftrightarrow> bd_coverage_status c \<noteq> ''complete'' \<or> limit_unknown (bd_config_key c) (bd_config_value c) configuration"
  unfolding bound_reasons_def list_ex_append list_ex_if config_reason_unknown
  using bound_encoding_unknown[of c entry]
  by (simp only: list_ex_Cons_Nil endswith_unknown simp_thms if_cancel if_bool_eq_disj) blast

lemma decide_bounds_status:
  "bdec_status (decide_bounds entry g configuration cs) = BoundEffective
     \<longleftrightarrow> (\<exists>c \<in> set cs. bound_protects entry g configuration c)"
  "bdec_status (decide_bounds entry g configuration cs) = BoundUnknown \<longleftrightarrow>
     \<not> (\<exists>c \<in> set cs. bound_protects entry g configuration c)
     \<and> (\<exists>c \<in> set cs. bd_coverage_status c \<noteq> ''complete''
          \<or> limit_unknown (bd_config_key c) (bd_config_value c) configuration)"
  unfolding decide_bounds_def Let_def list_ex_usort_concat bound_reasons_unknown
  by (simp_all add: list_ex_iff bound_reasons_Nil)

text \<open>C26. The bound evaluation returns a decision on a verified path; it is effective exactly
  when some candidate bounds the demand's own resource, receiver and field with a checked result
  under a modeled positive limit (framework limits on their own framework and encoding), and
  unknown exactly when none does and some coverage or limit is open.\<close>

theorem evaluate_bound_correct:
  assumes "lifecycle_context entry growth flow g" "coverage \<in> {''complete'', ''partial'', ''unsupported''}"
  shows "\<exists>d. evaluate_bound entry growth flow cs configuration coverage = Inr d
    \<and> (bdec_status d = BoundEffective \<longleftrightarrow> (\<exists>c \<in> set cs. bound_protects entry g configuration c))
    \<and> (bdec_status d = BoundUnknown \<longleftrightarrow> \<not> (\<exists>c \<in> set cs. bound_protects entry g configuration c)
         \<and> (cs = [] \<and> coverage \<noteq> ''complete''
            \<or> (\<exists>c \<in> set cs. bd_coverage_status c \<noteq> ''complete''
                 \<or> limit_unknown (bd_config_key c) (bd_config_value c) configuration)))
    \<and> set (bdec_candidate_ids d) = bound_id ` set cs"
proof (cases "cs = []")
  case True
  then show ?thesis
    using assms by (auto simp: evaluate_bound_def validate_context_iff[symmetric] coverage_statuses_def)
next
  case False
  then have "evaluate_bound entry growth flow cs configuration coverage
      = Inr (decide_bounds entry g configuration (sort_key bound_id cs))"
    using assms by (auto simp: evaluate_bound_def validate_context_iff[symmetric] coverage_statuses_def)
  then show ?thesis
    using False decide_bounds_status[of entry g configuration "sort_key bound_id cs"]
      bound_evaluation.cited_complete[of entry g configuration cs] by simp
qed

section \<open>Releases\<close>

text \<open>A release that really gives the resource back on every path of the request.\<close>

definition release_protects :: "growth_candidate \<Rightarrow> release_candidate \<Rightarrow> bool" where
  "release_protects g c \<longleftrightarrow>
     rl_synchronous c \<and> rl_async_kind c = ''none''
   \<and> rl_dimension c = g_dimension g \<and> rl_scope c = g_escape_scope g \<and> rl_receiver c = g_receiver g
   \<and> (rl_kind c \<in> {''clear'', ''close''} \<and> rl_key_identity c = ''none''
      \<or> rl_key_identity c \<in> d_name ` set (g_demands g))
   \<and> rl_after_growth c \<and> rl_normal_path c \<and> rl_exceptional_path c
   \<and> rl_actual_reduction c \<and> \<not> rl_transfer_only c \<and> rl_coverage_status c = ''complete''"

text \<open>A release whose effect cannot be judged statically.\<close>

definition release_open :: "release_candidate \<Rightarrow> bool" where
  "release_open c \<longleftrightarrow> \<not> rl_synchronous c \<or> rl_async_kind c \<noteq> ''none'' \<or> rl_transfer_only c
     \<or> rl_coverage_status c \<noteq> ''complete''"

lemma release_reasons_Nil: "release_reasons g c = [] \<longleftrightarrow> release_protects g c"
  unfolding release_reasons_def release_protects_def release_async_def release_mismatched_def
    release_partial_path_def Let_def append_is_Nil_conv
  by (simp only: if_split_eq1 list.distinct simp_thms de_Morgan_disj de_Morgan_conj not_not conj_assoc)

lemma release_reason_in:
  "''RELEASE_POTENTIAL_ASYNC'' \<in> set (release_reasons g c) \<longleftrightarrow> release_async c"
  "''RELEASE_PAYLOAD_TRANSFER_ONLY'' \<in> set (release_reasons g c) \<longleftrightarrow> rl_transfer_only c"
  "''RELEASE_COVERAGE_UNKNOWN'' \<in> set (release_reasons g c) \<longleftrightarrow> rl_coverage_status c \<noteq> ''complete''"
  by (simp_all add: release_reasons_def)

lemma release_open_iff:
  "release_open c \<longleftrightarrow> release_async c \<or> rl_transfer_only c \<or> rl_coverage_status c \<noteq> ''complete''"
  by (auto simp: release_open_def release_async_def)

lemma release_loop_closed:
  assumes "\<forall>c \<in> set cs. \<not> release_open c" "cl \<notin> {PotentialAsync, ClassUnknown}"
  shows "fold (release_class_step g) cs cl \<notin> {PotentialAsync, ClassUnknown}"
  using assms
proof (induction cs arbitrary: cl)
  case (Cons c cs)
  then have "release_class_step g c cl \<notin> {PotentialAsync, ClassUnknown}"
    by (simp add: release_class_step_def release_open_iff Let_def)
  with Cons show ?case by simp
qed simp

lemma decide_releases_status:
  "rdec_status (decide_releases g cs) = ReleaseEffective \<longleftrightarrow>
     (\<exists>c \<in> set cs. release_protects g c) \<and> (\<forall>c \<in> set cs. \<not> release_open c)"
  "rdec_status (decide_releases g cs) = ReleaseUnknown \<longleftrightarrow> (\<exists>c \<in> set cs. release_open c)"
proof -
  let ?rs = "usort (concat (map (release_reasons g) cs))"
  have open_iff: "list_ex (\<lambda>r. r \<in> {''RELEASE_POTENTIAL_ASYNC'', ''RELEASE_PAYLOAD_TRANSFER_ONLY'',
      ''RELEASE_COVERAGE_UNKNOWN''}) ?rs \<longleftrightarrow> (\<exists>c \<in> set cs. release_open c)"
    unfolding list_ex_usort_concat release_open_iff
    by (simp add: list_ex_iff flip: release_reason_in[of g]) blast
  have in_iff: "''RELEASE_POTENTIAL_ASYNC'' \<in> set ?rs \<longleftrightarrow> (\<exists>c \<in> set cs. release_async c)"
    "''RELEASE_PAYLOAD_TRANSFER_ONLY'' \<in> set ?rs \<longleftrightarrow> (\<exists>c \<in> set cs. rl_transfer_only c)"
    "''RELEASE_COVERAGE_UNKNOWN'' \<in> set ?rs \<longleftrightarrow> (\<exists>c \<in> set cs. rl_coverage_status c \<noteq> ''complete'')"
    by (simp_all only: set_usort set_concat set_map UN_iff image_iff bex_simps release_reason_in)
  have eff: "list_ex (\<lambda>c. release_reasons g c = []) cs \<longleftrightarrow> (\<exists>c \<in> set cs. release_protects g c)"
    by (simp add: list_ex_iff release_reasons_Nil)
  have loop: "\<not> (\<exists>c \<in> set cs. release_open c) \<Longrightarrow>
      fold (release_class_step g) cs NotEffective \<notin> {PotentialAsync, ClassUnknown}"
    by (rule release_loop_closed) auto
  show "rdec_status (decide_releases g cs) = ReleaseEffective \<longleftrightarrow>
      (\<exists>c \<in> set cs. release_protects g c) \<and> (\<forall>c \<in> set cs. \<not> release_open c)"
    unfolding decide_releases_def Let_def open_iff in_iff eff by (auto simp: release_open_iff)
  show "rdec_status (decide_releases g cs) = ReleaseUnknown \<longleftrightarrow> (\<exists>c \<in> set cs. release_open c)"
    unfolding decide_releases_def Let_def open_iff in_iff eff using loop by (auto simp: release_open_iff)
qed

text \<open>C27. A synchronous release is effective only when some candidate gives the resource back on
  every path and no candidate is asynchronous, a mere transfer or incompletely covered; any such
  open candidate makes the decision unknown, even next to an effective one.\<close>

theorem evaluate_release_correct:
  assumes "lifecycle_context entry growth flow g" "coverage \<in> {''complete'', ''partial'', ''unsupported''}"
  shows "\<exists>d. evaluate_synchronous_release entry growth flow cs coverage = Inr d
    \<and> (rdec_status d = ReleaseEffective \<longleftrightarrow>
         (\<exists>c \<in> set cs. release_protects g c) \<and> (\<forall>c \<in> set cs. \<not> release_open c))
    \<and> (rdec_status d = ReleaseUnknown \<longleftrightarrow>
         cs = [] \<and> coverage \<noteq> ''complete'' \<or> (\<exists>c \<in> set cs. release_open c))
    \<and> set (rdec_candidate_ids d) = release_id ` set cs"
proof (cases "cs = []")
  case True
  then show ?thesis
    using assms by (auto simp: evaluate_synchronous_release_def validate_context_iff[symmetric] coverage_statuses_def)
next
  case False
  then have "evaluate_synchronous_release entry growth flow cs coverage
      = Inr (decide_releases g (sort_key release_id cs))"
    using assms by (auto simp: evaluate_synchronous_release_def validate_context_iff[symmetric] coverage_statuses_def)
  then show ?thesis
    using False decide_releases_status[of g "sort_key release_id cs"]
      release_evaluation.cited_complete[of g cs] by simp
qed

section \<open>Order of the candidates\<close>

text \<open>The decisions do not depend on the order in which guard, bound or release candidates
  are given, as long as identifiers are distinct.\<close>

theorem lifecycle_order_independent:
  assumes "mset gs = mset gs'" "distinct (map guard_id gs)"
    "mset bs = mset bs'" "distinct (map bound_id bs)"
    "mset rs = mset rs'" "distinct (map release_id rs)"
  shows "evaluate_guard entry growth flow gs configuration cov = evaluate_guard entry growth flow gs' configuration cov
    \<and> evaluate_bound entry growth flow bs configuration cov = evaluate_bound entry growth flow bs' configuration cov
    \<and> evaluate_synchronous_release entry growth flow rs cov = evaluate_synchronous_release entry growth flow rs' cov"
proof -
  have "gs = [] \<longleftrightarrow> gs' = []" "bs = [] \<longleftrightarrow> bs' = []" "rs = [] \<longleftrightarrow> rs' = []"
    using assms by (metis mset_zero_iff)+
  note empty = this
  show ?thesis
    unfolding evaluate_guard_def evaluate_bound_def evaluate_synchronous_release_def
      guard_evaluation.order_independent[OF assms(1,2)] bound_evaluation.order_independent[OF assms(3,4)]
      release_evaluation.order_independent[OF assms(5,6)] empty
    by (intro conjI refl)
qed

section \<open>Instances\<close>

definition sample_verified_flow :: verified_flow where
  "sample_verified_flow = \<lparr>verified_flow_id = ''verified_flow:1'', vf_path_id = ''flow:1'',
     vf_entry_id = ''entry:1'', vf_growth_id = ''growth:1'', vf_status = FlowVerified, vf_reasons = [],
     vf_checks = [ok_check ''entry_reference''], vf_evidence_ids = [''entry:1'', ''flow:1'', ''growth:1''],
     vf_unresolved = [], vf_proof = sample_flow [''C.m'']\<rparr>"

lemma sample_context: "lifecycle_context sample_entry sample_growth sample_verified_flow sample_candidate"
  by (simp add: lifecycle_context_def sample_entry_def sample_growth_def sample_verified_flow_def satisfies_premise_def)

definition sample_guard :: "string \<Rightarrow> bool \<Rightarrow> guard_candidate" where
  "sample_guard i dominates = \<lparr>guard_id = i, gd_site_file = ''A.java'', gd_site_line = 2, gd_kind = ''request_limit'',
     gd_dimension = ''entries'', gd_scope = ''global'', gd_behavior = ''reject'', gd_dominates_growth = dominates,
     gd_reject_path_reaches_growth = False, gd_config_key = ''max'', gd_config_value = ''100'',
     gd_representation = ''same'', gd_phase = ''before_growth'', gd_covers_materialization = True,
     gd_authorization_only = False, gd_evidence = [''guard''], gd_coverage_status = ''complete''\<rparr>"

definition sample_bound :: "string \<Rightarrow> string \<Rightarrow> bound_candidate" where
  "sample_bound i receiver = \<lparr>bound_id = i, bd_site_file = ''A.java'', bd_site_line = 3, bd_kind = ''capacity'',
     bd_dimension = ''entries'', bd_scope = ''global'', bd_behavior = ''evict'', bd_receiver = receiver,
     bd_field_path = ''this.cache'', bd_result_checked = True, bd_config_key = ''max'', bd_config_value = ''100'',
     bd_phase = ''inside_growth'', bd_covers_flow = True, bd_request_encoding = ''any'',
     bd_queue_resource = ''this.cache'', bd_product_bound = True, bd_evidence = [''bound''],
     bd_coverage_status = ''complete''\<rparr>"

definition sample_release :: "string \<Rightarrow> bool \<Rightarrow> release_candidate" where
  "sample_release i sync = \<lparr>release_id = i, rl_site_file = ''A.java'', rl_site_line = 9, rl_kind = ''remove'',
     rl_dimension = ''entries'', rl_scope = ''global'', rl_receiver = ''cache'', rl_key_identity = ''name'',
     rl_synchronous = sync, rl_normal_path = True, rl_exceptional_path = True, rl_actual_reduction = True,
     rl_after_growth = True, rl_transfer_only = False, rl_async_kind = ''none'', rl_evidence = [''release''],
     rl_coverage_status = ''complete''\<rparr>"

definition sample_configuration :: modeled_configuration where
  "sample_configuration = [(''max'', CfgInt 100)]"

lemma int_str_100: "int_str 100 = ''100''"
  by code_simp

lemma sample_limit: "limit_modeled ''max'' ''100'' sample_configuration"
  by (simp add: limit_modeled_def config_get_def sample_configuration_def int_str_100)

theorem evaluate_guard_correct_witness:
  "\<exists>d. evaluate_guard sample_entry sample_growth sample_verified_flow
      [sample_guard ''guard:b'' False, sample_guard ''guard:a'' True] sample_configuration ''complete'' = Inr d
    \<and> gdec_status d = GuardEffective"
proof -
  have "guard_protects sample_candidate sample_configuration (sample_guard ''guard:a'' True)"
    using sample_limit by (simp add: guard_protects_def sample_guard_def sample_candidate_def)
  with evaluate_guard_correct[OF sample_context, of "''complete''"
      "[sample_guard ''guard:b'' False, sample_guard ''guard:a'' True]" sample_configuration]
  show ?thesis by auto
qed

theorem evaluate_bound_correct_witness:
  "\<exists>d. evaluate_bound sample_entry sample_growth sample_verified_flow
      [sample_bound ''bound:b'' ''other'', sample_bound ''bound:a'' ''cache''] sample_configuration ''complete'' = Inr d
    \<and> bdec_status d = BoundEffective"
proof -
  have "limit_domain_of (sample_bound ''bound:a'' ''cache'') = None"
    by (simp add: limit_domain_of_def limit_domains_def sample_bound_def)
  then have "bound_protects sample_entry sample_candidate sample_configuration (sample_bound ''bound:a'' ''cache'')"
    using sample_limit
    by (simp add: bound_protects_def bound_encoding_ok_def) (simp add: sample_bound_def sample_candidate_def)
  with evaluate_bound_correct[OF sample_context, of "''complete''"
      "[sample_bound ''bound:b'' ''other'', sample_bound ''bound:a'' ''cache'']" sample_configuration]
  show ?thesis by auto
qed

theorem evaluate_release_correct_witness:
  "\<exists>d. evaluate_synchronous_release sample_entry sample_growth sample_verified_flow
      [sample_release ''release:a'' True, sample_release ''release:b'' False] ''complete'' = Inr d
    \<and> rdec_status d = ReleaseUnknown"
proof -
  have "release_open (sample_release ''release:b'' False)"
    by (simp add: release_open_def sample_release_def)
  with evaluate_release_correct[OF sample_context, of "''complete''"
      "[sample_release ''release:a'' True, sample_release ''release:b'' False]"]
  show ?thesis by auto
qed

theorem lifecycle_order_independent_witness:
  "evaluate_guard sample_entry sample_growth sample_verified_flow
      [sample_guard ''guard:a'' True, sample_guard ''guard:b'' False] sample_configuration ''complete''
   = evaluate_guard sample_entry sample_growth sample_verified_flow
      [sample_guard ''guard:b'' False, sample_guard ''guard:a'' True] sample_configuration ''complete''"
  using lifecycle_order_independent[of "[sample_guard ''guard:a'' True, sample_guard ''guard:b'' False]"
      "[sample_guard ''guard:b'' False, sample_guard ''guard:a'' True]" "[]" "[]" "[]" "[]"
      sample_entry sample_growth sample_verified_flow sample_configuration "''complete''"]
  by (simp add: sample_guard_def)

end
