(* ===== verification/Assertions.thy ===== *)
theory Assertions
  imports LifecycleLaws
begin

text \<open>
  \<open>dosweb/conclude/assertions.py\<close>: the two vulnerability assertions over one path, and what
  it takes for each of them to match or to be refuted.
\<close>

datatype assertion_name = Assertion1 | Assertion2
datatype assertion_status = Matched | Refuted | AUnknown | NotApplicable

record assertion_evaluation =
  as_name :: assertion_name
  as_status :: assertion_status
  as_reasons :: "string list"
  as_evidence_ids :: "string list"
  as_unresolved :: "string list"

definition AssertionEvaluation :: "assertion_evaluation \<Rightarrow> assertion_evaluation res" where
  "AssertionEvaluation a =
     (if [] \<in> set (as_reasons a)
      then Inl (AnalyzerError ''ANALYSIS_ASSERTION_INVALID'' ''reason_codes is invalid.'' [])
      else if [] \<in> set (as_evidence_ids a)
      then Inl (AnalyzerError ''ANALYSIS_ASSERTION_INVALID'' ''evidence_ids is invalid.'' [])
      else if [] \<in> set (as_unresolved a)
      then Inl (AnalyzerError ''ANALYSIS_ASSERTION_INVALID'' ''unresolved_facts is invalid.'' [])
      else Inr (a\<lparr>as_reasons := usort (as_reasons a), as_evidence_ids := usort (as_evidence_ids a),
                  as_unresolved := usort (as_unresolved a)\<rparr>))"

text \<open>The optional further premises (reachability, amplification, repeatability) are read only
  through their \<open>status\<close> and \<open>decision_id\<close> attributes.\<close>

record premise_view =
  pv_status :: "string option"
  pv_decision_id :: "string option"

definition decision_status :: "premise_view option \<Rightarrow> string option" where
  "decision_status d = (case d of None \<Rightarrow> None | Some v \<Rightarrow> pv_status v)"

definition decision_ids :: "premise_view option \<Rightarrow> string list" where
  "decision_ids d = (case d of None \<Rightarrow> [] | Some v \<Rightarrow>
     (case pv_decision_id v of None \<Rightarrow> [] | Some i \<Rightarrow> if i = [] then [] else [i]))"

definition assertion_context :: "verified_growth \<Rightarrow> verified_flow \<Rightarrow> unit res" where
  "assertion_context growth flow =
     (if vf_growth_id flow \<noteq> vg_growth_id growth
      then Inl (AnalyzerError ''ANALYSIS_DANGLING_FACT_REFERENCE'' ''Assertion flow and Growth facts do not match.''
        [(''growth_id'', JStr (vg_growth_id growth)), (''flow_growth_id'', JStr (vf_growth_id flow))])
      else Inr ())"

text \<open>The references and the unresolved facts of the decisions of an assertion.\<close>

definition assertion_ids :: "verified_growth \<Rightarrow> verified_flow \<Rightarrow> string list \<Rightarrow> string list" where
  "assertion_ids growth flow refs = usort ([verified_growth_id growth, vg_growth_id growth,
     verified_flow_id flow, vf_path_id flow, vf_entry_id flow] @ vf_evidence_ids flow @ refs)"

definition assertion_unresolved :: "verified_growth \<Rightarrow> verified_flow \<Rightarrow> string list \<Rightarrow> string list" where
  "assertion_unresolved growth flow open_facts = usort (vf_unresolved flow
     @ (if vg_status growth \<noteq> Verified then [growth_status_name (vg_status growth)] else [])
     @ vg_reasons growth @ open_facts)"

definition assertion_result :: "assertion_name \<Rightarrow> assertion_status \<Rightarrow> string list \<Rightarrow> verified_growth
    \<Rightarrow> verified_flow \<Rightarrow> string list \<Rightarrow> string list \<Rightarrow> assertion_evaluation res" where
  "assertion_result name status reasons growth flow unresolved refs =
     AssertionEvaluation \<lparr>as_name = name, as_status = status, as_reasons = usort reasons,
       as_evidence_ids = assertion_ids growth flow refs, as_unresolved = usort unresolved\<rparr>"

definition candidate_kind_in :: "verified_growth \<Rightarrow> string list \<Rightarrow> bool" where
  "candidate_kind_in growth kinds =
     (case vg_candidate growth of None \<Rightarrow> False | Some c \<Rightarrow> g_kind c \<in> set kinds)"

definition single_kinds :: "string list" where
  "single_kinds = [''input_materialization'', ''direct_allocation'']"

definition repeated_kinds :: "string list" where
  "repeated_kinds = [''container_growth'', ''async_work_growth'']"

definition evaluate_assertion_1 :: "verified_growth \<Rightarrow> verified_flow \<Rightarrow> guard_decision \<Rightarrow> bound_decision
    \<Rightarrow> premise_view option \<Rightarrow> premise_view option \<Rightarrow> assertion_evaluation res" where
  "evaluate_assertion_1 growth flow guard bound amplification reachability =
     res_bind (assertion_context growth flow) (\<lambda>_.
     let refs = gdec_evidence_ids guard @ gdec_candidate_ids guard @ bdec_evidence_ids bound @ bdec_candidate_ids bound;
         open_facts = gdec_unresolved guard @ bdec_unresolved bound;
         result = (\<lambda>status reason unresolved.
            assertion_result Assertion1 status [reason] growth flow unresolved refs);
         reach = decision_status reachability;
         target = ac_target (fl_control (vf_proof flow));
         direct = candidate_kind_in growth single_kinds \<and> target = ''size'';
         amplified = candidate_kind_in growth repeated_kinds \<and> decision_status amplification = Some ''proven''
     in
     if reach \<noteq> None \<and> reach \<noteq> Some ''ordinary_attacker_reachable'' then
       (if reach = Some ''not_entry_reachable''
        then result NotApplicable ''A1_NOT_ORDINARY_ATTACKER_REACHABLE'' []
        else result AUnknown ''A1_REACHABILITY_UNKNOWN'' (decision_ids reachability))
     else if \<not> direct \<and> \<not> amplified then
       (if candidate_kind_in growth repeated_kinds \<and> decision_status amplification = Some ''unknown''
        then result AUnknown ''A1_AMPLIFICATION_UNKNOWN'' (decision_ids amplification)
        else result NotApplicable ''A1_SINGLE_OPERATION_NOT_AMPLIFYING'' [])
     else if vg_status growth \<noteq> Verified
     then result AUnknown ''A1_GROWTH_NOT_VERIFIED'' (assertion_unresolved growth flow open_facts)
     else if vf_status flow \<noteq> FlowVerified
     then result AUnknown ''A1_FLOW_NOT_PROVEN'' (vf_unresolved flow @ vf_reasons flow)
     else if vf_unresolved flow \<noteq> [] then result AUnknown ''A1_FLOW_UNRESOLVED'' (vf_unresolved flow)
     else if gdec_status guard = GuardUnknown \<or> gdec_unresolved guard \<noteq> []
     then result AUnknown ''A1_GUARD_UNKNOWN'' (assertion_unresolved growth flow open_facts)
     else if gdec_status guard = GuardEffective then result Refuted ''A1_EFFECTIVE_GUARD'' []
     else if bdec_status bound = BoundUnknown \<or> bdec_unresolved bound \<noteq> []
     then result AUnknown ''A1_BOUND_UNKNOWN'' (assertion_unresolved growth flow open_facts)
     else if bdec_status bound = BoundEffective then result Refuted ''A1_EFFECTIVE_BOUND'' []
     else assertion_result Assertion1 Matched
       [''A1_FLOW_PROVEN'', ''A1_GROWTH_VERIFIED'', ''A1_NO_EFFECTIVE_GUARD'', ''A1_NO_EFFECTIVE_BOUND'']
       growth flow [] refs)"

definition evaluate_assertion_2 :: "verified_growth \<Rightarrow> verified_flow \<Rightarrow> bound_decision \<Rightarrow> release_decision
    \<Rightarrow> premise_view option \<Rightarrow> premise_view option \<Rightarrow> assertion_evaluation res" where
  "evaluate_assertion_2 growth flow bound release reachability repeatability =
     res_bind (assertion_context growth flow) (\<lambda>_.
     let refs = bdec_evidence_ids bound @ bdec_candidate_ids bound @ rdec_evidence_ids release @ rdec_candidate_ids release;
         open_facts = bdec_unresolved bound @ rdec_unresolved release;
         result = (\<lambda>status reason unresolved.
            assertion_result Assertion2 status [reason] growth flow unresolved refs);
         reach = decision_status reachability;
         repeat = decision_status repeatability;
         target = ac_target (fl_control (vf_proof flow))
     in
     if reach \<noteq> None \<and> reach \<noteq> Some ''ordinary_attacker_reachable'' then
       (if reach = Some ''not_entry_reachable''
        then result NotApplicable ''A2_NOT_ORDINARY_ATTACKER_REACHABLE'' []
        else result AUnknown ''A2_REACHABILITY_UNKNOWN'' (decision_ids reachability))
     else if repeat \<noteq> None \<and> repeat \<noteq> Some ''proven'' then
       (if repeat = Some ''not_applicable'' then result NotApplicable ''A2_NOT_REPEATABLE'' []
        else result AUnknown ''A2_REPEATABILITY_UNKNOWN'' (decision_ids repeatability))
     else if vg_status growth \<noteq> Verified
     then result AUnknown ''A2_GROWTH_NOT_VERIFIED'' (assertion_unresolved growth flow open_facts)
     else if vf_status flow \<noteq> FlowVerified
     then result AUnknown ''A2_FLOW_NOT_PROVEN'' (vf_unresolved flow @ vf_reasons flow)
     else if vf_unresolved flow \<noteq> [] then result AUnknown ''A2_FLOW_UNRESOLVED'' (vf_unresolved flow)
     else if target \<notin> {''key'', ''value'', ''submission_count''}
     then result NotApplicable ''A2_NONPERSISTENT_DEMAND'' []
     else (case vg_candidate growth of
         None \<Rightarrow> result NotApplicable ''A2_NONESCAPING_GROWTH'' []
       | Some c \<Rightarrow>
         if g_escape_scope c = ''request'' then result NotApplicable ''A2_NONESCAPING_GROWTH'' []
         else if g_escape_scope c = ''unknown''
         then result AUnknown ''A2_ESCAPE_SCOPE_UNKNOWN'' [''escape_scope'']
         else if bdec_status bound = BoundUnknown \<or> bdec_unresolved bound \<noteq> []
         then result AUnknown ''A2_BOUND_UNKNOWN'' (assertion_unresolved growth flow open_facts)
         else if bdec_status bound = BoundEffective then result Refuted ''A2_EFFECTIVE_BOUND'' []
         else if rdec_class release = PotentialAsync
         then result AUnknown ''A2_POTENTIAL_ASYNC_RELEASE'' (assertion_unresolved growth flow open_facts)
         else if rdec_status release = ReleaseUnknown \<or> rdec_unresolved release \<noteq> []
           \<or> rdec_class release = ClassUnknown
         then result AUnknown ''A2_RELEASE_UNKNOWN'' (assertion_unresolved growth flow open_facts)
         else if rdec_status release = ReleaseEffective then result Refuted ''A2_EFFECTIVE_SYNCHRONOUS_RELEASE'' []
         else assertion_result Assertion2 Matched
           [''A2_FLOW_PROVEN'', ''A2_GROWTH_ESCAPES'', ''A2_NO_EFFECTIVE_BOUND'', ''A2_NO_EFFECTIVE_RELEASE'']
           growth flow [] refs))"

section \<open>When an assertion matches or is refuted\<close>

lemma assertion_result_Inr:
  "assertion_result name status reasons growth flow unresolved refs = Inr a
     \<Longrightarrow> as_name a = name \<and> as_status a = status \<and> set (as_unresolved a) = set unresolved
       \<and> as_evidence_ids a = assertion_ids growth flow refs"
  by (auto simp: assertion_result_def AssertionEvaluation_def assertion_ids_def split: if_splits)

text \<open>The path reaches the Growth with attacker control, as far as assertions see it.\<close>

definition reach_admitted :: "premise_view option \<Rightarrow> bool" where
  "reach_admitted reachability \<longleftrightarrow> decision_status reachability \<in> {None, Some ''ordinary_attacker_reachable''}"

definition path_proven :: "verified_growth \<Rightarrow> verified_flow \<Rightarrow> bool" where
  "path_proven growth flow \<longleftrightarrow> vg_status growth = Verified \<and> vf_status flow = FlowVerified \<and> vf_unresolved flow = []"

definition single_request_demand :: "verified_growth \<Rightarrow> verified_flow \<Rightarrow> premise_view option \<Rightarrow> bool" where
  "single_request_demand growth flow amplification \<longleftrightarrow>
     candidate_kind_in growth single_kinds \<and> ac_target (fl_control (vf_proof flow)) = ''size''
   \<or> candidate_kind_in growth repeated_kinds \<and> decision_status amplification = Some ''proven''"

definition repeat_admitted :: "premise_view option \<Rightarrow> bool" where
  "repeat_admitted repeatability \<longleftrightarrow> decision_status repeatability \<in> {None, Some ''proven''}"

definition persistent_target :: "verified_flow \<Rightarrow> bool" where
  "persistent_target flow \<longleftrightarrow> ac_target (fl_control (vf_proof flow)) \<in> {''key'', ''value'', ''submission_count''}"

definition persistent_demand :: "verified_growth \<Rightarrow> verified_flow \<Rightarrow> premise_view option \<Rightarrow> bool" where
  "persistent_demand growth flow repeatability \<longleftrightarrow> repeat_admitted repeatability \<and> persistent_target flow
   \<and> (\<exists>c. vg_candidate growth = Some c \<and> g_escape_scope c \<noteq> ''request'' \<and> g_escape_scope c \<noteq> ''unknown'')"

text \<open>The tests of the code in these terms.\<close>

lemma assertion_tests:
  "decision_status r \<noteq> None \<and> decision_status r \<noteq> Some ''ordinary_attacker_reachable'' \<longleftrightarrow> \<not> reach_admitted r"
  "decision_status r \<noteq> None \<and> decision_status r \<noteq> Some ''proven'' \<longleftrightarrow> \<not> repeat_admitted r"
  "ac_target (fl_control (vf_proof flow)) \<notin> {''key'', ''value'', ''submission_count''} \<longleftrightarrow> \<not> persistent_target flow"
  "\<not> (candidate_kind_in growth single_kinds \<and> ac_target (fl_control (vf_proof flow)) = ''size'')
    \<and> \<not> (candidate_kind_in growth repeated_kinds \<and> decision_status r = Some ''proven'')
    \<longleftrightarrow> \<not> single_request_demand growth flow r"
  by (simp_all add: reach_admitted_def repeat_admitted_def persistent_target_def single_request_demand_def)

lemma guard_status_exhaust: "s \<noteq> GuardUnknown \<Longrightarrow> s \<noteq> GuardEffective \<Longrightarrow> s = GuardIneffective"
  by (cases s) simp_all

lemma assertion_1_status:
  assumes "evaluate_assertion_1 growth flow guard bound amplification reachability = Inr a"
  shows "as_name a = Assertion1"
    "as_status a = Matched \<longleftrightarrow> reach_admitted reachability \<and> single_request_demand growth flow amplification
       \<and> path_proven growth flow
       \<and> gdec_status guard = GuardIneffective \<and> gdec_unresolved guard = []
       \<and> bdec_status bound \<notin> {BoundUnknown, BoundEffective} \<and> bdec_unresolved bound = []"
    "as_status a = Refuted \<longleftrightarrow> reach_admitted reachability \<and> single_request_demand growth flow amplification
       \<and> path_proven growth flow \<and> gdec_unresolved guard = []
       \<and> (gdec_status guard = GuardEffective
          \<or> gdec_status guard = GuardIneffective \<and> bdec_status bound = BoundEffective \<and> bdec_unresolved bound = [])"
    "as_status a \<in> {Matched, Refuted, NotApplicable} \<Longrightarrow> as_unresolved a = []"
proof -
  note run = assms[unfolded evaluate_assertion_1_def res_bind_Inr_iff Let_def assertion_tests]
  note defs = path_proven_def
  show "as_name a = Assertion1"
    using run by (auto split: if_split_asm dest!: assertion_result_Inr)
  show "as_status a = Matched \<longleftrightarrow> reach_admitted reachability \<and> single_request_demand growth flow amplification
       \<and> path_proven growth flow
       \<and> gdec_status guard = GuardIneffective \<and> gdec_unresolved guard = []
       \<and> bdec_status bound \<notin> {BoundUnknown, BoundEffective} \<and> bdec_unresolved bound = []"
    using run unfolding defs by (elim exE conjE) (auto split: if_split_asm dest!: assertion_result_Inr intro: guard_status_exhaust)
  show "as_status a = Refuted \<longleftrightarrow> reach_admitted reachability \<and> single_request_demand growth flow amplification
       \<and> path_proven growth flow \<and> gdec_unresolved guard = []
       \<and> (gdec_status guard = GuardEffective
          \<or> gdec_status guard = GuardIneffective \<and> bdec_status bound = BoundEffective \<and> bdec_unresolved bound = [])"
    using run unfolding defs by (elim exE conjE) (auto split: if_split_asm dest!: assertion_result_Inr intro: guard_status_exhaust)
  show "as_status a \<in> {Matched, Refuted, NotApplicable} \<Longrightarrow> as_unresolved a = []"
    using run by (auto split: if_split_asm dest!: assertion_result_Inr)
qed


lemma assertion_2_status:
  assumes "evaluate_assertion_2 growth flow bound release reachability repeatability = Inr a"
  shows "as_name a = Assertion2"
    "as_status a = Matched \<longleftrightarrow> reach_admitted reachability \<and> persistent_demand growth flow repeatability
       \<and> path_proven growth flow
       \<and> bdec_status bound \<notin> {BoundUnknown, BoundEffective} \<and> bdec_unresolved bound = []
       \<and> rdec_class release \<notin> {PotentialAsync, ClassUnknown}
       \<and> rdec_status release \<notin> {ReleaseUnknown, ReleaseEffective} \<and> rdec_unresolved release = []"
    "as_status a = Refuted \<longleftrightarrow> reach_admitted reachability \<and> persistent_demand growth flow repeatability
       \<and> path_proven growth flow \<and> bdec_unresolved bound = [] \<and> bdec_status bound \<noteq> BoundUnknown
       \<and> (bdec_status bound = BoundEffective
          \<or> rdec_class release \<notin> {PotentialAsync, ClassUnknown} \<and> rdec_status release = ReleaseEffective
            \<and> rdec_unresolved release = [])"
    "as_status a \<in> {Matched, Refuted, NotApplicable} \<Longrightarrow> as_unresolved a = []"
proof -
  note run = assms[unfolded evaluate_assertion_2_def res_bind_Inr_iff Let_def assertion_tests]
  note defs = persistent_demand_def path_proven_def
  show "as_name a = Assertion2"
    using run by (auto split: if_split_asm option.split_asm dest!: assertion_result_Inr)
  show "as_status a = Matched \<longleftrightarrow> reach_admitted reachability \<and> persistent_demand growth flow repeatability
       \<and> path_proven growth flow
       \<and> bdec_status bound \<notin> {BoundUnknown, BoundEffective} \<and> bdec_unresolved bound = []
       \<and> rdec_class release \<notin> {PotentialAsync, ClassUnknown}
       \<and> rdec_status release \<notin> {ReleaseUnknown, ReleaseEffective} \<and> rdec_unresolved release = []"
    using run unfolding defs
    by (elim exE conjE) (auto split: if_split_asm option.split_asm dest!: assertion_result_Inr)
  show "as_status a = Refuted \<longleftrightarrow> reach_admitted reachability \<and> persistent_demand growth flow repeatability
       \<and> path_proven growth flow \<and> bdec_unresolved bound = [] \<and> bdec_status bound \<noteq> BoundUnknown
       \<and> (bdec_status bound = BoundEffective
          \<or> rdec_class release \<notin> {PotentialAsync, ClassUnknown} \<and> rdec_status release = ReleaseEffective
            \<and> rdec_unresolved release = [])"
    using run unfolding defs
    by (elim exE conjE) (auto split: if_split_asm option.split_asm dest!: assertion_result_Inr)
  show "as_status a \<in> {Matched, Refuted, NotApplicable} \<Longrightarrow> as_unresolved a = []"
    using run by (auto split: if_split_asm option.split_asm dest!: assertion_result_Inr)
qed

section \<open>Evaluation returns\<close>

text \<open>The inputs fit together and every identifier and reason in them is a non-empty string.\<close>

definition named_inputs :: "verified_growth \<Rightarrow> verified_flow \<Rightarrow> string list \<Rightarrow> string list \<Rightarrow> bool" where
  "named_inputs growth flow refs facts \<longleftrightarrow> vf_growth_id flow = vg_growth_id growth
     \<and> [] \<notin> set ([verified_growth_id growth, vg_growth_id growth, verified_flow_id flow,
         vf_path_id flow, vf_entry_id flow] @ vf_evidence_ids flow @ refs)
     \<and> [] \<notin> set (vf_unresolved flow @ vf_reasons flow @ vg_reasons growth @ facts)"

lemma assertion_result_total:
  assumes "named_inputs growth flow refs facts" "[] \<notin> set reasons" "[] \<notin> set unresolved"
  shows "\<exists>a. assertion_result name status reasons growth flow unresolved refs = Inr a"
  using assms
  by (auto simp: assertion_result_def AssertionEvaluation_def named_inputs_def assertion_ids_def)

lemma assertion_unresolved_named:
  assumes "named_inputs growth flow refs facts" "set open_facts \<subseteq> set facts"
  shows "[] \<notin> set (assertion_unresolved growth flow open_facts)"
proof -
  have "growth_status_name (vg_status growth) \<noteq> []" by (cases "vg_status growth") simp_all
  then show ?thesis
    using assms by (auto simp: named_inputs_def assertion_unresolved_def )
qed

lemma decision_ids_named: "[] \<notin> set (decision_ids d)"
  by (auto simp: decision_ids_def split: option.splits if_splits)

lemma evaluate_assertion_1_total:
  assumes "named_inputs growth flow (gdec_evidence_ids guard @ gdec_candidate_ids guard @ bdec_evidence_ids bound
      @ bdec_candidate_ids bound) (gdec_unresolved guard @ bdec_unresolved bound)"
  shows "\<exists>a. evaluate_assertion_1 growth flow guard bound amplification reachability = Inr a"
proof -
  have "assertion_context growth flow = Inr ()"
    "[] \<notin> set (vf_unresolved flow @ vf_reasons flow)" "[] \<notin> set (vf_unresolved flow)"
    using assms by (auto simp: assertion_context_def named_inputs_def )
  note safe = this assertion_unresolved_named[OF assms subset_refl] decision_ids_named
  note total = assertion_result_total[OF assms, folded is_ok_iff]
  show ?thesis
    unfolding evaluate_assertion_1_def Let_def is_ok_iff[symmetric] if_distrib[of is_ok] safe(1) res_bind_simps
    by (simp only: total safe(2-) list.set empty_iff insert_iff list.distinct simp_thms not_False_eq_True if_cancel)
qed

lemma evaluate_assertion_2_total:
  assumes "named_inputs growth flow (bdec_evidence_ids bound @ bdec_candidate_ids bound @ rdec_evidence_ids release
      @ rdec_candidate_ids release) (bdec_unresolved bound @ rdec_unresolved release)"
  shows "\<exists>a. evaluate_assertion_2 growth flow bound release reachability repeatability = Inr a"
proof -
  have "assertion_context growth flow = Inr ()"
    "[] \<notin> set (vf_unresolved flow @ vf_reasons flow)" "[] \<notin> set (vf_unresolved flow)"
    using assms by (auto simp: assertion_context_def named_inputs_def)
  note safe = this assertion_unresolved_named[OF assms subset_refl] decision_ids_named
  note total = assertion_result_total[OF assms, folded is_ok_iff]
  show ?thesis
    unfolding evaluate_assertion_2_def Let_def is_ok_iff[symmetric] if_distrib[of is_ok] option.case_distrib[of is_ok]
      safe(1) res_bind_simps
    by (simp only: total safe(2-) list.set empty_iff insert_iff list.distinct simp_thms not_False_eq_True if_cancel
        split: option.split)
qed

section \<open>The assertions are decided exactly\<close>

text \<open>C28. On inputs that belong together assertion 1 is evaluated; it matches exactly when an
  admitted request makes a single-operation demand over a proven path and neither guard nor bound
  is effective, unknown or open, it is refuted exactly when such a demand meets an effective
  guard, or an ineffective guard and an effective bound, and a determinate result leaves
  nothing unresolved.\<close>

theorem evaluate_assertion_1_correct:
  assumes "named_inputs growth flow (gdec_evidence_ids guard @ gdec_candidate_ids guard @ bdec_evidence_ids bound
      @ bdec_candidate_ids bound) (gdec_unresolved guard @ bdec_unresolved bound)"
  shows "\<exists>a. evaluate_assertion_1 growth flow guard bound amplification reachability = Inr a
    \<and> (as_status a = Matched \<longleftrightarrow> reach_admitted reachability \<and> single_request_demand growth flow amplification
       \<and> path_proven growth flow
       \<and> gdec_status guard = GuardIneffective \<and> gdec_unresolved guard = []
       \<and> bdec_status bound \<notin> {BoundUnknown, BoundEffective} \<and> bdec_unresolved bound = [])
    \<and> (as_status a = Refuted \<longleftrightarrow> reach_admitted reachability \<and> single_request_demand growth flow amplification
       \<and> path_proven growth flow \<and> gdec_unresolved guard = []
       \<and> (gdec_status guard = GuardEffective
          \<or> gdec_status guard = GuardIneffective \<and> bdec_status bound = BoundEffective \<and> bdec_unresolved bound = []))
    \<and> (as_status a \<noteq> AUnknown \<longrightarrow> as_unresolved a = [])"
proof -
  obtain a where a: "evaluate_assertion_1 growth flow guard bound amplification reachability = Inr a"
    using evaluate_assertion_1_total[OF assms] by blast
  have "as_status a \<noteq> AUnknown \<Longrightarrow> as_unresolved a = []"
    using assertion_1_status(4)[OF a] by (cases "as_status a") simp_all
  with a assertion_1_status(2,3)[OF a] show ?thesis by blast
qed

text \<open>On inputs that belong together assertion 2 is evaluated; it matches exactly when an
  admitted, repeatable request accumulates persistent demand over a proven path while the bound
  and the synchronous release are both determinately not effective, and it is refuted exactly when
  the bound is effective, or the bound is not and a closed release is effective.\<close>

theorem evaluate_assertion_2_correct:
  assumes "named_inputs growth flow (bdec_evidence_ids bound @ bdec_candidate_ids bound @ rdec_evidence_ids release
      @ rdec_candidate_ids release) (bdec_unresolved bound @ rdec_unresolved release)"
  shows "\<exists>a. evaluate_assertion_2 growth flow bound release reachability repeatability = Inr a
    \<and> (as_status a = Matched \<longleftrightarrow> reach_admitted reachability \<and> persistent_demand growth flow repeatability
       \<and> path_proven growth flow
       \<and> bdec_status bound \<notin> {BoundUnknown, BoundEffective} \<and> bdec_unresolved bound = []
       \<and> rdec_class release \<notin> {PotentialAsync, ClassUnknown}
       \<and> rdec_status release \<notin> {ReleaseUnknown, ReleaseEffective} \<and> rdec_unresolved release = [])
    \<and> (as_status a = Refuted \<longleftrightarrow> reach_admitted reachability \<and> persistent_demand growth flow repeatability
       \<and> path_proven growth flow \<and> bdec_unresolved bound = [] \<and> bdec_status bound \<noteq> BoundUnknown
       \<and> (bdec_status bound = BoundEffective
          \<or> rdec_class release \<notin> {PotentialAsync, ClassUnknown} \<and> rdec_status release = ReleaseEffective
            \<and> rdec_unresolved release = []))
    \<and> (as_status a \<noteq> AUnknown \<longrightarrow> as_unresolved a = [])"
proof -
  obtain a where a: "evaluate_assertion_2 growth flow bound release reachability repeatability = Inr a"
    using evaluate_assertion_2_total[OF assms] by blast
  have "as_status a \<noteq> AUnknown \<Longrightarrow> as_unresolved a = []"
    using assertion_2_status(4)[OF a] by (cases "as_status a") simp_all
  with a assertion_2_status(2,3)[OF a] show ?thesis by blast
qed

section \<open>Instances\<close>

definition no_guard :: guard_decision where
  "no_guard = \<lparr>gdec_status = GuardIneffective, gdec_reasons = [''GUARD_ABSENT''], gdec_checks = [],
     gdec_evidence_ids = [], gdec_unresolved = [], gdec_candidate_ids = []\<rparr>"

definition no_bound :: bound_decision where
  "no_bound = \<lparr>bdec_status = BoundAbsent, bdec_reasons = [''BOUND_ABSENT''], bdec_checks = [],
     bdec_evidence_ids = [], bdec_unresolved = [], bdec_candidate_ids = []\<rparr>"

definition some_bound :: bound_decision where
  "some_bound = \<lparr>bdec_status = BoundEffective, bdec_reasons = [], bdec_checks = [],
     bdec_evidence_ids = [''bound''], bdec_unresolved = [], bdec_candidate_ids = [''bound:a'']\<rparr>"

definition no_release :: release_decision where
  "no_release = \<lparr>rdec_status = ReleaseAbsent, rdec_class = ClassAbsent, rdec_reasons = [''RELEASE_ABSENT''],
     rdec_checks = [], rdec_evidence_ids = [], rdec_unresolved = [], rdec_candidate_ids = []\<rparr>"

definition amplification_proven :: "premise_view option" where
  "amplification_proven = Some \<lparr>pv_status = Some ''proven'', pv_decision_id = Some ''amplification:1''\<rparr>"

theorem evaluate_assertion_1_correct_witness:
  "\<exists>a. evaluate_assertion_1 sample_growth sample_verified_flow no_guard no_bound amplification_proven None = Inr a
     \<and> as_status a = Matched"
proof -
  have "named_inputs sample_growth sample_verified_flow (gdec_evidence_ids no_guard @ gdec_candidate_ids no_guard
      @ bdec_evidence_ids no_bound @ bdec_candidate_ids no_bound) (gdec_unresolved no_guard @ bdec_unresolved no_bound)"
    "reach_admitted None" "path_proven sample_growth sample_verified_flow"
    "single_request_demand sample_growth sample_verified_flow amplification_proven"
    by (simp_all add: named_inputs_def no_guard_def no_bound_def sample_growth_def sample_verified_flow_def
        reach_admitted_def decision_status_def path_proven_def single_request_demand_def amplification_proven_def
        candidate_kind_in_def repeated_kinds_def sample_candidate_def)
  with evaluate_assertion_1_correct[of sample_growth sample_verified_flow no_guard no_bound amplification_proven None]
  show ?thesis by (auto simp: no_guard_def no_bound_def)
qed

theorem evaluate_assertion_2_correct_witness:
  "\<exists>a. evaluate_assertion_2 sample_growth sample_verified_flow some_bound no_release None None = Inr a
     \<and> as_status a = Refuted"
proof -
  have "named_inputs sample_growth sample_verified_flow (bdec_evidence_ids some_bound @ bdec_candidate_ids some_bound
      @ rdec_evidence_ids no_release @ rdec_candidate_ids no_release) (bdec_unresolved some_bound @ rdec_unresolved no_release)"
    "reach_admitted None" "path_proven sample_growth sample_verified_flow"
    "persistent_demand sample_growth sample_verified_flow None"
    by (simp_all add: named_inputs_def some_bound_def no_release_def sample_growth_def sample_verified_flow_def
        reach_admitted_def decision_status_def path_proven_def persistent_demand_def repeat_admitted_def
        persistent_target_def sample_candidate_def sample_flow_def)
  with evaluate_assertion_2_correct[of sample_growth sample_verified_flow some_bound no_release None None]
  show ?thesis by (auto simp: some_bound_def)
qed

end
