(* ===== verification/Verdicts.thy ===== *)
theory Verdicts
  imports Assertions
begin

text \<open>
  \<open>dosweb/conclude/verdicts.py\<close>: coverage of one candidate, the verdict derived from the
  assertions over all paths of a pair of entry and Growth, and the gate that withdraws a
  determinate verdict when a proof obligation is missing.
\<close>

section \<open>Verdicts\<close>

datatype verdict_name = StaticVulnerable | BoundedUnderModel | StaticUnknown

fun verdict_text :: "verdict_name \<Rightarrow> string" where
  "verdict_text StaticVulnerable = ''static_vulnerable''"
| "verdict_text BoundedUnderModel = ''bounded_under_modeled_assumptions''"
| "verdict_text StaticUnknown = ''static_unknown''"

definition verdict_names :: "verdict_name list" where
  "verdict_names = [StaticVulnerable, BoundedUnderModel, StaticUnknown]"

interpretation verdict_name: literal_type verdict_text verdict_names
proof unfold_locales
  fix x show "x \<in> set verdict_names" by (cases x) (simp_all add: verdict_names_def)
  show "distinct (map verdict_text verdict_names)" by (simp add: verdict_names_def)
qed

definition verdict_invalid :: "string \<Rightarrow> py_exc" where
  "verdict_invalid message = AnalyzerError ''ANALYSIS_VERDICT_INVALID'' message []"

definition cc_invalid :: "string \<Rightarrow> py_exc" where
  "cc_invalid message = AnalyzerError ''COVERAGE_ENTRY_INVALID'' message []"

section \<open>The proof gate\<close>

record proof_gate =
  entry_complete :: bool
  ordinary_reachability :: bool
  growth_verified :: bool
  flow_proven :: bool
  assertion_1_lifecycle_complete :: bool
  assertion_2_lifecycle_complete :: bool
  candidate_relevant_gap_free :: bool

definition missing_reason_codes :: "proof_gate \<Rightarrow> string list" where
  "missing_reason_codes gate = sort (map snd (filter (\<lambda>(obligation, reason). \<not> obligation)
     [(entry_complete gate, ''VERDICT_ENTRY_COVERAGE_INCOMPLETE''),
      (ordinary_reachability gate, ''VERDICT_REACHABILITY_NOT_PROVEN''),
      (growth_verified gate, ''VERDICT_GROWTH_NOT_VERIFIED''),
      (flow_proven gate, ''VERDICT_FLOW_NOT_PROVEN''),
      (assertion_1_lifecycle_complete gate, ''VERDICT_ASSERTION_1_LIFECYCLE_COVERAGE_INCOMPLETE''),
      (assertion_2_lifecycle_complete gate, ''VERDICT_ASSERTION_2_LIFECYCLE_COVERAGE_INCOMPLETE''),
      (candidate_relevant_gap_free gate, ''VERDICT_CANDIDATE_RELEVANT_GAP'')]))"

section \<open>Candidate coverage\<close>

record candidate_coverage =
  cc_framework :: string
  cc_status :: string
  cc_supported :: "string list"
  cc_unsupported :: "string list"
  cc_effect :: string
  cc_pattern_id :: "string option"
  cc_entry_id :: "string option"
  cc_growth_id :: "string option"
  cc_path_id :: "string option"

text \<open>The tests of the constructor in their order, each with the message it raises.\<close>

definition candidate_coverage_tests :: "candidate_coverage \<Rightarrow> (bool \<times> string) list" where
  "candidate_coverage_tests c =
     [(cc_status c \<notin> {''complete'', ''partial'', ''unsupported''}, ''Candidate coverage status is invalid.''),
      (cc_effect c \<noteq> (if cc_status c = ''complete'' then ''none'' else ''forces_unknown''),
         ''Candidate coverage effect does not match status.''),
      ([] \<in> set (cc_supported c), ''supported_patterns is invalid.''),
      (usort (cc_supported c) \<noteq> cc_supported c, ''supported_patterns must be deterministic.''),
      ([] \<in> set (cc_unsupported c), ''unsupported_patterns is invalid.''),
      (usort (cc_unsupported c) \<noteq> cc_unsupported c, ''unsupported_patterns must be deterministic.''),
      (set (cc_supported c) \<inter> set (cc_unsupported c) \<noteq> {},
         ''Supported and unsupported candidate patterns must be disjoint.''),
      (list_ex (\<lambda>p. \<not> registration_coverage_pattern_belongs_to_framework (cc_framework c) p) (cc_supported c),
         ''Supported candidate patterns must be exact modeled identities for their framework.''),
      (cc_status c = ''complete'' \<and> cc_unsupported c \<noteq> [], ''Complete candidate coverage cannot contain gaps.''),
      (cc_status c \<noteq> ''complete'' \<and> cc_unsupported c = [], ''Incomplete candidate coverage requires a gap.''),
      (cc_pattern_id c = Some [], ''registration_pattern_id is invalid.''),
      (cc_entry_id c = Some [], ''entry_id is invalid.''),
      (cc_growth_id c = Some [], ''growth_id is invalid.''),
      (cc_path_id c = Some [], ''path_id is invalid.''),
      ((case cc_pattern_id c of None \<Rightarrow> False
        | Some p \<Rightarrow> \<not> registration_coverage_pattern_belongs_to_framework (cc_framework c) p),
         ''Candidate registration pattern identity is not modeled for its framework.''),
      (cc_entry_id c \<noteq> None \<and> cc_pattern_id c = None,
         ''Entry-scoped candidate coverage requires an exact registration pattern identity.''),
      ((case cc_pattern_id c of None \<Rightarrow> False | Some p \<Rightarrow> list_ex (\<lambda>q. q \<noteq> p) (cc_supported c)),
         ''Candidate coverage cannot cite a sibling registration pattern.''),
      (cc_status c = ''complete'' \<and> cc_entry_id c \<noteq> None
         \<and> (case cc_pattern_id c of None \<Rightarrow> True | Some p \<Rightarrow> cc_supported c \<noteq> [p]),
         ''Complete entry-scoped coverage requires exactly its registration pattern identity.'')]"

fun first_message :: "(bool \<times> string) list \<Rightarrow> string option" where
  "first_message [] = None"
| "first_message ((failed, message) # rest) = (if failed then Some message else first_message rest)"

definition CandidateCoverage :: "candidate_coverage \<Rightarrow> candidate_coverage res" where
  "CandidateCoverage c = (case first_message (candidate_coverage_tests c) of
     Some message \<Rightarrow> Inl (cc_invalid message) | None \<Rightarrow> Inr c)"

definition from_framework :: "framework_coverage \<Rightarrow> string option \<Rightarrow> string option \<Rightarrow> string option
    \<Rightarrow> string option \<Rightarrow> candidate_coverage res" where
  "from_framework coverage pattern_id entry growth path =
     (case pattern_id of
       Some p \<Rightarrow>
         if p \<in> set (fc_supported coverage)
         then CandidateCoverage \<lparr>cc_framework = fc_framework coverage, cc_status = ''complete'', cc_supported = [p],
                cc_unsupported = [], cc_effect = ''none'', cc_pattern_id = Some p, cc_entry_id = entry,
                cc_growth_id = growth, cc_path_id = path\<rparr>
         else CandidateCoverage \<lparr>cc_framework = fc_framework coverage, cc_status = ''partial'', cc_supported = [],
                cc_unsupported = [''entry_registration_pattern_uncovered:'' @ p], cc_effect = ''forces_unknown'',
                cc_pattern_id = Some p, cc_entry_id = entry, cc_growth_id = growth, cc_path_id = path\<rparr>
     | None \<Rightarrow> CandidateCoverage \<lparr>cc_framework = fc_framework coverage, cc_status = fc_status coverage,
         cc_supported = fc_supported coverage, cc_unsupported = fc_unsupported coverage,
         cc_effect = fc_effect coverage, cc_pattern_id = None, cc_entry_id = entry, cc_growth_id = growth,
         cc_path_id = path\<rparr>)"

definition scope_matches :: "string option \<Rightarrow> string option \<Rightarrow> bool" where
  "scope_matches scoped actual \<longleftrightarrow> scoped = None \<or> scoped = actual"

definition relevant_to :: "candidate_coverage \<Rightarrow> string \<Rightarrow> string option \<Rightarrow> string option \<Rightarrow> string option
    \<Rightarrow> string option \<Rightarrow> bool" where
  "relevant_to c framework pattern_id entry growth path \<longleftrightarrow>
     cc_framework c = framework \<and> scope_matches (cc_pattern_id c) pattern_id
   \<and> scope_matches (cc_entry_id c) entry \<and> scope_matches (cc_growth_id c) growth
   \<and> scope_matches (cc_path_id c) path"

definition forces_unknown :: "candidate_coverage \<Rightarrow> bool" where
  "forces_unknown c \<longleftrightarrow> cc_effect c = ''forces_unknown''"

definition relevant_gaps :: "candidate_coverage \<Rightarrow> string list" where
  "relevant_gaps c = (if cc_status c = ''complete'' then [] else sort (cc_unsupported c))"

definition candidate_coverage_to_dict :: "candidate_coverage \<Rightarrow> (string \<times> json) list" where
  "candidate_coverage_to_dict c =
     [(''framework'', JStr (cc_framework c)), (''status'', JStr (cc_status c)),
      (''supported_patterns'', JArr (map JStr (cc_supported c))),
      (''unsupported_patterns'', JArr (map JStr (cc_unsupported c))),
      (''effect_on_verdict'', JStr (cc_effect c)), (''registration_pattern_id'', opt_str (cc_pattern_id c)),
      (''entry_id'', opt_str (cc_entry_id c)), (''growth_id'', opt_str (cc_growth_id c)),
      (''path_id'', opt_str (cc_path_id c))]"

section \<open>Static verdicts\<close>

record static_verdict =
  sv_verdict :: verdict_name
  sv_reasons :: "string list"
  sv_evidence_ids :: "string list"
  sv_unresolved :: "string list"
  sv_assumptions :: "string list"
  sv_configuration_refs :: "string list"
  sv_covered_entries :: "string list"
  sv_covered_paths :: "string list"
  sv_coverage_gaps :: "string list"

definition verdict_tuples :: "static_verdict \<Rightarrow> (string \<times> string list) list" where
  "verdict_tuples v = [(''reason_codes'', sv_reasons v), (''evidence_ids'', sv_evidence_ids v),
     (''unresolved_facts'', sv_unresolved v), (''assumptions'', sv_assumptions v),
     (''modeled_configuration_refs'', sv_configuration_refs v), (''covered_entries'', sv_covered_entries v),
     (''covered_paths'', sv_covered_paths v), (''coverage_gaps'', sv_coverage_gaps v)]"

definition StaticVerdict :: "static_verdict \<Rightarrow> static_verdict res" where
  "StaticVerdict v = fold_res (\<lambda>v (field, values).
     if [] \<in> set values then Inl (verdict_invalid (field @ '' is invalid.''))
     else if usort values \<noteq> values then Inl (verdict_invalid (field @ '' must be deterministic.''))
     else Inr v) v (verdict_tuples v)"

definition verdict_to_dict :: "static_verdict \<Rightarrow> (string \<times> json) list" where
  "verdict_to_dict v = (''verdict'', JStr (verdict_text (sv_verdict v)))
     # map (\<lambda>(field, values). (field, JArr (map JStr values))) (verdict_tuples v)"

section \<open>Deriving the verdict\<close>

definition applicable :: "assertion_evaluation list \<Rightarrow> assertion_evaluation list" where
  "applicable assertions = filter (\<lambda>a. as_status a \<noteq> NotApplicable) assertions"

definition scope_cited :: "assertion_evaluation list \<Rightarrow> string option \<Rightarrow> bool" where
  "scope_cited assertions scoped = (case scoped of None \<Rightarrow> True
     | Some i \<Rightarrow> list_ex (\<lambda>a. i \<in> set (as_evidence_ids a)) assertions)"

definition choose_verdict :: "assertion_evaluation list \<Rightarrow> string list \<Rightarrow> string list \<Rightarrow> verdict_name \<times> string" where
  "choose_verdict assertions unresolved gaps =
     (let has_unknown = unresolved \<noteq> [] \<or> list_ex (\<lambda>a. as_status a = AUnknown) assertions \<or> gaps \<noteq> [];
          has_match = list_ex (\<lambda>a. as_status a = Matched) assertions;
          all_refuted = applicable assertions \<noteq> [] \<and> list_all (\<lambda>a. as_status a = Refuted) (applicable assertions)
      in if has_unknown then (StaticUnknown,
           if unresolved \<noteq> [] then ''VERDICT_UNRESOLVED_EVIDENCE''
           else if gaps \<noteq> [] then ''VERDICT_COVERAGE_GAP'' else ''VERDICT_ASSERTION_UNKNOWN'')
         else if has_match then (StaticVulnerable, ''VERDICT_ASSERTION_MATCHED'')
         else if all_refuted then (BoundedUnderModel, ''VERDICT_ASSERTIONS_REFUTED'')
         else (StaticUnknown, ''VERDICT_NO_APPLICABLE_ASSERTION''))"

definition derive_verdict :: "assertion_evaluation list \<Rightarrow> candidate_coverage \<Rightarrow> static_verdict res" where
  "derive_verdict assertions coverage =
     (if assertions = [] then Inl (verdict_invalid ''Verdict inputs are malformed.'')
      else if \<not> (scope_cited assertions (cc_entry_id coverage) \<and> scope_cited assertions (cc_growth_id coverage)
                 \<and> scope_cited assertions (cc_path_id coverage))
      then Inl (verdict_invalid ''Candidate coverage does not match assertion evidence.'')
      else let
        evidence = concat (map as_evidence_ids assertions);
        unresolved = concat (map as_unresolved (applicable assertions));
        gaps = relevant_gaps coverage;
        (verdict, reason) = choose_verdict assertions unresolved gaps;
        bounded = (verdict = BoundedUnderModel)
      in StaticVerdict \<lparr>sv_verdict = verdict,
           sv_reasons = usort (concat (map as_reasons assertions) @ [reason]),
           sv_evidence_ids = usort evidence,
           sv_unresolved = usort unresolved,
           sv_assumptions = usort (if bounded then [''MODELED_DEFAULT_CONFIGURATION'', ''STATIC_EVIDENCE_COVERAGE_COMPLETE''] else []),
           sv_configuration_refs = usort (if bounded then filter (\<lambda>i. startswith i ''guard:'' \<or> startswith i ''bound:''
             \<or> startswith i ''release:'') evidence else []),
           sv_covered_entries = usort (filter (\<lambda>i. startswith i ''entry:'') evidence),
           sv_covered_paths = usort (filter (\<lambda>i. startswith i ''flow:'') evidence),
           sv_coverage_gaps = usort gaps\<rparr>)"

definition apply_positive_proof_gate :: "static_verdict \<Rightarrow> proof_gate \<Rightarrow> static_verdict res" where
  "apply_positive_proof_gate verdict gate =
     (let missing = missing_reason_codes gate in
      if missing = [] then Inr verdict
      else StaticVerdict (verdict\<lparr>sv_verdict := StaticUnknown,
        sv_reasons := usort (sv_reasons verdict @ missing),
        sv_assumptions := (if sv_verdict verdict = BoundedUnderModel
          then filter (\<lambda>a. a \<noteq> ''STATIC_EVIDENCE_COVERAGE_COMPLETE'') (sv_assumptions verdict)
          else sv_assumptions verdict)\<rparr>))"

section \<open>Construction\<close>

lemma missing_reason_codes_Nil:
  "missing_reason_codes gate = [] \<longleftrightarrow> entry_complete gate \<and> ordinary_reachability gate \<and> growth_verified gate
     \<and> flow_proven gate \<and> assertion_1_lifecycle_complete gate \<and> assertion_2_lifecycle_complete gate
     \<and> candidate_relevant_gap_free gate"
  by (simp add: missing_reason_codes_def filter_empty_conv flip: set_empty)

lemma missing_reason_codes_named: "[] \<notin> set (missing_reason_codes gate)"
  by (auto simp: missing_reason_codes_def)

lemma first_message_None: "first_message tests = None \<longleftrightarrow> list_all (\<lambda>(failed, _). \<not> failed) tests"
  by (induction tests rule: first_message.induct) auto

lemma CandidateCoverage_Inr: "CandidateCoverage c = Inr d \<longleftrightarrow> d = c \<and> list_all (\<lambda>(failed, _). \<not> failed) (candidate_coverage_tests c)"
  by (auto simp: CandidateCoverage_def first_message_None[symmetric] split: option.splits)

lemma CandidateCoverage_facts:
  assumes "CandidateCoverage c = Inr d"
  shows "cc_effect c = ''none'' \<longleftrightarrow> cc_status c = ''complete''"
    "cc_status c = ''complete'' \<longleftrightarrow> cc_unsupported c = []"
    "[] \<notin> set (cc_unsupported c)"
  using assms unfolding CandidateCoverage_Inr candidate_coverage_tests_def
  by (simp_all split: if_splits)

text \<open>Canonical tuples: sorted, without duplicates and without the empty string.\<close>

definition canonical_tuple :: "string list \<Rightarrow> bool" where
  "canonical_tuple xs \<longleftrightarrow> [] \<notin> set xs \<and> usort xs = xs"

lemma canonical_usort [simp]: "canonical_tuple (usort xs) \<longleftrightarrow> [] \<notin> set xs"
  by (simp add: canonical_tuple_def)

definition wf_verdict :: "static_verdict \<Rightarrow> bool" where
  "wf_verdict v \<longleftrightarrow> list_all (\<lambda>(_, values). canonical_tuple values) (verdict_tuples v)"

lemma StaticVerdict_total: "wf_verdict v \<Longrightarrow> StaticVerdict v = Inr v"
proof -
  have "fold_res (\<lambda>v (field, values).
     if [] \<in> set values then Inl (verdict_invalid (field @ '' is invalid.''))
     else if usort values \<noteq> values then Inl (verdict_invalid (field @ '' must be deterministic.''))
     else Inr v) v ts = Inr v" if "list_all (\<lambda>(_, values). canonical_tuple values) ts" for ts
    using that by (induction ts) (auto simp: canonical_tuple_def)
  then show "wf_verdict v \<Longrightarrow> StaticVerdict v = Inr v"
    by (simp add: wf_verdict_def StaticVerdict_def)
qed

section \<open>What a verdict means\<close>

definition wf_assertion :: "assertion_evaluation \<Rightarrow> bool" where
  "wf_assertion a \<longleftrightarrow> canonical_tuple (as_reasons a) \<and> canonical_tuple (as_evidence_ids a)
     \<and> canonical_tuple (as_unresolved a)"

lemma AssertionEvaluation_wf: "AssertionEvaluation a = Inr b \<Longrightarrow> wf_assertion b"
  by (auto simp: AssertionEvaluation_def wf_assertion_def split: if_splits)

lemma assertion_result_wf: "assertion_result n st rs growth flow un refs = Inr a \<Longrightarrow> wf_assertion a"
  unfolding assertion_result_def by (rule AssertionEvaluation_wf)

text \<open>A result, if there is one, has the property.\<close>

definition returns :: "('a \<Rightarrow> bool) \<Rightarrow> 'a res \<Rightarrow> bool" where
  "returns P r = (case r of Inl _ \<Rightarrow> True | Inr x \<Rightarrow> P x)"

lemma returnsD: "returns P r \<Longrightarrow> r = Inr x \<Longrightarrow> P x"
  by (simp add: returns_def)

lemma returns_bind: "(\<And>x. returns P (k x)) \<Longrightarrow> returns P (res_bind r k)"
  by (cases r) (simp_all add: returns_def)

lemma returns_assertion_result: "returns wf_assertion (assertion_result n st rs growth flow un refs)"
  by (auto simp: returns_def dest: assertion_result_wf split: sum.split)

lemma evaluate_assertion_1_wf:
  assumes "evaluate_assertion_1 growth flow guard bound amplification reachability = Inr a"
  shows "wf_assertion a"
proof (rule returnsD[OF _ assms])
  show "returns wf_assertion (evaluate_assertion_1 growth flow guard bound amplification reachability)"
    unfolding evaluate_assertion_1_def Let_def
    by (rule returns_bind) (simp only: if_distrib[of "returns wf_assertion"] returns_assertion_result if_cancel)
qed

lemma evaluate_assertion_2_wf:
  assumes "evaluate_assertion_2 growth flow bound release reachability repeatability = Inr a"
  shows "wf_assertion a"
proof (rule returnsD[OF _ assms])
  show "returns wf_assertion (evaluate_assertion_2 growth flow bound release reachability repeatability)"
    unfolding evaluate_assertion_2_def Let_def
    by (rule returns_bind) (simp only: if_distrib[of "returns wf_assertion"] returns_assertion_result if_cancel
        simp_thms split: option.split)
qed

text \<open>Nothing is open: no assertion is unknown and no applicable one has unresolved facts.\<close>

definition settled :: "assertion_evaluation list \<Rightarrow> bool" where
  "settled assertions \<longleftrightarrow> (\<forall>a \<in> set assertions. as_status a \<noteq> AUnknown
     \<and> (as_status a \<noteq> NotApplicable \<longrightarrow> as_unresolved a = []))"

lemma relevant_gaps_Nil: "CandidateCoverage c = Inr d \<Longrightarrow> relevant_gaps c = [] \<longleftrightarrow> cc_status c = ''complete''"
  by (simp add: relevant_gaps_def CandidateCoverage_facts(2) flip: set_empty)

lemma choose_verdict_cases:
  fixes assertions gaps
  defines "unresolved \<equiv> concat (map as_unresolved (applicable assertions))"
  shows "fst (choose_verdict assertions unresolved gaps) = StaticVulnerable \<longleftrightarrow>
      settled assertions \<and> gaps = [] \<and> (\<exists>a \<in> set assertions. as_status a = Matched)"
    "fst (choose_verdict assertions unresolved gaps) = BoundedUnderModel \<longleftrightarrow>
      settled assertions \<and> gaps = [] \<and> (\<exists>a \<in> set assertions. as_status a = Refuted)
      \<and> (\<forall>a \<in> set assertions. as_status a \<in> {Refuted, NotApplicable})"
    "snd (choose_verdict assertions unresolved gaps) \<noteq> []"
proof -
  have "\<not> (unresolved \<noteq> [] \<or> list_ex (\<lambda>a. as_status a = AUnknown) assertions \<or> gaps \<noteq> [])
      \<longleftrightarrow> settled assertions \<and> gaps = []"
    by (simp add: unresolved_def settled_def applicable_def list_ex_iff) blast
  moreover have "applicable assertions \<noteq> [] \<and> list_all (\<lambda>a. as_status a = Refuted) (applicable assertions)
      \<longleftrightarrow> (\<exists>a \<in> set assertions. as_status a = Refuted) \<and> (\<forall>a \<in> set assertions. as_status a \<in> {Refuted, NotApplicable})"
    by (simp add: applicable_def list_all_iff filter_empty_conv) (metis assertion_status.distinct)
  moreover have "list_ex (\<lambda>a. as_status a = Matched) assertions \<longleftrightarrow> (\<exists>a \<in> set assertions. as_status a = Matched)"
    by (simp add: list_ex_iff)
  ultimately have chosen: "choose_verdict assertions unresolved gaps =
     (if \<not> (settled assertions \<and> gaps = []) then (StaticUnknown,
           if unresolved \<noteq> [] then ''VERDICT_UNRESOLVED_EVIDENCE''
           else if gaps \<noteq> [] then ''VERDICT_COVERAGE_GAP'' else ''VERDICT_ASSERTION_UNKNOWN'')
      else if \<exists>a \<in> set assertions. as_status a = Matched then (StaticVulnerable, ''VERDICT_ASSERTION_MATCHED'')
      else if (\<exists>a \<in> set assertions. as_status a = Refuted) \<and> (\<forall>a \<in> set assertions. as_status a \<in> {Refuted, NotApplicable})
      then (BoundedUnderModel, ''VERDICT_ASSERTIONS_REFUTED'')
      else (StaticUnknown, ''VERDICT_NO_APPLICABLE_ASSERTION''))"
    unfolding choose_verdict_def Let_def by auto
  show "fst (choose_verdict assertions unresolved gaps) = StaticVulnerable \<longleftrightarrow>
      settled assertions \<and> gaps = [] \<and> (\<exists>a \<in> set assertions. as_status a = Matched)"
    "fst (choose_verdict assertions unresolved gaps) = BoundedUnderModel \<longleftrightarrow>
      settled assertions \<and> gaps = [] \<and> (\<exists>a \<in> set assertions. as_status a = Refuted)
      \<and> (\<forall>a \<in> set assertions. as_status a \<in> {Refuted, NotApplicable})"
    "snd (choose_verdict assertions unresolved gaps) \<noteq> []"
    unfolding chosen by auto
qed

definition derived :: "assertion_evaluation list \<Rightarrow> candidate_coverage \<Rightarrow> verdict_name \<times> string \<Rightarrow> static_verdict" where
  "derived assertions coverage choice = (let evidence = concat (map as_evidence_ids assertions) in
     \<lparr>sv_verdict = fst choice,
      sv_reasons = usort (concat (map as_reasons assertions) @ [snd choice]),
      sv_evidence_ids = usort evidence,
      sv_unresolved = usort (concat (map as_unresolved (applicable assertions))),
      sv_assumptions = usort (if fst choice = BoundedUnderModel
        then [''MODELED_DEFAULT_CONFIGURATION'', ''STATIC_EVIDENCE_COVERAGE_COMPLETE''] else []),
      sv_configuration_refs = usort (if fst choice = BoundedUnderModel then filter (\<lambda>i. startswith i ''guard:''
        \<or> startswith i ''bound:'' \<or> startswith i ''release:'') evidence else []),
      sv_covered_entries = usort (filter (\<lambda>i. startswith i ''entry:'') evidence),
      sv_covered_paths = usort (filter (\<lambda>i. startswith i ''flow:'') evidence),
      sv_coverage_gaps = usort (relevant_gaps coverage)\<rparr>)"

lemma derived_wf:
  assumes "\<forall>a \<in> set assertions. wf_assertion a" "CandidateCoverage coverage = Inr coverage" "snd choice \<noteq> []"
  shows "wf_verdict (derived assertions coverage choice)"
proof -
  have "[] \<notin> set (relevant_gaps coverage)"
    using CandidateCoverage_facts(3)[OF assms(2)] by (simp add: relevant_gaps_def)
  moreover have "[] \<notin> set (concat (map as_reasons assertions))" "[] \<notin> set (concat (map as_evidence_ids assertions))"
    "[] \<notin> set (concat (map as_unresolved (applicable assertions)))"
    using assms(1) by (auto simp: wf_assertion_def canonical_tuple_def applicable_def)
  ultimately show ?thesis
    using assms(3) by (auto simp: wf_verdict_def verdict_tuples_def derived_def Let_def)
qed

lemma derive_verdict_eq:
  assumes "assertions \<noteq> []" "\<forall>a \<in> set assertions. wf_assertion a" "CandidateCoverage coverage = Inr coverage"
    "scope_cited assertions (cc_entry_id coverage)" "scope_cited assertions (cc_growth_id coverage)"
    "scope_cited assertions (cc_path_id coverage)"
  shows "derive_verdict assertions coverage = Inr (derived assertions coverage (choose_verdict assertions
      (concat (map as_unresolved (applicable assertions))) (relevant_gaps coverage)))"
proof -
  let ?choice = "choose_verdict assertions (concat (map as_unresolved (applicable assertions))) (relevant_gaps coverage)"
  have "derive_verdict assertions coverage = StaticVerdict (derived assertions coverage ?choice)"
    using assms by (simp add: derive_verdict_def derived_def Let_def case_prod_beta)
  also have "\<dots> = Inr (derived assertions coverage ?choice)"
    by (intro StaticVerdict_total derived_wf assms choose_verdict_cases)
  finally show ?thesis .
qed

text \<open>C13. For well-formed assertions and a coverage that cites them, a verdict is derived. It is
  vulnerable exactly when coverage is complete, nothing is open and some assertion matches,
  bounded exactly when coverage is complete, nothing is open, and of the assertions that apply, at
  least one, every one is refuted. It carries all evidence of the assertions, and cites the
  modeled configuration only when it is bounded.\<close>

theorem derive_verdict_exact:
  assumes "assertions \<noteq> []" "\<forall>a \<in> set assertions. wf_assertion a"
    "CandidateCoverage coverage = Inr coverage"
    "scope_cited assertions (cc_entry_id coverage)" "scope_cited assertions (cc_growth_id coverage)"
    "scope_cited assertions (cc_path_id coverage)"
  shows "\<exists>v. derive_verdict assertions coverage = Inr v
    \<and> (sv_verdict v = StaticVulnerable \<longleftrightarrow> settled assertions \<and> cc_status coverage = ''complete''
         \<and> (\<exists>a \<in> set assertions. as_status a = Matched))
    \<and> (sv_verdict v = BoundedUnderModel \<longleftrightarrow> settled assertions \<and> cc_status coverage = ''complete''
         \<and> (\<exists>a \<in> set assertions. as_status a = Refuted)
         \<and> (\<forall>a \<in> set assertions. as_status a \<in> {Refuted, NotApplicable}))
    \<and> set (sv_evidence_ids v) = (\<Union>a \<in> set assertions. set (as_evidence_ids a))
    \<and> (sv_verdict v \<noteq> BoundedUnderModel \<longrightarrow> sv_assumptions v = [] \<and> sv_configuration_refs v = [])"
proof -
  let ?choice = "choose_verdict assertions (concat (map as_unresolved (applicable assertions))) (relevant_gaps coverage)"
  have "sv_verdict (derived assertions coverage ?choice) = fst ?choice"
    "set (sv_evidence_ids (derived assertions coverage ?choice)) = (\<Union>a \<in> set assertions. set (as_evidence_ids a))"
    "fst ?choice \<noteq> BoundedUnderModel \<Longrightarrow> sv_assumptions (derived assertions coverage ?choice) = []
      \<and> sv_configuration_refs (derived assertions coverage ?choice) = []"
    by (simp_all add: derived_def Let_def)
  then show ?thesis
    using derive_verdict_eq[OF assms] choose_verdict_cases(1,2)[of assertions "relevant_gaps coverage"]
      relevant_gaps_Nil[OF assms(3)] by (intro exI conjI) auto
qed

section \<open>The gate fails closed\<close>

definition proof_complete :: "proof_gate \<Rightarrow> bool" where
  "proof_complete gate \<longleftrightarrow> entry_complete gate \<and> ordinary_reachability gate \<and> growth_verified gate
     \<and> flow_proven gate \<and> assertion_1_lifecycle_complete gate \<and> assertion_2_lifecycle_complete gate
     \<and> candidate_relevant_gap_free gate"

lemma missing_iff: "missing_reason_codes gate = [] \<longleftrightarrow> proof_complete gate"
  by (simp only: missing_reason_codes_Nil proof_complete_def)

lemma canonical_filter: "canonical_tuple xs \<Longrightarrow> canonical_tuple (filter P xs)"
  by (auto simp: canonical_tuple_def usort_fixed_iff sorted_wrt_filter)

definition withdrawn :: "static_verdict \<Rightarrow> proof_gate \<Rightarrow> static_verdict" where
  "withdrawn v gate = v\<lparr>sv_verdict := StaticUnknown, sv_reasons := usort (sv_reasons v @ missing_reason_codes gate),
     sv_assumptions := (if sv_verdict v = BoundedUnderModel
       then filter (\<lambda>a. a \<noteq> ''STATIC_EVIDENCE_COVERAGE_COMPLETE'') (sv_assumptions v) else sv_assumptions v)\<rparr>"

lemma withdrawn_wf: "wf_verdict v \<Longrightarrow> wf_verdict (withdrawn v gate)"
  using canonical_filter missing_reason_codes_named[of gate]
  by (auto simp: wf_verdict_def verdict_tuples_def withdrawn_def canonical_tuple_def)

lemma gate_eq:
  assumes "wf_verdict v"
  shows "apply_positive_proof_gate v gate = Inr (if proof_complete gate then v else withdrawn v gate)"
  using withdrawn_wf[OF assms]
  by (simp add: apply_positive_proof_gate_def Let_def missing_iff withdrawn_def StaticVerdict_total)

text \<open>C14. The gate keeps a verdict unchanged when every proof obligation is met; otherwise the
  result is unknown, whatever the verdict was, with every missing obligation added to the reasons,
  its evidence kept, and a bounded verdict's claim of complete coverage withdrawn. Applying the gate
  twice is applying it once.\<close>

theorem proof_gate_fails_closed:
  assumes "wf_verdict v"
  shows "\<exists>w. apply_positive_proof_gate v gate = Inr w
    \<and> (if proof_complete gate then w = v else sv_verdict w = StaticUnknown
         \<and> set (sv_reasons w) = set (sv_reasons v) \<union> set (missing_reason_codes gate)
         \<and> (sv_verdict v = BoundedUnderModel \<longrightarrow> ''STATIC_EVIDENCE_COVERAGE_COMPLETE'' \<notin> set (sv_assumptions w)))
    \<and> sv_evidence_ids w = sv_evidence_ids v \<and> sv_covered_paths w = sv_covered_paths v
    \<and> apply_positive_proof_gate w gate = Inr w"
proof (cases "proof_complete gate")
  case True
  then show ?thesis using gate_eq[OF assms, of gate] by simp
next
  case False
  have "usort (sv_reasons (withdrawn v gate) @ missing_reason_codes gate) = sv_reasons (withdrawn v gate)"
    by (auto simp: withdrawn_def usort_eq_iff)
  then have "withdrawn (withdrawn v gate) gate = withdrawn v gate"
    by (simp add: withdrawn_def[of "withdrawn v gate"]) (simp add: withdrawn_def)
  with False show ?thesis
    using gate_eq[OF assms, of gate] gate_eq[OF withdrawn_wf[OF assms], of gate gate] by (simp add: withdrawn_def)
qed

section \<open>Coverage of one entry\<close>

text \<open>The coverage of an entry is taken from its framework's coverage by the entry's exact
  registration pattern: it is complete, without gaps, exactly when the framework lists that very
  pattern as supported, whatever other gaps the framework has, and otherwise it forces the verdict
  to unknown. A pattern identity that is not modeled for the framework is refused.\<close>

theorem from_framework_exact:
  assumes "p \<noteq> []" "entry \<noteq> Some []" "growth \<noteq> Some []" "path \<noteq> Some []"
  shows "if registration_coverage_pattern_belongs_to_framework (fc_framework fc) p
    then \<exists>c. from_framework fc (Some p) entry growth path = Inr c
      \<and> CandidateCoverage c = Inr c \<and> cc_entry_id c = entry \<and> cc_growth_id c = growth \<and> cc_path_id c = path
      \<and> (cc_status c = ''complete'' \<longleftrightarrow> p \<in> set (fc_supported fc))
      \<and> (forces_unknown c \<longleftrightarrow> p \<notin> set (fc_supported fc)) \<and> (relevant_gaps c = [] \<longleftrightarrow> p \<in> set (fc_supported fc))
      \<and> relevant_to c (fc_framework fc) (Some p) entry growth path
    else \<not> is_ok (from_framework fc (Some p) entry growth path)"
proof -
  define yes where "yes = \<lparr>cc_framework = fc_framework fc, cc_status = ''complete'', cc_supported = [p],
      cc_unsupported = [], cc_effect = ''none'', cc_pattern_id = Some p, cc_entry_id = entry,
      cc_growth_id = growth, cc_path_id = path\<rparr>"
  define no where "no = \<lparr>cc_framework = fc_framework fc, cc_status = ''partial'', cc_supported = [],
      cc_unsupported = [''entry_registration_pattern_uncovered:'' @ p], cc_effect = ''forces_unknown'',
      cc_pattern_id = Some p, cc_entry_id = entry, cc_growth_id = growth, cc_path_id = path\<rparr>"
  have run: "from_framework fc (Some p) entry growth path = CandidateCoverage (if p \<in> set (fc_supported fc) then yes else no)"
    by (simp add: from_framework_def yes_def no_def)
  show ?thesis
  proof (cases "registration_coverage_pattern_belongs_to_framework (fc_framework fc) p")
    case True
    have "CandidateCoverage yes = Inr yes" "CandidateCoverage no = Inr no"
      using True assms by (simp_all add: CandidateCoverage_Inr candidate_coverage_tests_def yes_def no_def)
    moreover have "relevant_to yes (fc_framework fc) (Some p) entry growth path"
      "relevant_to no (fc_framework fc) (Some p) entry growth path"
      by (simp_all add: relevant_to_def scope_matches_def yes_def no_def)
    moreover have "\<not> forces_unknown yes" "forces_unknown no" "relevant_gaps yes = []" "relevant_gaps no \<noteq> []"
      "cc_status yes = ''complete''" "cc_status no \<noteq> ''complete''"
      "cc_entry_id yes = entry" "cc_growth_id yes = growth" "cc_path_id yes = path"
      "cc_entry_id no = entry" "cc_growth_id no = growth" "cc_path_id no = path"
      by (simp_all add: forces_unknown_def relevant_gaps_def yes_def no_def)
    ultimately show ?thesis
      unfolding run using True by (cases "p \<in> set (fc_supported fc)") simp_all
  next
    case False
    then have "\<not> is_ok (CandidateCoverage yes)" "\<not> is_ok (CandidateCoverage no)"
      by (simp_all add: is_ok_iff CandidateCoverage_Inr candidate_coverage_tests_def yes_def no_def)
    then show ?thesis unfolding run using False by simp
  qed
qed

section \<open>Instances\<close>

definition pattern_sample :: string where
  "pattern_sample = ''entry-registration-coverage:netty:pipeline_registration:netty_pipeline_registration''"

lemma pattern_sample_modeled: "registration_coverage_pattern_belongs_to_framework ''netty'' pattern_sample"
  by (simp add: belongs_iff pattern_sample_def)
     (intro exI[of _ "''pipeline_registration''"] exI[of _ "''netty_pipeline_registration''"],
      simp add: registration_coverage_pattern_id_def patterns_for_def pattern_bindings_def)

definition framework_sample :: framework_coverage where
  "framework_sample = \<lparr>fc_framework = ''netty'', fc_status = ''partial'', fc_supported = [pattern_sample],
     fc_unsupported = [''dynamic registration''], fc_effect = ''forces_unknown''\<rparr>"

definition coverage_sample :: candidate_coverage where
  "coverage_sample = \<lparr>cc_framework = ''netty'', cc_status = ''complete'', cc_supported = [pattern_sample],
     cc_unsupported = [], cc_effect = ''none'', cc_pattern_id = Some pattern_sample,
     cc_entry_id = Some ''entry:1'', cc_growth_id = Some ''growth:1'', cc_path_id = None\<rparr>"

definition matched_sample :: assertion_evaluation where
  "matched_sample = \<lparr>as_name = Assertion2, as_status = Matched, as_reasons = [''A2_GROWTH_ESCAPES''],
     as_evidence_ids = [''entry:1'', ''flow:1'', ''growth:1''], as_unresolved = []\<rparr>"

definition inapplicable_sample :: assertion_evaluation where
  "inapplicable_sample = \<lparr>as_name = Assertion1, as_status = NotApplicable,
     as_reasons = [''A1_SINGLE_OPERATION_NOT_AMPLIFYING''],
     as_evidence_ids = [''entry:1'', ''flow:1'', ''growth:1''], as_unresolved = []\<rparr>"

definition bounded_sample :: static_verdict where
  "bounded_sample = \<lparr>sv_verdict = BoundedUnderModel, sv_reasons = [''VERDICT_ASSERTIONS_REFUTED''],
     sv_evidence_ids = [''entry:1''], sv_unresolved = [],
     sv_assumptions = [''MODELED_DEFAULT_CONFIGURATION'', ''STATIC_EVIDENCE_COVERAGE_COMPLETE''],
     sv_configuration_refs = [], sv_covered_entries = [''entry:1''], sv_covered_paths = [], sv_coverage_gaps = []\<rparr>"

definition gate_sample :: proof_gate where
  "gate_sample = \<lparr>entry_complete = True, ordinary_reachability = False, growth_verified = True,
     flow_proven = True, assertion_1_lifecycle_complete = True, assertion_2_lifecycle_complete = True,
     candidate_relevant_gap_free = True\<rparr>"

lemma coverage_sample_valid: "CandidateCoverage coverage_sample = Inr coverage_sample"
  using pattern_sample_modeled
  by (simp add: CandidateCoverage_Inr candidate_coverage_tests_def coverage_sample_def)
     (simp add: pattern_sample_def)

theorem derive_verdict_exact_witness:
  "\<exists>v. derive_verdict [inapplicable_sample, matched_sample] coverage_sample = Inr v
     \<and> sv_verdict v = StaticVulnerable"
proof -
  have "\<forall>a \<in> set [inapplicable_sample, matched_sample]. wf_assertion a"
    by (simp add: wf_assertion_def canonical_tuple_def usort_fixed_iff inapplicable_sample_def matched_sample_def
        less_list_code)
  then show ?thesis
    using derive_verdict_exact[OF _ _ coverage_sample_valid, of "[inapplicable_sample, matched_sample]"]
    by (auto simp: coverage_sample_def scope_cited_def settled_def inapplicable_sample_def matched_sample_def)
qed

theorem proof_gate_fails_closed_witness:
  "\<exists>w. apply_positive_proof_gate bounded_sample gate_sample = Inr w \<and> sv_verdict w = StaticUnknown
     \<and> sv_evidence_ids w = [''entry:1'']"
proof -
  have "wf_verdict bounded_sample"
    by (simp add: wf_verdict_def verdict_tuples_def bounded_sample_def canonical_tuple_def usort_fixed_iff)
  from proof_gate_fails_closed[OF this, of gate_sample] show ?thesis
    by (auto simp: proof_complete_def gate_sample_def bounded_sample_def)
qed

theorem from_framework_exact_witness:
  "\<exists>c. from_framework framework_sample (Some pattern_sample) (Some ''entry:1'') None None = Inr c
     \<and> cc_status c = ''complete''"
proof -
  have "pattern_sample \<noteq> []" "fc_framework framework_sample = ''netty''" "pattern_sample \<in> set (fc_supported framework_sample)"
    by (simp_all add: framework_sample_def pattern_sample_def)
  then show ?thesis
    using from_framework_exact[of pattern_sample "Some ''entry:1''" None None framework_sample] pattern_sample_modeled
    by auto
qed

end
