(* ===== verification/Certificates.thy ===== *)
theory Certificates
  imports Verdicts
begin

text \<open>
  \<open>dosweb/lifecycle/certificates.py\<close>: the auditable certificate over one pair of entry and Growth,
  which recomputes the assertions and the verdict it certifies, and the finding that refers to it.

  \<open>_snapshot\<close> and \<open>_plain\<close> convert between mutable and read-only views of the same JSON value; a
  value of type \<open>json\<close> is both.
\<close>

section \<open>Records of the decisions\<close>

fun guard_status_text :: "guard_status \<Rightarrow> string" where
  "guard_status_text GuardEffective = ''effective''"
| "guard_status_text GuardIneffective = ''ineffective''"
| "guard_status_text GuardUnknown = ''unknown''"

fun bound_status_text :: "bound_status \<Rightarrow> string" where
  "bound_status_text BoundAbsent = ''absent''"
| "bound_status_text BoundScopeMismatched = ''scope_mismatched''"
| "bound_status_text BoundDimensionMismatched = ''dimension_mismatched''"
| "bound_status_text BoundPossiblyOverBudget = ''possibly_over_budget''"
| "bound_status_text BoundEffective = ''effective''"
| "bound_status_text BoundUnknown = ''unknown''"

fun release_status_text :: "release_status \<Rightarrow> string" where
  "release_status_text ReleaseEffective = ''effective''"
| "release_status_text ReleaseIneffective = ''ineffective''"
| "release_status_text ReleaseUnknown = ''unknown''"
| "release_status_text ReleaseAbsent = ''absent''"

fun release_class_text :: "release_class \<Rightarrow> string" where
  "release_class_text SynchronousEffective = ''synchronous_effective''"
| "release_class_text InsufficientPathCoverage = ''insufficient_path_coverage''"
| "release_class_text ReceiverOrKeyMismatched = ''receiver_or_key_mismatched''"
| "release_class_text PotentialAsync = ''potential_async''"
| "release_class_text NotEffective = ''not_effective''"
| "release_class_text ClassUnknown = ''unknown''"
| "release_class_text ClassAbsent = ''absent''"

fun assertion_name_text :: "assertion_name \<Rightarrow> string" where
  "assertion_name_text Assertion1 = ''assertion_1''"
| "assertion_name_text Assertion2 = ''assertion_2''"

fun assertion_status_text :: "assertion_status \<Rightarrow> string" where
  "assertion_status_text Matched = ''matched''"
| "assertion_status_text Refuted = ''refuted''"
| "assertion_status_text AUnknown = ''unknown''"
| "assertion_status_text NotApplicable = ''not_applicable''"

definition strs :: "string list \<Rightarrow> json" where
  "strs xs = JArr (map JStr xs)"

definition decision_check_to_dict :: "decision_check \<Rightarrow> json" where
  "decision_check_to_dict c = JObj
     [(''name'', JStr (dc_name c)), (''passed'', JBool (dc_passed c)), (''reason_code'', opt_str (dc_reason c)),
      (''evidence_ids'', strs (dc_evidence c))]"

definition decision_fields :: "string \<Rightarrow> string list \<Rightarrow> decision_check list \<Rightarrow> string list \<Rightarrow> string list
    \<Rightarrow> string list \<Rightarrow> (string \<times> json) list" where
  "decision_fields status reasons checks evidence unresolved candidates =
     [(''status'', JStr status), (''reason_codes'', strs reasons),
      (''checks'', JArr (map decision_check_to_dict checks)), (''evidence_ids'', strs evidence),
      (''unresolved_facts'', strs unresolved), (''candidate_ids'', strs candidates)]"

definition guard_decision_to_dict :: "guard_decision \<Rightarrow> json" where
  "guard_decision_to_dict d = JObj (decision_fields (guard_status_text (gdec_status d)) (gdec_reasons d)
     (gdec_checks d) (gdec_evidence_ids d) (gdec_unresolved d) (gdec_candidate_ids d))"

definition bound_decision_to_dict :: "bound_decision \<Rightarrow> json" where
  "bound_decision_to_dict d = JObj (decision_fields (bound_status_text (bdec_status d)) (bdec_reasons d)
     (bdec_checks d) (bdec_evidence_ids d) (bdec_unresolved d) (bdec_candidate_ids d))"

definition release_decision_to_dict :: "release_decision \<Rightarrow> json" where
  "release_decision_to_dict d = JObj (decision_fields (release_status_text (rdec_status d)) (rdec_reasons d)
     (rdec_checks d) (rdec_evidence_ids d) (rdec_unresolved d) (rdec_candidate_ids d)
     @ [(''classification'', JStr (release_class_text (rdec_class d)))])"

definition assertion_to_dict :: "assertion_evaluation \<Rightarrow> json" where
  "assertion_to_dict a = JObj
     [(''assertion'', JStr (assertion_name_text (as_name a))), (''status'', JStr (assertion_status_text (as_status a))),
      (''reason_codes'', strs (as_reasons a)), (''evidence_ids'', strs (as_evidence_ids a)),
      (''unresolved_facts'', strs (as_unresolved a))]"

definition follow_ups :: "static_verdict \<Rightarrow> release_decision \<Rightarrow> string list" where
  "follow_ups verdict release = usort
     ([case sv_verdict verdict of
         StaticVulnerable \<Rightarrow> ''authorized_resource_growth_measurement''
       | BoundedUnderModel \<Rightarrow> ''review_modeled_configuration_against_deployment''
       | StaticUnknown \<Rightarrow> ''resolve_unresolved_static_facts'']
      @ (if rdec_class release = PotentialAsync then [''trace_async_consumer_and_release_ownership''] else [])
      @ (if sv_coverage_gaps verdict \<noteq> [] then [''complete_framework_registration_coverage''] else []))"

section \<open>Certificates\<close>

record certificate =
  certificate_id :: string
  ct_entry_id :: string
  ct_growth_id :: string
  ct_inputs :: "json list"
  ct_resource_point :: json
  ct_path_ids :: "string list"
  ct_guard :: json
  ct_bound :: json
  ct_release :: json
  ct_assertions :: "json list"
  ct_verdict :: string
  ct_reasons :: "string list"
  ct_assumptions :: "string list"
  ct_gaps :: "string list"
  ct_unresolved :: "string list"
  ct_follow_ups :: "string list"

definition certificate_invalid :: "string \<Rightarrow> py_exc" where
  "certificate_invalid message = AnalyzerError ''ANALYSIS_CERTIFICATE_INVALID'' message []"

definition deterministic_strings :: "string list \<Rightarrow> string \<Rightarrow> string list res" where
  "deterministic_strings values field =
     (if [] \<in> set values then Inl (certificate_invalid (field @ '' is malformed.''))
      else if usort values \<noteq> values then Inl (certificate_invalid (field @ '' is not deterministic.''))
      else Inr values)"

text \<open>\<open>LifecycleCertificate.to_dict\<close> without the identifier.\<close>

definition certificate_semantic :: "certificate \<Rightarrow> (string \<times> json) list" where
  "certificate_semantic c =
     [(''entry_id'', JStr (ct_entry_id c)), (''growth_id'', JStr (ct_growth_id c)),
      (''attacker_inputs'', JArr (ct_inputs c)), (''resource_point'', ct_resource_point c),
      (''path_ids'', strs (ct_path_ids c)), (''guard_decision'', ct_guard c), (''bound_decision'', ct_bound c),
      (''release_decision'', ct_release c), (''assertions'', JArr (ct_assertions c)),
      (''verdict'', JStr (ct_verdict c)), (''reason_codes'', strs (ct_reasons c)),
      (''assumptions'', strs (ct_assumptions c)), (''coverage_gaps'', strs (ct_gaps c)),
      (''unresolved_facts'', strs (ct_unresolved c)),
      (''suggested_follow_up_measurements'', strs (ct_follow_ups c))]"

definition certificate_to_dict :: "certificate \<Rightarrow> json" where
  "certificate_to_dict c = JObj ((''certificate_id'', JStr (certificate_id c)) # certificate_semantic c)"

definition is_mapping :: "json \<Rightarrow> bool" where
  "is_mapping v = (case v of JObj _ \<Rightarrow> True | _ \<Rightarrow> False)"

definition LifecycleCertificate :: "certificate \<Rightarrow> certificate res" where
  "LifecycleCertificate c =
     (if \<not> startswith (certificate_id c) ''certificate:''
      then Inl (certificate_invalid ''Certificate identifier is malformed.'')
      else if \<not> startswith (ct_entry_id c) ''entry:''
      then Inl (certificate_invalid ''Certificate entry reference is malformed.'')
      else if \<not> startswith (ct_growth_id c) ''growth:''
      then Inl (certificate_invalid ''Certificate Growth reference is malformed.'')
      else if ct_path_ids c = [] \<or> list_ex (\<lambda>p. \<not> startswith p ''flow:'') (ct_path_ids c)
        \<or> \<not> distinct (ct_path_ids c) \<or> sort (ct_path_ids c) \<noteq> ct_path_ids c
      then Inl (certificate_invalid ''Certificate paths are malformed.'')
      else if ct_inputs c = [] \<or> list_ex (\<lambda>i. \<not> is_mapping i) (ct_inputs c)
      then Inl (certificate_invalid ''Certificate attacker inputs are malformed.'')
      else if \<not> is_mapping (ct_resource_point c)
      then Inl (certificate_invalid ''Certificate resource_point is malformed.'')
      else if \<not> is_mapping (ct_guard c) then Inl (certificate_invalid ''Certificate guard_decision is malformed.'')
      else if \<not> is_mapping (ct_bound c) then Inl (certificate_invalid ''Certificate bound_decision is malformed.'')
      else if \<not> is_mapping (ct_release c) then Inl (certificate_invalid ''Certificate release_decision is malformed.'')
      else if ct_assertions c = [] \<or> list_ex (\<lambda>a. \<not> is_mapping a) (ct_assertions c)
      then Inl (certificate_invalid ''Certificate assertions are malformed.'')
      else if ct_verdict c \<notin> set (map verdict_text verdict_names)
      then Inl (certificate_invalid ''Certificate verdict is invalid.'')
      else res_bind (deterministic_strings (ct_reasons c) ''reason_codes'') (\<lambda>_.
        res_bind (deterministic_strings (ct_assumptions c) ''assumptions'') (\<lambda>_.
        res_bind (deterministic_strings (ct_gaps c) ''coverage_gaps'') (\<lambda>_.
        res_bind (deterministic_strings (ct_unresolved c) ''unresolved_facts'') (\<lambda>_.
        res_bind (deterministic_strings (ct_follow_ups c) ''suggested_follow_up_measurements'') (\<lambda>_.
        if certificate_id c \<noteq> stable_identifier ''certificate'' (JObj (certificate_semantic c))
        then Inl (certificate_invalid ''Certificate identifier is not canonical.'')
        else Inr c))))))"

text \<open>The further premises handed to the assertions.\<close>

record path_premises =
  pr_reachability :: "premise_view option"
  pr_repeatability :: "premise_view option"
  pr_amplification :: "premise_view option"

definition path_assertions :: "verified_growth \<Rightarrow> guard_decision \<Rightarrow> bound_decision \<Rightarrow> release_decision
    \<Rightarrow> path_premises \<Rightarrow> verified_flow \<Rightarrow> assertion_evaluation list res" where
  "path_assertions growth guard bound release pm flow =
     res_bind (evaluate_assertion_1 growth flow guard bound (pr_amplification pm) (pr_reachability pm)) (\<lambda>a1.
     res_bind (evaluate_assertion_2 growth flow bound release (pr_reachability pm) (pr_repeatability pm)) (\<lambda>a2.
     Inr [a1, a2]))"

definition expected_assertions :: "verified_growth \<Rightarrow> verified_flow list \<Rightarrow> guard_decision \<Rightarrow> bound_decision
    \<Rightarrow> release_decision \<Rightarrow> path_premises \<Rightarrow> assertion_evaluation list res" where
  "expected_assertions growth flows guard bound release pm =
     res_bind (map_res (path_assertions growth guard bound release pm) flows) (\<lambda>per_flow. Inr (concat per_flow))"

definition expected_verdict :: "assertion_evaluation list \<Rightarrow> candidate_coverage \<Rightarrow> proof_gate option \<Rightarrow> static_verdict res" where
  "expected_verdict assertions coverage gate = res_bind (derive_verdict assertions coverage) (\<lambda>v.
     case gate of None \<Rightarrow> Inr v | Some g \<Rightarrow> apply_positive_proof_gate v g)"

text \<open>The certificate of checked inputs.\<close>

definition certificate_of :: "entry_fact \<Rightarrow> verified_growth \<Rightarrow> growth_candidate \<Rightarrow> string list \<Rightarrow> guard_decision
    \<Rightarrow> bound_decision \<Rightarrow> release_decision \<Rightarrow> assertion_evaluation list \<Rightarrow> candidate_coverage \<Rightarrow> static_verdict
    \<Rightarrow> certificate" where
  "certificate_of entry growth candidate path_ids guard bound release assertions coverage verdict =
     (let c = \<lparr>certificate_id = [], ct_entry_id = entry_id entry, ct_growth_id = vg_growth_id growth,
        ct_inputs = map attacker_input_to_dict (attacker_inputs entry),
        ct_resource_point = JObj [(''resource_id'', JStr (resource_id candidate)),
          (''dimension'', JStr (g_dimension candidate)), (''receiver'', JStr (g_receiver candidate)),
          (''field_path'', JStr (g_field_path candidate))],
        ct_path_ids = path_ids, ct_guard = guard_decision_to_dict guard, ct_bound = bound_decision_to_dict bound,
        ct_release = release_decision_to_dict release, ct_assertions = map assertion_to_dict assertions,
        ct_verdict = verdict_text (sv_verdict verdict),
        ct_reasons = usort (sv_reasons verdict @ concat (map as_reasons assertions) @ gdec_reasons guard
          @ bdec_reasons bound @ rdec_reasons release),
        ct_assumptions = usort (sv_assumptions verdict),
        ct_gaps = usort (sv_coverage_gaps verdict @ cc_unsupported coverage),
        ct_unresolved = usort (sv_unresolved verdict @ concat (map as_unresolved assertions) @ gdec_unresolved guard
          @ bdec_unresolved bound @ rdec_unresolved release),
        ct_follow_ups = follow_ups verdict release\<rparr>
      in c\<lparr>certificate_id := stable_identifier ''certificate'' (JObj (certificate_semantic c))\<rparr>)"

definition build_lifecycle_certificate :: "entry_fact \<Rightarrow> verified_growth \<Rightarrow> verified_flow list \<Rightarrow> guard_decision
    \<Rightarrow> bound_decision \<Rightarrow> release_decision \<Rightarrow> assertion_evaluation list \<Rightarrow> candidate_coverage \<Rightarrow> static_verdict
    \<Rightarrow> path_premises \<Rightarrow> proof_gate option \<Rightarrow> certificate res" where
  "build_lifecycle_certificate entry growth flows guard bound release assertions coverage verdict pm gate =
     (if flows = [] then Inl (certificate_invalid ''Certificate flows are malformed.'')
      else if list_ex (\<lambda>f. vf_entry_id f \<noteq> entry_id entry \<or> vf_growth_id f \<noteq> vg_growth_id growth) flows
      then Inl (certificate_invalid ''Certificate paths must reference one entry and Growth.'')
      else if list_ex (\<lambda>f. \<not> satisfies_premise f) flows \<and> sv_verdict verdict \<noteq> StaticUnknown
      then Inl (certificate_invalid ''Incomplete paths require a static unknown certificate.'')
      else if assertions = [] then Inl (certificate_invalid ''Certificate assertions are malformed.'')
      else res_bind (expected_assertions growth flows guard bound release pm) (\<lambda>expected.
        if mset assertions \<noteq> mset expected
        then Inl (certificate_invalid ''Certificate assertions do not match deterministic lifecycle evaluation.'')
        else (case vg_candidate growth of
          None \<Rightarrow> Inl (certificate_invalid ''Certificate requires a Growth resource point.'')
        | Some candidate \<Rightarrow>
          let path_ids = usort (map vf_path_id flows) in
          if cc_framework coverage \<noteq> e_framework entry \<or> cc_pattern_id coverage \<noteq> Some (registration_pattern_id entry)
            \<or> cc_entry_id coverage \<noteq> Some (entry_id entry) \<or> cc_growth_id coverage \<noteq> Some (vg_growth_id growth)
          then Inl (certificate_invalid ''Coverage does not match certificate facts.'')
          else if (case cc_path_id coverage of None \<Rightarrow> False | Some p \<Rightarrow> p \<notin> set path_ids)
          then Inl (certificate_invalid ''Coverage path is absent from certificate paths.'')
          else res_bind (expected_verdict assertions coverage gate) (\<lambda>expected.
            if verdict \<noteq> expected
            then Inl (certificate_invalid ''Supplied verdict does not match deterministic derivation.'')
            else if forces_unknown coverage \<and> sv_verdict verdict \<noteq> StaticUnknown
            then Inl (certificate_invalid ''Incomplete coverage must force a static unknown verdict.'')
            else if sv_covered_entries verdict \<noteq> [entry_id entry]
            then Inl (certificate_invalid ''Verdict does not exactly cover certificate entry.'')
            else if sv_covered_paths verdict \<noteq> path_ids
            then Inl (certificate_invalid ''Verdict does not exactly cover certificate paths.'')
            else if set (sv_evidence_ids verdict) \<noteq> \<Union> (set (map (set \<circ> as_evidence_ids) assertions))
            then Inl (certificate_invalid ''Verdict evidence does not match certificate assertions.'')
            else LifecycleCertificate (certificate_of entry growth candidate path_ids guard bound release
              assertions coverage verdict)))))"

section \<open>Findings\<close>

record static_finding =
  finding_id :: string
  fd_certificate_id :: string
  fd_entry_id :: string
  fd_growth_id :: string
  fd_verdict :: string
  fd_reasons :: "string list"

definition finding_invalid :: "string \<Rightarrow> py_exc" where
  "finding_invalid message = AnalyzerError ''ANALYSIS_FINDING_INVALID'' message []"

definition finding_identifier :: "string \<Rightarrow> string" where
  "finding_identifier certificate = stable_identifier ''finding'' (JObj [(''certificate_id'', JStr certificate)])"

definition StaticFinding :: "static_finding \<Rightarrow> static_finding res" where
  "StaticFinding f =
     (if \<not> startswith (finding_id f) ''finding:'' then Inl (finding_invalid ''Finding identifier is malformed.'')
      else if \<not> startswith (fd_certificate_id f) ''certificate:''
      then Inl (finding_invalid ''Finding certificate reference is malformed.'')
      else if \<not> startswith (fd_entry_id f) ''entry:'' then Inl (finding_invalid ''Finding entry reference is malformed.'')
      else if \<not> startswith (fd_growth_id f) ''growth:'' then Inl (finding_invalid ''Finding Growth reference is malformed.'')
      else if fd_verdict f \<notin> set (map verdict_text verdict_names) then Inl (finding_invalid ''Finding verdict is invalid.'')
      else res_bind (deterministic_strings (fd_reasons f) ''reason_codes'') (\<lambda>_.
        if finding_id f \<noteq> finding_identifier (fd_certificate_id f)
        then Inl (finding_invalid ''Finding identifier is not certificate-derived.'') else Inr f))"

definition finding_from_certificate :: "certificate \<Rightarrow> static_finding res" where
  "finding_from_certificate c = StaticFinding \<lparr>finding_id = finding_identifier (certificate_id c),
     fd_certificate_id = certificate_id c, fd_entry_id = ct_entry_id c, fd_growth_id = ct_growth_id c,
     fd_verdict = ct_verdict c, fd_reasons = ct_reasons c\<rparr>"

definition finding_to_dict :: "static_finding \<Rightarrow> json" where
  "finding_to_dict f = JObj
     [(''finding_id'', JStr (finding_id f)), (''certificate_id'', JStr (fd_certificate_id f)),
      (''entry_id'', JStr (fd_entry_id f)), (''growth_id'', JStr (fd_growth_id f)),
      (''verdict'', JStr (fd_verdict f)), (''reason_codes'', strs (fd_reasons f))]"

end
