(* ===== verification/CertificateLaws.thy ===== *)
theory CertificateLaws
  imports Certificates
begin

text \<open>
  What a certificate guarantees: it exists only for the assertions and the verdict that its own
  inputs determine, and every conclusion that the derivation reaches can be certified.
\<close>

section \<open>Inversion\<close>

lemma StaticVerdict_Inr: "StaticVerdict v = Inr w \<longleftrightarrow> w = v \<and> wf_verdict v"
proof -
  have "fold_res (\<lambda>v (field, values).
     if [] \<in> set values then Inl (verdict_invalid (field @ '' is invalid.''))
     else if usort values \<noteq> values then Inl (verdict_invalid (field @ '' must be deterministic.''))
     else Inr v) v ts = Inr w \<longleftrightarrow> w = v \<and> list_all (\<lambda>(_, values). canonical_tuple values) ts" for ts
    by (induction ts) (auto simp: canonical_tuple_def res_bind_Inr_iff split: if_split_asm)
  then show ?thesis
    by (simp add: wf_verdict_def StaticVerdict_def)
qed

lemma derive_verdict_Inr:
  assumes "derive_verdict assertions coverage = Inr v"
  shows "v = derived assertions coverage (choose_verdict assertions (concat (map as_unresolved (applicable assertions)))
      (relevant_gaps coverage))"
    "wf_verdict v"
  using assms by (simp_all add: derive_verdict_def derived_def Let_def case_prod_beta StaticVerdict_Inr split: if_split_asm)

lemma expected_verdict_Inr:
  assumes "expected_verdict assertions coverage gate = Inr v"
  obtains v0 where "derive_verdict assertions coverage = Inr v0"
    "v = (case gate of None \<Rightarrow> v0 | Some g \<Rightarrow> if proof_complete g then v0 else withdrawn v0 g)"
  using assms derive_verdict_Inr(2)[of assertions coverage]
  by (auto simp: expected_verdict_def res_bind_Inr_iff gate_eq split: option.splits)

lemma path_assertions_Inr:
  "path_assertions growth guard bound release pm flow = Inr as \<longleftrightarrow>
     (\<exists>a1 a2. evaluate_assertion_1 growth flow guard bound (pr_amplification pm) (pr_reachability pm) = Inr a1
        \<and> evaluate_assertion_2 growth flow bound release (pr_reachability pm) (pr_repeatability pm) = Inr a2
        \<and> as = [a1, a2])"
  by (auto simp: path_assertions_def res_bind_Inr_iff)

lemma expected_assertions_iff:
  assumes "expected_assertions growth flows guard bound release pm = Inr e"
  shows "a \<in> set e \<longleftrightarrow> (\<exists>flow \<in> set flows.
       evaluate_assertion_1 growth flow guard bound (pr_amplification pm) (pr_reachability pm) = Inr a
     \<or> evaluate_assertion_2 growth flow bound release (pr_reachability pm) (pr_repeatability pm) = Inr a)"
proof -
  obtain per where per: "map_res (path_assertions growth guard bound release pm) flows = Inr per" "e = concat per"
    using assms by (auto simp: expected_assertions_def res_bind_Inr_iff)
  have "list_all2 (\<lambda>flow as. path_assertions growth guard bound release pm flow = Inr as) flows per"
    using per(1) by (rule map_res_Inr_D)
  then show ?thesis
    unfolding per(2) path_assertions_Inr by (induction rule: list_all2_induct) auto
qed

lemma LifecycleCertificate_Inr: "LifecycleCertificate c = Inr d \<Longrightarrow> d = c"
  unfolding LifecycleCertificate_def by (auto simp: res_bind_Inr_iff split: if_split_asm)

lemma build_certificate_Inr:
  assumes "build_lifecycle_certificate entry growth flows guard bound release assertions coverage verdict pm gate = Inr c"
  obtains e candidate where
    "flows \<noteq> []" "\<forall>f \<in> set flows. vf_entry_id f = entry_id entry \<and> vf_growth_id f = vg_growth_id growth"
    "sv_verdict verdict \<noteq> StaticUnknown \<Longrightarrow> \<forall>f \<in> set flows. satisfies_premise f"
    "expected_assertions growth flows guard bound release pm = Inr e" "mset assertions = mset e"
    "vg_candidate growth = Some candidate"
    "cc_framework coverage = e_framework entry" "cc_pattern_id coverage = Some (registration_pattern_id entry)"
    "cc_entry_id coverage = Some (entry_id entry)" "cc_growth_id coverage = Some (vg_growth_id growth)"
    "expected_verdict assertions coverage gate = Inr verdict"
    "forces_unknown coverage \<Longrightarrow> sv_verdict verdict = StaticUnknown"
    "c = certificate_of entry growth candidate (usort (map vf_path_id flows)) guard bound release assertions coverage verdict"
  using assms unfolding build_lifecycle_certificate_def
  by (auto simp: res_bind_Inr_iff list_ex_iff Let_def split: if_split_asm option.split_asm
      dest!: LifecycleCertificate_Inr)

section \<open>A certificate is honest\<close>

text \<open>The ways a path can be vulnerable: one request makes an unprotected demand, or repeated
  requests accumulate an unprotected, persistent one.\<close>

definition exposed_once :: "verified_growth \<Rightarrow> verified_flow \<Rightarrow> guard_decision \<Rightarrow> bound_decision \<Rightarrow> path_premises \<Rightarrow> bool" where
  "exposed_once growth flow guard bound pm \<longleftrightarrow> reach_admitted (pr_reachability pm)
     \<and> single_request_demand growth flow (pr_amplification pm) \<and> path_proven growth flow
     \<and> gdec_status guard = GuardIneffective \<and> gdec_unresolved guard = []
     \<and> bdec_status bound \<notin> {BoundUnknown, BoundEffective} \<and> bdec_unresolved bound = []"

definition exposed_repeatedly :: "verified_growth \<Rightarrow> verified_flow \<Rightarrow> bound_decision \<Rightarrow> release_decision \<Rightarrow> path_premises \<Rightarrow> bool" where
  "exposed_repeatedly growth flow bound release pm \<longleftrightarrow> reach_admitted (pr_reachability pm)
     \<and> persistent_demand growth flow (pr_repeatability pm) \<and> path_proven growth flow
     \<and> bdec_status bound \<notin> {BoundUnknown, BoundEffective} \<and> bdec_unresolved bound = []
     \<and> rdec_class release \<notin> {PotentialAsync, ClassUnknown}
     \<and> rdec_status release \<notin> {ReleaseUnknown, ReleaseEffective} \<and> rdec_unresolved release = []"

lemma matched_exposed:
  assumes "expected_assertions growth flows guard bound release pm = Inr e"
  shows "(\<exists>a \<in> set e. as_status a = Matched) \<longleftrightarrow>
    (\<exists>f \<in> set flows. exposed_once growth f guard bound pm \<or> exposed_repeatedly growth f bound release pm)"
proof -
  obtain per where per: "map_res (path_assertions growth guard bound release pm) flows = Inr per" "e = concat per"
    using assms by (auto simp: expected_assertions_def res_bind_Inr_iff)
  have "list_all2 (\<lambda>flow as. path_assertions growth guard bound release pm flow = Inr as) flows per"
    using per(1) by (rule map_res_Inr_D)
  then show ?thesis unfolding per(2)
  proof (induction rule: list_all2_induct)
    case (Cons f fs as per)
    then obtain a1 a2 where a: "evaluate_assertion_1 growth f guard bound (pr_amplification pm) (pr_reachability pm) = Inr a1"
      "evaluate_assertion_2 growth f bound release (pr_reachability pm) (pr_repeatability pm) = Inr a2" "as = [a1, a2]"
      by (auto simp: path_assertions_Inr)
    have "as_status a1 = Matched \<longleftrightarrow> exposed_once growth f guard bound pm"
      "as_status a2 = Matched \<longleftrightarrow> exposed_repeatedly growth f bound release pm"
      unfolding exposed_once_def exposed_repeatedly_def using assertion_1_status(2)[OF a(1)] assertion_2_status(2)[OF a(2)]
      by blast+
    with Cons(3) a(3) show ?case by auto
  qed simp
qed

lemma derived_status [simp]: "sv_verdict (derived assertions coverage choice) = fst choice"
  by (simp add: derived_def Let_def)

lemma withdrawn_status [simp]: "sv_verdict (withdrawn v gate) = StaticUnknown"
  by (simp add: withdrawn_def)

lemma expected_vulnerable:
  assumes "expected_verdict assertions coverage gate = Inr v" "sv_verdict v = StaticVulnerable"
  shows "settled assertions \<and> relevant_gaps coverage = [] \<and> (\<exists>a \<in> set assertions. as_status a = Matched)
    \<and> (\<forall>g. gate = Some g \<longrightarrow> proof_complete g)"
  using assms by (elim expected_verdict_Inr)
    (auto dest!: derive_verdict_Inr(1) simp: choose_verdict_cases(1) split: option.splits if_split_asm)

lemma expected_bounded:
  assumes "expected_verdict assertions coverage gate = Inr v" "sv_verdict v = BoundedUnderModel"
  shows "settled assertions \<and> relevant_gaps coverage = [] \<and> (\<exists>a \<in> set assertions. as_status a = Refuted)
    \<and> (\<forall>a \<in> set assertions. as_status a \<in> {Refuted, NotApplicable}) \<and> (\<forall>g. gate = Some g \<longrightarrow> proof_complete g)"
  using assms by (elim expected_verdict_Inr)
    (auto dest!: derive_verdict_Inr(1) simp: choose_verdict_cases(2) split: option.splits if_split_asm)

lemma build_certificate_verdict:
  assumes "build_lifecycle_certificate entry growth flows guard bound release assertions coverage verdict pm gate = Inr c"
  shows "ct_verdict c = verdict_text v \<longleftrightarrow> sv_verdict verdict = v"
  using assms by (rule build_certificate_Inr) (simp add: certificate_of_def Let_def verdict_name.name_inj)


section \<open>Every derived conclusion is certified\<close>

definition evidence_scoped :: "entry_fact \<Rightarrow> verified_flow list \<Rightarrow> assertion_evaluation list \<Rightarrow> bool" where
  "evidence_scoped entry flows assertions \<longleftrightarrow> (\<forall>a \<in> set assertions. \<forall>i \<in> set (as_evidence_ids a).
     (startswith i ''entry:'' \<longrightarrow> i = entry_id entry) \<and> (startswith i ''flow:'' \<longrightarrow> i \<in> vf_path_id ` set flows))"

text \<open>Facts with the identifiers their kinds have.\<close>

definition certificate_facts :: "entry_fact \<Rightarrow> verified_growth \<Rightarrow> verified_flow list \<Rightarrow> guard_decision
    \<Rightarrow> bound_decision \<Rightarrow> release_decision \<Rightarrow> bool" where
  "certificate_facts entry growth flows guard bound release \<longleftrightarrow> flows \<noteq> []
     \<and> (\<forall>f \<in> set flows. vf_entry_id f = entry_id entry \<and> vf_growth_id f = vg_growth_id growth
          \<and> startswith (vf_path_id f) ''flow:'')
     \<and> startswith (entry_id entry) ''entry:'' \<and> startswith (vg_growth_id growth) ''growth:''
     \<and> attacker_inputs entry \<noteq> [] \<and> vg_candidate growth \<noteq> None
     \<and> [] \<notin> set (gdec_reasons guard @ gdec_unresolved guard @ bdec_reasons bound @ bdec_unresolved bound
          @ rdec_reasons release @ rdec_unresolved release)"

definition coverage_fits :: "candidate_coverage \<Rightarrow> entry_fact \<Rightarrow> verified_growth \<Rightarrow> bool" where
  "coverage_fits coverage entry growth \<longleftrightarrow> CandidateCoverage coverage = Inr coverage
     \<and> cc_framework coverage = e_framework entry \<and> cc_pattern_id coverage = Some (registration_pattern_id entry)
     \<and> cc_entry_id coverage = Some (entry_id entry) \<and> cc_growth_id coverage = Some (vg_growth_id growth)
     \<and> cc_path_id coverage = None"

lemma assertion_1_evidence:
  assumes "evaluate_assertion_1 growth flow guard bound amplification reachability = Inr a"
  shows "as_evidence_ids a = assertion_ids growth flow (gdec_evidence_ids guard @ gdec_candidate_ids guard
    @ bdec_evidence_ids bound @ bdec_candidate_ids bound)" (is "as_evidence_ids a = assertion_ids growth flow ?refs")
proof (rule returnsD[OF _ assms, of "\<lambda>a. as_evidence_ids a = assertion_ids growth flow ?refs"])
  let ?P = "\<lambda>a. as_evidence_ids a = assertion_ids growth flow ?refs"
  have result: "returns ?P (assertion_result n st rs growth flow un ?refs)" for n st rs un
    by (auto simp: returns_def dest!: assertion_result_Inr split: sum.split)
  show "returns ?P (evaluate_assertion_1 growth flow guard bound amplification reachability)"
    unfolding evaluate_assertion_1_def Let_def
    by (rule returns_bind) (simp only: if_distrib[of "returns ?P"] result if_cancel)
qed

lemma assertion_2_evidence:
  assumes "evaluate_assertion_2 growth flow bound release reachability repeatability = Inr a"
  shows "as_evidence_ids a = assertion_ids growth flow (bdec_evidence_ids bound @ bdec_candidate_ids bound
    @ rdec_evidence_ids release @ rdec_candidate_ids release)" (is "as_evidence_ids a = assertion_ids growth flow ?refs")
proof (rule returnsD[OF _ assms, of "\<lambda>a. as_evidence_ids a = assertion_ids growth flow ?refs"])
  let ?P = "\<lambda>a. as_evidence_ids a = assertion_ids growth flow ?refs"
  have result: "returns ?P (assertion_result n st rs growth flow un ?refs)" for n st rs un
    by (auto simp: returns_def dest!: assertion_result_Inr split: sum.split)
  show "returns ?P (evaluate_assertion_2 growth flow bound release reachability repeatability)"
    unfolding evaluate_assertion_2_def Let_def
    by (rule returns_bind) (simp only: if_distrib[of "returns ?P"] result if_cancel simp_thms split: option.split)
qed

lemma derived_covers:
  assumes facts: "certificate_facts entry growth flows guard bound release"
    and e: "expected_assertions growth flows guard bound release pm = Inr assertions"
    and scoped: "evidence_scoped entry flows assertions"
  shows "assertions \<noteq> []" "scope_cited assertions (Some (entry_id entry))" "scope_cited assertions (Some (vg_growth_id growth))"
    "sv_covered_entries (derived assertions coverage choice) = [entry_id entry]"
    "sv_covered_paths (derived assertions coverage choice) = usort (map vf_path_id flows)"
proof -
  let ?all = "concat (map as_evidence_ids assertions)"
  note member = expected_assertions_iff[OF e]
  have cited: "vf_path_id f \<in> set ?all \<and> entry_id entry \<in> set ?all \<and> vg_growth_id growth \<in> set ?all" if f: "f \<in> set flows" for f
  proof -
    obtain per where per: "map_res (path_assertions growth guard bound release pm) flows = Inr per" "assertions = concat per"
      using e by (auto simp: expected_assertions_def res_bind_Inr_iff)
    from map_res_Inr_member[OF per(1) f] obtain a where a: "evaluate_assertion_1 growth f guard bound (pr_amplification pm) (pr_reachability pm) = Inr a"
      by (auto simp: path_assertions_Inr)
    with member f have "a \<in> set assertions" by blast
    then have all: "set (as_evidence_ids a) \<subseteq> set ?all" by auto
    have "{vf_path_id f, vf_entry_id f, vg_growth_id growth} \<subseteq> set (as_evidence_ids a)"
      unfolding assertion_1_evidence[OF a] by (simp add: assertion_ids_def)
    from subset_trans[OF this all] show ?thesis
      using facts f by (simp only: certificate_facts_def insert_subset)
  qed
  have "flows \<noteq> []" using facts by (simp add: certificate_facts_def)
  then obtain f0 where f0: "f0 \<in> set flows" by (meson list.set_sel(1))
  show "assertions \<noteq> []" using cited[OF f0] by auto
  show "scope_cited assertions (Some (entry_id entry))" "scope_cited assertions (Some (vg_growth_id growth))"
    using cited[OF f0] by (auto simp: scope_cited_def list_ex_iff)
  have "set (filter (\<lambda>i. startswith i ''entry:'') ?all) = {entry_id entry}"
    using cited[OF f0] facts scoped by (auto simp: certificate_facts_def evidence_scoped_def)
  then show "sv_covered_entries (derived assertions coverage choice) = [entry_id entry]"
    by (simp add: derived_def Let_def usort_singleton)
  have "set (filter (\<lambda>i. startswith i ''flow:'') ?all) = vf_path_id ` set flows"
    using cited facts scoped by (auto simp: certificate_facts_def evidence_scoped_def)
  then show "sv_covered_paths (derived assertions coverage choice) = usort (map vf_path_id flows)"
    by (simp add: derived_def Let_def usort_eq_iff)
qed

lemma expected_assertions_wf:
  assumes "expected_assertions growth flows guard bound release pm = Inr assertions"
  shows "\<forall>a \<in> set assertions. wf_assertion a"
  using expected_assertions_iff[OF assms] evaluate_assertion_1_wf evaluate_assertion_2_wf by blast

lemma follow_ups_named: "[] \<notin> set (follow_ups verdict release)"
  by (auto simp: follow_ups_def split: verdict_name.splits if_splits)

lemma deterministic_usort [simp]: "[] \<notin> set xs \<Longrightarrow> deterministic_strings (usort xs) field = Inr (usort xs)"
  by (simp add: deterministic_strings_def)

lemma certificate_of_valid:
  assumes "certificate_facts entry growth flows guard bound release" "vg_candidate growth = Some candidate"
    "assertions \<noteq> []" "\<forall>a \<in> set assertions. wf_assertion a" "wf_verdict verdict" "CandidateCoverage coverage = Inr coverage"
  shows "LifecycleCertificate (certificate_of entry growth candidate (usort (map vf_path_id flows)) guard bound release
      assertions coverage verdict)
    = Inr (certificate_of entry growth candidate (usort (map vf_path_id flows)) guard bound release assertions coverage verdict)"
    (is "LifecycleCertificate ?c = Inr ?c")
proof -
  have lists: "[] \<notin> set (concat (map as_reasons assertions))" "[] \<notin> set (concat (map as_unresolved assertions))"
    "[] \<notin> set (sv_reasons verdict)" "[] \<notin> set (sv_assumptions verdict)" "[] \<notin> set (sv_coverage_gaps verdict)"
    "[] \<notin> set (sv_unresolved verdict)" "[] \<notin> set (cc_unsupported coverage)"
    using assms(4,5) CandidateCoverage_facts(3)[OF assms(6)]
    by (auto simp: wf_assertion_def wf_verdict_def verdict_tuples_def canonical_tuple_def)
  have strings: "deterministic_strings (ct_reasons ?c) field = Inr (ct_reasons ?c)"
    "deterministic_strings (ct_assumptions ?c) field = Inr (ct_assumptions ?c)"
    "deterministic_strings (ct_gaps ?c) field = Inr (ct_gaps ?c)"
    "deterministic_strings (ct_unresolved ?c) field = Inr (ct_unresolved ?c)"
    "deterministic_strings (ct_follow_ups ?c) field = Inr (ct_follow_ups ?c)" for field
    using assms(1) lists follow_ups_named[of verdict release]
    by (simp_all add: certificate_of_def Let_def certificate_facts_def)
       (simp add: follow_ups_def)
  have "certificate_id ?c = stable_identifier ''certificate'' (JObj (certificate_semantic ?c))"
    by (simp add: certificate_of_def Let_def certificate_semantic_def)
  moreover have "startswith (certificate_id ?c) ''certificate:''"
    using stable_identifier_prefix[of "''certificate''"] by (simp add: certificate_of_def Let_def)
  moreover have "\<not> list_ex (\<lambda>i. \<not> is_mapping i) (ct_inputs ?c)" "\<not> list_ex (\<lambda>a. \<not> is_mapping a) (ct_assertions ?c)"
    "is_mapping (ct_resource_point ?c)" "is_mapping (ct_guard ?c)" "is_mapping (ct_bound ?c)" "is_mapping (ct_release ?c)"
    by (simp_all add: certificate_of_def Let_def is_mapping_def list_ex_iff attacker_input_to_dict_def assertion_to_dict_def
        guard_decision_to_dict_def bound_decision_to_dict_def release_decision_to_dict_def)
  moreover have "ct_inputs ?c \<noteq> []" "ct_assertions ?c \<noteq> []" "ct_path_ids ?c \<noteq> []"
    "\<not> list_ex (\<lambda>p. \<not> startswith p ''flow:'') (ct_path_ids ?c)" "distinct (ct_path_ids ?c)"
    "sort (ct_path_ids ?c) = ct_path_ids ?c" "startswith (ct_entry_id ?c) ''entry:''" "startswith (ct_growth_id ?c) ''growth:''"
    using assms(1,3) by (auto simp: certificate_of_def Let_def certificate_facts_def list_ex_iff sorted_sort_id)
  moreover have "ct_verdict ?c \<in> set (map verdict_text verdict_names)"
    using verdict_name.complete by (simp add: certificate_of_def Let_def)
  ultimately show ?thesis
    unfolding LifecycleCertificate_def by (simp only: strings res_bind_simps simp_thms if_False if_True not_True_eq_False)
qed

lemma finding_total:
  assumes "LifecycleCertificate c = Inr c"
  shows "finding_from_certificate c = Inr \<lparr>finding_id = finding_identifier (certificate_id c),
     fd_certificate_id = certificate_id c, fd_entry_id = ct_entry_id c, fd_growth_id = ct_growth_id c,
     fd_verdict = ct_verdict c, fd_reasons = ct_reasons c\<rparr>"
proof -
  have "startswith (finding_identifier i) ''finding:''" for i
    using stable_identifier_prefix[of "''finding''"] by (simp add: finding_identifier_def)
  with assms show ?thesis
    unfolding LifecycleCertificate_def finding_from_certificate_def StaticFinding_def
    by (auto simp: res_bind_Inr_iff split: if_split_asm)
qed

lemma certificate_built:
  assumes "certificate_facts entry growth flows guard bound release"
    "expected_assertions growth flows guard bound release pm = Inr assertions"
    "evidence_scoped entry flows assertions" "coverage_fits coverage entry growth"
    "flow_proven gate \<Longrightarrow> \<forall>f \<in> set flows. satisfies_premise f"
  obtains v c candidate where "expected_verdict assertions coverage (Some gate) = Inr v"
    "build_lifecycle_certificate entry growth flows guard bound release assertions coverage v pm (Some gate) = Inr c"
    "c = certificate_of entry growth candidate (usort (map vf_path_id flows)) guard bound release assertions coverage v"
    "LifecycleCertificate c = Inr c"
proof -
  note covers = derived_covers[OF assms(1-3)]
  note wf = expected_assertions_wf[OF assms(2)]
  have fits: "CandidateCoverage coverage = Inr coverage" "cc_path_id coverage = None"
    "cc_entry_id coverage = Some (entry_id entry)" "cc_growth_id coverage = Some (vg_growth_id growth)"
    using assms(4) by (simp_all add: coverage_fits_def)
  define choice where "choice = choose_verdict assertions (concat (map as_unresolved (applicable assertions))) (relevant_gaps coverage)"
  define v0 where "v0 = derived assertions coverage choice"
  define v where "v = (if proof_complete gate then v0 else withdrawn v0 gate)"
  have v0: "derive_verdict assertions coverage = Inr v0" "wf_verdict v0"
    unfolding v0_def choice_def
    using derive_verdict_eq[OF covers(1) wf fits(1)] covers(2,3) derived_wf[OF wf fits(1)] choose_verdict_cases(3) fits
    by (simp_all add: scope_cited_def)
  have v: "expected_verdict assertions coverage (Some gate) = Inr v" "wf_verdict v"
    using v0 gate_eq[OF v0(2)] withdrawn_wf by (simp_all add: expected_verdict_def v_def)
  have same: "sv_covered_entries v = [entry_id entry]" "sv_covered_paths v = usort (map vf_path_id flows)"
    "set (sv_evidence_ids v) = \<Union> (set (map (set \<circ> as_evidence_ids) assertions))"
    using covers(4,5)[of coverage choice] by (simp_all add: v_def v0_def withdrawn_def) (simp_all add: derived_def Let_def)
  have known: "sv_verdict v \<noteq> StaticUnknown \<Longrightarrow> (\<forall>f \<in> set flows. satisfies_premise f) \<and> \<not> forces_unknown coverage"
    using expected_vulnerable[OF v(1)] expected_bounded[OF v(1)] assms(5) relevant_gaps_Nil[OF fits(1)]
      CandidateCoverage_facts(1)[OF fits(1)]
    by (cases "sv_verdict v") (auto simp: proof_complete_def forces_unknown_def)
  obtain candidate where candidate: "vg_candidate growth = Some candidate"
    using assms(1) by (auto simp: certificate_facts_def)
  define c where "c = certificate_of entry growth candidate (usort (map vf_path_id flows)) guard bound release assertions coverage v"
  have c: "LifecycleCertificate c = Inr c"
    unfolding c_def by (rule certificate_of_valid[OF assms(1) candidate covers(1) wf v(2) fits(1)])
  have "flows \<noteq> []" "\<not> list_ex (\<lambda>f. vf_entry_id f \<noteq> entry_id entry \<or> vf_growth_id f \<noteq> vg_growth_id growth) flows"
    "\<not> (list_ex (\<lambda>f. \<not> satisfies_premise f) flows \<and> sv_verdict v \<noteq> StaticUnknown)"
    "\<not> (forces_unknown coverage \<and> sv_verdict v \<noteq> StaticUnknown)"
    using assms(1) known by (auto simp: certificate_facts_def list_ex_iff)
  then have build: "build_lifecycle_certificate entry growth flows guard bound release assertions coverage v pm (Some gate) = Inr c"
    using assms(2,4) covers(1) candidate v(1) same c fits
    unfolding build_lifecycle_certificate_def by (simp add: coverage_fits_def Let_def c_def)
  show thesis using that[OF v(1) build c_def c] .
qed

text \<open>C34. Every conclusion that the stage derives from well-formed facts can be certified: the
  assertions over all paths yield a verdict, the certificate over them is built with exactly this
  verdict and a canonical identifier, and its finding is derived from it.\<close>

theorem certificate_complete:
  assumes "certificate_facts entry growth flows guard bound release"
    "expected_assertions growth flows guard bound release pm = Inr assertions"
    "evidence_scoped entry flows assertions" "coverage_fits coverage entry growth"
    "flow_proven gate \<Longrightarrow> \<forall>f \<in> set flows. satisfies_premise f"
  shows "\<exists>v c f. expected_verdict assertions coverage (Some gate) = Inr v
    \<and> build_lifecycle_certificate entry growth flows guard bound release assertions coverage v pm (Some gate) = Inr c
    \<and> ct_verdict c = verdict_text (sv_verdict v) \<and> ct_path_ids c = usort (map vf_path_id flows)
    \<and> certificate_id c = stable_identifier ''certificate'' (JObj (certificate_semantic c))
    \<and> finding_from_certificate c = Inr f \<and> fd_verdict f = ct_verdict c"
proof -
  obtain v c candidate where v: "expected_verdict assertions coverage (Some gate) = Inr v"
    and b: "build_lifecycle_certificate entry growth flows guard bound release assertions coverage v pm (Some gate) = Inr c"
    and c: "c = certificate_of entry growth candidate (usort (map vf_path_id flows)) guard bound release assertions coverage v"
    and l: "LifecycleCertificate c = Inr c"
    using certificate_built[OF assms] by blast
  have "ct_verdict c = verdict_text (sv_verdict v)" "ct_path_ids c = usort (map vf_path_id flows)"
    "certificate_id c = stable_identifier ''certificate'' (JObj (certificate_semantic c))"
    by (simp_all add: c certificate_of_def Let_def certificate_semantic_def)
  with v b finding_total[OF l] show ?thesis by auto
qed

section \<open>Instances\<close>

definition certified_entry :: entry_fact where
  "certified_entry = sample_entry\<lparr>e_framework := ''netty'', registration_pattern_id := pattern_sample\<rparr>"

definition proven_gate :: proof_gate where
  "proven_gate = \<lparr>entry_complete = True, ordinary_reachability = True, growth_verified = True,
     flow_proven = True, assertion_1_lifecycle_complete = True, assertion_2_lifecycle_complete = True,
     candidate_relevant_gap_free = True\<rparr>"

definition open_premises :: path_premises where
  "open_premises = \<lparr>pr_reachability = None, pr_repeatability = None, pr_amplification = None\<rparr>"

lemma sample_assertions:
  obtains assertions where
    "expected_assertions sample_growth [sample_verified_flow] no_guard some_bound no_release open_premises = Inr assertions"
    "evidence_scoped certified_entry [sample_verified_flow] assertions"
proof -
  have named: "named_inputs sample_growth sample_verified_flow (gdec_evidence_ids no_guard @ gdec_candidate_ids no_guard
      @ bdec_evidence_ids some_bound @ bdec_candidate_ids some_bound) (gdec_unresolved no_guard @ bdec_unresolved some_bound)"
    "named_inputs sample_growth sample_verified_flow (bdec_evidence_ids some_bound @ bdec_candidate_ids some_bound
      @ rdec_evidence_ids no_release @ rdec_candidate_ids no_release) (bdec_unresolved some_bound @ rdec_unresolved no_release)"
    by (simp_all add: named_inputs_def no_guard_def some_bound_def no_release_def sample_growth_def sample_verified_flow_def)
  obtain a1 a2 where a: "evaluate_assertion_1 sample_growth sample_verified_flow no_guard some_bound None None = Inr a1"
    "evaluate_assertion_2 sample_growth sample_verified_flow some_bound no_release None None = Inr a2"
    using evaluate_assertion_1_total[OF named(1)] evaluate_assertion_2_total[OF named(2)] by blast
  have "expected_assertions sample_growth [sample_verified_flow] no_guard some_bound no_release open_premises = Inr [a1, a2]"
    using a by (simp add: expected_assertions_def path_assertions_def open_premises_def)
  moreover have "evidence_scoped certified_entry [sample_verified_flow] [a1, a2]"
    by (simp add: evidence_scoped_def assertion_1_evidence[OF a(1)] assertion_2_evidence[OF a(2)] assertion_ids_def
        sample_growth_def sample_verified_flow_def no_guard_def some_bound_def no_release_def certified_entry_def
        sample_entry_def startswith_def)
  ultimately show ?thesis using that by blast
qed

lemma sample_certificate_facts: "certificate_facts certified_entry sample_growth [sample_verified_flow] no_guard some_bound no_release"
  by (simp add: certificate_facts_def certified_entry_def sample_entry_def sample_growth_def sample_verified_flow_def
      no_guard_def some_bound_def no_release_def startswith_def)

lemma sample_fits: "coverage_fits coverage_sample certified_entry sample_growth"
  using coverage_sample_valid by (simp add: coverage_fits_def certified_entry_def sample_entry_def sample_growth_def coverage_sample_def)

lemma sample_satisfies: "\<forall>f \<in> set [sample_verified_flow]. satisfies_premise f"
  by (simp add: satisfies_premise_def sample_verified_flow_def)

theorem certificate_complete_witness:
  "\<exists>assertions v c. build_lifecycle_certificate certified_entry sample_growth [sample_verified_flow] no_guard some_bound
      no_release assertions coverage_sample v open_premises (Some proven_gate) = Inr c \<and> ct_path_ids c = [''flow:1'']"
proof -
  obtain assertions where e: "expected_assertions sample_growth [sample_verified_flow] no_guard some_bound no_release
      open_premises = Inr assertions" "evidence_scoped certified_entry [sample_verified_flow] assertions"
    by (rule sample_assertions)
  show ?thesis
    using certificate_complete[OF sample_certificate_facts e sample_fits sample_satisfies, of proven_gate]
    by (simp add: sample_verified_flow_def) blast
qed

lemma sample_refuted:
  assumes "expected_assertions sample_growth [sample_verified_flow] no_guard some_bound no_release open_premises = Inr assertions"
  shows "settled assertions \<and> (\<exists>a \<in> set assertions. as_status a = Refuted)
    \<and> (\<forall>a \<in> set assertions. as_status a \<in> {Refuted, NotApplicable})"
proof -
  obtain a1 a2 where a: "evaluate_assertion_1 sample_growth sample_verified_flow no_guard some_bound None None = Inr a1"
    "evaluate_assertion_2 sample_growth sample_verified_flow some_bound no_release None None = Inr a2" "assertions = [a1, a2]"
    using assms by (auto simp: expected_assertions_def res_bind_Inr_iff path_assertions_Inr open_premises_def
        split: sum.splits)
  have single: "assertion_context sample_growth sample_verified_flow = Inr ()" "candidate_kind_in sample_growth single_kinds = False"
    by (simp_all add: assertion_context_def candidate_kind_in_def single_kinds_def sample_growth_def sample_verified_flow_def
        sample_candidate_def)
  have none: "decision_status None = None" by (simp add: decision_status_def)
  have "evaluate_assertion_1 sample_growth sample_verified_flow no_guard some_bound None None =
      assertion_result Assertion1 NotApplicable [''A1_SINGLE_OPERATION_NOT_AMPLIFYING''] sample_growth sample_verified_flow []
        (gdec_evidence_ids no_guard @ gdec_candidate_ids no_guard @ bdec_evidence_ids some_bound @ bdec_candidate_ids some_bound)"
    unfolding evaluate_assertion_1_def Let_def single none res_bind_simps by (simp only: simp_thms if_True if_False option.distinct)
  from assertion_result_Inr[OF this[symmetric, unfolded a(1)]] have na: "as_status a1 = NotApplicable" by simp
  have "reach_admitted None" "path_proven sample_growth sample_verified_flow"
    "persistent_demand sample_growth sample_verified_flow None"
    by (simp_all add: sample_growth_def sample_verified_flow_def reach_admitted_def decision_status_def path_proven_def
        persistent_demand_def repeat_admitted_def persistent_target_def sample_candidate_def sample_flow_def)
  then have refuted: "as_status a2 = Refuted"
    unfolding assertion_2_status(3)[OF a(2)] by (simp add: some_bound_def)
  with na assertion_2_status(4)[OF a(2)] show ?thesis by (simp add: a(3) settled_def)
qed


end
