(* ===== verification/Conclude.thy ===== *)
theory Conclude
  imports CertificateLaws "HOL-Library.Product_Lexorder"
begin

text \<open>
  The conclusion stage of \<open>dosweb/production.py\<close>: the bound decision of a path, the lifecycle
  decisions of a path whose premise may be open, the pairs of entry and Growth that may publish a
  conclusion, the certificate and finding of such a pair, and the stage over all pairs.

  Records read back from the artifacts of earlier stages appear here as the values they decode to;
  dictionaries over them are maps.
\<close>

section \<open>Lifecycle decisions of one path\<close>

definition individual_bound :: "entry_fact \<Rightarrow> verified_growth \<Rightarrow> verified_flow \<Rightarrow> modeled_configuration
    \<Rightarrow> bound_candidate \<Rightarrow> bound_decision res" where
  "individual_bound entry growth flow configuration c =
     (if is_framework_limit_candidate c then normalize_framework_limit entry growth flow c configuration
      else evaluate_bound entry growth flow [c] configuration ''complete'')"

definition evaluate_path_bounds :: "entry_fact \<Rightarrow> verified_growth \<Rightarrow> verified_flow \<Rightarrow> bound_candidate list
    \<Rightarrow> modeled_configuration \<Rightarrow> string \<Rightarrow> bound_decision res" where
  "evaluate_path_bounds entry growth flow candidates configuration coverage_status =
     (let ordered = sort_key bound_id candidates in
      if ordered = [] then evaluate_bound entry growth flow [] configuration coverage_status
      else res_bind (map_res (individual_bound entry growth flow configuration) ordered) (\<lambda>individual.
        if list_ex (\<lambda>d. bdec_status d = BoundEffective) individual
        then Inr \<lparr>bdec_status = BoundEffective, bdec_reasons = [], bdec_checks = concat (map bdec_checks individual),
          bdec_evidence_ids = usort (concat (map bdec_evidence_ids individual)),
          bdec_unresolved = usort (concat (map bdec_unresolved individual)),
          bdec_candidate_ids = map bound_id ordered\<rparr>
        else evaluate_bound entry growth flow ordered configuration coverage_status))"

record lifecycle_record =
  lr_guard :: guard_decision
  lr_bound :: bound_decision
  lr_release :: release_decision

text \<open>The linked candidates of a path and the coverage of each family.\<close>

record path_lifecycle =
  pl_guards :: "guard_candidate list"
  pl_bounds :: "bound_candidate list"
  pl_releases :: "release_candidate list"
  pl_guard_coverage :: string
  pl_bound_coverage :: string
  pl_release_coverage :: string

definition path_decisions :: "entry_fact \<Rightarrow> verified_growth \<Rightarrow> verified_flow \<Rightarrow> path_lifecycle
    \<Rightarrow> modeled_configuration \<Rightarrow> lifecycle_record res" where
  "path_decisions entry growth flow linked configuration =
     (if \<not> satisfies_premise flow \<or> vg_status growth \<noteq> Verified then
        (let reasons = usort (vf_reasons flow @ vg_reasons growth @ [''LIFECYCLE_PREMISE_UNRESOLVED'']) in
         Inr \<lparr>lr_guard = \<lparr>gdec_status = GuardUnknown, gdec_reasons = reasons, gdec_checks = [], gdec_evidence_ids = [],
                gdec_unresolved = reasons, gdec_candidate_ids = []\<rparr>,
              lr_bound = \<lparr>bdec_status = BoundUnknown, bdec_reasons = reasons, bdec_checks = [], bdec_evidence_ids = [],
                bdec_unresolved = reasons, bdec_candidate_ids = []\<rparr>,
              lr_release = \<lparr>rdec_status = ReleaseUnknown, rdec_class = ClassUnknown, rdec_reasons = reasons,
                rdec_checks = [], rdec_evidence_ids = [], rdec_unresolved = reasons, rdec_candidate_ids = []\<rparr>\<rparr>)
      else
        res_bind (evaluate_guard entry growth flow (pl_guards linked) configuration (pl_guard_coverage linked)) (\<lambda>guard.
        res_bind (evaluate_path_bounds entry growth flow (pl_bounds linked) configuration (pl_bound_coverage linked)) (\<lambda>bound.
        res_bind (evaluate_synchronous_release entry growth flow (pl_releases linked) (pl_release_coverage linked)) (\<lambda>release.
        Inr \<lparr>lr_guard = guard, lr_bound = bound, lr_release = release\<rparr>))))"

section \<open>Eligible pairs\<close>

type_synonym fact_pair = "string \<times> string"

record candidate_link =
  link_id :: string
  lk_entry_id :: string
  lk_growth_id :: string

record disposition =
  dp_growth_id :: string
  dp_status :: string
  dp_link_ids :: "string list"

definition upstream_invalid :: "string \<Rightarrow> py_exc" where
  "upstream_invalid message = AnalyzerError ''ARTIFACT_UPSTREAM_INVALID'' message []"

definition upstream_mismatch :: "string \<Rightarrow> py_exc" where
  "upstream_mismatch message = AnalyzerError ''ARTIFACT_UPSTREAM_HASH_MISMATCH'' message []"

type_synonym eligibility = "fact_pair list \<times> (fact_pair \<rightharpoonup> string)"

definition linked_pair :: "(string \<rightharpoonup> candidate_link) \<Rightarrow> fact_pair set \<Rightarrow> string \<Rightarrow> string \<Rightarrow> fact_pair res" where
  "linked_pair links_by_id flow_pairs growth link =
     (case links_by_id link of None \<Rightarrow> Inl (PyKeyError link)
      | Some l \<Rightarrow> if lk_growth_id l \<noteq> growth \<or> (lk_entry_id l, growth) \<notin> flow_pairs
          then Inl (upstream_mismatch ''Candidate-relevant Growth is missing its required flow artifact.'')
          else Inr (lk_entry_id l, growth))"

definition add_eligible :: "string \<Rightarrow> eligibility \<Rightarrow> fact_pair \<Rightarrow> eligibility res" where
  "add_eligible status state pair = (case state of (eligible, statuses) \<Rightarrow>
     if statuses pair \<noteq> None \<and> statuses pair \<noteq> Some status
     then Inl (upstream_invalid ''Candidate conclusion eligibility is ambiguous.'')
     else Inr (List.insert pair eligible, statuses(pair \<mapsto> status)))"

definition add_disposition :: "(string \<rightharpoonup> candidate_link) \<Rightarrow> fact_pair set \<Rightarrow> eligibility \<Rightarrow> disposition
    \<Rightarrow> eligibility res" where
  "add_disposition links_by_id flow_pairs state d =
     (if dp_status d \<notin> {''formal_eligible'', ''gap_eligible''} then Inr state
      else if dp_link_ids d = [] \<or> list_ex (\<lambda>l. links_by_id l = None) (dp_link_ids d)
      then Inl (AnalyzerError ''ANALYSIS_DANGLING_FACT_REFERENCE''
        ''Candidate disposition references a missing Entry link.'' [])
      else res_bind (map_res (linked_pair links_by_id flow_pairs (dp_growth_id d)) (dp_link_ids d)) (\<lambda>pairs.
        fold_res (add_eligible (dp_status d)) state pairs))"

definition eligible_conclusion_pairs :: "disposition list \<Rightarrow> candidate_link list \<Rightarrow> fact_pair set \<Rightarrow> eligibility res" where
  "eligible_conclusion_pairs dispositions links flow_pairs =
     (if \<not> distinct (map link_id links)
      then Inl (upstream_invalid ''Candidate Entry links are duplicated or malformed.'')
      else fold_res (add_disposition (index_by link_id links) flow_pairs) ([], Map.empty) dispositions)"

definition candidate_relevant_gap_free_status :: "string \<Rightarrow> bool" where
  "candidate_relevant_gap_free_status disposition_status \<longleftrightarrow> disposition_status = ''formal_eligible''"

section \<open>The conclusion on one pair\<close>

record conclude_inputs =
  ci_entries :: "string \<rightharpoonup> entry_fact"
  ci_growth :: "string \<rightharpoonup> verified_growth"
  ci_lifecycle :: "string \<rightharpoonup> lifecycle_record"
  ci_coverage :: "string \<times> string \<times> string \<times> string \<rightharpoonup> string"
  ci_frameworks :: "string \<rightharpoonup> framework_coverage"
  ci_reachability :: "string \<rightharpoonup> premise_view"
  ci_repeatability :: "fact_pair \<rightharpoonup> premise_view"
  ci_amplification :: "fact_pair \<rightharpoonup> premise_view"
  ci_dispositions :: "fact_pair \<rightharpoonup> string"

definition pair_premises :: "conclude_inputs \<Rightarrow> fact_pair \<Rightarrow> path_premises" where
  "pair_premises ci pair = \<lparr>pr_reachability = ci_reachability ci (fst pair),
     pr_repeatability = ci_repeatability ci pair, pr_amplification = ci_amplification ci pair\<rparr>"

definition path_evaluation :: "verified_growth \<Rightarrow> lifecycle_record \<Rightarrow> path_premises \<Rightarrow> verified_flow
    \<Rightarrow> (verified_flow \<times> assertion_evaluation \<times> assertion_evaluation) res" where
  "path_evaluation growth durable pm flow =
     res_bind (evaluate_assertion_1 growth flow (lr_guard durable) (lr_bound durable) (pr_amplification pm)
       (pr_reachability pm)) (\<lambda>a1.
     res_bind (evaluate_assertion_2 growth flow (lr_bound durable) (lr_release durable) (pr_reachability pm)
       (pr_repeatability pm)) (\<lambda>a2.
     Inr (flow, a1, a2)))"

definition families_complete :: "conclude_inputs \<Rightarrow> fact_pair \<Rightarrow> string list \<Rightarrow> verified_flow \<Rightarrow> bool" where
  "families_complete ci pair families flow \<longleftrightarrow>
     list_all (\<lambda>family. ci_coverage ci (fst pair, snd pair, vf_path_id flow, family) = Some ''complete'') families"

definition conclude_gate :: "conclude_inputs \<Rightarrow> fact_pair \<Rightarrow> verified_growth \<Rightarrow> verified_flow list
    \<Rightarrow> (verified_flow \<times> assertion_evaluation \<times> assertion_evaluation) list \<Rightarrow> candidate_coverage \<Rightarrow> string \<Rightarrow> proof_gate" where
  "conclude_gate ci pair growth ordered evaluations coverage disposition_status =
     (let proven = filter satisfies_premise ordered in
      \<lparr>entry_complete = (cc_status coverage = ''complete''),
       ordinary_reachability = (case ci_reachability ci (fst pair) of None \<Rightarrow> False
         | Some r \<Rightarrow> pv_status r = Some ''ordinary_attacker_reachable''),
       growth_verified = (vg_status growth = Verified),
       flow_proven = (proven \<noteq> [] \<and> length proven = length ordered),
       assertion_1_lifecycle_complete = list_all (\<lambda>(flow, a1, a2). as_status a1 = NotApplicable
         \<or> families_complete ci pair [''guard'', ''bound''] flow) evaluations,
       assertion_2_lifecycle_complete = list_all (\<lambda>(flow, a1, a2). as_status a2 = NotApplicable
         \<or> families_complete ci pair [''bound'', ''release''] flow) evaluations,
       candidate_relevant_gap_free = candidate_relevant_gap_free_status disposition_status\<rparr>)"

text \<open>The coverage of the entry's framework, or the placeholder of an unlisted framework.\<close>

definition framework_item :: "conclude_inputs \<Rightarrow> entry_fact \<Rightarrow> framework_coverage res" where
  "framework_item ci entry =
     res_bind (FrameworkCoverage (e_framework entry) ''unsupported'' [] [''no_coverage''] ''forces_unknown'') (\<lambda>missing.
     Inr (case ci_frameworks ci (e_framework entry) of None \<Rightarrow> missing | Some fc \<Rightarrow> fc))"

definition conclude_pair :: "conclude_inputs \<Rightarrow> fact_pair \<Rightarrow> verified_flow list \<Rightarrow> (certificate \<times> static_finding) res" where
  "conclude_pair ci pair paths =
     (let ordered = sort_key vf_path_id paths; pm = pair_premises ci pair in
      if ordered = [] then Inl PyIndexError else
      res_bind (item (ci_entries ci) (fst pair)) (\<lambda>entry.
      res_bind (item (ci_growth ci) (snd pair)) (\<lambda>growth.
      res_bind (item (ci_lifecycle ci) (vf_path_id (hd ordered))) (\<lambda>durable.
      if list_ex (\<lambda>flow. ci_lifecycle ci (vf_path_id flow) \<noteq> Some durable) (tl ordered)
      then Inl (upstream_invalid ''Lifecycle decisions disagree across proven paths.'') else
      res_bind (map_res (path_evaluation growth durable pm) ordered) (\<lambda>evaluations.
      let assertions = concat (map (\<lambda>(_, a1, a2). [a1, a2]) evaluations) in
      res_bind (framework_item ci entry) (\<lambda>framework.
      res_bind (from_framework framework (Some (registration_pattern_id entry)) (Some (entry_id entry))
        (Some (snd pair)) None) (\<lambda>coverage.
      res_bind (case ci_dispositions ci pair of None \<Rightarrow> Inl (PyKeyError (snd pair)) | Some s \<Rightarrow> Inr s) (\<lambda>status.
      let gate = conclude_gate ci pair growth ordered evaluations coverage status in
      res_bind (expected_verdict assertions coverage (Some gate)) (\<lambda>verdict.
      res_bind (build_lifecycle_certificate entry growth ordered (lr_guard durable) (lr_bound durable) (lr_release durable)
        assertions coverage verdict pm (Some gate)) (\<lambda>certificate.
      res_bind (finding_from_certificate certificate) (\<lambda>finding.
      Inr (certificate, finding))))))))))))"

section \<open>The stage\<close>

definition flow_pair :: "verified_flow \<Rightarrow> fact_pair" where
  "flow_pair flow = (vf_entry_id flow, vf_growth_id flow)"

definition lifecycle_present :: "conclude_inputs \<Rightarrow> verified_flow \<Rightarrow> unit res" where
  "lifecycle_present ci flow =
     (if ci_lifecycle ci (vf_path_id flow) = None
      then Inl (upstream_mismatch ''Lifecycle result is missing a flow path.'')
      else if list_ex (\<lambda>family. ci_coverage ci (vf_entry_id flow, vf_growth_id flow, vf_path_id flow, family) = None)
        [''guard'', ''bound'', ''release'']
      then Inl (upstream_mismatch ''Lifecycle family coverage is missing for a relevant flow.'')
      else Inr ())"

definition conclude_stage :: "conclude_inputs \<Rightarrow> verified_flow list \<Rightarrow> fact_pair list
    \<Rightarrow> (certificate \<times> static_finding) list res" where
  "conclude_stage ci flows eligible =
     (let relevant = filter (\<lambda>f. flow_pair f \<in> set eligible) flows in
      res_bind (fold_res (\<lambda>_ flow. lifecycle_present ci flow) () relevant) (\<lambda>_.
      map_res (\<lambda>pair. conclude_pair ci pair (filter (\<lambda>f. flow_pair f = pair) relevant))
        (usort (map flow_pair relevant))))"

end
