(* ===== verification/ConcludeLaws.thy ===== *)
theory ConcludeLaws
  imports Conclude
begin

text \<open>
  What the conclusion stage guarantees: path bounds agree with the plain evaluation, only pairs with
  one clear disposition and a flow may conclude, and a conclusion is exactly the formula over its
  facts.
\<close>

section \<open>Bounds of a path\<close>

lemma sort_key_sorted: "sorted (map f xs) \<Longrightarrow> sort_key f xs = xs"
  by (induction xs) (auto simp: insort_is_Cons)

lemma individual_bound_eq: "individual_bound entry growth flow configuration c = evaluate_bound entry growth flow [c] configuration ''complete''"
proof -
  have "is_framework_limit_candidate c \<Longrightarrow> framework_limit_reason_codes entry c \<noteq> None"
    by (simp add: is_framework_limit_candidate_def framework_limit_reason_codes_def)
  then have "is_framework_limit_candidate c \<Longrightarrow> normalize_framework_limit entry growth flow c configuration
      = res_bind (validate_context entry growth flow) (\<lambda>_. evaluate_bound entry growth flow [c] configuration ''complete'')"
    by (auto simp: normalize_framework_limit_def split: option.splits)
  then show ?thesis
    by (cases "validate_context entry growth flow") (auto simp: individual_bound_def evaluate_bound_def)
qed

lemma decide_bounds_effective:
  "list_ex (\<lambda>c. bound_reasons entry g configuration c = []) cs \<Longrightarrow> decide_bounds entry g configuration cs =
     \<lparr>bdec_status = BoundEffective, bdec_reasons = [],
      bdec_checks = concat (map (\<lambda>c. candidate_checks ''BOUND_'' ''bound_effective''
         (bound_reasons entry g configuration c) (bd_evidence c)) cs),
      bdec_evidence_ids = all_evidence bd_evidence cs,
      bdec_unresolved = usort (concat (map (bound_unresolved configuration) cs)),
      bdec_candidate_ids = map bound_id cs\<rparr>"
  by (simp add: decide_bounds_def Let_def)

lemma decide_bounds_checks: "bdec_checks (decide_bounds entry g configuration cs) =
    concat (map (\<lambda>c. candidate_checks ''BOUND_'' ''bound_effective'' (bound_reasons entry g configuration c) (bd_evidence c)) cs)"
  "bdec_evidence_ids (decide_bounds entry g configuration cs) = all_evidence bd_evidence cs"
  "bdec_unresolved (decide_bounds entry g configuration cs) = usort (concat (map (bound_unresolved configuration) cs))"
  by (simp_all add: decide_bounds_def Let_def case_prod_beta)

lemma path_bounds_eq:
  assumes "coverage \<in> set coverage_statuses"
  shows "evaluate_path_bounds entry growth flow cs configuration coverage = evaluate_bound entry growth flow cs configuration coverage"
proof (cases "cs = [] \<or> (\<exists>e. validate_context entry growth flow = Inl e)")
  case True
  then show ?thesis
    by (cases cs rule: rev_cases)
       (auto simp: evaluate_path_bounds_def Let_def individual_bound_eq evaluate_bound_def neq_Nil_conv
         dest!: arg_cong[of _ "[]" length] split: list.split)
next
  case False
  then obtain g where g: "validate_context entry growth flow = Inr g"
    by (cases "validate_context entry growth flow") auto
  define ordered where "ordered = sort_key bound_id cs"
  have ordered: "ordered \<noteq> []" "sort_key bound_id ordered = ordered"
    using False by (auto simp: ordered_def sort_key_sorted simp flip: set_empty)
  let ?one = "\<lambda>c. decide_bounds entry g configuration [c]"
  have "map_res (individual_bound entry growth flow configuration) ordered = Inr (map ?one ordered)"
    by (rule map_res_Inr) (simp add: individual_bound_eq evaluate_bound_def g coverage_statuses_def)
  moreover have all: "evaluate_bound entry growth flow xs configuration coverage = Inr (decide_bounds entry g configuration ordered)"
    if "xs = cs \<or> xs = ordered" for xs
    using that assms False ordered by (auto simp: evaluate_bound_def g ordered_def)
  moreover have some: "list_ex (\<lambda>d. bdec_status d = BoundEffective) (map ?one ordered)
      \<longleftrightarrow> list_ex (\<lambda>c. bound_reasons entry g configuration c = []) ordered"
    by (simp add: list_ex_iff decide_bounds_status bound_reasons_Nil)
  ultimately show ?thesis
    using ordered by (simp add: evaluate_path_bounds_def Let_def ordered_def[symmetric] decide_bounds_effective
      decide_bounds_checks comp_def all_evidence_def usort_eq_iff)
qed

text \<open>Evaluating the bounds of a path candidate by candidate, framework limits through their own
  normalizer, and joining the effective ones gives, on a verified path, exactly the decision of one
  evaluation over all candidates: it is effective exactly when some candidate bounds the demand, so
  the detour neither adds nor loses protection.\<close>

theorem path_bounds_equiv:
  assumes "lifecycle_context entry growth flow g" "coverage \<in> {''complete'', ''partial'', ''unsupported''}"
  shows "\<exists>d. evaluate_path_bounds entry growth flow cs configuration coverage = Inr d
    \<and> evaluate_bound entry growth flow cs configuration coverage = Inr d
    \<and> (bdec_status d = BoundEffective \<longleftrightarrow> (\<exists>c \<in> set cs. bound_protects entry g configuration c))"
proof -
  have "evaluate_path_bounds entry growth flow cs configuration coverage = evaluate_bound entry growth flow cs configuration coverage"
    using assms(2) by (intro path_bounds_eq) (simp add: coverage_statuses_def)
  moreover have "\<exists>d. evaluate_bound entry growth flow cs configuration coverage = Inr d
    \<and> (bdec_status d = BoundEffective \<longleftrightarrow> (\<exists>c \<in> set cs. bound_protects entry g configuration c))"
    using assms decide_bounds_status(1)[of entry g configuration "sort_key bound_id cs"]
    by (auto simp: evaluate_bound_def coverage_statuses_def validate_context_iff[symmetric])
  ultimately show ?thesis by auto
qed

section \<open>Eligible pairs\<close>

definition eligible_statuses :: "string set" where
  "eligible_statuses = {''formal_eligible'', ''gap_eligible''}"

text \<open>A disposition gives its status to a pair through one of its links.\<close>

definition grants :: "(string \<rightharpoonup> candidate_link) \<Rightarrow> disposition \<Rightarrow> fact_pair \<Rightarrow> string \<Rightarrow> bool" where
  "grants links_by_id d pair status \<longleftrightarrow> status \<in> eligible_statuses \<and> dp_status d = status \<and> snd pair = dp_growth_id d
     \<and> (\<exists>i \<in> set (dp_link_ids d). \<exists>l. links_by_id i = Some l \<and> lk_entry_id l = fst pair \<and> lk_growth_id l = snd pair)"

definition eligibility_ok :: "eligibility \<Rightarrow> bool" where
  "eligibility_ok state \<longleftrightarrow> set (fst state) = dom (snd state)"

lemma add_eligible_Inr:
  assumes "add_eligible status state pair = Inr state'" "eligibility_ok state"
  shows "eligibility_ok state' \<and> (\<forall>q t. snd state' q = Some t \<longleftrightarrow> snd state q = Some t \<or> q = pair \<and> t = status)"
  using assms by (cases state) (auto simp: add_eligible_def eligibility_ok_def split: if_split_asm)

lemma fold_add_eligible:
  assumes "fold_res (add_eligible status) state pairs = Inr state'" "eligibility_ok state"
  shows "eligibility_ok state' \<and> (\<forall>q t. snd state' q = Some t \<longleftrightarrow> snd state q = Some t \<or> q \<in> set pairs \<and> t = status)"
  using assms
proof (induction pairs arbitrary: state)
  case (Cons p ps)
  then obtain s1 where s1: "add_eligible status state p = Inr s1" "fold_res (add_eligible status) s1 ps = Inr state'"
    by (auto simp: res_bind_Inr_iff)
  show ?case
    using add_eligible_Inr[OF s1(1) Cons.prems(2)] Cons.IH[OF s1(2)] by auto
qed simp

lemma linked_pairs:
  assumes "map_res (linked_pair links_by_id flow_pairs growth) ids = Inr pairs"
  shows "set pairs \<subseteq> flow_pairs \<and> (pair \<in> set pairs \<longleftrightarrow> snd pair = growth
    \<and> (\<exists>i \<in> set ids. \<exists>l. links_by_id i = Some l \<and> lk_entry_id l = fst pair \<and> lk_growth_id l = snd pair))"
  using map_res_Inr_D[OF assms]
proof (induction rule: list_all2_induct)
  case (Cons i ids p ps)
  from Cons(1) obtain l where "links_by_id i = Some l" "lk_growth_id l = growth" "p = (lk_entry_id l, growth)" "p \<in> flow_pairs"
    by (auto simp: linked_pair_def split: option.splits if_split_asm)
  with Cons(3) show ?case by (cases pair) auto
qed simp

lemma add_disposition_Inr:
  assumes "add_disposition links_by_id flow_pairs state d = Inr state'" "eligibility_ok state" "dom (snd state) \<subseteq> flow_pairs"
  shows "eligibility_ok state' \<and> dom (snd state') \<subseteq> flow_pairs
    \<and> (\<forall>q t. snd state' q = Some t \<longleftrightarrow> snd state q = Some t \<or> grants links_by_id d q t)"
proof (cases "dp_status d \<in> eligible_statuses")
  case True
  then obtain pairs where pairs: "map_res (linked_pair links_by_id flow_pairs (dp_growth_id d)) (dp_link_ids d) = Inr pairs"
    "fold_res (add_eligible (dp_status d)) state pairs = Inr state'"
    using assms(1) by (auto simp: add_disposition_def eligible_statuses_def res_bind_Inr_iff split: if_split_asm)
  from fold_add_eligible[OF pairs(2) assms(2)]
  have folded: "eligibility_ok state'"
    "\<And>q t. snd state' q = Some t \<longleftrightarrow> snd state q = Some t \<or> q \<in> set pairs \<and> t = dp_status d" by auto
  have "q \<in> set pairs \<and> t = dp_status d \<longleftrightarrow> grants links_by_id d q t" for q t
    using linked_pairs[OF pairs(1), of q] True by (auto simp: grants_def)
  moreover have "dom (snd state') = dom (snd state) \<union> set pairs"
    using folded(2) by (auto simp del: split_paired_All split_paired_Ex)
  then have "dom (snd state') \<subseteq> flow_pairs"
    using assms(3) linked_pairs[OF pairs(1)] by simp
  ultimately show ?thesis using folded by auto
next
  case False
  with assms show ?thesis by (auto simp: add_disposition_def eligible_statuses_def grants_def)
qed

lemma fold_add_disposition:
  assumes "fold_res (add_disposition links_by_id flow_pairs) state ds = Inr state'" "eligibility_ok state"
    "dom (snd state) \<subseteq> flow_pairs"
  shows "eligibility_ok state' \<and> dom (snd state') \<subseteq> flow_pairs
    \<and> (\<forall>q t. snd state' q = Some t \<longleftrightarrow> snd state q = Some t \<or> (\<exists>d \<in> set ds. grants links_by_id d q t))"
  using assms
proof (induction ds arbitrary: state)
  case (Cons d ds)
  then obtain s1 where s1: "add_disposition links_by_id flow_pairs state d = Inr s1"
    "fold_res (add_disposition links_by_id flow_pairs) s1 ds = Inr state'"
    by (auto simp: res_bind_Inr_iff)
  show ?case
    using add_disposition_Inr[OF s1(1) Cons.prems(2,3)] Cons.IH[OF s1(2)] by auto
qed simp

text \<open>C29. The pairs that may publish a conclusion are exactly those to which a formally or gap
  eligible disposition of their Growth links them; each has a flow and exactly one status, so a
  pair that receives two different statuses is refused.\<close>

theorem eligible_pairs_exact:
  assumes "eligible_conclusion_pairs dispositions links flow_pairs = Inr (eligible, statuses)"
  shows "set eligible = dom statuses \<and> set eligible \<subseteq> flow_pairs
    \<and> (statuses (e, g) = Some s \<longleftrightarrow> s \<in> {''formal_eligible'', ''gap_eligible''}
        \<and> (\<exists>d \<in> set dispositions. dp_status d = s \<and> dp_growth_id d = g
             \<and> (\<exists>l \<in> set links. link_id l \<in> set (dp_link_ids d) \<and> lk_entry_id l = e \<and> lk_growth_id l = g)))"
proof -
  have distinct: "distinct (map link_id links)"
    and run: "fold_res (add_disposition (index_by link_id links) flow_pairs) ([], Map.empty) dispositions = Inr (eligible, statuses)"
    using assms by (auto simp: eligible_conclusion_pairs_def split: if_split_asm)
  have index: "index_by link_id links i = Some l \<longleftrightarrow> l \<in> set links \<and> link_id l = i" for i l
    using index_by_Some[of link_id links i l] index_by_unique[OF distinct, of l] by auto
  have start: "eligibility_ok ([], Map.empty)" by (simp add: eligibility_ok_def)
  from fold_add_disposition[OF run start]
  have "set eligible = dom statuses" "dom statuses \<subseteq> flow_pairs"
    "statuses (e, g) = Some s \<longleftrightarrow> (\<exists>d \<in> set dispositions. grants (index_by link_id links) d (e, g) s)"
    by (simp_all add: eligibility_ok_def)
  then show ?thesis
    unfolding grants_def index eligible_statuses_def by auto
qed

theorem eligible_pairs_exact_witness:
  "\<exists>eligible statuses. eligible_conclusion_pairs
      [\<lparr>dp_growth_id = ''growth:1'', dp_status = ''formal_eligible'', dp_link_ids = [''link:1'']\<rparr>,
       \<lparr>dp_growth_id = ''growth:2'', dp_status = ''rejected'', dp_link_ids = []\<rparr>]
      [\<lparr>link_id = ''link:1'', lk_entry_id = ''entry:1'', lk_growth_id = ''growth:1''\<rparr>]
      {(''entry:1'', ''growth:1'')} = Inr (eligible, statuses)
    \<and> statuses (''entry:1'', ''growth:1'') = Some ''formal_eligible''
    \<and> set eligible \<subseteq> {(''entry:1'', ''growth:1'')}"
proof -
  let ?run = "eligible_conclusion_pairs
      [\<lparr>dp_growth_id = ''growth:1'', dp_status = ''formal_eligible'', dp_link_ids = [''link:1'']\<rparr>,
       \<lparr>dp_growth_id = ''growth:2'', dp_status = ''rejected'', dp_link_ids = []\<rparr>]
      [\<lparr>link_id = ''link:1'', lk_entry_id = ''entry:1'', lk_growth_id = ''growth:1''\<rparr>]
      {(''entry:1'', ''growth:1'')}"
  obtain eligible statuses where run: "?run = Inr (eligible, statuses)"
    by (simp add: eligible_conclusion_pairs_def index_by_def add_disposition_def linked_pair_def add_eligible_def)
  show ?thesis
    using eligible_pairs_exact[OF run, of "''entry:1''" "''growth:1''" "''formal_eligible''"] run by auto
qed

section \<open>The conclusion on one pair\<close>

lemma path_evaluations:
  assumes "map_res (path_evaluation growth durable pm) flows = Inr evs"
  shows "expected_assertions growth flows (lr_guard durable) (lr_bound durable) (lr_release durable) pm
      = Inr (concat (map (\<lambda>(_, a1, a2). [a1, a2]) evs))"
    "list_all2 (\<lambda>flow (flow', a1, a2). flow' = flow
       \<and> evaluate_assertion_1 growth flow (lr_guard durable) (lr_bound durable) (pr_amplification pm) (pr_reachability pm) = Inr a1
       \<and> evaluate_assertion_2 growth flow (lr_bound durable) (lr_release durable) (pr_reachability pm) (pr_repeatability pm) = Inr a2)
       flows evs"
proof -
  have "map_res (path_assertions growth (lr_guard durable) (lr_bound durable) (lr_release durable) pm) flows
      = Inr (map (\<lambda>(_, a1, a2). [a1, a2]) evs)"
    using assms by (induction flows arbitrary: evs)
      (auto simp: path_evaluation_def path_assertions_def res_bind_def split: sum.splits)
  then show "expected_assertions growth flows (lr_guard durable) (lr_bound durable) (lr_release durable) pm
      = Inr (concat (map (\<lambda>(_, a1, a2). [a1, a2]) evs))"
    by (simp add: expected_assertions_def)
  show "list_all2 (\<lambda>flow (flow', a1, a2). flow' = flow
       \<and> evaluate_assertion_1 growth flow (lr_guard durable) (lr_bound durable) (pr_amplification pm) (pr_reachability pm) = Inr a1
       \<and> evaluate_assertion_2 growth flow (lr_bound durable) (lr_release durable) (pr_reachability pm) (pr_repeatability pm) = Inr a2)
       flows evs"
    by (rule list_all2_mono[OF map_res_Inr_D[OF assms]]) (auto simp: path_evaluation_def res_bind_Inr_iff)
qed

lemma framework_item_Inr:
  assumes "framework_item ci entry = Inr fc"
  shows "fc_framework fc = e_framework entry \<and> fc_supported fc = [] \<or> ci_frameworks ci (e_framework entry) = Some fc"
  using assms
  by (auto simp: framework_item_def FrameworkCoverage_def coverage_patterns_def res_bind_Inr_iff split: option.splits if_split_asm)

lemma from_framework_valid:
  assumes "from_framework fc (Some p) entry growth path = Inr c"
  shows "CandidateCoverage c = Inr c" "cc_status c = ''complete'' \<Longrightarrow> p \<in> set (fc_supported fc)"
  using assms by (auto simp: from_framework_def CandidateCoverage_Inr split: if_split_asm)

lemma conclude_pair_Inr:
  assumes "conclude_pair ci (e, g) paths = Inr (c, f)" "ci_entries ci e = Some entry" "ci_growth ci g = Some growth"
  obtains durable evaluations framework coverage status verdict where
    "paths \<noteq> []" "\<forall>p \<in> set paths. ci_lifecycle ci (vf_path_id p) = Some durable"
    "map_res (path_evaluation growth durable (pair_premises ci (e, g))) (sort_key vf_path_id paths) = Inr evaluations"
    "framework_item ci entry = Inr framework"
    "from_framework framework (Some (registration_pattern_id entry)) (Some (entry_id entry)) (Some g) None = Inr coverage"
    "ci_dispositions ci (e, g) = Some status"
    "expected_verdict (concat (map (\<lambda>(_, a1, a2). [a1, a2]) evaluations)) coverage
       (Some (conclude_gate ci (e, g) growth (sort_key vf_path_id paths) evaluations coverage status)) = Inr verdict"
    "build_lifecycle_certificate entry growth (sort_key vf_path_id paths) (lr_guard durable) (lr_bound durable)
       (lr_release durable) (concat (map (\<lambda>(_, a1, a2). [a1, a2]) evaluations)) coverage verdict (pair_premises ci (e, g))
       (Some (conclude_gate ci (e, g) growth (sort_key vf_path_id paths) evaluations coverage status)) = Inr c"
    "finding_from_certificate c = Inr f"
proof -
  have "paths \<noteq> []" using assms(1) by (auto simp: conclude_pair_def Let_def)
  then have ne: "sort_key vf_path_id paths \<noteq> []" by (simp flip: set_empty)
  obtain durable where d: "ci_lifecycle ci (vf_path_id (hd (sort_key vf_path_id paths))) = Some durable"
    "\<not> list_ex (\<lambda>flow. ci_lifecycle ci (vf_path_id flow) \<noteq> Some durable) (tl (sort_key vf_path_id paths))"
    using assms ne by (auto simp: conclude_pair_def Let_def item_def res_bind_Inr_iff split: option.splits if_split_asm)
  have "\<forall>p \<in> set (hd (sort_key vf_path_id paths) # tl (sort_key vf_path_id paths)). ci_lifecycle ci (vf_path_id p) = Some durable"
    using d by (simp add: list_ex_iff)
  then have same: "\<forall>p \<in> set paths. ci_lifecycle ci (vf_path_id p) = Some durable"
    unfolding list.collapse[OF ne] by simp
  show thesis
    using assms(1) that[OF \<open>paths \<noteq> []\<close> same] ne d
    by (simp add: conclude_pair_def Let_def assms(2,3) res_bind_Inr_iff if_bool_eq_conj
        split: option.splits) blast
qed

text \<open>What has to hold before a pair may receive a vulnerable or a bounded conclusion.\<close>

definition pair_established :: "conclude_inputs \<Rightarrow> fact_pair \<Rightarrow> entry_fact \<Rightarrow> verified_growth \<Rightarrow> verified_flow list \<Rightarrow> bool" where
  "pair_established ci pair entry growth paths \<longleftrightarrow>
     (\<exists>fc. ci_frameworks ci (e_framework entry) = Some fc \<and> registration_pattern_id entry \<in> set (fc_supported fc))
   \<and> (\<exists>r. ci_reachability ci (fst pair) = Some r \<and> pv_status r = Some ''ordinary_attacker_reachable'')
   \<and> vg_status growth = Verified \<and> (\<forall>p \<in> set paths. satisfies_premise p)
   \<and> ci_dispositions ci pair = Some ''formal_eligible''"

text \<open>A path of the pair is exposed under its own lifecycle decisions and complete coverage of the
  families its assertion relies on.\<close>

definition path_exposed :: "conclude_inputs \<Rightarrow> fact_pair \<Rightarrow> verified_growth \<Rightarrow> verified_flow \<Rightarrow> bool" where
  "path_exposed ci pair growth p \<longleftrightarrow> (\<exists>d. ci_lifecycle ci (vf_path_id p) = Some d
     \<and> (exposed_once growth p (lr_guard d) (lr_bound d) (pair_premises ci pair)
          \<and> families_complete ci pair [''guard'', ''bound''] p
        \<or> exposed_repeatedly growth p (lr_bound d) (lr_release d) (pair_premises ci pair)
          \<and> families_complete ci pair [''bound'', ''release''] p))"

lemma all_kept: "length (filter P xs) = length xs \<Longrightarrow> \<forall>x \<in> set xs. P x"
  using length_filter_less[of _ xs P] by (metis less_irrefl)

lemma conclude_gate_established:
  assumes "proof_complete (conclude_gate ci pair growth ordered evaluations coverage status)"
    "framework_item ci entry = Inr framework"
    "from_framework framework (Some (registration_pattern_id entry)) x y z = Inr coverage"
    "ci_dispositions ci pair = Some status" "set ordered = set paths"
  shows "pair_established ci pair entry growth paths"
proof -
  have gate: "cc_status coverage = ''complete''" "vg_status growth = Verified" "status = ''formal_eligible''"
    "length (filter satisfies_premise ordered) = length ordered"
    "(case ci_reachability ci (fst pair) of None \<Rightarrow> False | Some r \<Rightarrow> pv_status r = Some ''ordinary_attacker_reachable'')"
    using assms(1)
    by (simp_all add: proof_complete_def conclude_gate_def Let_def candidate_relevant_gap_free_status_def)
  have "registration_pattern_id entry \<in> set (fc_supported framework)"
    by (rule from_framework_valid(2)[OF assms(3) gate(1)])
  with framework_item_Inr[OF assms(2)]
  have "\<exists>fc. ci_frameworks ci (e_framework entry) = Some fc \<and> registration_pattern_id entry \<in> set (fc_supported fc)" by auto
  moreover have "\<forall>p \<in> set ordered. satisfies_premise p"
    by (rule all_kept[OF gate(4)])
  ultimately show ?thesis
    using gate assms(4,5) by (auto simp: pair_established_def split: option.splits)
qed

lemma evaluation_of:
  assumes "map_res (path_evaluation growth durable pm) flows = Inr evs" "p \<in> set flows"
  obtains a1 a2 where "(p, a1, a2) \<in> set evs"
    "evaluate_assertion_1 growth p (lr_guard durable) (lr_bound durable) (pr_amplification pm) (pr_reachability pm) = Inr a1"
    "evaluate_assertion_2 growth p (lr_bound durable) (lr_release durable) (pr_reachability pm) (pr_repeatability pm) = Inr a2"
  using map_res_Inr_member[OF assms] by (auto simp: path_evaluation_def res_bind_Inr_iff)

lemma exposed_covered:
  assumes "proof_complete (conclude_gate ci pair growth ordered evs coverage status)"
    "map_res (path_evaluation growth durable (pair_premises ci pair)) ordered = Inr evs"
    "p \<in> set ordered" "ci_lifecycle ci (vf_path_id p) = Some durable"
  shows "path_exposed ci pair growth p \<longleftrightarrow>
      exposed_once growth p (lr_guard durable) (lr_bound durable) (pair_premises ci pair)
    \<or> exposed_repeatedly growth p (lr_bound durable) (lr_release durable) (pair_premises ci pair)"
proof -
  obtain a1 a2 where a: "(p, a1, a2) \<in> set evs"
    "evaluate_assertion_1 growth p (lr_guard durable) (lr_bound durable) (pr_amplification (pair_premises ci pair))
       (pr_reachability (pair_premises ci pair)) = Inr a1"
    "evaluate_assertion_2 growth p (lr_bound durable) (lr_release durable) (pr_reachability (pair_premises ci pair))
       (pr_repeatability (pair_premises ci pair)) = Inr a2"
    using evaluation_of[OF assms(2,3)] .
  have "as_status a1 \<noteq> NotApplicable \<Longrightarrow> families_complete ci pair [''guard'', ''bound''] p"
    "as_status a2 \<noteq> NotApplicable \<Longrightarrow> families_complete ci pair [''bound'', ''release''] p"
    using assms(1) a(1) by (auto simp: proof_complete_def conclude_gate_def Let_def list_all_iff)
  moreover have "exposed_once growth p (lr_guard durable) (lr_bound durable) (pair_premises ci pair) \<Longrightarrow> as_status a1 = Matched"
    "exposed_repeatedly growth p (lr_bound durable) (lr_release durable) (pair_premises ci pair) \<Longrightarrow> as_status a2 = Matched"
    unfolding exposed_once_def exposed_repeatedly_def assertion_1_status(2)[OF a(2)] assertion_2_status(2)[OF a(3)] by blast+
  ultimately show ?thesis
    using assms(4) by (auto simp: path_exposed_def)
qed

lemma conclude_pair_verdict:
  assumes "conclude_pair ci (e, g) paths = Inr (c, f)" "ci_entries ci e = Some entry" "ci_growth ci g = Some growth"
  shows "fd_certificate_id f = certificate_id c \<and> fd_verdict f = ct_verdict c \<and> ct_verdict c \<in> range verdict_text
    \<and> (ct_verdict c \<noteq> verdict_text StaticUnknown \<longrightarrow> pair_established ci (e, g) entry growth paths)
    \<and> (ct_verdict c = verdict_text StaticVulnerable \<longrightarrow> (\<exists>p \<in> set paths. path_exposed ci (e, g) growth p))
    \<and> (ct_verdict c = verdict_text BoundedUnderModel \<longrightarrow> (\<forall>p \<in> set paths. \<not> path_exposed ci (e, g) growth p))"
  using assms
proof (rule conclude_pair_Inr)
  fix durable :: lifecycle_record and evs and framework :: framework_coverage and coverage :: candidate_coverage
    and status and verdict :: static_verdict
  let ?ordered = "sort_key vf_path_id paths"
  let ?gate = "conclude_gate ci (e, g) growth ?ordered evs coverage status"
  let ?as = "concat (map (\<lambda>(_, a1, a2). [a1, a2]) evs)"
  let ?exposed = "\<lambda>p. exposed_once growth p (lr_guard durable) (lr_bound durable) (pair_premises ci (e, g))
    \<or> exposed_repeatedly growth p (lr_bound durable) (lr_release durable) (pair_premises ci (e, g))"
  assume life: "\<forall>p \<in> set paths. ci_lifecycle ci (vf_path_id p) = Some durable"
    and evs: "map_res (path_evaluation growth durable (pair_premises ci (e, g))) ?ordered = Inr evs"
    and item: "framework_item ci entry = Inr framework"
    and cov: "from_framework framework (Some (registration_pattern_id entry)) (Some (entry_id entry)) (Some g) None = Inr coverage"
    and status: "ci_dispositions ci (e, g) = Some status"
    and v: "expected_verdict ?as coverage (Some ?gate) = Inr verdict"
    and c: "build_lifecycle_certificate entry growth ?ordered (lr_guard durable) (lr_bound durable)
       (lr_release durable) ?as coverage verdict (pair_premises ci (e, g)) (Some ?gate) = Inr c"
    and f: "finding_from_certificate c = Inr f"
  note certified = build_certificate_verdict[OF c]
  have finding: "fd_certificate_id f = certificate_id c \<and> fd_verdict f = ct_verdict c"
    using f by (auto simp: finding_from_certificate_def StaticFinding_def res_bind_Inr_iff split: if_split_asm)
  have complete: "sv_verdict verdict \<noteq> StaticUnknown \<Longrightarrow> proof_complete ?gate"
    using expected_vulnerable[OF v] expected_bounded[OF v] by (cases "sv_verdict verdict") auto
  have established: "sv_verdict verdict \<noteq> StaticUnknown \<Longrightarrow> pair_established ci (e, g) entry growth paths"
    by (rule conclude_gate_established[OF complete item cov status]) simp_all
  have exposed: "sv_verdict verdict \<noteq> StaticUnknown \<Longrightarrow> p \<in> set paths \<Longrightarrow> path_exposed ci (e, g) growth p \<longleftrightarrow> ?exposed p" for p
    using exposed_covered[OF complete evs, of p] life by simp
  have matched: "(\<exists>a \<in> set ?as. as_status a = Matched) \<longleftrightarrow> (\<exists>p \<in> set paths. ?exposed p)"
    using matched_exposed[OF path_evaluations(1)[OF evs]] by (simp only: set_sort)
  have "\<exists>p \<in> set paths. path_exposed ci (e, g) growth p" if vulnerable: "sv_verdict verdict = StaticVulnerable"
  proof -
    obtain p where "p \<in> set paths" "?exposed p"
      using expected_vulnerable[OF v vulnerable] unfolding matched by blast
    then show ?thesis using exposed[of p] vulnerable by auto
  qed
  moreover have "\<forall>p \<in> set paths. \<not> path_exposed ci (e, g) growth p" if bounded: "sv_verdict verdict = BoundedUnderModel"
  proof
    fix p assume p: "p \<in> set paths"
    have "\<not> (\<exists>a \<in> set ?as. as_status a = Matched)" using expected_bounded[OF v bounded] by force
    then show "\<not> path_exposed ci (e, g) growth p" unfolding matched using exposed[of p] bounded p by auto
  qed
  moreover have "ct_verdict c \<in> range verdict_text"
    using certified[of "sv_verdict verdict"] by simp
  ultimately have "fd_certificate_id f = certificate_id c" "fd_verdict f = ct_verdict c" "ct_verdict c \<in> range verdict_text"
    "sv_verdict verdict \<noteq> StaticUnknown \<longrightarrow> pair_established ci (e, g) entry growth paths"
    "sv_verdict verdict = StaticVulnerable \<longrightarrow> (\<exists>p \<in> set paths. path_exposed ci (e, g) growth p)"
    "sv_verdict verdict = BoundedUnderModel \<longrightarrow> (\<forall>p \<in> set paths. \<not> path_exposed ci (e, g) growth p)"
    using finding established by simp_all
  then show ?thesis
    unfolding certified by (intro conjI)
qed

text \<open>A bounded conclusion means that every demand on every path is refuted, and that there is one.\<close>

lemma assertion_1_inapplicable:
  assumes "evaluate_assertion_1 growth flow guard bound amplification reachability = Inr a" "as_status a = NotApplicable"
  shows "\<not> (reach_admitted reachability \<and> single_request_demand growth flow amplification)"
  using assms(1)[unfolded evaluate_assertion_1_def res_bind_Inr_iff Let_def assertion_tests] assms(2)
  by (auto split: if_split_asm dest!: assertion_result_Inr)

lemma assertion_2_inapplicable:
  assumes "evaluate_assertion_2 growth flow bound release reachability repeatability = Inr a" "as_status a = NotApplicable"
  shows "\<not> (reach_admitted reachability \<and> persistent_demand growth flow repeatability)"
  using assms(1)[unfolded evaluate_assertion_2_def res_bind_Inr_iff Let_def assertion_tests] assms(2)
  unfolding persistent_demand_def
  by (auto split: if_split_asm option.split_asm dest!: assertion_result_Inr)

definition demand_refuted :: "verified_growth \<Rightarrow> lifecycle_record \<Rightarrow> path_premises \<Rightarrow> verified_flow \<Rightarrow> bool" where
  "demand_refuted growth d pm p \<longleftrightarrow>
     (single_request_demand growth p (pr_amplification pm) \<longrightarrow>
        gdec_status (lr_guard d) = GuardEffective \<or> bdec_status (lr_bound d) = BoundEffective)
   \<and> (persistent_demand growth p (pr_repeatability pm) \<longrightarrow>
        bdec_status (lr_bound d) = BoundEffective \<or> rdec_status (lr_release d) = ReleaseEffective)"

lemma evaluation_members:
  assumes "(p, a1, a2) \<in> set evs"
  shows "a1 \<in> set (concat (map (\<lambda>(_, a1, a2). [a1, a2]) evs))" "a2 \<in> set (concat (map (\<lambda>(_, a1, a2). [a1, a2]) evs))"
  using assms by force+

lemma conclude_pair_bounded:
  assumes "conclude_pair ci (e, g) paths = Inr (c, f)" "ci_entries ci e = Some entry" "ci_growth ci g = Some growth"
    "ct_verdict c = verdict_text BoundedUnderModel"
  shows "\<exists>d. (\<forall>p \<in> set paths. ci_lifecycle ci (vf_path_id p) = Some d \<and> demand_refuted growth d (pair_premises ci (e, g)) p)
    \<and> (\<exists>p \<in> set paths. single_request_demand growth p (pr_amplification (pair_premises ci (e, g)))
         \<or> persistent_demand growth p (pr_repeatability (pair_premises ci (e, g))))"
  using assms(1-3)
proof (rule conclude_pair_Inr)
  fix durable :: lifecycle_record and evs and coverage :: candidate_coverage and status and verdict :: static_verdict
  let ?ordered = "sort_key vf_path_id paths"
  let ?pm = "pair_premises ci (e, g)"
  let ?gate = "conclude_gate ci (e, g) growth ?ordered evs coverage status"
  let ?as = "concat (map (\<lambda>(_, a1, a2). [a1, a2]) evs)"
  assume life: "\<forall>p \<in> set paths. ci_lifecycle ci (vf_path_id p) = Some durable"
    and evs: "map_res (path_evaluation growth durable ?pm) ?ordered = Inr evs"
    and v: "expected_verdict ?as coverage (Some ?gate) = Inr verdict"
    and c: "build_lifecycle_certificate entry growth ?ordered (lr_guard durable) (lr_bound durable)
       (lr_release durable) ?as coverage verdict ?pm (Some ?gate) = Inr c"
  have "sv_verdict verdict = BoundedUnderModel"
    using assms(4) unfolding build_certificate_verdict[OF c] .
  note bounded = expected_bounded[OF v this]
  have refuted: "\<forall>a \<in> set ?as. as_status a \<in> {Refuted, NotApplicable}" "\<exists>a \<in> set ?as. as_status a = Refuted"
    and "proof_complete ?gate"
    using bounded by blast+
  then have reach: "reach_admitted (pr_reachability ?pm)"
    by (auto simp: proof_complete_def conclude_gate_def Let_def reach_admitted_def pair_premises_def decision_status_def
        split: option.splits)
  have "demand_refuted growth durable ?pm p" if p: "p \<in> set paths" for p
  proof -
    obtain a1 a2 where a: "(p, a1, a2) \<in> set evs"
      "evaluate_assertion_1 growth p (lr_guard durable) (lr_bound durable) (pr_amplification ?pm) (pr_reachability ?pm) = Inr a1"
      "evaluate_assertion_2 growth p (lr_bound durable) (lr_release durable) (pr_reachability ?pm) (pr_repeatability ?pm) = Inr a2"
      using evaluation_of[OF evs] p by (metis set_sort)
    have status: "as_status a1 \<in> {Refuted, NotApplicable}" "as_status a2 \<in> {Refuted, NotApplicable}"
      using evaluation_members[OF a(1)] refuted(1) by (blast dest: bspec)+
    have "single_request_demand growth p (pr_amplification ?pm) \<Longrightarrow> as_status a1 = Refuted"
      using assertion_1_inapplicable[OF a(2)] reach status(1) by blast
    moreover have "persistent_demand growth p (pr_repeatability ?pm) \<Longrightarrow> as_status a2 = Refuted"
      using assertion_2_inapplicable[OF a(3)] reach status(2) by blast
    ultimately show ?thesis
      unfolding demand_refuted_def assertion_1_status(3)[OF a(2)] assertion_2_status(3)[OF a(3)] by blast
  qed
  moreover have "\<exists>p \<in> set paths. single_request_demand growth p (pr_amplification ?pm) \<or> persistent_demand growth p (pr_repeatability ?pm)"
  proof -
    obtain a where a: "a \<in> set ?as" "as_status a = Refuted" using refuted(2) by blast
    note member = expected_assertions_iff[OF path_evaluations(1)[OF evs], of a, unfolded set_sort]
    obtain p where p: "p \<in> set paths"
      "evaluate_assertion_1 growth p (lr_guard durable) (lr_bound durable) (pr_amplification ?pm) (pr_reachability ?pm) = Inr a
       \<or> evaluate_assertion_2 growth p (lr_bound durable) (lr_release durable) (pr_reachability ?pm) (pr_repeatability ?pm) = Inr a"
      using a(1) unfolding member by blast
    from p(2) a(2) have "single_request_demand growth p (pr_amplification ?pm) \<or> persistent_demand growth p (pr_repeatability ?pm)"
      using assertion_1_status(3)[of growth p "lr_guard durable" "lr_bound durable" "pr_amplification ?pm" "pr_reachability ?pm" a]
        assertion_2_status(3)[of growth p "lr_bound durable" "lr_release durable" "pr_reachability ?pm" "pr_repeatability ?pm" a]
      by blast
    with p(1) show ?thesis by blast
  qed
  ultimately show ?thesis using life by blast
qed

section \<open>The stage\<close>

definition keyed_inputs :: "conclude_inputs \<Rightarrow> bool" where
  "keyed_inputs ci \<longleftrightarrow> (\<forall>e entry. ci_entries ci e = Some entry \<longrightarrow> entry_id entry = e)
     \<and> (\<forall>g growth. ci_growth ci g = Some growth \<longrightarrow> vg_growth_id growth = g)"

lemma conclude_pair_known:
  assumes "conclude_pair ci (e, g) paths = Inr r"
  obtains entry growth where "ci_entries ci e = Some entry" "ci_growth ci g = Some growth"
proof -
  have "ci_entries ci e \<noteq> None" "ci_growth ci g \<noteq> None"
    using assms by (auto simp: conclude_pair_def Let_def item_def res_bind_Inr_iff split: if_split_asm option.splits)
  with that show thesis by blast
qed

lemma conclude_pair_ids:
  assumes "conclude_pair ci (e, g) paths = Inr (c, f)" "keyed_inputs ci"
  shows "(ct_entry_id c, ct_growth_id c) = (e, g)" "ct_path_ids c = usort (map vf_path_id paths)"
proof -
  obtain entry growth where known: "ci_entries ci e = Some entry" "ci_growth ci g = Some growth"
    using assms(1) by (rule conclude_pair_known)
  have "(\<exists>guard bound release assertions coverage verdict pm gate.
    build_lifecycle_certificate entry growth (sort_key vf_path_id paths) guard bound release assertions coverage verdict pm gate = Inr c)"
    using assms(1) known by (rule conclude_pair_Inr) blast
  then obtain guard bound release assertions coverage verdict pm gate where
    b: "build_lifecycle_certificate entry growth (sort_key vf_path_id paths) guard bound release assertions coverage verdict pm gate = Inr c"
    by blast
  have ids: "entry_id entry = e" "vg_growth_id growth = g"
    using assms(2) known by (auto simp: keyed_inputs_def)
  have paths: "usort (map vf_path_id (sort_key vf_path_id paths)) = usort (map vf_path_id paths)"
    by (rule usort_cong) simp
  show "(ct_entry_id c, ct_growth_id c) = (e, g)" "ct_path_ids c = usort (map vf_path_id paths)"
    by (rule build_certificate_Inr[OF b], simp add: certificate_of_def Let_def ids paths)+
qed

text \<open>C11. The stage publishes one certificate and one finding for each eligible pair that has a flow,
  in the order of the pairs and over all flows of the pair. A published determinate verdict rests on
  an established pair (exact registration covered, ordinary attacker reachability, verified Growth,
  every path proven, formally eligible); it is vulnerable only if some path is exposed under complete
  lifecycle coverage, and bounded only if none is.\<close>

theorem conclude_stage_sound:
  assumes "conclude_stage ci flows eligible = Inr results" "keyed_inputs ci"
  shows "map (\<lambda>(c, f). (ct_entry_id c, ct_growth_id c)) results
      = usort (filter (\<lambda>p. p \<in> set eligible) (map flow_pair flows))
    \<and> (\<forall>(c, f) \<in> set results. \<exists>entry growth paths.
         ci_entries ci (ct_entry_id c) = Some entry \<and> ci_growth ci (ct_growth_id c) = Some growth
       \<and> paths = filter (\<lambda>p. flow_pair p = (ct_entry_id c, ct_growth_id c)) flows
       \<and> ct_path_ids c = usort (map vf_path_id paths) \<and> fd_certificate_id f = certificate_id c \<and> fd_verdict f = ct_verdict c
       \<and> (ct_verdict c \<noteq> verdict_text StaticUnknown \<longrightarrow> pair_established ci (ct_entry_id c, ct_growth_id c) entry growth paths)
       \<and> (ct_verdict c = verdict_text StaticVulnerable \<longrightarrow>
            (\<exists>p \<in> set paths. path_exposed ci (ct_entry_id c, ct_growth_id c) growth p))
       \<and> (ct_verdict c = verdict_text BoundedUnderModel \<longrightarrow>
            (\<forall>p \<in> set paths. \<not> path_exposed ci (ct_entry_id c, ct_growth_id c) growth p)))"
proof -
  define relevant where "relevant = filter (\<lambda>f. flow_pair f \<in> set eligible) flows"
  define pairs where "pairs = usort (map flow_pair relevant)"
  have pairs: "pairs = usort (filter (\<lambda>p. p \<in> set eligible) (map flow_pair flows))"
    by (simp add: pairs_def relevant_def filter_map comp_def)
  have "map_res (\<lambda>pair. conclude_pair ci pair (filter (\<lambda>f. flow_pair f = pair) relevant)) pairs = Inr results"
    using assms(1) by (auto simp: conclude_stage_def Let_def res_bind_Inr_iff relevant_def pairs_def)
  then have run: "list_all2 (\<lambda>pair r. conclude_pair ci pair (filter (\<lambda>f. flow_pair f = pair) relevant) = Inr r) pairs results"
    by (rule map_res_Inr_D)
  have ids: "map (\<lambda>(c, f). (ct_entry_id c, ct_growth_id c)) results = pairs"
    using run by (induction rule: list_all2_induct)
      (auto simp: conclude_pair_ids(1)[OF _ assms(2), simplified])
  have "\<forall>r \<in> set results. \<exists>pair \<in> set pairs. conclude_pair ci pair (filter (\<lambda>f. flow_pair f = pair) relevant) = Inr r"
    using run by (induction rule: list_all2_induct) auto
  moreover have "filter (\<lambda>f. flow_pair f = pair) relevant = filter (\<lambda>f. flow_pair f = pair) flows" if "pair \<in> set pairs" for pair
    using that by (auto simp: relevant_def pairs intro!: filter_cong)
  ultimately have "\<forall>(c, f) \<in> set results. \<exists>e g. conclude_pair ci (e, g) (filter (\<lambda>p. flow_pair p = (e, g)) flows) = Inr (c, f)"
    by fastforce
  note each = this
  show ?thesis
  proof (intro conjI ballI, simp only: ids pairs, clarify)
    fix c f assume "(c, f) \<in> set results"
    with each obtain e g where run: "conclude_pair ci (e, g) (filter (\<lambda>p. flow_pair p = (e, g)) flows) = Inr (c, f)" by blast
    obtain entry growth where known: "ci_entries ci e = Some entry" "ci_growth ci g = Some growth"
      using run by (rule conclude_pair_known)
    have eg: "ct_entry_id c = e" "ct_growth_id c = g"
      using conclude_pair_ids(1)[OF run assms(2)] by simp_all
    show "\<exists>entry growth paths.
         ci_entries ci (ct_entry_id c) = Some entry \<and> ci_growth ci (ct_growth_id c) = Some growth
       \<and> paths = filter (\<lambda>p. flow_pair p = (ct_entry_id c, ct_growth_id c)) flows
       \<and> ct_path_ids c = usort (map vf_path_id paths) \<and> fd_certificate_id f = certificate_id c \<and> fd_verdict f = ct_verdict c
       \<and> (ct_verdict c \<noteq> verdict_text StaticUnknown \<longrightarrow> pair_established ci (ct_entry_id c, ct_growth_id c) entry growth paths)
       \<and> (ct_verdict c = verdict_text StaticVulnerable \<longrightarrow>
            (\<exists>p \<in> set paths. path_exposed ci (ct_entry_id c, ct_growth_id c) growth p))
       \<and> (ct_verdict c = verdict_text BoundedUnderModel \<longrightarrow>
            (\<forall>p \<in> set paths. \<not> path_exposed ci (ct_entry_id c, ct_growth_id c) growth p))"
      unfolding eg
      by (intro exI[of _ entry] exI[of _ growth] exI[of _ "filter (\<lambda>p. flow_pair p = (e, g)) flows"] conjI refl)
         (use known conclude_pair_ids(2)[OF run assms(2)] conclude_pair_verdict[OF run known] in blast)+
  qed
qed

section \<open>The stage returns\<close>

lemma framework_item_total:
  assumes "e_framework entry \<in> set entry_frameworks"
    "\<And>fc. ci_frameworks ci (e_framework entry) = Some fc \<Longrightarrow> fc_framework fc = e_framework entry"
  shows "\<exists>fc. framework_item ci entry = Inr fc \<and> fc_framework fc = e_framework entry"
proof -
  have pattern: "map_res (\<lambda>v. if \<not> good_string v then Inl (coverage_invalid ''PATTERN_INVALID'' (Some field))
      else if length v > max_string_bytes then Inl (coverage_invalid ''PATTERN_LIMIT'' (Some field)) else Inr v)
      [''no_coverage''] = Inr [''no_coverage'']" for field
    by (simp add: good_string_def max_string_bytes_def)
  have "\<exists>fc. FrameworkCoverage (e_framework entry) ''unsupported'' [] [''no_coverage''] ''forces_unknown'' = Inr fc
      \<and> fc_framework fc = e_framework entry"
    unfolding FrameworkCoverage_def coverage_patterns_def pattern using assms(1) by simp
  then show ?thesis
    using assms(2) by (auto simp: framework_item_def split: option.split)
qed

definition decision_refs :: "lifecycle_record \<Rightarrow> string list" where
  "decision_refs d = gdec_evidence_ids (lr_guard d) @ gdec_candidate_ids (lr_guard d) @ bdec_evidence_ids (lr_bound d)
     @ bdec_candidate_ids (lr_bound d) @ rdec_evidence_ids (lr_release d) @ rdec_candidate_ids (lr_release d)"

definition decision_facts :: "lifecycle_record \<Rightarrow> string list" where
  "decision_facts d = gdec_unresolved (lr_guard d) @ bdec_unresolved (lr_bound d) @ rdec_unresolved (lr_release d)"

text \<open>Facts of one pair as the earlier stages produce them.\<close>

definition pair_ready :: "conclude_inputs \<Rightarrow> fact_pair \<Rightarrow> verified_flow list \<Rightarrow> bool" where
  "pair_ready ci pair paths \<longleftrightarrow> (\<exists>entry growth durable.
     ci_entries ci (fst pair) = Some entry \<and> ci_growth ci (snd pair) = Some growth
   \<and> entry_id entry = fst pair \<and> vg_growth_id growth = snd pair
   \<and> certificate_facts entry growth paths (lr_guard durable) (lr_bound durable) (lr_release durable)
   \<and> (\<forall>p \<in> set paths. ci_lifecycle ci (vf_path_id p) = Some durable
        \<and> named_inputs growth p (decision_refs durable) (decision_facts durable)
        \<and> (\<forall>i \<in> set (assertion_ids growth p (decision_refs durable)).
             (startswith i ''entry:'' \<longrightarrow> i = entry_id entry) \<and> (startswith i ''flow:'' \<longrightarrow> i \<in> vf_path_id ` set paths)))
   \<and> e_framework entry \<in> set entry_frameworks
   \<and> (\<forall>fc. ci_frameworks ci (e_framework entry) = Some fc \<longrightarrow> fc_framework fc = e_framework entry)
   \<and> registration_pattern_id entry \<noteq> []
   \<and> registration_coverage_pattern_belongs_to_framework (e_framework entry) (registration_pattern_id entry)
   \<and> ci_dispositions ci pair \<noteq> None)"

lemma path_evaluation_total:
  assumes "named_inputs growth p (decision_refs d) (decision_facts d)"
  shows "\<exists>r. path_evaluation growth d pm p = Inr r"
proof -
  have "named_inputs growth p (gdec_evidence_ids (lr_guard d) @ gdec_candidate_ids (lr_guard d) @ bdec_evidence_ids (lr_bound d)
      @ bdec_candidate_ids (lr_bound d)) (gdec_unresolved (lr_guard d) @ bdec_unresolved (lr_bound d))"
    "named_inputs growth p (bdec_evidence_ids (lr_bound d) @ bdec_candidate_ids (lr_bound d) @ rdec_evidence_ids (lr_release d)
      @ rdec_candidate_ids (lr_release d)) (bdec_unresolved (lr_bound d) @ rdec_unresolved (lr_release d))"
    using assms by (auto simp: named_inputs_def decision_refs_def decision_facts_def)
  from evaluate_assertion_1_total[OF this(1)] evaluate_assertion_2_total[OF this(2)] show ?thesis
    by (auto simp: path_evaluation_def) (metis res_bind_simps(2))
qed

lemma map_res_total: "\<forall>x \<in> set xs. \<exists>y. f x = Inr y \<Longrightarrow> \<exists>ys. map_res f xs = Inr ys"
  by (induction xs) auto

lemma assertion_ids_mono: "set refs \<subseteq> set refs' \<Longrightarrow> set (assertion_ids growth flow refs) \<subseteq> set (assertion_ids growth flow refs')"
  by (auto simp: assertion_ids_def)

lemma from_framework_fits:
  assumes "registration_coverage_pattern_belongs_to_framework (e_framework entry) (registration_pattern_id entry)"
    "fc_framework fc = e_framework entry" "registration_pattern_id entry \<noteq> []" "entry_id entry \<noteq> []" "vg_growth_id growth \<noteq> []"
  shows "\<exists>c. from_framework fc (Some (registration_pattern_id entry)) (Some (entry_id entry)) (Some (vg_growth_id growth)) None = Inr c
    \<and> coverage_fits c entry growth"
  using assms
  by (cases "registration_pattern_id entry \<in> set (fc_supported fc)")
     (simp_all add: from_framework_def coverage_fits_def CandidateCoverage_Inr candidate_coverage_tests_def)

lemma conclude_pair_total:
  assumes "pair_ready ci pair paths"
  shows "\<exists>r. conclude_pair ci pair paths = Inr r"
proof -
  obtain entry growth durable where known: "ci_entries ci (fst pair) = Some entry" "ci_growth ci (snd pair) = Some growth"
      "entry_id entry = fst pair" "vg_growth_id growth = snd pair"
    and facts: "certificate_facts entry growth paths (lr_guard durable) (lr_bound durable) (lr_release durable)"
    and path: "\<And>p. p \<in> set paths \<Longrightarrow> ci_lifecycle ci (vf_path_id p) = Some durable"
      "\<And>p. p \<in> set paths \<Longrightarrow> named_inputs growth p (decision_refs durable) (decision_facts durable)"
      "\<And>p i. p \<in> set paths \<Longrightarrow> i \<in> set (assertion_ids growth p (decision_refs durable)) \<Longrightarrow>
             (startswith i ''entry:'' \<longrightarrow> i = entry_id entry) \<and> (startswith i ''flow:'' \<longrightarrow> i \<in> vf_path_id ` set paths)"
    and framework: "e_framework entry \<in> set entry_frameworks"
      "\<And>fc. ci_frameworks ci (e_framework entry) = Some fc \<Longrightarrow> fc_framework fc = e_framework entry"
      "registration_pattern_id entry \<noteq> []"
      "registration_coverage_pattern_belongs_to_framework (e_framework entry) (registration_pattern_id entry)"
    and disposition: "ci_dispositions ci pair \<noteq> None"
    using assms unfolding pair_ready_def by blast
  obtain status where status: "ci_dispositions ci pair = Some status" using disposition by blast
  define ordered where "ordered = sort_key vf_path_id paths"
  have set_ordered: "set ordered = set paths" by (simp add: ordered_def)
  have facts': "certificate_facts entry growth ordered (lr_guard durable) (lr_bound durable) (lr_release durable)"
    using facts set_ordered by (auto simp: certificate_facts_def simp flip: set_empty)
  have ne: "ordered \<noteq> []" using facts' by (simp add: certificate_facts_def)
  have "\<forall>p \<in> set ordered. \<exists>r. path_evaluation growth durable (pair_premises ci pair) p = Inr r"
    using path(2) path_evaluation_total by (simp add: set_ordered)
  then obtain evs where evs: "map_res (path_evaluation growth durable (pair_premises ci pair)) ordered = Inr evs"
    using map_res_total by blast
  define assertions where "assertions = concat (map (\<lambda>(_, a1, a2). [a1, a2]) evs)"
  have expected: "expected_assertions growth ordered (lr_guard durable) (lr_bound durable) (lr_release durable)
      (pair_premises ci pair) = Inr assertions"
    unfolding assertions_def by (rule path_evaluations(1)[OF evs])
  have scoped: "evidence_scoped entry ordered assertions"
    unfolding evidence_scoped_def set_ordered
  proof (intro ballI)
    fix a i assume a: "a \<in> set assertions" "i \<in> set (as_evidence_ids a)"
    then obtain p where p: "p \<in> set paths"
      "evaluate_assertion_1 growth p (lr_guard durable) (lr_bound durable) (pr_amplification (pair_premises ci pair))
         (pr_reachability (pair_premises ci pair)) = Inr a
     \<or> evaluate_assertion_2 growth p (lr_bound durable) (lr_release durable) (pr_reachability (pair_premises ci pair))
         (pr_repeatability (pair_premises ci pair)) = Inr a"
      unfolding expected_assertions_iff[OF expected] set_ordered by blast
    from p(2) have "set (as_evidence_ids a) \<subseteq> set (assertion_ids growth p (decision_refs durable))"
    proof
      assume "evaluate_assertion_1 growth p (lr_guard durable) (lr_bound durable) (pr_amplification (pair_premises ci pair))
         (pr_reachability (pair_premises ci pair)) = Inr a"
      from assertion_1_evidence[OF this] show ?thesis
        by (simp only:) (rule assertion_ids_mono, auto simp: decision_refs_def)
    next
      assume "evaluate_assertion_2 growth p (lr_bound durable) (lr_release durable) (pr_reachability (pair_premises ci pair))
         (pr_repeatability (pair_premises ci pair)) = Inr a"
      from assertion_2_evidence[OF this] show ?thesis
        by (simp only:) (rule assertion_ids_mono, auto simp: decision_refs_def)
    qed
    with a(2) show "(startswith i ''entry:'' \<longrightarrow> i = entry_id entry) \<and> (startswith i ''flow:'' \<longrightarrow> i \<in> vf_path_id ` set paths)"
      using path(3)[OF p(1)] by blast
  qed
  obtain fc where fc: "framework_item ci entry = Inr fc" "fc_framework fc = e_framework entry"
    using framework_item_total[OF framework(1,2)] by blast
  have "entry_id entry \<noteq> []" "vg_growth_id growth \<noteq> []"
    using facts by (auto simp: certificate_facts_def startswith_def)
  from from_framework_fits[OF framework(4) fc(2) framework(3) this]
  obtain coverage where coverage: "from_framework fc (Some (registration_pattern_id entry)) (Some (entry_id entry))
      (Some (vg_growth_id growth)) None = Inr coverage" "coverage_fits coverage entry growth" by blast
  define gate where "gate = conclude_gate ci pair growth ordered evs coverage status"
  have proven: "\<forall>p \<in> set ordered. satisfies_premise p" if "flow_proven gate"
    using that by (intro all_kept) (simp add: gate_def conclude_gate_def Let_def)
  obtain v c where built: "expected_verdict assertions coverage (Some gate) = Inr v"
    "build_lifecycle_certificate entry growth ordered (lr_guard durable) (lr_bound durable) (lr_release durable)
       assertions coverage v (pair_premises ci pair) (Some gate) = Inr c" "LifecycleCertificate c = Inr c"
    using certificate_built[OF facts' expected scoped coverage(2) proven] by blast
  have same: "\<not> list_ex (\<lambda>flow. ci_lifecycle ci (vf_path_id flow) \<noteq> Some durable) (tl ordered)"
    "ci_lifecycle ci (vf_path_id (hd ordered)) = Some durable"
    using path(1) ne by (auto simp: list_ex_iff set_ordered[symmetric] dest: list.set_sel)
  show ?thesis
    using ne same evs fc(1) coverage(1) status built finding_total[OF built(3)]
    unfolding conclude_pair_def ordered_def[symmetric] Let_def
    by (simp add: known gate_def[symmetric] assertions_def[symmetric])
qed


section \<open>Instances\<close>

definition sample_with :: "lifecycle_record \<Rightarrow> conclude_inputs" where
  "sample_with d = \<lparr>ci_entries = [''entry:1'' \<mapsto> certified_entry], ci_growth = [''growth:1'' \<mapsto> sample_growth],
     ci_lifecycle = [''flow:1'' \<mapsto> d],
     ci_coverage = (\<lambda>_. Some ''complete''), ci_frameworks = [''netty'' \<mapsto> framework_sample],
     ci_reachability = [''entry:1'' \<mapsto> \<lparr>pv_status = Some ''ordinary_attacker_reachable'', pv_decision_id = Some ''reachability:1''\<rparr>],
     ci_repeatability = Map.empty, ci_amplification = Map.empty,
     ci_dispositions = [(''entry:1'', ''growth:1'') \<mapsto> ''formal_eligible'']\<rparr>"

definition sample_inputs :: conclude_inputs where
  "sample_inputs = sample_with \<lparr>lr_guard = no_guard, lr_bound = some_bound, lr_release = no_release\<rparr>"

lemma sample_ready_with:
  assumes "lr_guard d = no_guard" "lr_release d = no_release" "set (bdec_evidence_ids (lr_bound d)) \<subseteq> {''bound''}"
    "set (bdec_candidate_ids (lr_bound d)) \<subseteq> {''bound:'' @ i}" "bdec_unresolved (lr_bound d) = []" "[] \<notin> set (bdec_reasons (lr_bound d))"
  shows "pair_ready (sample_with d) (''entry:1'', ''growth:1'') [sample_verified_flow]"
  unfolding pair_ready_def
proof (intro exI conjI ballI allI impI)
  show "certificate_facts certified_entry sample_growth [sample_verified_flow] (lr_guard d) (lr_bound d) (lr_release d)"
    using sample_certificate_facts assms by (simp add: certificate_facts_def)
  let ?ids = "[''verified_growth:1'', ''growth:1'', ''verified_flow:1'', ''flow:1'', ''entry:1'', ''bound'', ''bound:'' @ i]"
  have ids: "set (assertion_ids sample_growth sample_verified_flow (decision_refs d)) \<subseteq> set ?ids"
    "[] \<notin> set (decision_refs d)" "decision_facts d = []"
  proof -
    have refs: "set (decision_refs d) \<subseteq> {''bound'', ''bound:'' @ i}"
      using assms(3,4) by (simp add: decision_refs_def assms(1,2) no_guard_def no_release_def) blast
    have "set (assertion_ids sample_growth sample_verified_flow (decision_refs d))
        = {''verified_growth:1'', ''growth:1'', ''verified_flow:1'', ''flow:1'', ''entry:1''} \<union> set (decision_refs d)"
      by (simp add: assertion_ids_def sample_growth_def sample_verified_flow_def insert_commute)
    also have "\<dots> \<subseteq> {''verified_growth:1'', ''growth:1'', ''verified_flow:1'', ''flow:1'', ''entry:1''} \<union> {''bound'', ''bound:'' @ i}"
      using refs by (rule Un_mono[OF subset_refl])
    also have "\<dots> = set ?ids" by (simp add: insert_commute)
    finally show "set (assertion_ids sample_growth sample_verified_flow (decision_refs d)) \<subseteq> set ?ids" .
    show "[] \<notin> set (decision_refs d)" using refs by auto
    show "decision_facts d = []" using assms(5) by (simp add: decision_facts_def assms(1,2) no_guard_def no_release_def)
  qed
  fix p assume p: "p \<in> set [sample_verified_flow]"
  show "ci_lifecycle (sample_with d) (vf_path_id p) = Some d"
    using p by (simp add: sample_with_def sample_verified_flow_def)
  show "named_inputs sample_growth p (decision_refs d) (decision_facts d)"
    using p ids(2) by (simp add: named_inputs_def ids(3) sample_growth_def sample_verified_flow_def)
  have "list_all (\<lambda>i. (startswith i ''entry:'' \<longrightarrow> i = ''entry:1'') \<and> (startswith i ''flow:'' \<longrightarrow> i = ''flow:1'')) ?ids"
    by (simp add: startswith_def)
  note all = this[unfolded list_all_iff]
  fix j assume "j \<in> set (assertion_ids sample_growth p (decision_refs d))"
  then have i: "j \<in> set ?ids" using p by (intro subsetD[OF ids(1)]) simp
  have "entry_id certified_entry = ''entry:1''" "vf_path_id ` set [sample_verified_flow] = {''flow:1''}"
    by (simp_all add: certified_entry_def sample_entry_def sample_verified_flow_def)
  with bspec[OF all i] show "startswith j ''entry:'' \<Longrightarrow> j = entry_id certified_entry"
    "startswith j ''flow:'' \<Longrightarrow> j \<in> vf_path_id ` set [sample_verified_flow]"
    by simp_all
next
  show "registration_coverage_pattern_belongs_to_framework (e_framework certified_entry) (registration_pattern_id certified_entry)"
    using pattern_sample_modeled by (simp add: certified_entry_def sample_entry_def)
qed (simp_all add: sample_with_def certified_entry_def sample_entry_def sample_growth_def framework_sample_def
    pattern_sample_def entry_frameworks_def)

lemma sample_ready: "pair_ready sample_inputs (''entry:1'', ''growth:1'') [sample_verified_flow]"
  unfolding sample_inputs_def by (rule sample_ready_with[where i = "''a''"]) (simp_all add: some_bound_def)

lemma sample_pairs: "flow_pair sample_verified_flow = (''entry:1'', ''growth:1'')"
  by (simp add: flow_pair_def sample_verified_flow_def)


theorem conclude_stage_sound_witness:
  "\<exists>c f. conclude_stage sample_inputs [sample_verified_flow] [(''entry:1'', ''growth:1'')] = Inr [(c, f)]
     \<and> ct_entry_id c = ''entry:1'' \<and> fd_verdict f = ct_verdict c"
proof -
  obtain c f where pair: "conclude_pair sample_inputs (''entry:1'', ''growth:1'') [sample_verified_flow] = Inr (c, f)"
    using conclude_pair_total[OF sample_ready] by auto
  have "lifecycle_present sample_inputs sample_verified_flow = Inr ()"
    by (simp add: lifecycle_present_def sample_inputs_def sample_with_def sample_verified_flow_def)
  then have run: "conclude_stage sample_inputs [sample_verified_flow] [(''entry:1'', ''growth:1'')] = Inr [(c, f)]"
    using pair by (simp add: conclude_stage_def sample_pairs Let_def)
  have "keyed_inputs sample_inputs"
    by (simp add: keyed_inputs_def sample_inputs_def sample_with_def certified_entry_def sample_entry_def sample_growth_def)
  note sound = conclude_stage_sound[OF run this]
  have "fd_verdict f = ct_verdict c" using sound by fastforce
  moreover have "ct_entry_id c = ''entry:1''" using conjunct1[OF sound] by (simp add: sample_pairs)
  ultimately show ?thesis using run by blast
qed

theorem path_bounds_equiv_witness:
  "\<exists>d. evaluate_path_bounds sample_entry sample_growth sample_verified_flow
      [sample_bound ''bound:b'' ''other'', sample_bound ''bound:a'' ''cache''] sample_configuration ''partial'' = Inr d
    \<and> (bdec_status d = BoundEffective \<longleftrightarrow> (\<exists>c \<in> {sample_bound ''bound:b'' ''other'', sample_bound ''bound:a'' ''cache''}.
         bound_protects sample_entry sample_candidate sample_configuration c))"
  using path_bounds_equiv[OF sample_context, of "''partial''"
      "[sample_bound ''bound:b'' ''other'', sample_bound ''bound:a'' ''cache'']" sample_configuration] by auto

text \<open>The verdict of the sample pair: its entry is established and only assertion 2 applies, so the
  bound decides.\<close>

lemma sample_assertion_1:
  assumes "evaluate_assertion_1 sample_growth sample_verified_flow guard bound None reachability = Inr a"
    "reach_admitted reachability"
  shows "as_status a = NotApplicable"
proof -
  have none: "\<not> single_request_demand sample_growth sample_verified_flow None"
    by (simp add: single_request_demand_def candidate_kind_in_def single_kinds_def decision_status_def sample_growth_def
        sample_candidate_def)
  have "decision_status None \<noteq> Some ''unknown''" by (simp add: decision_status_def)
  then show ?thesis
    using assms(1)[unfolded evaluate_assertion_1_def res_bind_Inr_iff Let_def assertion_tests] none assms(2)
    by (auto split: if_split_asm dest!: assertion_result_Inr)
qed

lemma sample_conclusion:
  assumes "conclude_pair (sample_with d) (''entry:1'', ''growth:1'') [sample_verified_flow] = Inr (c, f)"
    "bdec_unresolved (lr_bound d) = []" "lr_release d = no_release"
  shows "bdec_status (lr_bound d) = BoundEffective \<Longrightarrow> fd_verdict f = ''bounded_under_modeled_assumptions''"
    "bdec_status (lr_bound d) = BoundAbsent \<Longrightarrow> fd_verdict f = ''static_vulnerable''"
proof -
  let ?ci = "sample_with d" and ?pair = "(''entry:1'', ''growth:1'')" and ?paths = "[sample_verified_flow]"
  have known: "ci_entries ?ci ''entry:1'' = Some certified_entry" "ci_growth ?ci ''growth:1'' = Some sample_growth"
    by (simp_all add: sample_with_def)
  let ?pm = "pair_premises ?ci ?pair"
  have pm: "pr_amplification ?pm = None" "pr_repeatability ?pm = None"
    "pr_reachability ?pm = Some \<lparr>pv_status = Some ''ordinary_attacker_reachable'', pv_decision_id = Some ''reachability:1''\<rparr>"
    by (simp_all add: pair_premises_def sample_with_def)
  have reach: "reach_admitted (pr_reachability ?pm)" by (simp add: pm reach_admitted_def decision_status_def)
  have facts: "path_proven sample_growth sample_verified_flow" "persistent_demand sample_growth sample_verified_flow None"
    by (simp_all add: sample_growth_def sample_verified_flow_def decision_status_def path_proven_def
        persistent_demand_def repeat_admitted_def persistent_target_def sample_candidate_def sample_flow_def)
  obtain durable evs framework coverage status verdict where "?paths \<noteq> []"
    and life: "\<forall>p \<in> set ?paths. ci_lifecycle ?ci (vf_path_id p) = Some durable"
    and evs: "map_res (path_evaluation sample_growth durable ?pm) (sort_key vf_path_id ?paths) = Inr evs"
    and item: "framework_item ?ci certified_entry = Inr framework"
    and cov: "from_framework framework (Some (registration_pattern_id certified_entry)) (Some (entry_id certified_entry))
        (Some ''growth:1'') None = Inr coverage"
    and status: "ci_dispositions ?ci ?pair = Some status"
    and v: "expected_verdict (concat (map (\<lambda>(_, a1, a2). [a1, a2]) evs)) coverage
       (Some (conclude_gate ?ci ?pair sample_growth (sort_key vf_path_id ?paths) evs coverage status)) = Inr verdict"
    and c: "build_lifecycle_certificate certified_entry sample_growth (sort_key vf_path_id ?paths) (lr_guard durable)
       (lr_bound durable) (lr_release durable) (concat (map (\<lambda>(_, a1, a2). [a1, a2]) evs)) coverage verdict ?pm
       (Some (conclude_gate ?ci ?pair sample_growth (sort_key vf_path_id ?paths) evs coverage status)) = Inr c"
    and f: "finding_from_certificate c = Inr f"
    by (rule conclude_pair_Inr[OF assms(1) known]) (rule that)
  have d: "durable = d" using life by (simp add: sample_with_def sample_verified_flow_def)
  obtain a1 a2 where a: "evaluate_assertion_1 sample_growth sample_verified_flow (lr_guard d) (lr_bound d) None (pr_reachability ?pm) = Inr a1"
    "evaluate_assertion_2 sample_growth sample_verified_flow (lr_bound d) (lr_release d) (pr_reachability ?pm) None = Inr a2"
    "evs = [(sample_verified_flow, a1, a2)]"
  proof -
    obtain r where r: "path_evaluation sample_growth d ?pm sample_verified_flow = Inr r" "evs = [r]"
      using evs[unfolded d] by (simp split: sum.splits)
    from r(1) obtain a1 a2 where "evaluate_assertion_1 sample_growth sample_verified_flow (lr_guard d) (lr_bound d)
        (pr_amplification ?pm) (pr_reachability ?pm) = Inr a1"
      "evaluate_assertion_2 sample_growth sample_verified_flow (lr_bound d) (lr_release d) (pr_reachability ?pm)
        (pr_repeatability ?pm) = Inr a2" "r = (sample_verified_flow, a1, a2)"
      unfolding path_evaluation_def res_bind_Inr_iff by blast
    with r(2) show thesis by (intro that) (simp_all only: pm(1,2))
  qed
  have na: "as_status a1 = NotApplicable" by (rule sample_assertion_1[OF a(1) reach])
  have two: "as_status a2 = Matched \<longleftrightarrow> bdec_status (lr_bound d) \<notin> {BoundUnknown, BoundEffective}"
    "as_status a2 = Refuted \<longleftrightarrow> bdec_status (lr_bound d) = BoundEffective"
    using assertion_2_status(2,3)[OF a(2)] reach facts assms(2) by (auto simp: assms(3) no_release_def)
  have framework: "framework = framework_sample"
    using item by (auto simp: framework_item_def res_bind_Inr_iff sample_with_def certified_entry_def sample_entry_def)
  have complete: "cc_status coverage = ''complete''" "relevant_gaps coverage = []"
    using cov by (auto simp: framework from_framework_def framework_sample_def certified_entry_def CandidateCoverage_Inr
        relevant_gaps_def split: if_split_asm)
  have "proof_complete (conclude_gate ?ci ?pair sample_growth (sort_key vf_path_id ?paths) evs coverage status)"
    using complete(1) status sample_satisfies
    by (simp add: proof_complete_def conclude_gate_def Let_def a(3) families_complete_def sample_with_def
        candidate_relevant_gap_free_status_def sample_growth_def)
  then obtain v0 where v0: "derive_verdict (concat (map (\<lambda>(_, a1, a2). [a1, a2]) evs)) coverage = Inr v0" "verdict = v0"
    using v by (auto elim: expected_verdict_Inr)
  have as: "concat (map (\<lambda>(_, a1, a2). [a1, a2]) evs) = [a1, a2]" by (simp add: a(3))
  have finding: "fd_verdict f = ct_verdict c"
    using f by (auto simp: finding_from_certificate_def StaticFinding_def res_bind_Inr_iff split: if_split_asm)
  note chosen = derive_verdict_Inr(1)[OF v0(1)[unfolded as]]
  show "bdec_status (lr_bound d) = BoundEffective \<Longrightarrow> fd_verdict f = ''bounded_under_modeled_assumptions''"
  proof -
    assume "bdec_status (lr_bound d) = BoundEffective"
    then have refuted: "as_status a2 = Refuted" by (simp add: two)
    then have "as_unresolved a2 = []" using assertion_2_status(4)[OF a(2)] by simp
    with refuted na have "sv_verdict v0 = BoundedUnderModel"
      unfolding chosen derived_status choose_verdict_cases(2) by (simp add: settled_def complete(2))
    then show ?thesis using build_certificate_verdict[OF c, of BoundedUnderModel] finding v0(2) by simp
  qed
  show "bdec_status (lr_bound d) = BoundAbsent \<Longrightarrow> fd_verdict f = ''static_vulnerable''"
  proof -
    assume "bdec_status (lr_bound d) = BoundAbsent"
    then have matched: "as_status a2 = Matched" by (simp add: two)
    then have "as_unresolved a2 = []" using assertion_2_status(4)[OF a(2)] by simp
    with matched na have "sv_verdict v0 = StaticVulnerable"
      unfolding chosen derived_status choose_verdict_cases(1) by (simp add: settled_def complete(2))
    then show ?thesis using build_certificate_verdict[OF c, of StaticVulnerable] finding v0(2) by simp
  qed
qed

end
