(* ===== verification/Configuration.thy ===== *)
theory Configuration
  imports EntryModel
begin

text \<open>
  \<open>dosweb/configuration/models.py\<close>: a modeled configuration fact, and the helpers with which the
  strict record classes test values whose type is not known.
\<close>

section \<open>Values of unknown type\<close>

text \<open>\<open>value in {"a", "b"}\<close> hashes the value first: a list or a dictionary raises \<open>TypeError\<close>.\<close>

definition hashable :: "json \<Rightarrow> bool" where
  "hashable v = (case v of JArr _ \<Rightarrow> False | JObj _ \<Rightarrow> False | _ \<Rightarrow> True)"

definition in_literals :: "json \<Rightarrow> string list \<Rightarrow> bool res" where
  "in_literals v allowed = (if hashable v then Inr (v \<in> set (map JStr allowed)) else Inl (PyTypeError ''unhashable''))"

text \<open>The truth value of a decoded value.\<close>

definition truthy :: "json \<Rightarrow> bool" where
  "truthy v = (case v of JNull \<Rightarrow> False | JBool b \<Rightarrow> b | JInt i \<Rightarrow> i \<noteq> 0 | JStr s \<Rightarrow> s \<noteq> []
     | JArr vs \<Rightarrow> vs \<noteq> [] | JObj kvs \<Rightarrow> kvs \<noteq> [])"

text \<open>A test that raises \<open>error\<close> unless it holds, and the test that a supplied identifier, if any, is
  the computed one.\<close>

definition require :: "py_exc \<Rightarrow> bool \<Rightarrow> unit res" where
  "require error ok = (if ok then Inr () else Inl error)"

fun literals :: "py_exc \<Rightarrow> (json \<times> string list) list \<Rightarrow> unit res" where
  "literals error [] = Inr ()"
| "literals error ((v, allowed) # tests) =
     res_bind (in_literals v allowed) (\<lambda>ok. if ok then literals error tests else Inl error)"

definition supplied_id_ok :: "json \<Rightarrow> string \<Rightarrow> bool" where
  "supplied_id_ok v expected = (\<not> truthy v \<or> v = JStr expected)"

text \<open>\<open>==\<close> on decoded values: a truth value equals the number it stands for, dictionaries do not depend
  on the order of their keys.\<close>

definition number_of :: "json \<Rightarrow> int option" where
  "number_of v = (case v of JBool b \<Rightarrow> Some (if b then 1 else 0) | JInt i \<Rightarrow> Some i | _ \<Rightarrow> None)"

fun py_eq :: "json \<Rightarrow> json \<Rightarrow> bool"
  and py_eq_list :: "json list \<Rightarrow> json list \<Rightarrow> bool"
  and py_eq_fields :: "(string \<times> json) list \<Rightarrow> (string \<times> json) list \<Rightarrow> bool" where
  "py_eq JNull w = (w = JNull)"
| "py_eq (JBool b) w = (number_of w = Some (if b then 1 else 0))"
| "py_eq (JInt i) w = (number_of w = Some i)"
| "py_eq (JStr s) w = (w = JStr s)"
| "py_eq (JArr vs) w = (case w of JArr ws \<Rightarrow> py_eq_list vs ws | _ \<Rightarrow> False)"
| "py_eq (JObj kvs) w = (case w of JObj kws \<Rightarrow> length kvs = length kws \<and> py_eq_fields kvs kws | _ \<Rightarrow> False)"
| "py_eq_list [] ws = (ws = [])"
| "py_eq_list (v # vs) ws = (case ws of [] \<Rightarrow> False | w # ws' \<Rightarrow> py_eq v w \<and> py_eq_list vs ws')"
| "py_eq_fields [] kws = True"
| "py_eq_fields ((k, v) # kvs) kws =
     ((case map_of kws k of None \<Rightarrow> False | Some w \<Rightarrow> py_eq v w) \<and> py_eq_fields kvs kws)"

definition text_ok :: "nat \<Rightarrow> json \<Rightarrow> bool" where
  "text_ok limit v = (case v of JStr s \<Rightarrow> good_string s \<and> length s \<le> limit | _ \<Rightarrow> False)"

definition str_of :: "json \<Rightarrow> string" where
  "str_of v = (case v of JStr s \<Rightarrow> s | _ \<Rightarrow> [])"

definition int_of :: "json \<Rightarrow> int" where
  "int_of v = (case v of JInt i \<Rightarrow> i | _ \<Rightarrow> 0)"

definition natural :: "json \<Rightarrow> bool" where
  "natural v = (case v of JInt i \<Rightarrow> 0 \<le> i | _ \<Rightarrow> False)"

lemma require_Inr [simp]: "require e ok = Inr u \<longleftrightarrow> ok"
  by (simp add: require_def)

lemma literals_Inr: "literals e ts = Inr u \<longleftrightarrow> (\<forall>(v, allowed) \<in> set ts. v \<in> JStr ` set allowed)"
proof (induction e ts rule: literals.induct)
  case (2 e v allowed ts)
  have "v \<in> JStr ` set allowed \<Longrightarrow> hashable v" by (auto simp: hashable_def)
  with 2 show ?case by (auto simp: res_bind_Inr_iff in_literals_def split: if_splits)
qed simp

declare literals.simps [simp del]

lemma text_ok_iff: "text_ok limit v \<longleftrightarrow> (\<exists>s. v = JStr s \<and> good_string s \<and> length s \<le> limit)"
  by (cases v) (auto simp: text_ok_def)

section \<open>Modeled configuration facts\<close>

record modeled_fact =
  mc_id :: string
  mc_key :: string
  mc_value :: json
  mc_source_file :: string
  mc_source_line :: int
  mc_profile :: string
  mc_provenance :: string
  mc_default_effective :: bool
  mc_status :: string

definition modeled_invalid :: py_exc where
  "modeled_invalid = AnalyzerError ''ARTIFACT_SCHEMA_MISMATCH'' ''Modeled configuration fact is invalid.'' []"

definition modeled_semantic_identity :: "modeled_fact \<Rightarrow> (string \<times> json) list" where
  "modeled_semantic_identity f =
     [(''key'', JStr (mc_key f)), (''value'', mc_value f), (''source_file'', JStr (mc_source_file f)),
      (''source_line'', JInt (mc_source_line f)), (''profile'', JStr (mc_profile f)),
      (''provenance'', JStr (mc_provenance f)), (''default_effective'', JBool (mc_default_effective f)),
      (''status'', JStr (mc_status f))]"

definition modeled_value_ok :: "json \<Rightarrow> bool" where
  "modeled_value_ok v = (case v of JArr _ \<Rightarrow> False | JObj _ \<Rightarrow> False
     | JStr s \<Rightarrow> CHR 0x00 \<notin> set s \<and> length s \<le> 1024 | _ \<Rightarrow> True)"

definition modeled_file_ok :: "json \<Rightarrow> bool" where
  "modeled_file_ok v = (case v of
     JStr s \<Rightarrow> \<not> startswith s ''/'' \<and> ''..'' \<notin> set (split_on CHR ''/'' s) \<and> length s \<le> 512 | _ \<Rightarrow> False)"

definition ModeledConfigurationFact :: "json \<Rightarrow> json \<Rightarrow> json \<Rightarrow> json \<Rightarrow> json \<Rightarrow> json \<Rightarrow> json \<Rightarrow> json \<Rightarrow> json
    \<Rightarrow> modeled_fact res" where
  "ModeledConfigurationFact key value file line profile provenance default_effective status config_id =
     res_bind (require modeled_invalid (text_ok 1024 key \<and> modeled_value_ok value \<and> modeled_file_ok file \<and> natural line)) (\<lambda>_.
     res_bind (literals modeled_invalid [(profile, [''default'', ''unknown'']),
         (provenance, [''cli_override'', ''config_file'', ''extracted_default'', ''unknown'']),
         (status, [''known'', ''unknown''])]) (\<lambda>_.
     res_bind (require modeled_invalid (default_effective \<in> {JBool True, JBool False})) (\<lambda>_.
     res_bind (require modeled_invalid
         (\<not> (status = JStr ''known'' \<and> (value = JNull \<or> default_effective = JBool False))
          \<and> \<not> (status = JStr ''unknown'' \<and> value \<noteq> JNull))) (\<lambda>_.
     let f = \<lparr>mc_id = [], mc_key = str_of key, mc_value = value, mc_source_file = str_of file,
              mc_source_line = int_of line, mc_profile = str_of profile, mc_provenance = str_of provenance,
              mc_default_effective = (default_effective = JBool True), mc_status = str_of status\<rparr>;
         expected = stable_identifier ''config'' (JObj (modeled_semantic_identity f))
     in res_bind (require modeled_invalid (supplied_id_ok config_id expected)) (\<lambda>_. Inr (f\<lparr>mc_id := expected\<rparr>))))))"

definition modeled_to_dict :: "modeled_fact \<Rightarrow> json" where
  "modeled_to_dict f = JObj ((''config_id'', JStr (mc_id f)) # modeled_semantic_identity f)"

definition modeled_from_dict :: "json \<Rightarrow> modeled_fact res" where
  "modeled_from_dict raw =
     (if \<not> has_fields raw [''config_id'', ''key'', ''value'', ''source_file'', ''source_line'', ''profile'',
        ''provenance'', ''default_effective'', ''status'']
      then Inl modeled_invalid
      else let r = field_of (members raw) in
        ModeledConfigurationFact (r ''key'') (r ''value'') (r ''source_file'') (r ''source_line'') (r ''profile'')
          (r ''provenance'') (r ''default_effective'') (r ''status'') (r ''config_id''))"

end
