(* ===== verification/ReachabilityModel.thy ===== *)
theory ReachabilityModel
  imports Configuration
begin

text \<open>
  \<open>dosweb/reachability/models.py\<close> (security facts, authentication contracts, reachability
  decisions) and the parts of \<open>dosweb/reachability/extract.py\<close> that decide: the binding of
  security rows to entries by route or handler, the default deployment evidence, and the
  deployment status under the modeled configuration.
\<close>

section \<open>Checked values\<close>

definition reach_invalid :: py_exc where
  "reach_invalid = AnalyzerError ''LLM_RESPONSE_SCHEMA_INVALID'' ''Reachability artifact violates its strict schema.'' []"

definition max_text :: nat where
  "max_text = 4096"

definition reach_str :: "json \<Rightarrow> string res" where
  "reach_str v = (if text_ok max_text v then Inr (str_of v) else Inl reach_invalid)"

definition reach_id :: "json \<Rightarrow> string \<Rightarrow> string res" where
  "reach_id v p = res_bind (reach_str v) (\<lambda>s. if startswith s p then Inr s else Inl reach_invalid)"

definition security_kinds :: "string list" where
  "security_kinds = [''annotation'', ''filter'', ''security_filter_chain'', ''servlet_constraint'', ''netty_gate'',
     ''mqtt_gate'', ''configuration'', ''deployment_gate'', ''dependency_coverage'']"

definition security_coverages :: "string list" where
  "security_coverages = [''complete'', ''partial'', ''unsupported'']"

definition deployment_statuses :: "string list" where
  "deployment_statuses = [''default_enabled'', ''default_disabled'', ''optional'', ''unknown'']"

definition reachability_statuses :: "string list" where
  "reachability_statuses = [''ordinary_attacker_reachable'', ''not_entry_reachable'', ''unknown'']"

section \<open>Security facts\<close>

record security_fact =
  sf_id :: string
  sf_entry_id :: string
  sf_kind :: string
  sf_location :: string
  sf_line :: int
  sf_value :: string
  sf_coverage :: string

definition security_semantic_identity :: "security_fact \<Rightarrow> (string \<times> json) list" where
  "security_semantic_identity f =
     [(''entry_id'', JStr (sf_entry_id f)), (''kind'', JStr (sf_kind f)), (''location'', JStr (sf_location f)),
      (''line'', JInt (sf_line f)), (''value'', JStr (sf_value f)), (''coverage'', JStr (sf_coverage f))]"

definition EntrySecurityFact :: "json \<Rightarrow> json \<Rightarrow> json \<Rightarrow> json \<Rightarrow> json \<Rightarrow> json \<Rightarrow> json \<Rightarrow> security_fact res" where
  "EntrySecurityFact eid kind location line value coverage fact_id =
     res_bind (reach_id eid ''entry:'') (\<lambda>e.
     res_bind (reach_str location) (\<lambda>l.
     res_bind (reach_str value) (\<lambda>v.
     res_bind (literals reach_invalid [(kind, security_kinds), (coverage, security_coverages)]) (\<lambda>_.
     res_bind (require reach_invalid (natural line)) (\<lambda>_.
     let f = \<lparr>sf_id = [], sf_entry_id = e, sf_kind = str_of kind, sf_location = l, sf_line = int_of line,
              sf_value = v, sf_coverage = str_of coverage\<rparr>;
         expected = stable_identifier ''security'' (JObj (security_semantic_identity f))
     in res_bind (require reach_invalid (supplied_id_ok fact_id expected)) (\<lambda>_. Inr (f\<lparr>sf_id := expected\<rparr>)))))))"

definition security_to_dict :: "security_fact \<Rightarrow> json" where
  "security_to_dict f = JObj ((''fact_id'', JStr (sf_id f)) # security_semantic_identity f)"

definition security_from_dict :: "json \<Rightarrow> security_fact res" where
  "security_from_dict raw =
     (if \<not> has_fields raw [''fact_id'', ''entry_id'', ''kind'', ''location'', ''line'', ''value'', ''coverage'']
      then Inl reach_invalid
      else let r = field_of (members raw) in
        EntrySecurityFact (r ''entry_id'') (r ''kind'') (r ''location'') (r ''line'') (r ''value'') (r ''coverage'')
          (r ''fact_id''))"

section \<open>Authentication contracts\<close>

record auth_contract =
  ac_context :: string
  ac_evidence_ids :: "string list"
  ac_assumptions :: "string list"
  ac_confidence :: string

definition AuthContract :: "json \<Rightarrow> json list \<Rightarrow> json list \<Rightarrow> json \<Rightarrow> auth_contract res" where
  "AuthContract context evidence assumptions confidence =
     res_bind (literals reach_invalid [(context, auth_contexts), (confidence, [''high'', ''medium'', ''low''])]) (\<lambda>_.
     res_bind (require reach_invalid (length evidence \<le> 32 \<and> length assumptions \<le> 32)) (\<lambda>_.
     if \<not> list_all hashable evidence then Inl (PyTypeError ''unhashable'') else
     res_bind (require reach_invalid (distinct evidence)) (\<lambda>_.
     res_bind (map_res (\<lambda>x. reach_id x ''security:'') evidence) (\<lambda>es.
     res_bind (map_res reach_str assumptions) (\<lambda>as.
     Inr \<lparr>ac_context = str_of context, ac_evidence_ids = es, ac_assumptions = as,
          ac_confidence = str_of confidence\<rparr>)))))"

definition auth_to_dict :: "auth_contract \<Rightarrow> json" where
  "auth_to_dict c = JObj [(''auth_context'', JStr (ac_context c)),
     (''evidence_ids'', JArr (map JStr (ac_evidence_ids c))), (''assumptions'', JArr (map JStr (ac_assumptions c))),
     (''confidence'', JStr (ac_confidence c))]"

definition auth_from_dict :: "json \<Rightarrow> auth_contract res" where
  "auth_from_dict raw =
     (if \<not> has_fields raw [''auth_context'', ''evidence_ids'', ''assumptions'', ''confidence''] then Inl reach_invalid
      else let r = field_of (members raw) in
        (case (r ''evidence_ids'', r ''assumptions'') of
           (JArr es, JArr as) \<Rightarrow> AuthContract (r ''auth_context'') es as (r ''confidence'')
         | _ \<Rightarrow> Inl reach_invalid))"

section \<open>Reachability decisions\<close>

definition coverage_partial :: string where
  "coverage_partial = ''REACH_AUTH_COVERAGE_PARTIAL''"

record reachability_decision =
  rd_id :: string
  rd_entry_id :: string
  rd_contract_id :: string
  rd_context :: string
  rd_deployment :: string
  rd_status :: string
  rd_evidence_ids :: "string list"
  rd_reasons :: "string list"

definition decision_semantic_identity :: "reachability_decision \<Rightarrow> (string \<times> json) list" where
  "decision_semantic_identity d =
     [(''entry_id'', JStr (rd_entry_id d)), (''auth_contract_id'', JStr (rd_contract_id d)),
      (''auth_context'', JStr (rd_context d)), (''deployment_status'', JStr (rd_deployment d)),
      (''status'', JStr (rd_status d)), (''evidence_ids'', JArr (map JStr (rd_evidence_ids d))),
      (''reason_codes'', JArr (map JStr (rd_reasons d)))]"

text \<open>The status that the authentication context, the deployment and a coverage gap determine.\<close>

definition decided_status :: "bool \<Rightarrow> string \<Rightarrow> string \<Rightarrow> string" where
  "decided_status gap context deployment =
     (if gap then ''unknown''
      else if context \<in> {''unauthenticated'', ''low_privilege''} \<and> deployment = ''default_enabled''
      then ''ordinary_attacker_reachable''
      else if context = ''privileged'' \<or> deployment \<in> {''default_disabled'', ''optional''}
      then ''not_entry_reachable'' else ''unknown'')"

definition ReachabilityDecision :: "json \<Rightarrow> json \<Rightarrow> json \<Rightarrow> json \<Rightarrow> json \<Rightarrow> json list \<Rightarrow> json list \<Rightarrow> json
    \<Rightarrow> reachability_decision res" where
  "ReachabilityDecision eid contract_id context deployment status evidence reasons decision_id =
     res_bind (reach_id eid ''entry:'') (\<lambda>e.
     res_bind (reach_id contract_id ''auth_contract:'') (\<lambda>c.
     res_bind (literals reach_invalid [(context, auth_contexts), (deployment, deployment_statuses),
         (status, reachability_statuses)]) (\<lambda>_.
     res_bind (require reach_invalid (length evidence \<le> 32 \<and> reasons \<noteq> [] \<and> length reasons \<le> 32)) (\<lambda>_.
     if \<not> list_all hashable evidence then Inl (PyTypeError ''unhashable'') else
     res_bind (require reach_invalid (distinct evidence)) (\<lambda>_.
     if \<not> list_all hashable reasons then Inl (PyTypeError ''unhashable'') else
     res_bind (require reach_invalid (distinct reasons)) (\<lambda>_.
     let gap = JStr coverage_partial \<in> set reasons in
     res_bind (require reach_invalid (\<not> (gap \<and> context \<noteq> JStr ''unknown''))) (\<lambda>_.
     res_bind (require reach_invalid (status = JStr (decided_status gap (str_of context) (str_of deployment)))) (\<lambda>_.
     res_bind (map_res (\<lambda>x. reach_id x ''security:'') evidence) (\<lambda>es.
     res_bind (map_res reach_str reasons) (\<lambda>rs.
     let d = \<lparr>rd_id = [], rd_entry_id = e, rd_contract_id = c, rd_context = str_of context,
              rd_deployment = str_of deployment, rd_status = str_of status, rd_evidence_ids = es, rd_reasons = rs\<rparr>;
         expected = stable_identifier ''reachability'' (JObj (decision_semantic_identity d))
     in res_bind (require reach_invalid (supplied_id_ok decision_id expected)) (\<lambda>_. Inr (d\<lparr>rd_id := expected\<rparr>))))))))))))"

definition decision_to_dict :: "reachability_decision \<Rightarrow> json" where
  "decision_to_dict d = JObj ((''decision_id'', JStr (rd_id d)) # decision_semantic_identity d)"

text \<open>\<open>tuple(value)\<close>: a list gives its elements, a string its characters (code points, of one to
  four bytes), a dictionary its keys; any other value raises.\<close>

definition continues_char :: "char \<Rightarrow> bool" where
  "continues_char c = (let n = of_char c :: nat in 128 \<le> n \<and> n < 192)"

fun utf8_chars :: "string \<Rightarrow> string list" where
  "utf8_chars [] = []"
| "utf8_chars (c # s) = (case utf8_chars s of
       [] \<Rightarrow> [[c]]
     | p # ps \<Rightarrow> if continues_char (hd p) then (c # p) # ps else [c] # p # ps)"

definition tuple_of :: "json \<Rightarrow> json list res" where
  "tuple_of v = (case v of JArr vs \<Rightarrow> Inr vs | JStr s \<Rightarrow> Inr (map JStr (utf8_chars s))
     | JObj kvs \<Rightarrow> Inr (map (JStr \<circ> fst) kvs) | _ \<Rightarrow> Inl (PyTypeError ''not iterable''))"

definition decision_from_dict :: "json \<Rightarrow> reachability_decision res" where
  "decision_from_dict raw =
     (if \<not> has_fields raw [''decision_id'', ''entry_id'', ''auth_contract_id'', ''auth_context'', ''deployment_status'',
        ''status'', ''evidence_ids'', ''reason_codes''] then Inl reach_invalid
      else let r = field_of (members raw) in
        res_bind (tuple_of (r ''evidence_ids'')) (\<lambda>es. res_bind (tuple_of (r ''reason_codes'')) (\<lambda>rs.
        ReachabilityDecision (r ''entry_id'') (r ''auth_contract_id'') (r ''auth_context'') (r ''deployment_status'')
          (r ''status'') es rs (r ''decision_id''))))"

section \<open>Deployment status\<close>

text \<open>\<open>_configuration_index\<close>: a key has a value when the known effective facts agree on it, in type
  and value.\<close>

definition configuration_index :: "modeled_fact list \<Rightarrow> (string \<rightharpoonup> json)" where
  "configuration_index facts key =
     (case remdups (map mc_value (filter (\<lambda>f. mc_key f = key \<and> mc_status f = ''known'' \<and> mc_default_effective f) facts))
      of [v] \<Rightarrow> Some v | _ \<Rightarrow> None)"

definition profile_head_char :: "char \<Rightarrow> bool" where
  "profile_head_char c = (let n = of_char c :: nat in (48 \<le> n \<and> n \<le> 57) \<or> (65 \<le> n \<and> n \<le> 90) \<or> (97 \<le> n \<and> n \<le> 122))"

definition simple_profile :: "string \<Rightarrow> bool" where
  "simple_profile s = (case s of [] \<Rightarrow> False
     | c # t \<Rightarrow> profile_head_char c \<and> list_all (\<lambda>x. profile_head_char x \<or> x \<in> set ''._-'') t)"

definition py_str :: "json \<Rightarrow> string" where
  "py_str v = (case v of JStr s \<Rightarrow> s | JInt i \<Rightarrow> int_str i | JBool b \<Rightarrow> (if b then ''True'' else ''False'')
     | _ \<Rightarrow> ''None'')"

definition deployment_gate_status :: "(string \<rightharpoonup> json) \<Rightarrow> security_fact \<Rightarrow> string option" where
  "deployment_gate_status configuration f =
     (if sf_kind f \<noteq> ''deployment_gate'' \<or> sf_coverage f \<noteq> ''complete'' then None
      else if sf_value f \<in> set deployment_statuses then Some (sf_value f)
      else if startswith (sf_value f) ''profile:'' then
        (let required = strip (removeprefix (sf_value f) ''profile:'') in
         if \<not> simple_profile required then None
         else case configuration ''spring.profiles.active'' of
             Some (JStr active) \<Rightarrow>
               (let profiles = filter (\<lambda>p. p \<noteq> []) (map strip (split_on CHR '','' active)) in
                Some (if required \<in> set profiles then ''default_enabled'' else ''default_disabled''))
           | _ \<Rightarrow> None)
      else if startswith (sf_value f) ''conditional_property:'' then
        (let (key, separator, expected) = partition_on CHR ''='' (removeprefix (sf_value f) ''conditional_property:'') in
         if \<not> separator then None
         else case configuration key of None \<Rightarrow> None
           | Some actual \<Rightarrow> Some (if lower (py_str actual) = lower (strip expected) then ''default_enabled''
                                else ''default_disabled''))
      else None)"

definition resolve_deployment_status :: "security_fact list \<Rightarrow> modeled_fact list \<Rightarrow> string" where
  "resolve_deployment_status facts configuration =
     (case usort (List.map_filter (deployment_gate_status (configuration_index configuration)) facts) of
        [status] \<Rightarrow> status | _ \<Rightarrow> ''unknown'')"

section \<open>Routes\<close>

text \<open>\<open>value.replace("//", "/")\<close>, and the loop that repeats it while a double slash is left.\<close>

fun halve_slashes :: "string \<Rightarrow> string" where
  "halve_slashes [] = []"
| "halve_slashes [c] = [c]"
| "halve_slashes (c # d # s) =
     (if c = CHR ''/'' \<and> d = CHR ''/'' then CHR ''/'' # halve_slashes s else c # halve_slashes (d # s))"

lemma length_halve_slashes: "length (halve_slashes s) \<le> length s"
  by (induction s rule: halve_slashes.induct) auto

lemma halve_slashes_shrinks: "contains s ''//'' \<Longrightarrow> length (halve_slashes s) < length s"
proof (induction s rule: halve_slashes.induct)
  case (3 c d s)
  then show ?case
    using length_halve_slashes[of s] by (auto simp: contains_iff sublist_Cons_right)
qed (auto simp: contains_iff sublist_Cons_right)

function collapse_slashes :: "string \<Rightarrow> string" where
  "collapse_slashes s = (if contains s ''//'' then collapse_slashes (halve_slashes s) else s)"
  by auto

termination collapse_slashes
  by (relation "measure length") (auto simp: halve_slashes_shrinks)

declare collapse_slashes.simps [simp del]

definition rstrip_slashes :: "string \<Rightarrow> string" where
  "rstrip_slashes s = rev (dropWhile (\<lambda>c. c = CHR ''/'') (rev s))"

definition route_path :: "string \<Rightarrow> string" where
  "route_path route =
     (let value = strip route;
          value = (case split_once CHR '' '' value of None \<Rightarrow> value
            | Some (head, tail) \<Rightarrow>
                if head \<in> {''GET'', ''POST'', ''PUT'', ''DELETE'', ''PATCH'', ''HEAD'', ''OPTIONS''} then tail else value);
          value = collapse_slashes value
      in if 1 < length value then rstrip_slashes value else value)"

definition route_matches :: "string \<Rightarrow> string \<Rightarrow> bool" where
  "route_matches matcher route =
     (if matcher \<in> {'''', ''dynamic_matcher'', ''*''} then False
      else let expected = route_path matcher; actual = route_path route in
        if endswith expected ''/**'' then
          (let p = rstrip_slashes (take (length expected - 3) expected) in
           actual = p \<or> startswith actual (p @ ''/''))
        else if endswith expected ''/*'' then
          (let p = rstrip_slashes (take (length expected - 2) expected) in
           startswith actual (p @ ''/'') \<and> CHR ''/'' \<notin> set (drop (length p + 1) actual))
        else expected = actual)"

section \<open>Binding security rows to entries\<close>

text \<open>\<open>d.get(key)\<close> on a decoded mapping; \<open>==\<close> on decoded values identifies a number with the
  truth value it stands for.\<close>

definition get :: "json \<Rightarrow> string \<Rightarrow> json" where
  "get v key = field_of (members v) key"

definition is_mapping :: "json \<Rightarrow> bool" where
  "is_mapping v = (case v of JObj _ \<Rightarrow> True | _ \<Rightarrow> False)"

definition is_str :: "json \<Rightarrow> bool" where
  "is_str v = (case v of JStr _ \<Rightarrow> True | _ \<Rightarrow> False)"

definition positive :: "json \<Rightarrow> bool" where
  "positive v = (case v of JInt i \<Rightarrow> 1 \<le> i | _ \<Rightarrow> False)"

definition handler_candidates :: "json \<Rightarrow> json list \<Rightarrow> json list" where
  "handler_candidates row entries = filter (\<lambda>e. let h = get e ''handler'' in is_mapping h
     \<and> py_eq (get h ''callable'') (get row ''handler_fqn'') \<and> py_eq (get h ''file'') (get row ''handler_file'')
     \<and> py_eq (get h ''start_line'') (get row ''handler_start_line'')) entries"

definition concrete_route :: "json \<Rightarrow> bool" where
  "concrete_route v = (case v of JStr s \<Rightarrow> s \<noteq> [] \<and> s \<noteq> ''dynamic_matcher'' | _ \<Rightarrow> False)"

text \<open>A route binds every entry that it matches, a handler only an entry that it determines.\<close>

definition row_candidates :: "json \<Rightarrow> json list \<Rightarrow> json list" where
  "row_candidates row entries =
     (let route = get row ''route_or_event'' in
      if concrete_route route
      then filter (\<lambda>e. is_str (get e ''route_or_event'') \<and> route_matches (str_of route) (str_of (get e ''route_or_event''))) entries
      else let cs = handler_candidates row entries in if length cs \<noteq> 1 then [] else cs)"

definition row_usable :: "json \<Rightarrow> bool" where
  "row_usable row = (list_all (\<lambda>k. is_str (get row k) \<and> str_of (get row k) \<noteq> [])
       [''kind'', ''value'', ''fact_file'', ''coverage_status''] \<and> positive (get row ''fact_start_line''))"

definition bind_row :: "json list \<Rightarrow> json \<Rightarrow> security_fact list res" where
  "bind_row entries row =
     (if \<not> row_usable row then Inr []
      else map_res (\<lambda>e. EntrySecurityFact (get e ''entry_id'') (get row ''kind'') (get row ''fact_file'')
               (get row ''fact_start_line'') (get row ''value'') (get row ''coverage_status'') (JStr []))
             (filter (\<lambda>e. is_str (get e ''entry_id'') \<and> str_of (get e ''entry_id'') \<noteq> []) (row_candidates row entries)))"

text \<open>The values of a dictionary keyed by the facts' identifiers, in the order of the identifiers.\<close>

definition by_fact_id :: "security_fact list \<Rightarrow> security_fact list" where
  "by_fact_id facts = map (\<lambda>i. the (index_by sf_id facts i)) (usort (map sf_id facts))"

definition bind_entry_security_rows :: "json list \<Rightarrow> json list \<Rightarrow> security_fact list res" where
  "bind_entry_security_rows rows entries =
     res_bind (map_res (bind_row entries) rows) (\<lambda>fs. Inr (by_fact_id (concat fs)))"

text \<open>A complete registration is positive evidence that the entry is deployed by default.\<close>

definition default_gate :: "string list \<Rightarrow> json \<Rightarrow> bool" where
  "default_gate excluded entry =
     (let registration = get entry ''registration'' in
      is_str (get entry ''entry_id'') \<and> str_of (get entry ''entry_id'') \<notin> set excluded \<and> is_mapping registration
      \<and> is_str (get registration ''file'') \<and> str_of (get registration ''file'') \<noteq> [] \<and> positive (get registration ''start_line''))"

definition extract_entry_deployment_defaults :: "json list \<Rightarrow> string list \<Rightarrow> security_fact list res" where
  "extract_entry_deployment_defaults entries excluded =
     res_bind (map_res (\<lambda>e. EntrySecurityFact (get e ''entry_id'') (JStr ''deployment_gate'')
         (get (get e ''registration'') ''file'') (get (get e ''registration'') ''start_line'')
         (JStr ''default_enabled'') (JStr ''complete'') (JStr [])) (filter (default_gate excluded) entries))
       (\<lambda>fs. Inr (sort_key sf_id fs))"

end
