(* ===== verification/Reachability.thy ===== *)
theory Reachability
  imports ReachabilityModel
begin

text \<open>
  \<open>dosweb/reachability/verify.py\<close>: the authentication contract that the security facts of an entry
  determine, and the check of a contract, derived or proposed by a language model, against these
  facts. Sets that the code fills in a loop are the filtered lists of their members.
\<close>

section \<open>What a fact says\<close>

definition auth_context_table :: "((string \<times> string) \<times> string) list" where
  "auth_context_table = [
     ((''annotation'', ''unauthenticated_annotation''), ''unauthenticated''),
     ((''annotation'', ''low_privilege_annotation''), ''low_privilege''),
     ((''annotation'', ''privileged_annotation''), ''privileged''),
     ((''servlet_constraint'', ''unauthenticated_constraint''), ''unauthenticated''),
     ((''servlet_constraint'', ''privileged_constraint''), ''privileged''),
     ((''security_filter_chain'', ''unauthenticated_filter''), ''unauthenticated''),
     ((''security_filter_chain'', ''low_privilege_filter''), ''low_privilege''),
     ((''security_filter_chain'', ''privileged_filter''), ''privileged''),
     ((''filter'', ''unauthenticated_filter''), ''unauthenticated''),
     ((''filter'', ''low_privilege_filter''), ''low_privilege''),
     ((''filter'', ''privileged_filter''), ''privileged''),
     ((''configuration'', ''unauthenticated_configuration''), ''unauthenticated''),
     ((''configuration'', ''low_privilege_configuration''), ''low_privilege''),
     ((''configuration'', ''privileged_configuration''), ''privileged'')]"

definition auth_context_by_fact :: "string \<times> string \<rightharpoonup> string" where
  "auth_context_by_fact = map_of auth_context_table"

definition auth_context_order :: "string list" where
  "auth_context_order = [''unauthenticated'', ''low_privilege'', ''privileged'']"

definition auth_context_for_fact :: "security_fact \<Rightarrow> string option" where
  "auth_context_for_fact f = auth_context_by_fact (sf_kind f, sf_value f)"

text \<open>A fact about authentication whose coverage is not complete, and a complete one.\<close>

definition auth_gap :: "security_fact \<Rightarrow> bool" where
  "auth_gap f \<longleftrightarrow> sf_kind f \<noteq> ''deployment_gate'' \<and> sf_coverage f \<in> {''partial'', ''unsupported''}"

definition complete_context :: "security_fact \<Rightarrow> string option" where
  "complete_context f = (if sf_coverage f \<noteq> ''complete'' then None else auth_context_for_fact f)"

section \<open>Deriving a contract\<close>

fun supporting :: "string \<Rightarrow> security_fact list \<Rightarrow> (string \<times> string) list option" where
  "supporting eid [] = Some []"
| "supporting eid (f # fs) =
     (if sf_entry_id f \<noteq> eid then supporting eid fs
      else if auth_gap f then None
      else case complete_context f of
          None \<Rightarrow> supporting eid fs
        | Some c \<Rightarrow> map_option (Cons (c, sf_id f)) (supporting eid fs))"

definition derive_auth_contract_from_facts :: "string \<Rightarrow> security_fact list \<Rightarrow> auth_contract option res" where
  "derive_auth_contract_from_facts eid facts =
     (case supporting eid facts of
        None \<Rightarrow> Inr None
      | Some support \<Rightarrow> (case remdups (map fst support) of
            [context] \<Rightarrow> res_bind (AuthContract (JStr context) [JStr (hd (usort (map snd support)))] [] (JStr ''high''))
              (\<lambda>contract. Inr (Some contract))
          | _ \<Rightarrow> Inr None))"

section \<open>The evidence of a decision\<close>

definition max_decision_evidence :: nat where
  "max_decision_evidence = 32"

fun select_ids :: "nat \<Rightarrow> string list \<Rightarrow> string list \<Rightarrow> string list" where
  "select_ids limit selected [] = selected"
| "select_ids limit selected (i # is) =
     (if i \<in> set selected then select_ids limit selected is
      else if length (selected @ [i]) = limit then selected @ [i]
      else select_ids limit (selected @ [i]) is)"

definition representatives :: "string list \<Rightarrow> (string \<Rightarrow> string list) \<Rightarrow> string list" where
  "representatives keys evidence = map (\<lambda>k. hd (usort (evidence k))) (filter (\<lambda>k. evidence k \<noteq> []) keys)"

definition bounded_decision_evidence :: "string list \<Rightarrow> (string \<Rightarrow> string list) \<Rightarrow> (string \<Rightarrow> string list) \<Rightarrow> string list
    \<Rightarrow> string list" where
  "bounded_decision_evidence gap_ids auth_evidence deployment_evidence cited =
     (let prioritized = (if gap_ids \<noteq> [] then [hd (usort gap_ids)] else [])
            @ representatives auth_context_order auth_evidence
            @ representatives deployment_statuses deployment_evidence
            @ sort cited
      in sort (select_ids max_decision_evidence [] prioritized))"

section \<open>Checking a contract\<close>

definition cites_outside :: "string \<Rightarrow> (string \<rightharpoonup> security_fact) \<Rightarrow> string list \<Rightarrow> auth_contract \<Rightarrow> bool" where
  "cites_outside eid indexed slice_ids contract =
     list_ex (\<lambda>i. i \<notin> set slice_ids \<or> (case indexed i of None \<Rightarrow> True | Some f \<Rightarrow> sf_entry_id f \<noteq> eid))
       (ac_evidence_ids contract)"

definition entry_slice :: "string \<Rightarrow> security_fact list \<Rightarrow> string list \<Rightarrow> security_fact list" where
  "entry_slice eid facts slice_ids =
     filter (\<lambda>f. sf_entry_id f = eid \<and> sf_id f \<in> set slice_ids) (by_fact_id facts)"

definition ids_where :: "(security_fact \<Rightarrow> bool) \<Rightarrow> security_fact list \<Rightarrow> string list" where
  "ids_where P fs = map sf_id (filter P fs)"

definition contract_context :: "auth_contract \<Rightarrow> security_fact list \<Rightarrow> string" where
  "contract_context contract cited =
     (if ac_context contract \<in> {''unauthenticated'', ''low_privilege'', ''privileged''}
        \<and> list_ex (\<lambda>f. complete_context f = Some (ac_context contract)) cited
      then ac_context contract else ''unknown'')"

definition decide_reachability :: "bool \<Rightarrow> string \<Rightarrow> string \<Rightarrow> string \<times> string list" where
  "decide_reachability gap context deployment =
     (if gap then (''unknown'', [coverage_partial, ''REACH_AUTH_UNKNOWN''])
      else if context = ''privileged'' then (''not_entry_reachable'', [''REACH_PRIVILEGED''])
      else if deployment = ''default_disabled'' then (''not_entry_reachable'', [''REACH_DEFAULT_DISABLED''])
      else if deployment = ''optional'' then (''not_entry_reachable'', [''REACH_OPTIONAL_COMPONENT''])
      else if context \<in> {''unauthenticated'', ''low_privilege''} \<and> deployment = ''default_enabled''
      then (''ordinary_attacker_reachable'', [''REACH_ORDINARY_ATTACKER''])
      else (''unknown'', (if context = ''unknown'' then [''REACH_AUTH_UNKNOWN''] else [])
              @ (if deployment = ''unknown'' then [''REACH_DEPLOYMENT_UNKNOWN''] else [])))"

text \<open>\<open>repr\<close> of the contract's dictionary, hashed into the identifier of the contract, is an argument.\<close>

definition contract_identifier :: "(json \<Rightarrow> string) \<Rightarrow> string \<Rightarrow> auth_contract \<Rightarrow> string" where
  "contract_identifier py_repr eid contract =
     ''auth_contract:'' @ sha256_hex (eid @ py_repr (auth_to_dict contract))"

definition verify_auth_contract :: "(json \<Rightarrow> string) \<Rightarrow> string \<Rightarrow> auth_contract \<Rightarrow> security_fact list \<Rightarrow> string list
    \<Rightarrow> modeled_fact list \<Rightarrow> reachability_decision res" where
  "verify_auth_contract py_repr eid contract facts slice_ids configuration =
     (let indexed = index_by sf_id facts in
      if cites_outside eid indexed slice_ids contract
      then Inl (AnalyzerError ''LLM_RESPONSE_SCHEMA_INVALID'' ''Auth Contract cites a fact outside its bounded security slice.'' [])
      else let cited = map (\<lambda>i. the (indexed i)) (ac_evidence_ids contract);
          slice = entry_slice eid facts slice_ids;
          gap_ids = ids_where auth_gap slice;
          auth_evidence = (\<lambda>c. ids_where (\<lambda>f. complete_context f = Some c) slice);
          auth_conflict = 1 < length (filter (\<lambda>c. auth_evidence c \<noteq> []) auth_context_order);
          context = (if auth_conflict \<or> gap_ids \<noteq> [] then ''unknown'' else contract_context contract cited);
          gates = filter (\<lambda>f. sf_kind f = ''deployment_gate'') slice;
          deployment = resolve_deployment_status gates configuration;
          deployment_evidence = (\<lambda>s. ids_where (\<lambda>f. sf_coverage f = ''complete''
              \<and> resolve_deployment_status [f] configuration = s) gates);
          (status, reasons) = decide_reachability (gap_ids \<noteq> []) context deployment;
          reasons = reasons @ (if auth_conflict then [''REACH_AUTH_CONFLICT''] else []);
          evidence_ids = bounded_decision_evidence gap_ids auth_evidence deployment_evidence (ac_evidence_ids contract)
      in ReachabilityDecision (JStr eid) (JStr (contract_identifier py_repr eid contract)) (JStr context)
           (JStr deployment) (JStr status) (map JStr evidence_ids) (map JStr (usort reasons)) (JStr []))"

section \<open>The decision of an entry in the growth stage\<close>

text \<open>\<open>production.py\<close>: the derived contract when there is one, otherwise the one proposed by the
  classifier, if any, and otherwise an unknown decision. The classifier is the language model: it is an
  argument, and nothing is assumed of what it answers.\<close>

definition unavailable_contract :: "auth_contract res" where
  "unavailable_contract = AuthContract (JStr ''unknown'') [] [JStr ''auth_transport_unavailable''] (JStr ''low'')"

definition entry_auth_decision :: "(json \<Rightarrow> string) \<Rightarrow> (string \<Rightarrow> security_fact list \<Rightarrow> auth_contract option res) option
    \<Rightarrow> string \<Rightarrow> security_fact list \<Rightarrow> modeled_fact list \<Rightarrow> (auth_contract \<times> reachability_decision) res" where
  "entry_auth_decision py_repr classify_auth eid facts configuration =
     res_bind (derive_auth_contract_from_facts eid facts) (\<lambda>derived.
     res_bind (case derived of Some contract \<Rightarrow> Inr (Some contract)
       | None \<Rightarrow> (case classify_auth of None \<Rightarrow> Inr None | Some classify \<Rightarrow> classify eid facts)) (\<lambda>auth.
     case auth of
       None \<Rightarrow> res_bind unavailable_contract (\<lambda>contract.
         res_bind (ReachabilityDecision (JStr eid) (JStr (contract_identifier py_repr eid contract)) (JStr ''unknown'')
             (JStr ''unknown'') (JStr ''unknown'') []
             [JStr ''REACH_AUTH_TRANSPORT_UNAVAILABLE'', JStr ''REACH_DEPLOYMENT_UNKNOWN''] (JStr [])) (\<lambda>d.
         Inr (contract, d)))
     | Some contract \<Rightarrow>
         res_bind (verify_auth_contract py_repr eid contract facts (map sf_id facts) configuration) (\<lambda>d.
         Inr (contract, d))))"

end
