(* ===== verification/ReachabilityLaws.thy ===== *)
theory ReachabilityLaws
  imports Reachability
begin

text \<open>
  What the reachability decision of an entry rests on, whatever contract it is given; that valid
  inputs always give a decision, which is read back from its record; and that the decision does not
  depend on the order of the facts.
\<close>

section \<open>The constructors\<close>

lemma reach_str_Inr: "reach_str v = Inr s \<longleftrightarrow> v = JStr s \<and> good_string s \<and> length s \<le> max_text"
  by (auto simp: reach_str_def text_ok_iff str_of_def)

lemma reach_id_Inr: "reach_id v p = Inr s \<longleftrightarrow> v = JStr s \<and> good_string s \<and> length s \<le> max_text \<and> startswith s p"
  by (auto simp: reach_id_def res_bind_Inr_iff reach_str_Inr split: if_splits)

definition text_field :: "string \<Rightarrow> bool" where
  "text_field s \<longleftrightarrow> good_string s \<and> length s \<le> max_text"

lemma map_reach_str: "map_res reach_str vs = Inr ss \<longleftrightarrow> vs = map JStr ss \<and> list_all text_field ss"
proof
  show "map_res reach_str vs = Inr ss \<Longrightarrow> vs = map JStr ss \<and> list_all text_field ss"
    by (induction vs arbitrary: ss) (auto simp: reach_str_Inr text_field_def split: sum.splits)
  show "vs = map JStr ss \<and> list_all text_field ss \<Longrightarrow> map_res reach_str vs = Inr ss"
    using map_res_Inr[of "map JStr ss" reach_str str_of]
    by (auto simp: reach_str_Inr str_of_def list_all_iff text_field_def comp_def)
qed

lemma map_reach_id:
  "map_res (\<lambda>x. reach_id x p) vs = Inr ss \<longleftrightarrow> vs = map JStr ss \<and> list_all (\<lambda>s. text_field s \<and> startswith s p) ss"
proof
  show "map_res (\<lambda>x. reach_id x p) vs = Inr ss \<Longrightarrow> vs = map JStr ss \<and> list_all (\<lambda>s. text_field s \<and> startswith s p) ss"
    by (induction vs arbitrary: ss) (auto simp: reach_id_Inr text_field_def split: sum.splits)
  show "vs = map JStr ss \<and> list_all (\<lambda>s. text_field s \<and> startswith s p) ss \<Longrightarrow> map_res (\<lambda>x. reach_id x p) vs = Inr ss"
    using map_res_Inr[of "map JStr ss" "\<lambda>x. reach_id x p" str_of]
    by (auto simp: reach_id_Inr str_of_def list_all_iff text_field_def comp_def)
qed

lemma hashable_strings [simp]: "list_all hashable (map JStr ss)"
  by (simp add: list_all_iff hashable_def)

lemma distinct_strings [simp]: "distinct (map JStr ss) \<longleftrightarrow> distinct ss"
  by (simp add: distinct_map inj_on_def)

lemma str_of_JStr [simp]: "str_of (JStr s) = s" by (simp add: str_of_def)

definition wf_security :: "security_fact \<Rightarrow> bool" where
  "wf_security f \<longleftrightarrow> text_field (sf_entry_id f) \<and> startswith (sf_entry_id f) ''entry:''
     \<and> text_field (sf_location f) \<and> text_field (sf_value f) \<and> sf_kind f \<in> set security_kinds
     \<and> sf_coverage f \<in> set security_coverages \<and> 0 \<le> sf_line f
     \<and> sf_id f = stable_identifier ''security'' (JObj (security_semantic_identity f))"

lemma EntrySecurityFact_wf:
  assumes "EntrySecurityFact e k l n v c i = Inr f"
  shows "wf_security f"
  using assms
  by (auto simp: EntrySecurityFact_def wf_security_def res_bind_Inr_iff reach_id_Inr reach_str_Inr literals_Inr
      text_field_def natural_def int_of_def Let_def security_semantic_identity_def split: json.splits)

lemma EntrySecurityFact_of_wf:
  assumes "wf_security f"
  shows "EntrySecurityFact (JStr (sf_entry_id f)) (JStr (sf_kind f)) (JStr (sf_location f)) (JInt (sf_line f))
    (JStr (sf_value f)) (JStr (sf_coverage f)) (JStr (sf_id f)) = Inr f"
proof -
  have "reach_id (JStr (sf_entry_id f)) ''entry:'' = Inr (sf_entry_id f)"
    "reach_str (JStr (sf_location f)) = Inr (sf_location f)" "reach_str (JStr (sf_value f)) = Inr (sf_value f)"
    "literals reach_invalid [(JStr (sf_kind f), security_kinds), (JStr (sf_coverage f), security_coverages)] = Inr ()"
    using assms by (simp_all add: wf_security_def reach_id_Inr reach_str_Inr text_field_def literals_Inr)
  then show ?thesis
    using assms
    by (simp add: EntrySecurityFact_def wf_security_def natural_def require_def int_of_def Let_def
        supplied_id_ok_def security_semantic_identity_def)
qed

definition wf_contract :: "auth_contract \<Rightarrow> bool" where
  "wf_contract c \<longleftrightarrow> ac_context c \<in> set auth_contexts \<and> ac_confidence c \<in> {''high'', ''medium'', ''low''}
     \<and> length (ac_evidence_ids c) \<le> 32 \<and> length (ac_assumptions c) \<le> 32 \<and> distinct (ac_evidence_ids c)
     \<and> list_all (\<lambda>s. text_field s \<and> startswith s ''security:'') (ac_evidence_ids c) \<and> list_all text_field (ac_assumptions c)"

lemma AuthContract_Inr:
  "AuthContract context evidence assumptions confidence = Inr c \<longleftrightarrow>
     context = JStr (ac_context c) \<and> evidence = map JStr (ac_evidence_ids c)
     \<and> assumptions = map JStr (ac_assumptions c) \<and> confidence = JStr (ac_confidence c) \<and> wf_contract c"
proof
  show "AuthContract context evidence assumptions confidence = Inr c \<Longrightarrow>
     context = JStr (ac_context c) \<and> evidence = map JStr (ac_evidence_ids c)
     \<and> assumptions = map JStr (ac_assumptions c) \<and> confidence = JStr (ac_confidence c) \<and> wf_contract c"
    by (auto simp: AuthContract_def wf_contract_def res_bind_Inr_iff literals_Inr map_reach_id map_reach_str
        split: if_split_asm)
  assume h: "context = JStr (ac_context c) \<and> evidence = map JStr (ac_evidence_ids c)
     \<and> assumptions = map JStr (ac_assumptions c) \<and> confidence = JStr (ac_confidence c) \<and> wf_contract c"
  then have "literals reach_invalid [(context, auth_contexts), (confidence, [''high'', ''medium'', ''low''])] = Inr ()"
    "map_res (\<lambda>x. reach_id x ''security:'') evidence = Inr (ac_evidence_ids c)"
    "map_res reach_str assumptions = Inr (ac_assumptions c)"
    by (auto simp: wf_contract_def literals_Inr map_reach_id map_reach_str)
  then show "AuthContract context evidence assumptions confidence = Inr c"
    using h by (simp add: AuthContract_def wf_contract_def require_def)
qed

definition wf_decision :: "reachability_decision \<Rightarrow> bool" where
  "wf_decision d \<longleftrightarrow> text_field (rd_entry_id d) \<and> startswith (rd_entry_id d) ''entry:''
     \<and> text_field (rd_contract_id d) \<and> startswith (rd_contract_id d) ''auth_contract:''
     \<and> rd_context d \<in> set auth_contexts \<and> rd_deployment d \<in> set deployment_statuses
     \<and> rd_status d \<in> set reachability_statuses
     \<and> length (rd_evidence_ids d) \<le> 32 \<and> distinct (rd_evidence_ids d)
     \<and> list_all (\<lambda>s. text_field s \<and> startswith s ''security:'') (rd_evidence_ids d)
     \<and> rd_reasons d \<noteq> [] \<and> length (rd_reasons d) \<le> 32 \<and> distinct (rd_reasons d) \<and> list_all text_field (rd_reasons d)
     \<and> (coverage_partial \<in> set (rd_reasons d) \<longrightarrow> rd_context d = ''unknown'')
     \<and> rd_status d = decided_status (coverage_partial \<in> set (rd_reasons d)) (rd_context d) (rd_deployment d)"

definition identified :: "reachability_decision \<Rightarrow> bool" where
  "identified d \<longleftrightarrow> rd_id d = stable_identifier ''reachability'' (JObj (decision_semantic_identity d))"

lemma ReachabilityDecision_Inr:
  assumes "ReachabilityDecision e c x p s es rs i = Inr d"
  shows "wf_decision d" "identified d" "e = JStr (rd_entry_id d)" "c = JStr (rd_contract_id d)" "x = JStr (rd_context d)"
    "p = JStr (rd_deployment d)" "s = JStr (rd_status d)" "es = map JStr (rd_evidence_ids d)" "rs = map JStr (rd_reasons d)"
proof -
  obtain u :: nat where parts: "e = JStr (rd_entry_id d)" "text_field (rd_entry_id d)" "startswith (rd_entry_id d) ''entry:''"
    "c = JStr (rd_contract_id d)" "text_field (rd_contract_id d)" "startswith (rd_contract_id d) ''auth_contract:''"
    "x \<in> JStr ` set auth_contexts" "p \<in> JStr ` set deployment_statuses" "s \<in> JStr ` set reachability_statuses"
    "str_of x = rd_context d" "str_of p = rd_deployment d" "str_of s = rd_status d"
    "length es \<le> 32 \<and> rs \<noteq> [] \<and> length rs \<le> 32" "distinct es" "distinct rs"
    "\<not> (JStr coverage_partial \<in> set rs \<and> x \<noteq> JStr ''unknown'')"
    "s = JStr (decided_status (JStr coverage_partial \<in> set rs) (str_of x) (str_of p))"
    "es = map JStr (rd_evidence_ids d)" "list_all (\<lambda>s. text_field s \<and> startswith s ''security:'') (rd_evidence_ids d)"
    "rs = map JStr (rd_reasons d)" "list_all text_field (rd_reasons d)" "identified d"
    using assms
    by (auto simp only: ReachabilityDecision_def identified_def res_bind_Inr_iff reach_id_Inr
      literals_Inr map_reach_id map_reach_str text_field_def Let_def require_Inr decision_semantic_identity_def
      reachability_decision.simps split: if_split_asm,
      simp_all add: decision_semantic_identity_def) blast
  have status: "rd_status d = decided_status (coverage_partial \<in> set (rd_reasons d)) (rd_context d) (rd_deployment d)"
    using parts(10-12,17,20) by (auto simp: image_iff)
  show "x = JStr (rd_context d)" "p = JStr (rd_deployment d)" "s = JStr (rd_status d)"
    using parts(7-12) by auto
  then have "rd_context d \<in> set auth_contexts" "rd_deployment d \<in> set deployment_statuses"
    "rd_status d \<in> set reachability_statuses" "coverage_partial \<in> set (rd_reasons d) \<longrightarrow> rd_context d = ''unknown''"
    using parts(7-9,16,20) by auto
  then show "wf_decision d"
    unfolding wf_decision_def using parts status by simp
  show "identified d" "e = JStr (rd_entry_id d)" "c = JStr (rd_contract_id d)" "es = map JStr (rd_evidence_ids d)"
    "rs = map JStr (rd_reasons d)"
    using parts by simp_all
qed

lemma ReachabilityDecision_of_wf:
  assumes "wf_decision d" "identified d" "supplied_id_ok i (rd_id d)"
  shows "ReachabilityDecision (JStr (rd_entry_id d)) (JStr (rd_contract_id d)) (JStr (rd_context d)) (JStr (rd_deployment d))
    (JStr (rd_status d)) (map JStr (rd_evidence_ids d)) (map JStr (rd_reasons d)) i = Inr d"
proof -
  have "reach_id (JStr (rd_entry_id d)) ''entry:'' = Inr (rd_entry_id d)"
    "reach_id (JStr (rd_contract_id d)) ''auth_contract:'' = Inr (rd_contract_id d)"
    "map_res (\<lambda>x. reach_id x ''security:'') (map JStr (rd_evidence_ids d)) = Inr (rd_evidence_ids d)"
    "map_res reach_str (map JStr (rd_reasons d)) = Inr (rd_reasons d)"
    using assms(1) by (simp_all add: wf_decision_def reach_id_Inr text_field_def map_reach_id map_reach_str)
  moreover have "rd_context d \<in> set auth_contexts" "rd_deployment d \<in> set deployment_statuses"
    "rd_status d \<in> set reachability_statuses" using assms(1) unfolding wf_decision_def by blast+
  then have "literals reach_invalid [(JStr (rd_context d), auth_contexts), (JStr (rd_deployment d), deployment_statuses),
         (JStr (rd_status d), reachability_statuses)] = Inr ()" by (simp add: literals_Inr)
  moreover have "JStr x \<in> JStr ` A \<longleftrightarrow> x \<in> A" for x A by auto
  moreover have "decided_status (coverage_partial \<in> set (rd_reasons d)) (rd_context d) (rd_deployment d) = rd_status d"
    using assms(1) by (simp add: wf_decision_def)
  ultimately show ?thesis
    using assms by (auto simp: ReachabilityDecision_def wf_decision_def identified_def require_def Let_def
        decision_semantic_identity_def)
qed

section \<open>Records are read back\<close>

lemma security_roundtrip: "wf_security f \<Longrightarrow> security_from_dict (security_to_dict f) = Inr f"
  using EntrySecurityFact_of_wf[of f]
  by (simp add: security_from_dict_def security_to_dict_def has_fields_def members_def field_of_def
      security_semantic_identity_def insert_commute)

lemma contract_roundtrip: "wf_contract c \<Longrightarrow> auth_from_dict (auth_to_dict c) = Inr c"
  using AuthContract_Inr[of "JStr (ac_context c)" "map JStr (ac_evidence_ids c)" "map JStr (ac_assumptions c)"
      "JStr (ac_confidence c)" c]
  by (simp add: auth_from_dict_def auth_to_dict_def has_fields_def members_def field_of_def insert_commute)

lemma decision_read_back:
  assumes "wf_decision d" "identified d"
  shows "decision_from_dict (decision_to_dict d) = Inr d"
  using ReachabilityDecision_of_wf[OF assms, of "JStr (rd_id d)"]
  by (simp add: decision_from_dict_def decision_to_dict_def has_fields_def members_def field_of_def
      decision_semantic_identity_def insert_commute supplied_id_ok_def tuple_of_def)

section \<open>The slice of an entry\<close>

lemma set_by_fact_id: "set (by_fact_id facts) = {f. index_by sf_id facts (sf_id f) = Some f}"
proof (intro set_eqI iffI)
  fix f assume "f \<in> set (by_fact_id facts)"
  then obtain i where i: "i \<in> sf_id ` set facts" "f = the (index_by sf_id facts i)" by (auto simp: by_fact_id_def)
  then obtain g where "index_by sf_id facts i = Some g" by (metis dom_index_by domD)
  then show "f \<in> {f. index_by sf_id facts (sf_id f) = Some f}" using i index_by_Some by fastforce
next
  fix f assume "f \<in> {f. index_by sf_id facts (sf_id f) = Some f}"
  then have f: "index_by sf_id facts (sf_id f) = Some f" by simp
  then have "sf_id f \<in> set (usort (map sf_id facts))" using index_by_Some[OF f] by simp
  then have "(\<lambda>i. the (index_by sf_id facts i)) (sf_id f) \<in> set (by_fact_id facts)"
    unfolding by_fact_id_def set_map by (rule imageI)
  then show "f \<in> set (by_fact_id facts)" using f by simp
qed

lemma distinct_by_fact_id: "map sf_id (by_fact_id facts) = usort (map sf_id facts)"
proof -
  have "sf_id (the (index_by sf_id facts i)) = i" if "i \<in> sf_id ` set facts" for i
    using that by (metis dom_index_by domD index_by_Some option.sel)
  then have "map (\<lambda>i. sf_id (the (index_by sf_id facts i))) (usort (map sf_id facts)) = usort (map sf_id facts)"
    by (intro map_idI) simp
  then show ?thesis by (simp add: by_fact_id_def comp_def)
qed

definition unambiguous :: "security_fact list \<Rightarrow> bool" where
  "unambiguous facts \<longleftrightarrow> inj_on sf_id (set facts)"

lemma index_unambiguous:
  assumes "unambiguous facts"
  shows "index_by sf_id facts i = Some f \<longleftrightarrow> f \<in> set facts \<and> sf_id f = i"
proof
  assume h: "f \<in> set facts \<and> sf_id f = i"
  then have "i \<in> dom (index_by sf_id facts)" by (auto simp: dom_index_by)
  then obtain g where g: "index_by sf_id facts i = Some g" by blast
  with index_by_Some[OF g] h assms have "g = f" by (auto simp: unambiguous_def dest: inj_onD)
  with g show "index_by sf_id facts i = Some f" by simp
qed (simp add: index_by_Some)

lemma by_fact_id_unambiguous: "unambiguous facts \<Longrightarrow> set (by_fact_id facts) = set facts"
  by (auto simp: set_by_fact_id index_unambiguous)

lemma by_fact_id_cong:
  assumes "unambiguous facts" "set facts = set facts'"
  shows "by_fact_id facts = by_fact_id facts'" "index_by sf_id facts = index_by sf_id facts'"
proof -
  have other: "unambiguous facts'" using assms by (simp add: unambiguous_def)
  have "index_by sf_id facts i = index_by sf_id facts' i" for i
  proof -
    have "index_by sf_id facts i = Some f \<longleftrightarrow> index_by sf_id facts' i = Some f" for f
      using assms other by (simp add: index_unambiguous)
    then show ?thesis by (metis not_Some_eq)
  qed
  then show "index_by sf_id facts = index_by sf_id facts'" by (rule ext)
  then show "by_fact_id facts = by_fact_id facts'"
    using assms(2) by (simp add: by_fact_id_def cong: usort_cong) (metis set_map usort_eq_iff)
qed

section \<open>What a decision rests on\<close>

text \<open>The facts of a slice agree on a context: no coverage gap, and every complete fact about
  authentication says the same.\<close>

definition slice_agrees :: "security_fact list \<Rightarrow> string \<Rightarrow> bool" where
  "slice_agrees sl context \<longleftrightarrow>
     (\<forall>f \<in> set sl. \<not> auth_gap f \<and> complete_context f \<in> {None, Some context})"

definition establishes :: "auth_contract \<Rightarrow> security_fact list \<Rightarrow> string \<Rightarrow> bool" where
  "establishes contract sl context \<longleftrightarrow> ac_context contract = context \<and> slice_agrees sl context
     \<and> (\<exists>f \<in> set sl. sf_id f \<in> set (ac_evidence_ids contract) \<and> complete_context f = Some context)"

definition slice_gates :: "security_fact list \<Rightarrow> security_fact list" where
  "slice_gates sl = filter (\<lambda>f. sf_kind f = ''deployment_gate'') sl"

lemma complete_context_order: "complete_context f = Some c \<Longrightarrow> c \<in> set auth_context_order"
proof -
  assume "complete_context f = Some c"
  then have "auth_context_by_fact (sf_kind f, sf_value f) = Some c"
    by (simp add: complete_context_def auth_context_for_fact_def split: if_splits)
  moreover have "list_all (\<lambda>(k, c). c \<in> set auth_context_order) auth_context_table"
    by (simp add: auth_context_table_def auth_context_order_def)
  ultimately show ?thesis
    by (auto simp: auth_context_by_fact_def list_all_iff dest!: map_of_SomeD)
qed

lemma one_supported:
  assumes "distinct xs"
  shows "\<not> 1 < length (filter P xs) \<longleftrightarrow> (\<forall>x \<in> set xs. \<forall>y \<in> set xs. P x \<longrightarrow> P y \<longrightarrow> x = y)"
proof
  assume short: "\<not> 1 < length (filter P xs)"
  show "\<forall>x \<in> set xs. \<forall>y \<in> set xs. P x \<longrightarrow> P y \<longrightarrow> x = y"
  proof (intro ballI impI)
    fix x y assume "x \<in> set xs" "y \<in> set xs" "P x" "P y"
    then have "x \<in> set (filter P xs)" "y \<in> set (filter P xs)" by simp_all
    with short show "x = y" by (cases "filter P xs") auto
  qed
next
  assume all: "\<forall>x \<in> set xs. \<forall>y \<in> set xs. P x \<longrightarrow> P y \<longrightarrow> x = y"
  show "\<not> 1 < length (filter P xs)"
  proof
    assume "1 < length (filter P xs)"
    then obtain x y zs where f: "filter P xs = x # y # zs"
      by (metis One_nat_def less_nat_zero_code length_Cons list.exhaust list.size(3) less_irrefl)
    then have "x \<in> set (filter P xs)" "y \<in> set (filter P xs)" by simp_all
    with all have "x = y" by simp
    moreover have "distinct (x # y # zs)" using assms f by (metis distinct_filter)
    ultimately show False by simp
  qed
qed

lemma ids_where_Nil: "ids_where P fs = [] \<longleftrightarrow> (\<forall>f \<in> set fs. \<not> P f)"
  by (simp add: ids_where_def filter_empty_conv)

lemma no_conflict:
  "\<not> 1 < length (filter (\<lambda>c. ids_where (\<lambda>f. complete_context f = Some c) sl \<noteq> []) auth_context_order)
     \<longleftrightarrow> (\<forall>f \<in> set sl. \<forall>g \<in> set sl. complete_context f \<noteq> None \<longrightarrow> complete_context g \<noteq> None
            \<longrightarrow> complete_context f = complete_context g)"
proof -
  let ?P = "\<lambda>c. \<exists>f \<in> set sl. complete_context f = Some c"
  have "distinct auth_context_order" by (simp add: auth_context_order_def)
  then have step: "?thesis \<longleftrightarrow> ((\<forall>x \<in> set auth_context_order. \<forall>y \<in> set auth_context_order. ?P x \<longrightarrow> ?P y \<longrightarrow> x = y)
     \<longleftrightarrow> (\<forall>f \<in> set sl. \<forall>g \<in> set sl. complete_context f \<noteq> None \<longrightarrow> complete_context g \<noteq> None
            \<longrightarrow> complete_context f = complete_context g))"
    by (simp only: one_supported ids_where_Nil ball_simps not_not)
  have "(\<forall>x \<in> set auth_context_order. \<forall>y \<in> set auth_context_order. ?P x \<longrightarrow> ?P y \<longrightarrow> x = y)
     \<longleftrightarrow> (\<forall>f \<in> set sl. \<forall>g \<in> set sl. complete_context f \<noteq> None \<longrightarrow> complete_context g \<noteq> None
            \<longrightarrow> complete_context f = complete_context g)"
  proof
    assume same: "\<forall>x \<in> set auth_context_order. \<forall>y \<in> set auth_context_order. ?P x \<longrightarrow> ?P y \<longrightarrow> x = y"
    show "\<forall>f \<in> set sl. \<forall>g \<in> set sl. complete_context f \<noteq> None \<longrightarrow> complete_context g \<noteq> None
            \<longrightarrow> complete_context f = complete_context g"
    proof (intro ballI impI)
      fix f g assume h: "f \<in> set sl" "g \<in> set sl" "complete_context f \<noteq> None" "complete_context g \<noteq> None"
      then obtain a b where ab: "complete_context f = Some a" "complete_context g = Some b" by blast
      then have "a \<in> set auth_context_order" "b \<in> set auth_context_order" by (simp_all add: complete_context_order)
      moreover have "?P a" "?P b" using ab h(1,2) by blast+
      ultimately have "a = b" using same by (metis (no_types))
      with ab show "complete_context f = complete_context g" by simp
    qed
  next
    assume same: "\<forall>f \<in> set sl. \<forall>g \<in> set sl. complete_context f \<noteq> None \<longrightarrow> complete_context g \<noteq> None
            \<longrightarrow> complete_context f = complete_context g"
    show "\<forall>x \<in> set auth_context_order. \<forall>y \<in> set auth_context_order. ?P x \<longrightarrow> ?P y \<longrightarrow> x = y"
    proof (intro ballI impI)
      fix x y assume "?P x" "?P y"
      then obtain f g where fg: "f \<in> set sl" "g \<in> set sl" "complete_context f = Some x" "complete_context g = Some y" by blast
      from same[rule_format, OF fg(1,2)] fg(3,4) show "x = y" by simp
    qed
  qed
  with step show ?thesis by (rule iffD2)
qed

definition decided_context :: "auth_contract \<Rightarrow> security_fact list \<Rightarrow> security_fact list \<Rightarrow> string" where
  "decided_context contract sl cited =
     (if 1 < length (filter (\<lambda>c. ids_where (\<lambda>f. complete_context f = Some c) sl \<noteq> []) auth_context_order)
        \<or> ids_where auth_gap sl \<noteq> [] then ''unknown'' else contract_context contract cited)"

definition known_contexts :: "string set" where
  "known_contexts = {''unauthenticated'', ''low_privilege'', ''privileged''}"

lemma known_order: "c \<in> set auth_context_order \<longleftrightarrow> c \<in> known_contexts" "''unknown'' \<notin> known_contexts"
  by (auto simp: known_contexts_def auth_context_order_def)

lemma contract_context_iff:
  assumes "c \<in> known_contexts"
  shows "contract_context contract cited = c \<longleftrightarrow> ac_context contract = c \<and> (\<exists>f \<in> set cited. complete_context f = Some c)"
proof -
  have "c \<noteq> ''unknown''" using assms known_order(2) by blast
  then show ?thesis
    using assms unfolding contract_context_def known_contexts_def[symmetric] by (auto simp: list_ex_iff)
qed

lemma decided_context_iff:
  assumes "c \<in> known_contexts"
    and cited: "set cited = {f \<in> set sl. sf_id f \<in> set (ac_evidence_ids contract)}"
  shows "decided_context contract sl cited = c \<longleftrightarrow> establishes contract sl c"
proof -
  have "c \<noteq> ''unknown''" using assms known_order(2) by blast
  then have "decided_context contract sl cited = c \<longleftrightarrow>
      (\<forall>f \<in> set sl. \<forall>g \<in> set sl. complete_context f \<noteq> None \<longrightarrow> complete_context g \<noteq> None
            \<longrightarrow> complete_context f = complete_context g) \<and> (\<forall>f \<in> set sl. \<not> auth_gap f)
      \<and> contract_context contract cited = c"
    unfolding decided_context_def no_conflict[symmetric] ids_where_Nil[symmetric] by auto
  also have "\<dots> \<longleftrightarrow> establishes contract sl c"
  proof
    assume h: "(\<forall>f \<in> set sl. \<forall>g \<in> set sl. complete_context f \<noteq> None \<longrightarrow> complete_context g \<noteq> None
            \<longrightarrow> complete_context f = complete_context g) \<and> (\<forall>f \<in> set sl. \<not> auth_gap f)
      \<and> contract_context contract cited = c"
    then obtain g where g: "g \<in> set sl" "sf_id g \<in> set (ac_evidence_ids contract)" "complete_context g = Some c"
      "ac_context contract = c"
      unfolding contract_context_iff[OF assms(1)] cited by blast
    have "complete_context f \<in> {None, Some c}" if "f \<in> set sl" for f
    proof (cases "complete_context f")
      case (Some a)
      from h[THEN conjunct1, rule_format, OF that g(1)] g(3) Some show ?thesis by simp
    qed simp
    with g h show "establishes contract sl c" unfolding establishes_def slice_agrees_def by blast
  next
    assume e: "establishes contract sl c"
    then have "contract_context contract cited = c"
      unfolding contract_context_iff[OF assms(1)] establishes_def cited by blast
    moreover have "complete_context f = complete_context g"
      if "f \<in> set sl" "g \<in> set sl" "complete_context f \<noteq> None" "complete_context g \<noteq> None" for f g
    proof -
      have "complete_context f \<in> {None, Some c}" "complete_context g \<in> {None, Some c}"
        using e that(1,2) unfolding establishes_def slice_agrees_def by blast+
      with that(3,4) show ?thesis by auto
    qed
    ultimately show "(\<forall>f \<in> set sl. \<forall>g \<in> set sl. complete_context f \<noteq> None \<longrightarrow> complete_context g \<noteq> None
            \<longrightarrow> complete_context f = complete_context g) \<and> (\<forall>f \<in> set sl. \<not> auth_gap f)
      \<and> contract_context contract cited = c"
      using e unfolding establishes_def slice_agrees_def by blast
  qed
  finally show ?thesis .
qed

lemma decided_context_auth: "ac_context contract \<in> set auth_contexts \<Longrightarrow> decided_context contract sl cited \<in> set auth_contexts"
  by (simp add: decided_context_def contract_context_def auth_contexts_def)

text \<open>The check of a contract without the shadowed names of the code.\<close>

lemma verify_auth_contract_eq:
  assumes "\<not> cites_outside eid (index_by sf_id facts) slice_ids contract"
  defines "sl \<equiv> entry_slice eid facts slice_ids"
    and "cited \<equiv> map (\<lambda>i. the (index_by sf_id facts i)) (ac_evidence_ids contract)"
  shows "verify_auth_contract py_repr eid contract facts slice_ids configuration =
    (let context = decided_context contract sl cited;
         deployment = resolve_deployment_status (slice_gates sl) configuration;
         auth_evidence = (\<lambda>c. ids_where (\<lambda>f. complete_context f = Some c) sl);
         decision = decide_reachability (ids_where auth_gap sl \<noteq> []) context deployment
     in ReachabilityDecision (JStr eid) (JStr (contract_identifier py_repr eid contract)) (JStr context) (JStr deployment)
          (JStr (fst decision))
          (map JStr (bounded_decision_evidence (ids_where auth_gap sl) auth_evidence
             (\<lambda>s. ids_where (\<lambda>f. sf_coverage f = ''complete'' \<and> resolve_deployment_status [f] configuration = s) (slice_gates sl))
             (ac_evidence_ids contract)))
          (map JStr (usort (snd decision @ (if 1 < length (filter (\<lambda>c. auth_evidence c \<noteq> []) auth_context_order)
             then [''REACH_AUTH_CONFLICT''] else [])))) (JStr []))"
  by (simp only: verify_auth_contract_def Let_def assms(1) if_False slice_gates_def decided_context_def sl_def
      cited_def case_prod_beta)

lemma cited_facts:
  assumes "\<not> cites_outside eid (index_by sf_id facts) slice_ids contract"
  shows "set (map (\<lambda>i. the (index_by sf_id facts i)) (ac_evidence_ids contract))
    = {f \<in> set (entry_slice eid facts slice_ids). sf_id f \<in> set (ac_evidence_ids contract)}"
proof -
  have ok: "i \<in> set slice_ids \<and> (\<exists>f. index_by sf_id facts i = Some f \<and> sf_entry_id f = eid \<and> sf_id f = i)"
    if "i \<in> set (ac_evidence_ids contract)" for i
    using assms that index_by_Some[of sf_id facts i]
    by (fastforce simp: cites_outside_def list_ex_iff split: option.splits)
  then show ?thesis
    by (force simp: entry_slice_def set_by_fact_id image_iff)
qed

lemma decide_reachability_status: "fst (decide_reachability gap context deployment) = decided_status gap context deployment"
  by (simp add: decide_reachability_def decided_status_def)

lemma decide_reachability_reasons:
  assumes "context \<in> set auth_contexts" "deployment \<in> set deployment_statuses"
  shows "snd (decide_reachability gap context deployment) \<noteq> []"
    "length (snd (decide_reachability gap context deployment)) \<le> 2"
    "list_all text_field (snd (decide_reachability gap context deployment))"
    "coverage_partial \<in> set (snd (decide_reachability gap context deployment)) \<longleftrightarrow> gap"
proof -
  let ?r = "snd (decide_reachability gap context deployment)"
  have codes: "text_field coverage_partial" "text_field ''REACH_AUTH_UNKNOWN''" "text_field ''REACH_PRIVILEGED''"
    "text_field ''REACH_DEFAULT_DISABLED''" "text_field ''REACH_OPTIONAL_COMPONENT''"
    "text_field ''REACH_ORDINARY_ATTACKER''" "text_field ''REACH_DEPLOYMENT_UNKNOWN''"
    by (simp_all add: text_field_def good_string_def max_text_def coverage_partial_def)
  define Q where "Q r \<longleftrightarrow> r \<noteq> [] \<and> length r \<le> 2 \<and> list_all text_field r \<and> coverage_partial \<notin> set r" for r
  have leaves: "Q [''REACH_PRIVILEGED'']" "Q [''REACH_DEFAULT_DISABLED'']" "Q [''REACH_OPTIONAL_COMPONENT'']"
    "Q [''REACH_ORDINARY_ATTACKER'']" "Q [''REACH_AUTH_UNKNOWN'']" "Q [''REACH_DEPLOYMENT_UNKNOWN'']"
    "Q [''REACH_AUTH_UNKNOWN'', ''REACH_DEPLOYMENT_UNKNOWN'']"
    using codes by (simp_all add: Q_def coverage_partial_def)
  have last: "Q ((if context = ''unknown'' then [''REACH_AUTH_UNKNOWN''] else [])
      @ (if deployment = ''unknown'' then [''REACH_DEPLOYMENT_UNKNOWN''] else []))"
    if "context \<noteq> ''privileged''" "deployment \<noteq> ''default_disabled''" "deployment \<noteq> ''optional''"
      "\<not> (context \<in> {''unauthenticated'', ''low_privilege''} \<and> deployment = ''default_enabled'')"
  proof -
    have "context = ''unknown'' \<or> deployment = ''unknown''"
      using assms that by (auto simp: auth_contexts_def deployment_statuses_def)
    then show ?thesis using leaves(5-7)
      by (cases "context = ''unknown''"; cases "deployment = ''unknown''") (simp_all only: if_True if_False append_Nil append_Nil2 append.simps simp_thms)
  qed
  have if_cases: "(c \<Longrightarrow> Q a) \<Longrightarrow> (\<not> c \<Longrightarrow> Q b) \<Longrightarrow> Q (if c then a else b)" for c a b by simp
  have "Q ?r" if "\<not> gap"
    unfolding decide_reachability_def if_not_P[OF that] if_distrib[of snd] snd_conv
    by (rule if_cases, rule leaves, rule if_cases, rule leaves, rule if_cases, rule leaves, rule if_cases, rule leaves, rule last)
  moreover have "?r = [coverage_partial, ''REACH_AUTH_UNKNOWN'']" if gap
    using that by (simp add: decide_reachability_def)
  ultimately have "?r \<noteq> [] \<and> length ?r \<le> 2 \<and> list_all text_field ?r \<and> (coverage_partial \<in> set ?r \<longleftrightarrow> gap)"
    unfolding Q_def using codes by (cases gap) simp_all
  then show "?r \<noteq> []" "length ?r \<le> 2" "list_all text_field ?r" "coverage_partial \<in> set ?r \<longleftrightarrow> gap" by simp_all
qed

lemma resolve_deployment_member: "resolve_deployment_status facts configuration \<in> set deployment_statuses"
proof -
  have gate: "deployment_gate_status m f = Some s \<Longrightarrow> s \<in> set deployment_statuses" for m f s
    by (auto simp: deployment_gate_status_def deployment_statuses_def Let_def split: if_splits option.splits json.splits prod.splits)
  have member: "s \<in> set (List.map_filter g fs) \<Longrightarrow> \<exists>f. g f = Some s" for g :: "security_fact \<Rightarrow> string option" and fs s
    by (auto simp: List.map_filter_def)
  have unknown: "''unknown'' \<in> set deployment_statuses" by (simp add: deployment_statuses_def)
  let ?us = "usort (List.map_filter (deployment_gate_status (configuration_index configuration)) facts)"
  show ?thesis
  proof (cases "\<exists>s. ?us = [s]")
    case True
    then obtain s where s: "?us = [s]" by blast
    then have "s \<in> set ?us" by simp
    then have "s \<in> set (List.map_filter (deployment_gate_status (configuration_index configuration)) facts)"
      unfolding set_usort .
    then have "s \<in> set deployment_statuses" using gate member by blast
    with s show ?thesis by (simp add: resolve_deployment_status_def)
  next
    case False
    then have "resolve_deployment_status facts configuration = ''unknown''"
      unfolding resolve_deployment_status_def by (auto split: list.splits)
    with unknown show ?thesis by simp
  qed
qed

lemma hex_no_nul: "list_all is_hex s \<Longrightarrow> CHR 0x00 \<notin> set s"
proof
  assume "list_all is_hex s" "CHR 0x00 \<in> set s"
  then have "is_hex CHR 0x00" by (simp add: list_all_iff)
  then show False by (simp add: is_hex_def)
qed

lemma text_identifier:
  "text_field (stable_identifier ''security'' v)" "startswith (stable_identifier ''security'' v) ''security:''"
  "text_field (contract_identifier py_repr eid contract)"
  "startswith (contract_identifier py_repr eid contract) ''auth_contract:''"
proof -
  obtain d where d: "stable_identifier ''security'' v = ''security'' @ '':'' @ d" "length d = 24" "list_all is_hex d"
    using stable_identifier_shape by blast
  then show "text_field (stable_identifier ''security'' v)"
    using hex_no_nul[OF d(3)] by (simp add: text_field_def max_text_def good_string_def)
  show "startswith (stable_identifier ''security'' v) ''security:''"
    using stable_identifier_prefix[of "''security''" v] by simp
  have "CHR 0x00 \<notin> set (sha256_hex s)" for s
    by (rule hex_no_nul) (rule sha256_hex_is_hex)
  then show "text_field (contract_identifier py_repr eid contract)"
    "startswith (contract_identifier py_repr eid contract) ''auth_contract:''"
    by (simp_all add: contract_identifier_def text_field_def good_string_def max_text_def startswith_def)
qed

lemma select_ids_props:
  assumes "length selected < limit" "distinct selected"
  shows "length (select_ids limit selected xs) \<le> limit" "distinct (select_ids limit selected xs)"
    "set (select_ids limit selected xs) \<subseteq> set selected \<union> set xs"
  using assms by (induction limit selected xs rule: select_ids.induct) (auto split: if_splits)

lemma hd_usort_in: "xs \<noteq> [] \<Longrightarrow> hd (usort xs) \<in> set xs"
  by (metis list.set_sel(1) set_usort usort_Nil_iff(1))

lemma representatives_in: "i \<in> set (representatives keys evidence) \<Longrightarrow> \<exists>k. i \<in> set (evidence k)"
  using hd_usort_in by (fastforce simp: representatives_def)

lemma bounded_evidence_props:
  assumes "set gap_ids \<subseteq> I" "\<And>k. set (auth_evidence k) \<subseteq> I" "\<And>k. set (deployment_evidence k) \<subseteq> I" "set cited \<subseteq> I"
  defines "es \<equiv> bounded_decision_evidence gap_ids auth_evidence deployment_evidence cited"
  shows "length es \<le> 32" "distinct es" "sorted es" "set es \<subseteq> I"
proof -
  let ?p = "(if gap_ids \<noteq> [] then [hd (usort gap_ids)] else []) @ representatives auth_context_order auth_evidence
            @ representatives deployment_statuses deployment_evidence @ sort cited"
  have es: "es = sort (select_ids 32 [] ?p)"
    by (simp add: es_def bounded_decision_evidence_def max_decision_evidence_def)
  have "set ?p \<subseteq> I"
    using assms(1-4) hd_usort_in[of gap_ids] by (auto split: if_splits dest!: representatives_in) blast+
  then show "length es \<le> 32" "distinct es" "sorted es" "set es \<subseteq> I"
    using select_ids_props[of "[]" 32 ?p] by (auto simp: es)
qed

section \<open>The decision\<close>

lemma verified_decision:
  assumes "verify_auth_contract py_repr eid contract facts slice_ids configuration = Inr d"
  defines "sl \<equiv> entry_slice eid facts slice_ids"
  shows "\<not> cites_outside eid (index_by sf_id facts) slice_ids contract"
    "rd_entry_id d = eid" "rd_context d = decided_context contract sl (map (\<lambda>i. the (index_by sf_id facts i)) (ac_evidence_ids contract))"
    "rd_deployment d = resolve_deployment_status (slice_gates sl) configuration"
    "rd_status d = decided_status (ids_where auth_gap sl \<noteq> []) (rd_context d) (rd_deployment d)"
    "wf_decision d" "identified d"
proof -
  show inside: "\<not> cites_outside eid (index_by sf_id facts) slice_ids contract"
    using assms(1) by (auto simp: verify_auth_contract_def Let_def)
  note run = assms(1)[unfolded verify_auth_contract_eq[OF inside] Let_def]
  note parts = ReachabilityDecision_Inr[OF run]
  show "rd_entry_id d = eid" using parts(3) by simp
  show ctx: "rd_context d = decided_context contract sl (map (\<lambda>i. the (index_by sf_id facts i)) (ac_evidence_ids contract))"
    using parts(5) by (simp add: sl_def)
  show deployment: "rd_deployment d = resolve_deployment_status (slice_gates sl) configuration"
    using parts(6) by (simp add: sl_def)
  show "rd_status d = decided_status (ids_where auth_gap sl \<noteq> []) (rd_context d) (rd_deployment d)"
    using parts(7) ctx deployment by (simp add: decide_reachability_status sl_def)
  show "wf_decision d" "identified d" by (fact parts)+
qed

lemma decided_status_ordinary:
  "decided_status gap context deployment = ''ordinary_attacker_reachable'' \<longleftrightarrow>
     \<not> gap \<and> context \<in> {''unauthenticated'', ''low_privilege''} \<and> deployment = ''default_enabled''"
  by (simp add: decided_status_def)

lemma decided_status_not:
  assumes "context \<in> set auth_contexts" "deployment \<in> set deployment_statuses"
  shows "decided_status gap context deployment = ''not_entry_reachable'' \<longleftrightarrow>
     \<not> gap \<and> (context = ''privileged'' \<or> deployment \<in> {''default_disabled'', ''optional''})"
  using assms by (auto simp: decided_status_def auth_contexts_def deployment_statuses_def)

lemma establishes_no_gap: "establishes contract sl c \<Longrightarrow> ids_where auth_gap sl = []"
  by (simp add: establishes_def slice_agrees_def ids_where_Nil)

lemma verify_auth_contract_status:
  assumes "verify_auth_contract py_repr eid contract facts slice_ids configuration = Inr d"
  defines "sl \<equiv> entry_slice eid facts slice_ids"
  shows "rd_status d = ''ordinary_attacker_reachable'' \<longleftrightarrow>
      (establishes contract sl ''unauthenticated'' \<or> establishes contract sl ''low_privilege'')
      \<and> resolve_deployment_status (slice_gates sl) configuration = ''default_enabled''"
    and "rd_status d = ''not_entry_reachable'' \<longleftrightarrow>
      (\<forall>f \<in> set sl. \<not> auth_gap f)
      \<and> (establishes contract sl ''privileged''
         \<or> resolve_deployment_status (slice_gates sl) configuration \<in> {''default_disabled'', ''optional''})"
proof -
  note run = verified_decision[OF assms(1)]
  let ?cited = "map (\<lambda>i. the (index_by sf_id facts i)) (ac_evidence_ids contract)"
  have ctx: "rd_context d = c \<longleftrightarrow> establishes contract sl c" if "c \<in> known_contexts" for c
    using decided_context_iff[OF that cited_facts[OF run(1)]] run(3) by (simp add: sl_def)
  have known: "''unauthenticated'' \<in> known_contexts" "''low_privilege'' \<in> known_contexts" "''privileged'' \<in> known_contexts"
    by (simp_all add: known_contexts_def)
  have gap: "ids_where auth_gap sl \<noteq> [] \<Longrightarrow> \<not> establishes contract sl c" for c
    using establishes_no_gap by blast
  show "rd_status d = ''ordinary_attacker_reachable'' \<longleftrightarrow>
      (establishes contract sl ''unauthenticated'' \<or> establishes contract sl ''low_privilege'')
      \<and> resolve_deployment_status (slice_gates sl) configuration = ''default_enabled''"
    using gap by (auto simp: run(5)[folded sl_def] decided_status_ordinary run(4)[folded sl_def] ctx[OF known(1)] ctx[OF known(2)])
  have members: "rd_context d \<in> set auth_contexts" "rd_deployment d \<in> set deployment_statuses"
    using run(6) unfolding wf_decision_def by blast+
  show "rd_status d = ''not_entry_reachable'' \<longleftrightarrow> (\<forall>f \<in> set sl. \<not> auth_gap f)
      \<and> (establishes contract sl ''privileged''
         \<or> resolve_deployment_status (slice_gates sl) configuration \<in> {''default_disabled'', ''optional''})"
  proof -
    have "rd_status d = ''not_entry_reachable'' \<longleftrightarrow> \<not> ids_where auth_gap sl \<noteq> []
        \<and> (rd_context d = ''privileged'' \<or> rd_deployment d \<in> {''default_disabled'', ''optional''})"
      unfolding run(5)[folded sl_def] by (rule decided_status_not[OF members])
    then show ?thesis unfolding ctx[OF known(3)] run(4)[folded sl_def] not_not ids_where_Nil .
  qed
qed

text \<open>C39. The status of a checked authentication contract, on any contract and any facts: an entry is
  reachable for an ordinary attacker exactly when the facts of its slice establish an unauthenticated or
  low-privilege context (a cited complete fact says so, no complete fact says otherwise, none is partial) and
  its deployment is enabled by default; it is not reachable exactly when there is no coverage gap and a
  privileged context is established or the deployment is disabled or optional; otherwise it is unknown.\<close>

theorem verify_auth_contract_exact:
  assumes "verify_auth_contract py_repr eid contract facts slice_ids configuration = Inr d"
  defines "sl \<equiv> entry_slice eid facts slice_ids"
  shows "(rd_status d = ''ordinary_attacker_reachable'' \<longleftrightarrow>
      (establishes contract sl ''unauthenticated'' \<or> establishes contract sl ''low_privilege'')
      \<and> resolve_deployment_status (slice_gates sl) configuration = ''default_enabled'')
    \<and> (rd_status d = ''not_entry_reachable'' \<longleftrightarrow>
      (\<forall>f \<in> set sl. \<not> auth_gap f)
      \<and> (establishes contract sl ''privileged''
         \<or> resolve_deployment_status (slice_gates sl) configuration \<in> {''default_disabled'', ''optional''}))"
  unfolding sl_def by (intro conjI) (rule verify_auth_contract_status[OF assms(1)])+

lemma resolve_cong: "set fs = set gs \<Longrightarrow> resolve_deployment_status fs configuration = resolve_deployment_status gs configuration"
proof -
  assume "set fs = set gs"
  then have "set (List.map_filter g fs) = set (List.map_filter g gs)" for g :: "security_fact \<Rightarrow> string option"
    by (auto simp: List.map_filter_def)
  then have "usort (List.map_filter g fs) = usort (List.map_filter g gs)" for g :: "security_fact \<Rightarrow> string option"
    by (rule usort_cong)
  then show ?thesis by (simp add: resolve_deployment_status_def)
qed

lemma entry_slice_all:
  assumes "unambiguous facts"
  shows "set (entry_slice eid facts (map sf_id facts)) = set (filter (\<lambda>f. sf_entry_id f = eid) facts)"
  using by_fact_id_unambiguous[OF assms] by (auto simp: entry_slice_def)

text \<open>C4. The language model cannot make an entry reachable: whatever the classifier answers, the decision of
  the growth stage is \<open>ordinary_attacker_reachable\<close> only if the extracted facts of the entry agree on an
  unauthenticated or low-privilege context, at least one of them states it, and the deployment resolves to
  enabled by default.\<close>

theorem entry_auth_decision_safe:
  assumes "entry_auth_decision py_repr classify_auth eid facts configuration = Inr (contract, d)"
    and "unambiguous facts" and "rd_status d = ''ordinary_attacker_reachable''"
  shows "\<exists>c \<in> {''unauthenticated'', ''low_privilege''}.
      slice_agrees (filter (\<lambda>f. sf_entry_id f = eid) facts) c
      \<and> (\<exists>f \<in> set facts. sf_entry_id f = eid \<and> complete_context f = Some c)
      \<and> resolve_deployment_status (slice_gates (filter (\<lambda>f. sf_entry_id f = eid) facts)) configuration = ''default_enabled''"
proof -
  let ?F = "filter (\<lambda>f. sf_entry_id f = eid) facts" and ?S = "entry_slice eid facts (map sf_id facts)"
  have "verify_auth_contract py_repr eid contract facts (map sf_id facts) configuration = Inr d"
  proof (rule ccontr)
    assume other: "verify_auth_contract py_repr eid contract facts (map sf_id facts) configuration \<noteq> Inr d"
    with assms(1) obtain x y z where
      "ReachabilityDecision x y (JStr ''unknown'') (JStr ''unknown'') (JStr ''unknown'') [] z (JStr []) = Inr d"
      by (auto simp: entry_auth_decision_def res_bind_Inr_iff split: option.splits)
    from ReachabilityDecision_Inr(7)[OF this] assms(3) show False by simp
  qed
  note exact = verify_auth_contract_status[OF this]
  have same: "set ?S = set ?F" by (rule entry_slice_all[OF assms(2)])
  obtain c where c: "c \<in> {''unauthenticated'', ''low_privilege''}" "establishes contract ?S c"
    "resolve_deployment_status (slice_gates ?S) configuration = ''default_enabled''"
    using exact assms(3) by blast
  have "resolve_deployment_status (slice_gates ?S) configuration = resolve_deployment_status (slice_gates ?F) configuration"
    using same by (intro resolve_cong) (auto simp: slice_gates_def)
  moreover have "slice_agrees ?F c" using c(2) same by (simp add: establishes_def slice_agrees_def)
  moreover have "\<exists>f \<in> set ?F. complete_context f = Some c" using c(2) unfolding establishes_def same by blast
  ultimately show ?thesis using c by auto
qed

lemma verify_auth_contract_returns:
  assumes "text_field eid" "startswith eid ''entry:''" "wf_contract contract" "\<forall>f \<in> set facts. text_field (sf_id f) \<and> startswith (sf_id f) ''security:''"
    and "\<not> cites_outside eid (index_by sf_id facts) slice_ids contract"
  shows "\<exists>d. verify_auth_contract py_repr eid contract facts slice_ids configuration = Inr d
    \<and> length (rd_evidence_ids d) \<le> 32 \<and> sorted (rd_evidence_ids d) \<and> distinct (rd_evidence_ids d)
    \<and> set (rd_evidence_ids d) \<subseteq> sf_id ` set (entry_slice eid facts slice_ids)
    \<and> rd_reasons d \<noteq> [] \<and> decision_from_dict (decision_to_dict d) = Inr d"
proof -
  let ?S = "entry_slice eid facts slice_ids" and ?cited = "map (\<lambda>i. the (index_by sf_id facts i)) (ac_evidence_ids contract)"
  let ?ctx = "decided_context contract ?S ?cited" and ?dep = "resolve_deployment_status (slice_gates ?S) configuration"
  let ?gap = "ids_where auth_gap ?S \<noteq> []" and ?auth = "\<lambda>c. ids_where (\<lambda>f. complete_context f = Some c) ?S"
  let ?depl = "\<lambda>s. ids_where (\<lambda>f. sf_coverage f = ''complete'' \<and> resolve_deployment_status [f] configuration = s) (slice_gates ?S)"
  let ?es = "bounded_decision_evidence (ids_where auth_gap ?S) ?auth ?depl (ac_evidence_ids contract)"
  let ?extra = "if 1 < length (filter (\<lambda>c. ?auth c \<noteq> []) auth_context_order) then [''REACH_AUTH_CONFLICT''] else []"
  let ?rs = "usort (snd (decide_reachability ?gap ?ctx ?dep) @ ?extra)"
  have members: "?ctx \<in> set auth_contexts" "?dep \<in> set deployment_statuses"
    using assms(3) by (simp_all add: decided_context_auth resolve_deployment_member wf_contract_def)
  note rs = decide_reachability_reasons[OF members, of ?gap]
  have extra: "list_all text_field ?extra" "coverage_partial \<notin> set ?extra" "length ?extra \<le> 1"
    by (simp_all add: text_field_def good_string_def max_text_def coverage_partial_def)
  have cited: "set (ac_evidence_ids contract) \<subseteq> sf_id ` set ?S"
  proof
    fix i assume i: "i \<in> set (ac_evidence_ids contract)"
    then obtain f where f: "index_by sf_id facts i = Some f"
      using assms(5) by (fastforce simp: cites_outside_def list_ex_iff split: option.splits)
    have "the (index_by sf_id facts i) \<in> set ?cited" using i by simp
    moreover have "sf_id (the (index_by sf_id facts i)) = i" using index_by_Some[OF f] f by simp
    ultimately show "i \<in> sf_id ` set ?S" unfolding cited_facts[OF assms(5)] by force
  qed
  have "set (ids_where P fs) \<subseteq> sf_id ` set fs" for P fs by (auto simp: ids_where_def)
  moreover have "set (ids_where P (slice_gates ?S)) \<subseteq> sf_id ` set ?S" for P by (auto simp: ids_where_def slice_gates_def)
  ultimately have es: "length ?es \<le> 32" "distinct ?es" "sorted ?es" "set ?es \<subseteq> sf_id ` set ?S"
    using bounded_evidence_props[of "ids_where auth_gap ?S" "sf_id ` set ?S" ?auth ?depl "ac_evidence_ids contract"] cited
    by blast+
  have ids: "list_all (\<lambda>s. text_field s \<and> startswith s ''security:'') ?es"
  proof -
    have "text_field (sf_id f) \<and> startswith (sf_id f) ''security:''" if "f \<in> set ?S" for f
    proof -
      have "f \<in> set facts" using that by (auto simp: entry_slice_def set_by_fact_id dest: index_by_Some)
      then show ?thesis using assms(4) by blast
    qed
    with es(4) show ?thesis unfolding list_all_iff by blast
  qed
  define d0 where "d0 = \<lparr>rd_id = [], rd_entry_id = eid, rd_contract_id = contract_identifier py_repr eid contract,
    rd_context = ?ctx, rd_deployment = ?dep, rd_status = decided_status ?gap ?ctx ?dep, rd_evidence_ids = ?es, rd_reasons = ?rs\<rparr>"
  define d where "d = d0\<lparr>rd_id := stable_identifier ''reachability'' (JObj (decision_semantic_identity d0))\<rparr>"
  have partial: "coverage_partial \<in> set ?rs \<longleftrightarrow> ?gap" unfolding set_usort set_append using rs(4) extra(2) by blast
  have rs': "?rs \<noteq> []" "list_all text_field ?rs" "length ?rs \<le> 32"
  proof -
    show "?rs \<noteq> []" "list_all text_field ?rs" using rs(1,3) extra(1) by (auto simp: list_all_iff)
    have "length ?rs \<le> length (snd (decide_reachability ?gap ?ctx ?dep) @ ?extra)"
      unfolding usort_def length_sort by (rule length_remdups_leq)
    with rs(2) extra(3) show "length ?rs \<le> 32" by simp
  qed
  have "?gap \<longrightarrow> ?ctx = ''unknown''" by (simp add: decided_context_def)
  moreover have "decided_status ?gap ?ctx ?dep \<in> set reachability_statuses"
    by (simp add: decided_status_def reachability_statuses_def)
  ultimately have wf: "wf_decision d"
    unfolding wf_decision_def d_def d0_def using assms(1,2) members es(1,2) ids rs' partial text_identifier(3,4)
    by (simp only: reachability_decision.simps distinct_usort simp_thms)
  have ident: "identified d" by (simp add: identified_def d_def d0_def decision_semantic_identity_def)
  have "verify_auth_contract py_repr eid contract facts slice_ids configuration = Inr d"
    unfolding verify_auth_contract_eq[OF assms(5)] Let_def decide_reachability_status
    using ReachabilityDecision_of_wf[OF wf ident, of "JStr []"]
    by (simp add: supplied_id_ok_def truthy_def d_def d0_def)
  with es rs' decision_read_back[OF wf ident] show ?thesis by (auto simp: d_def d0_def)
qed


lemma supporting_Some:
  "supporting eid facts = Some ps \<longleftrightarrow> (\<forall>f \<in> set facts. sf_entry_id f = eid \<longrightarrow> \<not> auth_gap f)
     \<and> ps = List.map_filter (\<lambda>f. map_option (\<lambda>c. (c, sf_id f)) (complete_context f)) (filter (\<lambda>f. sf_entry_id f = eid) facts)"
  by (induction eid facts arbitrary: ps rule: supporting.induct)
    (auto simp: List.map_filter_simps split: option.splits)

lemma derived_contract:
  assumes "derive_auth_contract_from_facts eid facts = Inr (Some contract)"
  obtains c i where "ac_context contract = c" "ac_evidence_ids contract = [i]"
    "\<exists>f \<in> set facts. sf_entry_id f = eid \<and> sf_id f = i \<and> complete_context f = Some c"
    "slice_agrees (filter (\<lambda>f. sf_entry_id f = eid) facts) c" "wf_contract contract"
proof -
  let ?F = "filter (\<lambda>f. sf_entry_id f = eid) facts"
  from assms obtain ps c where ps: "supporting eid facts = Some ps" and one: "remdups (map fst ps) = [c]"
    and built: "AuthContract (JStr c) [JStr (hd (usort (map snd ps)))] [] (JStr ''high'') = Inr contract"
    by (auto simp: derive_auth_contract_from_facts_def res_bind_Inr_iff split: option.splits list.splits)
  have wf: "ac_context contract = c" "[JStr (hd (usort (map snd ps)))] = map JStr (ac_evidence_ids contract)" "wf_contract contract"
    using AuthContract_Inr[THEN iffD1, OF built] by simp_all
  then have ids: "ac_evidence_ids contract = [hd (usort (map snd ps))]"
    by (cases "ac_evidence_ids contract") auto
  have "ps \<noteq> []" using one by auto
  then have "hd (usort (map snd ps)) \<in> set (map snd ps)" by (intro hd_usort_in) simp
  then obtain p where p: "p \<in> set ps" "snd p = hd (usort (map snd ps))" by auto
  have fst: "fst q = c" if "q \<in> set ps" for q
  proof -
    have "fst q \<in> set (remdups (map fst ps))" using that by simp
    then show ?thesis by (simp add: one)
  qed
  have eq: "set ps = {(c, sf_id f) | c f. f \<in> set ?F \<and> complete_context f = Some c}"
    using ps unfolding supporting_Some by (auto simp: set_map_filter_iff)
  have "\<exists>f \<in> set facts. sf_entry_id f = eid \<and> sf_id f = hd (usort (map snd ps)) \<and> complete_context f = Some c"
    using p fst[OF p(1)] by (auto simp: eq)
  moreover have "slice_agrees ?F c"
    unfolding slice_agrees_def
  proof (intro ballI conjI)
    fix f assume f: "f \<in> set ?F"
    then show "\<not> auth_gap f" using ps by (simp add: supporting_Some)
    show "complete_context f \<in> {None, Some c}"
    proof (cases "complete_context f")
      case (Some c')
      then have "(c', sf_id f) \<in> set ps" using f by (auto simp: eq)
      from fst[OF this] Some show ?thesis by simp
    qed simp
  qed
  ultimately show ?thesis using that wf(1,3) ids by blast
qed

text \<open>A contract derived from the facts of an entry is confirmed by the check against the same facts:
  the decision has the derived context, so deriving and checking cannot disagree.\<close>

theorem derived_contract_confirmed:
  assumes "derive_auth_contract_from_facts eid facts = Inr (Some contract)" "unambiguous facts"
    and "verify_auth_contract py_repr eid contract facts (map sf_id facts) configuration = Inr d"
  shows "rd_context d = ac_context contract \<and> rd_context d \<noteq> ''unknown''"
proof -
  let ?S = "entry_slice eid facts (map sf_id facts)"
  have same: "set ?S = set (filter (\<lambda>f. sf_entry_id f = eid) facts)" by (rule entry_slice_all[OF assms(2)])
  from derived_contract[OF assms(1)] obtain c i where d: "ac_context contract = c" "ac_evidence_ids contract = [i]"
    "\<exists>f \<in> set facts. sf_entry_id f = eid \<and> sf_id f = i \<and> complete_context f = Some c"
    "slice_agrees (filter (\<lambda>f. sf_entry_id f = eid) facts) c" .
  have "establishes contract ?S c"
    using d same unfolding establishes_def slice_agrees_def by auto
  moreover have known: "c \<in> known_contexts"
    using d(3) complete_context_order known_order(1) by blast
  note run = verified_decision[OF assms(3)]
  ultimately have "rd_context d = c"
    using decided_context_iff[OF known cited_facts[OF run(1)]] run(3) by simp
  with d(1) known known_order(2) show ?thesis by auto
qed

lemma option_eqI: "(\<And>v. a = Some v \<longleftrightarrow> b = Some v) \<Longrightarrow> a = b"
  by (metis not_None_eq)

lemma configuration_index_cong:
  assumes "mset configuration = mset configuration'"
  shows "configuration_index configuration = configuration_index configuration'"
proof
  fix key
  let ?vs = "\<lambda>cs. map mc_value (filter (\<lambda>f. mc_key f = key \<and> mc_status f = ''known'' \<and> mc_default_effective f) cs)"
  have same: "set (?vs configuration) = set (?vs configuration')"
    using mset_eq_setD[OF assms] by auto
  have one: "remdups xs = [v] \<longleftrightarrow> set xs = {v}" for xs :: "json list" and v
  proof
    assume "set xs = {v}"
    then have "set (remdups xs) = {v}" "distinct (remdups xs)" by simp_all
    then show "remdups xs = [v]" by (metis card.empty card.insert distinct_card empty_iff finite.emptyI length_Suc_conv
          length_0_conv list.set_intros(1) singletonD)
  qed (metis set_remdups list.set(1) list.simps(15))
  have agreed: "configuration_index cs key = Some v \<longleftrightarrow> set (?vs cs) = {v}" for cs v
    unfolding configuration_index_def one[symmetric] by (auto split: list.splits)
  show "configuration_index configuration key = configuration_index configuration' key"
    by (rule option_eqI) (simp only: agreed same)
qed

text \<open>The decision does not depend on the order in which the facts and the configuration are
  supplied.\<close>

theorem reachability_order_independent:
  assumes "mset facts = mset facts'" "mset configuration = mset configuration'" "set slice_ids = set slice_ids'"
    and "unambiguous facts"
  shows "verify_auth_contract py_repr eid contract facts slice_ids configuration
    = verify_auth_contract py_repr eid contract facts' slice_ids' configuration'"
proof -
  have sets: "set facts = set facts'" using assms(1) by (rule mset_eq_setD)
  note facts = by_fact_id_cong[OF assms(4) sets]
  have "entry_slice eid facts slice_ids = entry_slice eid facts' slice_ids'"
    by (simp add: entry_slice_def facts(1) assms(3))
  moreover have "resolve_deployment_status fs configuration = resolve_deployment_status fs configuration'" for fs
    by (simp add: resolve_deployment_status_def configuration_index_cong[OF assms(2)])
  moreover have "cites_outside eid (index_by sf_id facts) slice_ids contract
      = cites_outside eid (index_by sf_id facts') slice_ids' contract"
    by (simp add: cites_outside_def facts(2) assms(3))
  ultimately show ?thesis by (simp only: verify_auth_contract_def facts(2) Let_def)
qed

text \<open>The records of the component are read back: a security fact, an authentication contract and a
  decision that their classes accept are written to dictionaries from which the readers rebuild them.\<close>

theorem reachability_records_roundtrip:
  shows "(EntrySecurityFact e k l n v c i = Inr f \<longrightarrow> security_from_dict (security_to_dict f) = Inr f)
    \<and> (AuthContract x es as y = Inr contract \<longrightarrow> auth_from_dict (auth_to_dict contract) = Inr contract)
    \<and> (ReachabilityDecision e' cid x' p s es' rs i' = Inr d \<longrightarrow> decision_from_dict (decision_to_dict d) = Inr d)"
  using security_roundtrip[OF EntrySecurityFact_wf] contract_roundtrip decision_read_back[OF ReachabilityDecision_Inr(1,2)]
  by (auto simp: AuthContract_Inr)

section \<open>Routes\<close>

lemma collapse_no_double: "\<not> contains (collapse_slashes s) ''//''"
proof (induction s rule: collapse_slashes.induct)
  case (1 s)
  then show ?case by (cases "contains s ''//''") (simp_all add: collapse_slashes.simps[of s])
qed

lemma collapse_id: "\<not> contains s ''//'' \<Longrightarrow> collapse_slashes s = s"
  by (simp add: collapse_slashes.simps)

lemma rstrip_id: "s \<noteq> [] \<Longrightarrow> last s \<noteq> CHR ''/'' \<Longrightarrow> rstrip_slashes s = s"
proof -
  assume "s \<noteq> []" "last s \<noteq> CHR ''/''"
  then have "dropWhile (\<lambda>c. c = CHR ''/'') (rev s) = rev s" by (simp add: dropWhile_eq_self_iff hd_rev)
  then show ?thesis by (simp add: rstrip_slashes_def)
qed

lemma rstrip_end: "1 < length s \<Longrightarrow> \<not> contains s ''//'' \<Longrightarrow> rstrip_slashes s \<noteq> [] \<and> last (rstrip_slashes s) \<noteq> CHR ''/''"
proof -
  assume s: "1 < length s" "\<not> contains s ''//''"
  have "\<exists>c \<in> set s. c \<noteq> CHR ''/''"
  proof (rule ccontr)
    assume "\<not> ?thesis"
    moreover obtain a b r where "s = a # b # r" using s(1) by (cases s; cases "tl s") auto
    ultimately show False using s(2) by (auto simp: contains_iff)
  qed
  then have ne: "dropWhile (\<lambda>c. c = CHR ''/'') (rev s) \<noteq> []" by (auto simp: dropWhile_eq_Nil_conv)
  then show ?thesis using hd_dropWhile[OF ne] by (simp add: rstrip_slashes_def last_rev)
qed

text \<open>A path as it stands in a matcher: absolute, without blanks, double slashes and a final slash.\<close>

definition plain_path :: "string \<Rightarrow> bool" where
  "plain_path p \<longleftrightarrow> p \<noteq> [] \<and> hd p = CHR ''/'' \<and> \<not> contains p ''//'' \<and> (\<forall>c \<in> set p. \<not> is_blank c) \<and> last p \<noteq> CHR ''/''"

lemma route_path_plain:
  assumes "plain_path p"
  shows "route_path p = p"
proof -
  have p: "p \<noteq> []" "\<forall>c \<in> set p. \<not> is_blank c" "\<not> contains p ''//''" "last p \<noteq> CHR ''/''"
    using assms by (auto simp: plain_path_def)
  then have "\<not> is_blank (hd p)" "\<not> is_blank (last p)" by simp_all
  then have "strip p = p" using p(1) by (intro strip_id)
  moreover have "CHR '' '' \<notin> set p" using p(2) by (auto simp: is_blank_def)
  then have "split_once CHR '' '' p = None" by (simp add: split_once_def)
  ultimately show ?thesis using p by (simp add: route_path_def collapse_id rstrip_id)
qed

lemma double_in_append: "contains (a @ b) ''//'' \<longleftrightarrow> contains a ''//'' \<or> contains b ''//''
    \<or> (a \<noteq> [] \<and> b \<noteq> [] \<and> last a = CHR ''/'' \<and> hd b = CHR ''/'')"
proof (induction a)
  case (Cons x a)
  then show ?case by (cases a; cases b) (auto simp: contains_iff sublist_Cons_right)
qed (auto simp: contains_iff)

lemma plain_star:
  assumes "plain_path p"
  shows "plain_path (p @ ''/**'')" "plain_path (p @ ''/*'')"
proof -
  have "\<not> contains (p @ ''/**'') ''//''" "\<not> contains (p @ ''/*'') ''//''"
    using assms by (simp_all add: plain_path_def double_in_append)
  moreover have "list_all (\<lambda>c. \<not> is_blank c) ''/**''" by (simp add: is_blank_def)
  ultimately show "plain_path (p @ ''/**'')" "plain_path (p @ ''/*'')"
    using assms by (auto simp: plain_path_def list_all_iff)
qed

lemma route_matching:
  assumes "plain_path p"
  shows "\<not> contains (route_path r) ''//'' \<and> (1 < length (route_path r) \<longrightarrow> last (route_path r) \<noteq> CHR ''/'')"
    and "route_matches (p @ ''/**'') r \<longleftrightarrow> route_path r = p \<or> (\<exists>s. route_path r = p @ ''/'' @ s)"
    and "route_matches (p @ ''/*'') r \<longleftrightarrow> (\<exists>s. CHR ''/'' \<notin> set s \<and> route_path r = p @ ''/'' @ s)"
    and "\<not> endswith p ''/**'' \<Longrightarrow> \<not> endswith p ''/*'' \<Longrightarrow> route_matches p r \<longleftrightarrow> route_path r = p"
proof -
  have "\<not> contains (rstrip_slashes s) ''//''" if "\<not> contains s ''//''" for s
  proof -
    have "prefix (rstrip_slashes s) s"
      unfolding rstrip_slashes_def by (metis rev_rev_ident suffix_dropWhile suffix_to_prefix)
    then show ?thesis using that by (meson contains_iff prefix_imp_sublist sublist_order.order_trans)
  qed
  then show "\<not> contains (route_path r) ''//'' \<and> (1 < length (route_path r) \<longrightarrow> last (route_path r) \<noteq> CHR ''/'')"
    using collapse_no_double rstrip_end by (simp add: route_path_def Let_def)
  have ne: "p \<notin> {'''', ''dynamic_matcher'', ''*''}" "p @ ''/**'' \<notin> {'''', ''dynamic_matcher'', ''*''}"
    "p @ ''/*'' \<notin> {'''', ''dynamic_matcher'', ''*''}"
    using assms by (cases p; auto simp: plain_path_def)+
  have base: "rstrip_slashes p = p" using assms by (intro rstrip_id) (auto simp: plain_path_def)
  have ends: "suffix ''/**'' (p @ ''/**'')" "suffix ''/*'' (p @ ''/*'')" by (rule suffixI, rule refl)+
  have startswith_iff: "startswith s q \<longleftrightarrow> (\<exists>t. s = q @ t)" for s q by (simp add: startswith_def prefix_def)
  show "route_matches (p @ ''/**'') r \<longleftrightarrow> route_path r = p \<or> (\<exists>s. route_path r = p @ ''/'' @ s)"
    using ne(2) base ends(1)
    by (simp add: route_matches_def route_path_plain plain_star[OF assms] endswith_def startswith_iff Let_def)
  have "\<not> suffix ''/**'' (p @ ''/*'')"
  proof
    assume "suffix ''/**'' (p @ ''/*'')"
    then have "take 1 (drop 1 (rev (p @ ''/*''))) = take 1 (drop 1 (rev ''/**''))" by (auto simp: suffix_def)
    then show False by simp
  qed
  then show "route_matches (p @ ''/*'') r \<longleftrightarrow> (\<exists>s. CHR ''/'' \<notin> set s \<and> route_path r = p @ ''/'' @ s)"
    using ne(3) base ends(2) 
    by (auto simp: route_matches_def route_path_plain plain_star[OF assms] endswith_def startswith_iff Let_def)
  show "route_matches p r \<longleftrightarrow> route_path r = p" if "\<not> endswith p ''/**''" "\<not> endswith p ''/*''"
    using ne(1) that by (auto simp: route_matches_def route_path_plain[OF assms])
qed

text \<open>Routes are matched by whole segments of their normal form, which has no double slash and, beyond
  the root, no final one: a matcher that ends in two stars matches its base and everything below it, one
  that ends in a single star exactly the direct children, and any other only itself.\<close>

theorem route_matches_exact:
  assumes "plain_path p"
  shows "(\<not> contains (route_path r) ''//'' \<and> (1 < length (route_path r) \<longrightarrow> last (route_path r) \<noteq> CHR ''/''))
    \<and> (route_matches (p @ ''/**'') r \<longleftrightarrow> route_path r = p \<or> (\<exists>s. route_path r = p @ ''/'' @ s))
    \<and> (route_matches (p @ ''/*'') r \<longleftrightarrow> (\<exists>s. CHR ''/'' \<notin> set s \<and> route_path r = p @ ''/'' @ s))
    \<and> (\<not> endswith p ''/**'' \<and> \<not> endswith p ''/*'' \<longrightarrow> (route_matches p r \<longleftrightarrow> route_path r = p))"
  by (intro conjI impI) (use route_matching[OF assms] in blast)+

section \<open>Witnesses\<close>

text \<open>An entry whose handler is annotated as open and which is deployed by default.\<close>

definition sample_annotation :: security_fact where
  "sample_annotation = \<lparr>sf_id = ''security:a'', sf_entry_id = ''entry:1'', sf_kind = ''annotation'', sf_location = ''A.java'',
     sf_line = 3, sf_value = ''unauthenticated_annotation'', sf_coverage = ''complete''\<rparr>"

definition sample_gate :: security_fact where
  "sample_gate = \<lparr>sf_id = ''security:b'', sf_entry_id = ''entry:1'', sf_kind = ''deployment_gate'', sf_location = ''A.java'',
     sf_line = 1, sf_value = ''default_enabled'', sf_coverage = ''complete''\<rparr>"

definition sample_auth :: auth_contract where
  "sample_auth = \<lparr>ac_context = ''unauthenticated'', ac_evidence_ids = [''security:a''], ac_assumptions = [],
     ac_confidence = ''high''\<rparr>"

abbreviation "sample_security \<equiv> [sample_annotation, sample_gate]"

lemma sample_security_facts:
  "unambiguous sample_security"
  "complete_context sample_annotation = Some ''unauthenticated''" "complete_context sample_gate = None"
  "\<not> auth_gap sample_annotation" "\<not> auth_gap sample_gate"
  "resolve_deployment_status [sample_gate] [] = ''default_enabled''"
  "filter (\<lambda>f. sf_entry_id f = ''entry:1'') sample_security = sample_security"
  "slice_gates sample_security = [sample_gate]" "map sf_id sample_security = [''security:a'', ''security:b'']"
proof -
  show "unambiguous sample_security"
    by (simp add: unambiguous_def sample_annotation_def sample_gate_def)
  show "complete_context sample_annotation = Some ''unauthenticated''" "complete_context sample_gate = None"
    "\<not> auth_gap sample_annotation" "\<not> auth_gap sample_gate"
    by (simp_all add: complete_context_def auth_context_for_fact_def auth_context_by_fact_def auth_context_table_def
        auth_gap_def sample_annotation_def sample_gate_def)
  show "resolve_deployment_status [sample_gate] [] = ''default_enabled''"
    by (simp add: resolve_deployment_status_def List.map_filter_simps deployment_gate_status_def deployment_statuses_def
        sample_gate_def)
  show "filter (\<lambda>f. sf_entry_id f = ''entry:1'') sample_security = sample_security"
    "slice_gates sample_security = [sample_gate]" "map sf_id sample_security = [''security:a'', ''security:b'']"
    by (simp_all add: sample_annotation_def sample_gate_def slice_gates_def)
qed

lemma sample_slice_facts:
  "set (entry_slice ''entry:1'' sample_security (map sf_id sample_security)) = set sample_security"
  "establishes sample_auth (entry_slice ''entry:1'' sample_security (map sf_id sample_security)) ''unauthenticated''"
  "resolve_deployment_status (slice_gates (entry_slice ''entry:1'' sample_security (map sf_id sample_security))) []
     = ''default_enabled''"
proof -
  let ?S = "entry_slice ''entry:1'' sample_security (map sf_id sample_security)"
  show same: "set ?S = set sample_security"
    using entry_slice_all[OF sample_security_facts(1), of "''entry:1''"] unfolding sample_security_facts(7) .
  have "sf_id sample_annotation = ''security:a''" by (simp add: sample_annotation_def)
  then show "establishes sample_auth ?S ''unauthenticated''"
    unfolding establishes_def slice_agrees_def same
    using sample_security_facts by (simp add: sample_auth_def)
  have "resolve_deployment_status (slice_gates ?S) [] = resolve_deployment_status (slice_gates sample_security) []"
    by (rule resolve_cong) (simp only: slice_gates_def set_filter same)
  then show "resolve_deployment_status (slice_gates ?S) [] = ''default_enabled''"
    using sample_security_facts by simp
qed

lemma sample_contract_facts:
  "wf_contract sample_auth" "text_field ''entry:1''" "startswith ''entry:1'' ''entry:''"
  "\<not> cites_outside ''entry:1'' (index_by sf_id sample_security) (map sf_id sample_security) sample_auth"
  "\<forall>f \<in> set sample_security. text_field (sf_id f) \<and> startswith (sf_id f) ''security:''"
  by (simp_all add: wf_contract_def sample_auth_def auth_contexts_def text_field_def good_string_def max_text_def
      startswith_def cites_outside_def index_by_def sample_annotation_def sample_gate_def)

lemma sample_derived: "derive_auth_contract_from_facts ''entry:1'' sample_security = Inr (Some sample_auth)"
proof -
  have "AuthContract (JStr ''unauthenticated'') [JStr ''security:a''] [] (JStr ''high'') = Inr sample_auth"
    using sample_contract_facts(1) by (simp add: AuthContract_Inr sample_auth_def)
  moreover have "supporting ''entry:1'' sample_security = Some [(''unauthenticated'', ''security:a'')]"
    using sample_security_facts(2-5) by (simp add: sample_annotation_def sample_gate_def)
  ultimately show ?thesis
    by (simp add: derive_auth_contract_from_facts_def)
qed

theorem verify_auth_contract_exact_witness:
  "\<exists>d. verify_auth_contract (\<lambda>_. ''repr'') ''entry:1'' sample_auth sample_security (map sf_id sample_security) [] = Inr d
     \<and> rd_status d = ''ordinary_attacker_reachable''"
proof -
  obtain d where d: "verify_auth_contract (\<lambda>_. ''repr'') ''entry:1'' sample_auth sample_security (map sf_id sample_security) [] = Inr d"
    using verify_auth_contract_returns[OF sample_contract_facts(2,3,1,5,4)] by blast
  from verify_auth_contract_exact[OF d, THEN conjunct1] sample_slice_facts(2,3) d show ?thesis by blast
qed

theorem entry_auth_decision_safe_witness:
  "\<exists>contract d. entry_auth_decision (\<lambda>_. ''repr'') None ''entry:1'' sample_security [] = Inr (contract, d)
     \<and> (\<exists>c \<in> {''unauthenticated'', ''low_privilege''}. slice_agrees sample_security c)"
proof -
  note derived = sample_derived
  obtain d where d: "verify_auth_contract (\<lambda>_. ''repr'') ''entry:1'' sample_auth sample_security (map sf_id sample_security) [] = Inr d"
    using verify_auth_contract_returns[OF sample_contract_facts(2,3,1,5,4)] by blast
  then have run: "entry_auth_decision (\<lambda>_. ''repr'') None ''entry:1'' sample_security [] = Inr (sample_auth, d)"
    using derived by (simp add: entry_auth_decision_def)
  have "rd_status d = ''ordinary_attacker_reachable''"
    using verify_auth_contract_status(1)[OF d] sample_slice_facts(2,3) by blast
  from entry_auth_decision_safe[OF run sample_security_facts(1) this] run sample_security_facts(7) show ?thesis by force
qed


theorem derived_contract_confirmed_witness:
  "\<exists>d. verify_auth_contract (\<lambda>_. ''repr'') ''entry:1'' sample_auth sample_security (map sf_id sample_security) [] = Inr d
     \<and> rd_context d = ''unauthenticated''"
proof -
  note derived = sample_derived
  obtain d where d: "verify_auth_contract (\<lambda>_. ''repr'') ''entry:1'' sample_auth sample_security (map sf_id sample_security) [] = Inr d"
    using verify_auth_contract_returns[OF sample_contract_facts(2,3,1,5,4)] by blast
  from derived_contract_confirmed[OF derived sample_security_facts(1) d] d show ?thesis by (simp add: sample_auth_def)
qed

theorem reachability_order_independent_witness:
  "verify_auth_contract (\<lambda>_. ''repr'') ''entry:1'' sample_auth [sample_annotation, sample_gate] [''security:a'', ''security:b''] []
    = verify_auth_contract (\<lambda>_. ''repr'') ''entry:1'' sample_auth [sample_gate, sample_annotation] [''security:b'', ''security:a''] []"
  by (rule reachability_order_independent[OF _ _ _ sample_security_facts(1)]) (simp_all add: insert_commute)

theorem reachability_records_roundtrip_witness:
  "\<exists>contract. AuthContract (JStr ''low_privilege'') [] [JStr ''session''] (JStr ''medium'') = Inr contract
     \<and> auth_from_dict (auth_to_dict contract) = Inr contract"
proof -
  have built: "AuthContract (JStr ''low_privilege'') [] [JStr ''session''] (JStr ''medium'')
      = Inr \<lparr>ac_context = ''low_privilege'', ac_evidence_ids = [], ac_assumptions = [''session''], ac_confidence = ''medium''\<rparr>"
    by (simp add: AuthContract_Inr wf_contract_def auth_contexts_def text_field_def good_string_def max_text_def)
  from reachability_records_roundtrip[THEN conjunct2, THEN conjunct1, rule_format, OF built] built show ?thesis by blast
qed

theorem route_matches_exact_witness:
  "\<not> route_matches ''/admin/**'' ''GET /administrator'' \<and> route_matches ''/admin/**'' ''GET //admin/users/''"
proof -
  have "plain_path ''/admin''" by (simp add: plain_path_def is_blank_def)
  note exact = route_matches_exact[OF this, THEN conjunct2, THEN conjunct1]
  have paths: "route_path ''GET /administrator'' = ''/administrator''" "route_path ''GET //admin/users/'' = ''/admin/users''"
    by (simp_all add: route_path_def strip_def is_blank_def split_once_def collapse_slashes.simps rstrip_slashes_def)
  show ?thesis using exact[of "''GET /administrator''"] exact[of "''GET //admin/users/''"] unfolding paths by simp
qed

end
