(* ===== verification/Pipeline.thy ===== *)
theory Pipeline
  imports ReachabilityModel "HOL-Library.AList"
begin

text \<open>
  \<open>dosweb/pipeline.py\<close>: the resumable pipeline. An operation is a function from the state (the files
  below the output root, the temporary directory of a publication, the run document) to a result and
  the state it leaves, also when it raises, so handlers see what was done before the exception.

  Every operation that changes the file system may fail: the state holds the outcomes of the coming
  operations, \<open>True\<close> for one that raises \<open>OSError\<close>, and an exhausted list means success. Creating
  the parent directory of a file, writing and flushing it are one such operation. Reading does not fail.
  A file is either the text of a JSON document, as the pipeline writes it, or other bytes, which do not
  parse. Clock readings are integers. Locking and directories that stand in the place of files are not
  modelled, and executors, the preflight and the finalizer are arguments.
\<close>

section \<open>Operations with state and exceptions\<close>

type_synonym path = "string list"

datatype content = Bytes string | Json json

record pipe_state =
  files :: "path \<rightharpoonup> content"
  temp :: "path \<rightharpoonup> content"
  links :: "path list"
  faults :: "bool list"
  clock :: nat
  run_doc :: json
  prior :: "string \<rightharpoonup> json"
  backups :: "(path \<times> path) list"
  published :: "path list"
  manifest_backed_up :: bool
  manifest_touched :: bool

type_synonym 'a io = "pipe_state \<Rightarrow> 'a res \<times> pipe_state"

definition io_return :: "'a \<Rightarrow> 'a io" where
  "io_return x s = (Inr x, s)"

definition io_raise :: "py_exc \<Rightarrow> 'a io" where
  "io_raise e s = (Inl e, s)"

definition io_lift :: "'a res \<Rightarrow> 'a io" where
  "io_lift r s = (r, s)"

definition io_bind :: "'a io \<Rightarrow> ('a \<Rightarrow> 'b io) \<Rightarrow> 'b io" where
  "io_bind m k s = (case m s of (Inl e, s') \<Rightarrow> (Inl e, s') | (Inr x, s') \<Rightarrow> k x s')"

definition io_then :: "'a io \<Rightarrow> 'b io \<Rightarrow> 'b io" where
  "io_then m n = io_bind m (\<lambda>_. n)"

definition io_catch :: "'a io \<Rightarrow> (py_exc \<Rightarrow> 'a io) \<Rightarrow> 'a io" where
  "io_catch m h s = (case m s of (Inl e, s') \<Rightarrow> h e s' | (Inr x, s') \<Rightarrow> (Inr x, s'))"

definition io_try :: "'a io \<Rightarrow> 'a res io" where
  "io_try m s = (case m s of (r, s') \<Rightarrow> (Inr r, s'))"

definition io_get :: "(pipe_state \<Rightarrow> 'a) \<Rightarrow> 'a io" where
  "io_get f s = (Inr (f s), s)"

definition io_modify :: "(pipe_state \<Rightarrow> pipe_state) \<Rightarrow> unit io" where
  "io_modify f s = (Inr (), f s)"

fun io_each :: "('a \<Rightarrow> unit io) \<Rightarrow> 'a list \<Rightarrow> unit io" where
  "io_each f [] = io_return ()"
| "io_each f (x # xs) = io_then (f x) (io_each f xs)"

fun io_map :: "('a \<Rightarrow> 'b io) \<Rightarrow> 'a list \<Rightarrow> 'b list io" where
  "io_map f [] = io_return []"
| "io_map f (x # xs) = io_bind (f x) (\<lambda>y. io_bind (io_map f xs) (\<lambda>ys. io_return (y # ys)))"

text \<open>An operation of the operating system: the next outcome decides whether it raises.\<close>

definition os_step :: "unit io" where
  "os_step s = (case faults s of
       [] \<Rightarrow> (Inr (), s)
     | b # bs \<Rightarrow> ((if b then Inl (PyOSError ''OSError'') else Inr ()), s\<lparr>faults := bs\<rparr>))"

definition now :: "int io" where
  "now s = (Inr (int (clock s)), s\<lparr>clock := clock s + 1\<rparr>)"

section \<open>Documents\<close>

definition put :: "string \<Rightarrow> json \<Rightarrow> json \<Rightarrow> json" where
  "put k v d = JObj (AList.update k v (members d))"

definition has_key :: "json \<Rightarrow> string \<Rightarrow> bool" where
  "has_key d k = (k \<in> set (map fst (members d)))"

definition content_bytes :: "content \<Rightarrow> string" where
  "content_bytes c = (case c of Bytes b \<Rightarrow> b | Json j \<Rightarrow> canonical_json j @ [CHR 0x0A])"

definition content_json :: "content \<Rightarrow> json option" where
  "content_json c = (case c of Bytes _ \<Rightarrow> None | Json j \<Rightarrow> Some j)"

text \<open>The number of lines of a file: its line feeds, and one more for an unfinished last line.\<close>

definition record_count :: "string \<Rightarrow> int" where
  "record_count b = int (length (filter (\<lambda>c. c = CHR 0x0A) b)) + (if b \<noteq> [] \<and> last b \<noteq> CHR 0x0A then 1 else 0)"

definition stage_names :: "string list" where
  "stage_names = [''entries'', ''growth'', ''flows'', ''lifecycle'', ''conclude'', ''report'']"

definition run_path :: path where
  "run_path = [''run.json'']"

definition manifest_path :: "string \<Rightarrow> path" where
  "manifest_path stage = [''.stage-manifests'', stage @ ''.json'']"

section \<open>Paths\<close>

definition invalid_path :: "string \<Rightarrow> string \<Rightarrow> py_exc" where
  "invalid_path message raw = AnalyzerError ''ARTIFACT_INVALID_PATH'' message [(''path'', JStr raw)]"

definition safe_relative :: "string \<Rightarrow> path res" where
  "safe_relative raw =
     (if raw = [] \<or> CHR 0x00 \<in> set raw then Inl (invalid_path ''Stage artifact path is invalid.'' raw)
      else let parts = path_parts raw in
        if startswith raw ''/'' \<or> parts = [] \<or> ''..'' \<in> set parts
        then Inl (invalid_path ''Stage artifact path must stay within the output root.'' raw)
        else if parts = run_path \<or> hd parts \<in> {''.stage-manifests'', ''.pipeline.lock''}
        then Inl (invalid_path ''Stage cannot overwrite pipeline metadata.'' raw)
        else Inr parts)"

definition symlinked :: "pipe_state \<Rightarrow> path \<Rightarrow> bool" where
  "symlinked s p = list_ex (\<lambda>l. prefix l p) (links s)"

definition assert_no_symlink :: "path \<Rightarrow> unit io" where
  "assert_no_symlink p s = (if symlinked s p
     then (Inl (AnalyzerError ''ARTIFACT_UNSAFE_OUTPUT_PATH'' ''Output path must not contain symlinks.'' []), s)
     else (Inr (), s))"

section \<open>Payloads\<close>

datatype payload = PText string | PRecords "json list" | PUnsupported

definition max_records :: nat where "max_records = 4096"
definition max_record_bytes :: nat where "max_record_bytes = 262144"
definition max_total_bytes :: nat where "max_total_bytes = 16777216"

definition limit_exceeded :: "string \<Rightarrow> (string \<times> json) list \<Rightarrow> py_exc" where
  "limit_exceeded message details = AnalyzerError ''ARTIFACT_LIMIT_EXCEEDED'' message details"

fun encode_records :: "int \<Rightarrow> json list \<Rightarrow> string list res" where
  "encode_records line [] = Inr []"
| "encode_records line (r # rs) =
     (if \<not> is_mapping r
      then Inl (AnalyzerError ''ARTIFACT_INVALID_RECORD'' ''Stage records must be mappings.'' [(''line'', JInt line)])
      else if max_record_bytes < length (canonical_json r)
      then Inl (limit_exceeded ''Stage record exceeds its byte limit.'' [(''line'', JInt line)])
      else res_bind (encode_records (line + 1) rs) (\<lambda>ls. Inr ((canonical_json r @ [CHR 0x0A]) # ls)))"

definition encode_payload :: "payload \<Rightarrow> (string \<times> int) res" where
  "encode_payload p =
     res_bind (case p of
         PText b \<Rightarrow> Inr (b, record_count b)
       | PRecords rs \<Rightarrow> (if max_records < length rs then Inl (limit_exceeded ''Stage contains too many records.'' [])
           else res_bind (encode_records 1 rs) (\<lambda>ls. Inr (concat ls, int (length ls))))
       | PUnsupported \<Rightarrow> Inl (AnalyzerError ''ARTIFACT_INVALID_RECORD'' ''Stage returned an unsupported payload.'' [])) (\<lambda>(data, count).
     if max_total_bytes < length data \<or> int max_records < count
     then Inl (limit_exceeded ''Stage artifact exceeds configured limits.'' []) else Inr (data, count))"

section \<open>Configuration and fingerprints\<close>

record stage_output =
  so_artifacts :: "(string \<times> payload) list"
  so_metadata :: "(string \<times> json) list"

datatype exec_outcome = ReturnsOutput stage_output | ReturnsMapping "(string \<times> payload) list" | ReturnsOther | Raises py_exc

record stage_context =
  cx_stage :: string
  cx_fingerprint :: json
  cx_upstream :: "(string \<times> json) list"
  cx_run :: json

record pipeline =
  executors :: "string \<rightharpoonup> (stage_context \<Rightarrow> exec_outcome)"
  database_fingerprint :: string
  model_fingerprint :: string
  report_fingerprint :: string
  config_fingerprint :: string
  query_pack_hash :: string
  config_hash :: string
  schema_version :: string
  tool_version :: string
  implementation_versions :: "string \<rightharpoonup> string"
  resume :: bool
  preflight :: "py_exc option"
  finalizer :: "py_exc option"
  run_identity :: "(string \<times> json) list"

definition or_else :: "string \<Rightarrow> string \<Rightarrow> string" where
  "or_else a b = (if a \<noteq> [] then a else b)"

text \<open>\<open>StageFingerprint.to_dict\<close> for the fingerprint that \<open>_fingerprint\<close> builds.\<close>

definition stage_fingerprint :: "pipeline \<Rightarrow> string \<Rightarrow> (string \<times> string) list \<Rightarrow> json" where
  "stage_fingerprint p stage upstream = JObj [
     (''stage'', JStr stage), (''schema_version'', JStr (schema_version p)), (''tool_version'', JStr (tool_version p)),
     (''implementation_version'', JStr (case implementation_versions p stage of None \<Rightarrow> ''v1'' | Some v \<Rightarrow> v)),
     (''database_fingerprint'', JStr (database_fingerprint p)), (''query_pack_hash'', JStr (query_pack_hash p)),
     (''config_hash'', JStr (or_else (config_hash p) (config_fingerprint p))),
     (''config_fingerprint'', JStr (or_else (config_fingerprint p) (config_hash p))),
     (''model_fingerprint'', JStr (if stage \<noteq> ''entries'' then model_fingerprint p else [])),
     (''report_fingerprint'', JStr (if stage = ''report'' then report_fingerprint p else [])),
     (''upstream_hashes'', JObj (map (\<lambda>(k, v). (k, JStr v)) (sort_key fst upstream)))]"

section \<open>The run document\<close>

definition pending :: json where
  "pending = JObj [(''status'', JStr ''pending'')]"

definition new_run :: "pipeline \<Rightarrow> json" where
  "new_run p = JObj [(''schema_version'', JStr (schema_version p)), (''tool_version'', JStr (tool_version p)),
     (''status'', JStr ''pending''), (''error'', JNull), (''identity'', JObj (run_identity p)),
     (''stages'', JObj (map (\<lambda>stage. (stage, pending)) stage_names))]"

definition load_run :: "pipeline \<Rightarrow> pipe_state \<Rightarrow> json res" where
  "load_run p s = (case files s run_path of
       None \<Rightarrow> Inr (new_run p)
     | Some c \<Rightarrow> (case content_json c of
           Some v \<Rightarrow> if is_mapping v \<and> is_mapping (get v ''stages'') then Inr v
             else Inl (AnalyzerError ''ARTIFACT_RUN_METADATA_INVALID'' ''Resume run metadata is malformed.'' [])
         | None \<Rightarrow> Inl (AnalyzerError ''ARTIFACT_RUN_METADATA_INVALID'' ''Resume run metadata is malformed.'' [])))"

text \<open>\<open>_atomic_json\<close>: the temporary file is written, then renamed, then the directory is flushed.\<close>

definition write_run :: "unit io" where
  "write_run = io_then os_step (io_then os_step (io_then
     (io_modify (\<lambda>s. s\<lparr>files := (files s)(run_path \<mapsto> Json (run_doc s))\<rparr>)) os_step))"

definition prior_valid :: "string \<Rightarrow> json \<Rightarrow> bool" where
  "prior_valid stage v = (is_mapping v \<and> get v ''stage'' = JStr stage
     \<and> (case get v ''artifacts'' of
          JArr as \<Rightarrow> list_all (\<lambda>a. is_mapping a \<and> is_str (get a ''path'') \<and> is_ok (safe_relative (str_of (get a ''path'')))) as
        | _ \<Rightarrow> False))"

definition load_prior :: "pipe_state \<Rightarrow> string \<rightharpoonup> json" where
  "load_prior s stage =
     (if stage \<in> set stage_names \<and> \<not> symlinked s (manifest_path stage)
      then (case files s (manifest_path stage) of
          Some (Json v) \<Rightarrow> if prior_valid stage v then Some v else None
        | _ \<Rightarrow> None)
      else None)"

definition stage_meta :: "json \<Rightarrow> string \<Rightarrow> json" where
  "stage_meta run stage = (let v = get (get run ''stages'') stage in if is_mapping v then v else JObj [])"

definition artifacts_hash :: "json list \<Rightarrow> string" where
  "artifacts_hash as = sha256_hex (canonical_json (JArr as))"

definition artifact_intact :: "pipeline \<Rightarrow> pipe_state \<Rightarrow> json \<Rightarrow> bool" where
  "artifact_intact p s a =
     (is_mapping a \<and> get a ''schema_version'' = JStr (schema_version p)
      \<and> is_str (get a ''path'') \<and> is_str (get a ''sha256'') \<and> natural (get a ''record_count'')
      \<and> (case safe_relative (str_of (get a ''path'')) of
           Inl _ \<Rightarrow> False
         | Inr q \<Rightarrow> \<not> symlinked s q \<and> (case files s q of
               None \<Rightarrow> False
             | Some c \<Rightarrow> sha256_hex (content_bytes c) = str_of (get a ''sha256'')
                 \<and> record_count (content_bytes c) = int_of (get a ''record_count''))))"

definition reusable :: "pipeline \<Rightarrow> pipe_state \<Rightarrow> string \<Rightarrow> json \<Rightarrow> bool" where
  "reusable p s stage expected =
     (let m = stage_meta (run_doc s) stage in
      get m ''status'' = JStr ''completed'' \<and> py_eq (get m ''fingerprint'') expected
      \<and> (case get m ''artifacts'' of
           JArr as \<Rightarrow> as \<noteq> [] \<and> get m ''output_hash'' = JStr (artifacts_hash as)
             \<and> (case files s (manifest_path stage) of Some (Json j) \<Rightarrow> py_eq j m | _ \<Rightarrow> False)
             \<and> list_all (artifact_intact p s) as
         | _ \<Rightarrow> False))"

definition set_stage :: "string \<Rightarrow> json \<Rightarrow> json \<Rightarrow> json" where
  "set_stage stage v run = put ''stages'' (put stage v (get run ''stages'')) run"

definition invalidate_from :: "string \<Rightarrow> json \<Rightarrow> json" where
  "invalidate_from first run =
     (let run = (if is_mapping (get run ''stages'') then run else put ''stages'' (JObj []) run)
      in fold (\<lambda>stage. set_stage stage (JObj [(''status'', JStr ''invalid'')]))
           (dropWhile (\<lambda>stage. stage \<noteq> first) stage_names) run)"

end
