(* ===== verification/PipelineRun.thy ===== *)
theory PipelineRun
  imports Pipeline
begin

text \<open>
  \<open>dosweb/pipeline.py\<close>, continued: the execution of a stage, the publication of its artifacts with the
  restoration of the former files when it fails, and a run over the stages with its failure handling.
\<close>

section \<open>Executing a stage\<close>

definition execute :: "pipeline \<Rightarrow> string \<Rightarrow> json \<Rightarrow> (string \<times> json) list \<Rightarrow> stage_output io" where
  "execute p stage fingerprint upstream = (case executors p stage of
       None \<Rightarrow> io_raise (AnalyzerError ''INTERNAL_STAGE_EXECUTORS_UNAVAILABLE''
         ''Production stage executors are unavailable.'' [(''stage'', JStr stage)])
     | Some executor \<Rightarrow> io_bind (io_get run_doc) (\<lambda>run.
         case executor \<lparr>cx_stage = stage, cx_fingerprint = fingerprint, cx_upstream = upstream, cx_run = run\<rparr> of
           ReturnsOutput out \<Rightarrow> io_return out
         | ReturnsMapping as \<Rightarrow> io_return \<lparr>so_artifacts = as, so_metadata = []\<rparr>
         | ReturnsOther \<Rightarrow> io_raise (AnalyzerError ''ARTIFACT_INVALID_RECORD''
             ''Stage executor returned an invalid output.'' [(''stage'', JStr stage)])
         | Raises e \<Rightarrow> io_raise e))"

section \<open>Publishing its artifacts\<close>

text \<open>The artifacts by normalized path, in the order of the paths.\<close>

fun normalize_artifacts :: "string list \<Rightarrow> (string \<times> payload) list \<Rightarrow> (path \<times> payload) list io" where
  "normalize_artifacts seen [] = io_return []"
| "normalize_artifacts seen ((raw, payload) # as) =
     io_bind (io_lift (safe_relative raw)) (\<lambda>relative.
     let key = join ''/'' relative in
     if key \<in> set seen then io_raise (AnalyzerError ''ARTIFACT_DUPLICATE_PATH''
       ''Stage artifact paths normalize to the same destination.'' [(''path'', JStr key)])
     else io_then (assert_no_symlink relative)
       (io_bind (normalize_artifacts (key # seen) as) (\<lambda>rest. io_return ((relative, payload) # rest))))"

definition write_temp :: "path \<Rightarrow> content \<Rightarrow> unit io" where
  "write_temp q c = io_then os_step (io_modify (\<lambda>s. s\<lparr>temp := (temp s)(q \<mapsto> c)\<rparr>))"

text \<open>An artifact is written to the temporary directory and read back.\<close>

definition stage_artifact :: "pipeline \<Rightarrow> path \<times> payload \<Rightarrow> (path \<times> json) io" where
  "stage_artifact p a = (case a of (relative, payload) \<Rightarrow>
     io_bind (io_lift (encode_payload payload)) (\<lambda>(data, count).
     io_then (write_temp relative (Bytes data))
     (io_bind (io_get (\<lambda>s. case temp s relative of None \<Rightarrow> [] | Some c \<Rightarrow> content_bytes c)) (\<lambda>staged.
     if sha256_hex staged \<noteq> sha256_hex data \<or> record_count staged \<noteq> count
     then io_raise (AnalyzerError ''ARTIFACT_VALIDATION_FAILED'' ''Staged artifact validation failed.''
       [(''path'', JStr (join ''/'' relative))])
     else io_return (relative, JObj [(''path'', JStr (join ''/'' relative)), (''sha256'', JStr (sha256_hex staged)),
       (''record_count'', JInt count), (''byte_count'', JInt (int (length data))),
       (''schema_version'', JStr (schema_version p))])))))"

definition stage_manifest :: "pipeline \<Rightarrow> string \<Rightarrow> json \<Rightarrow> json list \<Rightarrow> (string \<times> json) list \<Rightarrow> int \<Rightarrow> int \<Rightarrow> json" where
  "stage_manifest p stage fingerprint as metadata started_at ended_at = JObj [
     (''stage'', JStr stage), (''status'', JStr ''completed''), (''fingerprint'', fingerprint),
     (''artifacts'', JArr as), (''output_hash'', JStr (artifacts_hash as)), (''metadata'', JObj metadata),
     (''started_at'', JInt started_at), (''ended_at'', JInt ended_at),
     (''duration_seconds'', JInt (max 0 (ended_at - started_at))), (''identity'', JObj (run_identity p))]"

definition old_paths :: "json option \<Rightarrow> string list" where
  "old_paths old = (case old of None \<Rightarrow> [] | Some v \<Rightarrow> (case get v ''artifacts'' of
       JArr as \<Rightarrow> map (\<lambda>a. str_of (get a ''path'')) (filter (\<lambda>a. is_mapping a \<and> is_str (get a ''path'')) as)
     | _ \<Rightarrow> []))"

definition missing_file :: py_exc where
  "missing_file = PyOSError ''FileNotFoundError''"

text \<open>\<open>os.replace\<close> between the output and the temporary directory, and \<open>unlink(missing_ok=True)\<close>.\<close>

definition move_to_temp :: "path \<Rightarrow> path \<Rightarrow> unit io" where
  "move_to_temp d q = io_then os_step (\<lambda>s. case files s d of
       None \<Rightarrow> (Inl missing_file, s)
     | Some c \<Rightarrow> (Inr (), s\<lparr>files := (files s)(d := None), temp := (temp s)(q \<mapsto> c)\<rparr>))"

definition move_from_temp :: "path \<Rightarrow> path \<Rightarrow> unit io" where
  "move_from_temp q d = io_then os_step (\<lambda>s. case temp s q of
       None \<Rightarrow> (Inl missing_file, s)
     | Some c \<Rightarrow> (Inr (), s\<lparr>files := (files s)(d \<mapsto> c), temp := (temp s)(q := None)\<rparr>))"

definition unlink :: "path \<Rightarrow> unit io" where
  "unlink d = io_then os_step (io_modify (\<lambda>s. s\<lparr>files := (files s)(d := None)\<rparr>))"

definition back_up :: "path \<Rightarrow> path \<Rightarrow> unit io" where
  "back_up d q s = (if files s d = None then (Inr (), s)
     else io_then (move_to_temp d q) (io_modify (\<lambda>s. s\<lparr>backups := backups s @ [(d, q)]\<rparr>)) s)"

definition remove_old :: "string \<Rightarrow> unit io" where
  "remove_old relative = io_bind (io_lift (safe_relative relative)) (\<lambda>d. back_up d (''backups'' # path_parts relative))"

definition private_suffix :: string where
  "private_suffix = ''.private.jsonl''"

definition publish_file :: "path \<Rightarrow> unit io" where
  "publish_file relative =
     io_then (back_up relative (''backups'' # relative)) (
     io_then (move_from_temp relative relative) (
     io_then (if endswith (join ''/'' relative) private_suffix then os_step else io_return ())
       (io_modify (\<lambda>s. s\<lparr>published := published s @ [relative]\<rparr>))))"

definition publish_manifest :: "string \<Rightarrow> unit io" where
  "publish_manifest stage =
     io_then (\<lambda>s. if files s (manifest_path stage) = None then (Inr (), s)
       else io_then (io_modify (\<lambda>s. s\<lparr>manifest_backed_up := True\<rparr>))
         (io_then (move_to_temp (manifest_path stage) [''old-manifest.json''])
           (io_modify (\<lambda>s. s\<lparr>manifest_touched := True\<rparr>))) s) (
     io_then (io_modify (\<lambda>s. s\<lparr>manifest_touched := True\<rparr>)) (
     io_then (move_from_temp [''manifest.json''] (manifest_path stage)) os_step))"

definition restore_file :: "path \<times> path \<Rightarrow> unit io" where
  "restore_file b s = (case b of (d, q) \<Rightarrow> if temp s q = None then (Inr (), s) else move_from_temp q d s)"

definition restore_manifest :: "string \<Rightarrow> unit io" where
  "restore_manifest stage s =
     (if manifest_backed_up s \<and> temp s [''old-manifest.json''] \<noteq> None
      then io_then (unlink (manifest_path stage)) (move_from_temp [''old-manifest.json''] (manifest_path stage)) s
      else if manifest_touched s then unlink (manifest_path stage) s
      else (Inr (), s))"

definition roll_back :: "string \<Rightarrow> unit io" where
  "roll_back stage = io_bind (io_get published) (\<lambda>ps. io_then (io_each unlink ps)
     (io_bind (io_get backups) (\<lambda>bs. io_then (io_each restore_file (rev bs)) (restore_manifest stage))))"

definition is_exception :: "py_exc \<Rightarrow> bool" where
  "is_exception e = (case e of PyInterrupt _ \<Rightarrow> False | _ \<Rightarrow> True)"

definition clear_locals :: "unit io" where
  "clear_locals = io_modify (\<lambda>s. s\<lparr>temp := Map.empty, backups := [], published := [], manifest_backed_up := False,
     manifest_touched := False\<rparr>)"

definition swap_files :: "string \<Rightarrow> string list \<Rightarrow> path list \<Rightarrow> unit io" where
  "swap_files stage old new =
     io_catch (io_then (io_each remove_old old) (io_then (io_each publish_file new) (publish_manifest stage)))
       (\<lambda>e. if is_exception e then io_then (roll_back stage) (io_raise e) else io_raise e)"

text \<open>The body of the \<open>try\<close> whose \<open>finally\<close> removes the temporary directory.\<close>

definition publish_body :: "pipeline \<Rightarrow> string \<Rightarrow> json \<Rightarrow> (string \<times> json) list \<Rightarrow> int \<Rightarrow> int
    \<Rightarrow> (path \<times> payload) list \<Rightarrow> unit io" where
  "publish_body p stage fingerprint metadata started_at ended_at normalized =
     io_bind (io_map (stage_artifact p) (sort_key (\<lambda>(r, _). join ''/'' r) normalized)) (\<lambda>written.
     let manifest = stage_manifest p stage fingerprint (map snd written) metadata started_at ended_at in
     io_then (write_temp [''manifest.json''] (Json manifest)) (
     io_bind (io_get (\<lambda>s. old_paths (prior s stage))) (\<lambda>old.
     io_then (swap_files stage (usort (filter (\<lambda>x. x \<notin> set (map (join ''/'' \<circ> fst) written)) old)) (map fst written))
       (io_modify (\<lambda>s. s\<lparr>run_doc := set_stage stage manifest (run_doc s), prior := (prior s)(stage \<mapsto> manifest)\<rparr>)))))"

definition publish :: "pipeline \<Rightarrow> string \<Rightarrow> json \<Rightarrow> stage_output \<Rightarrow> int \<Rightarrow> int \<Rightarrow> unit io" where
  "publish p stage fingerprint out started_at ended_at =
     (if so_artifacts out = [] then io_raise (AnalyzerError ''ARTIFACT_EMPTY_STAGE''
        ''A completed stage must publish an artifact.'' [(''stage'', JStr stage)])
      else io_bind (normalize_artifacts [] (so_artifacts out)) (\<lambda>normalized.
      io_then os_step (
      io_then clear_locals (
      io_bind (io_try (publish_body p stage fingerprint (so_metadata out) started_at ended_at normalized)) (\<lambda>r.
      io_then clear_locals (io_lift r))))))"

section \<open>Recording failures\<close>

definition last_chars :: "nat \<Rightarrow> string \<Rightarrow> string" where
  "last_chars n t = (let cs = utf8_chars t in concat (drop (length cs - n) cs))"

definition detail :: "py_exc \<Rightarrow> string \<Rightarrow> json" where
  "detail e k = (case e of AnalyzerError _ _ ds \<Rightarrow> field_of ds k | _ \<Rightarrow> JNull)"

definition str_detail :: "py_exc \<Rightarrow> nat \<Rightarrow> string \<Rightarrow> (string \<times> json) list" where
  "str_detail e n k = (case detail e k of JStr t \<Rightarrow> [(k, JStr (last_chars n t))] | _ \<Rightarrow> [])"

definition exc_name :: "py_exc \<Rightarrow> string" where
  "exc_name e = (case e of AnalyzerError _ _ _ \<Rightarrow> ''AnalyzerError'' | PyKeyError _ \<Rightarrow> ''KeyError''
     | PyValueError _ \<Rightarrow> ''ValueError'' | PyIndexError \<Rightarrow> ''IndexError'' | PyTypeError _ \<Rightarrow> ''TypeError''
     | PyOSError n \<Rightarrow> n | PyInterrupt n \<Rightarrow> n | PyException n \<Rightarrow> n)"

definition with_details :: "(string \<times> json) list \<Rightarrow> (string \<times> json) list" where
  "with_details ds = (if ds = [] then [] else [(''details'', JObj ds)])"

definition failure_document :: "py_exc \<Rightarrow> (string \<times> json) list \<Rightarrow> json" where
  "failure_document e ds = JObj ([(''code'', JStr (exc_code e)), (''message'', JStr (exc_message e))] @ with_details ds)"

definition mark_stages :: "string \<Rightarrow> json \<Rightarrow> json \<Rightarrow> json" where
  "mark_stages stage failed run =
     (case dropWhile (\<lambda>n. n \<noteq> stage) stage_names of
        [] \<Rightarrow> run
      | n # later \<Rightarrow> fold (\<lambda>n. set_stage n pending) later (set_stage n failed run))"

text \<open>\<open>_mark_failure\<close> and \<open>_mark_run_failure\<close>, on an analyzer error.\<close>

definition mark_failure :: "string \<Rightarrow> py_exc \<Rightarrow> json \<Rightarrow> json" where
  "mark_failure stage e run =
     (let returncode = (case detail e ''returncode'' of JInt i \<Rightarrow> [(''returncode'', JInt i)] | _ \<Rightarrow> []);
          ds = str_detail e 128 ''stage'' @ str_detail e 2048 ''diagnostic'' @ returncode;
          failed = JObj ([(''status'', JStr ''failed''), (''error'', JStr (exc_code e))] @ with_details ds);
          run = (if is_mapping (get run ''stages'') then mark_stages stage failed run else run)
      in put ''error'' (failure_document e ds) (put ''status'' (JStr ''failed'') run))"

definition mark_run_failure :: "py_exc \<Rightarrow> int \<Rightarrow> json \<Rightarrow> json" where
  "mark_run_failure e ended_at run =
     (let ds = str_detail e 128 ''stage'' @ str_detail e 128 ''reason'' @ str_detail e 128 ''error_type''
      in put ''ended_at'' (JInt ended_at) (put ''error'' (failure_document e ds) (put ''status'' (JStr ''failed'') run)))"

definition mark_run :: "py_exc \<Rightarrow> unit io" where
  "mark_run e = io_bind now (\<lambda>t. io_modify (\<lambda>s. s\<lparr>run_doc := mark_run_failure e t (run_doc s)\<rparr>))"

definition is_analyzer_error :: "py_exc \<Rightarrow> bool" where
  "is_analyzer_error e = (case e of AnalyzerError _ _ _ \<Rightarrow> True | _ \<Rightarrow> False)"

section \<open>A run\<close>

definition stage_failed :: "string \<Rightarrow> py_exc \<Rightarrow> py_exc" where
  "stage_failed stage e = (if is_analyzer_error e then e else AnalyzerError ''ANALYSIS_STAGE_FAILED''
     ''Injected stage executor failed.'' [(''stage'', JStr stage), (''error_type'', JStr (exc_name e))])"

definition run_stage :: "pipeline \<Rightarrow> string \<Rightarrow> json \<Rightarrow> (string \<times> json) list \<Rightarrow> unit io" where
  "run_stage p stage expected upstream s =
     (if reusable p s stage expected then (Inr (), s)
      else io_then (io_modify (\<lambda>s. s\<lparr>run_doc := invalidate_from stage (run_doc s)\<rparr>)) (
        io_catch (io_bind now (\<lambda>started_at. io_bind (execute p stage expected upstream) (\<lambda>out.
            io_bind now (\<lambda>ended_at. io_then (publish p stage expected out started_at ended_at) write_run))))
          (\<lambda>e. if is_exception e then
              io_then (io_modify (\<lambda>s. s\<lparr>run_doc := mark_failure stage (stage_failed stage e) (run_doc s)\<rparr>))
                (io_raise (stage_failed stage e))
            else io_raise e)) s)"

fun run_stages :: "pipeline \<Rightarrow> string \<Rightarrow> (string \<times> string) list \<Rightarrow> (string \<times> json) list \<Rightarrow> string list \<Rightarrow> unit io" where
  "run_stages p final hashes upstream [] = io_return ()"
| "run_stages p final hashes upstream (stage # rest) =
     io_then (run_stage p stage (stage_fingerprint p stage hashes) upstream) (
     io_bind (io_get (\<lambda>s. stage_meta (run_doc s) stage)) (\<lambda>metadata.
     if stage = final then io_return ()
     else run_stages p final (hashes @ [(stage, str_of (get metadata ''output_hash''))])
            (upstream @ [(stage, metadata)]) rest))"

definition prior_attempt :: "json \<Rightarrow> int" where
  "prior_attempt run = (case (if has_key run ''attempt'' then get run ''attempt'' else JInt 0) of
       JInt i \<Rightarrow> if i < 0 then 0 else i | _ \<Rightarrow> 0)"

definition begin_document :: "pipeline \<Rightarrow> int \<Rightarrow> json \<Rightarrow> json" where
  "begin_document p started_at run = fold (\<lambda>(k, v). put k v)
     [(''schema_version'', JStr (schema_version p)), (''tool_version'', JStr (tool_version p)),
      (''identity'', JObj (run_identity p)), (''attempt'', JInt (prior_attempt run + 1)),
      (''status'', JStr ''running''), (''error'', JNull), (''started_at'', JInt started_at)] run"

definition record_identity :: "pipeline \<Rightarrow> json \<Rightarrow> json \<Rightarrow> json" where
  "record_identity p previous run = put ''identity'' (JObj (run_identity p))
     (if is_mapping previous \<and> \<not> py_eq previous (JObj (run_identity p))
      then put ''previous_identity_hash'' (JStr (sha256_hex (canonical_json previous))) run else run)"

text \<open>The body of the innermost \<open>try\<close> of \<open>run\<close>.\<close>

definition run_body :: "pipeline \<Rightarrow> string \<Rightarrow> unit io" where
  "run_body p final =
     io_then (io_modify (\<lambda>s. s\<lparr>prior := load_prior s\<rparr>)) (
     io_bind (\<lambda>s. if resume p then (load_run p s, s) else (Inr (new_run p), s)) (\<lambda>run.
     io_then (io_modify (\<lambda>s. s\<lparr>run_doc := run\<rparr>)) (
     io_bind now (\<lambda>started_at.
     io_then (io_modify (\<lambda>s. s\<lparr>run_doc := begin_document p started_at (run_doc s)\<rparr>)) (
     io_then write_run (
     io_then (case preflight p of None \<Rightarrow> io_return () | Some e \<Rightarrow> io_raise e) (
     io_then (io_modify (\<lambda>s. s\<lparr>run_doc := record_identity p (get run ''identity'') (run_doc s)\<rparr>)) (
     io_then write_run (run_stages p final [] [] stage_names)))))))))"

definition persisted_error :: "py_exc \<Rightarrow> py_exc" where
  "persisted_error e = (if is_analyzer_error e then e else AnalyzerError ''ANALYSIS_PIPELINE_FAILED''
     ''Pipeline execution failed.'' [(''error_type'', JStr (exc_name e))])"

definition finalization_error :: "py_exc \<Rightarrow> py_exc" where
  "finalization_error e = (if is_analyzer_error e then e else AnalyzerError ''ANALYSIS_FINALIZATION_FAILED''
     ''Pipeline finalization failed.'' [(''error_type'', JStr (exc_name e))])"

text \<open>Writing the run document in a handler: what it raises is kept.\<close>

definition try_write_run :: "py_exc option io" where
  "try_write_run = io_bind (io_try write_run) (\<lambda>r. io_return (case r of Inl e \<Rightarrow> Some e | Inr _ \<Rightarrow> None))"

definition note_failure :: "py_exc \<Rightarrow> py_exc option io" where
  "note_failure e = io_bind (io_get run_doc) (\<lambda>run.
     if \<not> truthy run then io_return None
     else io_then (if get run ''status'' \<noteq> JStr ''failed'' then mark_run (persisted_error e) else io_return ()) try_write_run)"

text \<open>\<open>Pipeline.run\<close>: the finalizer runs in every case; a failure of the finalization is raised first, then
  one of writing the run document, then the failure of the run itself.\<close>

definition run_pipeline :: "pipeline \<Rightarrow> string \<Rightarrow> json io" where
  "run_pipeline p target =
     (if target \<noteq> ''analyze'' \<and> target \<notin> set stage_names
      then io_raise (AnalyzerError ''CONFIG_INVALID_COMMAND'' (''Unknown pipeline target: '' @ target @ ''.'') [])
      else let final = (if target = ''analyze'' then last stage_names else target) in
      io_bind (io_try (run_body p final)) (\<lambda>outcome.
      io_bind (case outcome of Inl e \<Rightarrow> note_failure e | Inr _ \<Rightarrow> io_return None) (\<lambda>failure_write.
      let finalization = map_option finalization_error (finalizer p) in
      io_then (\<lambda>s. case finalization of Some e \<Rightarrow> (if truthy (run_doc s) then mark_run e s else (Inr (), s)) | None \<Rightarrow> (Inr (), s)) (
      io_bind (\<lambda>s. if truthy (run_doc s) \<and> (finalization \<noteq> None \<or> failure_write \<noteq> None)
          then try_write_run s else (Inr None, s)) (\<lambda>retry_write.
      case finalization of
        Some e \<Rightarrow> io_raise e
      | None \<Rightarrow> (case (case retry_write of Some e \<Rightarrow> Some e | None \<Rightarrow> failure_write) of
          Some e \<Rightarrow> io_raise e
        | None \<Rightarrow> (case outcome of
            Inl e \<Rightarrow> io_raise e
          | Inr _ \<Rightarrow> io_bind now (\<lambda>t.
              io_then (io_modify (\<lambda>s. s\<lparr>run_doc := fold (\<lambda>(k, v). put k v)
                  [(''status'', JStr ''completed''), (''error'', JNull), (''ended_at'', JInt t)] (run_doc s)\<rparr>))
                (io_then write_run (io_get run_doc))))))))))"

text \<open>A pipeline object just built, on given files.\<close>

definition fresh :: "(path \<rightharpoonup> content) \<Rightarrow> path list \<Rightarrow> bool list \<Rightarrow> nat \<Rightarrow> pipe_state" where
  "fresh fs ls bs t = \<lparr>files = fs, temp = Map.empty, links = ls, faults = bs, clock = t, run_doc = JObj [],
     prior = Map.empty, backups = [], published = [], manifest_backed_up = False, manifest_touched = False\<rparr>"

end
