(* ===== verification/Exchange.thy ===== *)
theory Exchange
  imports PipelineRun
begin

text \<open>
  A small calculus of specifications for operations with exceptions, and the exchange of the files of a
  stage: it puts the new artifacts and the new manifest in place of the old ones, or it raises and has
  restored every file.
\<close>

section \<open>Specifications\<close>

text \<open>From a state with \<open>P\<close>, a result satisfies \<open>Q\<close> and an exception \<open>E\<close>.\<close>

definition spec :: "(pipe_state \<Rightarrow> bool) \<Rightarrow> 'a io \<Rightarrow> ('a \<Rightarrow> pipe_state \<Rightarrow> bool) \<Rightarrow> (py_exc \<Rightarrow> pipe_state \<Rightarrow> bool) \<Rightarrow> bool" where
  "spec P m Q E \<longleftrightarrow> (\<forall>s r s'. P s \<longrightarrow> m s = (r, s') \<longrightarrow> (case r of Inr x \<Rightarrow> Q x s' | Inl e \<Rightarrow> E e s'))"

lemma specD_Inr: "spec P m Q E \<Longrightarrow> P s \<Longrightarrow> m s = (Inr x, s') \<Longrightarrow> Q x s'"
  by (auto simp: spec_def)

lemma specD_Inl: "spec P m Q E \<Longrightarrow> P s \<Longrightarrow> m s = (Inl e, s') \<Longrightarrow> E e s'"
  by (auto simp: spec_def)

lemma specI:
  assumes "\<And>s x s'. P s \<Longrightarrow> m s = (Inr x, s') \<Longrightarrow> Q x s'" "\<And>s e s'. P s \<Longrightarrow> m s = (Inl e, s') \<Longrightarrow> E e s'"
  shows "spec P m Q E"
  using assms by (auto simp: spec_def split: sum.splits)

lemma spec_weaken:
  assumes "spec P m Q E" "\<And>s. P' s \<Longrightarrow> P s" "\<And>x s. Q x s \<Longrightarrow> Q' x s" "\<And>e s. E e s \<Longrightarrow> E' e s"
  shows "spec P' m Q' E'"
  by (rule specI) (blast intro: assms(2-4) specD_Inr[OF assms(1)] specD_Inl[OF assms(1)])+

lemma io_bind_cases:
  assumes "io_bind m k s = (r, s')"
  obtains (raised) e where "m s = (Inl e, s')" "r = Inl e" | (returned) x s1 where "m s = (Inr x, s1)" "k x s1 = (r, s')"
  using assms by (auto simp: io_bind_def split: prod.splits sum.splits)

lemma io_catch_cases:
  assumes "io_catch m h s = (r, s')"
  obtains (raised) e s1 where "m s = (Inl e, s1)" "h e s1 = (r, s')" | (returned) x where "m s = (Inr x, s')" "r = Inr x"
  using assms by (auto simp: io_catch_def split: prod.splits sum.splits)

lemma spec_bind:
  assumes "spec P m R E" "\<And>x. spec (R x) (k x) Q E"
  shows "spec P (io_bind m k) Q E"
proof (rule specI)
  fix s x s' assume s: "P s" "io_bind m k s = (Inr x, s')"
  from s(2) show "Q x s'" by (cases rule: io_bind_cases) (use specD_Inr[OF assms(1) s(1)] specD_Inr[OF assms(2)] in auto)
next
  fix s e s' assume s: "P s" "io_bind m k s = (Inl e, s')"
  from s(2) show "E e s'"
    by (cases rule: io_bind_cases) (use specD_Inl[OF assms(1) s(1)] specD_Inr[OF assms(1) s(1)] specD_Inl[OF assms(2)] in auto)
qed

lemma spec_then: "spec P m (\<lambda>_. R) E \<Longrightarrow> spec R n Q E \<Longrightarrow> spec P (io_then m n) Q E"
  unfolding io_then_def by (rule spec_bind)

lemma spec_return: "(\<And>s. P s \<Longrightarrow> Q x s) \<Longrightarrow> spec P (io_return x) Q E"
  by (simp add: spec_def io_return_def)

lemma spec_raise: "(\<And>s. P s \<Longrightarrow> E e s) \<Longrightarrow> spec P (io_raise e) Q E"
  by (simp add: spec_def io_raise_def)

lemma spec_lift: "(\<And>s x. P s \<Longrightarrow> r = Inr x \<Longrightarrow> Q x s) \<Longrightarrow> (\<And>s e. P s \<Longrightarrow> r = Inl e \<Longrightarrow> E e s) \<Longrightarrow> spec P (io_lift r) Q E"
  by (auto simp: spec_def io_lift_def split: sum.splits)

lemma bind_lift_Inr: "io_bind (io_lift (Inr x)) k = k x"
  by (rule ext) (simp add: io_bind_def io_lift_def)

lemma spec_get: "(\<And>s. P s \<Longrightarrow> Q (f s) s) \<Longrightarrow> spec P (io_get f) Q E"
  by (simp add: spec_def io_get_def)

lemma spec_modify: "(\<And>s. P s \<Longrightarrow> Q () (f s)) \<Longrightarrow> spec P (io_modify f) Q E"
  by (simp add: spec_def io_modify_def)

lemma spec_each:
  assumes "\<And>x xs. spec (I (x # xs)) (f x) (\<lambda>_. I xs) E"
  shows "spec (I xs) (io_each f xs) (\<lambda>_. I []) E"
proof (induction xs)
  case Nil
  then show ?case by (auto intro: spec_return)
next
  case (Cons x xs)
  then show ?case by (auto intro: spec_then[OF assms])
qed

lemma spec_catch:
  assumes "spec P m Q F" "\<And>e. spec (F e) (h e) Q E"
  shows "spec P (io_catch m h) Q E"
proof (rule specI)
  fix s x s' assume s: "P s" "io_catch m h s = (Inr x, s')"
  from s(2) show "Q x s'"
    by (cases rule: io_catch_cases) (use specD_Inr[OF assms(1) s(1)] specD_Inl[OF assms(1) s(1)] specD_Inr[OF assms(2)] in auto)
next
  fix s e s' assume s: "P s" "io_catch m h s = (Inl e, s')"
  from s(2) show "E e s'"
    by (cases rule: io_catch_cases) (use specD_Inl[OF assms(1) s(1)] specD_Inl[OF assms(2)] in auto)
qed

lemma spec_cong: "(\<And>s. P s \<Longrightarrow> m s = n s) \<Longrightarrow> spec P n Q E \<Longrightarrow> spec P m Q E"
  by (simp add: spec_def)

lemma spec_if: "(c \<Longrightarrow> spec P m Q E) \<Longrightarrow> (\<not> c \<Longrightarrow> spec P n Q E) \<Longrightarrow> spec P (if c then m else n) Q E"
  by simp

lemma spec_frame: "spec P m Q E \<Longrightarrow> spec (\<lambda>s. P s \<and> c) m (\<lambda>x s. c \<and> Q x s) E"
  by (auto simp: spec_def split: sum.splits)

lemma spec_pointwise: "(\<And>s1. P s1 \<Longrightarrow> spec (\<lambda>s. s = s1) m Q E) \<Longrightarrow> spec P m Q E"
  by (auto simp: spec_def)

lemma spec_branch:
  assumes "spec (\<lambda>s. P s \<and> c s) m Q E" "spec (\<lambda>s. P s \<and> \<not> c s) n Q E"
  shows "spec P (\<lambda>s. if c s then m s else n s) Q E"
  using assms by (auto simp: spec_def)

section \<open>One failing operation\<close>

text \<open>At most one of the coming operations fails; once it has failed, none does.\<close>

definition single :: "pipe_state \<Rightarrow> bool" where
  "single s \<longleftrightarrow> length (filter (\<lambda>b. b) (faults s)) \<le> 1"

definition quiet :: "pipe_state \<Rightarrow> bool" where
  "quiet s \<longleftrightarrow> True \<notin> set (faults s)"

lemma spec_os:
  assumes "\<And>s. P s \<Longrightarrow> single s"
    and "\<And>s bs. P s \<Longrightarrow> single (s\<lparr>faults := bs\<rparr>) \<Longrightarrow> Q () (s\<lparr>faults := bs\<rparr>)"
    and "\<And>s bs. P s \<Longrightarrow> quiet (s\<lparr>faults := bs\<rparr>) \<Longrightarrow> E (PyOSError ''OSError'') (s\<lparr>faults := bs\<rparr>)"
  shows "spec P os_step Q E"
proof (rule specI)
  fix s x s' assume s: "P s" "os_step s = (Inr x, s')"
  obtain bs where "s' = s\<lparr>faults := bs\<rparr>" "single (s\<lparr>faults := bs\<rparr>)"
  proof (cases "faults s")
    case Nil
    with s(2) that[of "[]"] show ?thesis using assms(1)[OF s(1)] by (simp add: os_step_def)
  next
    case (Cons b bs)
    with s(2) that[of bs] show ?thesis using assms(1)[OF s(1)] by (auto simp: os_step_def single_def split: if_splits)
  qed
  then show "Q x s'" using assms(2)[OF s(1)] by simp
next
  fix s e s' assume s: "P s" "os_step s = (Inl e, s')"
  then obtain bs where "faults s = True # bs" "s' = s\<lparr>faults := bs\<rparr>" "e = PyOSError ''OSError''"
    by (auto simp: os_step_def split: list.splits if_splits)
  moreover then have "quiet (s\<lparr>faults := bs\<rparr>)"
    using assms(1)[OF s(1)] by (auto simp: single_def quiet_def filter_empty_conv)
  ultimately show "E e s'" using assms(3)[OF s(1)] by simp
qed

lemma spec_os_quiet:
  assumes "\<And>s. P s \<Longrightarrow> quiet s" "\<And>s bs. P s \<Longrightarrow> quiet (s\<lparr>faults := bs\<rparr>) \<Longrightarrow> Q () (s\<lparr>faults := bs\<rparr>)"
  shows "spec P os_step Q E"
proof (rule specI)
  fix s x s' assume s: "P s" "os_step s = (Inr x, s')"
  obtain bs where "s' = s\<lparr>faults := bs\<rparr>" "quiet (s\<lparr>faults := bs\<rparr>)"
  proof (cases "faults s")
    case Nil
    with s(2) that[of "[]"] show ?thesis using assms(1)[OF s(1)] by (simp add: os_step_def)
  next
    case (Cons b bs)
    with s(2) that[of bs] show ?thesis using assms(1)[OF s(1)] by (auto simp: os_step_def quiet_def split: if_splits)
  qed
  then show "Q x s'" using assms(2)[OF s(1)] by simp
next
  fix s e s' assume s: "P s" "os_step s = (Inl e, s')"
  then show "E e s'" using assms(1)[OF s(1)] by (auto simp: os_step_def quiet_def split: list.splits if_splits)
qed

section \<open>Moving files\<close>

text \<open>What each operation does when it succeeds; when it fails nothing has changed.\<close>

definition taken :: "path \<Rightarrow> path \<Rightarrow> pipe_state \<Rightarrow> pipe_state" where
  "taken d q s = s\<lparr>files := (files s)(d := None), temp := (temp s)(q := files s d)\<rparr>"

definition placed :: "path \<Rightarrow> path \<Rightarrow> pipe_state \<Rightarrow> pipe_state" where
  "placed q d s = s\<lparr>files := (files s)(d := temp s q), temp := (temp s)(q := None)\<rparr>"

lemma spec_move_to_temp:
  assumes "spec P os_step (\<lambda>_ s. files s d \<noteq> None \<and> Q () (taken d q s)) E"
  shows "spec P (move_to_temp d q) Q E"
  unfolding move_to_temp_def by (rule spec_then[OF assms]) (auto simp: spec_def taken_def split: option.splits)

lemma spec_move_from_temp:
  assumes "spec P os_step (\<lambda>_ s. temp s q \<noteq> None \<and> Q () (placed q d s)) E"
  shows "spec P (move_from_temp q d) Q E"
  unfolding move_from_temp_def by (rule spec_then[OF assms]) (auto simp: spec_def placed_def split: option.splits)

lemma spec_unlink:
  assumes "spec P os_step (\<lambda>_ s. Q () (s\<lparr>files := (files s)(d := None)\<rparr>)) E"
  shows "spec P (unlink d) Q E"
  unfolding unlink_def by (rule spec_then[OF assms]) (auto intro: spec_modify)

section \<open>Restoring the files\<close>

text \<open>What holds while files are exchanged, relative to the state \<open>s0\<close> in which the exchange began: each
  file is as it was, or is published, or is in the backups; \<open>M\<close> is the path of the manifest.\<close>

definition same_rest :: "pipe_state \<Rightarrow> pipe_state \<Rightarrow> bool" where
  "same_rest s0 s \<longleftrightarrow> run_doc s = run_doc s0 \<and> prior s = prior s0 \<and> links s = links s0 \<and> clock s = clock s0"

abbreviation old_manifest :: path where "old_manifest \<equiv> [''old-manifest.json'']"
abbreviation new_manifest :: path where "new_manifest \<equiv> [''manifest.json'']"

definition swapping :: "pipe_state \<Rightarrow> path \<Rightarrow> pipe_state \<Rightarrow> bool" where
  "swapping s0 M s \<longleftrightarrow> same_rest s0 s
     \<and> (\<forall>x. x \<noteq> M \<longrightarrow> x \<notin> fst ` set (backups s) \<longrightarrow> x \<notin> set (published s) \<longrightarrow> files s x = files s0 x)
     \<and> (\<forall>b \<in> set (backups s). snd b = ''backups'' # fst b \<and> temp s (snd b) = files s0 (fst b) \<and> files s0 (fst b) \<noteq> None
          \<and> fst b \<noteq> M)
     \<and> (\<forall>x \<in> set (published s). x \<noteq> M \<and> (x \<notin> fst ` set (backups s) \<longrightarrow> files s0 x = None))
     \<and> distinct (map fst (backups s))"

definition manifest_kept :: "pipe_state \<Rightarrow> path \<Rightarrow> pipe_state \<Rightarrow> bool" where
  "manifest_kept s0 M s \<longleftrightarrow> files s M = files s0 M \<and> \<not> manifest_touched s \<and> temp s old_manifest = None"

definition manifest_moved :: "pipe_state \<Rightarrow> path \<Rightarrow> pipe_state \<Rightarrow> bool" where
  "manifest_moved s0 M s \<longleftrightarrow> manifest_touched s \<and> (if manifest_backed_up s
     then temp s old_manifest = files s0 M \<and> files s0 M \<noteq> None else files s0 M = None)"

definition restorable :: "pipe_state \<Rightarrow> path \<Rightarrow> pipe_state \<Rightarrow> bool" where
  "restorable s0 M s \<longleftrightarrow> swapping s0 M s \<and> quiet s \<and> (manifest_kept s0 M s \<or> manifest_moved s0 M s)"

definition restored :: "pipe_state \<Rightarrow> pipe_state \<Rightarrow> bool" where
  "restored s0 s \<longleftrightarrow> same_rest s0 s \<and> files s = files s0"

definition never :: "py_exc \<Rightarrow> pipe_state \<Rightarrow> bool" where
  "never e s = False"

lemma faults_irrelevant [simp]:
  "swapping s0 M (s\<lparr>faults := bs\<rparr>) = swapping s0 M s" "manifest_kept s0 M (s\<lparr>faults := bs\<rparr>) = manifest_kept s0 M s"
  "manifest_moved s0 M (s\<lparr>faults := bs\<rparr>) = manifest_moved s0 M s" "same_rest s0 (s\<lparr>faults := bs\<rparr>) = same_rest s0 s"
  by (simp_all add: swapping_def manifest_kept_def manifest_moved_def same_rest_def)

lemma quiet_update [simp]:
  "quiet (s\<lparr>files := f\<rparr>) = quiet s" "quiet (s\<lparr>temp := t\<rparr>) = quiet s" "quiet (taken d q s) = quiet s" "quiet (placed q d s) = quiet s"
  "single (taken d q s) = single s" "single (placed q d s) = single s"
  by (simp_all add: quiet_def single_def taken_def placed_def)

definition unlinking :: "pipe_state \<Rightarrow> path \<Rightarrow> path list \<Rightarrow> path list \<Rightarrow> pipe_state \<Rightarrow> bool" where
  "unlinking s0 M ps todo s \<longleftrightarrow> restorable s0 M s \<and> published s = ps \<and> (\<forall>x \<in> set ps. x \<notin> set todo \<longrightarrow> files s x = None)
     \<and> set todo \<subseteq> set ps"

lemma spec_unlink_published:
  "spec (unlinking s0 M ps (x # todo)) (unlink x) (\<lambda>_. unlinking s0 M ps todo) never"
proof (rule spec_unlink, rule spec_os_quiet)
  show "unlinking s0 M ps (x # todo) s \<Longrightarrow> quiet s" for s by (simp add: unlinking_def restorable_def)
  fix s bs assume s: "unlinking s0 M ps (x # todo) s" "quiet (s\<lparr>faults := bs\<rparr>)"
  then have x: "x \<in> set (published s)" "x \<noteq> M" by (auto simp: unlinking_def restorable_def swapping_def)
  let ?t = "s\<lparr>faults := bs, files := (files s)(x := None)\<rparr>"
  have "swapping s0 M ?t" using s x by (auto simp: unlinking_def restorable_def swapping_def same_rest_def)
  moreover have "manifest_kept s0 M ?t \<or> manifest_moved s0 M ?t"
    using s x by (auto simp: unlinking_def restorable_def manifest_kept_def manifest_moved_def)
  ultimately have "restorable s0 M ?t" using s(2) by (simp add: restorable_def)
  then show "unlinking s0 M ps todo (s\<lparr>faults := bs, files := (files (s\<lparr>faults := bs\<rparr>))(x := None)\<rparr>)"
    using s by (auto simp: unlinking_def)
qed

definition restoring :: "pipe_state \<Rightarrow> path \<Rightarrow> (path \<times> path) list \<Rightarrow> pipe_state \<Rightarrow> bool" where
  "restoring s0 M todo s \<longleftrightarrow> same_rest s0 s \<and> quiet s \<and> (manifest_kept s0 M s \<or> manifest_moved s0 M s)
     \<and> (\<forall>x. x \<noteq> M \<longrightarrow> x \<notin> fst ` set todo \<longrightarrow> files s x = files s0 x)
     \<and> (\<forall>b \<in> set todo. snd b = ''backups'' # fst b \<and> temp s (snd b) = files s0 (fst b) \<and> files s0 (fst b) \<noteq> None \<and> fst b \<noteq> M)
     \<and> distinct (map fst todo)"

lemma spec_restore_file:
  "spec (restoring s0 M (b # todo)) (restore_file b) (\<lambda>_. restoring s0 M todo) never"
proof -
  obtain d q where b: "b = (d, q)" by (cases b)
  have "spec (restoring s0 M (b # todo)) (move_from_temp q d) (\<lambda>_. restoring s0 M todo) never"
  proof (rule spec_move_from_temp, rule spec_os_quiet)
    show "restoring s0 M (b # todo) s \<Longrightarrow> quiet s" for s by (simp add: restoring_def)
    fix s bs assume s: "restoring s0 M (b # todo) s" "quiet (s\<lparr>faults := bs\<rparr>)"
    then have d: "d \<noteq> M" "q = ''backups'' # d" "temp s q = files s0 d" "files s0 d \<noteq> None" "d \<notin> fst ` set todo"
      "distinct (map fst todo)" by (auto simp: restoring_def b)
    let ?t = "placed q d (s\<lparr>faults := bs\<rparr>)"
    have "same_rest s0 ?t" using s by (simp add: restoring_def same_rest_def placed_def)
    moreover have "manifest_kept s0 M ?t \<or> manifest_moved s0 M ?t"
      using s d by (auto simp: restoring_def manifest_kept_def manifest_moved_def placed_def)
    moreover have "\<forall>x. x \<noteq> M \<longrightarrow> x \<notin> fst ` set todo \<longrightarrow> files ?t x = files s0 x"
      using s d by (auto simp: restoring_def placed_def b)
    moreover have "\<forall>b \<in> set todo. snd b = ''backups'' # fst b \<and> temp ?t (snd b) = files s0 (fst b) \<and> files s0 (fst b) \<noteq> None \<and> fst b \<noteq> M"
      using s d by (force simp: restoring_def placed_def b)
    moreover have "quiet ?t" using s(2) by simp
    ultimately have "restoring s0 M todo ?t" unfolding restoring_def using d(6) by blast
    then show "temp (s\<lparr>faults := bs\<rparr>) q \<noteq> None \<and> restoring s0 M todo ?t" using d by simp
  qed
  moreover have "restore_file b s = move_from_temp q d s" if "restoring s0 M (b # todo) s" for s
  proof -
    have "temp s q \<noteq> None" using that by (auto simp: restoring_def b)
    then show ?thesis by (auto simp: restore_file_def b)
  qed
  ultimately show ?thesis by (rule spec_cong[rotated])
qed

lemma spec_restore_manifest:
  "spec (restoring s0 (manifest_path stage) []) (restore_manifest stage) (\<lambda>_. restored s0) never"
proof -
  let ?M = "manifest_path stage"
  let ?c1 = "\<lambda>s. manifest_backed_up s \<and> temp s old_manifest \<noteq> None"
  let ?P = "\<lambda>s. restoring s0 ?M [] s \<and> temp s old_manifest = files s0 ?M \<and> files s0 ?M \<noteq> None"
  have eq: "files s = files s0" if "\<forall>x. x \<noteq> ?M \<longrightarrow> files s x = files s0 x" "files s ?M = files s0 ?M" for s
    using that by (metis ext)
  have one: "spec (\<lambda>s. restoring s0 ?M [] s \<and> ?c1 s)
      (io_then (unlink ?M) (move_from_temp old_manifest ?M)) (\<lambda>_. restored s0) never"
  proof (rule spec_then[where R = "\<lambda>s. same_rest s0 s \<and> quiet s \<and> (\<forall>x. x \<noteq> ?M \<longrightarrow> files s x = files s0 x)
      \<and> temp s old_manifest = files s0 ?M \<and> files s0 ?M \<noteq> None"])
    show "spec (\<lambda>s. restoring s0 ?M [] s \<and> ?c1 s) (unlink ?M) (\<lambda>_ s. same_rest s0 s \<and> quiet s
        \<and> (\<forall>x. x \<noteq> ?M \<longrightarrow> files s x = files s0 x) \<and> temp s old_manifest = files s0 ?M \<and> files s0 ?M \<noteq> None) never"
      by (rule spec_unlink, rule spec_os_quiet)
        (auto simp: restoring_def manifest_kept_def manifest_moved_def same_rest_def split: if_splits)
    show "spec (\<lambda>s. same_rest s0 s \<and> quiet s \<and> (\<forall>x. x \<noteq> ?M \<longrightarrow> files s x = files s0 x)
      \<and> temp s old_manifest = files s0 ?M \<and> files s0 ?M \<noteq> None) (move_from_temp old_manifest ?M) (\<lambda>_. restored s0) never"
      by (rule spec_move_from_temp, rule spec_os_quiet) (auto simp: restored_def placed_def same_rest_def)
  qed
  have two: "spec (\<lambda>s. restoring s0 ?M [] s \<and> \<not> ?c1 s \<and> manifest_touched s) (unlink ?M) (\<lambda>_. restored s0) never"
  proof (rule spec_unlink, rule spec_os_quiet)
    fix s bs assume "restoring s0 ?M [] s \<and> \<not> ?c1 s \<and> manifest_touched s"
    then have "files s0 ?M = None" "\<forall>x. x \<noteq> ?M \<longrightarrow> files s x = files s0 x" "same_rest s0 s"
      by (auto simp: restoring_def manifest_kept_def manifest_moved_def split: if_splits)
    then show "restored s0 (s\<lparr>faults := bs, files := (files (s\<lparr>faults := bs\<rparr>))(?M := None)\<rparr>)"
      by (auto simp: restored_def same_rest_def)
  qed (simp add: restoring_def)
  have three: "restored s0 s" if "restoring s0 ?M [] s" "\<not> manifest_touched s" for s
    using that eq[of s] by (auto simp: restoring_def manifest_kept_def manifest_moved_def restored_def)
  show ?thesis
    using one two three by (auto simp: spec_def restore_manifest_def split: sum.splits)
qed

lemma spec_roll_back:
  "spec (restorable s0 (manifest_path stage)) (roll_back stage) (\<lambda>_. restored s0) never"
proof -
  let ?M = "manifest_path stage"
  show ?thesis unfolding roll_back_def
  proof (rule spec_bind[where R = "\<lambda>ps. unlinking s0 ?M ps ps"])
    show "spec (restorable s0 ?M) (io_get published) (\<lambda>ps. unlinking s0 ?M ps ps) never"
      by (rule spec_get) (simp add: unlinking_def)
    fix ps
    have start: "restoring s0 ?M (rev (backups s)) s" if "unlinking s0 ?M ps [] s" for s
    proof -
      have "files s x = files s0 x" if "x \<noteq> ?M" "x \<notin> fst ` set (backups s)" for x
        using \<open>unlinking s0 ?M ps [] s\<close> that
        by (cases "x \<in> set ps") (auto simp: unlinking_def restorable_def swapping_def)
      then show ?thesis
        using that by (auto simp: unlinking_def restorable_def swapping_def restoring_def rev_map[symmetric])
    qed
    show "spec (unlinking s0 ?M ps ps) (io_then (io_each unlink ps) (io_bind (io_get backups)
        (\<lambda>bs. io_then (io_each restore_file (rev bs)) (restore_manifest stage)))) (\<lambda>_. restored s0) never"
    proof (rule spec_then[OF spec_each[OF spec_unlink_published]], rule spec_bind[where R = "\<lambda>bs. restoring s0 ?M (rev bs)"])
      show "spec (unlinking s0 ?M ps []) (io_get backups) (\<lambda>bs. restoring s0 ?M (rev bs)) never"
        by (rule spec_get) (rule start)
      show "spec (restoring s0 ?M (rev bs)) (io_then (io_each restore_file (rev bs)) (restore_manifest stage)) (\<lambda>_. restored s0) never" for bs
        by (rule spec_then[OF spec_each[OF spec_restore_file] spec_restore_manifest])
    qed
  qed
qed

section \<open>Exchanging the files\<close>

text \<open>The paths of a publication keep clear of the names the temporary directory uses for itself, and none is
  private (the permissions of a private artifact are set after it has been moved).\<close>

definition clear_path :: "path \<Rightarrow> bool" where
  "clear_path x \<longleftrightarrow> hd x \<noteq> ''backups'' \<and> x \<noteq> new_manifest \<and> x \<noteq> old_manifest
     \<and> \<not> endswith (join ''/'' x) private_suffix"

definition exchange :: "pipe_state \<Rightarrow> path \<Rightarrow> string list \<Rightarrow> path list \<Rightarrow> bool" where
  "exchange s0 M old new \<longleftrightarrow>
     (\<forall>raw \<in> set old. safe_relative raw = Inr (path_parts raw) \<and> path_parts raw \<noteq> M)
     \<and> (\<forall>x \<in> set new. clear_path x \<and> x \<noteq> [] \<and> x \<noteq> M \<and> temp s0 x \<noteq> None) \<and> distinct new
     \<and> temp s0 new_manifest \<noteq> None \<and> temp s0 old_manifest = None
     \<and> backups s0 = [] \<and> published s0 = [] \<and> \<not> manifest_backed_up s0 \<and> \<not> manifest_touched s0"

definition before_manifest :: "pipe_state \<Rightarrow> path \<Rightarrow> pipe_state \<Rightarrow> bool" where
  "before_manifest s0 M s \<longleftrightarrow> single s \<and> swapping s0 M s \<and> manifest_kept s0 M s \<and> \<not> manifest_backed_up s
     \<and> (\<forall>y. y \<notin> set (published s) \<longrightarrow> (\<forall>z. y \<noteq> ''backups'' # z) \<longrightarrow> temp s y = temp s0 y)"

definition removing :: "pipe_state \<Rightarrow> path \<Rightarrow> string list \<Rightarrow> string list \<Rightarrow> pipe_state \<Rightarrow> bool" where
  "removing s0 M old todo s \<longleftrightarrow> before_manifest s0 M s \<and> published s = [] \<and> set todo \<subseteq> set old
     \<and> (\<forall>x \<in> fst ` set (backups s). files s x = None \<and> x \<in> path_parts ` set old)
     \<and> (\<forall>raw \<in> set old. raw \<notin> set todo \<longrightarrow> files s (path_parts raw) = None)"

definition replacing :: "pipe_state \<Rightarrow> path \<Rightarrow> string list \<Rightarrow> path list \<Rightarrow> path list \<Rightarrow> pipe_state \<Rightarrow> bool" where
  "replacing s0 M old new todo s \<longleftrightarrow> before_manifest s0 M s \<and> distinct todo \<and> set todo \<subseteq> set new
     \<and> set (published s) = set new - set todo \<and> (\<forall>x \<in> set (published s). files s x = temp s0 x)
     \<and> (\<forall>x \<in> fst ` set (backups s). x \<notin> set (published s) \<longrightarrow> files s x = None \<and> x \<in> path_parts ` set old)
     \<and> (\<forall>raw \<in> set old. path_parts raw \<notin> set (published s) \<longrightarrow> files s (path_parts raw) = None)"

definition on_failure :: "pipe_state \<Rightarrow> path \<Rightarrow> py_exc \<Rightarrow> pipe_state \<Rightarrow> bool" where
  "on_failure s0 M e s \<longleftrightarrow> restorable s0 M s \<and> is_exception e"

lemma failure_before_manifest:
  "before_manifest s0 M s \<Longrightarrow> quiet (s\<lparr>faults := bs\<rparr>) \<Longrightarrow> on_failure s0 M (PyOSError ''OSError'') (s\<lparr>faults := bs\<rparr>)"
  by (simp add: before_manifest_def on_failure_def restorable_def is_exception_def)

text \<open>Backing up a file, before the manifest is touched.\<close>

lemma backed_up_state:
  assumes "before_manifest s0 M s" "files s x \<noteq> None" "x \<noteq> M" "x \<notin> set (published s)" "x \<notin> fst ` set (backups s)"
    and "single (s\<lparr>faults := bs\<rparr>)"
  shows "before_manifest s0 M ((taken x (''backups'' # x) (s\<lparr>faults := bs\<rparr>))\<lparr>backups := backups s @ [(x, ''backups'' # x)]\<rparr>)"
proof -
  let ?t = "(taken x (''backups'' # x) (s\<lparr>faults := bs\<rparr>))\<lparr>backups := backups s @ [(x, ''backups'' # x)]\<rparr>"
  have x: "files s x = files s0 x" using assms by (auto simp: before_manifest_def swapping_def)
  have "temp ?t (snd b) = temp s (snd b)" if "b \<in> set (backups s)" for b
  proof -
    have "snd b = ''backups'' # fst b" using assms(1) that by (auto simp: before_manifest_def swapping_def)
    moreover have "fst b \<noteq> x" using assms(5) that by auto
    ultimately show ?thesis by (simp add: taken_def)
  qed
  then have "swapping s0 M ?t"
    using assms x unfolding before_manifest_def swapping_def by (auto simp: taken_def same_rest_def)
  moreover have "manifest_kept s0 M ?t" "\<not> manifest_backed_up ?t"
    using assms by (auto simp: before_manifest_def manifest_kept_def taken_def)
  moreover have "single ?t" using assms(6) by (simp add: single_def taken_def)
  moreover have "\<forall>y. y \<notin> set (published ?t) \<longrightarrow> (\<forall>z. y \<noteq> ''backups'' # z) \<longrightarrow> temp ?t y = temp s0 y"
    using assms(1) by (auto simp: before_manifest_def taken_def)
  ultimately show ?thesis by (simp add: before_manifest_def)
qed

lemma spec_back_up:
  assumes "\<And>s. P s \<Longrightarrow> before_manifest s0 M s" "x \<noteq> M"
    and "\<And>s. P s \<Longrightarrow> files s x \<noteq> None \<Longrightarrow> x \<notin> set (published s) \<and> x \<notin> fst ` set (backups s)"
    and "\<And>s. P s \<Longrightarrow> files s x = None \<Longrightarrow> Q () s"
    and "\<And>s t. P s \<Longrightarrow> files s x \<noteq> None \<Longrightarrow> before_manifest s0 M t \<Longrightarrow> files t = (files s)(x := None) \<Longrightarrow>
      backups t = backups s @ [(x, ''backups'' # x)] \<Longrightarrow> published t = published s \<Longrightarrow> Q () t"
  shows "spec P (back_up x (''backups'' # x)) Q (on_failure s0 M)"
proof -
  have "spec (\<lambda>s. P s \<and> files s x \<noteq> None) (io_then (move_to_temp x (''backups'' # x))
      (io_modify (\<lambda>s. s\<lparr>backups := backups s @ [(x, ''backups'' # x)]\<rparr>))) Q (on_failure s0 M)"
  proof (rule spec_then[where R = "\<lambda>s. Q () (s\<lparr>backups := backups s @ [(x, ''backups'' # x)]\<rparr>)"], rule spec_move_to_temp, rule spec_os)
    show "P s \<and> files s x \<noteq> None \<Longrightarrow> single s" for s using assms(1)[of s] by (simp add: before_manifest_def)
    fix s bs assume s: "P s \<and> files s x \<noteq> None"
    show "quiet (s\<lparr>faults := bs\<rparr>) \<Longrightarrow> on_failure s0 M (PyOSError ''OSError'') (s\<lparr>faults := bs\<rparr>)"
      using s assms(1) by (intro failure_before_manifest) blast+
    assume one: "single (s\<lparr>faults := bs\<rparr>)"
    let ?t = "taken x (''backups'' # x) (s\<lparr>faults := bs\<rparr>)"
    have t: "?t\<lparr>backups := backups ?t @ [(x, ''backups'' # x)]\<rparr> = ?t\<lparr>backups := backups s @ [(x, ''backups'' # x)]\<rparr>"
      by (simp add: taken_def)
    have "Q () (?t\<lparr>backups := backups s @ [(x, ''backups'' # x)]\<rparr>)"
      using s assms(2,3) one by (intro assms(5)[of s] backed_up_state assms(1)) (auto simp: taken_def)
    then show "files (s\<lparr>faults := bs\<rparr>) x \<noteq> None \<and> Q () (?t\<lparr>backups := backups ?t @ [(x, ''backups'' # x)]\<rparr>)"
      unfolding t using s by simp
  qed (auto intro: spec_modify)
  then show ?thesis using assms(4) by (auto simp: spec_def back_up_def)
qed

lemma spec_remove_old:
  assumes "exchange s0 M old new"
  shows "spec (removing s0 M old (raw # todo)) (remove_old raw) (\<lambda>_. removing s0 M old todo) (on_failure s0 M)"
proof -
  have "spec (\<lambda>s. removing s0 M old (raw # todo) s \<and> raw \<in> set old) (remove_old raw) (\<lambda>_. removing s0 M old todo) (on_failure s0 M)"
  proof (cases "raw \<in> set old")
    case False
    then show ?thesis by (simp add: spec_def)
  next
    case True
    then have raw: "safe_relative raw = Inr (path_parts raw)" "path_parts raw \<noteq> M"
      using assms by (auto simp: exchange_def)
    let ?x = "path_parts raw"
    show ?thesis
      unfolding remove_old_def
    proof (rule spec_bind[where R = "\<lambda>d s. removing s0 M old (raw # todo) s \<and> d = ?x"])
      show "spec (\<lambda>s. removing s0 M old (raw # todo) s \<and> raw \<in> set old) (io_lift (safe_relative raw))
        (\<lambda>d s. removing s0 M old (raw # todo) s \<and> d = ?x) (on_failure s0 M)"
        by (rule spec_lift) (use raw in auto)
      have "spec (removing s0 M old (raw # todo)) (back_up ?x (''backups'' # ?x)) (\<lambda>_. removing s0 M old todo) (on_failure s0 M)"
      proof (rule spec_back_up)
        fix s assume s: "removing s0 M old (raw # todo) s"
        show "files s ?x = None \<Longrightarrow> removing s0 M old todo s" using s by (auto simp: removing_def)
        fix t assume t: "before_manifest s0 M t" "files t = (files s)(?x := None)" "backups t = backups s @ [(?x, ''backups'' # ?x)]"
          "published t = published s"
        show "removing s0 M old todo t" unfolding removing_def t(2-4) using s t(1) True by (auto simp: removing_def)
      qed (use raw(2) in \<open>auto simp: removing_def\<close>)
      then show "spec (\<lambda>s. removing s0 M old (raw # todo) s \<and> d = ?x) (back_up d (''backups'' # ?x))
        (\<lambda>_. removing s0 M old todo) (on_failure s0 M)" for d
        by (auto simp: spec_def)
    qed
  qed
  moreover have "removing s0 M old (raw # todo) s \<Longrightarrow> raw \<in> set old" for s by (simp add: removing_def)
  ultimately show ?thesis by (auto simp: spec_def)
qed

lemma published_state:
  assumes "before_manifest s0 M s" "x \<noteq> M" "x \<notin> set (published s)" "clear_path x" "x \<noteq> []" "files s x = None"
    and "temp s x \<noteq> None" "single (s\<lparr>faults := bs\<rparr>)"
  shows "before_manifest s0 M ((placed x x (s\<lparr>faults := bs\<rparr>))\<lparr>published := published s @ [x]\<rparr>)"
proof -
  let ?t = "(placed x x (s\<lparr>faults := bs\<rparr>))\<lparr>published := published s @ [x]\<rparr>"
  have x: "\<forall>z. x \<noteq> ''backups'' # z" "x \<noteq> old_manifest" using assms(4) by (auto simp: clear_path_def)
  have none: "x \<notin> fst ` set (backups s) \<Longrightarrow> files s0 x = None"
    using assms(1,2,3,6) by (auto simp: before_manifest_def swapping_def)
  have "temp ?t (snd b) = temp s (snd b)" if "b \<in> set (backups s)" for b
  proof -
    have "snd b = ''backups'' # fst b" using assms(1) that by (auto simp: before_manifest_def swapping_def)
    then show ?thesis using x(1) by (auto simp: placed_def)
  qed
  then have "swapping s0 M ?t"
    using assms none unfolding before_manifest_def swapping_def by (auto simp: placed_def same_rest_def)
  moreover have "manifest_kept s0 M ?t" "\<not> manifest_backed_up ?t"
    using assms x by (auto simp: before_manifest_def manifest_kept_def placed_def)
  moreover have "single ?t" using assms(8) by (simp add: single_def placed_def)
  moreover have "\<forall>y. y \<notin> set (published ?t) \<longrightarrow> (\<forall>z. y \<noteq> ''backups'' # z) \<longrightarrow> temp ?t y = temp s0 y"
    using assms(1) by (auto simp: before_manifest_def placed_def)
  ultimately show ?thesis by (simp add: before_manifest_def)
qed

text \<open>The file is backed up but not yet replaced.\<close>

definition halfway :: "pipe_state \<Rightarrow> path \<Rightarrow> string list \<Rightarrow> path list \<Rightarrow> path \<Rightarrow> path list \<Rightarrow> pipe_state \<Rightarrow> bool" where
  "halfway s0 M old new x todo s \<longleftrightarrow> before_manifest s0 M s \<and> distinct (x # todo) \<and> set (x # todo) \<subseteq> set new \<and> files s x = None
     \<and> set (published s) = set new - set (x # todo) \<and> (\<forall>y \<in> set (published s). files s y = temp s0 y)
     \<and> (\<forall>y \<in> fst ` set (backups s). y \<noteq> x \<longrightarrow> y \<notin> set (published s) \<longrightarrow> files s y = None \<and> y \<in> path_parts ` set old)
     \<and> (\<forall>raw \<in> set old. path_parts raw \<notin> set (published s) \<longrightarrow> files s (path_parts raw) = None)"

lemma spec_publish_file:
  assumes "exchange s0 M old new"
  shows "spec (replacing s0 M old new (x # todo)) (publish_file x) (\<lambda>_. replacing s0 M old new todo) (on_failure s0 M)"
proof -
  let ?R = "replacing s0 M old new (x # todo)" and ?H = "halfway s0 M old new x todo"
  have new: "x \<in> set new" if "?R s" for s using that by (simp add: replacing_def)
  have clear: "clear_path x" "x \<noteq> []" "x \<noteq> M" "temp s0 x \<noteq> None" if "x \<in> set new"
    using assms that by (auto simp: exchange_def)
  have one: "spec ?R (back_up x (''backups'' # x)) (\<lambda>_. ?H) (on_failure s0 M)" if "x \<in> set new"
  proof (rule spec_back_up)
    show "x \<noteq> M" using clear[OF that] by simp
    fix s assume s: "?R s"
    show "before_manifest s0 M s" using s by (simp add: replacing_def)
    show "files s x = None \<Longrightarrow> ?H s" using s by (auto simp: replacing_def halfway_def)
    show "files s x \<noteq> None \<Longrightarrow> x \<notin> set (published s) \<and> x \<notin> fst ` set (backups s)" using s by (auto simp: replacing_def)
    fix t assume t: "before_manifest s0 M t" "files t = (files s)(x := None)" "backups t = backups s @ [(x, ''backups'' # x)]"
      "published t = published s"
    show "?H t" unfolding halfway_def t(2-4) using s t(1) by (auto simp: replacing_def)
  qed
  have two: "spec ?H (move_from_temp x x) (\<lambda>_ s. replacing s0 M old new todo (s\<lparr>published := published s @ [x]\<rparr>)) (on_failure s0 M)"
    if "x \<in> set new"
  proof (rule spec_move_from_temp, rule spec_os)
    show "?H s \<Longrightarrow> single s" for s by (simp add: halfway_def before_manifest_def)
    fix s bs assume s: "?H s"
    then show "quiet (s\<lparr>faults := bs\<rparr>) \<Longrightarrow> on_failure s0 M (PyOSError ''OSError'') (s\<lparr>faults := bs\<rparr>)"
      by (intro failure_before_manifest) (auto simp: halfway_def)
    assume bs: "single (s\<lparr>faults := bs\<rparr>)"
    have x: "x \<notin> set (published s)" "before_manifest s0 M s" "files s x = None" using s by (auto simp: halfway_def)
    have "\<forall>z. x \<noteq> ''backups'' # z" using clear(1)[OF that] by (auto simp: clear_path_def)
    then have staged: "temp s x = temp s0 x" using x by (auto simp: before_manifest_def)
    let ?t = "placed x x (s\<lparr>faults := bs\<rparr>)"
    have "before_manifest s0 M (?t\<lparr>published := published s @ [x]\<rparr>)"
      using x bs clear[OF that] staged by (intro published_state) auto
    moreover have "files ?t = (files s)(x := temp s0 x)" "backups ?t = backups s" "published ?t = published s"
      using staged by (simp_all add: placed_def)
    moreover have "set (published s @ [x]) = set new - set todo" using s that by (auto simp: halfway_def)
    ultimately have "replacing s0 M old new todo (?t\<lparr>published := published ?t @ [x]\<rparr>)"
      unfolding replacing_def using s by (auto simp: halfway_def)
    then show "temp (s\<lparr>faults := bs\<rparr>) x \<noteq> None \<and> replacing s0 M old new todo (?t\<lparr>published := published ?t @ [x]\<rparr>)"
      using staged clear(4)[OF that] by simp
  qed
  have "spec (\<lambda>s. ?R s \<and> x \<in> set new) (publish_file x) (\<lambda>_. replacing s0 M old new todo) (on_failure s0 M)"
  proof (cases "x \<in> set new")
    case True
    have plain: "\<not> endswith (join ''/'' x) private_suffix" using clear(1)[OF True] by (simp add: clear_path_def)
    show ?thesis
      unfolding publish_file_def if_not_P[OF plain]
      by (rule spec_then, rule spec_weaken[OF one[OF True]], simp, assumption, assumption,
          rule spec_then[OF two[OF True]], rule spec_then, rule spec_return, assumption, rule spec_modify, assumption)
  qed (simp add: spec_def)
  then show ?thesis using new by (auto simp: spec_def)
qed

text \<open>After a successful exchange.\<close>

definition exchanged :: "pipe_state \<Rightarrow> path \<Rightarrow> string list \<Rightarrow> path list \<Rightarrow> pipe_state \<Rightarrow> bool" where
  "exchanged s0 M old new s \<longleftrightarrow> same_rest s0 s \<and> files s =
     (\<lambda>x. if x = M then temp s0 new_manifest else if x \<in> set new then temp s0 x
          else if x \<in> path_parts ` set old then None else files s0 x)"

lemma replacing_files:
  assumes "replacing s0 M old new [] s" "x \<noteq> M"
  shows "files s x = (if x \<in> set new then temp s0 x else if x \<in> path_parts ` set old then None else files s0 x)"
proof -
  have P: "set (published s) = set new" using assms by (simp add: replacing_def)
  consider "x \<in> set new" | "x \<notin> set new" "x \<in> path_parts ` set old" | "x \<notin> set new" "x \<notin> path_parts ` set old" by blast
  then show ?thesis
  proof cases
    case 3
    then have "x \<notin> fst ` set (backups s)" using assms(1) P by (auto simp: replacing_def)
    then show ?thesis using 3 assms P by (auto simp: replacing_def before_manifest_def swapping_def)
  qed (use assms P in \<open>auto simp: replacing_def\<close>)
qed

lemma spec_publish_manifest:
  assumes "exchange s0 (manifest_path stage) old new"
  shows "spec (replacing s0 (manifest_path stage) old new []) (publish_manifest stage)
    (\<lambda>_. exchanged s0 (manifest_path stage) old new) (on_failure s0 (manifest_path stage))"
proof -
  let ?M = "manifest_path stage"
  define A where "A s \<longleftrightarrow> single s \<and> swapping s0 ?M s \<and> temp s new_manifest = temp s0 new_manifest
    \<and> (\<forall>x. x \<noteq> ?M \<longrightarrow> files s x = (if x \<in> set new then temp s0 x else if x \<in> path_parts ` set old then None else files s0 x))" for s
  have A: "A s" "manifest_kept s0 ?M s" "\<not> manifest_backed_up s" if "replacing s0 ?M old new [] s" for s
  proof -
    have "new_manifest \<notin> set (published s)" "\<forall>z. new_manifest \<noteq> ''backups'' # z"
      using that assms by (auto simp: replacing_def exchange_def clear_path_def)
    then have "temp s new_manifest = temp s0 new_manifest" using that by (auto simp: replacing_def before_manifest_def)
    then show "A s" using that replacing_files[OF that] by (simp add: A_def replacing_def before_manifest_def)
    show "manifest_kept s0 ?M s" "\<not> manifest_backed_up s" using that by (simp_all add: replacing_def before_manifest_def)
  qed
  have frame: "swapping s0 ?M (s\<lparr>manifest_touched := a\<rparr>) = swapping s0 ?M s" "swapping s0 ?M (s\<lparr>manifest_backed_up := a\<rparr>) = swapping s0 ?M s"
    for s a by (simp_all add: swapping_def same_rest_def)
  have moved: "swapping s0 ?M (taken ?M old_manifest s)" if "swapping s0 ?M s" for s
    using that by (auto simp: swapping_def taken_def same_rest_def)
  have put_in: "swapping s0 ?M (placed new_manifest ?M s)" if "swapping s0 ?M s" for s
    using that by (auto simp: swapping_def placed_def same_rest_def)
  let ?B = "\<lambda>s. A s \<and> (manifest_moved s0 ?M (s\<lparr>manifest_touched := True\<rparr>))"
  have one: "spec (\<lambda>s. replacing s0 ?M old new [] s \<and> files s ?M \<noteq> None) (io_then (io_modify (\<lambda>s. s\<lparr>manifest_backed_up := True\<rparr>))
         (io_then (move_to_temp ?M old_manifest) (io_modify (\<lambda>s. s\<lparr>manifest_touched := True\<rparr>)))) (\<lambda>_. ?B) (on_failure s0 ?M)"
  proof (rule spec_then[where R = "\<lambda>s. A s \<and> manifest_kept s0 ?M s \<and> manifest_backed_up s \<and> files s ?M \<noteq> None"],
      rule spec_modify)
    show "A (s\<lparr>manifest_backed_up := True\<rparr>) \<and> manifest_kept s0 ?M (s\<lparr>manifest_backed_up := True\<rparr>)
        \<and> manifest_backed_up (s\<lparr>manifest_backed_up := True\<rparr>) \<and> files (s\<lparr>manifest_backed_up := True\<rparr>) ?M \<noteq> None"
      if "replacing s0 ?M old new [] s \<and> files s ?M \<noteq> None" for s
      using A[of s] that by (simp add: A_def frame manifest_kept_def single_def)
    show "spec (\<lambda>s. A s \<and> manifest_kept s0 ?M s \<and> manifest_backed_up s \<and> files s ?M \<noteq> None)
      (io_then (move_to_temp ?M old_manifest) (io_modify (\<lambda>s. s\<lparr>manifest_touched := True\<rparr>))) (\<lambda>_. ?B) (on_failure s0 ?M)"
    proof (rule spec_then[where R = ?B], rule spec_move_to_temp, rule spec_os)
      fix s bs assume s: "A s \<and> manifest_kept s0 ?M s \<and> manifest_backed_up s \<and> files s ?M \<noteq> None"
      then show "single s" by (simp add: A_def)
      show "quiet (s\<lparr>faults := bs\<rparr>) \<Longrightarrow> on_failure s0 ?M (PyOSError ''OSError'') (s\<lparr>faults := bs\<rparr>)"
        using s by (simp add: on_failure_def restorable_def A_def is_exception_def)
      show "single (s\<lparr>faults := bs\<rparr>) \<Longrightarrow> files (s\<lparr>faults := bs\<rparr>) ?M \<noteq> None \<and> ?B (taken ?M old_manifest (s\<lparr>faults := bs\<rparr>))"
      proof -
        assume bs: "single (s\<lparr>faults := bs\<rparr>)"
        have "files s0 ?M \<noteq> None" using s unfolding manifest_kept_def by metis
        then show ?thesis
          using s bs moved[of "s\<lparr>faults := bs\<rparr>"] by (simp add: A_def manifest_moved_def manifest_kept_def taken_def single_def)
      qed
    next
      show "spec ?B (io_modify (\<lambda>s. s\<lparr>manifest_touched := True\<rparr>)) (\<lambda>_. ?B) (on_failure s0 ?M)"
        by (rule spec_modify) (simp add: A_def frame single_def)
    qed
  qed
  have two: "spec (replacing s0 ?M old new []) (\<lambda>s. if files s ?M = None then (Inr (), s)
       else io_then (io_modify (\<lambda>s. s\<lparr>manifest_backed_up := True\<rparr>))
         (io_then (move_to_temp ?M old_manifest) (io_modify (\<lambda>s. s\<lparr>manifest_touched := True\<rparr>))) s) (\<lambda>_. ?B) (on_failure s0 ?M)"
  proof (rule spec_branch)
    show "spec (\<lambda>s. replacing s0 ?M old new [] s \<and> files s ?M = None) (\<lambda>s. (Inr (), s)) (\<lambda>_. ?B) (on_failure s0 ?M)"
    proof -
      have "?B s" if s: "replacing s0 ?M old new [] s" "files s ?M = None" for s
      proof -
        have "files s0 ?M = None" using A(2)[OF s(1)] s(2) by (simp add: manifest_kept_def)
        then show ?thesis using A(1,3)[OF s(1)] by (simp add: manifest_moved_def)
      qed
      then show ?thesis by (simp add: spec_def)
    qed
  qed (rule one)
  let ?C = "\<lambda>s. A s \<and> manifest_moved s0 ?M s"
  have three: "spec ?C (move_from_temp new_manifest ?M)
      (\<lambda>_ s. single s \<and> swapping s0 ?M s \<and> manifest_moved s0 ?M s \<and> exchanged s0 ?M old new s) (on_failure s0 ?M)"
  proof (rule spec_move_from_temp, rule spec_os)
    fix s bs assume s: "?C s"
    then show "single s" by (simp add: A_def)
    show "quiet (s\<lparr>faults := bs\<rparr>) \<Longrightarrow> on_failure s0 ?M (PyOSError ''OSError'') (s\<lparr>faults := bs\<rparr>)"
      using s by (simp add: on_failure_def restorable_def A_def is_exception_def)
    assume bs: "single (s\<lparr>faults := bs\<rparr>)"
    let ?t = "placed new_manifest ?M (s\<lparr>faults := bs\<rparr>)"
    have "swapping s0 ?M ?t" using s by (intro put_in) (simp add: A_def)
    moreover have "manifest_moved s0 ?M ?t" using s by (auto simp: manifest_moved_def placed_def split: if_splits)
    moreover have "exchanged s0 ?M old new ?t"
      using s by (auto simp: exchanged_def A_def placed_def swapping_def same_rest_def)
    moreover have "temp s new_manifest \<noteq> None" using s assms by (simp add: A_def exchange_def)
    ultimately show "temp (s\<lparr>faults := bs\<rparr>) new_manifest \<noteq> None \<and> single ?t \<and> swapping s0 ?M ?t \<and> manifest_moved s0 ?M ?t
        \<and> exchanged s0 ?M old new ?t" using bs by simp
  qed
  have four: "spec (\<lambda>s. single s \<and> swapping s0 ?M s \<and> manifest_moved s0 ?M s \<and> exchanged s0 ?M old new s) os_step
      (\<lambda>_. exchanged s0 ?M old new) (on_failure s0 ?M)"
    by (rule spec_os) (auto simp: on_failure_def restorable_def is_exception_def exchanged_def)
  show ?thesis
    unfolding publish_manifest_def
    by (rule spec_then[OF two], rule spec_then[where R = ?C], rule spec_modify, simp add: A_def frame single_def,
        rule spec_then[OF three four])
qed

text \<open>The exchange either succeeds or restores every file.\<close>

lemma spec_swap_files:
  assumes "exchange s0 (manifest_path stage) old new" "single s0"
  shows "spec (\<lambda>s. s = s0) (swap_files stage old new) (\<lambda>_. exchanged s0 (manifest_path stage) old new) (\<lambda>_. restored s0)"
proof -
  let ?M = "manifest_path stage"
  have start: "removing s0 ?M old old s0"
    using assms by (auto simp: removing_def before_manifest_def swapping_def same_rest_def manifest_kept_def exchange_def)
  have between: "replacing s0 ?M old new new s" if "removing s0 ?M old [] s" for s
    using that assms(1) by (auto simp: removing_def replacing_def exchange_def)
  have body: "spec (\<lambda>s. s = s0) (io_then (io_each remove_old old) (io_then (io_each publish_file new) (publish_manifest stage)))
      (\<lambda>_. exchanged s0 ?M old new) (on_failure s0 ?M)"
  proof (rule spec_weaken[where P = "removing s0 ?M old old"])
    show "spec (removing s0 ?M old old) (io_then (io_each remove_old old) (io_then (io_each publish_file new) (publish_manifest stage)))
        (\<lambda>_. exchanged s0 ?M old new) (on_failure s0 ?M)"
    proof (rule spec_then[OF spec_each[OF spec_remove_old[OF assms(1)]]])
      have "spec (replacing s0 ?M old new new) (io_then (io_each publish_file new) (publish_manifest stage))
          (\<lambda>_. exchanged s0 ?M old new) (on_failure s0 ?M)"
        by (rule spec_then[OF spec_each[OF spec_publish_file[OF assms(1)]] spec_publish_manifest[OF assms(1)]])
      then show "spec (removing s0 ?M old []) (io_then (io_each publish_file new) (publish_manifest stage))
          (\<lambda>_. exchanged s0 ?M old new) (on_failure s0 ?M)"
        by (rule spec_weaken) (use between in auto)
    qed
  qed (use start in auto)
  have handler: "spec (on_failure s0 ?M e) (if is_exception e then io_then (roll_back stage) (io_raise e) else io_raise e)
      (\<lambda>_. exchanged s0 ?M old new) (\<lambda>_. restored s0)" for e
  proof (cases "is_exception e")
    case True
    have undone: "spec (on_failure s0 ?M e) (roll_back stage) (\<lambda>_. restored s0) (\<lambda>_. restored s0)"
      by (rule spec_weaken[OF spec_roll_back[of s0 stage]]) (auto simp: on_failure_def never_def)
    show ?thesis unfolding if_P[OF True] by (rule spec_then[OF undone]) (auto intro: spec_raise)
  qed (auto simp: on_failure_def spec_def)
  show ?thesis unfolding swap_files_def by (rule spec_catch[OF body handler])
qed

end
