(* ===== verification/PublishLaws.thy ===== *)
theory PublishLaws
  imports Exchange EntryLaws
begin

text \<open>
  The publication of a stage (\<open>Pipeline._publish\<close>): its artifacts are staged, then exchanged for the old ones.
  It succeeds as a whole or leaves every file as it was.
\<close>

section \<open>Staging\<close>

lemma safe_relative_Inr:
  assumes "safe_relative raw = Inr q"
  shows "q = path_parts raw" "q \<noteq> []" "q \<noteq> run_path" "hd q \<noteq> ''.stage-manifests''" "hd q \<noteq> ''.pipeline.lock''"
    "''..'' \<notin> set q" "q \<noteq> manifest_path stage"
  using assms by (auto simp: safe_relative_def Let_def manifest_path_def split: if_splits)

definition artifact_data :: "payload \<Rightarrow> string" where
  "artifact_data payload = (case encode_payload payload of Inr (data, _) \<Rightarrow> data | Inl _ \<Rightarrow> [])"

definition artifact_record :: "pipeline \<Rightarrow> path \<times> payload \<Rightarrow> json" where
  "artifact_record p a = (case encode_payload (snd a) of
     Inr (data, n) \<Rightarrow> JObj [(''path'', JStr (join ''/'' (fst a))), (''sha256'', JStr (sha256_hex data)),
       (''record_count'', JInt n), (''byte_count'', JInt (int (length data))), (''schema_version'', JStr (schema_version p))]
   | Inl _ \<Rightarrow> JNull)"

definition staging :: "pipe_state \<Rightarrow> (path \<times> payload) list \<Rightarrow> pipe_state \<Rightarrow> bool" where
  "staging s0 done s \<longleftrightarrow> same_rest s0 s \<and> files s = files s0 \<and> single s \<and> backups s = [] \<and> published s = []
     \<and> \<not> manifest_backed_up s \<and> \<not> manifest_touched s
     \<and> (\<forall>a \<in> set done. temp s (fst a) = Some (Bytes (artifact_data (snd a)))) \<and> (\<forall>x. x \<notin> fst ` set done \<longrightarrow> temp s x = None)"

lemma spec_write_temp:
  assumes "\<And>s. P s \<Longrightarrow> single s" "\<And>s bs. P s \<Longrightarrow> E (PyOSError ''OSError'') (s\<lparr>faults := bs\<rparr>)"
    and "\<And>s bs. P s \<Longrightarrow> single (s\<lparr>faults := bs\<rparr>) \<Longrightarrow> Q () (s\<lparr>faults := bs, temp := (temp s)(q \<mapsto> c)\<rparr>)"
  shows "spec P (write_temp q c) Q E"
  unfolding write_temp_def
  by (rule spec_then[where R = "\<lambda>s. Q () (s\<lparr>temp := (temp s)(q \<mapsto> c)\<rparr>)"], rule spec_os)
    (use assms in \<open>auto intro: spec_modify\<close>)

lemma staging_restored: "staging s0 done s \<Longrightarrow> restored s0 (s\<lparr>faults := bs\<rparr>)"
  by (simp add: staging_def restored_def)

lemma spec_stage_artifact:
  assumes "distinct (map fst (done @ [a]))"
  shows "spec (staging s0 done) (stage_artifact p a) (\<lambda>w s. staging s0 (done @ [a]) s \<and> w = (fst a, artifact_record p a)
    \<and> is_ok (encode_payload (snd a))) (\<lambda>_. restored s0)"
proof -
  obtain r payload where a: "a = (r, payload)" by (cases a)
  show ?thesis
  proof (cases "encode_payload payload")
    case (Inl e)
    then show ?thesis
      by (auto simp: spec_def stage_artifact_def a io_bind_def io_lift_def staging_def restored_def)
  next
    case (Inr dc)
    obtain data n where dc: "encode_payload payload = Inr (data, n)" using Inr by (cases dc) auto
    have staged: "spec (staging s0 done) (write_temp r (Bytes data)) (\<lambda>_. staging s0 (done @ [a])) (\<lambda>_. restored s0)"
    proof (rule spec_write_temp)
      show "staging s0 done s \<Longrightarrow> single s" "staging s0 done s \<Longrightarrow> restored s0 (s\<lparr>faults := bs\<rparr>)" for s bs
        by (simp_all add: staging_restored) (simp add: staging_def)
      fix s bs assume s: "staging s0 done s" "single (s\<lparr>faults := bs\<rparr>)"
      have "\<forall>b \<in> set done. fst b \<noteq> r" using assms by (auto simp: a)
      then show "staging s0 (done @ [a]) (s\<lparr>faults := bs, temp := (temp s)(r \<mapsto> Bytes data)\<rparr>)"
        using s by (auto simp: staging_def a artifact_data_def dc same_rest_def single_def)
    qed
    have read: "spec (staging s0 (done @ [a])) (io_bind (io_get (\<lambda>s. case temp s r of None \<Rightarrow> [] | Some c \<Rightarrow> content_bytes c))
        (\<lambda>staged. if sha256_hex staged \<noteq> sha256_hex data \<or> record_count staged \<noteq> n
           then io_raise (AnalyzerError ''ARTIFACT_VALIDATION_FAILED'' ''Staged artifact validation failed.''
             [(''path'', JStr (join ''/'' r))])
           else io_return (r, JObj [(''path'', JStr (join ''/'' r)), (''sha256'', JStr (sha256_hex staged)),
             (''record_count'', JInt n), (''byte_count'', JInt (int (length data))),
             (''schema_version'', JStr (schema_version p))])))
        (\<lambda>w s. staging s0 (done @ [a]) s \<and> w = (fst a, artifact_record p a) \<and> is_ok (encode_payload (snd a))) (\<lambda>_. restored s0)"
    proof (rule spec_bind[where R = "\<lambda>staged s. staging s0 (done @ [a]) s \<and> staged = data"])
      show "spec (staging s0 (done @ [a])) (io_get (\<lambda>s. case temp s r of None \<Rightarrow> [] | Some c \<Rightarrow> content_bytes c))
          (\<lambda>staged s. staging s0 (done @ [a]) s \<and> staged = data) (\<lambda>_. restored s0)"
        by (rule spec_get) (simp add: staging_def a artifact_data_def dc content_bytes_def)
    qed (auto simp: spec_def io_raise_def io_return_def a artifact_record_def dc staging_def restored_def)
    show ?thesis
      unfolding stage_artifact_def a prod.case dc bind_lift_Inr
      by (rule spec_then[OF staged[unfolded a] read[unfolded a]])
  qed
qed

lemma spec_stage_all:
  assumes "distinct (map fst (done @ as))"
  shows "spec (staging s0 done) (io_map (stage_artifact p) as)
    (\<lambda>ws s. staging s0 (done @ as) s \<and> ws = map (\<lambda>a. (fst a, artifact_record p a)) as
      \<and> (\<forall>a \<in> set as. is_ok (encode_payload (snd a)))) (\<lambda>_. restored s0)"
  using assms
proof (induction as arbitrary: "done")
  case Nil
  then show ?case by (auto intro: spec_return)
next
  case (Cons a as)
  have d: "distinct (map fst (done @ [a]))" "distinct (map fst ((done @ [a]) @ as))" using Cons.prems by auto
  show ?case unfolding io_map.simps
  proof (rule spec_bind[OF spec_stage_artifact[OF d(1)]], rule spec_bind)
    fix w
    show "spec (\<lambda>s. staging s0 (done @ [a]) s \<and> w = (fst a, artifact_record p a) \<and> is_ok (encode_payload (snd a)))
      (io_map (stage_artifact p) as) (\<lambda>ws s. staging s0 (done @ a # as) s \<and> w = (fst a, artifact_record p a)
        \<and> is_ok (encode_payload (snd a)) \<and> ws = map (\<lambda>a. (fst a, artifact_record p a)) as
        \<and> (\<forall>a \<in> set as. is_ok (encode_payload (snd a)))) (\<lambda>_. restored s0)"
      by (rule spec_weaken[OF spec_frame[OF Cons.IH[OF d(2)], where c = "w = (fst a, artifact_record p a) \<and> is_ok (encode_payload (snd a))"]])
        auto
  qed (auto intro: spec_return)
qed

section \<open>A publication\<close>

text \<open>What a publication promises: the artifacts by path, the manifest that lists them, and the files after it.\<close>

definition sorted_artifacts :: "stage_output \<Rightarrow> (path \<times> payload) list" where
  "sorted_artifacts out =
     sort_key (\<lambda>(r, _). join ''/'' r) (map (\<lambda>(raw, payload). (path_parts raw, payload)) (so_artifacts out))"

definition new_stage_manifest :: "pipeline \<Rightarrow> string \<Rightarrow> json \<Rightarrow> stage_output \<Rightarrow> int \<Rightarrow> int \<Rightarrow> json" where
  "new_stage_manifest p stage fingerprint out started_at ended_at =
     stage_manifest p stage fingerprint (map (artifact_record p) (sorted_artifacts out)) (so_metadata out) started_at ended_at"

definition files_after :: "pipe_state \<Rightarrow> string \<Rightarrow> stage_output \<Rightarrow> json \<Rightarrow> path \<rightharpoonup> content" where
  "files_after s stage out manifest x =
     (if x = manifest_path stage then Some (Json manifest)
      else case map_of (sorted_artifacts out) x of
          Some payload \<Rightarrow> Some (Bytes (artifact_data payload))
        | None \<Rightarrow> if x \<in> path_parts ` set (old_paths (prior s stage)) then None else files s x)"

lemma files_after_cong:
  "files s = files t \<Longrightarrow> prior s = prior t \<Longrightarrow> files_after s stage out manifest = files_after t stage out manifest"
  by (rule ext) (simp add: files_after_def split: option.splits)

definition prior_ok :: "pipe_state \<Rightarrow> string \<Rightarrow> bool" where
  "prior_ok s stage \<longleftrightarrow> (case prior s stage of None \<Rightarrow> True | Some v \<Rightarrow> prior_valid stage v)"

definition clear_output :: "stage_output \<Rightarrow> bool" where
  "clear_output out \<longleftrightarrow> list_all (\<lambda>a. clear_path (path_parts (fst a))) (so_artifacts out)"

definition well_formed_output :: "stage_output \<Rightarrow> bool" where
  "well_formed_output out \<longleftrightarrow> so_artifacts out \<noteq> [] \<and> distinct (map (path_parts \<circ> fst) (so_artifacts out))
     \<and> list_all (\<lambda>(raw, payload). is_ok (safe_relative raw) \<and> is_ok (encode_payload payload)) (so_artifacts out)"

lemma spec_normalize:
  "spec (\<lambda>s. s = s0) (normalize_artifacts seen as) (\<lambda>ns s. s = s0 \<and> ns = map (\<lambda>(raw, payload). (path_parts raw, payload)) as
     \<and> distinct (map fst ns) \<and> (\<forall>a \<in> set as. is_ok (safe_relative (fst a))) \<and> (\<forall>n \<in> set ns. join ''/'' (fst n) \<notin> set seen))
     (\<lambda>_ s. s = s0)"
proof (induction as arbitrary: seen)
  case Nil
  then show ?case by (auto intro: spec_return)
next
  case (Cons a as)
  obtain raw payload where a: "a = (raw, payload)" by (cases a)
  show ?case
  proof (cases "safe_relative raw")
    case (Inl e)
    then show ?thesis by (simp add: spec_def a io_bind_def io_lift_def)
  next
    case (Inr q)
    have q: "q = path_parts raw" by (rule safe_relative_Inr(1)[OF Inr])
    let ?key = "join ''/'' q"
    show ?thesis
    proof (cases "?key \<in> set seen")
      case True
      then show ?thesis by (simp add: spec_def a Inr bind_lift_Inr io_raise_def)
    next
      case False
      have "spec (\<lambda>s. s = s0) (io_then (assert_no_symlink q) (io_bind (normalize_artifacts (?key # seen) as)
          (\<lambda>rest. io_return ((q, payload) # rest)))) (\<lambda>ns s. s = s0 \<and> ns = map (\<lambda>(raw, payload). (path_parts raw, payload)) (a # as)
           \<and> distinct (map fst ns) \<and> (\<forall>a \<in> set (a # as). is_ok (safe_relative (fst a))) \<and> (\<forall>n \<in> set ns. join ''/'' (fst n) \<notin> set seen))
          (\<lambda>_ s. s = s0)"
      proof (rule spec_then[where R = "\<lambda>s. s = s0"])
        show "spec (\<lambda>s. s = s0) (assert_no_symlink q) (\<lambda>_ s. s = s0) (\<lambda>_ s. s = s0)"
          by (simp add: spec_def assert_no_symlink_def split: sum.splits)
      qed (rule spec_bind[OF Cons.IH], rule spec_return, use False q Inr in \<open>auto simp: a\<close>)
      then show ?thesis using False by (simp add: a Inr bind_lift_Inr)
    qed
  qed
qed

text \<open>Everything is staged and nothing is exchanged yet.\<close>

definition prepared :: "pipe_state \<Rightarrow> (path \<times> payload) list \<Rightarrow> json \<Rightarrow> pipe_state \<Rightarrow> bool" where
  "prepared s0 as manifest s \<longleftrightarrow> same_rest s0 s \<and> files s = files s0 \<and> single s \<and> backups s = [] \<and> published s = []
     \<and> \<not> manifest_backed_up s \<and> \<not> manifest_touched s \<and> temp s new_manifest = Some (Json manifest) \<and> temp s old_manifest = None
     \<and> (\<forall>a \<in> set as. temp s (fst a) = Some (Bytes (artifact_data (snd a))))"

lemma prepared_restored: "prepared s0 as manifest s \<Longrightarrow> restored s s' \<Longrightarrow> restored s0 s'"
  by (auto simp: prepared_def restored_def same_rest_def)

lemma old_paths_safe:
  assumes "prior_ok s stage" "raw \<in> set (old_paths (prior s stage))"
  shows "safe_relative raw = Inr (path_parts raw)"
proof -
  obtain v as a where v: "prior s stage = Some v" "get v ''artifacts'' = JArr as" "a \<in> set as" "raw = str_of (get a ''path'')"
    using assms(2) by (auto simp: old_paths_def split: option.splits json.splits) (metis)
  have "is_ok (safe_relative raw)" using assms(1) v by (auto simp: prior_ok_def prior_valid_def list_all_iff)
  then obtain q where "safe_relative raw = Inr q" by (auto simp: is_ok_def split: sum.splits)
  then show ?thesis using safe_relative_Inr(1) by blast
qed

lemma prepared_exchange:
  assumes "prepared s0 as manifest s" "prior_ok s0 stage" "\<forall>a \<in> set as. clear_path (fst a) \<and> fst a \<noteq> [] \<and> fst a \<noteq> manifest_path stage"
    "distinct (map fst as)" "set old \<subseteq> set (old_paths (prior s0 stage))"
  shows "exchange s (manifest_path stage) old (map fst as)"
proof -
  have "safe_relative raw = Inr (path_parts raw) \<and> path_parts raw \<noteq> manifest_path stage" if "raw \<in> set old" for raw
    using old_paths_safe[OF assms(2)] safe_relative_Inr(7)[of raw] that assms(5) by blast
  then show ?thesis using assms(1,3,4) unfolding exchange_def prepared_def by auto
qed

lemma exchanged_files:
  assumes "prepared s0 (sorted_artifacts out) manifest s" "distinct (map fst (sorted_artifacts out))"
    and "exchanged s (manifest_path stage) (usort (filter (\<lambda>x. x \<notin> (join ''/'' \<circ> fst) ` set (sorted_artifacts out))
      (old_paths (prior s0 stage)))) (map fst (sorted_artifacts out)) s'"
    and "\<forall>a \<in> set (sorted_artifacts out). path_parts (join ''/'' (fst a)) = fst a"
  shows "files s' = files_after s0 stage out manifest"
proof
  fix x
  let ?as = "sorted_artifacts out"
  let ?old = "filter (\<lambda>x. x \<notin> (join ''/'' \<circ> fst) ` set ?as) (old_paths (prior s0 stage))"
  have s': "files s' x = (if x = manifest_path stage then Some (Json manifest) else if x \<in> fst ` set ?as then temp s x
      else if x \<in> path_parts ` set ?old then None else files s0 x)"
    using assms(1,3) by (simp add: exchanged_def prepared_def)
  show "files s' x = files_after s0 stage out manifest x"
  proof (cases "map_of ?as x")
    case (Some payload)
    then have "(x, payload) \<in> set ?as" by (rule map_of_SomeD)
    then have "x \<in> fst ` set ?as" "temp s x = Some (Bytes (artifact_data payload))"
      using assms(1) by (force simp: prepared_def)+
    then show ?thesis using Some s' by (simp add: files_after_def)
  next
    case None
    then have new: "x \<notin> fst ` set ?as" by (simp add: map_of_eq_None_iff)
    have "x \<in> path_parts ` set ?old \<longleftrightarrow> x \<in> path_parts ` set (old_paths (prior s0 stage))"
      using new assms(4) by force
    then show ?thesis using None new s' by (simp add: files_after_def)
  qed
qed

definition accepted :: "stage_output \<Rightarrow> bool" where
  "accepted out \<longleftrightarrow> distinct (map (path_parts \<circ> fst) (so_artifacts out))
     \<and> (\<forall>a \<in> set (so_artifacts out). is_ok (safe_relative (fst a)))"

lemma sorted_artifacts_props:
  assumes "accepted out" "clear_output out"
  shows "distinct (map fst (sorted_artifacts out))"
    "\<forall>a \<in> set (sorted_artifacts out). clear_path (fst a) \<and> fst a \<noteq> [] \<and> fst a \<noteq> manifest_path stage"
    "\<forall>a \<in> set (sorted_artifacts out). path_parts (join ''/'' (fst a)) = fst a"
proof -
  have set: "set (sorted_artifacts out) = (\<lambda>(raw, payload). (path_parts raw, payload)) ` set (so_artifacts out)"
    by (simp add: sorted_artifacts_def)
  have m: "mset (map fst (sorted_artifacts out)) = mset (map (path_parts \<circ> fst) (so_artifacts out))"
    by (simp add: sorted_artifacts_def) (simp add: multiset.map_comp comp_def case_prod_beta)
  show "distinct (map fst (sorted_artifacts out))"
    using assms(1) mset_eq_imp_distinct_iff[OF m] by (simp add: accepted_def)
  show "\<forall>a \<in> set (sorted_artifacts out). path_parts (join ''/'' (fst a)) = fst a"
    by (auto simp: set path_parts_join)
  have "path_parts raw \<noteq> [] \<and> path_parts raw \<noteq> manifest_path stage" if a: "(raw, payload) \<in> set (so_artifacts out)" for raw payload
  proof -
    have "is_ok (safe_relative (fst (raw, payload)))" using assms(1) a unfolding accepted_def by blast
    then obtain q where q: "safe_relative raw = Inr q" by (auto simp: is_ok_def split: sum.splits)
    show ?thesis using safe_relative_Inr(1,2)[OF q] safe_relative_Inr(7)[OF q, of stage] by simp
  qed
  then show "\<forall>a \<in> set (sorted_artifacts out). clear_path (fst a) \<and> fst a \<noteq> [] \<and> fst a \<noteq> manifest_path stage"
    using assms(2) by (auto simp: set clear_output_def list_all_iff)
qed

definition done_publishing :: "pipeline \<Rightarrow> string \<Rightarrow> json \<Rightarrow> stage_output \<Rightarrow> int \<Rightarrow> int \<Rightarrow> pipe_state \<Rightarrow> pipe_state \<Rightarrow> bool" where
  "done_publishing p stage fingerprint out started_at ended_at s0 s \<longleftrightarrow>
     (let manifest = new_stage_manifest p stage fingerprint out started_at ended_at in
      files s = files_after s0 stage out manifest \<and> run_doc s = set_stage stage manifest (run_doc s0)
      \<and> prior s = (prior s0)(stage \<mapsto> manifest) \<and> links s = links s0 \<and> clock s = clock s0)"

lemma spec_publish_body:
  assumes "single s0" "prior_ok s0 stage" "clear_output out" "accepted out"
    and "temp s0 = Map.empty" "backups s0 = []" "published s0 = []" "\<not> manifest_backed_up s0" "\<not> manifest_touched s0"
  shows "spec (\<lambda>s. s = s0) (publish_body p stage fingerprint (so_metadata out) started_at ended_at
      (map (\<lambda>(raw, payload). (path_parts raw, payload)) (so_artifacts out)))
    (\<lambda>_ s. done_publishing p stage fingerprint out started_at ended_at s0 s
      \<and> (\<forall>a \<in> set (so_artifacts out). is_ok (encode_payload (snd a)))) (\<lambda>_. restored s0)"
proof -
  let ?as = "sorted_artifacts out"
  let ?ws = "map (\<lambda>a. (fst a, artifact_record p a)) ?as"
  let ?m = "new_stage_manifest p stage fingerprint out started_at ended_at"
  let ?ok = "\<forall>a \<in> set ?as. is_ok (encode_payload (snd a))"
  let ?olds = "\<lambda>old. usort (filter (\<lambda>x. x \<notin> (join ''/'' \<circ> fst) ` set ?as) old)"
  note as = sorted_artifacts_props(1)[OF assms(4,3)] sorted_artifacts_props(2)[OF assms(4,3), of stage]
    sorted_artifacts_props(3)[OF assms(4,3)]
  have maps: "map snd ?ws = map (artifact_record p) ?as" "map fst ?ws = map fst ?as"
    "set (map (join ''/'' \<circ> fst) ?ws) = (join ''/'' \<circ> fst) ` set ?as"
    by (auto simp: comp_def)
  have ok: "?ok \<Longrightarrow> \<forall>a \<in> set (so_artifacts out). is_ok (encode_payload (snd a))"
    by (auto simp: sorted_artifacts_def)
  have written: "spec (staging s0 ?as) (write_temp new_manifest (Json ?m)) (\<lambda>_. prepared s0 ?as ?m) (\<lambda>_. restored s0)"
  proof (rule spec_write_temp)
    fix s bs assume s: "staging s0 ?as s" "single (s\<lparr>faults := bs\<rparr>)"
    have "\<forall>a \<in> set ?as. fst a \<noteq> new_manifest \<and> fst a \<noteq> old_manifest" using as(2) by (auto simp: clear_path_def)
    moreover have "old_manifest \<notin> fst ` set ?as" using as(2) by (auto simp: clear_path_def)
    then have "temp s old_manifest = None" using s(1) unfolding staging_def by simp
    ultimately show "prepared s0 ?as ?m (s\<lparr>faults := bs, temp := (temp s)(new_manifest \<mapsto> Json ?m)\<rparr>)"
      using s by (auto simp: staging_def prepared_def same_rest_def single_def)
  qed (simp_all add: staging_restored, simp add: staging_def)
  have swapped: "spec (prepared s0 ?as ?m) (swap_files stage (?olds (old_paths (prior s0 stage))) (map fst ?as))
      (\<lambda>_ s. files s = files_after s0 stage out ?m \<and> same_rest s0 s) (\<lambda>_. restored s0)"
  proof (rule spec_pointwise)
    fix s1 assume s1: "prepared s0 ?as ?m s1"
    have ex: "exchange s1 (manifest_path stage) (?olds (old_paths (prior s0 stage))) (map fst ?as)"
      by (rule prepared_exchange[OF s1 assms(2) as(2,1)]) auto
    have "single s1" using s1 by (simp add: prepared_def)
    from spec_swap_files[OF ex this] show "spec (\<lambda>s. s = s1) (swap_files stage (?olds (old_paths (prior s0 stage))) (map fst ?as))
      (\<lambda>_ s. files s = files_after s0 stage out ?m \<and> same_rest s0 s) (\<lambda>_. restored s0)"
    proof (rule spec_weaken)
      fix s assume "exchanged s1 (manifest_path stage) (?olds (old_paths (prior s0 stage))) (map fst ?as) s"
      then show "files s = files_after s0 stage out ?m \<and> same_rest s0 s"
        using exchanged_files[OF s1 as(1) _ as(3)] s1 by (simp add: exchanged_def prepared_def same_rest_def)
    qed (use prepared_restored[OF s1] in auto)
  qed
  have start: "staging s0 [] s0" using assms by (simp add: staging_def same_rest_def)
  show ?thesis
    unfolding publish_body_def
  proof (rule spec_bind[where R = "\<lambda>ws s. ws = ?ws \<and> ?ok \<and> staging s0 ?as s"])
    show "spec (\<lambda>s. s = s0) (io_map (stage_artifact p) (sort_key (\<lambda>(r, _). join ''/'' r)
        (map (\<lambda>(raw, payload). (path_parts raw, payload)) (so_artifacts out))))
        (\<lambda>ws s. ws = ?ws \<and> ?ok \<and> staging s0 ?as s) (\<lambda>_. restored s0)"
      unfolding sorted_artifacts_def[symmetric]
      by (rule spec_weaken[OF spec_stage_all[of "[]" ?as s0 p]]) (use as(1) start in auto)
    fix ws
    have "spec (staging s0 ?as) (io_then (write_temp new_manifest (Json ?m)) (io_bind (io_get (\<lambda>s. old_paths (prior s stage)))
        (\<lambda>old. io_then (swap_files stage (?olds old) (map fst ?as))
          (io_modify (\<lambda>s. s\<lparr>run_doc := set_stage stage ?m (run_doc s), prior := (prior s)(stage \<mapsto> ?m)\<rparr>)))))
        (\<lambda>_ s. done_publishing p stage fingerprint out started_at ended_at s0 s) (\<lambda>_. restored s0)"
    proof (rule spec_then[OF written], rule spec_bind[where R = "\<lambda>old s. prepared s0 ?as ?m s \<and> old = old_paths (prior s0 stage)"])
      show "spec (prepared s0 ?as ?m) (io_get (\<lambda>s. old_paths (prior s stage)))
          (\<lambda>old s. prepared s0 ?as ?m s \<and> old = old_paths (prior s0 stage)) (\<lambda>_. restored s0)"
        by (rule spec_get) (simp add: prepared_def same_rest_def)
      have "spec (prepared s0 ?as ?m) (io_then (swap_files stage (?olds (old_paths (prior s0 stage))) (map fst ?as))
          (io_modify (\<lambda>s. s\<lparr>run_doc := set_stage stage ?m (run_doc s), prior := (prior s)(stage \<mapsto> ?m)\<rparr>)))
          (\<lambda>_ s. done_publishing p stage fingerprint out started_at ended_at s0 s) (\<lambda>_. restored s0)"
        by (rule spec_then[OF swapped], rule spec_modify) (simp add: done_publishing_def same_rest_def Let_def)
      then show "spec (\<lambda>s. prepared s0 ?as ?m s \<and> old = old_paths (prior s0 stage)) (io_then (swap_files stage (?olds old) (map fst ?as))
          (io_modify (\<lambda>s. s\<lparr>run_doc := set_stage stage ?m (run_doc s), prior := (prior s)(stage \<mapsto> ?m)\<rparr>)))
          (\<lambda>_ s. done_publishing p stage fingerprint out started_at ended_at s0 s) (\<lambda>_. restored s0)" for old
        by (auto simp: spec_def)
    qed
    note framed = spec_frame[OF this, of ?ok]
    show "spec (\<lambda>s. ws = ?ws \<and> ?ok \<and> staging s0 ?as s) (let manifest = stage_manifest p stage fingerprint (map snd ws)
          (so_metadata out) started_at ended_at in
         io_then (write_temp new_manifest (Json manifest)) (
         io_bind (io_get (\<lambda>s. old_paths (prior s stage))) (\<lambda>old.
         io_then (swap_files stage (usort (filter (\<lambda>x. x \<notin> set (map (join ''/'' \<circ> fst) ws)) old)) (map fst ws))
           (io_modify (\<lambda>s. s\<lparr>run_doc := set_stage stage manifest (run_doc s), prior := (prior s)(stage \<mapsto> manifest)\<rparr>)))))
       (\<lambda>_ s. done_publishing p stage fingerprint out started_at ended_at s0 s
          \<and> (\<forall>a \<in> set (so_artifacts out). is_ok (encode_payload (snd a)))) (\<lambda>_. restored s0)"
    proof (cases "ws = ?ws")
      case True
      show ?thesis
        unfolding True maps Let_def new_stage_manifest_def[symmetric] by (rule spec_weaken[OF framed]) (use ok in auto)
    qed (simp add: spec_def)
  qed
qed

lemma accepted_normalized:
  assumes "distinct (map fst (map (\<lambda>(raw, payload). (path_parts raw, payload)) (so_artifacts out)))"
    and "\<forall>a \<in> set (so_artifacts out). is_ok (safe_relative (fst a))"
  shows "accepted out"
  using assms by (simp add: accepted_def comp_def case_prod_beta)

definition cleared :: "pipe_state \<Rightarrow> pipe_state" where
  "cleared s = s\<lparr>temp := Map.empty, backups := [], published := [], manifest_backed_up := False, manifest_touched := False\<rparr>"

lemma spec_publish:
  assumes "single s0" "prior_ok s0 stage" "clear_output out"
  shows "spec (\<lambda>s. s = s0) (publish p stage fingerprint out started_at ended_at)
    (\<lambda>_ s. done_publishing p stage fingerprint out started_at ended_at s0 s \<and> well_formed_output out) (\<lambda>_. restored s0)"
proof (cases "so_artifacts out = []")
  case True
  then show ?thesis unfolding publish_def by (simp add: spec_def io_raise_def restored_def same_rest_def)
next
  case False
  let ?ns = "map (\<lambda>(raw, payload). (path_parts raw, payload)) (so_artifacts out)"
  let ?Q = "\<lambda>_ s. done_publishing p stage fingerprint out started_at ended_at s0 s \<and> well_formed_output out"
  let ?body = "publish_body p stage fingerprint (so_metadata out) started_at ended_at"
  let ?S = "\<lambda>s. \<exists>bs. s = s0\<lparr>faults := bs\<rparr> \<and> single s"
  have clear_locals: "clear_locals s = (Inr (), cleared s)" for s by (simp add: clear_locals_def io_modify_def cleared_def)
  have done_cleared: "done_publishing p stage fingerprint out started_at ended_at s0 (cleared s)
      = done_publishing p stage fingerprint out started_at ended_at s0 s" for s
    by (simp add: done_publishing_def cleared_def)
  have restored_cleared: "restored s0 s \<Longrightarrow> restored s0 (cleared s)" for s
    by (simp add: restored_def cleared_def same_rest_def)
  have attempt: "spec ?S (io_then clear_locals (io_bind (io_try (?body ?ns)) (\<lambda>r. io_then clear_locals (io_lift r)))) ?Q (\<lambda>_. restored s0)"
    if acc: "accepted out"
  proof (rule spec_pointwise)
    fix s1 assume "?S s1"
    then obtain bs where s1: "s1 = s0\<lparr>faults := bs\<rparr>" "single s1" by auto
    let ?s = "cleared s1"
    have body: "spec (\<lambda>s. s = ?s) (?body ?ns) (\<lambda>_ s. done_publishing p stage fingerprint out started_at ended_at ?s s
        \<and> (\<forall>a \<in> set (so_artifacts out). is_ok (encode_payload (snd a)))) (\<lambda>_. restored ?s)"
      by (rule spec_publish_body) (use s1 assms acc in \<open>simp_all add: cleared_def single_def prior_ok_def\<close>)
    have same: "done_publishing p stage fingerprint out started_at ended_at ?s s
        = done_publishing p stage fingerprint out started_at ended_at s0 s" "restored ?s s = restored s0 s" for s
      using files_after_cong[of ?s s0] by (simp_all add: done_publishing_def restored_def same_rest_def cleared_def s1(1) Let_def)
    have wf: "\<forall>a \<in> set (so_artifacts out). is_ok (encode_payload (snd a)) \<Longrightarrow> well_formed_output out"
      using acc False by (auto simp: well_formed_output_def accepted_def list_all_iff)
    show "spec (\<lambda>s. s = s1) (io_then clear_locals (io_bind (io_try (?body ?ns)) (\<lambda>r. io_then clear_locals (io_lift r)))) ?Q
        (\<lambda>_. restored s0)"
    proof (rule specI)
      fix s x s' assume s: "s = s1" "io_then clear_locals (io_bind (io_try (?body ?ns)) (\<lambda>r. io_then clear_locals (io_lift r))) s = (Inr x, s')"
      then obtain y s2 where "?body ?ns ?s = (Inr y, s2)" "s' = cleared s2"
        by (auto simp: io_then_def io_bind_def clear_locals io_try_def io_lift_def split: prod.splits sum.splits)
      then show "?Q x s'" using specD_Inr[OF body refl] wf by (simp add: same done_cleared)
    next
      fix s e s' assume s: "s = s1" "io_then clear_locals (io_bind (io_try (?body ?ns)) (\<lambda>r. io_then clear_locals (io_lift r))) s = (Inl e, s')"
      then obtain e s2 where "?body ?ns ?s = (Inl e, s2)" "s' = cleared s2"
        by (auto simp: io_then_def io_bind_def clear_locals io_try_def io_lift_def split: prod.splits sum.splits)
      then show "restored s0 s'" using specD_Inl[OF body refl] restored_cleared by (simp add: same)
    qed
  qed
  have os: "spec (\<lambda>s. s = s0) os_step (\<lambda>_. ?S) (\<lambda>_. restored s0)"
    by (rule spec_os) (use assms(1) in \<open>auto simp: restored_def same_rest_def\<close>)
  show ?thesis
    unfolding publish_def if_not_P[OF False]
  proof (rule spec_bind[where R = "\<lambda>ns s. (s = s0 \<and> ns = ?ns) \<and> accepted out"])
    show "spec (\<lambda>s. s = s0) (normalize_artifacts [] (so_artifacts out)) (\<lambda>ns s. (s = s0 \<and> ns = ?ns) \<and> accepted out) (\<lambda>_. restored s0)"
      by (rule spec_weaken[OF spec_normalize]) (auto simp: restored_def same_rest_def intro: accepted_normalized)
    fix ns
    show "spec (\<lambda>s. (s = s0 \<and> ns = ?ns) \<and> accepted out) (io_then os_step (io_then clear_locals
        (io_bind (io_try (?body ns)) (\<lambda>r. io_then clear_locals (io_lift r))))) ?Q (\<lambda>_. restored s0)"
      by (cases "ns = ?ns \<and> accepted out") (use spec_then[OF os attempt] in \<open>auto simp: spec_def\<close>)
  qed
qed

section \<open>Running a publication\<close>

text \<open>Rewriting a publication on a concrete state: an operation is evaluated before what follows it.\<close>

lemma io_weak_cong:
  "m = m' \<Longrightarrow> io_bind m k = io_bind m' k" "m = m' \<Longrightarrow> io_then m n = io_then m' n" "m = m' \<Longrightarrow> io_catch m h = io_catch m' h"
  by simp_all

lemmas io_simps = io_bind_def io_then_def io_return_def io_raise_def io_lift_def io_get_def io_modify_def io_try_def
  io_catch_def os_step_def

lemmas publish_simps = publish_def publish_body_def stage_artifact_def write_temp_def swap_files_def remove_old_def
  publish_file_def back_up_def move_to_temp_def move_from_temp_def publish_manifest_def unlink_def roll_back_def
  restore_file_def restore_manifest_def clear_locals_def assert_no_symlink_def is_exception_def io_simps fresh_def
  symlinked_def content_bytes_def record_count_def old_paths_def manifest_path_def private_suffix_def Let_def

definition bare_pipeline :: pipeline where
  "bare_pipeline = \<lparr>executors = Map.empty, database_fingerprint = ''db'', model_fingerprint = ''model'',
     report_fingerprint = ''report'', config_fingerprint = ''config'', query_pack_hash = ''pack'', config_hash = [],
     schema_version = ''1'', tool_version = ''1'', implementation_versions = Map.empty, resume = True,
     preflight = None, finalizer = None, run_identity = []\<rparr>"

definition text_output :: "string \<Rightarrow> stage_output" where
  "text_output path = \<lparr>so_artifacts = [(path, PText ''new'')], so_metadata = []\<rparr>"

lemma encode_new: "encode_payload (PText ''new'') = Inr (''new'', 1)"
  by (simp add: encode_payload_def record_count_def max_total_bytes_def max_records_def)

lemma safe_examples: "safe_relative ''a.txt'' = Inr [''a.txt'']" "safe_relative ''a.private.jsonl'' = Inr [''a.private.jsonl'']"
  by (simp_all add: safe_relative_def path_parts_def startswith_def run_path_def Let_def)

lemma example_conditions: "single (fresh fs [] (replicate k False @ [True]) t)" "prior_ok (fresh fs [] bs t) stage"
    "clear_output (text_output ''a.txt'')"
proof -
  have plain: "\<not> endswith ''a.txt'' private_suffix" by code_simp
  show "single (fresh fs [] (replicate k False @ [True]) t)" "prior_ok (fresh fs [] bs t) stage"
    by (simp_all add: single_def prior_ok_def fresh_def)
  show "clear_output (text_output ''a.txt'')"
    by (simp add: clear_output_def text_output_def clear_path_def path_parts_def plain)
qed

section \<open>Properties\<close>

text \<open>C9. A publication that raises leaves the output root as it found it: when at most one operation of the
  operating system fails during it, and the paths of the stage keep clear of the names its temporary directory
  uses and of private artifacts, every file, the run document, and the manifest the next publication will
  compare with are the same as before it.\<close>

theorem publish_atomic:
  assumes "single s" "prior_ok s stage" "clear_output out"
    and "publish p stage fingerprint out started_at ended_at s = (Inl e, s')"
  shows "files s' = files s \<and> run_doc s' = run_doc s \<and> prior s' = prior s"
  using specD_Inl[OF spec_publish[OF assms(1-3)] refl assms(4)] by (simp add: restored_def same_rest_def)

text \<open>The last operation fails, with a former artifact already replaced.\<close>

theorem publish_atomic_witness:
  "let s = fresh [[''a.txt''] \<mapsto> Bytes ''old''] [] [False, False, False, False, False, False, True] 0;
       r = publish bare_pipeline ''entries'' (JObj []) (text_output ''a.txt'') 1 2 s
   in fst r = Inl (PyOSError ''OSError'') \<and> files (snd r) = files s \<and> run_doc (snd r) = run_doc s \<and> prior (snd r) = prior s"
proof -
  let ?s = "fresh [[''a.txt''] \<mapsto> Bytes ''old''] [] [False, False, False, False, False, False, True] 0"
  let ?r = "publish bare_pipeline ''entries'' (JObj []) (text_output ''a.txt'') 1 2 ?s"
  have run: "fst ?r = Inl (PyOSError ''OSError'')"
    by (simp add: publish_simps text_output_def safe_examples encode_new cong: io_weak_cong)
  have "single ?s" using example_conditions(1)[of _ 6] by (simp add: numeral_eq_Suc)
  from publish_atomic[OF this example_conditions(2,3), where p = bare_pipeline and stage = "''entries''" and fingerprint = "JObj []"
      and started_at = 1 and ended_at = 2 and e = "PyOSError ''OSError''" and s' = "snd ?r"]
  show ?thesis using run by (simp add: Let_def prod_eq_iff)
qed


lemma example_published:
  "fst (publish bare_pipeline ''entries'' (JObj []) (text_output ''a.txt'') 1 2 (fresh [[''a.txt''] \<mapsto> Bytes ''old''] [] [] 0)) = Inr ()"
  by (simp add: publish_simps text_output_def safe_examples encode_new cong: io_weak_cong)


text \<open>A publication that raises does not always leave the files as they were: when setting the permissions of a
  private artifact fails, the artifact is already in place but not yet among those to undo, so it stays.\<close>

theorem private_artifact_survives:
  "\<exists>s'. publish p stage fingerprint (text_output ''a.private.jsonl'') started_at ended_at
      (fresh Map.empty [] [False, False, False, False, True] t) = (Inl (PyOSError ''OSError''), s')
    \<and> files s' = [[''a.private.jsonl''] \<mapsto> Bytes ''new'']"
proof -
  have suffixed: "endswith ''a.private.jsonl'' ''.private.jsonl''" by code_simp
  show ?thesis
    by (simp add: publish_simps text_output_def safe_examples encode_new suffixed cong: io_weak_cong)
qed

end
