(* ===== verification/Payloads.thy ===== *)
theory Payloads
  imports Pipeline EntryLaws
begin

text \<open>
  The payloads and paths of a stage (\<open>_encode_payload\<close>, \<open>_safe_relative\<close>): an encoded payload has as many lines as
  records and stays within the limits, and a safe path stays inside the output root and away from the
  files the pipeline keeps for itself.
\<close>

section \<open>Canonical JSON has one line\<close>

lemma hex_char_one_line: "k < 16 \<Longrightarrow> hex_char k \<noteq> CHR 0x0A"
proof -
  assume "k < 16"
  then have "hex_char k \<in> set ''0123456789abcdef''" unfolding hex_char_def by (intro nth_mem) simp
  then show ?thesis by auto
qed

lemma escape_one_line: "CHR 0x0A \<notin> set (json_escape c)"
proof -
  let ?n = "of_char c :: nat"
  have if_one_line: "CHR 0x0A \<notin> set (if b then s else t)" if "b \<Longrightarrow> CHR 0x0A \<notin> set s" "\<not> b \<Longrightarrow> CHR 0x0A \<notin> set t" for b s t
    using that by simp
  have c: "CHR 0x0A \<noteq> c" if "?n \<noteq> 10" using that by auto
  have bs: "CHR 0x0A \<noteq> char_of (92::nat)" "CHR 0x0A \<noteq> char_of (34::nat)" by (simp_all add: char_of_def)
  have hex: "CHR 0x0A \<noteq> hex_char (?n div 16)" if "?n < 32" using that by (intro hex_char_one_line[symmetric]) simp
  have hex': "CHR 0x0A \<noteq> hex_char (?n mod 16)" by (intro hex_char_one_line[symmetric]) simp
  show ?thesis unfolding json_escape_def Let_def
    by (intro if_one_line) (simp_all only: list.set insert_iff empty_iff bs hex hex' c char.inject simp_thms not_False_eq_True)
qed

lemma json_string_one_line: "CHR 0x0A \<notin> set (json_string t)"
  using escape_one_line by (auto simp: json_string_def char_of_def)

lemma int_str_one_line: "CHR 0x0A \<notin> set (int_str i)"
  using nat_str_digits[of "nat i"] nat_str_digits[of "nat (- i)"] by (auto simp: int_str_def list_all_iff is_digit_def Let_def)

lemma join_one_line: "CHR 0x0A \<notin> set sep \<Longrightarrow> (\<And>t. t \<in> set ts \<Longrightarrow> CHR 0x0A \<notin> set t) \<Longrightarrow> CHR 0x0A \<notin> set (join sep ts)"
  using set_join[of sep ts] by auto

lemma canonical_json_one_line: "CHR 0x0A \<notin> set (canonical_json v)"
proof (induction v rule: canonical_json.induct)
  case (5 vs)
  then have "CHR 0x0A \<notin> set (join '','' (map canonical_json vs))" by (intro join_one_line) auto
  then show ?case by simp
next
  case (6 kvs)
  then have "CHR 0x0A \<notin> set (join '','' (map (\<lambda>(k, t). json_string k @ '':'' @ t)
      (sort_key fst (map (\<lambda>(k, v). (k, canonical_json v)) kvs))))"
    by (intro join_one_line) (auto simp: json_string_one_line)
  then show ?case by simp
qed (simp_all add: json_string_one_line int_str_one_line)

section \<open>Payloads\<close>

text \<open>The lines of an encoded payload are its records.\<close>

lemma record_count_lines:
  assumes "\<forall>l \<in> set ls. \<exists>t. l = t @ [CHR 0x0A] \<and> CHR 0x0A \<notin> set t"
  shows "record_count (concat ls) = int (length ls)"
proof -
  have "length (filter (\<lambda>c. c = CHR 0x0A) (concat ls)) = length ls" using assms
  proof (induction ls)
    case (Cons l ls)
    then obtain t where "l = t @ [CHR 0x0A]" "filter (\<lambda>c. c = CHR 0x0A) t = []" by (auto simp: filter_empty_conv)
    then show ?case using Cons by simp
  qed simp
  moreover have "concat ls = [] \<or> last (concat ls) = CHR 0x0A"
  proof (cases ls rule: rev_cases)
    case (snoc ks l)
    then show ?thesis using assms by auto
  qed simp
  ultimately show ?thesis by (auto simp: record_count_def)
qed

lemma encode_records_lines:
  "encode_records i rs = Inr ls \<Longrightarrow> length ls = length rs \<and> (\<forall>l \<in> set ls. \<exists>t. l = t @ [CHR 0x0A] \<and> CHR 0x0A \<notin> set t)"
  by (induction i rs arbitrary: ls rule: encode_records.induct)
    (auto simp: res_bind_Inr_iff canonical_json_one_line split: if_splits)

lemma encode_payload_count:
  assumes "encode_payload payload = Inr (data, n)"
  shows "record_count data = n" "0 \<le> n" "n \<le> 4096" "length data \<le> 16777216"
proof -
  have nonneg: "0 \<le> record_count b" for b by (simp add: record_count_def)
  show "record_count data = n"
    using assms encode_records_lines record_count_lines
    by (auto simp: encode_payload_def res_bind_Inr_iff split: payload.splits if_splits)
  then show "0 \<le> n" using nonneg by blast
  show "n \<le> 4096" "length data \<le> 16777216"
    using assms by (auto simp: encode_payload_def res_bind_Inr_iff max_records_def max_total_bytes_def split: if_splits)
qed

section \<open>Paths\<close>

lemma startswith_join:
  assumes "q \<noteq> []" "\<forall>t \<in> set q. t \<noteq> [] \<and> CHR ''/'' \<notin> set t"
  shows "join ''/'' q \<noteq> [] \<and> \<not> startswith (join ''/'' q) ''/''"
proof -
  obtain t ts where q: "q = t # ts" "t \<noteq> []" "CHR ''/'' \<notin> set t" using assms by (cases q) auto
  obtain c u where "t = c # u" "c \<noteq> CHR ''/''" using q by (cases t) auto
  then show ?thesis using q by (auto simp: join_cons startswith_def)
qed

lemma safe_relative_parts:
  assumes "safe_relative raw = Inr q"
  shows "q = path_parts raw \<and> q \<noteq> [] \<and> ''..'' \<notin> set q \<and> CHR 0x00 \<notin> set raw \<and> q \<noteq> run_path
    \<and> hd q \<noteq> ''.stage-manifests'' \<and> hd q \<noteq> ''.pipeline.lock''"
  using assms by (auto simp: safe_relative_def Let_def split: if_splits)

lemma safe_relative_join:
  assumes "safe_relative raw = Inr q"
  shows "safe_relative (join ''/'' q) = Inr q"
proof -
  note q = safe_relative_parts[OF assms]
  have parts: "\<forall>t \<in> set q. t \<noteq> [] \<and> CHR ''/'' \<notin> set t \<and> set t \<subseteq> set raw" using path_parts_props q by blast
  have "CHR 0x00 \<notin> set (join ''/'' q)" using set_join[of "''/''" q] parts q by fastforce
  moreover have "join ''/'' q \<noteq> [] \<and> \<not> startswith (join ''/'' q) ''/''" using startswith_join parts q by blast
  moreover have "path_parts (join ''/'' q) = q" using path_parts_join q by simp
  ultimately show ?thesis using conjunct2[OF q] by (simp add: safe_relative_def Let_def)
qed

end
