(* ===== verification/PipelineLaws.thy ===== *)
theory PipelineLaws
  imports PublishLaws Payloads
begin

text \<open>
  What holds of the stages of a run: a published stage can be reused, a failing stage is recorded and
  withdraws the later ones, and a run that returns has completed every stage it was asked for.
\<close>

section \<open>Documents\<close>

lemma get_put [simp]: "get (put k v d) k' = (if k' = k then v else get d k')"
  by (simp add: get_def put_def members_def field_of_def AList.update_conv')

lemma is_mapping_put [simp]: "is_mapping (put k v d)"
  by (simp add: is_mapping_def put_def)

lemma get_set_stage: "get (set_stage n v run) k = (if k = ''stages'' then put n v (get run ''stages'') else get run k)"
  by (simp add: set_stage_def)

lemma stage_meta_set_stage:
  "stage_meta (set_stage n v run) m = (if m = n then if is_mapping v then v else JObj [] else stage_meta run m)"
  by (simp add: stage_meta_def get_set_stage Let_def)

lemma stage_meta_put: "k \<noteq> ''stages'' \<Longrightarrow> stage_meta (put k v run) m = stage_meta run m"
  by (simp add: stage_meta_def Let_def)

lemma stage_meta_set_stages:
  "stage_meta (fold (\<lambda>n. set_stage n v) ns run) m = (if m \<in> set ns then if is_mapping v then v else JObj [] else stage_meta run m)"
  by (induction ns arbitrary: run) (auto simp: stage_meta_set_stage)

fun distinct_keys :: "json \<Rightarrow> bool" where
  "distinct_keys (JArr vs) = list_all distinct_keys vs"
| "distinct_keys (JObj kvs) = (distinct (map fst kvs) \<and> list_all (\<lambda>kv. distinct_keys (snd kv)) kvs)"
| "distinct_keys v = True"

lemma py_eq_fields_iff:
  "py_eq_fields kvs kws \<longleftrightarrow> (\<forall>(k, v) \<in> set kvs. case map_of kws k of None \<Rightarrow> False | Some w \<Rightarrow> py_eq v w)"
  by (induction kvs) auto

lemma py_eq_refl: "distinct_keys v \<Longrightarrow> py_eq v v"
proof (induction v rule: distinct_keys.induct)
  case (1 vs)
  then have "list_all (\<lambda>v. py_eq v v) vs" by (simp add: list_all_iff)
  then have "py_eq_list vs vs" by (induction vs) auto
  then show ?case by simp
next
  case (2 kvs)
  then have "py_eq_fields kvs kvs" by (fastforce simp: py_eq_fields_iff list_all_iff map_of_is_SomeI)
  then show ?case by simp
qed (auto simp: number_of_def)

section \<open>Operations that keep the run document\<close>

definition keeps_run :: "'a io \<Rightarrow> bool" where
  "keeps_run m \<longleftrightarrow> (\<forall>s. run_doc (snd (m s)) = run_doc s)"

named_theorems keeps \<open>operations that keep the run document\<close>

lemma keeps_bind [keeps]: "keeps_run m \<Longrightarrow> (\<And>x. keeps_run (k x)) \<Longrightarrow> keeps_run (io_bind m k)"
  by (auto simp: keeps_run_def io_bind_def split: prod.splits sum.splits) (metis snd_conv)+

lemma keeps_then [keeps]: "keeps_run m \<Longrightarrow> keeps_run n \<Longrightarrow> keeps_run (io_then m n)"
  by (simp add: io_then_def keeps_bind)

lemma keeps_catch [keeps]: "keeps_run m \<Longrightarrow> (\<And>e. keeps_run (h e)) \<Longrightarrow> keeps_run (io_catch m h)"
  by (auto simp: keeps_run_def io_catch_def split: prod.splits sum.splits) (metis snd_conv)+

lemma keeps_try [keeps]: "keeps_run m \<Longrightarrow> keeps_run (io_try m)"
  by (auto simp: keeps_run_def io_try_def split: prod.splits) (metis snd_conv)

lemma keeps_plain [keeps]:
  "keeps_run (io_return x)" "keeps_run (io_raise e)" "keeps_run (io_lift r)" "keeps_run (io_get f)" "keeps_run now" "keeps_run os_step"
  by (auto simp: keeps_run_def io_return_def io_raise_def io_lift_def io_get_def now_def os_step_def split: list.splits)

lemma keeps_modify [keeps]: "(\<And>s. run_doc (f s) = run_doc s) \<Longrightarrow> keeps_run (io_modify f)"
  by (simp add: keeps_run_def io_modify_def)

lemma keeps_each [keeps]: "(\<And>x. keeps_run (f x)) \<Longrightarrow> keeps_run (io_each f xs)"
  by (induction xs) (auto intro: keeps)

lemma keeps_map [keeps]: "(\<And>x. keeps_run (f x)) \<Longrightarrow> keeps_run (io_map f xs)"
  by (induction xs) (auto intro!: keeps)

lemma keeps_branch: "keeps_run m \<Longrightarrow> keeps_run n \<Longrightarrow> keeps_run (\<lambda>s. if c s then m s else n s)"
  by (simp add: keeps_run_def)

lemma keeps_pure: "keeps_run (\<lambda>s. (r s, s))"
  by (simp add: keeps_run_def)

lemma keeps_moves [keeps]: "keeps_run (move_to_temp d q)" "keeps_run (move_from_temp q d)" "keeps_run (unlink d)"
  "keeps_run (write_temp q c)" "keeps_run clear_locals"
  by (auto simp: move_to_temp_def move_from_temp_def unlink_def write_temp_def clear_locals_def intro!: keeps)
    (auto simp: keeps_run_def split: option.splits)

lemma keeps_backups [keeps]: "keeps_run (back_up d q)" "keeps_run (remove_old raw)" "keeps_run (publish_file r)"
proof -
  show b: "keeps_run (back_up d q)" for d q
    unfolding back_up_def[abs_def] by (rule keeps_branch) (auto intro!: keeps keeps_pure)
  show "keeps_run (remove_old raw)" "keeps_run (publish_file r)"
    unfolding remove_old_def publish_file_def by (auto intro!: keeps b)
qed

lemma keeps_manifest [keeps]: "keeps_run (publish_manifest stage)"
proof -
  have "keeps_run (\<lambda>s. if files s (manifest_path stage) = None then (Inr (), s)
       else io_then (io_modify (\<lambda>s. s\<lparr>manifest_backed_up := True\<rparr>))
         (io_then (move_to_temp (manifest_path stage) [''old-manifest.json''])
           (io_modify (\<lambda>s. s\<lparr>manifest_touched := True\<rparr>))) s)"
    by (rule keeps_branch) (auto intro!: keeps keeps_pure)
  then show ?thesis unfolding publish_manifest_def by (auto intro!: keeps)
qed

lemma keeps_roll_back [keeps]: "keeps_run (roll_back stage)"
proof -
  have restore: "keeps_run (restore_file b)" for b
    by (cases b, simp add: restore_file_def[abs_def]) (rule keeps_branch, auto intro!: keeps keeps_pure)
  have "keeps_run (restore_manifest stage)"
    unfolding restore_manifest_def[abs_def] by (rule keeps_branch, auto intro!: keeps) (rule keeps_branch, auto intro!: keeps keeps_pure)
  then show ?thesis unfolding roll_back_def by (auto intro!: keeps restore)
qed

lemma keeps_swap [keeps]: "keeps_run (swap_files stage old new)"
  unfolding swap_files_def by (auto intro!: keeps)

lemma keeps_stage_artifact [keeps]: "keeps_run (stage_artifact p a)"
  by (cases a) (auto simp: stage_artifact_def intro!: keeps split: prod.splits)

lemma keeps_normalize [keeps]: "keeps_run (normalize_artifacts seen as)"
proof (induction as arbitrary: seen)
  case (Cons a as)
  have "keeps_run (assert_no_symlink q)" for q
    by (simp add: keeps_run_def assert_no_symlink_def)
  then show ?case by (cases a) (auto simp: Let_def intro!: keeps Cons.IH)
qed (simp add: keeps)

lemma keeps_write_run [keeps]: "keeps_run write_run"
  unfolding write_run_def by (auto intro!: keeps)

lemma keeps_execute [keeps]: "keeps_run (execute p stage fingerprint upstream)"
  by (auto simp: execute_def intro!: keeps split: option.splits exec_outcome.splits)

lemma spec_keeps: "keeps_run m \<Longrightarrow> spec (\<lambda>s. run_doc s = d) m (\<lambda>_ s. run_doc s = d) (\<lambda>_ s. run_doc s = d)"
  by (auto simp: spec_def keeps_run_def split: sum.splits) (metis snd_conv)+

lemma spec_keeps_pred: "keeps_run m \<Longrightarrow> spec (\<lambda>s. P (run_doc s)) m (\<lambda>_ s. P (run_doc s)) (\<lambda>_ s. P (run_doc s))"
  by (auto simp: spec_def keeps_run_def split: sum.splits) (metis snd_conv)+

text \<open>What a publication does to the run document.\<close>

definition published_as :: "pipeline \<Rightarrow> string \<Rightarrow> json \<Rightarrow> (string \<times> json) list \<Rightarrow> int \<Rightarrow> int \<Rightarrow> json \<Rightarrow> json \<Rightarrow> bool" where
  "published_as p stage fingerprint metadata started_at ended_at d run \<longleftrightarrow>
     (\<exists>as. run = set_stage stage (stage_manifest p stage fingerprint as metadata started_at ended_at) d)"

lemma spec_publish_body_run:
  "spec (\<lambda>s. run_doc s = d) (publish_body p stage fingerprint metadata started_at ended_at ns)
    (\<lambda>_ s. published_as p stage fingerprint metadata started_at ended_at d (run_doc s)) (\<lambda>_ s. run_doc s = d)"
  unfolding publish_body_def Let_def
  by (rule spec_bind[OF spec_keeps], intro keeps, rule spec_then[OF spec_keeps], intro keeps, rule spec_bind[OF spec_keeps],
      intro keeps, rule spec_then[OF spec_keeps], intro keeps, rule spec_modify) (auto simp: published_as_def)

lemma spec_publish_run:
  "spec (\<lambda>s. run_doc s = d) (publish p stage fingerprint out started_at ended_at)
    (\<lambda>_ s. published_as p stage fingerprint (so_metadata out) started_at ended_at d (run_doc s)) (\<lambda>_ s. run_doc s = d)"
proof -
  let ?Q = "\<lambda>s. published_as p stage fingerprint (so_metadata out) started_at ended_at d (run_doc s)"
  have tried: "spec (\<lambda>s. run_doc s = d) (io_try (publish_body p stage fingerprint (so_metadata out) started_at ended_at ns))
      (\<lambda>r s. case r of Inl _ \<Rightarrow> run_doc s = d | Inr _ \<Rightarrow> ?Q s) (\<lambda>_ s. run_doc s = d)" for ns
    using spec_publish_body_run[of d p stage fingerprint "so_metadata out" started_at ended_at ns]
    by (auto simp: spec_def io_try_def split: prod.splits sum.splits)
  have last: "spec (\<lambda>s. case r of Inl _ \<Rightarrow> run_doc s = d | Inr _ \<Rightarrow> ?Q s) (io_then clear_locals (io_lift r)) (\<lambda>_ s. ?Q s) (\<lambda>_ s. run_doc s = d)" for r
    by (auto simp: spec_def io_then_def io_bind_def clear_locals_def io_modify_def io_lift_def split: sum.splits)
  show ?thesis
    unfolding publish_def
    by (rule spec_if, rule spec_raise, assumption, rule spec_bind[OF spec_keeps], intro keeps, rule spec_then[OF spec_keeps],
        intro keeps, rule spec_then[OF spec_keeps], intro keeps, rule spec_bind[OF tried last])
qed

section \<open>A published stage can be reused\<close>

lemma normalize_unlinked:
  "fst (normalize_artifacts seen as s) = Inr ns \<Longrightarrow> \<forall>a \<in> set as. \<not> symlinked s (path_parts (fst a))"
proof (induction as arbitrary: seen ns)
  case (Cons a as)
  obtain raw payload where a: "a = (raw, payload)" by (cases a)
  obtain q where q: "safe_relative raw = Inr q"
    using Cons.prems by (cases "safe_relative raw") (auto simp: a io_bind_def io_lift_def)
  obtain ms where ms: "\<not> symlinked s q" "fst (normalize_artifacts (join ''/'' q # seen) as s) = Inr ms"
    using Cons.prems by (auto simp: a q bind_lift_Inr Let_def io_then_def io_bind_def io_raise_def assert_no_symlink_def
      split: if_splits prod.splits sum.splits)
  show ?case using Cons.IH[OF ms(2)] ms(1) safe_relative_Inr(1)[OF q] by (simp add: a)
qed simp

lemma publish_normalized:
  assumes "publish p stage fingerprint out started_at ended_at s = (Inr u, s')"
  obtains ns where "fst (normalize_artifacts [] (so_artifacts out) s) = Inr ns"
  using assms by (auto simp: publish_def io_raise_def io_bind_def split: if_splits prod.splits sum.splits)

lemma record_fields:
  assumes "encode_payload (snd a) = Inr (data, n)"
  shows "is_mapping (artifact_record p a)" "get (artifact_record p a) ''schema_version'' = JStr (schema_version p)"
    "get (artifact_record p a) ''path'' = JStr (join ''/'' (fst a))" "get (artifact_record p a) ''sha256'' = JStr (sha256_hex data)"
    "get (artifact_record p a) ''record_count'' = JInt n" "distinct_keys (artifact_record p a)"
  using assms by (simp_all add: artifact_record_def is_mapping_def get_def members_def field_of_def)

lemma artifact_record_intact:
  assumes "encode_payload (snd a) = Inr (data, n)" "safe_relative raw = Inr (fst a)" "\<not> symlinked s (fst a)"
    "files s (fst a) = Some (Bytes data)"
  shows "artifact_intact p s (artifact_record p a)"
  using record_fields[OF assms(1)] encode_payload_count[OF assms(1)] safe_relative_join[OF assms(2)] assms(3,4)
  by (simp add: artifact_intact_def is_str_def str_of_def int_of_def natural_def content_bytes_def)

lemma manifest_fields:
  fixes p stage fingerprint as metadata started_at ended_at
  defines "m \<equiv> stage_manifest p stage fingerprint as metadata started_at ended_at"
  shows "is_mapping m" "get m ''status'' = JStr ''completed''" "get m ''fingerprint'' = fingerprint" "get m ''artifacts'' = JArr as"
    "get m ''output_hash'' = JStr (artifacts_hash as)"
    "distinct_keys fingerprint \<Longrightarrow> list_all distinct_keys as \<Longrightarrow> distinct_keys (JObj metadata) \<Longrightarrow>
      distinct_keys (JObj (run_identity p)) \<Longrightarrow> distinct_keys m"
  by (simp_all add: m_def stage_manifest_def is_mapping_def get_def members_def field_of_def)

lemma published_reusable:
  assumes "done_publishing p stage fingerprint out started_at ended_at s s'" "well_formed_output out"
    and "\<forall>a \<in> set (so_artifacts out). \<not> symlinked s (path_parts (fst a))"
    and "distinct_keys fingerprint" "distinct_keys (JObj (so_metadata out))" "distinct_keys (JObj (run_identity p))"
  shows "reusable p s' stage fingerprint"
proof -
  let ?as = "sorted_artifacts out"
  let ?rs = "map (artifact_record p) ?as"
  let ?m = "new_stage_manifest p stage fingerprint out started_at ended_at"
  note m = manifest_fields[where p = p and stage = stage and fingerprint = fingerprint and as = ?rs and metadata = "so_metadata out"
    and started_at = started_at and ended_at = ended_at, folded new_stage_manifest_def]
  have set: "set ?as = (\<lambda>(raw, payload). (path_parts raw, payload)) ` set (so_artifacts out)"
    by (simp add: sorted_artifacts_def)
  have distinct: "distinct (map fst ?as)"
  proof -
    have "mset (map fst ?as) = mset (map (path_parts \<circ> fst) (so_artifacts out))"
      by (simp add: sorted_artifacts_def) (simp add: multiset.map_comp comp_def case_prod_beta)
    from mset_eq_imp_distinct_iff[OF this] show ?thesis using assms(2) by (simp add: well_formed_output_def)
  qed
  have each: "artifact_intact p s' (artifact_record p a) \<and> distinct_keys (artifact_record p a)" if a: "a \<in> set ?as" for a
  proof -
    obtain raw payload where r: "(raw, payload) \<in> set (so_artifacts out)" "a = (path_parts raw, payload)" using a set by auto
    then have ok: "is_ok (safe_relative raw)" "is_ok (encode_payload payload)"
      using assms(2) by (auto simp: well_formed_output_def list_all_iff)
    then obtain q where "safe_relative raw = Inr q" by (auto simp: is_ok_def split: sum.splits)
    then have safe: "safe_relative raw = Inr (path_parts raw)" using safe_relative_Inr(1) by blast
    obtain data n where enc: "encode_payload payload = Inr (data, n)" using ok(2) by (auto simp: is_ok_def split: sum.splits)
    have unlinked: "\<not> symlinked s' (path_parts raw)"
      using assms(1,3) r(1) by (force simp: done_publishing_def Let_def symlinked_def)
    have "map_of ?as (path_parts raw) = Some payload" using a r(2) distinct by (simp add: map_of_is_SomeI)
    then have "files s' (path_parts raw) = Some (Bytes data)"
      using assms(1) enc safe_relative_Inr(7)[OF safe, of stage]
      by (simp add: done_publishing_def Let_def files_after_def artifact_data_def)
    then show ?thesis using artifact_record_intact[of a data n raw s'] record_fields(6)[of a data n] enc safe unlinked r(2) by simp
  qed
  have meta: "stage_meta (run_doc s') stage = ?m"
    using assms(1) m(1) by (simp add: done_publishing_def Let_def stage_meta_set_stage)
  have manifest: "files s' (manifest_path stage) = Some (Json ?m)"
    using assms(1) by (simp add: done_publishing_def Let_def files_after_def)
  have "?as \<noteq> []" using assms(2) set by (auto simp: well_formed_output_def)
  moreover have "list_all (artifact_intact p s') ?rs" "list_all distinct_keys ?rs" using each by (auto simp: list_all_iff)
  ultimately show ?thesis
    using m assms(4-6) by (simp add: reusable_def meta manifest Let_def py_eq_refl)
qed

section \<open>Running a stage\<close>

definition invalid_meta :: json where
  "invalid_meta = JObj [(''status'', JStr ''invalid'')]"

lemma stage_meta_no_stages: "\<not> is_mapping (get run ''stages'') \<Longrightarrow> stage_meta run n = JObj []"
  by (cases "get run ''stages''") (auto simp: stage_meta_def is_mapping_def get_def members_def field_of_def Let_def)

lemma stage_meta_empty: "stage_meta (put ''stages'' (JObj []) run) n = JObj []"
  by (simp add: stage_meta_def is_mapping_def Let_def) (simp add: get_def members_def field_of_def)

lemma stage_meta_invalidate:
  "stage_meta (invalidate_from first run) n =
     (if n \<in> set (dropWhile (\<lambda>m. m \<noteq> first) stage_names) then invalid_meta else stage_meta run n)"
  by (simp add: invalidate_from_def Let_def stage_meta_set_stages stage_meta_no_stages stage_meta_empty
      invalid_meta_def[symmetric]) (simp add: invalid_meta_def is_mapping_def)

lemma is_mapping_stages_invalidate: "is_mapping (get (invalidate_from first run) ''stages'')"
proof -
  have "is_mapping (get (fold (\<lambda>n. set_stage n v) ns run) ''stages'')" if "is_mapping (get run ''stages'')" for ns v run
    using that by (induction ns arbitrary: run) (simp_all add: get_set_stage)
  then show ?thesis by (simp add: invalidate_from_def Let_def is_mapping_def)
qed

definition completed_with :: "json \<Rightarrow> string \<Rightarrow> json \<Rightarrow> bool" where
  "completed_with run stage expected \<longleftrightarrow> get (stage_meta run stage) ''status'' = JStr ''completed''
     \<and> py_eq (get (stage_meta run stage) ''fingerprint'') expected"

definition earlier :: "string \<Rightarrow> string list" where
  "earlier stage = takeWhile (\<lambda>m. m \<noteq> stage) stage_names"

definition later :: "string \<Rightarrow> string list" where
  "later stage = tl (dropWhile (\<lambda>m. m \<noteq> stage) stage_names)"

definition same_metas :: "string list \<Rightarrow> json \<Rightarrow> json \<Rightarrow> bool" where
  "same_metas ns run run' \<longleftrightarrow> (\<forall>n \<in> set ns. stage_meta run' n = stage_meta run n)"

lemma distinct_stage_names: "distinct stage_names"
  by (simp add: stage_names_def)

lemma earlier_not_from:
  assumes "n \<in> set (earlier stage)"
  shows "n \<notin> set (dropWhile (\<lambda>m. m \<noteq> stage) stage_names) \<and> n \<noteq> stage"
proof -
  have "distinct (takeWhile (\<lambda>m. m \<noteq> stage) stage_names @ dropWhile (\<lambda>m. m \<noteq> stage) stage_names)"
    using distinct_stage_names by (simp only: takeWhile_dropWhile_id)
  then have "set (earlier stage) \<inter> set (dropWhile (\<lambda>m. m \<noteq> stage) stage_names) = {}"
    unfolding distinct_append earlier_def by blast
  then show ?thesis using assms by (auto simp: earlier_def dest: set_takeWhileD)
qed

lemma same_metas_invalidate: "same_metas (earlier stage) run (invalidate_from stage run)"
  using earlier_not_from by (auto simp: same_metas_def stage_meta_invalidate)

text \<open>The stage runs: what the protected part of \<open>run_stage\<close> leaves in the run document.\<close>

definition attempt :: "pipeline \<Rightarrow> string \<Rightarrow> json \<Rightarrow> (string \<times> json) list \<Rightarrow> unit io" where
  "attempt p stage expected upstream =
     io_bind now (\<lambda>started_at. io_bind (execute p stage expected upstream) (\<lambda>out.
       io_bind now (\<lambda>ended_at. io_then (publish p stage expected out started_at ended_at) write_run)))"

definition attempted :: "pipeline \<Rightarrow> string \<Rightarrow> json \<Rightarrow> json \<Rightarrow> json \<Rightarrow> bool" where
  "attempted p stage expected d run \<longleftrightarrow> (\<exists>metadata started_at ended_at.
     published_as p stage expected metadata started_at ended_at d run)"

lemma spec_attempt:
  "spec (\<lambda>s. run_doc s = d) (attempt p stage expected upstream) (\<lambda>_ s. attempted p stage expected d (run_doc s))
    (\<lambda>_ s. run_doc s = d \<or> attempted p stage expected d (run_doc s))"
proof -
  have written: "spec (\<lambda>s. attempted p stage expected d (run_doc s)) write_run (\<lambda>_ s. attempted p stage expected d (run_doc s))
      (\<lambda>_ s. run_doc s = d \<or> attempted p stage expected d (run_doc s))"
    by (rule spec_weaken[OF spec_keeps_pred[OF keeps_write_run, of "attempted p stage expected d"]]) auto
  have weaken: "spec (\<lambda>s. run_doc s = d) m (\<lambda>_ s. run_doc s = d) (\<lambda>_ s. run_doc s = d \<or> attempted p stage expected d (run_doc s))"
    if "keeps_run m" for m :: "'b io"
    by (rule spec_weaken[OF spec_keeps[OF that]]) auto
  have published: "spec (\<lambda>s. run_doc s = d) (publish p stage expected out a b) (\<lambda>_ s. attempted p stage expected d (run_doc s))
      (\<lambda>_ s. run_doc s = d \<or> attempted p stage expected d (run_doc s))" for out a b
    by (rule spec_weaken[OF spec_publish_run]) (auto simp: attempted_def)
  show ?thesis unfolding attempt_def
    by (rule spec_bind[OF weaken[OF keeps_plain(5)]], rule spec_bind[OF weaken[OF keeps_execute]],
        rule spec_bind[OF weaken[OF keeps_plain(5)]], rule spec_then[OF published written])
qed

lemma attempted_meta:
  assumes "attempted p stage expected (invalidate_from stage d) run"
  shows "get (stage_meta run stage) ''status'' = JStr ''completed''" "get (stage_meta run stage) ''fingerprint'' = expected"
    "same_metas (earlier stage) d run" "is_mapping (get run ''stages'')"
proof -
  obtain as metadata a b where run: "run = set_stage stage (stage_manifest p stage expected as metadata a b) (invalidate_from stage d)"
    using assms by (auto simp: attempted_def published_as_def)
  then show "get (stage_meta run stage) ''status'' = JStr ''completed''" "get (stage_meta run stage) ''fingerprint'' = expected"
    by (simp_all add: stage_meta_set_stage manifest_fields)
  show "same_metas (earlier stage) d run"
    using same_metas_invalidate[of stage d] earlier_not_from by (auto simp: run same_metas_def stage_meta_set_stage)
  show "is_mapping (get run ''stages'')" by (simp add: run get_set_stage)
qed

lemma run_stage_eq:
  "run_stage p stage expected upstream s =
     (if reusable p s stage expected then (Inr (), s)
      else case attempt p stage expected upstream (s\<lparr>run_doc := invalidate_from stage (run_doc s)\<rparr>) of
          (Inr u, s') \<Rightarrow> (Inr u, s')
        | (Inl e, s') \<Rightarrow> (if is_exception e
            then (Inl (stage_failed stage e), s'\<lparr>run_doc := mark_failure stage (stage_failed stage e) (run_doc s')\<rparr>)
            else (Inl e, s')))"
  unfolding run_stage_def unfolding attempt_def[symmetric] unfolding io_then_def io_bind_def io_modify_def io_catch_def io_raise_def
  by (auto split: prod.splits sum.splits)

lemma run_stage_success:
  assumes "run_stage p stage expected upstream s = (Inr u, s')" "distinct_keys expected"
  shows "completed_with (run_doc s') stage expected" "same_metas (earlier stage) (run_doc s) (run_doc s')"
proof -
  have "completed_with (run_doc s') stage expected \<and> same_metas (earlier stage) (run_doc s) (run_doc s')"
  proof (cases "reusable p s stage expected")
    case True
    then show ?thesis using assms(1) by (simp add: run_stage_def completed_with_def reusable_def same_metas_def Let_def)
  next
    case False
    then have "attempt p stage expected upstream (s\<lparr>run_doc := invalidate_from stage (run_doc s)\<rparr>) = (Inr u, s')"
      using assms(1) by (auto simp: run_stage_eq split: prod.splits sum.splits if_splits)
    then have "attempted p stage expected (invalidate_from stage (run_doc s)) (run_doc s')"
      by (rule specD_Inr[OF spec_attempt, rotated]) simp
    from attempted_meta[OF this] show ?thesis using assms(2) by (simp add: completed_with_def py_eq_refl)
  qed
  then show "completed_with (run_doc s') stage expected" "same_metas (earlier stage) (run_doc s) (run_doc s')" by auto
qed

lemma mark_failure_fields:
  fixes e :: py_exc
  assumes "is_mapping (get run ''stages'')" "stage \<in> set stage_names"
  defines "failed \<equiv> mark_failure stage e run"
  shows "get failed ''status'' = JStr ''failed'' \<and> get (get failed ''error'') ''code'' = JStr (exc_code e)
    \<and> get (stage_meta failed stage) ''status'' = JStr ''failed'' \<and> get (stage_meta failed stage) ''error'' = JStr (exc_code e)
    \<and> (\<forall>n \<in> set (later stage). stage_meta failed n = pending) \<and> same_metas (earlier stage) run failed"
proof -
  obtain f where f: "get f ''status'' = JStr ''failed''" "get f ''error'' = JStr (exc_code e)" "is_mapping f"
    and failed: "\<And>n. stage_meta failed n = stage_meta (mark_stages stage f run) n"
    "get failed ''status'' = JStr ''failed''" "get (get failed ''error'') ''code'' = JStr (exc_code e)"
  proof -
    let ?ds = "str_detail e 128 ''stage'' @ str_detail e 2048 ''diagnostic''
      @ (case detail e ''returncode'' of JInt i \<Rightarrow> [(''returncode'', JInt i)] | _ \<Rightarrow> [])"
    let ?f = "JObj ([(''status'', JStr ''failed''), (''error'', JStr (exc_code e))] @ with_details ?ds)"
    show ?thesis
    proof (rule that[of ?f])
      show "get ?f ''status'' = JStr ''failed''" "get ?f ''error'' = JStr (exc_code e)" "is_mapping ?f"
        by (simp_all add: get_def members_def field_of_def is_mapping_def)
      show "stage_meta failed n = stage_meta (mark_stages stage ?f run) n" for n
        using assms(1) by (simp add: failed_def mark_failure_def Let_def stage_meta_put)
      show "get failed ''status'' = JStr ''failed''" "get (get failed ''error'') ''code'' = JStr (exc_code e)"
        by (simp_all add: failed_def mark_failure_def Let_def failure_document_def) (simp add: get_def members_def field_of_def)
    qed
  qed
  have "\<exists>x \<in> set stage_names. \<not> (x \<noteq> stage)" using assms(2) by blast
  then have "dropWhile (\<lambda>m. m \<noteq> stage) stage_names \<noteq> []" by (simp add: dropWhile_eq_Nil_conv)
  moreover have "hd (dropWhile (\<lambda>m. m \<noteq> stage) stage_names) = stage" using hd_dropWhile calculation by blast
  ultimately have drop: "dropWhile (\<lambda>m. m \<noteq> stage) stage_names = stage # later stage"
    unfolding later_def by (metis list.collapse)
  have "distinct (stage # later stage)" using distinct_stage_names by (metis distinct_dropWhile drop)
  then have notin: "stage \<notin> set (later stage)" by simp
  have meta: "stage_meta failed n = (if n \<in> set (later stage) then pending else if n = stage then f else stage_meta run n)" for n
    using f(3) by (simp add: failed(1) mark_stages_def drop stage_meta_set_stages stage_meta_set_stage)
      (simp add: pending_def is_mapping_def)
  show ?thesis
    using f failed(2,3) notin earlier_not_from[of _ stage] by (auto simp: meta same_metas_def drop)
qed

text \<open>C24. A stage that raises is recorded: what is raised is an analyzer error, the run document has the status
  failed with its code, the stage is failed with that code, all later stages are pending, and the earlier stages
  are as they were.\<close>

theorem run_stage_failure:
  assumes "stage \<in> set stage_names" "run_stage p stage expected upstream s = (Inl e, s')" "is_exception e"
  shows "is_analyzer_error e \<and> get (run_doc s') ''status'' = JStr ''failed'' \<and> get (get (run_doc s') ''error'') ''code'' = JStr (exc_code e)
    \<and> get (stage_meta (run_doc s') stage) ''status'' = JStr ''failed'' \<and> get (stage_meta (run_doc s') stage) ''error'' = JStr (exc_code e)
    \<and> (\<forall>n \<in> set (later stage). stage_meta (run_doc s') n = pending) \<and> same_metas (earlier stage) (run_doc s) (run_doc s')"
proof -
  obtain e0 s0 where e0: "attempt p stage expected upstream (s\<lparr>run_doc := invalidate_from stage (run_doc s)\<rparr>) = (Inl e0, s0)"
    "e = stage_failed stage e0" "run_doc s' = mark_failure stage e (run_doc s0)"
    using assms(2,3) by (auto simp: run_stage_eq split: prod.splits sum.splits if_splits)
  then have "run_doc s0 = invalidate_from stage (run_doc s) \<or> attempted p stage expected (invalidate_from stage (run_doc s)) (run_doc s0)"
    using specD_Inl[OF spec_attempt[of "invalidate_from stage (run_doc s)"] _ e0(1)] by simp
  then have "is_mapping (get (run_doc s0) ''stages'') \<and> same_metas (earlier stage) (run_doc s) (run_doc s0)"
    using is_mapping_stages_invalidate same_metas_invalidate attempted_meta(3,4) by metis
  then show ?thesis
    using mark_failure_fields[of "run_doc s0" stage e] assms(1) e0(2,3)
    by (auto simp: same_metas_def stage_failed_def is_analyzer_error_def split: py_exc.splits)
qed

section \<open>A run\<close>

text \<open>Every stage up to the target is completed, each for the fingerprint that the output hashes of the stages
  before it determine.\<close>

fun completed_chain :: "pipeline \<Rightarrow> json \<Rightarrow> string \<Rightarrow> (string \<times> string) list \<Rightarrow> string list \<Rightarrow> bool" where
  "completed_chain p run final hashes [] = True"
| "completed_chain p run final hashes (stage # rest) =
     (completed_with run stage (stage_fingerprint p stage hashes)
      \<and> (stage = final \<or> completed_chain p run final (hashes @ [(stage, str_of (get (stage_meta run stage) ''output_hash''))]) rest))"

lemma distinct_keys_fingerprint:
  assumes "distinct (map fst hashes)"
  shows "distinct_keys (stage_fingerprint p stage hashes)"
proof -
  have "mset (map fst (sort_key fst hashes)) = mset (map fst hashes)" by simp
  then have "distinct (map fst (sort_key fst hashes))" using assms mset_eq_imp_distinct_iff by blast
  then have "distinct_keys (JObj (map (\<lambda>(k, v). (k, JStr v)) (sort_key fst hashes)))"
    by (simp add: comp_def case_prod_beta list_all_iff)
  then show ?thesis by (simp add: stage_fingerprint_def)
qed

lemma earlier_prefix:
  assumes "pre @ stage # rest = stage_names"
  shows "earlier stage = pre"
proof -
  have "distinct (pre @ stage # rest)" using distinct_stage_names assms by simp
  then have "takeWhile (\<lambda>m. m \<noteq> stage) (pre @ stage # rest) = pre" by (subst takeWhile_append2) auto
  then show ?thesis using assms by (simp add: earlier_def)
qed

lemma run_stages_cases:
  assumes "run_stages p final hashes upstream (stage # rest) s = (Inr u, s')"
  shows "\<exists>s1. run_stage p stage (stage_fingerprint p stage hashes) upstream s = (Inr (), s1)
    \<and> (stage = final \<longrightarrow> s' = s1)
    \<and> (stage \<noteq> final \<longrightarrow> run_stages p final (hashes @ [(stage, str_of (get (stage_meta (run_doc s1) stage) ''output_hash''))])
      (upstream @ [(stage, stage_meta (run_doc s1) stage)]) rest s1 = (Inr u, s'))"
  using assms by (auto simp: io_then_def io_bind_def io_get_def io_return_def split: prod.splits sum.splits if_splits)

lemma run_stages_success:
  "pre @ stages = stage_names \<Longrightarrow> map fst hashes = pre \<Longrightarrow> run_stages p final hashes upstream stages s = (Inr u, s') \<Longrightarrow>
    completed_chain p (run_doc s') final hashes stages \<and> same_metas pre (run_doc s) (run_doc s')"
proof (induction stages arbitrary: pre hashes upstream s)
  case Nil
  then show ?case by (simp add: io_return_def same_metas_def)
next
  case (Cons stage rest)
  have pre: "earlier stage = pre" by (rule earlier_prefix[OF Cons.prems(1)])
  have "distinct pre" using distinct_stage_names Cons.prems(1) by (metis distinct_append)
  then have keys: "distinct_keys (stage_fingerprint p stage hashes)" using distinct_keys_fingerprint Cons.prems(2) by simp
  obtain s1 where s1: "run_stage p stage (stage_fingerprint p stage hashes) upstream s = (Inr (), s1)"
    and final: "stage = final \<Longrightarrow> s' = s1"
    and next_stages: "stage \<noteq> final \<Longrightarrow> run_stages p final (hashes @ [(stage, str_of (get (stage_meta (run_doc s1) stage) ''output_hash''))])
      (upstream @ [(stage, stage_meta (run_doc s1) stage)]) rest s1 = (Inr u, s')"
    using run_stages_cases[OF Cons.prems(3)] by blast
  note one = run_stage_success[OF s1 keys, unfolded pre]
  show ?case
  proof (cases "stage = final")
    case True
    then show ?thesis using one final by simp
  next
    case False
    have "(pre @ [stage]) @ rest = stage_names" using Cons.prems(1) by simp
    from Cons.IH[OF this _ next_stages[OF False]] have rest: "completed_chain p (run_doc s') final
        (hashes @ [(stage, str_of (get (stage_meta (run_doc s1) stage) ''output_hash''))]) rest"
      "same_metas (pre @ [stage]) (run_doc s1) (run_doc s')" using Cons.prems(2) by auto
    have meta: "stage_meta (run_doc s') stage = stage_meta (run_doc s1) stage" using rest(2) by (simp add: same_metas_def)
    show ?thesis using one rest by (auto simp: meta completed_with_def same_metas_def)
  qed
qed

lemma write_run_success:
  assumes "write_run s = (Inr u, s')"
  shows "files s' run_path = Some (Json (run_doc s)) \<and> run_doc s' = run_doc s"
  using assms by (auto simp: write_run_def io_then_def io_bind_def io_modify_def os_step_def split: list.splits if_splits)

lemma run_body_success:
  assumes "run_body p final s = (Inr u, s')"
  shows "completed_chain p (run_doc s') final [] stage_names"
proof -
  obtain s1 where "run_stages p final [] [] stage_names s1 = (Inr u, s')"
    using assms unfolding run_body_def io_then_def by (auto elim!: io_bind_cases)
  then show ?thesis using run_stages_success[of "[]" stage_names "[]"] by simp
qed

lemma completed_chain_cong:
  "(\<And>n. stage_meta run n = stage_meta run' n) \<Longrightarrow> completed_chain p run final hashes stages = completed_chain p run' final hashes stages"
  by (induction stages arbitrary: hashes) (simp_all add: completed_with_def)

lemma run_pipeline_success:
  assumes "run_pipeline p target s = (Inr run, s')"
  defines "final \<equiv> (if target = ''analyze'' then last stage_names else target)"
  obtains s1 s2 u t where "final \<in> set stage_names" "run_body p final s = (Inr u, s1)" "run_doc s2 = fold (\<lambda>(k, v). put k v)
      [(''status'', JStr ''completed''), (''error'', JNull), (''ended_at'', JInt t)] (run_doc s1)"
    "write_run s2 = (Inr (), s')" "run = run_doc s'"
proof -
  have known: "target = ''analyze'' \<or> target \<in> set stage_names"
    using assms(1) by (auto simp: run_pipeline_def io_raise_def split: if_splits)
  then have final: "final \<in> set stage_names" by (auto simp: final_def stage_names_def)
  obtain r s1 where body: "run_body p final s = (r, s1)" by fastforce
  let ?s2 = "s1\<lparr>clock := Suc (clock s1), run_doc := fold (\<lambda>(k, v). put k v)
      [(''status'', JStr ''completed''), (''error'', JNull), (''ended_at'', JInt (int (clock s1)))] (run_doc s1)\<rparr>"
  have "r = Inr () \<and> write_run ?s2 = (Inr (), s') \<and> run = run_doc s'"
    using assms(1) known unfolding run_pipeline_def Let_def final_def[symmetric]
    by (cases r; cases "finalizer p") (auto simp: io_then_def io_bind_def io_try_def body io_return_def io_raise_def io_modify_def io_get_def now_def
        split: if_splits prod.splits sum.splits option.splits)
  then show ?thesis using that[of "()" s1 ?s2 "int (clock s1)"] final body by simp
qed

text \<open>C10. A run that returns has completed every stage up to its target, each for the fingerprint that the
  recorded output hashes of the stages before it determine, and has written the run document it returns.\<close>

theorem run_completes:
  assumes "run_pipeline p target s = (Inr run, s')"
  shows "run = run_doc s' \<and> files s' run_path = Some (Json run) \<and> get run ''status'' = JStr ''completed'' \<and> get run ''error'' = JNull
    \<and> completed_chain p run (if target = ''analyze'' then ''report'' else target) [] stage_names"
proof -
  let ?final = "if target = ''analyze'' then last stage_names else target"
  obtain s1 s2 u t where r: "run_body p ?final s = (Inr u, s1)" "run_doc s2 = fold (\<lambda>(k, v). put k v)
      [(''status'', JStr ''completed''), (''error'', JNull), (''ended_at'', JInt t)] (run_doc s1)"
    "write_run s2 = (Inr (), s')" "run = run_doc s'"
    by (rule run_pipeline_success[OF assms])
  have "completed_chain p (run_doc s2) ?final [] stage_names"
    using run_body_success[OF r(1)] completed_chain_cong[of "run_doc s2" "run_doc s1"] by (simp add: r(2) stage_meta_put)
  moreover have "last stage_names = ''report''" by (simp add: stage_names_def)
  ultimately have "completed_chain p (run_doc s2) (if target = ''analyze'' then ''report'' else target) [] stage_names"
    by (cases "target = ''analyze''") simp_all
  then show ?thesis using write_run_success[OF r(3)] r(2,4) by simp
qed

theorem run_stage_failure_witness:
  "let s = fresh Map.empty [] [] 0; r = run_stage bare_pipeline ''growth'' (JObj []) [] s; run = run_doc (snd r)
   in fst r = Inl (AnalyzerError ''INTERNAL_STAGE_EXECUTORS_UNAVAILABLE'' ''Production stage executors are unavailable.''
        [(''stage'', JStr ''growth'')])
      \<and> get run ''status'' = JStr ''failed'' \<and> get (stage_meta run ''growth'') ''status'' = JStr ''failed''
      \<and> (\<forall>n \<in> set (later ''growth''). stage_meta run n = pending)"
proof -
  let ?s = "fresh Map.empty [] [] 0"
  let ?r = "run_stage bare_pipeline ''growth'' (JObj []) [] ?s"
  let ?e = "AnalyzerError ''INTERNAL_STAGE_EXECUTORS_UNAVAILABLE'' ''Production stage executors are unavailable.'' [(''stage'', JStr ''growth'')]"
  have "\<not> reusable bare_pipeline ?s ''growth'' (JObj [])"
    by (simp add: reusable_def Let_def fresh_def stage_meta_def get_def members_def field_of_def is_mapping_def)
  then have run: "fst ?r = Inl ?e"
    by (simp add: run_stage_eq attempt_def execute_def bare_pipeline_def now_def io_simps is_exception_def
        stage_failed_def is_analyzer_error_def)
  from run_stage_failure[of "''growth''" bare_pipeline "JObj []" "[]" ?s ?e "snd ?r"]
  show ?thesis using run by (simp add: Let_def prod_eq_iff is_exception_def stage_names_def)
qed



definition working_pipeline :: pipeline where
  "working_pipeline = bare_pipeline\<lparr>executors := [''entries'' \<mapsto> (\<lambda>_. ReturnsOutput (text_output ''a.txt''))]\<rparr>"

lemma working_fields:
  "executors working_pipeline ''entries'' = Some (\<lambda>_. ReturnsOutput (text_output ''a.txt''))" "resume working_pipeline"
  "preflight working_pipeline = None" "finalizer working_pipeline = None"
  by (simp_all add: working_pipeline_def bare_pipeline_def)

lemma example_executes:
  assumes "faults s = []" "links s = []" "prior s ''entries'' = None" "files s [''a.txt''] = None" "files s (manifest_path ''entries'') = None"
  shows "\<exists>s'. attempt working_pipeline ''entries'' expected upstream s = (Inr (), s') \<and> faults s' = []"
proof -
  have plain: "\<not> endswith ''a.txt'' ''.private.jsonl''" by code_simp
  have none: "files s [''.stage-manifests'', ''entries.json''] = None" using assms(5) by (simp add: manifest_path_def)
  show ?thesis
    by (simp add: attempt_def execute_def working_fields now_def publish_simps write_run_def assms(1-4) none plain text_output_def
      safe_examples encode_new cong: io_weak_cong)
qed

lemma new_not_reusable:
  assumes "\<And>n. stage_meta (run_doc s) n = stage_meta (new_run p) n" "stage \<in> set stage_names"
  shows "\<not> reusable q s stage expected"
proof -
  have "stage_meta (new_run p) stage = pending"
    using assms(2) by (auto simp: stage_meta_def new_run_def stage_names_def get_def members_def field_of_def pending_def is_mapping_def Let_def)
  then show ?thesis by (simp add: reusable_def assms(1) pending_def get_def members_def field_of_def Let_def)
qed

lemma example_run_body: "\<exists>s'. run_body working_pipeline ''entries'' (fresh Map.empty [] [] 0) = (Inr (), s') \<and> faults s' = []"
proof -
  have runs: "\<exists>s'. run_stages working_pipeline ''entries'' [] [] stage_names s = (Inr (), s') \<and> faults s' = []"
    if s: "faults s = []" "links s = []" "prior s ''entries'' = None" "files s [''a.txt''] = None" "files s (manifest_path ''entries'') = None"
      "\<And>n. stage_meta (run_doc s) n = stage_meta (new_run working_pipeline) n" for s
  proof -
    let ?e = "stage_fingerprint working_pipeline ''entries'' []"
    have "\<not> reusable working_pipeline s ''entries'' ?e" by (rule new_not_reusable[OF s(6)]) (simp add: stage_names_def)
    moreover obtain s' where "attempt working_pipeline ''entries'' ?e [] (s\<lparr>run_doc := invalidate_from ''entries'' (run_doc s)\<rparr>) = (Inr (), s')"
      "faults s' = []"
      using example_executes[of "s\<lparr>run_doc := invalidate_from ''entries'' (run_doc s)\<rparr>" ?e "[]"] s(1-5) by auto
    moreover obtain rest where rest: "stage_names = ''entries'' # rest" by (simp add: stage_names_def)
    ultimately show ?thesis unfolding rest by (simp add: run_stage_eq io_simps)
  qed
  have other: "manifest_path ''entries'' \<noteq> run_path" "[''a.txt''] \<noteq> run_path" by (simp_all add: manifest_path_def run_path_def)
  show ?thesis
    by (simp add: run_body_def io_simps fresh_def load_run_def load_prior_def working_fields now_def begin_document_def record_identity_def
      write_run_def cong: io_weak_cong)
      (intro conjI impI; rule runs; simp add: stage_meta_put other load_prior_def)
qed


theorem run_completes_witness:
  "\<exists>run s'. run_pipeline working_pipeline ''entries'' (fresh Map.empty [] [] 0) = (Inr run, s')
     \<and> completed_chain working_pipeline run ''entries'' [] stage_names \<and> get run ''status'' = JStr ''completed''"
proof -
  obtain s1 where s1: "run_body working_pipeline ''entries'' (fresh Map.empty [] [] 0) = (Inr (), s1)" "faults s1 = []"
    using example_run_body by blast
  have known: "''entries'' \<in> set stage_names" by (simp add: stage_names_def)
  obtain run s' where "run_pipeline working_pipeline ''entries'' (fresh Map.empty [] [] 0) = (Inr run, s')"
    using known s1 by (simp add: run_pipeline_def io_simps working_fields now_def write_run_def cong: io_weak_cong)
  with run_completes[OF this] show ?thesis by auto
qed

end
