(* ===== verification/Completeness.thy ===== *)
theory Completeness
  imports GrowthModel
begin

text \<open>
  \<open>dosweb/growth/completeness.py\<close>: the records that account for every candidate Growth (its links to
  entries, the proofs against it, its disposition) and the applicability decisions. A class is a record;
  the definition with the class's name is its \<open>__post_init__\<close>.
\<close>

section \<open>Shared checks\<close>

definition completeness_invalid :: "string \<Rightarrow> py_exc" where
  "completeness_invalid message = AnalyzerError ''ANALYSIS_CANDIDATE_COMPLETENESS_INVALID'' message []"

definition association_values :: "string list" where
  "association_values = [''complete'', ''partial'']"

definition disposition_values :: "string list" where
  "disposition_values = [''formal_eligible'', ''gap_eligible'', ''rejected'', ''inventory_unresolved'']"

definition local_growth_values :: "string list" where
  "local_growth_values = [''complete'', ''partial'', ''rejected'', ''unknown'']"

definition association_status_values :: "string list" where
  "association_status_values = [''complete'', ''partial'', ''missing'', ''ambiguous'']"

definition negative_proof_kinds :: "string list" where
  "negative_proof_kinds = [''server_controlled_source'', ''non_retained_owner'', ''finite_keyspace'',
     ''generated_or_test_only'', ''guaranteed_synchronous_cleanup'', ''effective_local_bound'',
     ''false_entry_growth_flow'', ''not_entry_reachable'']"

definition applicability_values :: "string list" where
  "applicability_values = [''proven'', ''unknown'', ''not_applicable'']"

text \<open>\<open>_strings\<close>\<close>

definition completeness_strings :: "bool \<Rightarrow> string list \<Rightarrow> string \<Rightarrow> string list res" where
  "completeness_strings allow_empty values name =
     (if (\<not> allow_empty \<and> values = []) \<or> [] \<in> set values then Inl (completeness_invalid (name @ '' is invalid.''))
      else if usort values \<noteq> values then Inl (completeness_invalid (name @ '' must be deterministic.''))
      else Inr values)"

section \<open>Links\<close>

record entry_link =
  el_id :: string
  el_growth_id :: string
  el_entry_id :: string
  el_status :: string
  el_evidence :: "string list"
  el_reasons :: "string list"

definition link_identity :: "entry_link \<Rightarrow> (string \<times> json) list" where
  "link_identity l = [(''growth_id'', JStr (el_growth_id l)), (''entry_id'', JStr (el_entry_id l)),
     (''status'', JStr (el_status l)), (''evidence_ids'', JArr (map JStr (el_evidence l))),
     (''reason_codes'', JArr (map JStr (el_reasons l)))]"

definition CandidateEntryLink :: "entry_link \<Rightarrow> entry_link res" where
  "CandidateEntryLink l =
     (if \<not> startswith (el_growth_id l) ''growth:'' \<or> \<not> startswith (el_entry_id l) ''entry:''
        \<or> el_status l \<notin> set association_values
      then Inl (completeness_invalid ''Candidate entry link is invalid.'')
      else res_bind (completeness_strings False (el_evidence l) ''evidence_ids'') (\<lambda>_.
      res_bind (completeness_strings False (el_reasons l) ''reason_codes'') (\<lambda>_.
      if el_id l \<noteq> stable_identifier ''candidate_link'' (JObj (link_identity l))
      then Inl (completeness_invalid ''Candidate entry link id is invalid.'') else Inr l)))"

definition link_create :: "string \<Rightarrow> string \<Rightarrow> string \<Rightarrow> string list \<Rightarrow> string list \<Rightarrow> entry_link res" where
  "link_create growth entry status evidence reasons =
     (let l = \<lparr>el_id = [], el_growth_id = growth, el_entry_id = entry, el_status = status,
               el_evidence = usort evidence, el_reasons = usort reasons\<rparr>
      in CandidateEntryLink (l\<lparr>el_id := stable_identifier ''candidate_link'' (JObj (link_identity l))\<rparr>))"

definition link_to_dict :: "entry_link \<Rightarrow> json" where
  "link_to_dict l = JObj ((''link_id'', JStr (el_id l)) # link_identity l)"

section \<open>Negative proofs\<close>

record negative_proof =
  np_id :: string
  np_growth_id :: string
  np_kind :: string
  np_evidence :: "string list"
  np_reasons :: "string list"

definition negative_identity :: "negative_proof \<Rightarrow> (string \<times> json) list" where
  "negative_identity n = [(''growth_id'', JStr (np_growth_id n)), (''kind'', JStr (np_kind n)),
     (''evidence_ids'', JArr (map JStr (np_evidence n))), (''reason_codes'', JArr (map JStr (np_reasons n)))]"

definition CandidateNegativeProof :: "negative_proof \<Rightarrow> negative_proof res" where
  "CandidateNegativeProof n =
     (if \<not> startswith (np_growth_id n) ''growth:'' \<or> np_kind n \<notin> set negative_proof_kinds
      then Inl (completeness_invalid ''Candidate negative proof is invalid.'')
      else res_bind (completeness_strings False (np_evidence n) ''evidence_ids'') (\<lambda>_.
      res_bind (completeness_strings False (np_reasons n) ''reason_codes'') (\<lambda>_.
      if \<not> list_all is_fact_id (np_evidence n)
      then Inl (completeness_invalid ''Candidate negative proof evidence must be source-backed Growth facts.'')
      else if np_id n \<noteq> stable_identifier ''negative_proof'' (JObj (negative_identity n))
      then Inl (completeness_invalid ''Candidate negative proof id is invalid.'') else Inr n)))"

definition negative_create :: "string \<Rightarrow> string \<Rightarrow> string list \<Rightarrow> string list \<Rightarrow> negative_proof res" where
  "negative_create growth kind evidence reasons =
     (let n = \<lparr>np_id = [], np_growth_id = growth, np_kind = kind, np_evidence = usort evidence, np_reasons = usort reasons\<rparr>
      in CandidateNegativeProof (n\<lparr>np_id := stable_identifier ''negative_proof'' (JObj (negative_identity n))\<rparr>))"

definition negative_to_dict :: "negative_proof \<Rightarrow> json" where
  "negative_to_dict n = JObj ((''negative_proof_id'', JStr (np_id n)) # negative_identity n)"

section \<open>Dispositions\<close>

record candidate_disposition =
  cd_id :: string
  cd_growth_id :: string
  cd_status :: string
  cd_entry_id :: string
  cd_local_status :: string
  cd_association :: string
  cd_link_ids :: "string list"
  cd_evidence :: "string list"
  cd_negative_ids :: "string list"
  cd_reasons :: "string list"

definition disposition_identity :: "candidate_disposition \<Rightarrow> (string \<times> json) list" where
  "disposition_identity d = [(''growth_id'', JStr (cd_growth_id d)), (''status'', JStr (cd_status d)),
     (''canonical_entry_id'', JStr (cd_entry_id d)), (''local_growth_status'', JStr (cd_local_status d)),
     (''association_status'', JStr (cd_association d)), (''link_ids'', JArr (map JStr (cd_link_ids d))),
     (''evidence_ids'', JArr (map JStr (cd_evidence d))), (''negative_proof_ids'', JArr (map JStr (cd_negative_ids d))),
     (''reason_codes'', JArr (map JStr (cd_reasons d)))]"

definition is_negative_id :: "string \<Rightarrow> bool" where
  "is_negative_id s = startswith s ''negative_proof:''"

definition eligible_status :: "string \<Rightarrow> bool" where
  "eligible_status s \<longleftrightarrow> s \<in> {''formal_eligible'', ''gap_eligible''}"

definition CandidateDisposition :: "candidate_disposition \<Rightarrow> candidate_disposition res" where
  "CandidateDisposition d =
     (if \<not> startswith (cd_growth_id d) ''growth:'' \<or> cd_status d \<notin> set disposition_values
        \<or> cd_local_status d \<notin> set local_growth_values \<or> cd_association d \<notin> set association_status_values
        \<or> (cd_entry_id d \<noteq> [] \<and> \<not> startswith (cd_entry_id d) ''entry:'')
      then Inl (completeness_invalid ''Candidate disposition is invalid.'')
      else res_bind (completeness_strings True (cd_link_ids d) ''link_ids'') (\<lambda>_.
      res_bind (completeness_strings False (cd_evidence d) ''evidence_ids'') (\<lambda>_.
      res_bind (completeness_strings True (cd_negative_ids d) ''negative_proof_ids'') (\<lambda>_.
      res_bind (completeness_strings False (cd_reasons d) ''reason_codes'') (\<lambda>_.
      if \<not> list_all is_negative_id (cd_negative_ids d)
      then Inl (completeness_invalid ''Candidate negative proof reference is invalid.'')
      else if eligible_status (cd_status d) \<and> (length (cd_link_ids d) \<noteq> 1 \<or> cd_entry_id d = [])
      then Inl (completeness_invalid ''Eligible candidate needs one canonical Entry association.'')
      else if cd_status d = ''formal_eligible'' \<and> (cd_local_status d \<noteq> ''complete'' \<or> cd_association d \<noteq> ''complete''
        \<or> cd_negative_ids d \<noteq> [])
      then Inl (completeness_invalid ''Formal candidate evidence is incomplete.'')
      else if cd_status d = ''gap_eligible'' \<and> (cd_local_status d \<notin> {''complete'', ''partial''}
        \<or> cd_association d \<notin> {''complete'', ''partial''}
        \<or> (cd_local_status d = ''complete'' \<and> cd_association d = ''complete'') \<or> cd_negative_ids d \<noteq> [])
      then Inl (completeness_invalid ''Gap candidate evidence is invalid.'')
      else let cited = filter is_negative_id (cd_evidence d) in
      if cd_status d = ''rejected'' \<and> (cd_negative_ids d = [] \<or> set (cd_negative_ids d) \<noteq> set cited)
      then Inl (completeness_invalid ''Rejected candidate must cite deterministic negative proof records.'')
      else if cd_status d \<noteq> ''rejected'' \<and> (cd_negative_ids d \<noteq> [] \<or> cited \<noteq> [])
      then Inl (completeness_invalid ''Non-rejected candidate cannot carry negative proof records.'')
      else if cd_id d \<noteq> stable_identifier ''disposition'' (JObj (disposition_identity d))
      then Inl (completeness_invalid ''Candidate disposition id is invalid.'') else Inr d)))))"

definition disposition_create :: "string \<Rightarrow> string \<Rightarrow> string \<Rightarrow> string \<Rightarrow> string \<Rightarrow> string list \<Rightarrow> string list
    \<Rightarrow> string list \<Rightarrow> string list \<Rightarrow> candidate_disposition res" where
  "disposition_create growth status entry local association links evidence negatives reasons =
     (let d = \<lparr>cd_id = [], cd_growth_id = growth, cd_status = status, cd_entry_id = entry, cd_local_status = local,
               cd_association = association, cd_link_ids = usort links, cd_evidence = usort evidence,
               cd_negative_ids = usort negatives, cd_reasons = usort reasons\<rparr>
      in CandidateDisposition (d\<lparr>cd_id := stable_identifier ''disposition'' (JObj (disposition_identity d))\<rparr>))"

definition disposition_to_dict :: "candidate_disposition \<Rightarrow> json" where
  "disposition_to_dict d = JObj ((''disposition_id'', JStr (cd_id d)) # disposition_identity d)"

section \<open>Applicability decisions\<close>

record applicability_decision =
  ap_id :: string
  ap_entry_id :: string
  ap_growth_id :: string
  ap_status :: string
  ap_evidence :: "string list"
  ap_reasons :: "string list"
  ap_kind :: string

definition applicability_identity :: "applicability_decision \<Rightarrow> (string \<times> json) list" where
  "applicability_identity a = [(''entry_id'', JStr (ap_entry_id a)), (''growth_id'', JStr (ap_growth_id a)),
     (''status'', JStr (ap_status a)), (''evidence_ids'', JArr (map JStr (ap_evidence a))),
     (''reason_codes'', JArr (map JStr (ap_reasons a)))]"

definition applicability_id :: "applicability_decision \<Rightarrow> string" where
  "applicability_id a = stable_identifier ''reachability'' (JObj ((''kind'', JStr (ap_kind a)) # applicability_identity a))"

definition ApplicabilityDecision :: "applicability_decision \<Rightarrow> applicability_decision res" where
  "ApplicabilityDecision a =
     (if ap_kind a \<notin> {''repeatability'', ''amplification''} \<or> ap_status a \<notin> set applicability_values
        \<or> \<not> startswith (ap_entry_id a) ''entry:'' \<or> \<not> startswith (ap_growth_id a) ''growth:''
      then Inl (completeness_invalid ''Applicability decision is invalid.'')
      else res_bind (completeness_strings False (ap_evidence a) ''evidence_ids'') (\<lambda>_.
      res_bind (completeness_strings False (ap_reasons a) ''reason_codes'') (\<lambda>_.
      if ap_id a \<noteq> applicability_id a then Inl (completeness_invalid ''Applicability decision id is invalid.'')
      else Inr a)))"

definition applicability_create :: "string \<Rightarrow> string \<Rightarrow> string \<Rightarrow> string \<Rightarrow> string list \<Rightarrow> string list
    \<Rightarrow> applicability_decision res" where
  "applicability_create kind entry growth status evidence reasons =
     (let a = \<lparr>ap_id = [], ap_entry_id = entry, ap_growth_id = growth, ap_status = status,
               ap_evidence = usort evidence, ap_reasons = usort reasons, ap_kind = kind\<rparr>
      in ApplicabilityDecision (a\<lparr>ap_id := applicability_id a\<rparr>))"

definition applicability_to_dict :: "applicability_decision \<Rightarrow> json" where
  "applicability_to_dict a = JObj ((''decision_id'', JStr (ap_id a)) # applicability_identity a)"

section \<open>Creation\<close>

lemma completeness_strings_Inr:
  "completeness_strings allow_empty values name = Inr ws \<longleftrightarrow>
     ws = values \<and> (allow_empty \<or> values \<noteq> []) \<and> [] \<notin> set values \<and> usort values = values"
  by (auto simp: completeness_strings_def)

lemma link_create_Inr:
  "link_create growth entry status evidence reasons = Inr l \<longleftrightarrow>
     startswith growth ''growth:'' \<and> startswith entry ''entry:'' \<and> status \<in> set association_values
     \<and> evidence \<noteq> [] \<and> [] \<notin> set evidence \<and> reasons \<noteq> [] \<and> [] \<notin> set reasons
     \<and> l = (let k = \<lparr>el_id = [], el_growth_id = growth, el_entry_id = entry, el_status = status,
               el_evidence = usort evidence, el_reasons = usort reasons\<rparr>
            in k\<lparr>el_id := stable_identifier ''candidate_link'' (JObj (link_identity k))\<rparr>)"
  by (auto simp: link_create_def CandidateEntryLink_def Let_def res_bind_Inr_iff completeness_strings_Inr link_identity_def)

lemma link_create_fields:
  assumes "link_create growth entry status evidence reasons = Inr l"
  shows "el_growth_id l = growth" "el_entry_id l = entry" "el_status l = status" "el_evidence l = usort evidence"
    "el_reasons l = usort reasons" "CandidateEntryLink l = Inr l"
  using assms by (auto simp: link_create_Inr Let_def CandidateEntryLink_def completeness_strings_def link_identity_def)

lemma negative_create_Inr:
  "negative_create growth kind evidence reasons = Inr n \<longleftrightarrow>
     startswith growth ''growth:'' \<and> kind \<in> set negative_proof_kinds \<and> evidence \<noteq> [] \<and> [] \<notin> set evidence
     \<and> reasons \<noteq> [] \<and> [] \<notin> set reasons \<and> list_all is_fact_id (usort evidence)
     \<and> n = (let k = \<lparr>np_id = [], np_growth_id = growth, np_kind = kind, np_evidence = usort evidence, np_reasons = usort reasons\<rparr>
            in k\<lparr>np_id := stable_identifier ''negative_proof'' (JObj (negative_identity k))\<rparr>)"
  by (auto simp: negative_create_def CandidateNegativeProof_def Let_def res_bind_Inr_iff completeness_strings_Inr negative_identity_def)

text \<open>When a disposition is accepted.\<close>

definition disposition_ok :: "candidate_disposition \<Rightarrow> bool" where
  "disposition_ok d \<longleftrightarrow>
     startswith (cd_growth_id d) ''growth:'' \<and> cd_status d \<in> set disposition_values
     \<and> cd_local_status d \<in> set local_growth_values \<and> cd_association d \<in> set association_status_values
     \<and> (cd_entry_id d \<noteq> [] \<longrightarrow> startswith (cd_entry_id d) ''entry:'')
     \<and> [] \<notin> set (cd_link_ids d) \<and> cd_evidence d \<noteq> [] \<and> [] \<notin> set (cd_evidence d)
     \<and> cd_reasons d \<noteq> [] \<and> [] \<notin> set (cd_reasons d) \<and> list_all is_negative_id (cd_negative_ids d)
     \<and> set (cd_negative_ids d) = set (filter is_negative_id (cd_evidence d))
     \<and> (cd_status d = ''rejected'' \<longleftrightarrow> cd_negative_ids d \<noteq> [])
     \<and> (eligible_status (cd_status d) \<longrightarrow> length (cd_link_ids d) = 1 \<and> cd_entry_id d \<noteq> []
         \<and> cd_local_status d \<in> {''complete'', ''partial''} \<and> cd_association d \<in> {''complete'', ''partial''}
         \<and> (cd_status d = ''formal_eligible'' \<longleftrightarrow> cd_local_status d = ''complete'' \<and> cd_association d = ''complete''))"

lemma negative_id_nonempty: "is_negative_id s \<Longrightarrow> s \<noteq> []"
  by (auto simp: is_negative_id_def startswith_def)

lemma CandidateDisposition_ok:
  assumes "disposition_ok d" "usort (cd_link_ids d) = cd_link_ids d" "usort (cd_evidence d) = cd_evidence d"
    "usort (cd_negative_ids d) = cd_negative_ids d" "usort (cd_reasons d) = cd_reasons d"
    "cd_id d = stable_identifier ''disposition'' (JObj (disposition_identity d))"
  shows "CandidateDisposition d = Inr d"
proof -
  note ok = assms(1)[unfolded disposition_ok_def]
  have "list_all is_negative_id (cd_negative_ids d)" using ok by blast
  then have n: "[] \<notin> set (cd_negative_ids d)" using negative_id_nonempty by (auto simp: list_all_iff)
  have s: "completeness_strings True (cd_link_ids d) n1 = Inr (cd_link_ids d)"
    "completeness_strings False (cd_evidence d) n2 = Inr (cd_evidence d)"
    "completeness_strings True (cd_negative_ids d) n3 = Inr (cd_negative_ids d)"
    "completeness_strings False (cd_reasons d) n4 = Inr (cd_reasons d)" for n1 n2 n3 n4
    unfolding completeness_strings_Inr using ok n assms(2-5) by simp_all
  have c1: "(\<not> startswith (cd_growth_id d) ''growth:'' \<or> cd_status d \<notin> set disposition_values
        \<or> cd_local_status d \<notin> set local_growth_values \<or> cd_association d \<notin> set association_status_values
        \<or> (cd_entry_id d \<noteq> [] \<and> \<not> startswith (cd_entry_id d) ''entry:'')) = False"
    using ok by blast
  have c2: "(\<not> list_all is_negative_id (cd_negative_ids d)) = False" using ok by blast
  have c3: "(eligible_status (cd_status d) \<and> (length (cd_link_ids d) \<noteq> 1 \<or> cd_entry_id d = [])) = False"
    using ok by blast
  have e: "eligible_status (cd_status d) \<Longrightarrow> cd_negative_ids d = []"
  proof -
    assume "eligible_status (cd_status d)"
    then have "cd_status d \<noteq> ''rejected''" by (auto simp: eligible_status_def)
    then show "cd_negative_ids d = []" using ok by blast
  qed
  have el: "eligible_status ''formal_eligible''" "eligible_status ''gap_eligible''" by (simp_all add: eligible_status_def)
  have ne: "''gap_eligible'' \<noteq> ''formal_eligible''" by simp
  have c4: "(cd_status d = ''formal_eligible'' \<and> (cd_local_status d \<noteq> ''complete'' \<or> cd_association d \<noteq> ''complete''
        \<or> cd_negative_ids d \<noteq> [])) = False"
    using ok e el(1) by metis
  have c5: "(cd_status d = ''gap_eligible'' \<and> (cd_local_status d \<notin> {''complete'', ''partial''}
        \<or> cd_association d \<notin> {''complete'', ''partial''}
        \<or> (cd_local_status d = ''complete'' \<and> cd_association d = ''complete'') \<or> cd_negative_ids d \<noteq> [])) = False"
    using ok e el(2) ne by metis
  have c6: "(cd_status d = ''rejected'' \<and> (cd_negative_ids d = [] \<or> set (cd_negative_ids d) \<noteq> set (filter is_negative_id (cd_evidence d)))) = False"
    using ok by blast
  have "filter is_negative_id (cd_evidence d) = []" if "cd_negative_ids d = []"
    using ok that by (metis set_empty)
  then have c7: "(cd_status d \<noteq> ''rejected'' \<and> (cd_negative_ids d \<noteq> [] \<or> filter is_negative_id (cd_evidence d) \<noteq> [])) = False"
    using ok by blast
  show ?thesis
    unfolding CandidateDisposition_def Let_def
    by (simp only: c1 c2 c3 c4 c5 c6 c7 s res_bind_simps if_False assms(6)[symmetric] simp_thms)
qed

text \<open>The record that \<open>create\<close> checks.\<close>

definition disposition_of :: "string \<Rightarrow> string \<Rightarrow> string \<Rightarrow> string \<Rightarrow> string \<Rightarrow> string list \<Rightarrow> string list
    \<Rightarrow> string list \<Rightarrow> string list \<Rightarrow> candidate_disposition" where
  "disposition_of growth status entry local association links evidence negatives reasons =
     (let d = \<lparr>cd_id = [], cd_growth_id = growth, cd_status = status, cd_entry_id = entry, cd_local_status = local,
               cd_association = association, cd_link_ids = usort links, cd_evidence = usort evidence,
               cd_negative_ids = usort negatives, cd_reasons = usort reasons\<rparr>
      in d\<lparr>cd_id := stable_identifier ''disposition'' (JObj (disposition_identity d))\<rparr>)"

lemma disposition_of_simps [simp]:
  "cd_growth_id (disposition_of g st e lc a ls ev ns rs) = g" "cd_status (disposition_of g st e lc a ls ev ns rs) = st"
  "cd_entry_id (disposition_of g st e lc a ls ev ns rs) = e" "cd_local_status (disposition_of g st e lc a ls ev ns rs) = lc"
  "cd_association (disposition_of g st e lc a ls ev ns rs) = a" "cd_link_ids (disposition_of g st e lc a ls ev ns rs) = usort ls"
  "cd_evidence (disposition_of g st e lc a ls ev ns rs) = usort ev"
  "cd_negative_ids (disposition_of g st e lc a ls ev ns rs) = usort ns" "cd_reasons (disposition_of g st e lc a ls ev ns rs) = usort rs"
  by (simp_all add: disposition_of_def Let_def)

lemma disposition_create_of: "disposition_create g st e lc a ls ev ns rs = CandidateDisposition (disposition_of g st e lc a ls ev ns rs)"
  by (simp add: disposition_create_def disposition_of_def Let_def)

lemma disposition_create_ok:
  assumes "disposition_ok (disposition_of g st e lc a ls ev ns rs)"
  shows "disposition_create g st e lc a ls ev ns rs = Inr (disposition_of g st e lc a ls ev ns rs)"
    "CandidateDisposition (disposition_of g st e lc a ls ev ns rs) = Inr (disposition_of g st e lc a ls ev ns rs)"
proof -
  have "cd_id (disposition_of g st e lc a ls ev ns rs) =
      stable_identifier ''disposition'' (JObj (disposition_identity (disposition_of g st e lc a ls ev ns rs)))"
    by (simp add: disposition_of_def Let_def disposition_identity_def)
  then show "CandidateDisposition (disposition_of g st e lc a ls ev ns rs) = Inr (disposition_of g st e lc a ls ev ns rs)"
    by (intro CandidateDisposition_ok[OF assms]) simp_all
  then show "disposition_create g st e lc a ls ev ns rs = Inr (disposition_of g st e lc a ls ev ns rs)"
    by (simp add: disposition_create_of)
qed

lemma applicability_create_Inr:
  "applicability_create kind entry growth status evidence reasons = Inr a \<longleftrightarrow>
     kind \<in> {''repeatability'', ''amplification''} \<and> status \<in> set applicability_values
     \<and> startswith entry ''entry:'' \<and> startswith growth ''growth:'' \<and> evidence \<noteq> [] \<and> [] \<notin> set evidence
     \<and> reasons \<noteq> [] \<and> [] \<notin> set reasons
     \<and> a = (let b = \<lparr>ap_id = [], ap_entry_id = entry, ap_growth_id = growth, ap_status = status,
               ap_evidence = usort evidence, ap_reasons = usort reasons, ap_kind = kind\<rparr>
            in b\<lparr>ap_id := applicability_id b\<rparr>)"
  by (auto simp: applicability_create_def ApplicabilityDecision_def Let_def res_bind_Inr_iff completeness_strings_Inr
      applicability_id_def applicability_identity_def)

end
