(* ===== verification/Relevance.thy ===== *)
theory Relevance
  imports Completeness FlowModel
begin

text \<open>
  \<open>dosweb/growth/relevance.py\<close>: the gate before any call of the language model. A candidate is rejected on
  facts of its own, or becomes eligible on its link to an entry, or stays unresolved.
\<close>

section \<open>Decisions\<close>

definition relevance_statuses :: "string list" where
  "relevance_statuses = [''contract_eligible'', ''dos_relevant_partial'', ''rejected'', ''unresolved'']"

definition amplification_classes :: "string list" where
  "amplification_classes = [''superlinear'', ''large_single_request'', ''queue_instability'', ''concurrent_retention'',
     ''high_cardinality_retention'', ''low_amplification'', ''unknown'']"

record relevance_decision =
  rv_status :: string
  rv_amplification :: string
  rv_reasons :: "string list"

definition RelevanceDecision :: "relevance_decision \<Rightarrow> relevance_decision res" where
  "RelevanceDecision d =
     (if rv_status d \<notin> set relevance_statuses \<or> rv_amplification d \<notin> set amplification_classes
        \<or> rv_reasons d = [] \<or> length (rv_reasons d) > 16 \<or> usort (rv_reasons d) \<noteq> rv_reasons d
        \<or> list_ex (\<lambda>r. r = [] \<or> length r > 128) (rv_reasons d)
      then Inl (completeness_invalid ''Growth relevance decision is invalid.'') else Inr d)"

definition relevance :: "string \<Rightarrow> string \<Rightarrow> string list \<Rightarrow> relevance_decision res" where
  "relevance status amplification reasons =
     RelevanceDecision \<lparr>rv_status = status, rv_amplification = amplification, rv_reasons = usort reasons\<rparr>"

section \<open>Evidence\<close>

definition test_or_benchmark_path :: "string \<Rightarrow> bool" where
  "test_or_benchmark_path p =
     (let parts = map lower (path_parts p) in
      (case parts of [] \<Rightarrow> False | root # _ \<Rightarrow> root \<in> {''test'', ''tests'', ''benchmark'', ''benchmarks''})
      \<or> (length parts \<ge> 2 \<and> take 2 parts \<in> {[''src'', ''test''], [''src'', ''jmh''], [''src'', ''benchmark'']}))"

definition canonical_link :: "entry_fact option \<Rightarrow> growth_candidate \<Rightarrow> entry_link list \<Rightarrow> entry_link option" where
  "canonical_link entry candidate links =
     (case (entry, links) of
        (Some e, [l]) \<Rightarrow> if el_entry_id l \<noteq> entry_id e \<or> el_growth_id l \<noteq> growth_id candidate then None else Some l
      | _ \<Rightarrow> None)"

definition demand_matches_entry :: "entry_fact \<Rightarrow> growth_candidate \<Rightarrow> bool" where
  "demand_matches_entry entry candidate =
     list_ex (\<lambda>d. d_name d \<in> input_names entry
       \<or> length (filter (\<lambda>t. t \<in> input_names entry) (remdups (find_identifiers (d_name d)))) = 1) (g_demands candidate)"

text \<open>The notes joined by line feeds; a marker is looked for in the text.\<close>

definition note_text :: "growth_candidate \<Rightarrow> string" where
  "note_text candidate = join [CHR 0x0A] (g_coverage_notes candidate)"

definition noted :: "growth_candidate \<Rightarrow> string \<Rightarrow> bool" where
  "noted candidate marker = contains (note_text candidate) marker"

definition request_cardinality_notes :: "string list" where
  "request_cardinality_notes =
     [''request_local_container_write:key_driver_unclassified:attacker_controlled_loop_cardinality_proven'',
      ''request_local_container_write:attacker_value_driver:attacker_controlled_loop_cardinality_proven'',
      ''request_local_container_write:value_driver_unclassified:attacker_controlled_loop_cardinality_proven'']"

definition server_allocation_notes :: "string list" where
  "server_allocation_notes = [''direct_allocation:server_metadata_size'', ''direct_allocation:server_controlled_fixed_size'']"

definition finite_keyspace_markers :: "string list" where
  "finite_keyspace_markers = [''finite_enum_keyspace'', ''finite_class_keyspace'', ''finite_keyspace_complete'']"

definition request_materialization_operations :: "string list" where
  "request_materialization_operations = [''spring_request_body_materialization'',
     ''spring_request_body_string_materialization'', ''netty_full_http_request_string_materialization'',
     ''servlet_request_string_builder_materialization'']"

definition request_materialization_markers :: "string list" where
  "request_materialization_markers = [''recognized_mqtt_payload_api'', ''recognized_armeria_request_aggregation'',
     ''request_stream_origin_proven'', ''recognized_request_wrapper_string_materialization'']"

definition parser_markers :: "string list" where
  "parser_markers = [''stream_origin_unclassified'', ''recognized_read_all_materialization_api'',
     ''recognized_byte_array_output_stream_materialization'', ''parser_materialization_partial'']"

definition complete_candidate :: "growth_candidate \<Rightarrow> bool" where
  "complete_candidate candidate \<longleftrightarrow> g_coverage_status candidate = ''complete''"

definition partial_or_eligible :: "growth_candidate \<Rightarrow> string \<Rightarrow> string \<Rightarrow> relevance_decision res" where
  "partial_or_eligible candidate amplification reason =
     (if complete_candidate candidate then relevance ''contract_eligible'' amplification [reason]
      else relevance ''dos_relevant_partial'' amplification [reason, ''RELEVANCE_STATIC_EVIDENCE_PARTIAL''])"

section \<open>The families\<close>

definition materialization_relevance :: "growth_candidate \<Rightarrow> bool \<Rightarrow> relevance_decision res" where
  "materialization_relevance candidate association_partial =
     (let request_materialization = (g_operation candidate \<in> set request_materialization_operations
            \<or> list_ex (noted candidate) request_materialization_markers);
          parser_or_read_all = list_ex (noted candidate) parser_markers
      in if request_materialization \<and> \<not> association_partial
         then partial_or_eligible candidate ''large_single_request'' ''RELEVANCE_REQUEST_MATERIALIZATION''
         else if request_materialization \<or> parser_or_read_all
         then relevance ''dos_relevant_partial'' ''large_single_request'' [''RELEVANCE_PARSER_OR_READ_ALL_PARTIAL'']
         else relevance ''unresolved'' ''unknown'' [''RELEVANCE_MATERIALIZATION_ORIGIN_UNKNOWN''])"

definition allocation_relevance :: "entry_fact \<Rightarrow> growth_candidate \<Rightarrow> bool \<Rightarrow> relevance_decision res" where
  "allocation_relevance entry candidate association_partial =
     (let request_sized = (noted candidate ''request_derived_size'' \<or> demand_matches_entry entry candidate)
      in if request_sized \<and> \<not> association_partial
         then partial_or_eligible candidate ''large_single_request'' ''RELEVANCE_ATTACKER_SIZED_ALLOCATION''
         else if request_sized
         then relevance ''dos_relevant_partial'' ''large_single_request'' [''RELEVANCE_ATTACKER_SIZED_ALLOCATION_PARTIAL'']
         else relevance ''unresolved'' ''unknown'' [''RELEVANCE_ALLOCATION_SIZE_ORIGIN_UNKNOWN''])"

definition request_container_relevance :: "growth_candidate \<Rightarrow> bool \<Rightarrow> relevance_decision res" where
  "request_container_relevance candidate association_partial =
     (let attacker_cardinality = list_ex (\<lambda>n. n \<in> set request_cardinality_notes) (g_coverage_notes candidate)
      in if attacker_cardinality \<and> \<not> association_partial
         then partial_or_eligible candidate ''superlinear'' ''RELEVANCE_ATTACKER_CARDINALITY_REQUEST_LOCAL''
         else if attacker_cardinality
         then relevance ''dos_relevant_partial'' ''superlinear''
           [''RELEVANCE_ATTACKER_CARDINALITY_REQUEST_LOCAL'', ''RELEVANCE_STATIC_EVIDENCE_PARTIAL'']
         else relevance ''unresolved'' ''unknown'' [''RELEVANCE_REQUEST_LOCAL_CARDINALITY_UNPROVEN''])"

definition container_relevance :: "entry_fact \<Rightarrow> growth_candidate \<Rightarrow> bool \<Rightarrow> relevance_decision res" where
  "container_relevance entry candidate association_partial =
     (if g_escape_scope candidate = ''request'' then request_container_relevance candidate association_partial
      else if g_escape_scope candidate = ''session'' \<and> noted candidate ''fresh_session''
      then relevance ''unresolved'' ''low_amplification'' [''RELEVANCE_SESSION_CARDINALITY_UNPROVEN'']
      else let field_backed = (g_escape_scope candidate \<in> {''instance'', ''global''}
             \<and> (noted candidate ''field'' \<or> endswith (g_receiver candidate) (''.'' @ g_field_path candidate)));
           attacker_driver = (noted candidate ''attacker_key_driver'' \<or> noted candidate ''attacker_value_driver''
             \<or> demand_matches_entry entry candidate)
      in if field_backed \<and> attacker_driver \<and> \<not> association_partial
         then partial_or_eligible candidate
           (if noted candidate ''attacker_controlled_loop_multiplicity_proven'' then ''superlinear'' else ''high_cardinality_retention'')
           ''RELEVANCE_HIGH_CARDINALITY_RETENTION''
         else if field_backed
         then relevance ''dos_relevant_partial'' ''high_cardinality_retention'' [''RELEVANCE_FIELD_RETENTION_PARTIAL'']
         else relevance ''unresolved'' ''low_amplification'' [''RELEVANCE_REQUEST_LOCAL_OR_UNKNOWN_RETENTION''])"

definition async_relevance :: "growth_candidate \<Rightarrow> bool \<Rightarrow> relevance_decision res" where
  "async_relevance candidate association_partial =
     (if noted candidate ''attacker_controlled_loop_multiplicity_proven'' \<and> \<not> association_partial
      then partial_or_eligible candidate ''queue_instability'' ''RELEVANCE_ATTACKER_LOOP_SUBMISSION''
      else relevance ''dos_relevant_partial'' ''queue_instability'' [''RELEVANCE_QUEUE_CAPACITY_OR_MULTIPLICITY_PARTIAL''])"

text \<open>What the linked entry and the kind of the candidate decide.\<close>

definition family_relevance :: "entry_fact option \<Rightarrow> growth_candidate \<Rightarrow> entry_link list \<Rightarrow> relevance_decision res" where
  "family_relevance entry candidate links =
     (case (canonical_link entry candidate links, entry) of
        (Some link, Some e) \<Rightarrow>
          (let association_partial = (el_status link \<noteq> ''complete'') in
           if g_kind candidate = ''input_materialization'' then materialization_relevance candidate association_partial
           else if g_kind candidate = ''direct_allocation'' then allocation_relevance e candidate association_partial
           else if g_kind candidate = ''container_growth'' then container_relevance e candidate association_partial
           else if g_kind candidate = ''async_work_growth'' then async_relevance candidate association_partial
           else relevance ''unresolved'' ''unknown'' [''RELEVANCE_FAMILY_UNMODELED''])
      | _ \<Rightarrow> relevance ''unresolved'' ''unknown'' [''RELEVANCE_CANONICAL_ENTRY_UNPROVEN''])"

section \<open>The gate\<close>

definition server_sized :: "growth_candidate \<Rightarrow> bool" where
  "server_sized candidate \<longleftrightarrow> g_kind candidate = ''direct_allocation'' \<and> g_coverage_notes candidate \<noteq> []
     \<and> list_all (\<lambda>n. n \<in> set server_allocation_notes) (g_coverage_notes candidate)"

definition evaluate_candidate_relevance :: "entry_fact option \<Rightarrow> growth_candidate \<Rightarrow> entry_link list
    \<Rightarrow> relevance_decision res" where
  "evaluate_candidate_relevance entry candidate links =
     (if length links > 64 then relevance ''unresolved'' ''unknown'' [''RELEVANCE_LINK_FANOUT_EXCEEDED'']
      else if test_or_benchmark_path (sl_file (g_site candidate))
      then relevance ''rejected'' ''low_amplification'' [''RELEVANCE_TEST_OR_BENCHMARK_ONLY'']
      else if server_sized candidate then
        (if complete_candidate candidate
         then relevance ''rejected'' ''low_amplification'' [''RELEVANCE_SERVER_SIZED_ALLOCATION'']
         else relevance ''unresolved'' ''unknown'' [''RELEVANCE_ALLOCATION_SIZE_ORIGIN_PARTIAL''])
      else if noted candidate ''server_side_file_materialization'' then
        (if complete_candidate candidate
         then relevance ''rejected'' ''low_amplification'' [''RELEVANCE_SERVER_SIDE_MATERIALIZATION'']
         else relevance ''unresolved'' ''unknown'' [''RELEVANCE_MATERIALIZATION_ORIGIN_PARTIAL''])
      else if noted candidate ''fixed_key'' then
        (if complete_candidate candidate
         then relevance ''rejected'' ''low_amplification'' [''RELEVANCE_FIXED_KEY_RETENTION'']
         else relevance ''unresolved'' ''low_amplification'' [''RELEVANCE_FIXED_KEY_PARTIAL''])
      else if list_ex (noted candidate) finite_keyspace_markers then
        (if complete_candidate candidate
         then relevance ''rejected'' ''low_amplification'' [''RELEVANCE_FINITE_KEYSPACE'']
         else relevance ''unresolved'' ''low_amplification'' [''RELEVANCE_FINITE_KEYSPACE_PARTIAL''])
      else family_relevance entry candidate links)"

end
