(* ===== verification/Association.thy ===== *)
theory Association
  imports Relevance
begin

text \<open>
  The association of a candidate Growth with the entries (\<open>dosweb/production.py\<close>,
  \<open>_candidate_association\<close> and its helpers). The rows are decoded query rows: the decoder guarantees
  their columns and types, so a row is a record. \<open>str(row.get(...))\<close> and \<open>isinstance\<close> tests on them are
  therefore the plain column.
\<close>

section \<open>Rows\<close>

record flow_row =
  ar_source_file :: string
  ar_source_line :: int
  ar_sink_file :: string
  ar_sink_line :: int
  ar_target :: string
  ar_source :: string
  ar_sink :: string
  ar_call_path :: string
  ar_phases :: string
  ar_flow_kind :: string
  ar_confidence :: string
  ar_coverage_status :: string
  ar_coverage_note :: string

text \<open>What follows the first occurrence of a text: \<open>s.find(p)\<close> read together with the slice behind it.\<close>

fun after_first :: "string \<Rightarrow> string \<Rightarrow> string option" where
  "after_first s p = (if startswith s p then Some (drop (length p) s)
     else case s of [] \<Rightarrow> None | _ # t \<Rightarrow> after_first t p)"

declare after_first.simps [simp del]

text \<open>\<open>len\<close> of a text: the bytes that start a character.\<close>

definition text_length :: "string \<Rightarrow> nat" where
  "text_length s = length (filter (\<lambda>c. let n = of_char c :: nat in n < 128 \<or> 192 \<le> n) s)"

definition association_row_route :: "flow_row \<Rightarrow> string option" where
  "association_row_route row =
     (if ar_phases row \<noteq> ''entry>netty_json_switch>async>service>growth''
        \<or> ar_coverage_note row \<noteq> ''netty_json_switch_async_dispatch_requires_path_coverage'' then None
      else if text_length (ar_call_path row) > 4096 then None
      else case after_first (ar_call_path row) ''[/'' of
          None \<Rightarrow> None
        | Some rest \<Rightarrow> if CHR '']'' \<notin> set rest then None
            else let route = CHR ''/'' # takeWhile (\<lambda>c. c \<noteq> CHR '']'') rest
              in if list_ex is_blank route then None else Some route)"

definition entry_site_identity :: "entry_fact \<Rightarrow> (string \<times> string \<times> string \<times> string \<times> int) \<times> (string \<times> string \<times> string \<times> int)
    \<times> string \<times> (string \<times> string \<times> string) list \<times> string" where
  "entry_site_identity e =
     ((e_framework e, e_protocol e, h_callable (e_handler e), h_file (e_handler e), h_start_line (e_handler e)),
      (r_kind (e_registration e), r_callable (e_registration e), r_file (e_registration e), r_start_line (e_registration e)),
      auth_context e, map ai_key (attacker_inputs e), materialization_phase e)"

definition entry_ambiguous :: "entry_fact list \<Rightarrow> growth_candidate \<Rightarrow> py_exc" where
  "entry_ambiguous narrowed candidate = AnalyzerError ''ANALYSIS_GROWTH_ENTRY_AMBIGUOUS''
     ''Growth candidate must map to exactly one normalized entry.''
     [(''growth_id'', JStr (growth_id candidate)), (''match_count'', JInt (int (length narrowed)))]"

definition narrow_entries :: "entry_fact list \<Rightarrow> growth_candidate \<Rightarrow> entry_fact list" where
  "narrow_entries matches candidate =
     (let demand_names = d_name ` set (g_demands candidate);
          demand_matched = filter (\<lambda>e. demand_names \<inter> input_names e \<noteq> {}) matches
      in if demand_names \<noteq> {} \<and> demand_matched \<noteq> [] then demand_matched else matches)"

definition canonical_entry :: "entry_fact list \<Rightarrow> growth_candidate \<Rightarrow> entry_fact res" where
  "canonical_entry matches candidate =
     (let narrowed = narrow_entries matches candidate in
      case narrowed of
        [e] \<Rightarrow> Inr e
      | _ \<Rightarrow> if one_key entry_semantic_key narrowed
          then Inr (min_by (\<lambda>e. (entry_registration_identity e, entry_id e)) narrowed)
          else if one_key entry_registration_identity narrowed then Inr (min_by entry_id narrowed)
          else Inl (entry_ambiguous narrowed candidate))"

section \<open>Flow evidence\<close>

definition flow_identity :: "flow_row \<Rightarrow> string \<times> int \<times> string \<times> int \<times> string \<times> string \<times> string \<times> string" where
  "flow_identity row = (ar_source_file row, ar_source_line row, ar_sink_file row, ar_sink_line row,
     ar_target row, ar_sink row, ar_call_path row, ar_phases row)"

definition formal_flow_row_matches :: "growth_candidate \<Rightarrow> flow_row \<Rightarrow> flow_row list \<Rightarrow> bool" where
  "formal_flow_row_matches candidate association flow_rows =
     (let demand_names = map d_name (filter (\<lambda>d. d_role d = ar_target association) (g_demands candidate))
      in if \<not> list_ex (\<lambda>name. expression_binds_demand name (ar_sink association)) demand_names then False
         else list_ex (\<lambda>row. flow_identity row = flow_identity association \<and> ar_flow_kind row \<in> set data_flow_kinds) flow_rows)"

definition formal_row :: "entry_fact \<Rightarrow> flow_row \<Rightarrow> flow_row \<Rightarrow> bool" where
  "formal_row entry association row \<longleftrightarrow>
     flow_identity row = flow_identity association \<and> ar_source row \<in> input_names entry
     \<and> ar_flow_kind row \<in> set data_flow_kinds \<and> ar_confidence row = ''proven'' \<and> ar_coverage_status row = ''complete''"

definition formal_flow_witness :: "entry_fact \<Rightarrow> growth_candidate \<Rightarrow> flow_row \<Rightarrow> flow_row list \<Rightarrow> bool" where
  "formal_flow_witness entry candidate association flow_rows \<longleftrightarrow>
     formal_flow_row_matches candidate association flow_rows \<and> list_ex (formal_row entry association) flow_rows"

definition at_handler :: "entry_fact \<Rightarrow> flow_row \<Rightarrow> bool" where
  "at_handler entry row \<longleftrightarrow> ar_source_file row = h_file (e_handler entry) \<and> ar_source_line row = h_start_line (e_handler entry)"

definition at_site :: "growth_candidate \<Rightarrow> flow_row \<Rightarrow> bool" where
  "at_site candidate row \<longleftrightarrow> ar_sink_file row = sl_file (g_site candidate) \<and> ar_sink_line row = sl_line (g_site candidate)"

definition entry_candidate_has_formal_flow :: "entry_fact \<Rightarrow> growth_candidate \<Rightarrow> flow_row list \<Rightarrow> bool" where
  "entry_candidate_has_formal_flow entry candidate flow_rows =
     list_ex (\<lambda>row. at_handler entry row \<and> at_site candidate row \<and> ar_source row \<in> input_names entry
        \<and> formal_flow_witness entry candidate row [row]) flow_rows"

section \<open>The disposition of an association\<close>

definition canonical_id :: "entry_link list \<Rightarrow> string" where
  "canonical_id links = (case links of [l] \<Rightarrow> el_entry_id l | _ \<Rightarrow> [])"

definition association_disposition :: "growth_candidate \<Rightarrow> entry_link list \<Rightarrow> string \<Rightarrow> string list
    \<Rightarrow> candidate_disposition res" where
  "association_disposition candidate links association_status reasons =
     (let entry = canonical_id links;
          local = (if complete_candidate candidate then ''complete'' else ''partial'');
          status = (if entry \<noteq> [] \<and> association_status \<in> set association_values
            then (if local = ''complete'' \<and> association_status = ''complete'' then ''formal_eligible'' else ''gap_eligible'')
            else ''inventory_unresolved'');
          evidence = usort (g_evidence candidate @ map el_id links @ (if entry \<noteq> [] then [entry] else []))
      in disposition_create (growth_id candidate) status entry local association_status (map el_id links) evidence []
           (usort reasons))"

section \<open>The association\<close>

text \<open>One row and one entry at its handler.\<close>

definition claimed_complete :: "flow_row \<Rightarrow> bool" where
  "claimed_complete row \<longleftrightarrow> ar_coverage_status row = ''complete'' \<and> ar_confidence row = ''proven''"

definition row_reaches :: "entry_fact \<Rightarrow> flow_row \<Rightarrow> bool" where
  "row_reaches entry row \<longleftrightarrow> at_handler entry row
     \<and> (case association_row_route row of None \<Rightarrow> True | Some route \<Rightarrow> route_or_event entry = route)"

definition row_link :: "growth_candidate \<Rightarrow> flow_row list \<Rightarrow> flow_row \<Rightarrow> entry_fact \<Rightarrow> entry_link res" where
  "row_link candidate flow_rows row entry =
     (let flow_witness = formal_flow_witness entry candidate row flow_rows;
          status = (if claimed_complete row \<and> flow_witness then ''complete'' else ''partial'');
          reasons = [ar_coverage_note row]
            @ (if association_row_route row \<noteq> None then [''ASSOCIATION_QUERY_ROUTE_ALIAS_MATCHED''] else [])
            @ (if \<not> formal_flow_row_matches candidate row flow_rows then [''FLOW_CODEQL_ROW_MISSING'']
               else if claimed_complete row \<and> \<not> flow_witness then [''FLOW_FORMAL_PROOF_INCOMPLETE''] else [])
      in link_create (growth_id candidate) (entry_id entry) status [growth_id candidate, entry_id entry] (usort reasons))"

definition query_pairs :: "entry_fact list \<Rightarrow> growth_candidate \<Rightarrow> flow_row list \<Rightarrow> (flow_row \<times> entry_fact) list" where
  "query_pairs entries candidate association_rows =
     concat (map (\<lambda>row. map (Pair row) (filter (\<lambda>e. row_reaches e row) entries))
       (filter (at_site candidate) association_rows))"

definition query_links :: "entry_fact list \<Rightarrow> growth_candidate \<Rightarrow> flow_row list \<Rightarrow> flow_row list \<Rightarrow> entry_link list res" where
  "query_links entries candidate association_rows flow_rows =
     map_res (\<lambda>(row, entry). row_link candidate flow_rows row entry) (query_pairs entries candidate association_rows)"

text \<open>\<open>list({key(x): x for x in xs}.values())\<close>\<close>

definition dict_values :: "('a \<Rightarrow> 'k) \<Rightarrow> 'a list \<Rightarrow> 'a list" where
  "dict_values key xs = map (last \<circ> snd) (fold (\<lambda>x. group_append (key x) x) xs [])"

definition netty_base_pattern :: "string option" where
  "netty_base_pattern = registration_coverage_pattern_id ''netty'' ''pipeline_registration'' ''netty_pipeline_registration''"

text \<open>A candidate with one canonical link.\<close>

definition canonicalized :: "growth_candidate \<Rightarrow> string \<Rightarrow> string \<Rightarrow> string list \<Rightarrow> (entry_link list \<times> candidate_disposition) res" where
  "canonicalized candidate entry status reasons =
     res_bind (link_create (growth_id candidate) entry status [growth_id candidate, entry] (usort reasons)) (\<lambda>link.
     res_bind (association_disposition candidate [link] status (''ASSOCIATION_QUERY_EVIDENCE'' # el_reasons link)) (\<lambda>d.
     Inr ([link], d)))"

definition linked_association :: "(string \<times> entry_fact) list \<Rightarrow> growth_candidate \<Rightarrow> entry_link list
    \<Rightarrow> (entry_link list \<times> candidate_disposition) res" where
  "linked_association entries candidate linked =
     res_bind (map_res (\<lambda>l. item (map_of entries) (el_entry_id l)) linked) (\<lambda>linked_entries.
     let base_links = map fst (filter (\<lambda>(l, e). Some (registration_pattern_id e) = netty_base_pattern) (zip linked linked_entries));
         one_registration = (length linked > 1 \<and> one_key entry_site_identity linked_entries \<and> one_key el_status linked)
     in if one_registration \<and> length base_links = 1 then
          (let base = hd base_links in
           canonicalized candidate (el_entry_id base) (el_status base)
             (''ASSOCIATION_QUERY_HANDLER_BASE_CANONICALIZED'' # el_reasons base))
        else if one_registration then
          res_bind (canonical_entry linked_entries candidate) (\<lambda>canonical.
          canonicalized candidate (entry_id canonical)
            (if list_all (\<lambda>l. el_status l = ''complete'') linked then ''complete'' else ''partial'')
            (''ASSOCIATION_QUERY_DUPLICATE_REGISTRATION_CANONICALIZED'' # concat (map el_reasons linked)))
        else if length linked > 64 then
          res_bind (association_disposition candidate [] ''ambiguous'' [''ASSOCIATION_ENTRY_FANOUT_PARTITION_AMBIGUOUS'']) (\<lambda>d.
          Inr ([], d))
        else
          res_bind (association_disposition candidate linked
            (if length linked = 1 then el_status (hd linked) else ''ambiguous'')
            (''ASSOCIATION_QUERY_EVIDENCE'' # concat (map el_reasons linked))) (\<lambda>d.
          Inr (linked, d)))"

text \<open>The fallback on handlers above the site in the same file.\<close>

definition handlers_above :: "entry_fact list \<Rightarrow> growth_candidate \<Rightarrow> entry_fact list" where
  "handlers_above entries candidate = sort_key entry_id
     (filter (\<lambda>e. h_file (e_handler e) = sl_file (g_site candidate)
        \<and> h_start_line (e_handler e) \<le> sl_line (g_site candidate)) entries)"

definition nearest_handlers :: "entry_fact list \<Rightarrow> entry_fact list" where
  "nearest_handlers matches =
     (let nearest = Max (set (map (\<lambda>e. h_start_line (e_handler e)) matches))
      in filter (\<lambda>e. h_start_line (e_handler e) = nearest) matches)"

definition source_order_links :: "growth_candidate \<Rightarrow> flow_row list \<Rightarrow> entry_fact list
    \<Rightarrow> (entry_link list \<times> candidate_disposition) res" where
  "source_order_links candidate flow_rows matches =
     (let missing = (if list_ex (\<lambda>e. \<not> entry_candidate_has_formal_flow e candidate flow_rows) matches
            then [''FLOW_CODEQL_ROW_MISSING''] else [])
      in res_bind (map_res (\<lambda>e. link_create (growth_id candidate) (entry_id e) ''partial'' [growth_id candidate, entry_id e]
             (usort (''ASSOCIATION_LEGACY_SOURCE_ORDER_PARTIAL'' # missing))) matches) (\<lambda>links.
         res_bind (association_disposition candidate links (if length links = 1 then ''partial'' else ''ambiguous'')
             (''ASSOCIATION_CALL_GRAPH_UNAVAILABLE'' # missing)) (\<lambda>d.
         Inr (links, d))))"

definition source_order_association :: "entry_fact list \<Rightarrow> growth_candidate \<Rightarrow> flow_row list
    \<Rightarrow> (entry_link list \<times> candidate_disposition) res" where
  "source_order_association entries candidate flow_rows =
     (let matches = handlers_above entries candidate in
      if matches = [] then
        res_bind (association_disposition candidate [] ''missing'' [''ASSOCIATION_ENTRY_COVERAGE_UNPROVEN'']) (\<lambda>d. Inr ([], d))
      else res_bind (if one_key entry_semantic_key matches
          then res_bind (canonical_entry matches candidate) (\<lambda>e. Inr [e]) else Inr matches) (\<lambda>matches.
      if length matches > 1 then
        (case canonical_entry (nearest_handlers matches) candidate of
           Inr e \<Rightarrow> source_order_links candidate flow_rows [e]
         | Inl (AnalyzerError code m details) \<Rightarrow>
             if code \<noteq> ''ANALYSIS_GROWTH_ENTRY_AMBIGUOUS'' then Inl (AnalyzerError code m details)
             else res_bind (association_disposition candidate [] ''ambiguous''
                 [''ASSOCIATION_ENTRY_FANOUT_PARTITION_AMBIGUOUS'']) (\<lambda>d. Inr ([], d))
         | Inl e \<Rightarrow> Inl e)
      else source_order_links candidate flow_rows matches))"

definition candidate_association :: "(string \<times> entry_fact) list \<Rightarrow> growth_candidate \<Rightarrow> flow_row list \<Rightarrow> flow_row list
    \<Rightarrow> (entry_link list \<times> candidate_disposition) res" where
  "candidate_association entries candidate association_rows flow_rows =
     res_bind (query_links (map snd entries) candidate association_rows flow_rows) (\<lambda>linked.
     if linked \<noteq> [] then linked_association entries candidate (dict_values el_id linked)
     else source_order_association (map snd entries) candidate flow_rows)"

end
