(* ===== verification/Regex.thy ===== *)
theory Regex
  imports PyString
begin

text \<open>
  Regular expressions as Python's \<open>re\<close> rx_matches them, as far as the code uses them: classes of characters,
  rx_seq, rx_choice, greedy repetition and the rx_word boundary. A match is looked for from a rx_place of the text,
  of which the character before it and the rest matter; the matcher returns the places where a match can
  end, in the order in which backtracking meets them, so the first one is the match Python reports. Bytes of
  characters outside ASCII count as letters.
\<close>

section \<open>Expressions and the matcher\<close>

datatype rx =
    Eps
  | Cls "char \<Rightarrow> bool"
  | Bnd
  | Cat rx rx
  | Alt rx rx
  | Rep rx

definition is_word :: "char \<Rightarrow> bool" where
  "is_word c = (let n = of_char c :: nat in
     (48 \<le> n \<and> n \<le> 57) \<or> (65 \<le> n \<and> n \<le> 90) \<or> n = 95 \<or> (97 \<le> n \<and> n \<le> 122) \<or> 128 \<le> n)"

text \<open>A place: whether a word character precedes it, and the text behind it.\<close>

type_synonym rx_place = "bool \<times> string"

definition at_word :: "string \<Rightarrow> bool" where
  "at_word s = (case s of [] \<Rightarrow> False | c # _ \<Rightarrow> is_word c)"

text \<open>Greedy repetition; each round must consume a character, so the length of the text is fuel enough.\<close>

primrec rx_rounds :: "(rx_place \<Rightarrow> rx_place list) \<Rightarrow> nat \<Rightarrow> rx_place \<Rightarrow> rx_place list" where
  "rx_rounds f 0 p = [p]"
| "rx_rounds f (Suc n) p = concat (map (rx_rounds f n) (filter (\<lambda>q. length (snd q) < length (snd p)) (f p))) @ [p]"

primrec rx_ends :: "rx \<Rightarrow> rx_place \<Rightarrow> rx_place list" where
  "rx_ends Eps p = [p]"
| "rx_ends (Cls f) p = (case snd p of [] \<Rightarrow> [] | c # s \<Rightarrow> if f c then [(is_word c, s)] else [])"
| "rx_ends Bnd p = (if fst p \<noteq> at_word (snd p) then [p] else [])"
| "rx_ends (Cat a b) p = concat (map (rx_ends b) (rx_ends a p))"
| "rx_ends (Alt a b) p = rx_ends a p @ rx_ends b p"
| "rx_ends (Rep a) p = rx_rounds (rx_ends a) (length (snd p)) p"

fun rx_search_from :: "rx \<Rightarrow> bool \<Rightarrow> string \<Rightarrow> bool" where
  "rx_search_from r w [] = (rx_ends r (w, []) \<noteq> [])"
| "rx_search_from r w (c # s) = (rx_ends r (w, c # s) \<noteq> [] \<or> rx_search_from r (is_word c) s)"

definition rx_search :: "rx \<Rightarrow> string \<Rightarrow> bool" where
  "rx_search r s = rx_search_from r False s"

text \<open>Abbreviating constructors: a letter in either case, a text, a choice, optional and repeated parts.\<close>

definition rx_fold :: "char \<Rightarrow> rx" where
  "rx_fold c = Cls (\<lambda>x. lower_char x = lower_char c)"

definition one_of :: "string \<Rightarrow> rx" where
  "one_of cs = Cls (\<lambda>x. x \<in> set cs)"

fun rx_word :: "string \<Rightarrow> rx" where
  "rx_word [] = Eps"
| "rx_word [c] = rx_fold c"
| "rx_word (c # s) = Cat (rx_fold c) (rx_word s)"

fun rx_seq :: "rx list \<Rightarrow> rx" where
  "rx_seq [] = Eps"
| "rx_seq [r] = r"
| "rx_seq (r # rs) = Cat r (rx_seq rs)"

text \<open>A choice of expressions; there is at least one.\<close>

fun rx_choice :: "rx list \<Rightarrow> rx" where
  "rx_choice [] = Cls (\<lambda>_. False)"
| "rx_choice [r] = r"
| "rx_choice (r # rs) = Alt r (rx_choice rs)"

definition rx_opt :: "rx \<Rightarrow> rx" where
  "rx_opt r = Alt r Eps"

definition rx_some :: "rx \<Rightarrow> rx" where
  "rx_some r = Cat r (Rep r)"

definition rx_blanks :: rx where
  "rx_blanks = Rep (Cls is_blank)"

section \<open>What the matcher finds\<close>

definition word_after :: "bool \<Rightarrow> string \<Rightarrow> bool" where
  "word_after w u = (if u = [] then w else is_word (last u))"

text \<open>\<open>rx_matches r w u v\<close>: the expression rx_matches the text \<open>u\<close> between a rx_place with \<open>w\<close> and the text \<open>v\<close>.\<close>

inductive rx_matches :: "rx \<Rightarrow> bool \<Rightarrow> string \<Rightarrow> string \<Rightarrow> bool" where
  match_Eps: "rx_matches Eps w [] v"
| match_Cls: "f c \<Longrightarrow> rx_matches (Cls f) w [c] v"
| match_Bnd: "w \<noteq> at_word v \<Longrightarrow> rx_matches Bnd w [] v"
| match_Cat: "rx_matches a w u (u' @ v) \<Longrightarrow> rx_matches b (word_after w u) u' v \<Longrightarrow> rx_matches (Cat a b) w (u @ u') v"
| match_Left: "rx_matches a w u v \<Longrightarrow> rx_matches (Alt a b) w u v"
| match_Right: "rx_matches b w u v \<Longrightarrow> rx_matches (Alt a b) w u v"
| match_Stop: "rx_matches (Rep a) w [] v"
| match_Round: "u \<noteq> [] \<Longrightarrow> rx_matches a w u (u' @ v) \<Longrightarrow> rx_matches (Rep a) (word_after w u) u' v
    \<Longrightarrow> rx_matches (Rep a) w (u @ u') v"

inductive_cases match_EpsE: "rx_matches Eps w u v"
inductive_cases match_ClsE: "rx_matches (Cls f) w u v"
inductive_cases match_BndE: "rx_matches Bnd w u v"
inductive_cases match_CatE: "rx_matches (Cat a b) w u v"
inductive_cases match_AltE: "rx_matches (Alt a b) w u v"
inductive_cases match_RepE: "rx_matches (Rep a) w u v"

lemma word_after_Nil [simp]: "word_after w [] = w"
  by (simp add: word_after_def)

lemma word_after_append [simp]: "word_after w (u @ u') = word_after (word_after w u) u'"
  by (simp add: word_after_def)

lemma word_after_single [simp]: "word_after w [c] = is_word c"
  by (simp add: word_after_def)

text \<open>The places a matcher returns are those behind a matched text.\<close>

definition finds :: "(rx_place \<Rightarrow> rx_place list) \<Rightarrow> rx \<Rightarrow> bool" where
  "finds f r \<longleftrightarrow> (\<forall>w s w' v. (w', v) \<in> set (f (w, s)) \<longleftrightarrow> (\<exists>u. s = u @ v \<and> w' = word_after w u \<and> rx_matches r w u v))"

lemma findsD: "finds f r \<Longrightarrow> (w', v) \<in> set (f (w, s)) \<longleftrightarrow> (\<exists>u. s = u @ v \<and> w' = word_after w u \<and> rx_matches r w u v)"
  by (simp add: finds_def)

lemma rounds_sound:
  assumes "finds f r" "(w', v) \<in> set (rx_rounds f n (w, s))"
  shows "\<exists>u. s = u @ v \<and> w' = word_after w u \<and> rx_matches (Rep r) w u v"
  using assms(2)
proof (induction n arbitrary: w s)
  case (Suc n)
  then consider "w' = w" "v = s" | q where "q \<in> set (f (w, s))" "length (snd q) < length s" "(w', v) \<in> set (rx_rounds f n q)"
    by auto
  then show ?case
  proof cases
    case 1
    then show ?thesis using match_Stop by fastforce
  next
    case 2
    obtain w1 s1 where q: "q = (w1, s1)" by fastforce
    obtain u where u: "s = u @ s1" "w1 = word_after w u" "rx_matches r w u s1"
      using 2(1) findsD[OF assms(1)] unfolding q by blast
    obtain u' where u': "s1 = u' @ v" "w' = word_after w1 u'" "rx_matches (Rep r) w1 u' v"
      using Suc.IH 2(3) unfolding q by blast
    have "u \<noteq> []" using 2(2) u(1) q by auto
    then have "rx_matches (Rep r) w (u @ u') v" using u u' match_Round by blast
    then show ?thesis using u u' by (intro exI[of _ "u @ u'"]) simp
  qed
qed (use match_Stop in fastforce)

lemma rounds_complete:
  assumes "finds f r" "rx_matches (Rep r) w u v" "length u \<le> n"
  shows "(word_after w u, v) \<in> set (rx_rounds f n (w, u @ v))"
  using assms(3,2)
proof (induction n arbitrary: w u)
  case (Suc n)
  consider "u = []" | u1 u2 where "u = u1 @ u2" "u1 \<noteq> []" "rx_matches r w u1 (u2 @ v)" "rx_matches (Rep r) (word_after w u1) u2 v"
    using Suc.prems(2) by (rule match_RepE) blast+
  then show ?case
  proof cases
    case 2
    have "(word_after w u1, u2 @ v) \<in> set (f (w, u1 @ u2 @ v))" using 2 findsD[OF assms(1)] by blast
    moreover have "(word_after (word_after w u1) u2, v) \<in> set (rx_rounds f n (word_after w u1, u2 @ v))"
      using 2 Suc.prems(1) by (intro Suc.IH) (cases u1, auto)
    ultimately show ?thesis using 2 by fastforce
  qed auto
qed auto

lemma ends_finds: "finds (rx_ends r) r"
proof (induction r)
  case (Cls f)
  show ?case unfolding finds_def
    by (auto split: list.splits intro: match_Cls elim!: match_ClsE)
next
  case (Cat a b)
  show ?case unfolding finds_def
  proof (intro allI iffI)
    fix w s w' v assume "(w', v) \<in> set (rx_ends (Cat a b) (w, s))"
    then obtain w1 s1 where p: "(w1, s1) \<in> set (rx_ends a (w, s))" "(w', v) \<in> set (rx_ends b (w1, s1))" by auto
    obtain u where u: "s = u @ s1" "w1 = word_after w u" "rx_matches a w u s1" using p(1) unfolding findsD[OF Cat.IH(1)] by blast
    obtain u' where u': "s1 = u' @ v" "w' = word_after w1 u'" "rx_matches b w1 u' v" using p(2) unfolding findsD[OF Cat.IH(2)] by blast
    have "rx_matches (Cat a b) w (u @ u') v" using u u' by (auto intro: match_Cat)
    with u u' show "\<exists>u. s = u @ v \<and> w' = word_after w u \<and> rx_matches (Cat a b) w u v"
      by (intro exI[of _ "u @ u'"]) simp
  next
    fix w s w' v assume "\<exists>u. s = u @ v \<and> w' = word_after w u \<and> rx_matches (Cat a b) w u v"
    then obtain t where t: "s = t @ v" "w' = word_after w t" "rx_matches (Cat a b) w t v" by blast
    from t(3) obtain u u' where "t = u @ u'" and m: "rx_matches a w u (u' @ v)" "rx_matches b (word_after w u) u' v"
      by (rule match_CatE) blast
    with t(1,2) have s: "s = u @ u' @ v" "w' = word_after (word_after w u) u'"
      "rx_matches a w u (u' @ v)" "rx_matches b (word_after w u) u' v" by simp_all
    have "(word_after w u, u' @ v) \<in> set (rx_ends a (w, s))" using s findsD[OF Cat.IH(1)] by blast
    moreover have "(w', v) \<in> set (rx_ends b (word_after w u, u' @ v))" using s findsD[OF Cat.IH(2)] by blast
    ultimately show "(w', v) \<in> set (rx_ends (Cat a b) (w, s))" by force
  qed
next
  case (Alt a b)
  then show ?case unfolding finds_def by (auto intro: match_Left match_Right elim!: match_AltE)
next
  case (Rep a)
  show ?case unfolding finds_def
  proof (intro allI iffI)
    fix w s w' v assume "(w', v) \<in> set (rx_ends (Rep a) (w, s))"
    then show "\<exists>u. s = u @ v \<and> w' = word_after w u \<and> rx_matches (Rep a) w u v"
      using rounds_sound[OF Rep.IH] by simp
  next
    fix w s w' v assume "\<exists>u. s = u @ v \<and> w' = word_after w u \<and> rx_matches (Rep a) w u v"
    then obtain u where u: "s = u @ v" "w' = word_after w u" "rx_matches (Rep a) w u v" by blast
    have "(word_after w u, v) \<in> set (rx_rounds (rx_ends a) (length s) (w, u @ v))"
      using u by (intro rounds_complete[OF Rep.IH]) simp_all
    then show "(w', v) \<in> set (rx_ends (Rep a) (w, s))" using u by simp
  qed
qed (auto simp: finds_def intro: match_Eps match_Bnd elim!: match_EpsE match_BndE)

lemma ends_iff: "(w', v) \<in> set (rx_ends r (w, s)) \<longleftrightarrow> (\<exists>u. s = u @ v \<and> w' = word_after w u \<and> rx_matches r w u v)"
  by (rule findsD[OF ends_finds])

lemma ends_nonempty_iff: "rx_ends r (w, s) \<noteq> [] \<longleftrightarrow> (\<exists>u v. s = u @ v \<and> rx_matches r w u v)"
proof -
  have "rx_ends r (w, s) \<noteq> [] \<longleftrightarrow> (\<exists>w' v. (w', v) \<in> set (rx_ends r (w, s)))" by (cases "rx_ends r (w, s)") auto
  then show ?thesis by (auto simp: ends_iff)
qed

lemma search_from_iff:
  "rx_search_from r w s \<longleftrightarrow> (\<exists>a u v. s = a @ u @ v \<and> rx_matches r (word_after w a) u v)"
proof (induction r w s rule: rx_search_from.induct)
  case (2 r w c s)
  show ?case
  proof
    assume "rx_search_from r w (c # s)"
    then consider u v where "c # s = u @ v" "rx_matches r w u v" | a u v where "s = a @ u @ v" "rx_matches r (word_after (is_word c) a) u v"
      using 2 ends_nonempty_iff by auto
    then show "\<exists>a u v. c # s = a @ u @ v \<and> rx_matches r (word_after w a) u v"
    proof cases
      case 1
      then show ?thesis by (intro exI[of _ "[]"] exI[of _ u] exI[of _ v]) simp
    next
      case 2
      have "word_after w (c # a) = word_after (is_word c) a" by (simp add: word_after_def)
      then show ?thesis using 2 by (intro exI[of _ "c # a"] exI[of _ u] exI[of _ v]) simp
    qed
  next
    assume "\<exists>a u v. c # s = a @ u @ v \<and> rx_matches r (word_after w a) u v"
    then obtain a u v where a: "c # s = a @ u @ v" "rx_matches r (word_after w a) u v" by blast
    show "rx_search_from r w (c # s)"
    proof (cases a)
      case Nil
      then have "rx_ends r (w, c # s) \<noteq> []" using a unfolding ends_nonempty_iff by (intro exI[of _ u] exI[of _ v]) simp
      then show ?thesis by simp
    next
      case (Cons d t)
      then have "word_after w a = word_after (is_word c) t" using a(1) by (simp add: word_after_def)
      then have "rx_search_from r (is_word c) s" using 2 a Cons by auto
      then show ?thesis by simp
    qed
  qed
qed (use ends_nonempty_iff in auto)

text \<open>A search succeeds exactly when the expression matches a part of the text.\<close>

lemma search_iff: "rx_search r s \<longleftrightarrow> (\<exists>a u v. s = a @ u @ v \<and> rx_matches r (word_after False a) u v)"
  by (simp add: rx_search_def search_from_iff)

lemma search_Alt: "rx_search (Alt a b) s \<longleftrightarrow> rx_search a s \<or> rx_search b s"
  by (auto simp: search_iff intro: match_Left match_Right elim!: match_AltE)

lemma search_choice:
  "rs \<noteq> [] \<Longrightarrow> rx_search (rx_choice rs) s \<longleftrightarrow> (\<exists>r \<in> set rs. rx_search r s)"
  by (induction rs rule: rx_choice.induct) (auto simp: search_Alt)

lemma search_one_of: "rx_search (one_of cs) s \<longleftrightarrow> (\<exists>c \<in> set s. c \<in> set cs)"
proof -
  have "rx_matches (one_of cs) w u v \<longleftrightarrow> (\<exists>c \<in> set cs. u = [c])" for w u v
    by (auto simp: one_of_def intro: match_Cls elim: match_ClsE)
  then show ?thesis by (auto simp: search_iff in_set_conv_decomp) (metis append_Cons append_Nil)+
qed

end
