(* ===== verification/Contracts.thy ===== *)
theory Contracts
  imports GrowthVerify ReachabilityModel Regex
begin

text \<open>
  \<open>dosweb/growth/contracts.py\<close> and the contract classes of \<open>growth/models.py\<close>: what is accepted as the
  answer of a language model, and how it is bound to the slice it was asked about. A class is a record, the
  definition with its name its \<open>__post_init__\<close>; the reading of JSON text is an argument.
\<close>

section \<open>Values\<close>

definition contract_growth_values :: "string list" where
  "contract_growth_values = [''yes'', ''no'', ''unknown'']"

definition contract_kind_values :: "string list" where
  "contract_kind_values = [''input_materialization'', ''direct_allocation'', ''container_growth'', ''async_work_growth'', ''unknown'']"

definition contract_dimension_values :: "string list" where
  "contract_dimension_values = [''entries'', ''bytes'', ''tasks'', ''connections'', ''objects'', ''unknown'']"

definition confidence_values :: "string list" where
  "confidence_values = [''high'', ''medium'', ''low'']"

definition resource_effect_values :: "string list" where
  "resource_effect_values = [''materializes_bytes'', ''allocates_objects'', ''adds_entries'', ''enqueues_tasks'',
     ''opens_connections'', ''unknown'']"

definition value_space_values :: "string list" where
  "value_space_values = [''stream'', ''unlimited'', ''large'', ''limited'', ''server_controlled'', ''unknown'']"

definition contract_amplification_values :: "string list" where
  "contract_amplification_values = [''superlinear'', ''large_single_request'', ''concurrent_retention'', ''queue_instability'',
     ''high_cardinality_retention'', ''low_amplification'', ''unknown'']"

definition request_pressure_values :: "string list" where
  "request_pressure_values = [''one'', ''few'', ''many'', ''implausible'', ''unknown'']"

definition retention_values :: "string list" where
  "retention_values = [''request'', ''session'', ''process'', ''until_release'', ''unknown'']"

definition failure_values :: "string list" where
  "failure_values = [''heap_exhaustion'', ''gc_thrashing'', ''cpu_starvation'', ''thread_exhaustion'',
     ''connection_exhaustion'', ''queue_latency_collapse'', ''none'', ''unknown'']"

definition contract_status_values :: "string list" where
  "contract_status_values = [''dos_relevant'', ''growth_not_dos_relevant'', ''unknown'']"

definition rejection_values :: "string list" where
  "rejection_values = [''none'', ''request_local_bounded'', ''server_controlled'', ''fixed_cardinality'',
     ''effective_precondition'', ''low_amplification'', ''no_failure_mechanism'', ''unknown'']"

definition influence_targets :: "string list" where
  "influence_targets = [''size'', ''key'', ''value'', ''iteration_count'', ''submission_count'', ''unknown'']"

section \<open>Free text\<close>

definition java_start :: "char \<Rightarrow> bool" where
  "java_start c = (let n = of_char c :: nat in (65 \<le> n \<and> n \<le> 90) \<or> (97 \<le> n \<and> n \<le> 122) \<or> c \<in> set ''_$'')"

definition java_part :: "char \<Rightarrow> bool" where
  "java_part c = (is_word c \<or> c = CHR ''$'')"

definition token_char :: "char \<Rightarrow> bool" where
  "token_char c = (c \<in> set fact_id_chars)"

definition credential_labels :: "string list" where
  "credential_labels = [''apikey'', ''api_key'', ''api-key'', ''password'', ''passwd'', ''secret'', ''token'']"

text \<open>\<open>_CONTRACT_SECRET\<close>: \<open>api[_-]?key\<close> and the other labels.\<close>

definition credential_label :: rx where
  "credential_label = rx_choice [rx_seq [rx_word ''api'', rx_opt (one_of ''_-''), rx_word ''key''], rx_word ''password'',
     rx_word ''passwd'', rx_word ''secret'', rx_word ''token'']"

definition secret_patterns :: "rx list" where
  "secret_patterns =
     [rx_seq [rx_word ''authorization'', rx_blanks, one_of '':=''],
      rx_seq [rx_word ''bearer'', rx_some (Cls is_blank), Cls token_char, Cls token_char, Cls token_char, Cls token_char,
        Rep (Cls token_char)],
      rx_seq [credential_label, rx_blanks, one_of '':='']]"

text \<open>\<open>_CONTRACT_SOURCE\<close>: declarations, calls and the punctuation of Java.\<close>

definition source_patterns :: "rx list" where
  "source_patterns =
     [rx_seq [Bnd, rx_choice (map rx_word [''public'', ''private'', ''protected'', ''class'', ''interface'', ''void'', ''new'']),
        rx_some (Cls is_blank), Cls java_start],
      rx_seq [Bnd, Cls java_start, Rep (Cls java_part), rx_blanks, one_of ''.'', rx_blanks, Cls java_start,
        Rep (Cls java_part), rx_blanks, one_of ''(''],
      one_of ''{};'']"

definition contract_secret :: rx where
  "contract_secret = rx_choice secret_patterns"

definition contract_source :: rx where
  "contract_source = rx_choice source_patterns"

definition contract_text_bytes :: nat where
  "contract_text_bytes = 4096"

definition contract_text_ok :: "string \<Rightarrow> bool" where
  "contract_text_ok s \<longleftrightarrow> s \<noteq> [] \<and> length s \<le> contract_text_bytes \<and> CHR 0x00 \<notin> set s \<and> CHR 0x0A \<notin> set s
     \<and> CHR 0x0D \<notin> set s \<and> \<not> rx_search contract_secret s \<and> \<not> rx_search contract_source s"

section \<open>Contracts\<close>

definition contract_invalid :: "string \<Rightarrow> py_exc" where
  "contract_invalid message = AnalyzerError ''LLM_RESPONSE_SCHEMA_INVALID'' message []"

definition contract_schema_error :: py_exc where
  "contract_schema_error = contract_invalid ''The provider response does not match the Growth Contract schema.''"

definition AttackerInfluence :: "attacker_influence \<Rightarrow> attacker_influence res" where
  "AttackerInfluence i =
     (if ai_target i \<notin> set influence_targets \<or> \<not> is_id (ai_evidence_id i) ''fact:''
      then Inl (contract_invalid ''Invalid attacker influence.'') else Inr i)"

definition influence_to_dict :: "attacker_influence \<Rightarrow> json" where
  "influence_to_dict i = JObj [(''target'', JStr (ai_target i)), (''evidence_id'', JStr (ai_evidence_id i))]"

record provider_contract =
  pc_is_resource_growth :: string
  pc_attacker_evidence :: "string list"
  pc_resource_effect :: string
  pc_attacker_variable :: string
  pc_attacker_value_space :: string
  pc_growth_unit :: string
  pc_growth_function :: string
  pc_amplification_class :: string
  pc_requests_to_pressure :: string
  pc_concurrency_model :: string
  pc_retention_window :: string
  pc_failure_mechanism :: string
  pc_failure_signal :: string
  pc_required_static_evidence :: "string list"
  pc_contract_status :: string
  pc_rejection_reason :: string
  pc_confidence :: string

definition contract_status_ok :: "string \<Rightarrow> string \<Rightarrow> string \<Rightarrow> bool" where
  "contract_status_ok status rejection growth \<longleftrightarrow>
     (status \<noteq> ''growth_not_dos_relevant'' \<or> rejection \<notin> {''none'', ''unknown''})
     \<and> (status \<noteq> ''dos_relevant'' \<or> rejection = ''none'') \<and> (status \<noteq> ''dos_relevant'' \<or> growth = ''yes'')
     \<and> (status \<noteq> ''unknown'' \<or> (rejection = ''unknown'' \<and> growth = ''unknown''))"

definition ProviderGrowthContract :: "provider_contract \<Rightarrow> provider_contract res" where
  "ProviderGrowthContract p =
     (if pc_is_resource_growth p \<notin> set contract_growth_values \<or> pc_resource_effect p \<notin> set resource_effect_values
        \<or> pc_attacker_value_space p \<notin> set value_space_values \<or> pc_amplification_class p \<notin> set contract_amplification_values
        \<or> pc_requests_to_pressure p \<notin> set request_pressure_values \<or> pc_retention_window p \<notin> set retention_values
        \<or> pc_failure_mechanism p \<notin> set failure_values \<or> pc_contract_status p \<notin> set contract_status_values
        \<or> pc_rejection_reason p \<notin> set rejection_values \<or> pc_confidence p \<notin> set confidence_values
        \<or> length (pc_attacker_evidence p) > 16 \<or> \<not> distinct (pc_attacker_evidence p)
        \<or> \<not> list_all (\<lambda>i. is_id i ''fact:'') (pc_attacker_evidence p)
        \<or> length (pc_required_static_evidence p) > 32 \<or> \<not> distinct (pc_required_static_evidence p)
        \<or> \<not> list_all (\<lambda>i. is_id i ''fact:'') (pc_required_static_evidence p)
        \<or> \<not> list_all contract_text_ok [pc_attacker_variable p, pc_growth_unit p, pc_growth_function p,
             pc_concurrency_model p, pc_failure_signal p]
        \<or> \<not> contract_status_ok (pc_contract_status p) (pc_rejection_reason p) (pc_is_resource_growth p)
        \<or> (pc_contract_status p = ''dos_relevant'' \<and> (pc_attacker_evidence p = [] \<or> pc_required_static_evidence p = []))
      then Inl (contract_invalid ''Invalid provider Growth Contract.'') else Inr p)"

definition contract_texts :: "growth_contract \<Rightarrow> string list" where
  "contract_texts c = [gc_attacker_variable c, gc_growth_unit c, gc_growth_function c, gc_concurrency_model c, gc_failure_signal c]"

definition GrowthContract :: "growth_contract \<Rightarrow> growth_contract res" where
  "GrowthContract c =
     (if gc_is_resource_growth c \<notin> set contract_growth_values \<or> gc_growth_kind c \<notin> set contract_kind_values
        \<or> gc_resource_dimension c \<notin> set contract_dimension_values \<or> gc_resource_effect c \<notin> set resource_effect_values
        \<or> gc_attacker_value_space c \<notin> set value_space_values \<or> gc_amplification_class c \<notin> set contract_amplification_values
        \<or> gc_requests_to_pressure c \<notin> set request_pressure_values \<or> gc_retention_window c \<notin> set retention_values
        \<or> gc_failure_mechanism c \<notin> set failure_values \<or> gc_contract_status c \<notin> set contract_status_values
        \<or> gc_rejection_reason c \<notin> set rejection_values \<or> gc_confidence c \<notin> set confidence_values
        \<or> length (gc_attacker_influence c) > 16 \<or> length (gc_required_static_evidence c) > 32
        \<or> \<not> list_all (\<lambda>i. is_id i ''fact:'') (gc_required_static_evidence c)
        \<or> \<not> list_all contract_text_ok (contract_texts c)
        \<or> \<not> contract_status_ok (gc_contract_status c) (gc_rejection_reason c) (gc_is_resource_growth c)
      then Inl (contract_invalid ''Invalid Growth Contract.'') else Inr c)"

definition contract_to_dict :: "growth_contract \<Rightarrow> (string \<times> json) list" where
  "contract_to_dict c =
     [(''is_resource_growth'', JStr (gc_is_resource_growth c)), (''growth_kind'', JStr (gc_growth_kind c)),
      (''resource_dimension'', JStr (gc_resource_dimension c)),
      (''attacker_influence'', JArr (map influence_to_dict (gc_attacker_influence c))),
      (''resource_effect'', JStr (gc_resource_effect c)), (''attacker_variable'', JStr (gc_attacker_variable c)),
      (''attacker_value_space'', JStr (gc_attacker_value_space c)), (''growth_unit'', JStr (gc_growth_unit c)),
      (''growth_function'', JStr (gc_growth_function c)), (''amplification_class'', JStr (gc_amplification_class c)),
      (''requests_to_pressure'', JStr (gc_requests_to_pressure c)), (''concurrency_model'', JStr (gc_concurrency_model c)),
      (''retention_window'', JStr (gc_retention_window c)), (''failure_mechanism'', JStr (gc_failure_mechanism c)),
      (''failure_signal'', JStr (gc_failure_signal c)),
      (''required_static_evidence'', JArr (map JStr (gc_required_static_evidence c))),
      (''contract_status'', JStr (gc_contract_status c)), (''rejection_reason'', JStr (gc_rejection_reason c)),
      (''confidence'', JStr (gc_confidence c))]"

section \<open>Reading a contract\<close>

definition contract_keys :: "string list" where
  "contract_keys = [''is_resource_growth'', ''growth_kind'', ''resource_dimension'', ''attacker_influence'', ''resource_effect'',
     ''attacker_variable'', ''attacker_value_space'', ''growth_unit'', ''growth_function'', ''amplification_class'',
     ''requests_to_pressure'', ''concurrency_model'', ''retention_window'', ''failure_mechanism'', ''failure_signal'',
     ''required_static_evidence'', ''contract_status'', ''rejection_reason'', ''confidence'']"

definition provider_contract_keys :: "string list" where
  "provider_contract_keys = [''is_resource_growth'', ''attacker_evidence_ids'', ''resource_effect'', ''attacker_variable'',
     ''attacker_value_space'', ''growth_unit'', ''growth_function'', ''amplification_class'', ''requests_to_pressure'',
     ''concurrency_model'', ''retention_window'', ''failure_mechanism'', ''failure_signal'', ''required_static_evidence'',
     ''contract_status'', ''rejection_reason'', ''confidence'']"

definition contract_enum :: "json \<Rightarrow> string \<Rightarrow> string list \<Rightarrow> string res" where
  "contract_enum payload name allowed = (case get payload name of
       JStr s \<Rightarrow> if s \<in> set allowed then Inr s else Inl contract_schema_error
     | _ \<Rightarrow> Inl contract_schema_error)"

definition contract_text :: "json \<Rightarrow> string \<Rightarrow> string res" where
  "contract_text payload name = (case get payload name of
       JStr s \<Rightarrow> if s = [] \<or> length s > 4096 then Inl contract_schema_error else Inr s
     | _ \<Rightarrow> Inl contract_schema_error)"

text \<open>A list of at most \<open>limit\<close> texts of at most 256 bytes.\<close>

definition evidence_list :: "json \<Rightarrow> nat \<Rightarrow> string list res" where
  "evidence_list v limit = (case v of
       JArr vs \<Rightarrow> if length vs > limit \<or> list_ex (\<lambda>x. \<not> is_str x \<or> length (str_of x) > 256) vs
         then Inl contract_schema_error else Inr (map str_of vs)
     | _ \<Rightarrow> Inl contract_schema_error)"

definition read_influence :: "json \<Rightarrow> attacker_influence res" where
  "read_influence v =
     (if \<not> has_fields v [''target'', ''evidence_id''] then Inl contract_schema_error
      else res_bind (contract_enum v ''target'' influence_targets) (\<lambda>target.
        case get v ''evidence_id'' of
          JStr e \<Rightarrow> if length e > 256 then Inl contract_schema_error
            else AttackerInfluence \<lparr>ai_target = target, ai_evidence_id = e\<rparr>
        | _ \<Rightarrow> Inl contract_schema_error))"

definition read_influences :: "json \<Rightarrow> attacker_influence list res" where
  "read_influences v = (case v of
       JArr vs \<Rightarrow> if length vs > 16 then Inl contract_schema_error else map_res read_influence vs
     | _ \<Rightarrow> Inl contract_schema_error)"

definition validate_growth_contract :: "json \<Rightarrow> growth_contract res" where
  "validate_growth_contract payload =
     (if \<not> has_fields payload contract_keys then Inl contract_schema_error
      else res_bind (contract_enum payload ''is_resource_growth'' contract_growth_values) (\<lambda>growth.
      res_bind (contract_enum payload ''growth_kind'' contract_kind_values) (\<lambda>kind.
      res_bind (contract_enum payload ''resource_dimension'' contract_dimension_values) (\<lambda>dimension.
      res_bind (contract_enum payload ''confidence'' confidence_values) (\<lambda>confidence.
      res_bind (contract_enum payload ''resource_effect'' resource_effect_values) (\<lambda>effect.
      res_bind (contract_enum payload ''attacker_value_space'' value_space_values) (\<lambda>space.
      res_bind (contract_enum payload ''amplification_class'' contract_amplification_values) (\<lambda>amplification.
      res_bind (contract_enum payload ''requests_to_pressure'' request_pressure_values) (\<lambda>pressure.
      res_bind (contract_enum payload ''retention_window'' retention_values) (\<lambda>retention.
      res_bind (contract_enum payload ''failure_mechanism'' failure_values) (\<lambda>failure.
      res_bind (contract_enum payload ''contract_status'' contract_status_values) (\<lambda>status.
      res_bind (contract_enum payload ''rejection_reason'' rejection_values) (\<lambda>rejection.
      res_bind (contract_text payload ''attacker_variable'') (\<lambda>variable.
      res_bind (contract_text payload ''growth_unit'') (\<lambda>unit.
      res_bind (contract_text payload ''growth_function'') (\<lambda>function.
      res_bind (contract_text payload ''concurrency_model'') (\<lambda>concurrency.
      res_bind (contract_text payload ''failure_signal'') (\<lambda>signal.
      res_bind (read_influences (get payload ''attacker_influence'')) (\<lambda>influence.
      res_bind (evidence_list (get payload ''required_static_evidence'') 32) (\<lambda>required.
      GrowthContract \<lparr>gc_is_resource_growth = growth, gc_growth_kind = kind, gc_resource_dimension = dimension,
        gc_attacker_influence = influence, gc_resource_effect = effect, gc_attacker_variable = variable,
        gc_attacker_value_space = space, gc_growth_unit = unit, gc_growth_function = function,
        gc_amplification_class = amplification, gc_requests_to_pressure = pressure, gc_concurrency_model = concurrency,
        gc_retention_window = retention, gc_failure_mechanism = failure, gc_failure_signal = signal,
        gc_required_static_evidence = required, gc_contract_status = status, gc_rejection_reason = rejection,
        gc_confidence = confidence\<rparr>))))))))))))))))))))"

definition validate_provider_growth_contract :: "json \<Rightarrow> provider_contract res" where
  "validate_provider_growth_contract payload =
     (if \<not> has_fields payload provider_contract_keys then Inl contract_schema_error
      else res_bind (evidence_list (get payload ''attacker_evidence_ids'') 16) (\<lambda>attacker.
      res_bind (evidence_list (get payload ''required_static_evidence'') 32) (\<lambda>required.
      res_bind (contract_enum payload ''is_resource_growth'' contract_growth_values) (\<lambda>growth.
      res_bind (contract_enum payload ''resource_effect'' resource_effect_values) (\<lambda>effect.
      res_bind (contract_text payload ''attacker_variable'') (\<lambda>variable.
      res_bind (contract_enum payload ''attacker_value_space'' value_space_values) (\<lambda>space.
      res_bind (contract_text payload ''growth_unit'') (\<lambda>unit.
      res_bind (contract_text payload ''growth_function'') (\<lambda>function.
      res_bind (contract_enum payload ''amplification_class'' contract_amplification_values) (\<lambda>amplification.
      res_bind (contract_enum payload ''requests_to_pressure'' request_pressure_values) (\<lambda>pressure.
      res_bind (contract_text payload ''concurrency_model'') (\<lambda>concurrency.
      res_bind (contract_enum payload ''retention_window'' retention_values) (\<lambda>retention.
      res_bind (contract_enum payload ''failure_mechanism'' failure_values) (\<lambda>failure.
      res_bind (contract_text payload ''failure_signal'') (\<lambda>signal.
      res_bind (contract_enum payload ''contract_status'' contract_status_values) (\<lambda>status.
      res_bind (contract_enum payload ''rejection_reason'' rejection_values) (\<lambda>rejection.
      res_bind (contract_enum payload ''confidence'' confidence_values) (\<lambda>confidence.
      ProviderGrowthContract \<lparr>pc_is_resource_growth = growth, pc_attacker_evidence = attacker, pc_resource_effect = effect,
        pc_attacker_variable = variable, pc_attacker_value_space = space, pc_growth_unit = unit, pc_growth_function = function,
        pc_amplification_class = amplification, pc_requests_to_pressure = pressure, pc_concurrency_model = concurrency,
        pc_retention_window = retention, pc_failure_mechanism = failure, pc_failure_signal = signal,
        pc_required_static_evidence = required, pc_contract_status = status, pc_rejection_reason = rejection,
        pc_confidence = confidence\<rparr>))))))))))))))))))"

section \<open>The text of an answer\<close>

text \<open>\<open>_check_json_bounds\<close>: the number of values met so far, or nothing when a limit is exceeded.\<close>

fun json_bounds :: "nat \<Rightarrow> nat \<Rightarrow> json \<Rightarrow> nat option"
  and json_bounds_list :: "nat \<Rightarrow> nat \<Rightarrow> json list \<Rightarrow> nat option"
  and json_bounds_fields :: "nat \<Rightarrow> nat \<Rightarrow> (string \<times> json) list \<Rightarrow> nat option" where
  "json_bounds depth nodes v =
     (if depth > 16 \<or> nodes + 1 > 256 then None
      else case v of
          JStr s \<Rightarrow> if length s > 65536 then None else Some (nodes + 1)
        | JObj kvs \<Rightarrow> if length kvs > 64 then None else json_bounds_fields (depth + 1) (nodes + 1) kvs
        | JArr vs \<Rightarrow> if length vs > 64 then None else json_bounds_list (depth + 1) (nodes + 1) vs
        | _ \<Rightarrow> Some (nodes + 1))"
| "json_bounds_list depth nodes [] = Some nodes"
| "json_bounds_list depth nodes (v # vs) =
     (case json_bounds depth nodes v of None \<Rightarrow> None | Some n \<Rightarrow> json_bounds_list depth n vs)"
| "json_bounds_fields depth nodes [] = Some nodes"
| "json_bounds_fields depth nodes ((k, v) # kvs) =
     (case json_bounds depth nodes v of None \<Rightarrow> None | Some n \<Rightarrow> json_bounds_fields depth n kvs)"

definition parse_growth_contract_json :: "(string \<Rightarrow> json option) \<Rightarrow> string \<Rightarrow> provider_contract res" where
  "parse_growth_contract_json loads content =
     (if strip content = [] then Inl contract_schema_error
      else case (if length content > 131072 then None else loads content) of
          None \<Rightarrow> Inl (contract_invalid ''The provider response content is not a strict JSON contract.'')
        | Some payload \<Rightarrow> if json_bounds 0 0 payload = None
            then Inl (contract_invalid ''The provider response content is not a strict JSON contract.'')
            else validate_provider_growth_contract payload)"

section \<open>Binding to the slice\<close>

definition restore_alias :: "(string \<times> string) list \<Rightarrow> string \<Rightarrow> string res" where
  "restore_alias aliases value =
     (if aliases = [] then Inr value
      else case map_of aliases value of
          None \<Rightarrow> Inl (contract_invalid ''Growth Contract cites an unknown provider alias.'')
        | Some original \<Rightarrow> Inr original)"

text \<open>The facts of the slice by their identifier; of two facts with one identifier the last counts.\<close>

definition fact_values :: "static_fact list \<Rightarrow> static_fact list" where
  "fact_values facts = filter (\<lambda>f. index_by fact_id facts (fact_id f) = Some f) facts"

definition sink_shape :: "(string \<times> string \<times> string) list" where
  "sink_shape = [(''input_materialization'', ''input_materialization'', ''bytes''), (''allocation'', ''direct_allocation'', ''bytes''),
     (''container_write'', ''container_growth'', ''entries''), (''async_submission'', ''async_work_growth'', ''tasks'')]"

definition slice_shapes :: "static_fact list \<Rightarrow> (string \<times> string) list" where
  "slice_shapes facts = remdups (List.map_filter (\<lambda>f. if sf_relation f = ''sink'' then map_of sink_shape (static_fact.sf_kind f) else None)
     (fact_values facts))"

definition influence_target :: "static_fact list \<Rightarrow> string \<Rightarrow> string list" where
  "influence_target facts e = remdups (List.map_filter
     (\<lambda>f. if static_fact.sf_kind f = ''attacker_target'' \<and> sf_value_ref f = Some e then static_fact.sf_value f else None) (fact_values facts))"

definition bind_influence :: "static_fact list \<Rightarrow> string \<Rightarrow> attacker_influence res" where
  "bind_influence facts e =
     (case (influence_target facts e, index_by fact_id facts e) of
        ([target], Some evidence) \<Rightarrow>
          if static_fact.sf_kind evidence \<notin> {''flow'', ''driver_origin''} \<or> sf_relation evidence \<notin> {''source'', ''flows_to''}
          then Inl contract_schema_error
          else AttackerInfluence \<lparr>ai_target = target, ai_evidence_id = e\<rparr>
      | _ \<Rightarrow> Inl contract_schema_error)"

definition bind_provider_growth_contract :: "provider_contract \<Rightarrow> bounded_slice \<Rightarrow> (string \<times> string) list
    \<Rightarrow> growth_contract res" where
  "bind_provider_growth_contract p bounded aliases =
     (let facts = sp_facts (slice_body bounded) in
      res_bind (map_res (restore_alias aliases) (pc_attacker_evidence p)) (\<lambda>attacker_ids.
      res_bind (map_res (restore_alias aliases) (pc_required_static_evidence p)) (\<lambda>required.
      if list_ex (\<lambda>i. index_by fact_id facts i = None) (attacker_ids @ required) then Inl contract_schema_error
      else case slice_shapes facts of
          [(kind, dimension)] \<Rightarrow>
            res_bind (map_res (bind_influence facts) attacker_ids) (\<lambda>influences.
            GrowthContract \<lparr>gc_is_resource_growth = pc_is_resource_growth p, gc_growth_kind = kind, gc_resource_dimension = dimension,
              gc_attacker_influence = influences, gc_resource_effect = pc_resource_effect p,
              gc_attacker_variable = pc_attacker_variable p, gc_attacker_value_space = pc_attacker_value_space p,
              gc_growth_unit = pc_growth_unit p, gc_growth_function = pc_growth_function p,
              gc_amplification_class = pc_amplification_class p, gc_requests_to_pressure = pc_requests_to_pressure p,
              gc_concurrency_model = pc_concurrency_model p, gc_retention_window = pc_retention_window p,
              gc_failure_mechanism = pc_failure_mechanism p, gc_failure_signal = pc_failure_signal p,
              gc_required_static_evidence = required, gc_contract_status = pc_contract_status p,
              gc_rejection_reason = pc_rejection_reason p, gc_confidence = pc_confidence p\<rparr>)
        | _ \<Rightarrow> Inl contract_schema_error)))"

definition validate_contract_static_evidence :: "growth_contract \<Rightarrow> string list \<Rightarrow> growth_contract res" where
  "validate_contract_static_evidence contract ids =
     (if \<not> list_all (\<lambda>i. i \<in> set ids) (influence_ids contract @ gc_required_static_evidence contract)
      then Inl contract_schema_error else Inr contract)"

end
