(* ===== verification/Maturation.thy ===== *)
theory Maturation
  imports Association Reachability Contracts
begin

text \<open>
  The maturation of the candidates in the growth stage (\<open>dosweb/production.py\<close>, \<open>make_growth_executor\<close>): each
  candidate is associated with entries, passes the relevance gate, the reachability decision of its entry
  and, if it is still standing, the check of the contract a language model gives it; each step leaves its
  record. The query rows, the security facts, the slices (read from source files) and the answers of the
  language model are arguments.
\<close>

section \<open>Decisions on a candidate\<close>

definition loop_gap_suffixes :: "string list" where
  "loop_gap_suffixes = ['':finite_capacity_prevents_amplification'', '':loop_bound_not_attacker_proven'',
     '':loop_multiplicity_unmodeled'']"

definition amplification_decision_for_candidate :: "growth_candidate \<Rightarrow> string \<times> string" where
  "amplification_decision_for_candidate candidate =
     (let notes = g_coverage_notes candidate;
          some_note = (\<lambda>suffix. list_ex (\<lambda>n. endswith n suffix) notes);
          loop_gap = list_ex some_note loop_gap_suffixes
      in if some_note '':attacker_controlled_loop_multiplicity_proven'' \<and> \<not> loop_gap
         then (''proven'', ''AMPLIFICATION_CFG_DATAFLOW_LOOP_WITNESS'')
         else if loop_gap then (''unknown'', ''AMPLIFICATION_LOOP_OR_BATCH_UNMODELED'')
         else if g_kind candidate \<in> {''input_materialization'', ''direct_allocation''}
           \<or> some_note '':single_submission_no_enclosing_loop'' \<or> some_note '':single_operation_no_enclosing_loop''
         then (''not_applicable'', ''AMPLIFICATION_DIRECT_DEMAND_ASSERTION'')
         else (''unknown'', ''AMPLIFICATION_LOOP_OR_BATCH_UNMODELED''))"

definition negative_mapping :: "(string \<times> string \<times> string) list" where
  "negative_mapping =
     [(''RELEVANCE_TEST_OR_BENCHMARK_ONLY'', ''generated_or_test_only'', ''NEGATIVE_GENERATED_OR_TEST_ONLY''),
      (''RELEVANCE_SERVER_SIZED_ALLOCATION'', ''server_controlled_source'', ''NEGATIVE_SERVER_CONTROLLED_SOURCE''),
      (''RELEVANCE_SERVER_SIDE_MATERIALIZATION'', ''server_controlled_source'', ''NEGATIVE_SERVER_CONTROLLED_SOURCE''),
      (''RELEVANCE_FIXED_KEY_RETENTION'', ''finite_keyspace'', ''NEGATIVE_FINITE_KEYSPACE''),
      (''RELEVANCE_FINITE_KEYSPACE'', ''finite_keyspace'', ''NEGATIVE_FINITE_KEYSPACE''),
      (''RELEVANCE_SYNCHRONOUS_CLEANUP'', ''guaranteed_synchronous_cleanup'', ''NEGATIVE_GUARANTEED_SYNCHRONOUS_CLEANUP''),
      (''RELEVANCE_FALSE_ENTRY_GROWTH_FLOW'', ''false_entry_growth_flow'', ''NEGATIVE_FALSE_ENTRY_GROWTH_FLOW'')]"

definition negative_proof_for_relevance :: "growth_candidate \<Rightarrow> string list \<Rightarrow> negative_proof res" where
  "negative_proof_for_relevance candidate reasons =
     (case filter (\<lambda>(trigger, _). trigger \<in> set reasons) negative_mapping of
        (_, kind, reason) # _ \<Rightarrow> negative_create (growth_id candidate) kind (g_evidence candidate) [reason]
      | [] \<Rightarrow> Inl (AnalyzerError ''ANALYSIS_CANDIDATE_COMPLETENESS_INVALID''
          ''Rejected relevance decision lacks a deterministic negative-proof mapping.''
          [(''growth_id'', JStr (growth_id candidate))]))"

definition mature_disposition :: "growth_candidate \<Rightarrow> candidate_disposition \<Rightarrow> string \<Rightarrow> string option \<Rightarrow> string list
    \<Rightarrow> string list \<Rightarrow> string list \<Rightarrow> candidate_disposition res" where
  "mature_disposition candidate association status relevance_status reasons evidence negatives =
     (let local = (if status = ''rejected'' \<and> negatives \<noteq> [] then ''rejected''
            else if status = ''gap_eligible'' \<and> relevance_status = Some ''dos_relevant_partial'' then ''partial''
            else cd_local_status association)
      in disposition_create (growth_id candidate) status (cd_entry_id association) local (cd_association association)
           (cd_link_ids association) (usort (cd_evidence association @ evidence @ negatives)) (usort negatives)
           (usort (cd_reasons association @ reasons)))"

section \<open>The state of the stage\<close>

record growth_inputs =
  gi_entries :: "(string \<times> entry_fact) list"
  gi_association_rows :: "flow_row list"
  gi_flow_rows :: "flow_row list"
  gi_security :: "string \<Rightarrow> security_fact list"
  gi_configuration :: "modeled_fact list"
  gi_repr :: "json \<Rightarrow> string"
  gi_classify_auth :: "(string \<Rightarrow> security_fact list \<Rightarrow> auth_contract option res) option"
  gi_slice :: "entry_fact \<Rightarrow> growth_candidate \<Rightarrow> bounded_slice res"
  gi_classify :: "bounded_slice \<Rightarrow> growth_contract res"

record growth_records =
  gs_links :: "entry_link list"
  gs_dispositions :: "candidate_disposition list"
  gs_negatives :: "negative_proof list"
  gs_repeatability :: "applicability_decision list"
  gs_amplification :: "applicability_decision list"
  gs_auth :: "(string \<times> auth_contract \<times> reachability_decision) list"
  gs_contracts :: "(string \<times> growth_contract) list"
  gs_verified :: "verified_growth list"

definition no_records :: growth_records where
  "no_records = \<lparr>gs_links = [], gs_dispositions = [], gs_negatives = [], gs_repeatability = [], gs_amplification = [],
     gs_auth = [], gs_contracts = [], gs_verified = []\<rparr>"

definition relevance_reasons :: "candidate_disposition \<Rightarrow> relevance_decision \<Rightarrow> string list" where
  "relevance_reasons association gate = usort (cd_reasons association @ rv_reasons gate
     @ [''RELEVANCE_AMPLIFICATION_'' @ upper (rv_amplification gate)])"

text \<open>A rejection records its proof and a disposition that cites it.\<close>

definition reject_candidate :: "growth_records \<Rightarrow> growth_candidate \<Rightarrow> candidate_disposition \<Rightarrow> negative_proof res
    \<Rightarrow> string list \<Rightarrow> growth_records res" where
  "reject_candidate s candidate association negative reasons =
     res_bind negative (\<lambda>proof.
     res_bind (mature_disposition candidate association ''rejected'' None reasons [] [np_id proof]) (\<lambda>d.
     Inr (s\<lparr>gs_negatives := gs_negatives s @ [proof], gs_dispositions := gs_dispositions s @ [d]\<rparr>)))"

definition repeatable_registrations :: "string list" where
  "repeatable_registrations = [''annotation_mapping'', ''static_registration'', ''pipeline_registration'',
     ''subscription_registration'', ''broker_registration'']"

definition repeatability_of :: "entry_fact \<Rightarrow> entry_link \<Rightarrow> string \<times> string" where
  "repeatability_of entry link =
     (if el_status link = ''complete'' \<and> e_protocol entry \<in> {''http'', ''tcp'', ''mqtt''}
        \<and> r_kind (e_registration entry) \<in> set repeatable_registrations
      then (''proven'', ''REPEATABILITY_REGISTERED_PROTOCOL_TRIGGER'')
      else (''unknown'', ''REPEATABILITY_TRIGGER_SEMANTICS_UNMODELED''))"

definition record_applicability :: "growth_records \<Rightarrow> entry_fact \<Rightarrow> growth_candidate \<Rightarrow> entry_link \<Rightarrow> growth_records res" where
  "record_applicability s entry candidate link =
     (let (repeat_status, repeat_reason) = repeatability_of entry link;
          (amp_status, amp_reason) = amplification_decision_for_candidate candidate
      in res_bind (applicability_create ''repeatability'' (entry_id entry) (growth_id candidate) repeat_status
             [entry_id entry, growth_id candidate, el_id link] [repeat_reason]) (\<lambda>r.
         res_bind (applicability_create ''amplification'' (entry_id entry) (growth_id candidate) amp_status
             [growth_id candidate, el_id link] [amp_reason]) (\<lambda>a.
         Inr (s\<lparr>gs_repeatability := gs_repeatability s @ [r], gs_amplification := gs_amplification s @ [a]\<rparr>))))"

text \<open>The decision of an entry is made once and kept.\<close>

definition decide_entry :: "growth_inputs \<Rightarrow> growth_records \<Rightarrow> string \<Rightarrow> (growth_records \<times> reachability_decision) res" where
  "decide_entry gi s eid =
     (case map_of (gs_auth s) eid of
        Some (_, decision) \<Rightarrow> Inr (s, decision)
      | None \<Rightarrow> res_bind (entry_auth_decision (gi_repr gi) (gi_classify_auth gi) eid (gi_security gi eid) (gi_configuration gi))
          (\<lambda>(contract, decision). Inr (s\<lparr>gs_auth := gs_auth s @ [(eid, contract, decision)]\<rparr>, decision)))"

definition check_growth :: "growth_inputs \<Rightarrow> growth_records \<Rightarrow> entry_fact \<Rightarrow> growth_candidate \<Rightarrow> (growth_records \<times> verified_growth) res" where
  "check_growth gi s entry candidate =
     res_bind (gi_slice gi entry candidate) (\<lambda>bounded.
     res_bind (gi_classify gi bounded) (\<lambda>contract.
     let facts = sp_facts (slice_body bounded) in
     res_bind (validate_contract_static_evidence contract (map fact_id facts)) (\<lambda>contract.
     res_bind (verify_growth_contract candidate bounded contract (index_by fact_id facts)) (\<lambda>result.
     Inr (s\<lparr>gs_contracts := gs_contracts s @ [(growth_id candidate, contract)],
            gs_verified := gs_verified s @ [result]\<rparr>, result)))))"

section \<open>One candidate\<close>

definition maturation_status :: "candidate_disposition \<Rightarrow> relevance_decision \<Rightarrow> string" where
  "maturation_status association gate =
     (if rv_status gate = ''contract_eligible'' \<and> cd_status association = ''formal_eligible''
      then ''formal_eligible'' else ''gap_eligible'')"

definition maturation_reason :: "string \<Rightarrow> string" where
  "maturation_reason status = (if status = ''formal_eligible'' then ''MATURATION_FORMAL_ELIGIBLE'' else ''MATURATION_GAP_ELIGIBLE'')"

definition mature_linked :: "growth_inputs \<Rightarrow> growth_records \<Rightarrow> growth_candidate \<Rightarrow> candidate_disposition \<Rightarrow> relevance_decision
    \<Rightarrow> entry_fact \<Rightarrow> entry_link \<Rightarrow> growth_records res" where
  "mature_linked gi s candidate association gate entry link =
     (let status = maturation_status association gate in
      res_bind (record_applicability s entry candidate link) (\<lambda>s.
      res_bind (decide_entry gi s (entry_id entry)) (\<lambda>(s, decision).
      if rd_status decision = ''not_entry_reachable'' then
        reject_candidate s candidate association
          (negative_create (growth_id candidate) ''not_entry_reachable'' (g_evidence candidate) [''NEGATIVE_NOT_ENTRY_REACHABLE''])
          (relevance_reasons association gate @ rd_reasons decision @ [''MATURATION_NOT_ENTRY_REACHABLE''])
      else res_bind (check_growth gi s entry candidate) (\<lambda>(s, result).
        res_bind (mature_disposition candidate association status (Some (rv_status gate))
            (relevance_reasons association gate @ [maturation_reason status]) [verified_growth_id result] []) (\<lambda>d.
        Inr (s\<lparr>gs_dispositions := gs_dispositions s @ [d]\<rparr>))))))"

definition mature_candidate :: "growth_inputs \<Rightarrow> growth_records \<Rightarrow> growth_candidate \<Rightarrow> growth_records res" where
  "mature_candidate gi s candidate =
     res_bind (candidate_association (gi_entries gi) candidate (gi_association_rows gi) (gi_flow_rows gi)) (\<lambda>(links, association).
     let s = s\<lparr>gs_links := gs_links s @ links\<rparr> in
     res_bind (case links of [l] \<Rightarrow> res_bind (item (map_of (gi_entries gi)) (el_entry_id l)) (\<lambda>e. Inr (Some e))
       | _ \<Rightarrow> Inr None) (\<lambda>relevance_entry.
     res_bind (evaluate_candidate_relevance relevance_entry candidate links) (\<lambda>gate.
     let reasons = relevance_reasons association gate in
     if rv_status gate = ''rejected'' then
       reject_candidate s candidate association (negative_proof_for_relevance candidate (rv_reasons gate))
         (reasons @ [''MATURATION_SOURCE_PROVEN_NEGATIVE''])
     else if rv_status gate = ''unresolved'' \<or> cd_status association = ''inventory_unresolved'' then
       res_bind (mature_disposition candidate association ''inventory_unresolved'' None
           (reasons @ [''MATURATION_INVENTORY_UNRESOLVED'']) [] []) (\<lambda>d.
       Inr (s\<lparr>gs_dispositions := gs_dispositions s @ [d]\<rparr>))
     else (case (relevance_entry, links) of
         (Some entry, [link]) \<Rightarrow> mature_linked gi s candidate association gate entry link
       | _ \<Rightarrow> res_bind (mature_disposition candidate association ''inventory_unresolved'' None
           (reasons @ [''MATURATION_INVENTORY_UNRESOLVED'']) [] []) (\<lambda>d.
         Inr (s\<lparr>gs_dispositions := gs_dispositions s @ [d]\<rparr>))))))"

definition mature_candidates :: "growth_inputs \<Rightarrow> growth_candidate list \<Rightarrow> growth_records res" where
  "mature_candidates gi candidates = fold_res (mature_candidate gi) no_records candidates"

section \<open>Amplification classes of the conclusion\<close>

definition amplification_prefix :: string where
  "amplification_prefix = ''RELEVANCE_AMPLIFICATION_''"

definition reason_classes :: "json list \<Rightarrow> string list" where
  "reason_classes reasons = remdups (filter (\<lambda>c. c \<in> set amplification_classes)
     (List.map_filter (\<lambda>r. case r of JStr s \<Rightarrow> if startswith s amplification_prefix
          then Some (lower (removeprefix s amplification_prefix)) else None | _ \<Rightarrow> None) reasons))"

definition add_amplification :: "json \<Rightarrow> (string \<rightharpoonup> string) \<Rightarrow> (string \<rightharpoonup> string)" where
  "add_amplification record by_growth =
     (case (map_of (members record) ''growth_id'', map_of (members record) ''reason_codes'') of
        (Some (JStr growth), Some (JArr reasons)) \<Rightarrow>
          (case reason_classes reasons of [c] \<Rightarrow> by_growth(growth \<mapsto> c) | _ \<Rightarrow> by_growth)
      | _ \<Rightarrow> by_growth)"

definition conclusion_amplification_classes :: "json list \<Rightarrow> string \<times> string \<Rightarrow> string" where
  "conclusion_amplification_classes dispositions pair =
     (case fold add_amplification dispositions Map.empty (snd pair) of Some c \<Rightarrow> c | None \<Rightarrow> ''unknown'')"

end
