(* ===== verification/AssociationLaws.thy ===== *)
theory AssociationLaws
  imports Association
begin

text \<open>
  What an association promises: valid links to entries of the run, complete only on the evidence of a
  complete, proven row whose data flow starts in an input of the entry and meets a demand of the
  candidate, and a disposition that says what the links amount to.
\<close>

section \<open>Well-formed facts\<close>

definition entries_ok :: "(string \<times> entry_fact) list \<Rightarrow> bool" where
  "entries_ok entries \<longleftrightarrow> distinct (map fst entries)
     \<and> list_all (\<lambda>(k, e). k = entry_id e \<and> startswith k ''entry:'') entries"

definition candidate_ok :: "growth_candidate \<Rightarrow> bool" where
  "candidate_ok candidate \<longleftrightarrow> GrowthCandidate candidate = Inr candidate"

lemma entries_okD:
  assumes "entries_ok entries" "(k, e) \<in> set entries"
  shows "entry_id e = k" "startswith k ''entry:''" "map_of entries k = Some e" "k \<noteq> []"
  using assms by (auto simp: entries_ok_def list_all_iff startswith_def intro: map_of_is_SomeI)

lemma candidate_okD:
  assumes "candidate_ok c"
  shows "startswith (growth_id c) ''growth:''" "growth_id c \<noteq> []" "g_evidence c \<noteq> []" "list_all is_fact_id (g_evidence c)"
proof -
  have k: "growth_id c = stable_identifier ''growth'' (growth_semantic_identity c)"
    "g_evidence c \<noteq> []" "list_all is_fact_id (g_evidence c)"
    using assms unfolding candidate_ok_def GrowthCandidate_def Let_def
    by (auto simp: res_bind_Inr_iff list_all_iff split: if_split_asm)
  show "startswith (growth_id c) ''growth:''" using stable_identifier_prefix[of "''growth''"] by (simp add: k(1))
  show "growth_id c \<noteq> []" by (simp add: k(1))
  show "g_evidence c \<noteq> []" "list_all is_fact_id (g_evidence c)" using k by simp_all
qed

definition valid_link :: "(string \<times> entry_fact) list \<Rightarrow> growth_candidate \<Rightarrow> entry_link \<Rightarrow> bool" where
  "valid_link entries candidate l \<longleftrightarrow> CandidateEntryLink l = Inr l \<and> el_growth_id l = growth_id candidate
     \<and> el_entry_id l \<in> fst ` set entries"

definition justified :: "(string \<times> entry_fact) list \<Rightarrow> growth_candidate \<Rightarrow> flow_row list \<Rightarrow> flow_row list \<Rightarrow> string \<Rightarrow> bool" where
  "justified entries candidate association_rows flow_rows i \<longleftrightarrow>
     (\<exists>e row. (i, e) \<in> set entries \<and> row \<in> set association_rows \<and> at_site candidate row \<and> row_reaches e row
        \<and> claimed_complete row \<and> formal_flow_witness e candidate row flow_rows)"

text \<open>The disposition that fits links with an association status.\<close>

definition associated :: "growth_candidate \<Rightarrow> entry_link list \<Rightarrow> string \<Rightarrow> candidate_disposition \<Rightarrow> bool" where
  "associated candidate links status d \<longleftrightarrow>
     CandidateDisposition d = Inr d \<and> cd_growth_id d = growth_id candidate \<and> cd_entry_id d = canonical_id links
     \<and> cd_local_status d = (if complete_candidate candidate then ''complete'' else ''partial'')
     \<and> cd_association d = status \<and> cd_link_ids d = usort (map el_id links) \<and> cd_negative_ids d = []
     \<and> set (cd_evidence d) = set (g_evidence candidate) \<union> set (map el_id links) \<union> (if length links = 1 then {canonical_id links} else {})
     \<and> cd_reasons d \<noteq> [] \<and> [] \<notin> set (cd_reasons d)
     \<and> cd_status d = (if length links = 1 \<and> status \<in> {''complete'', ''partial''}
          then (if complete_candidate candidate \<and> status = ''complete'' then ''formal_eligible'' else ''gap_eligible'')
          else ''inventory_unresolved'')"

lemma valid_linkD:
  assumes "valid_link entries c l"
  shows "startswith (el_id l) ''candidate_link:''" "el_id l \<noteq> []" "startswith (el_entry_id l) ''entry:''" "el_entry_id l \<noteq> []"
    "[] \<notin> set (el_reasons l)" "el_reasons l \<noteq> []" "el_status l \<in> set association_values"
proof -
  have "CandidateEntryLink l = Inr l" using assms by (simp add: valid_link_def)
  then have a: "startswith (el_entry_id l) ''entry:''" "[] \<notin> set (el_reasons l)" "el_reasons l \<noteq> []"
    "el_id l = stable_identifier ''candidate_link'' (JObj (link_identity l))" "el_status l \<in> set association_values"
    by (auto simp: CandidateEntryLink_def res_bind_Inr_iff completeness_strings_Inr split: if_split_asm)
  show "startswith (el_id l) ''candidate_link:''" using stable_identifier_prefix[of "''candidate_link''"] by (simp add: a(4))
  show "el_id l \<noteq> []" by (simp add: a(4))
  show "startswith (el_entry_id l) ''entry:''" "[] \<notin> set (el_reasons l)" "el_reasons l \<noteq> []" "el_status l \<in> set association_values"
    using a by simp_all
  show "el_entry_id l \<noteq> []" using a(1) by (auto simp: startswith_def)
qed

lemma not_negative:
  "is_fact_id s \<Longrightarrow> \<not> is_negative_id s" "startswith s ''candidate_link:'' \<Longrightarrow> \<not> is_negative_id s"
  "startswith s ''entry:'' \<Longrightarrow> \<not> is_negative_id s" "startswith s ''verified_growth:'' \<Longrightarrow> \<not> is_negative_id s"
  by (auto simp: is_fact_id_def is_negative_id_def startswith_def prefix_def)

lemma fact_id_nonempty: "is_fact_id s \<Longrightarrow> s \<noteq> []"
  by (auto simp: is_fact_id_def startswith_def)

section \<open>Parts of an association\<close>

lemma association_disposition_ok:
  assumes c: "candidate_ok candidate" and ls: "\<forall>l \<in> set links. valid_link entries candidate l"
    and a: "status \<in> set association_status_values" and r: "reasons \<noteq> []" "[] \<notin> set reasons"
  shows "\<exists>d. association_disposition candidate links status reasons = Inr d \<and> associated candidate links status d"
proof -
  let ?entry = "canonical_id links"
  let ?local = "if complete_candidate candidate then ''complete'' else ''partial''"
  let ?status = "if ?entry \<noteq> [] \<and> status \<in> set association_values
      then (if ?local = ''complete'' \<and> status = ''complete'' then ''formal_eligible'' else ''gap_eligible'')
      else ''inventory_unresolved''"
  let ?evidence = "usort (g_evidence candidate @ map el_id links @ (if ?entry \<noteq> [] then [?entry] else []))"
  let ?d = "disposition_of (growth_id candidate) ?status ?entry ?local status (map el_id links) ?evidence [] (usort reasons)"
  note cd = candidate_okD[OF c]
  have ids: "[] \<notin> set (map el_id links)" using ls valid_linkD(2) by fastforce
  have one: "?entry \<noteq> [] \<longleftrightarrow> length links = 1"
    using ls valid_linkD(4) by (cases links; cases "tl links") (auto simp: canonical_id_def)
  have e: "?entry \<noteq> [] \<Longrightarrow> startswith ?entry ''entry:''"
    using ls valid_linkD(3) by (cases links; cases "tl links") (auto simp: canonical_id_def)
  have facts: "[] \<notin> set (g_evidence candidate)" "\<forall>x \<in> set (g_evidence candidate). \<not> is_negative_id x"
    using cd(4) fact_id_nonempty not_negative(1) by (auto simp: list_all_iff)
  have links: "\<forall>x \<in> set (map el_id links). \<not> is_negative_id x"
    using ls valid_linkD(1) not_negative(2) by fastforce
  have ev: "?evidence \<noteq> []" "[] \<notin> set ?evidence" "\<forall>x \<in> set ?evidence. \<not> is_negative_id x"
    using cd(3) facts ids links e not_negative(3) by (auto simp: usort_Nil_iff)
  then have neg: "filter is_negative_id ?evidence = []" by (simp add: filter_empty_conv)
  have lo: "?local \<in> {''complete'', ''partial''}" by simp
  have lc: "length (usort (map el_id links)) = 1" if "?entry \<noteq> []"
    using that one by (cases links) auto
  have st: "?status \<in> {''formal_eligible'', ''gap_eligible'', ''inventory_unresolved''}" by simp
  have av: "set association_values = {''complete'', ''partial''}" by (auto simp: association_values_def)
  have ne: "''gap_eligible'' \<noteq> ''formal_eligible''" "''inventory_unresolved'' \<noteq> ''formal_eligible''" "\<not> eligible_status ''inventory_unresolved''"
    by (simp_all add: eligible_status_def)
  have ok: "disposition_ok ?d"
    unfolding disposition_ok_def disposition_of_simps
  proof (intro conjI impI)
    show "startswith (growth_id candidate) ''growth:''" by (rule cd(1))
    show "?status \<in> set disposition_values" using st by (auto simp: disposition_values_def)
    show "?local \<in> set local_growth_values" by (simp add: local_growth_values_def)
    show "status \<in> set association_status_values" by (rule a)
    show "startswith ?entry ''entry:''" if "?entry \<noteq> []" using that by (rule e)
    show "[] \<notin> set (usort (map el_id links))" using ids by simp
    show "usort ?evidence \<noteq> []" "[] \<notin> set (usort ?evidence)" using ev by simp_all
    show "usort (usort reasons) \<noteq> []" "[] \<notin> set (usort (usort reasons))" using r by simp_all
    show "list_all is_negative_id (usort [])" by simp
    show "set (usort []) = set (filter is_negative_id (usort ?evidence))" using neg by simp
    show "(?status = ''rejected'') = (usort [] \<noteq> [])" by simp
    assume el: "eligible_status ?status"
    then have q: "?entry \<noteq> [] \<and> status \<in> set association_values" using ne(3) by presburger
    show "length (usort (map el_id links)) = 1" "?entry \<noteq> []" using q lc by blast+
    show "?local \<in> {''complete'', ''partial''}" by (rule lo)
    show "status \<in> {''complete'', ''partial''}" using q av by simp
    show "(?status = ''formal_eligible'') = (?local = ''complete'' \<and> status = ''complete'')" using q ne by presburger
  qed
  have "association_disposition candidate links status reasons = Inr ?d"
    unfolding association_disposition_def Let_def using disposition_create_ok(1)[OF ok] by simp
  moreover have "associated candidate links status ?d"
    unfolding associated_def disposition_of_simps
  proof (intro conjI)
    show "CandidateDisposition ?d = Inr ?d" by (rule disposition_create_ok(2)[OF ok])
    show "?status = (if length links = 1 \<and> status \<in> {''complete'', ''partial''}
          then (if complete_candidate candidate \<and> status = ''complete'' then ''formal_eligible'' else ''gap_eligible'')
          else ''inventory_unresolved'')"
      using one av by simp
    show "set (usort ?evidence) = set (g_evidence candidate) \<union> set (map el_id links) \<union> (if length links = 1 then {?entry} else {})"
      using one by auto
  qed (use r in simp_all)
  ultimately show ?thesis by blast
qed

lemma association_disposition_cases:
  assumes "candidate_ok candidate" "\<forall>l \<in> set links. valid_link entries candidate l"
    "status \<in> set association_status_values" "reasons \<noteq> []" "[] \<notin> set reasons"
  obtains d where "association_disposition candidate links status reasons = Inr d" "associated candidate links status d"
  using association_disposition_ok[OF assms] by blast

section \<open>Entries and links\<close>

lemma min_by_member: "xs \<noteq> [] \<Longrightarrow> min_by key xs \<in> set xs"
  unfolding min_by_def by (metis hd_in_set set_sort sort_key_simps(1) set_empty)

lemma one_key_card: "one_key key xs \<longleftrightarrow> card (key ` set xs) = 1"
  unfolding one_key_def by (metis distinct_card distinct_remdups list.set_map set_remdups)

lemma one_key_eq:
  assumes "one_key key xs" "x \<in> set xs" "y \<in> set xs"
  shows "key x = key y"
proof -
  obtain k where "key ` set xs = {k}" using assms(1) by (auto simp: one_key_card card_1_singleton_iff)
  then show ?thesis using assms(2,3) by (metis imageI singletonD)
qed

lemma one_keyI:
  assumes "xs \<noteq> []" "\<forall>x \<in> set xs. \<forall>y \<in> set xs. key x = key y"
  shows "one_key key xs"
proof -
  have "hd xs \<in> set xs" using assms(1) by simp
  then have "key ` set xs = {key (hd xs)}" using assms(2) by blast
  then show ?thesis by (simp add: one_key_card)
qed

lemma narrow_entries_sub: "set (narrow_entries es c) \<subseteq> set es"
  by (auto simp: narrow_entries_def Let_def)

lemma narrow_entries_nonempty: "es \<noteq> [] \<Longrightarrow> narrow_entries es c \<noteq> []"
  by (auto simp: narrow_entries_def Let_def)

text \<open>A canonical entry is one of those given; without one, two of them have different registrations.\<close>

lemma canonical_entry_cases:
  assumes "es \<noteq> []"
  obtains e where "canonical_entry es c = Inr e" "e \<in> set es"
  | x y where "canonical_entry es c = Inl (entry_ambiguous (narrow_entries es c) c)" "x \<in> set es" "y \<in> set es"
      "entry_registration_identity x \<noteq> entry_registration_identity y" "entry_semantic_key x \<noteq> entry_semantic_key y \<or> x \<noteq> y"
proof -
  let ?n = "narrow_entries es c"
  have sub: "set ?n \<subseteq> set es" and ne: "?n \<noteq> []" using narrow_entries_sub narrow_entries_nonempty assms by auto
  consider e where "?n = [e]" | "\<nexists>e. ?n = [e]" "one_key entry_semantic_key ?n"
    | "\<nexists>e. ?n = [e]" "\<not> one_key entry_semantic_key ?n" "one_key entry_registration_identity ?n"
    | "\<nexists>e. ?n = [e]" "\<not> one_key entry_semantic_key ?n" "\<not> one_key entry_registration_identity ?n" by blast
  then show thesis
  proof cases
    case (1 e)
    then show ?thesis using that(1)[of e] sub by (auto simp: canonical_entry_def)
  next
    case 2
    then have "canonical_entry es c = Inr (min_by (\<lambda>e. (entry_registration_identity e, entry_id e)) ?n)"
      by (auto simp: canonical_entry_def Let_def split: list.splits)
    then show ?thesis using that(1) min_by_member[OF ne] sub by blast
  next
    case 3
    then have "canonical_entry es c = Inr (min_by entry_id ?n)"
      by (auto simp: canonical_entry_def Let_def split: list.splits)
    then show ?thesis using that(1) min_by_member[OF ne] sub by blast
  next
    case 4
    then have i: "canonical_entry es c = Inl (entry_ambiguous ?n c)"
      by (auto simp: canonical_entry_def Let_def split: list.splits)
    obtain x y where "x \<in> set ?n" "y \<in> set ?n" "entry_registration_identity x \<noteq> entry_registration_identity y"
      using 4(3) one_keyI[OF ne] by metis
    then show ?thesis using that(2)[OF i] sub by auto
  qed
qed

lemma link_create_ok:
  assumes "startswith g ''growth:''" "startswith e ''entry:''" "status \<in> set association_values"
    "reasons \<noteq> []" "[] \<notin> set reasons"
  shows "\<exists>l. link_create g e status [g, e] reasons = Inr l"
  using assms by (auto simp: link_create_Inr startswith_def)

lemma row_link_ok:
  assumes c: "candidate_ok candidate" and e: "(k, entry) \<in> set entries" "entries_ok entries"
    and r: "ar_coverage_note row \<noteq> []"
  shows "\<exists>l. row_link candidate flow_rows row entry = Inr l \<and> valid_link entries candidate l \<and> el_entry_id l = k
    \<and> (el_status l = ''complete'' \<longleftrightarrow> claimed_complete row \<and> formal_flow_witness entry candidate row flow_rows)"
proof -
  note k = entries_okD[OF e(2,1)]
  let ?status = "if claimed_complete row \<and> formal_flow_witness entry candidate row flow_rows then ''complete'' else ''partial''"
  let ?reasons = "usort ([ar_coverage_note row]
            @ (if association_row_route row \<noteq> None then [''ASSOCIATION_QUERY_ROUTE_ALIAS_MATCHED''] else [])
            @ (if \<not> formal_flow_row_matches candidate row flow_rows then [''FLOW_CODEQL_ROW_MISSING'']
               else if claimed_complete row \<and> \<not> formal_flow_witness entry candidate row flow_rows then [''FLOW_FORMAL_PROOF_INCOMPLETE''] else []))"
  have "\<exists>l. link_create (growth_id candidate) (entry_id entry) ?status [growth_id candidate, entry_id entry] ?reasons = Inr l"
    using candidate_okD(1)[OF c] k(1,2) r by (intro link_create_ok) (auto simp: association_values_def)
  then obtain l where l: "link_create (growth_id candidate) (entry_id entry) ?status [growth_id candidate, entry_id entry] ?reasons = Inr l" ..
  have s: "el_status l = ?status" by (rule link_create_fields(3)[OF l])
  have "valid_link entries candidate l"
    using link_create_fields(1,2,6)[OF l] k(1) e(1) by (force simp: valid_link_def)
  moreover have "row_link candidate flow_rows row entry = Inr l"
    using l unfolding row_link_def Let_def by simp
  moreover have "el_entry_id l = k" using link_create_fields(2)[OF l] k(1) by simp
  moreover have "el_status l = ''complete'' \<longleftrightarrow> claimed_complete row \<and> formal_flow_witness entry candidate row flow_rows"
    unfolding s by simp
  ultimately show ?thesis by blast
qed

lemma map_res_all:
  assumes "\<And>x. x \<in> set xs \<Longrightarrow> \<exists>y. f x = Inr y \<and> P y"
  shows "\<exists>ys. map_res f xs = Inr ys \<and> (\<forall>y \<in> set ys. P y) \<and> length ys = length xs"
  using assms
proof (induction xs)
  case (Cons x xs)
  obtain y where y: "f x = Inr y" "P y" using Cons.prems by (meson list.set_intros(1))
  obtain ys where ys: "map_res f xs = Inr ys" "\<forall>y \<in> set ys. P y" "length ys = length xs" using Cons by (meson list.set_intros(2))
  show ?case using y ys by (intro exI[of _ "y # ys"]) simp
qed simp

lemma query_links_ok:
  assumes "candidate_ok candidate" "entries_ok entries" "\<forall>row \<in> set rows. ar_coverage_note row \<noteq> []"
  shows "\<exists>ls. query_links (map snd entries) candidate rows flow_rows = Inr ls
     \<and> (\<forall>l \<in> set ls. valid_link entries candidate l
        \<and> (el_status l = ''complete'' \<longrightarrow> justified entries candidate rows flow_rows (el_entry_id l)))"
proof -
  have "\<exists>l. (case p of (row, entry) \<Rightarrow> row_link candidate flow_rows row entry) = Inr l \<and> valid_link entries candidate l
      \<and> (el_status l = ''complete'' \<longrightarrow> justified entries candidate rows flow_rows (el_entry_id l))"
    if "p \<in> set (query_pairs (map snd entries) candidate rows)" for p
  proof -
    obtain row e k where p: "p = (row, e)" and i: "row \<in> set rows" "at_site candidate row" "row_reaches e row" "(k, e) \<in> set entries"
      using \<open>p \<in> _\<close> unfolding query_pairs_def by auto
    show ?thesis
      using row_link_ok[OF assms(1) i(4) assms(2), of row flow_rows] assms(3) i
      unfolding p justified_def prod.case by metis
  qed
  then have "\<exists>ys. map_res (\<lambda>(row, entry). row_link candidate flow_rows row entry) (query_pairs (map snd entries) candidate rows) = Inr ys
      \<and> (\<forall>l \<in> set ys. valid_link entries candidate l
        \<and> (el_status l = ''complete'' \<longrightarrow> justified entries candidate rows flow_rows (el_entry_id l)))
      \<and> length ys = length (query_pairs (map snd entries) candidate rows)"
    by (rule map_res_all)
  then show ?thesis unfolding query_links_def by blast
qed

lemma group_append_groups:
  "\<forall>(k, ys) \<in> set gs. ys \<noteq> [] \<and> set ys \<subseteq> A \<Longrightarrow> x \<in> A \<Longrightarrow> \<forall>(k, ys) \<in> set (group_append j x gs). ys \<noteq> [] \<and> set ys \<subseteq> A"
  by (induction j x gs rule: group_append.induct) auto

lemma dict_values_sub: "set (dict_values key xs) \<subseteq> set xs"
proof -
  have "\<forall>(k, ys) \<in> set (fold (\<lambda>x. group_append (key x) x) zs gs). ys \<noteq> [] \<and> set ys \<subseteq> A"
    if "\<forall>(k, ys) \<in> set gs. ys \<noteq> [] \<and> set ys \<subseteq> A" "set zs \<subseteq> A" for zs gs A
    using that
  proof (induction zs arbitrary: gs)
    case (Cons z zs)
    then show ?case using group_append_groups[of gs A z "key z"] by simp
  qed simp
  from this[of "[]" "set xs" xs] show ?thesis by (auto simp: dict_values_def subset_iff)
qed

lemma group_append_nonempty: "group_append k x gs \<noteq> []"
  by (induction k x gs rule: group_append.induct) auto

lemma dict_values_nonempty: "xs \<noteq> [] \<Longrightarrow> dict_values key xs \<noteq> []"
proof -
  have "fold (\<lambda>x. group_append (key x) x) zs gs \<noteq> []" if "gs \<noteq> [] \<or> zs \<noteq> []" for zs gs
    using that by (induction zs arbitrary: gs) (auto simp: group_append_nonempty)
  then show "xs \<noteq> [] \<Longrightarrow> dict_values key xs \<noteq> []" by (simp add: dict_values_def)
qed

section \<open>Soundness of the association\<close>

definition sound_link :: "(string \<times> entry_fact) list \<Rightarrow> growth_candidate \<Rightarrow> flow_row list \<Rightarrow> flow_row list \<Rightarrow> entry_link \<Rightarrow> bool" where
  "sound_link entries candidate rows flow_rows l \<longleftrightarrow> valid_link entries candidate l
     \<and> (el_status l = ''complete'' \<longrightarrow> justified entries candidate rows flow_rows (el_entry_id l))"

definition association_sound :: "(string \<times> entry_fact) list \<Rightarrow> growth_candidate \<Rightarrow> flow_row list \<Rightarrow> flow_row list
    \<Rightarrow> entry_link list \<Rightarrow> candidate_disposition \<Rightarrow> bool" where
  "association_sound entries candidate rows flow_rows links d \<longleftrightarrow>
     length links \<le> 64 \<and> (\<forall>l \<in> set links. sound_link entries candidate rows flow_rows l)
     \<and> associated candidate links (cd_association d) d
     \<and> (if length links = 1 then cd_association d = el_status (hd links) else cd_association d \<in> {''ambiguous'', ''missing''})"

lemma association_soundI:
  assumes "associated candidate links status d" "length links \<le> 64" "\<forall>l \<in> set links. sound_link entries candidate rows flow_rows l"
    "if length links = 1 then status = el_status (hd links) else status \<in> {''ambiguous'', ''missing''}"
  shows "association_sound entries candidate rows flow_rows links d"
proof -
  have "cd_association d = status" using assms(1) by (simp add: associated_def)
  then show ?thesis using assms by (auto simp: association_sound_def split: if_splits)
qed

lemma sound_valid: "\<forall>l \<in> set links. sound_link entries candidate rows flow_rows l \<Longrightarrow> \<forall>l \<in> set links. valid_link entries candidate l"
  by (simp add: sound_link_def)

lemma unlinked_sound:
  assumes "candidate_ok candidate" "status \<in> {''ambiguous'', ''missing''}" "r \<noteq> []"
  shows "\<exists>d. association_disposition candidate [] status [r] = Inr d
     \<and> association_sound entries candidate rows flow_rows [] d"
proof -
  have "status \<in> set association_status_values" using assms(2) by (auto simp: association_status_values_def)
  then obtain d where d: "association_disposition candidate [] status [r] = Inr d" "associated candidate [] status d"
    using association_disposition_ok[OF assms(1), of "[]" entries status "[r]"] assms(3) by auto
  show ?thesis using association_soundI[OF d(2), of entries rows flow_rows] d(1) assms(2) by auto
qed

lemma canonicalized_ok:
  assumes c: "candidate_ok candidate" and e: "entries_ok entries" "i \<in> fst ` set entries"
    and s: "status \<in> set association_values" and r: "reasons \<noteq> []" "[] \<notin> set reasons"
    and j: "status = ''complete'' \<longrightarrow> justified entries candidate rows flow_rows i"
  shows "\<exists>l d. canonicalized candidate i status reasons = Inr ([l], d)
     \<and> association_sound entries candidate rows flow_rows [l] d"
proof -
  have "startswith i ''entry:''" using e entries_okD(2) by fastforce
  then have "\<exists>l. link_create (growth_id candidate) i status [growth_id candidate, i] (usort reasons) = Inr l"
    using candidate_okD(1)[OF c] s r by (intro link_create_ok) auto
  then obtain l where l: "link_create (growth_id candidate) i status [growth_id candidate, i] (usort reasons) = Inr l" ..
  note f = link_create_fields[OF l]
  have v: "sound_link entries candidate rows flow_rows l"
    using f(1,2,3,6) e(2) j by (simp add: sound_link_def valid_link_def)
  have "status \<in> set association_status_values" using s by (auto simp: association_values_def association_status_values_def)
  moreover have "[] \<notin> set (''ASSOCIATION_QUERY_EVIDENCE'' # el_reasons l)" using f(5) r(2) by simp
  ultimately obtain d where d: "association_disposition candidate [l] status (''ASSOCIATION_QUERY_EVIDENCE'' # el_reasons l) = Inr d"
    "associated candidate [l] status d"
    using association_disposition_ok[OF c, of "[l]" entries status "''ASSOCIATION_QUERY_EVIDENCE'' # el_reasons l"] v
    by (auto simp: sound_link_def)
  have "association_sound entries candidate rows flow_rows [l] d"
    using association_soundI[OF d(2)] v f(3) by simp
  then show ?thesis using l d(1) by (auto simp: canonicalized_def)
qed

lemma site_registration:
  assumes "entry_site_identity x = entry_site_identity y" "entry_registration_identity x \<noteq> entry_registration_identity y"
  shows "registration_pattern_id x \<noteq> registration_pattern_id y"
  using assms by (auto simp: entry_site_identity_def entry_registration_identity_def)

text \<open>The links of one registration site carry two different patterns: no canonical entry exists.\<close>

definition patterns_clash :: "(string \<times> entry_fact) list \<Rightarrow> growth_candidate \<Rightarrow> py_exc \<Rightarrow> bool" where
  "patterns_clash entries candidate e \<longleftrightarrow>
     (\<exists>n x y. e = entry_ambiguous n candidate \<and> x \<in> snd ` set entries \<and> y \<in> snd ` set entries
        \<and> entry_site_identity x = entry_site_identity y \<and> registration_pattern_id x \<noteq> registration_pattern_id y)"

lemma linked_association_ok:
  assumes c: "candidate_ok candidate" and e: "entries_ok entries" and ne: "linked \<noteq> []"
    and ls: "\<forall>l \<in> set linked. sound_link entries candidate rows flow_rows l"
  shows "case linked_association entries candidate linked of
      Inr (links, d) \<Rightarrow> association_sound entries candidate rows flow_rows links d
    | Inl x \<Rightarrow> patterns_clash entries candidate x"
proof -
  note v = sound_valid[OF ls]
  define es where "es = map (\<lambda>l. the (map_of entries (el_entry_id l))) linked"
  have look: "map_of entries (el_entry_id l) = Some (the (map_of entries (el_entry_id l)))"
      "entry_id (the (map_of entries (el_entry_id l))) = el_entry_id l"
      "the (map_of entries (el_entry_id l)) \<in> snd ` set entries" if "l \<in> set linked" for l
  proof -
    have "el_entry_id l \<in> fst ` set entries" using v that by (simp add: valid_link_def)
    then obtain x where x: "(el_entry_id l, x) \<in> set entries" by auto
    then show "map_of entries (el_entry_id l) = Some (the (map_of entries (el_entry_id l)))"
      "entry_id (the (map_of entries (el_entry_id l))) = el_entry_id l"
      "the (map_of entries (el_entry_id l)) \<in> snd ` set entries"
      using entries_okD[OF e x] by (auto intro: rev_image_eqI)
  qed
  have m: "map_res (\<lambda>l. item (map_of entries) (el_entry_id l)) linked = Inr es"
    unfolding es_def using look(1) by (intro map_res_Inr) auto
  have reasons: "[] \<notin> set (r # concat (map el_reasons linked))" if "r \<noteq> []" for r
    using that v valid_linkD(5) by fastforce
  let ?bases = "map fst (filter (\<lambda>(l, e). Some (registration_pattern_id e) = netty_base_pattern) (zip linked es))"
  let ?one = "length linked > 1 \<and> one_key entry_site_identity es \<and> one_key el_status linked"
  consider "?one" "length ?bases = 1" | "?one" "length ?bases \<noteq> 1" | "\<not> ?one" "length linked > 64" | "\<not> ?one" "length linked \<le> 64"
    by linarith
  then show ?thesis
  proof cases
    case 1
    have "?bases \<noteq> []" using 1(2) by auto
    then have "hd ?bases \<in> set ?bases" by (rule hd_in_set)
    then have b: "hd ?bases \<in> set linked" by (auto dest: set_zip_leftD)
    then have "valid_link entries candidate (hd ?bases)" using v by blast
    note bv = this valid_linkD(5,7)[OF this]
    have "\<exists>l d. canonicalized candidate (el_entry_id (hd ?bases)) (el_status (hd ?bases))
        (''ASSOCIATION_QUERY_HANDLER_BASE_CANONICALIZED'' # el_reasons (hd ?bases)) = Inr ([l], d)
        \<and> association_sound entries candidate rows flow_rows [l] d"
    proof (rule canonicalized_ok[OF c e])
      show "el_entry_id (hd ?bases) \<in> fst ` set entries" using bv(1) by (simp add: valid_link_def)
      show "el_status (hd ?bases) \<in> set association_values" by (rule bv(3))
      show "el_status (hd ?bases) = ''complete'' \<longrightarrow> justified entries candidate rows flow_rows (el_entry_id (hd ?bases))"
        using ls b by (simp add: sound_link_def)
    qed (use bv(2) in simp_all)
    then show ?thesis using 1 by (auto simp: linked_association_def m Let_def)
  next
    case 2
    have "es \<noteq> []" using ne by (simp add: es_def)
    then show ?thesis
    proof (cases rule: canonical_entry_cases[of es candidate])
      case (1 k)
      obtain l where l: "l \<in> set linked" "k = the (map_of entries (el_entry_id l))" using 1(2) by (auto simp: es_def)
      let ?s = "if list_all (\<lambda>l. el_status l = ''complete'') linked then ''complete'' else ''partial''"
      have "\<exists>l d. canonicalized candidate (entry_id k) ?s
          (''ASSOCIATION_QUERY_DUPLICATE_REGISTRATION_CANONICALIZED'' # concat (map el_reasons linked)) = Inr ([l], d)
          \<and> association_sound entries candidate rows flow_rows [l] d"
      proof (rule canonicalized_ok[OF c e])
        show "entry_id k \<in> fst ` set entries" using look(2)[OF l(1)] l v by (simp add: valid_link_def)
        show "?s \<in> set association_values" by (simp add: association_values_def)
        show "?s = ''complete'' \<longrightarrow> justified entries candidate rows flow_rows (entry_id k)"
          using look(2)[OF l(1)] l ls by (auto simp: sound_link_def list_all_iff)
      qed (use reasons[of "''r''"] in simp_all)
      then show ?thesis using 1 2 by (auto simp: linked_association_def m Let_def)
    next
      case (2 x y)
      have "entry_site_identity x = entry_site_identity y" using \<open>?one\<close> 2(2,3) one_key_eq by metis
      moreover have "x \<in> snd ` set entries" "y \<in> snd ` set entries" using 2(2,3) look(3) by (auto simp: es_def)
      ultimately have "patterns_clash entries candidate (entry_ambiguous (narrow_entries es candidate) candidate)"
        using site_registration 2(4) unfolding patterns_clash_def by blast
      then show ?thesis using 2 \<open>?one\<close> \<open>length ?bases \<noteq> 1\<close> by (auto simp: linked_association_def m Let_def)
    qed
  next
    case 3
    obtain d where "association_disposition candidate [] ''ambiguous'' [''ASSOCIATION_ENTRY_FANOUT_PARTITION_AMBIGUOUS''] = Inr d"
      "association_sound entries candidate rows flow_rows [] d"
      using unlinked_sound[OF c, of "''ambiguous''" "''ASSOCIATION_ENTRY_FANOUT_PARTITION_AMBIGUOUS''" entries rows flow_rows] by auto
    then show ?thesis using 3 by (auto simp: linked_association_def m Let_def)
  next
    case 4
    let ?s = "if length linked = 1 then el_status (hd linked) else ''ambiguous''"
    have "hd linked \<in> set linked" using ne by simp
    then have "el_status (hd linked) \<in> set association_values" using v valid_linkD(7) by blast
    then have s: "?s \<in> set association_status_values"
      by (auto simp: association_values_def association_status_values_def)
    have q: "''ASSOCIATION_QUERY_EVIDENCE'' # concat (map el_reasons linked) \<noteq> []" by simp
    obtain d where d: "association_disposition candidate linked ?s (''ASSOCIATION_QUERY_EVIDENCE'' # concat (map el_reasons linked)) = Inr d"
      "associated candidate linked ?s d"
      using association_disposition_ok[OF c v s q reasons] by blast
    have "association_sound entries candidate rows flow_rows linked d"
      using 4(2) ls by (intro association_soundI[OF d(2)]) simp_all
    moreover have "?one = False" "(64 < length linked) = False" using 4(1) by blast (use 4(2) in simp)
    then have "linked_association entries candidate linked = Inr (linked, d)"
      by (simp only: linked_association_def m res_bind_simps Let_def d(1) simp_thms if_False)
    ultimately show ?thesis by simp
  qed
qed

lemma canonical_entry_one_key:
  assumes "one_key entry_semantic_key es"
  shows "\<exists>e. canonical_entry es c = Inr e \<and> e \<in> set es"
proof -
  have "es \<noteq> []" using assms by (auto simp: one_key_def)
  then show ?thesis
  proof (cases rule: canonical_entry_cases[of es c])
    case (2 x y)
    have "one_key entry_semantic_key (narrow_entries es c)"
      using one_key_eq[OF assms] narrow_entries_sub[of es c] narrow_entries_nonempty[OF \<open>es \<noteq> []\<close>]
      by (intro one_keyI) (auto simp: subset_iff)
    then show ?thesis using 2(1) by (auto simp: canonical_entry_def Let_def split: list.splits if_splits)
  qed blast
qed

lemma source_order_links_ok:
  assumes c: "candidate_ok candidate" and e: "entries_ok entries" "entry \<in> snd ` set entries"
  shows "\<exists>links d. source_order_links candidate flow_rows [entry] = Inr (links, d)
     \<and> association_sound entries candidate rows flow_rows links d"
proof -
  obtain k where k: "(k, entry) \<in> set entries" using e(2) by auto
  note ek = entries_okD[OF e(1) k]
  let ?missing = "if list_ex (\<lambda>e. \<not> entry_candidate_has_formal_flow e candidate flow_rows) [entry]
            then [''FLOW_CODEQL_ROW_MISSING''] else []"
  have "\<exists>l. link_create (growth_id candidate) (entry_id entry) ''partial'' [growth_id candidate, entry_id entry]
      (usort (''ASSOCIATION_LEGACY_SOURCE_ORDER_PARTIAL'' # ?missing)) = Inr l"
    using candidate_okD(1)[OF c] ek(1,2) by (intro link_create_ok) (auto simp: association_values_def)
  then obtain l where l: "link_create (growth_id candidate) (entry_id entry) ''partial'' [growth_id candidate, entry_id entry]
      (usort (''ASSOCIATION_LEGACY_SOURCE_ORDER_PARTIAL'' # ?missing)) = Inr l" ..
  note f = link_create_fields[OF l]
  have v: "sound_link entries candidate rows flow_rows l"
    using f(1,2,3,6) ek(1) k by (force simp: sound_link_def valid_link_def)
  obtain d where d: "association_disposition candidate [l] ''partial'' (''ASSOCIATION_CALL_GRAPH_UNAVAILABLE'' # ?missing) = Inr d"
    "associated candidate [l] ''partial'' d"
    using association_disposition_ok[OF c, of "[l]" entries "''partial''" "''ASSOCIATION_CALL_GRAPH_UNAVAILABLE'' # ?missing"] v
    by (auto simp: sound_link_def association_status_values_def split: if_splits)
  have "association_sound entries candidate rows flow_rows [l] d"
    using association_soundI[OF d(2)] v f(3) by simp
  moreover have "source_order_links candidate flow_rows [entry] = Inr ([l], d)"
    unfolding source_order_links_def Let_def using l d(1) by simp
  ultimately show ?thesis by blast
qed

lemma source_order_association_ok:
  assumes c: "candidate_ok candidate" and e: "entries_ok entries"
  shows "\<exists>links d. source_order_association (map snd entries) candidate flow_rows = Inr (links, d)
     \<and> association_sound entries candidate rows flow_rows links d"
proof -
  let ?m = "handlers_above (map snd entries) candidate"
  have sub: "set ?m \<subseteq> snd ` set entries" by (auto simp: handlers_above_def)
  note single = source_order_links_ok[OF c e, of _ flow_rows rows]
  note none = unlinked_sound[OF c, of _ _ entries rows flow_rows]
  consider "?m = []" | "?m \<noteq> []" "one_key entry_semantic_key ?m" | h where "?m = [h]" "\<not> one_key entry_semantic_key ?m"
    | "length ?m > 1" "\<not> one_key entry_semantic_key ?m"
    by (cases ?m; cases "tl ?m") auto
  then show ?thesis
  proof cases
    case 1
    then show ?thesis using none[of "''missing''" "''ASSOCIATION_ENTRY_COVERAGE_UNPROVEN''"]
      by (auto simp: source_order_association_def)
  next
    case 2
    obtain h where h: "canonical_entry ?m candidate = Inr h" "h \<in> set ?m" using canonical_entry_one_key[OF 2(2)] by blast
    then show ?thesis using single[of h] sub 2 by (auto simp: source_order_association_def Let_def)
  next
    case (3 h)
    then show ?thesis using single[of h] sub by (auto simp: source_order_association_def Let_def)
  next
    case 4
    have ne: "?m \<noteq> []" using 4(1) by auto
    have "nearest_handlers ?m \<noteq> []"
    proof -
      have "Max (set (map (\<lambda>e. h_start_line (e_handler e)) ?m)) \<in> set (map (\<lambda>e. h_start_line (e_handler e)) ?m)"
        using ne by (intro Max_in) auto
      then show ?thesis by (auto simp: nearest_handlers_def Let_def filter_empty_conv)
    qed
    then show ?thesis
    proof (cases rule: canonical_entry_cases[of _ candidate])
      case (1 h)
      have "h \<in> set ?m" using 1(2) by (auto simp: nearest_handlers_def)
      then show ?thesis using single[of h] sub 1(1) 4 ne by (auto simp: source_order_association_def Let_def)
    next
      case (2 x y)
      then show ?thesis using none[of "''ambiguous''" "''ASSOCIATION_ENTRY_FANOUT_PARTITION_AMBIGUOUS''"] 4 ne
        by (auto simp: source_order_association_def Let_def entry_ambiguous_def)
    qed
  qed
qed

lemma association_decides:
  assumes "entries_ok entries" "candidate_ok candidate" "\<forall>row \<in> set rows. ar_coverage_note row \<noteq> []"
  shows "case candidate_association entries candidate rows flow_rows of
      Inr (links, d) \<Rightarrow> association_sound entries candidate rows flow_rows links d
    | Inl e \<Rightarrow> patterns_clash entries candidate e"
proof -
  obtain ls where ls: "query_links (map snd entries) candidate rows flow_rows = Inr ls"
    "\<forall>l \<in> set ls. sound_link entries candidate rows flow_rows l"
    using query_links_ok[OF assms(2,1,3)] by (auto simp: sound_link_def)
  have sub: "\<forall>l \<in> set (dict_values el_id ls). sound_link entries candidate rows flow_rows l"
    using ls(2) dict_values_sub[of el_id ls] by blast
  show ?thesis
  proof (cases "ls = []")
    case True
    then show ?thesis using source_order_association_ok[OF assms(2,1), of flow_rows rows] ls(1)
      by (auto simp: candidate_association_def)
  next
    case False
    then show ?thesis using linked_association_ok[OF assms(2,1) dict_values_nonempty[OF False] sub] ls(1)
      by (simp add: candidate_association_def)
  qed
qed

text \<open>C7. The association of a candidate returns at most 64 valid links to entries of the run and the
  disposition they amount to, unless one registration site carries different patterns. A link is complete
  only if a complete, proven row leads from the handler of its entry to the site of the candidate and a
  data flow row of the same path starts in an input of that entry and meets a demand of the candidate.\<close>

theorem candidate_association_sound:
  assumes "entries_ok entries" "candidate_ok candidate" "\<forall>row \<in> set rows. ar_coverage_note row \<noteq> []"
  shows "case candidate_association entries candidate rows flow_rows of
      Inr (links, d) \<Rightarrow> association_sound entries candidate rows flow_rows links d
    | Inl e \<Rightarrow> patterns_clash entries candidate e"
  by (rule association_decides[OF assms])

end
