(* ===== verification/RelevanceLaws.thy ===== *)
theory RelevanceLaws
  imports Relevance
begin

text \<open>The relevance gate decides every candidate, and what its decisions rest on.\<close>

section \<open>Decisions\<close>

lemma usort_length: "length (usort xs) \<le> length xs"
  unfolding usort_def using card_length[of xs] by simp

definition proper_reasons :: "string list \<Rightarrow> bool" where
  "proper_reasons rs \<longleftrightarrow> rs \<noteq> [] \<and> length rs \<le> 16 \<and> list_all (\<lambda>r. r \<noteq> [] \<and> length r \<le> 128) rs"

lemma relevance_Inr:
  assumes "status \<in> set relevance_statuses" "amplification \<in> set amplification_classes" "proper_reasons reasons"
  shows "relevance status amplification reasons = Inr \<lparr>rv_status = status, rv_amplification = amplification, rv_reasons = usort reasons\<rparr>"
proof -
  have "length (usort reasons) \<le> 16" using assms(3) usort_length[of reasons] by (simp add: proper_reasons_def)
  moreover have "\<not> list_ex (\<lambda>r. r = [] \<or> length r > 128) (usort reasons)"
    using assms(3) by (auto simp: proper_reasons_def list_ex_iff list_all_iff)
  ultimately show ?thesis using assms by (simp add: relevance_def RelevanceDecision_def proper_reasons_def)
qed

text \<open>The reasons that a negative proof rests on.\<close>

definition rejection_reasons :: "string list" where
  "rejection_reasons = [''RELEVANCE_TEST_OR_BENCHMARK_ONLY'', ''RELEVANCE_SERVER_SIZED_ALLOCATION'',
     ''RELEVANCE_SERVER_SIDE_MATERIALIZATION'', ''RELEVANCE_FIXED_KEY_RETENTION'', ''RELEVANCE_FINITE_KEYSPACE'']"

text \<open>A decision outside the early rejections: what its status rests on.\<close>

definition family_outcome :: "bool \<Rightarrow> bool \<Rightarrow> relevance_decision \<Rightarrow> bool" where
  "family_outcome eligible rejected d \<longleftrightarrow>
     rv_status d \<in> set relevance_statuses \<and> rv_amplification d \<in> set amplification_classes
     \<and> rv_reasons d \<noteq> [] \<and> [] \<notin> set (rv_reasons d)
     \<and> (rv_status d = ''contract_eligible'' \<longrightarrow> eligible)
     \<and> (if rejected then rv_status d = ''rejected'' \<and> (\<exists>t \<in> set rejection_reasons. rv_reasons d = [t])
        else rv_status d \<noteq> ''rejected'')"

definition gives :: "bool \<Rightarrow> bool \<Rightarrow> relevance_decision res \<Rightarrow> bool" where
  "gives eligible rejected r \<longleftrightarrow> (\<exists>d. r = Inr d \<and> family_outcome eligible rejected d)"

lemma gives_relevance:
  assumes "status \<in> set relevance_statuses" "amplification \<in> set amplification_classes" "proper_reasons reasons"
    "status = ''contract_eligible'' \<longrightarrow> eligible"
    "if rejected then status = ''rejected'' \<and> (\<exists>t \<in> set rejection_reasons. reasons = [t]) else status \<noteq> ''rejected''"
  shows "gives eligible rejected (relevance status amplification reasons)"
proof -
  have "[] \<notin> set reasons" "reasons \<noteq> []" using assms(3) by (auto simp: proper_reasons_def list_all_iff)
  then show ?thesis
    using assms by (auto simp: gives_def relevance_Inr family_outcome_def split: if_splits)
qed

lemma gives_weaken: "gives e r x \<Longrightarrow> (e \<Longrightarrow> e') \<Longrightarrow> gives e' r x"
  by (auto simp: gives_def family_outcome_def)

lemmas relevance_literals = relevance_statuses_def amplification_classes_def proper_reasons_def rejection_reasons_def

lemma gives_unresolved:
  "amplification \<in> set amplification_classes \<Longrightarrow> proper_reasons reasons \<Longrightarrow> gives e False (relevance ''unresolved'' amplification reasons)"
  "amplification \<in> set amplification_classes \<Longrightarrow> proper_reasons reasons \<Longrightarrow> gives e False (relevance ''dos_relevant_partial'' amplification reasons)"
  by (rule gives_relevance; simp add: relevance_statuses_def)+

lemma gives_partial_or_eligible:
  assumes "amplification \<in> set amplification_classes" "reason \<noteq> []" "length reason \<le> 128"
  shows "gives (complete_candidate c) False (partial_or_eligible c amplification reason)"
  unfolding partial_or_eligible_def using assms
  by (simp add: gives_relevance gives_unresolved relevance_statuses_def proper_reasons_def)

lemma gives_if: "gives e r (if b then x else y) \<longleftrightarrow> (b \<longrightarrow> gives e r x) \<and> (\<not> b \<longrightarrow> gives e r y)"
  by simp

section \<open>Families\<close>

lemmas gives_rules = gives_unresolved gives_partial_or_eligible[THEN gives_weaken]

lemma materialization_gives: "gives (complete_candidate c \<and> \<not> p) False (materialization_relevance c p)"
  unfolding materialization_relevance_def Let_def
  by (auto intro!: gives_rules simp: relevance_literals)

lemma allocation_gives: "gives (complete_candidate c \<and> \<not> p) False (allocation_relevance e c p)"
  unfolding allocation_relevance_def Let_def
  by (auto intro!: gives_rules simp: relevance_literals)

lemma request_container_gives: "gives (complete_candidate c \<and> \<not> p) False (request_container_relevance c p)"
  unfolding request_container_relevance_def Let_def
  by (auto intro!: gives_rules simp: relevance_literals)

lemma container_gives: "gives (complete_candidate c \<and> \<not> p) False (container_relevance e c p)"
  unfolding container_relevance_def Let_def gives_if
  by (intro conjI impI request_container_gives) (auto intro!: gives_rules simp: relevance_literals)

lemma async_gives: "gives (complete_candidate c \<and> \<not> p) False (async_relevance c p)"
  unfolding async_relevance_def Let_def
  by (auto intro!: gives_rules simp: relevance_literals)

definition complete_link :: "entry_fact option \<Rightarrow> growth_candidate \<Rightarrow> entry_link list \<Rightarrow> bool" where
  "complete_link entry c links \<longleftrightarrow> (\<exists>e l. entry = Some e \<and> links = [l] \<and> el_entry_id l = entry_id e
     \<and> el_growth_id l = growth_id c \<and> el_status l = ''complete'')"

lemma canonical_link_Some:
  "canonical_link entry c links = Some l \<longleftrightarrow>
     (\<exists>e. entry = Some e \<and> links = [l] \<and> el_entry_id l = entry_id e \<and> el_growth_id l = growth_id c)"
  by (auto simp: canonical_link_def split: option.splits list.splits if_split_asm)

lemma family_gives: "gives (complete_candidate c \<and> complete_link entry c links) False (family_relevance entry c links)"
proof (cases "canonical_link entry c links")
  case None
  then show ?thesis
    by (auto simp: family_relevance_def relevance_literals intro!: gives_unresolved)
next
  case (Some l)
  then obtain e where e: "entry = Some e" "links = [l]" "el_entry_id l = entry_id e" "el_growth_id l = growth_id c"
    by (auto simp: canonical_link_Some)
  have k: "complete_candidate c \<and> \<not> (el_status l \<noteq> ''complete'') \<Longrightarrow> complete_candidate c \<and> complete_link entry c links"
    using e by (auto simp: complete_link_def)
  note parts = materialization_gives allocation_gives container_gives async_gives
  have u: "gives z False (relevance ''unresolved'' ''unknown'' [''RELEVANCE_FAMILY_UNMODELED''])" for z
    by (intro gives_unresolved) (simp_all add: relevance_literals)
  show ?thesis
    unfolding family_relevance_def e(1) Some[unfolded e(1)] option.case prod.case Let_def gives_if
    by (intro conjI impI u parts[THEN gives_weaken]) (use k[unfolded e(1)] in blast)+
qed

section \<open>The gate\<close>

definition rejected_by_facts :: "growth_candidate \<Rightarrow> bool" where
  "rejected_by_facts c \<longleftrightarrow> test_or_benchmark_path (sl_file (g_site c))
     \<or> complete_candidate c \<and> (server_sized c \<or> noted c ''server_side_file_materialization'' \<or> noted c ''fixed_key''
          \<or> list_ex (noted c) finite_keyspace_markers)"

lemma gate_gives:
  "gives (complete_candidate c \<and> complete_link entry c links) (length links \<le> 64 \<and> rejected_by_facts c)
     (evaluate_candidate_relevance entry c links)"
proof -
  have un: "gives z False (relevance ''unresolved'' a [r])" if "a \<in> set amplification_classes" "r \<noteq> []" "length r \<le> 128" for z a r
    using that by (intro gives_unresolved) (simp_all add: proper_reasons_def)
  have rj: "gives z True (relevance ''rejected'' ''low_amplification'' [t])" if "t \<in> set rejection_reasons" for z t
    using that by (intro gives_relevance) (auto simp: relevance_literals)
  have low: "''low_amplification'' \<in> set amplification_classes" "''unknown'' \<in> set amplification_classes"
    by (simp_all add: amplification_classes_def)
  have t: "''RELEVANCE_TEST_OR_BENCHMARK_ONLY'' \<in> set rejection_reasons" "''RELEVANCE_SERVER_SIZED_ALLOCATION'' \<in> set rejection_reasons"
    "''RELEVANCE_SERVER_SIDE_MATERIALIZATION'' \<in> set rejection_reasons" "''RELEVANCE_FIXED_KEY_RETENTION'' \<in> set rejection_reasons"
    "''RELEVANCE_FINITE_KEYSPACE'' \<in> set rejection_reasons"
    by (simp_all add: rejection_reasons_def)
  show ?thesis
    unfolding evaluate_candidate_relevance_def rejected_by_facts_def
    using un rj low t family_gives[of c entry links] by (simp add: not_less)
qed

lemma relevance_decides:
  "\<exists>d. evaluate_candidate_relevance entry c links = Inr d
     \<and> (rv_status d = ''rejected'' \<longleftrightarrow> length links \<le> 64 \<and> rejected_by_facts c)
     \<and> (rv_status d = ''rejected'' \<longrightarrow> (\<exists>t \<in> set rejection_reasons. rv_reasons d = [t]))
     \<and> (rv_status d = ''contract_eligible'' \<longrightarrow> complete_candidate c \<and> complete_link entry c links \<and> \<not> rejected_by_facts c)
     \<and> rv_status d \<in> set relevance_statuses \<and> rv_reasons d \<noteq> [] \<and> [] \<notin> set (rv_reasons d)"
proof -
  obtain d where d: "evaluate_candidate_relevance entry c links = Inr d"
    "family_outcome (complete_candidate c \<and> complete_link entry c links) (length links \<le> 64 \<and> rejected_by_facts c) d"
    using gate_gives unfolding gives_def by blast
  have "''contract_eligible'' \<noteq> ''rejected''" by simp
  moreover have "complete_link entry c links \<Longrightarrow> length links \<le> 64" by (auto simp: complete_link_def)
  ultimately show ?thesis using d by (auto simp: family_outcome_def split: if_splits)
qed

text \<open>C17. The relevance gate decides every candidate. It rejects exactly the candidates of test or benchmark
  sources and those whose complete facts show a size, a source or a key that the attacker does not control,
  unless more than 64 links were found, and then with one reason that a negative proof is made of. A
  candidate is eligible for a contract only with complete facts and one complete link to its entry.\<close>

theorem relevance_exact:
  "case evaluate_candidate_relevance entry c links of
     Inl _ \<Rightarrow> False
   | Inr d \<Rightarrow> (rv_status d = ''rejected'' \<longleftrightarrow> length links \<le> 64 \<and> rejected_by_facts c)
      \<and> (rv_status d = ''rejected'' \<longrightarrow> (\<exists>t \<in> set rejection_reasons. rv_reasons d = [t]))
      \<and> (rv_status d = ''contract_eligible'' \<longrightarrow> complete_candidate c \<and> complete_link entry c links \<and> \<not> rejected_by_facts c)"
  using relevance_decides[of entry c links] by auto

theorem relevance_exact_witness:
  "\<exists>d. evaluate_candidate_relevance None (sample_candidate\<lparr>g_site := \<lparr>sl_file = ''src/test/A.java'', sl_line = 3\<rparr>\<rparr>) [] = Inr d
     \<and> rv_status d = ''rejected''"
proof -
  let ?c = "sample_candidate\<lparr>g_site := \<lparr>sl_file = ''src/test/A.java'', sl_line = 3\<rparr>\<rparr>"
  have "rejected_by_facts ?c"
    by (simp add: rejected_by_facts_def test_or_benchmark_path_def path_parts_def slashes_def lower_def lower_char_def)
  with relevance_exact[where entry = None and c = ?c and links = "[]"] show ?thesis by (auto split: sum.splits)
qed

end
