(* ===== verification/MaturationLaws.thy ===== *)
theory MaturationLaws
  imports Maturation AssociationLaws RelevanceLaws ReachabilityLaws
begin

text \<open>
  What the growth stage leaves for a candidate: exactly one valid disposition, whose status is backed by
  the other records of the stage.
\<close>

section \<open>Dispositions of a matured candidate\<close>

lemma endswith_props: "np_id n = stable_identifier ''negative_proof'' v \<Longrightarrow> is_negative_id (np_id n)"
  using stable_identifier_prefix[of "''negative_proof''" v] by (simp add: is_negative_id_def)

lemma negative_created:
  assumes "negative_create growth kind evidence reasons = Inr n"
  shows "is_negative_id (np_id n)" "np_growth_id n = growth" "CandidateNegativeProof n = Inr n" "np_kind n = kind"
proof -
  have i: "CandidateNegativeProof x = Inr y \<Longrightarrow> y = x" for x y
    by (auto simp: CandidateNegativeProof_def res_bind_Inr_iff split: if_split_asm)
  let ?k = "\<lparr>np_id = [], np_growth_id = growth, np_kind = kind, np_evidence = usort evidence, np_reasons = usort reasons\<rparr>"
  let ?m = "?k\<lparr>np_id := stable_identifier ''negative_proof'' (JObj (negative_identity ?k))\<rparr>"
  have m: "CandidateNegativeProof ?m = Inr n" using assms unfolding negative_create_def Let_def .
  have c: "CandidateNegativeProof n = Inr n" and g: "np_growth_id n = growth" "np_kind n = kind"
    using m i[OF m] by simp_all
  show "CandidateNegativeProof n = Inr n" "np_growth_id n = growth" "np_kind n = kind" by (fact c g)+
  have "np_id n = stable_identifier ''negative_proof'' (JObj (negative_identity n))"
    using c by (auto simp: CandidateNegativeProof_def res_bind_Inr_iff split: if_split_asm)
  then show "is_negative_id (np_id n)" by (rule endswith_props)
qed

lemma negative_create_ok:
  assumes "candidate_ok c" "kind \<in> set negative_proof_kinds" "reason \<noteq> []"
  shows "\<exists>n. negative_create (growth_id c) kind (g_evidence c) [reason] = Inr n"
  using candidate_okD[OF assms(1)] assms(2,3) fact_id_nonempty
  by (auto simp: negative_create_Inr list_all_iff)

lemma negative_for_rejection:
  assumes "candidate_ok c" "t \<in> set rejection_reasons"
  shows "\<exists>n. negative_proof_for_relevance c [t] = Inr n"
proof -
  have "\<exists>u k r rest. filter (\<lambda>(trigger, _). trigger \<in> set [t]) negative_mapping = (u, k, r) # rest
      \<and> k \<in> set negative_proof_kinds \<and> r \<noteq> []"
    using assms(2) by (auto simp: rejection_reasons_def negative_mapping_def negative_proof_kinds_def)
  then show ?thesis using negative_create_ok[OF assms(1)] by (fastforce simp: negative_proof_for_relevance_def)
qed

lemma negative_proof_created:
  assumes "negative_proof_for_relevance c rs = Inr n"
  shows "is_negative_id (np_id n) \<and> np_growth_id n = growth_id c \<and> CandidateNegativeProof n = Inr n"
  using assms negative_created by (auto simp: negative_proof_for_relevance_def split: list.splits)

text \<open>The association that a maturation starts from.\<close>

lemma associated_facts:
  assumes "candidate_ok c" "associated c links a d" "\<forall>l \<in> set links. valid_link entries c l"
  shows "[] \<notin> set (cd_evidence d)" "filter is_negative_id (cd_evidence d) = []" "cd_evidence d \<noteq> []"
    "[] \<notin> set (cd_link_ids d)" "cd_entry_id d \<noteq> [] \<Longrightarrow> startswith (cd_entry_id d) ''entry:''"
    "cd_local_status d \<in> {''complete'', ''partial''}" "cd_association d \<in> set association_status_values"
    "length links = 1 \<Longrightarrow> length (cd_link_ids d) = 1 \<and> cd_entry_id d \<noteq> []"
proof -
  note cd = candidate_okD[OF assms(1)]
  have e: "canonical_id links \<noteq> [] \<Longrightarrow> startswith (canonical_id links) ''entry:''"
    using assms(3) valid_linkD(3) by (cases links; cases "tl links") (auto simp: canonical_id_def)
  have one: "length links = 1 \<Longrightarrow> canonical_id links \<noteq> []"
    using assms(3) valid_linkD(4) by (cases links; cases "tl links") (auto simp: canonical_id_def)
  have ids: "x \<noteq> [] \<and> \<not> is_negative_id x" if "x \<in> set (map el_id links)" for x
    using that assms(3) valid_linkD(1,2) not_negative(2) by fastforce
  have ev: "x \<noteq> [] \<and> \<not> is_negative_id x" if "x \<in> set (cd_evidence d)" for x
    using that assms(2) cd(4) fact_id_nonempty not_negative(1,3) ids e one
    by (auto simp: associated_def list_all_iff split: if_splits)
  then show "[] \<notin> set (cd_evidence d)" "filter is_negative_id (cd_evidence d) = []" by (auto simp: filter_empty_conv)
  show "cd_evidence d \<noteq> []" using assms(2) cd(3) by (auto simp: associated_def)
  show "[] \<notin> set (cd_link_ids d)" using assms(2) ids by (auto simp: associated_def)
  show "cd_entry_id d \<noteq> [] \<Longrightarrow> startswith (cd_entry_id d) ''entry:''" using e assms(2) by (simp add: associated_def)
  show "cd_local_status d \<in> {''complete'', ''partial''}" using assms(2) by (simp add: associated_def)
  have "CandidateDisposition d = Inr d" using assms(2) by (simp add: associated_def)
  then show "cd_association d \<in> set association_status_values"
    by (auto simp: CandidateDisposition_def split: if_split_asm)
  show "length links = 1 \<Longrightarrow> length (cd_link_ids d) = 1 \<and> cd_entry_id d \<noteq> []"
    using assms(2) one by (cases links) (auto simp: associated_def)
qed

lemma mature_disposition_fields:
  assumes "mature_disposition c a status rs reasons evidence negatives = Inr d"
  shows "CandidateDisposition d = Inr d" "cd_growth_id d = growth_id c" "cd_status d = status" "cd_entry_id d = cd_entry_id a"
    "cd_link_ids d = usort (cd_link_ids a)" "cd_association d = cd_association a" "cd_negative_ids d = usort negatives"
    "set (cd_evidence d) = set (cd_evidence a) \<union> set evidence \<union> set negatives"
    "set (cd_reasons d) = set (cd_reasons a) \<union> set reasons"
proof -
  have i: "CandidateDisposition x = Inr y \<Longrightarrow> y = x" for x y
    by (auto simp: CandidateDisposition_def res_bind_Inr_iff Let_def split: if_split_asm)
  let ?d = "disposition_of (growth_id c) status (cd_entry_id a)
    (if status = ''rejected'' \<and> negatives \<noteq> [] then ''rejected''
     else if status = ''gap_eligible'' \<and> rs = Some ''dos_relevant_partial'' then ''partial'' else cd_local_status a)
    (cd_association a) (cd_link_ids a) (usort (cd_evidence a @ evidence @ negatives)) (usort negatives) (usort (cd_reasons a @ reasons))"
  have "CandidateDisposition ?d = Inr d"
    using assms by (simp only: mature_disposition_def Let_def disposition_create_of)
  then have "d = ?d" "CandidateDisposition d = Inr d" using i by metis+
  then show "CandidateDisposition d = Inr d" "cd_growth_id d = growth_id c" "cd_status d = status" "cd_entry_id d = cd_entry_id a"
    "cd_link_ids d = usort (cd_link_ids a)" "cd_association d = cd_association a" "cd_negative_ids d = usort negatives"
    "set (cd_evidence d) = set (cd_evidence a) \<union> set evidence \<union> set negatives"
    "set (cd_reasons d) = set (cd_reasons a) \<union> set reasons"
    by auto
qed

definition matured_local :: "string \<Rightarrow> string list \<Rightarrow> string option \<Rightarrow> candidate_disposition \<Rightarrow> string" where
  "matured_local status negatives rs a = (if status = ''rejected'' \<and> negatives \<noteq> [] then ''rejected''
     else if status = ''gap_eligible'' \<and> rs = Some ''dos_relevant_partial'' then ''partial'' else cd_local_status a)"

lemma mature_disposition_ok:
  assumes c: "candidate_ok c" and a: "associated c links st a" and v: "\<forall>l \<in> set links. valid_link entries c l"
    and r: "reasons \<noteq> []" "[] \<notin> set reasons" and e: "\<forall>x \<in> set evidence. x \<noteq> [] \<and> \<not> is_negative_id x"
    and n: "list_all is_negative_id negatives" and s: "status \<in> set disposition_values" "status = ''rejected'' \<longleftrightarrow> negatives \<noteq> []"
    and el: "eligible_status status \<Longrightarrow> length links = 1 \<and> cd_association a \<in> {''complete'', ''partial''}
      \<and> (status = ''formal_eligible'' \<longleftrightarrow> matured_local status negatives rs a = ''complete'' \<and> cd_association a = ''complete'')"
  shows "\<exists>d. mature_disposition c a status rs reasons evidence negatives = Inr d"
proof -
  note af = associated_facts[OF c a v]
  let ?d = "disposition_of (growth_id c) status (cd_entry_id a) (matured_local status negatives rs a)
    (cd_association a) (cd_link_ids a) (usort (cd_evidence a @ evidence @ negatives)) (usort negatives) (usort (cd_reasons a @ reasons))"
  have nn: "[] \<notin> set negatives" using n negative_id_nonempty by (auto simp: list_all_iff)
  have ar: "[] \<notin> set (cd_reasons a)" using a by (simp add: associated_def)
  have lo: "matured_local status negatives rs a \<in> set local_growth_values" "\<not> status = ''rejected'' \<Longrightarrow> matured_local status negatives rs a \<in> {''complete'', ''partial''}"
    using af(6) by (auto simp: matured_local_def local_growth_values_def)
  have er: "eligible_status status \<Longrightarrow> status \<noteq> ''rejected''" by (auto simp: eligible_status_def)
  note fe = af(1,2)
  have "disposition_ok ?d"
    unfolding disposition_ok_def disposition_of_simps
  proof (intro conjI impI)
    show "startswith (growth_id c) ''growth:''" by (rule candidate_okD(1)[OF c])
    show "status \<in> set disposition_values" by (rule s(1))
    show "matured_local status negatives rs a \<in> set local_growth_values" by (rule lo(1))
    show "cd_association a \<in> set association_status_values" by (rule af(7))
    show "startswith (cd_entry_id a) ''entry:''" if "cd_entry_id a \<noteq> []" by (rule af(5)[OF that])
    show "[] \<notin> set (usort (cd_link_ids a))" using af(4) by simp
    show "usort (usort (cd_evidence a @ evidence @ negatives)) \<noteq> []" using af(3) by simp
    show "[] \<notin> set (usort (usort (cd_evidence a @ evidence @ negatives)))" using af(1) e nn by auto
    show "usort (usort (cd_reasons a @ reasons)) \<noteq> []" using r(1) by simp
    show "[] \<notin> set (usort (usort (cd_reasons a @ reasons)))" using r(2) ar by simp
    show "list_all is_negative_id (usort (usort negatives))" using n by (simp add: list_all_iff)
    show "set (usort (usort negatives)) = set (filter is_negative_id (usort (usort (cd_evidence a @ evidence @ negatives))))"
      using e n fe(2) by (auto simp: list_all_iff filter_empty_conv)
    show "(status = ''rejected'') = (usort (usort negatives) \<noteq> [])" using s(2) by simp
    assume es: "eligible_status status"
    show "length (usort (cd_link_ids a)) = 1" "cd_entry_id a \<noteq> []"
      using el[OF es] af(8) a by (auto simp: associated_def)
    show "matured_local status negatives rs a \<in> {''complete'', ''partial''}" using lo(2) er[OF es] by blast
    show "cd_association a \<in> {''complete'', ''partial''}" using el[OF es] by blast
    show "(status = ''formal_eligible'') = (matured_local status negatives rs a = ''complete'' \<and> cd_association a = ''complete'')"
      using el[OF es] by blast
  qed
  from disposition_create_ok(1)[OF this] show ?thesis
    unfolding mature_disposition_def Let_def matured_local_def[symmetric] by blast
qed

lemma association_sound_parts:
  assumes "association_sound entries c rows flow_rows links a"
  shows "associated c links (cd_association a) a" "\<forall>l \<in> set links. valid_link entries c l" "length links \<le> 64"
    "\<forall>l \<in> set links. el_status l = ''complete'' \<longrightarrow> justified entries c rows flow_rows (el_entry_id l)"
  using assms by (auto simp: association_sound_def sound_link_def)

text \<open>When an association is a single complete link of a complete candidate, it is formal.\<close>

lemma sound_status:
  assumes "association_sound entries c rows flow_rows links a"
  shows "cd_status a = ''formal_eligible'' \<longleftrightarrow> complete_candidate c \<and> (\<exists>l. links = [l] \<and> el_status l = ''complete'')"
    "cd_status a \<noteq> ''inventory_unresolved'' \<longleftrightarrow> (\<exists>l. links = [l])"
    "cd_status a \<noteq> ''inventory_unresolved'' \<Longrightarrow> cd_association a \<in> {''complete'', ''partial''}"
    "cd_local_status a = ''complete'' \<longleftrightarrow> complete_candidate c"
proof -
  have v: "\<forall>l \<in> set links. el_status l \<in> {''complete'', ''partial''}"
    using association_sound_parts(2)[OF assms] valid_linkD(7) by (fastforce simp: association_values_def)
  have a: "associated c links (cd_association a) a" by (rule association_sound_parts(1)[OF assms])
  have one: "length links = 1 \<longleftrightarrow> (\<exists>l. links = [l])" by (cases links; cases "tl links") auto
  have st: "cd_association a = (el_status (hd links))" if "length links = 1" using assms that by (simp add: association_sound_def)
  have s: "cd_status a = (if length links = 1 \<and> cd_association a \<in> {''complete'', ''partial''}
          then (if complete_candidate c \<and> cd_association a = ''complete'' then ''formal_eligible'' else ''gap_eligible'')
          else ''inventory_unresolved'')" using a by (simp add: associated_def)
  show "cd_status a = ''formal_eligible'' \<longleftrightarrow> complete_candidate c \<and> (\<exists>l. links = [l] \<and> el_status l = ''complete'')"
    using s st one v by (auto split: if_splits)
  show "cd_status a \<noteq> ''inventory_unresolved'' \<longleftrightarrow> (\<exists>l. links = [l])"
    using s st one v by (auto split: if_splits)
  show "cd_status a \<noteq> ''inventory_unresolved'' \<Longrightarrow> cd_association a \<in> {''complete'', ''partial''}"
    using s by (auto split: if_splits)
  show "cd_local_status a = ''complete'' \<longleftrightarrow> complete_candidate c" using a by (auto simp: associated_def)
qed

section \<open>What a disposition stands for\<close>

definition not_reachable_in :: "(string \<times> auth_contract \<times> reachability_decision) list \<Rightarrow> string \<Rightarrow> bool" where
  "not_reachable_in auth i \<longleftrightarrow> (\<exists>contract d. (i, contract, d) \<in> set auth \<and> rd_status d = ''not_entry_reachable'')"

definition decided_in :: "(string \<times> auth_contract \<times> reachability_decision) list \<Rightarrow> string \<Rightarrow> bool" where
  "decided_in auth i \<longleftrightarrow> (\<exists>contract d. (i, contract, d) \<in> set auth \<and> rd_status d \<noteq> ''not_entry_reachable'')"

type_synonym outcome = "entry_link list \<times> candidate_disposition \<times> negative_proof list \<times> verified_growth list"

definition rejection_backed :: "growth_candidate \<Rightarrow> (string \<times> auth_contract \<times> reachability_decision) list
    \<Rightarrow> candidate_disposition \<Rightarrow> negative_proof list \<Rightarrow> verified_growth list \<Rightarrow> bool" where
  "rejection_backed c auth d ns vs \<longleftrightarrow> (\<exists>n. ns = [n] \<and> CandidateNegativeProof n = Inr n \<and> np_growth_id n = growth_id c
     \<and> cd_negative_ids d = [np_id n]) \<and> vs = [] \<and> (rejected_by_facts c \<or> not_reachable_in auth (cd_entry_id d))"

definition eligibility_backed :: "growth_inputs \<Rightarrow> growth_candidate \<Rightarrow> (string \<times> auth_contract \<times> reachability_decision) list
    \<Rightarrow> entry_link list \<Rightarrow> candidate_disposition \<Rightarrow> negative_proof list \<Rightarrow> verified_growth list \<Rightarrow> bool" where
  "eligibility_backed gi c auth links d ns vs \<longleftrightarrow> ns = []
     \<and> (\<exists>l v. links = [l] \<and> vs = [v] \<and> vg_growth_id v = growth_id c \<and> verified_growth_id v \<in> set (cd_evidence d)
          \<and> decided_in auth (el_entry_id l) \<and> \<not> rejected_by_facts c
          \<and> (cd_status d = ''formal_eligible'' \<longrightarrow> complete_candidate c
              \<and> justified (gi_entries gi) c (gi_association_rows gi) (gi_flow_rows gi) (el_entry_id l)))"

fun matured :: "growth_inputs \<Rightarrow> (string \<times> auth_contract \<times> reachability_decision) list \<Rightarrow> growth_candidate \<Rightarrow> outcome \<Rightarrow> bool" where
  "matured gi auth c (links, d, ns, vs) \<longleftrightarrow>
     CandidateDisposition d = Inr d \<and> cd_growth_id d = growth_id c \<and> cd_link_ids d = usort (map el_id links)
     \<and> cd_entry_id d = canonical_id links \<and> length links \<le> 64
     \<and> (\<forall>l \<in> set links. valid_link (gi_entries gi) c l)
     \<and> (if cd_status d = ''rejected'' then rejection_backed c auth d ns vs
        else if cd_status d = ''inventory_unresolved'' then ns = [] \<and> vs = []
        else eligibility_backed gi c auth links d ns vs)"

lemma matured_mono:
  assumes "matured gi auth c out" "set auth \<subseteq> set auth'"
  shows "matured gi auth' c out"
proof -
  have "not_reachable_in auth i \<Longrightarrow> not_reachable_in auth' i" "decided_in auth i \<Longrightarrow> decided_in auth' i" for i
    using assms(2) by (auto simp: not_reachable_in_def decided_in_def)
  with assms(1) show ?thesis
    by (cases out) (auto simp: rejection_backed_def eligibility_backed_def split: if_splits)
qed

text \<open>What a step adds to the records.\<close>

definition extends :: "growth_records \<Rightarrow> outcome \<Rightarrow> growth_records \<Rightarrow> bool" where
  "extends s out s' \<longleftrightarrow> (case out of (links, d, ns, vs) \<Rightarrow>
     gs_links s' = gs_links s @ links \<and> gs_dispositions s' = gs_dispositions s @ [d]
     \<and> gs_negatives s' = gs_negatives s @ ns \<and> gs_verified s' = gs_verified s @ vs
     \<and> set (gs_auth s) \<subseteq> set (gs_auth s'))"

text \<open>The kept decisions: one for an entry, and the one that its facts and the language model give.\<close>

definition auth_ok :: "growth_inputs \<Rightarrow> growth_records \<Rightarrow> bool" where
  "auth_ok gi s \<longleftrightarrow> distinct (map fst (gs_auth s))
     \<and> (\<forall>(i, contract, d) \<in> set (gs_auth s). entry_auth_decision (gi_repr gi) (gi_classify_auth gi) i
          (gi_security gi i) (gi_configuration gi) = Inr (contract, d))"

lemma decide_entry_cases:
  assumes "decide_entry gi s i = Inr (s', d)" "auth_ok gi s"
  shows "auth_ok gi s'" "\<exists>contract. (i, contract, d) \<in> set (gs_auth s')" "set (gs_auth s) \<subseteq> set (gs_auth s')"
    "gs_links s' = gs_links s" "gs_dispositions s' = gs_dispositions s" "gs_negatives s' = gs_negatives s"
    "gs_verified s' = gs_verified s"
proof -
  have "auth_ok gi s' \<and> (\<exists>contract. (i, contract, d) \<in> set (gs_auth s')) \<and> set (gs_auth s) \<subseteq> set (gs_auth s')
    \<and> gs_links s' = gs_links s \<and> gs_dispositions s' = gs_dispositions s \<and> gs_negatives s' = gs_negatives s
    \<and> gs_verified s' = gs_verified s"
  proof (cases "map_of (gs_auth s) i")
    case None
    then have "i \<notin> fst ` set (gs_auth s)" by (simp add: map_of_eq_None_iff)
    then show ?thesis using assms None
      by (auto simp: decide_entry_def res_bind_Inr_iff auth_ok_def)
  next
    case (Some p)
    then show ?thesis using assms map_of_SomeD[OF Some] by (cases p) (auto simp: decide_entry_def)
  qed
  then show "auth_ok gi s'" "\<exists>contract. (i, contract, d) \<in> set (gs_auth s')" "set (gs_auth s) \<subseteq> set (gs_auth s')"
    "gs_links s' = gs_links s" "gs_dispositions s' = gs_dispositions s" "gs_negatives s' = gs_negatives s"
    "gs_verified s' = gs_verified s" by blast+
qed

lemma record_applicability_fields:
  assumes "record_applicability s e c l = Inr s'"
  shows "gs_links s' = gs_links s" "gs_dispositions s' = gs_dispositions s" "gs_negatives s' = gs_negatives s"
    "gs_verified s' = gs_verified s" "gs_auth s' = gs_auth s"
  using assms by (auto simp: record_applicability_def res_bind_Inr_iff split: prod.splits)

lemma verified_created:
  assumes "verify_growth_contract c s contract index = Inr v"
  shows "vg_growth_id v = growth_id c"
proof -
  have i: "VerifiedGrowthResult x = Inr y \<Longrightarrow> y = x" for x y
    by (auto simp: VerifiedGrowthResult_def split: if_split_asm)
  show ?thesis using assms
    by (auto simp: verify_growth_contract_def Let_def verified_growth_create_def split: if_split_asm dest: i)
qed

lemma check_growth_fields:
  assumes "check_growth gi s e c = Inr (s', v)"
  shows "gs_links s' = gs_links s" "gs_dispositions s' = gs_dispositions s" "gs_negatives s' = gs_negatives s"
    "gs_verified s' = gs_verified s @ [v]" "gs_auth s' = gs_auth s" "vg_growth_id v = growth_id c"
  using assms verified_created by (auto simp: check_growth_def res_bind_Inr_iff Let_def)

definition inputs_ok :: "growth_inputs \<Rightarrow> bool" where
  "inputs_ok gi \<longleftrightarrow> entries_ok (gi_entries gi) \<and> (\<forall>row \<in> set (gi_association_rows gi). ar_coverage_note row \<noteq> [])"

definition sound_in :: "growth_inputs \<Rightarrow> growth_candidate \<Rightarrow> entry_link list \<Rightarrow> candidate_disposition \<Rightarrow> bool" where
  "sound_in gi c links a \<longleftrightarrow> association_sound (gi_entries gi) c (gi_association_rows gi) (gi_flow_rows gi) links a"

lemma outcome_common:
  assumes "sound_in gi c links a" "mature_disposition c a status rs reasons evidence negatives = Inr d"
  shows "CandidateDisposition d = Inr d \<and> cd_growth_id d = growth_id c \<and> cd_link_ids d = usort (map el_id links)
     \<and> cd_entry_id d = canonical_id links \<and> length links \<le> 64 \<and> (\<forall>l \<in> set links. valid_link (gi_entries gi) c l)
     \<and> cd_status d = status \<and> cd_negative_ids d = usort negatives \<and> set evidence \<subseteq> set (cd_evidence d)"
  using association_sound_parts(1-3)[OF assms(1)[unfolded sound_in_def]] mature_disposition_fields[OF assms(2)]
  by (auto simp: associated_def)

lemma rejected_outcome:
  assumes a: "sound_in gi c links a" and r: "reject_candidate s c a negative reasons = Inr s'"
    and n: "\<And>n. negative = Inr n \<Longrightarrow> np_growth_id n = growth_id c \<and> CandidateNegativeProof n = Inr n"
    and w: "rejected_by_facts c \<or> not_reachable_in auth (canonical_id links)"
  shows "\<exists>d ns. matured gi auth c (links, d, ns, []) \<and> gs_auth s' = gs_auth s
    \<and> extends s ([], d, ns, []) s'"
proof -
  obtain p d where p: "negative = Inr p" "mature_disposition c a ''rejected'' None reasons [] [np_id p] = Inr d"
    "s' = s\<lparr>gs_negatives := gs_negatives s @ [p], gs_dispositions := gs_dispositions s @ [d]\<rparr>"
    using r by (auto simp: reject_candidate_def res_bind_Inr_iff)
  have "matured gi auth c (links, d, [p], [])"
    using outcome_common[OF a p(2)] n[OF p(1)] w by (simp add: rejection_backed_def)
  then show ?thesis using p(3) by (intro exI[of _ d] exI[of _ "[p]"]) (simp add: extends_def)
qed

lemma mature_linked_outcome:
  assumes a: "sound_in gi c [l] a" and m: "mature_linked gi s c a gate e l = Inr s'" and ao: "auth_ok gi s"
    and e: "entry_id e = el_entry_id l" and nr: "\<not> rejected_by_facts c"
  shows "auth_ok gi s' \<and> (\<exists>d ns vs. matured gi (gs_auth s') c ([l], d, ns, vs) \<and> extends s ([], d, ns, vs) s')"
proof -
  let ?status = "maturation_status a gate"
  obtain s1 s2 decision where s1: "record_applicability s e c l = Inr s1"
    and s2: "decide_entry gi s1 (entry_id e) = Inr (s2, decision)"
    using m by (auto simp: mature_linked_def Let_def res_bind_Inr_iff)
  note f1 = record_applicability_fields[OF s1]
  have "auth_ok gi s1" using ao f1(5) by (simp add: auth_ok_def)
  note f2 = decide_entry_cases[OF s2 this]
  have eid: "canonical_id [l] = entry_id e" using e by (simp add: canonical_id_def)
  note rest = m[unfolded mature_linked_def Let_def s1 s2 res_bind_simps prod.case]
  show ?thesis
  proof (cases "rd_status decision = ''not_entry_reachable''")
    case True
    then have r: "reject_candidate s2 c a
          (negative_create (growth_id c) ''not_entry_reachable'' (g_evidence c) [''NEGATIVE_NOT_ENTRY_REACHABLE''])
          (relevance_reasons a gate @ rd_reasons decision @ [''MATURATION_NOT_ENTRY_REACHABLE'']) = Inr s'"
      using rest by simp
    have "not_reachable_in (gs_auth s2) (canonical_id [l])" using f2(2) True eid by (auto simp: not_reachable_in_def)
    then obtain d ns where "matured gi (gs_auth s2) c ([l], d, ns, [])" "gs_auth s' = gs_auth s2" "extends s2 ([], d, ns, []) s'"
      using rejected_outcome[OF a r, of "gs_auth s2"] negative_created(2,3) by blast
    then show ?thesis using f1 f2 by (auto simp: extends_def auth_ok_def)
  next
    case False
    then have "res_bind (check_growth gi s2 e c) (\<lambda>(s, result).
        res_bind (mature_disposition c a ?status (Some (rv_status gate))
            (relevance_reasons a gate @ [maturation_reason ?status]) [verified_growth_id result] []) (\<lambda>d.
        Inr (s\<lparr>gs_dispositions := gs_dispositions s @ [d]\<rparr>))) = Inr s'"
      using rest by simp
    then obtain s3 v d where s3: "check_growth gi s2 e c = Inr (s3, v)"
      and d: "mature_disposition c a ?status (Some (rv_status gate))
            (relevance_reasons a gate @ [maturation_reason ?status]) [verified_growth_id v] [] = Inr d"
      and s': "s' = s3\<lparr>gs_dispositions := gs_dispositions s3 @ [d]\<rparr>"
      by (auto simp: res_bind_Inr_iff)
    note f3 = check_growth_fields[OF s3]
    have st: "?status \<in> {''formal_eligible'', ''gap_eligible''}" by (simp add: maturation_status_def)
    have fm: "?status = ''formal_eligible'' \<Longrightarrow> cd_status a = ''formal_eligible''" by (simp add: maturation_status_def split: if_splits)
    have "?status = ''formal_eligible'' \<longrightarrow> complete_candidate c
        \<and> justified (gi_entries gi) c (gi_association_rows gi) (gi_flow_rows gi) (el_entry_id l)"
      using fm sound_status(1)[OF a[unfolded sound_in_def]] association_sound_parts(4)[OF a[unfolded sound_in_def]] by auto
    moreover have "decided_in (gs_auth s2) (el_entry_id l)" using f2(2) False e by (auto simp: decided_in_def)
    ultimately have "eligibility_backed gi c (gs_auth s2) [l] d [] [v]"
      using outcome_common[OF a d] f3(6) nr by (simp add: eligibility_backed_def)
    then have "matured gi (gs_auth s2) c ([l], d, [], [v])" using outcome_common[OF a d] st by auto
    moreover have "gs_auth s' = gs_auth s2" using s' f3 by simp
    ultimately show ?thesis using s' f1 f2 f3 by (auto simp: extends_def auth_ok_def)
  qed
qed

lemma extends_links:
  "extends (s\<lparr>gs_links := gs_links s @ links\<rparr>) ([], d, ns, vs) s' \<Longrightarrow> extends s (links, d, ns, vs) s'"
  by (simp add: extends_def)

lemma mature_candidate_outcome:
  assumes m: "mature_candidate gi s c = Inr s'" and i: "inputs_ok gi" and c: "candidate_ok c" and ao: "auth_ok gi s"
  shows "auth_ok gi s' \<and> (\<exists>out. extends s out s' \<and> matured gi (gs_auth s') c out)"
proof -
  obtain links a where la: "candidate_association (gi_entries gi) c (gi_association_rows gi) (gi_flow_rows gi) = Inr (links, a)"
    using m by (auto simp: mature_candidate_def res_bind_Inr_iff)
  have a: "sound_in gi c links a"
    using association_decides[of "gi_entries gi" c "gi_association_rows gi" "gi_flow_rows gi"] i c la
    by (simp add: inputs_ok_def sound_in_def)
  let ?s = "s\<lparr>gs_links := gs_links s @ links\<rparr>"
  have ao': "auth_ok gi ?s" using ao by (simp add: auth_ok_def)
  let ?entry = "case links of [l] \<Rightarrow> res_bind (item (map_of (gi_entries gi)) (el_entry_id l)) (\<lambda>e. Inr (Some e)) | _ \<Rightarrow> Inr None"
  note rest = m[unfolded mature_candidate_def la res_bind_simps prod.case Let_def]
  obtain entry gate where entry: "?entry = Inr entry" and g: "evaluate_candidate_relevance entry c links = Inr gate"
    using rest by (auto simp: res_bind_Inr_iff)
  note rest = rest[unfolded entry res_bind_simps g]
  have gate: "rv_status gate = ''rejected'' \<longleftrightarrow> length links \<le> 64 \<and> rejected_by_facts c"
    using relevance_decides[of entry c links] g by auto
  have l64: "length links \<le> 64" using association_sound_parts(3) a by (simp add: sound_in_def)
  show ?thesis
  proof (cases "rv_status gate = ''rejected''")
    case True
    then have r: "reject_candidate ?s c a (negative_proof_for_relevance c (rv_reasons gate))
         (relevance_reasons a gate @ [''MATURATION_SOURCE_PROVEN_NEGATIVE'']) = Inr s'"
      using rest by simp
    obtain d ns where "matured gi (gs_auth s) c (links, d, ns, [])" "gs_auth s' = gs_auth ?s" "extends ?s ([], d, ns, []) s'"
      using rejected_outcome[OF a r, of "gs_auth s"] True gate negative_proof_created by blast
    then have "extends s (links, d, ns, []) s'" "matured gi (gs_auth s') c (links, d, ns, [])" "gs_auth s' = gs_auth s"
      using extends_links[of s links] by simp_all
    moreover from this(3) have "auth_ok gi s'" using ao by (simp add: auth_ok_def)
    ultimately show ?thesis by blast
  next
    case False
    then have nr: "\<not> rejected_by_facts c" using gate l64 by blast
    let ?unresolved = "res_bind (mature_disposition c a ''inventory_unresolved'' None
        (relevance_reasons a gate @ [''MATURATION_INVENTORY_UNRESOLVED'']) [] []) (\<lambda>d. Inr (?s\<lparr>gs_dispositions := gs_dispositions ?s @ [d]\<rparr>))"
    have un: ?thesis if U: "?unresolved = Inr s'"
    proof -
      obtain d where d: "mature_disposition c a ''inventory_unresolved'' None
          (relevance_reasons a gate @ [''MATURATION_INVENTORY_UNRESOLVED'']) [] [] = Inr d"
        "s' = ?s\<lparr>gs_dispositions := gs_dispositions ?s @ [d]\<rparr>" using U by (auto simp: res_bind_Inr_iff)
      have "matured gi (gs_auth s') c (links, d, [], [])" using outcome_common[OF a d(1)] by simp
      moreover have "extends s (links, d, [], []) s'" using d(2) by (simp add: extends_def)
      moreover have "auth_ok gi s'" using d(2) ao by (simp add: auth_ok_def)
      ultimately show ?thesis by blast
    qed
    show ?thesis
    proof (cases "rv_status gate = ''unresolved'' \<or> cd_status a = ''inventory_unresolved''")
      case True
      then show ?thesis using rest False un by simp
    next
      case other: False
      then obtain l where l: "links = [l]" using sound_status(2) a by (auto simp: sound_in_def)
      have "valid_link (gi_entries gi) c l" using association_sound_parts(2) a l by (simp add: sound_in_def)
      then obtain e where e: "(el_entry_id l, e) \<in> set (gi_entries gi)" by (auto simp: valid_link_def)
      have me: "map_of (gi_entries gi) (el_entry_id l) = Some e" "entry_id e = el_entry_id l"
        using entries_okD(1,3) e i by (auto simp: inputs_ok_def)
      then have "entry = Some e" using entry l by simp
      then have "mature_linked gi ?s c a gate e l = Inr s'" using rest False other l by simp
      then show ?thesis
        using mature_linked_outcome[of gi c l a ?s gate e s'] a l ao' me(2) nr extends_links[of s links] by blast
    qed
  qed
qed

section \<open>The stage\<close>

definition collected :: "growth_records \<Rightarrow> outcome list \<Rightarrow> growth_records \<Rightarrow> bool" where
  "collected s outs s' \<longleftrightarrow> gs_links s' = gs_links s @ concat (map fst outs)
     \<and> gs_dispositions s' = gs_dispositions s @ map (fst \<circ> snd) outs
     \<and> gs_negatives s' = gs_negatives s @ concat (map (fst \<circ> snd \<circ> snd) outs)
     \<and> gs_verified s' = gs_verified s @ concat (map (snd \<circ> snd \<circ> snd) outs)"

lemma collected_extend: "extends s out s1 \<Longrightarrow> collected s1 outs s' \<Longrightarrow> collected s (out # outs) s'"
  by (cases out) (simp add: extends_def collected_def)

lemma mature_candidates_outcome:
  assumes "fold_res (mature_candidate gi) s cs = Inr s'" "inputs_ok gi" "\<forall>c \<in> set cs. candidate_ok c" "auth_ok gi s"
  shows "auth_ok gi s' \<and> set (gs_auth s) \<subseteq> set (gs_auth s')
    \<and> (\<exists>outs. list_all2 (matured gi (gs_auth s')) cs outs \<and> collected s outs s')"
  using assms
proof (induction cs arbitrary: s)
  case Nil
  then show ?case by (simp add: collected_def)
next
  case (Cons c cs)
  obtain s1 where s1: "mature_candidate gi s c = Inr s1" "fold_res (mature_candidate gi) s1 cs = Inr s'"
    using Cons.prems(1) by (auto simp: res_bind_Inr_iff)
  obtain out where out: "auth_ok gi s1" "extends s out s1" "matured gi (gs_auth s1) c out"
    using mature_candidate_outcome[OF s1(1)] Cons.prems by auto
  obtain outs where outs: "auth_ok gi s'" "set (gs_auth s1) \<subseteq> set (gs_auth s')" "list_all2 (matured gi (gs_auth s')) cs outs"
    "collected s1 outs s'" using Cons.IH[OF s1(2)] Cons.prems out(1) by auto
  have "set (gs_auth s) \<subseteq> set (gs_auth s1)" using out(2) by (auto simp: extends_def split: prod.splits)
  moreover have "list_all2 (matured gi (gs_auth s')) (c # cs) (out # outs)"
    using outs(2,3) matured_mono[OF out(3)] by simp
  ultimately show ?case using outs collected_extend[OF out(2)] by blast
qed


section \<open>Failures of the stage\<close>

text \<open>The maturation itself never fails: what raises is an ambiguous registration, the decision of an
  entry, or the check of the contract.\<close>

lemma record_applicability_ok:
  assumes "startswith (entry_id e) ''entry:''" "startswith (growth_id c) ''growth:''" "el_id l \<noteq> []"
  shows "\<exists>s'. record_applicability s e c l = Inr s'"
proof -
  have r: "fst (repeatability_of e l) \<in> set applicability_values" "snd (repeatability_of e l) \<noteq> []"
    by (simp_all add: repeatability_of_def applicability_values_def)
  have a: "fst (amplification_decision_for_candidate c) \<in> set applicability_values" "snd (amplification_decision_for_candidate c) \<noteq> []"
    by (simp_all add: amplification_decision_for_candidate_def applicability_values_def Let_def)
  have n: "entry_id e \<noteq> []" "growth_id c \<noteq> []" using assms by (auto simp: startswith_def)
  have "\<exists>x. applicability_create ''repeatability'' (entry_id e) (growth_id c) (fst (repeatability_of e l))
      [entry_id e, growth_id c, el_id l] [snd (repeatability_of e l)] = Inr x"
    "\<exists>x. applicability_create ''amplification'' (entry_id e) (growth_id c) (fst (amplification_decision_for_candidate c))
      [growth_id c, el_id l] [snd (amplification_decision_for_candidate c)] = Inr x"
    using assms r a n by (simp_all add: applicability_create_Inr)
  then show ?thesis by (auto simp: record_applicability_def case_prod_beta Let_def)
qed

lemma reject_candidate_ok:
  assumes c: "candidate_ok c" and a: "sound_in gi c links a" and n: "negative = Inr n" "is_negative_id (np_id n)"
    and r: "reasons \<noteq> []" "[] \<notin> set reasons"
  shows "\<exists>s'. reject_candidate s c a negative reasons = Inr s'"
proof -
  note p = association_sound_parts(1,2)[OF a[unfolded sound_in_def]]
  have "\<exists>d. mature_disposition c a ''rejected'' None reasons [] [np_id n] = Inr d"
    by (rule mature_disposition_ok[OF c p r])
      (use n(2) in \<open>auto simp: disposition_values_def eligible_status_def\<close>)
  then show ?thesis using n(1) by (auto simp: reject_candidate_def)
qed

text \<open>The steps that the stage takes from outside return for a candidate.\<close>

definition decides_entries :: "growth_inputs \<Rightarrow> bool" where
  "decides_entries gi \<longleftrightarrow> (\<forall>(i, e) \<in> set (gi_entries gi).
     is_ok (entry_auth_decision (gi_repr gi) (gi_classify_auth gi) i (gi_security gi i) (gi_configuration gi)))"

definition checks_growth :: "growth_inputs \<Rightarrow> growth_candidate \<Rightarrow> bool" where
  "checks_growth gi c \<longleftrightarrow> (\<forall>(i, e) \<in> set (gi_entries gi). is_ok (check_growth gi no_records e c))"

definition associates :: "growth_inputs \<Rightarrow> growth_candidate \<Rightarrow> bool" where
  "associates gi c \<longleftrightarrow> is_ok (candidate_association (gi_entries gi) c (gi_association_rows gi) (gi_flow_rows gi))"

lemma check_growth_any:
  assumes "is_ok (check_growth gi s e c)"
  shows "\<exists>s' v. check_growth gi t e c = Inr (s', v) \<and> \<not> is_negative_id (verified_growth_id v) \<and> verified_growth_id v \<noteq> []"
proof -
  have i: "VerifiedGrowthResult x = Inr y \<Longrightarrow> startswith (verified_growth_id y) ''verified_growth:''" for x y
    by (auto simp: VerifiedGrowthResult_def split: if_split_asm)
  have "\<exists>s' v. check_growth gi t e c = Inr (s', v) \<and> startswith (verified_growth_id v) ''verified_growth:''"
    using assms by (auto simp: is_ok_iff check_growth_def res_bind_Inr_iff Let_def verify_growth_contract_def
        verified_growth_create_def split: if_split_asm dest: i)
  then show ?thesis using not_negative(4) by (auto simp: startswith_def)
qed

lemma decided_reasons:
  assumes "entry_auth_decision py_repr classify i facts configuration = Inr (contract, d)"
  shows "[] \<notin> set (rd_reasons d)"
proof -
  have w: "wf_decision d" if "ReachabilityDecision e c x p s es rs j = Inr d" for e c x p s es rs j
    by (rule ReachabilityDecision_Inr(1)[OF that])
  have "wf_decision d"
    using assms w verified_decision(6) by (auto simp: entry_auth_decision_def res_bind_Inr_iff split: option.splits)
  then have "list_all text_field (rd_reasons d)" by (simp add: wf_decision_def)
  then show ?thesis by (auto simp: list_all_iff text_field_def good_string_def)
qed

lemma relevance_reasons_ok:
  assumes "association_sound entries c rows flow_rows links a" "[] \<notin> set (rv_reasons gate)"
  shows "[] \<notin> set (relevance_reasons a gate)"
  using association_sound_parts(1)[OF assms(1)] assms(2) by (auto simp: relevance_reasons_def associated_def)

lemma mature_linked_ok:
  assumes a: "sound_in gi c [l] a" and c: "candidate_ok c" and ao: "auth_ok gi s" and r: "[] \<notin> set (rv_reasons gate)"
    and e: "(el_entry_id l, e) \<in> set (gi_entries gi)" "entry_id e = el_entry_id l"
    and g: "rv_status gate = ''contract_eligible'' \<and> complete_candidate c \<and> el_status l = ''complete''
      \<or> rv_status gate = ''dos_relevant_partial''"
    and d: "decides_entries gi" and k: "checks_growth gi c"
  shows "\<exists>s'. mature_linked gi s c a gate e l = Inr s'"
proof -
  let ?status = "maturation_status a gate"
  note v = association_sound_parts(1,2)[OF a[unfolded sound_in_def]]
  note st = sound_status[OF a[unfolded sound_in_def]]
  note rr = relevance_reasons_ok[OF a[unfolded sound_in_def] r]
  have vl: "valid_link (gi_entries gi) c l" using v(2) by simp
  obtain s1 where s1: "record_applicability s e c l = Inr s1"
    using record_applicability_ok[of e c l] candidate_okD(1)[OF c] valid_linkD(2,3)[OF vl] e(2) by auto
  have ao1: "auth_ok gi s1" using ao record_applicability_fields(5)[OF s1] by (simp add: auth_ok_def)
  obtain k0 d0 where k0: "entry_auth_decision (gi_repr gi) (gi_classify_auth gi) (entry_id e) (gi_security gi (entry_id e))
      (gi_configuration gi) = Inr (k0, d0)"
    using d e by (fastforce simp: decides_entries_def is_ok_iff)
  have "\<exists>s2. decide_entry gi s1 (entry_id e) = Inr (s2, d0)"
  proof (cases "map_of (gs_auth s1) (entry_id e)")
    case None
    then show ?thesis using k0 by (simp add: decide_entry_def)
  next
    case (Some p)
    then have "(entry_id e, p) \<in> set (gs_auth s1)" by (rule map_of_SomeD)
    then have "p = (k0, d0)" using ao1 k0 by (cases p) (auto simp: auth_ok_def)
    then show ?thesis using Some by (simp add: decide_entry_def)
  qed
  then obtain s2 where s2: "decide_entry gi s1 (entry_id e) = Inr (s2, d0)" ..
  obtain s3 v0 where s3: "check_growth gi s2 e c = Inr (s3, v0)" "\<not> is_negative_id (verified_growth_id v0)" "verified_growth_id v0 \<noteq> []"
    using check_growth_any[of gi no_records e c s2] k e(1) by (fastforce simp: checks_growth_def)
  obtain n where n: "negative_create (growth_id c) ''not_entry_reachable'' (g_evidence c) [''NEGATIVE_NOT_ENTRY_REACHABLE''] = Inr n"
    using negative_create_ok[OF c, of "''not_entry_reachable''" "''NEGATIVE_NOT_ENTRY_REACHABLE''"]
    by (auto simp: negative_proof_kinds_def)
  have rej: "\<exists>s'. reject_candidate s2 c a (Inr n)
      (relevance_reasons a gate @ rd_reasons d0 @ [''MATURATION_NOT_ENTRY_REACHABLE'']) = Inr s'"
    using negative_created(1)[OF n] rr decided_reasons[OF k0] by (intro reject_candidate_ok[OF c a]) auto
  have ne: "''gap_eligible'' \<noteq> ''formal_eligible''" "''contract_eligible'' \<noteq> ''dos_relevant_partial''" by simp_all
  have formal: "cd_status a = ''formal_eligible'' \<longleftrightarrow> complete_candidate c \<and> el_status l = ''complete''" using st(1) by auto
  have as: "cd_association a \<in> {''complete'', ''partial''}" "cd_association a = el_status l"
    using st(2,3) a by (auto simp: sound_in_def association_sound_def)
  have "(?status = ''formal_eligible'') = (matured_local ?status [] (Some (rv_status gate)) a = ''complete'' \<and> cd_association a = ''complete'')"
    using g formal st(4) as ne by (auto simp: maturation_status_def matured_local_def)
  then have "\<exists>d. mature_disposition c a ?status (Some (rv_status gate)) (relevance_reasons a gate @ [maturation_reason ?status])
      [verified_growth_id v0] [] = Inr d"
    using rr s3 as by (intro mature_disposition_ok[OF c v]) (auto simp: disposition_values_def maturation_status_def maturation_reason_def)
  then show ?thesis
    using rej by (auto simp: mature_linked_def Let_def s1 s2 s3(1) n)
qed

lemma mature_candidate_ok:
  assumes i: "inputs_ok gi" and c: "candidate_ok c" and ao: "auth_ok gi s"
    and al: "associates gi c" and d: "decides_entries gi" and k: "checks_growth gi c"
  shows "\<exists>s'. mature_candidate gi s c = Inr s'"
proof -
  obtain links a where la: "candidate_association (gi_entries gi) c (gi_association_rows gi) (gi_flow_rows gi) = Inr (links, a)"
    using al by (auto simp: associates_def is_ok_iff)
  have a: "sound_in gi c links a"
    using association_decides[of "gi_entries gi" c "gi_association_rows gi" "gi_flow_rows gi"] i c la
    by (simp add: inputs_ok_def sound_in_def)
  note v = association_sound_parts(1,2)[OF a[unfolded sound_in_def]]
  let ?s = "s\<lparr>gs_links := gs_links s @ links\<rparr>"
  have ao': "auth_ok gi ?s" using ao by (simp add: auth_ok_def)
  let ?entry = "case links of [l] \<Rightarrow> res_bind (item (map_of (gi_entries gi)) (el_entry_id l)) (\<lambda>e. Inr (Some e)) | _ \<Rightarrow> Inr None"
  have look: "\<exists>e. (el_entry_id l, e) \<in> set (gi_entries gi) \<and> map_of (gi_entries gi) (el_entry_id l) = Some e \<and> entry_id e = el_entry_id l"
    if L: "l \<in> set links" for l
  proof -
    obtain e where "(el_entry_id l, e) \<in> set (gi_entries gi)" using v(2) L by (auto simp: valid_link_def)
    then show ?thesis using entries_okD(1,3) i by (auto simp: inputs_ok_def)
  qed
  have "\<exists>entry. ?entry = Inr entry \<and> (\<forall>l. links = [l] \<longrightarrow> (\<exists>e. entry = Some e \<and> (el_entry_id l, e) \<in> set (gi_entries gi) \<and> entry_id e = el_entry_id l))"
    using look by (cases links; cases "tl links") auto
  then obtain entry where entry: "?entry = Inr entry"
    and entry1: "\<forall>l. links = [l] \<longrightarrow> (\<exists>e. entry = Some e \<and> (el_entry_id l, e) \<in> set (gi_entries gi) \<and> entry_id e = el_entry_id l)" by auto
  obtain gate where g: "evaluate_candidate_relevance entry c links = Inr gate"
    and gr: "rv_status gate = ''rejected'' \<longrightarrow> (\<exists>t \<in> set rejection_reasons. rv_reasons gate = [t])"
    and ge: "rv_status gate = ''contract_eligible'' \<longrightarrow> complete_candidate c \<and> complete_link entry c links"
    and gs: "rv_status gate \<in> set relevance_statuses" "[] \<notin> set (rv_reasons gate)"
    using relevance_decides[of entry c links] by blast
  note rr = relevance_reasons_ok[OF a[unfolded sound_in_def] gs(2)]
  have un: "\<exists>d. mature_disposition c a ''inventory_unresolved'' None
      (relevance_reasons a gate @ [''MATURATION_INVENTORY_UNRESOLVED'']) [] [] = Inr d"
    using rr by (intro mature_disposition_ok[OF c v]) (auto simp: disposition_values_def eligible_status_def)
  have rest: "mature_candidate gi s c = (if rv_status gate = ''rejected'' then
       reject_candidate ?s c a (negative_proof_for_relevance c (rv_reasons gate)) (relevance_reasons a gate @ [''MATURATION_SOURCE_PROVEN_NEGATIVE''])
     else if rv_status gate = ''unresolved'' \<or> cd_status a = ''inventory_unresolved'' then
       res_bind (mature_disposition c a ''inventory_unresolved'' None
           (relevance_reasons a gate @ [''MATURATION_INVENTORY_UNRESOLVED'']) [] []) (\<lambda>d.
       Inr (?s\<lparr>gs_dispositions := gs_dispositions ?s @ [d]\<rparr>))
     else (case (entry, links) of
         (Some entry, [link]) \<Rightarrow> mature_linked gi ?s c a gate entry link
       | _ \<Rightarrow> res_bind (mature_disposition c a ''inventory_unresolved'' None
           (relevance_reasons a gate @ [''MATURATION_INVENTORY_UNRESOLVED'']) [] []) (\<lambda>d.
         Inr (?s\<lparr>gs_dispositions := gs_dispositions ?s @ [d]\<rparr>))))"
    by (simp only: mature_candidate_def la res_bind_simps prod.case Let_def entry g)
  show ?thesis
  proof (cases "rv_status gate = ''rejected''")
    case True
    then obtain t where t: "t \<in> set rejection_reasons" "rv_reasons gate = [t]" using gr by blast
    obtain n where n: "negative_proof_for_relevance c [t] = Inr n" using negative_for_rejection[OF c t(1)] by blast
    have "\<exists>s'. reject_candidate ?s c a (Inr n) (relevance_reasons a gate @ [''MATURATION_SOURCE_PROVEN_NEGATIVE'']) = Inr s'"
      using negative_proof_created[OF n] rr by (intro reject_candidate_ok[OF c a]) auto
    then show ?thesis using True n t(2) rest by simp
  next
    case nr: False
    show ?thesis
    proof (cases "rv_status gate = ''unresolved'' \<or> cd_status a = ''inventory_unresolved''")
      case True
      then show ?thesis using un nr rest by (auto simp: res_bind_def)
    next
      case other: False
      then obtain l where l: "links = [l]" using sound_status(2) a by (auto simp: sound_in_def)
      then obtain e where e: "entry = Some e" "(el_entry_id l, e) \<in> set (gi_entries gi)" "entry_id e = el_entry_id l" using entry1 by blast
      have "rv_status gate = ''contract_eligible'' \<or> rv_status gate = ''dos_relevant_partial''"
        using gs(1) nr other by (auto simp: relevance_statuses_def)
      then have "rv_status gate = ''contract_eligible'' \<and> complete_candidate c \<and> el_status l = ''complete''
          \<or> rv_status gate = ''dos_relevant_partial''"
        using ge l by (auto simp: complete_link_def)
      then have "\<exists>s'. mature_linked gi ?s c a gate e l = Inr s'"
        using mature_linked_ok[of gi c l a ?s gate e] a l c ao' gs(2) e(2,3) d k by blast
      then show ?thesis using rest nr other e(1) l by simp
    qed
  qed
qed

text \<open>C31. The maturation itself never fails: the growth stage returns whenever the association of each
  candidate is not ambiguous, the reachability of each entry is decided, and each contract is read and
  checked. In particular every disposition and decision record it builds is accepted.\<close>

theorem mature_candidates_total:
  assumes "inputs_ok gi" "decides_entries gi"
    and "\<forall>c \<in> set cs. candidate_ok c \<and> associates gi c \<and> checks_growth gi c"
  shows "\<exists>s. mature_candidates gi cs = Inr s \<and> length (gs_dispositions s) = length cs"
proof -
  have "\<exists>s'. fold_res (mature_candidate gi) s cs = Inr s'" if "auth_ok gi s" for s
    using that assms(3)
  proof (induction cs arbitrary: s)
    case (Cons c cs)
    obtain s1 where s1: "mature_candidate gi s c = Inr s1"
      using mature_candidate_ok[OF assms(1) _ Cons.prems(1) _ assms(2)] Cons.prems(2) by auto
    then have "auth_ok gi s1" using mature_candidate_outcome[OF s1 assms(1) _ Cons.prems(1)] Cons.prems(2) by auto
    then show ?case using Cons.IH[of s1] Cons.prems(2) s1 by simp
  qed simp
  moreover have ao: "auth_ok gi no_records" by (simp add: auth_ok_def no_records_def)
  ultimately obtain s where s: "fold_res (mature_candidate gi) no_records cs = Inr s" by blast
  obtain outs where "list_all2 (matured gi (gs_auth s)) cs outs" "collected no_records outs s"
    using mature_candidates_outcome[OF s assms(1) _ ao] assms(3) by blast
  then have "length (gs_dispositions s) = length cs"
    by (auto simp: collected_def no_records_def dest: list_all2_lengthD)
  then show ?thesis using s by (auto simp: mature_candidates_def)
qed

section \<open>A concrete run\<close>

definition maturing_candidate :: growth_candidate where
  "maturing_candidate =
     (let g = \<lparr>growth_id = [], g_site = \<lparr>sl_file = ''A.java'', sl_line = 12\<rparr>, g_kind = ''container_growth'',
            g_operation = ''put'', resource_id = [], g_dimension = ''entries'', g_receiver = ''cache'',
            g_field_path = ''this.cache'', g_demands = [Demand ''name'' ''key''], g_escape_scope = ''global'',
            g_evidence = [''fact:o''], g_coverage_status = ''complete'',
            g_coverage_notes = [''field_backed:attacker_key_driver'']\<rparr>;
          r = g\<lparr>resource_id := stable_identifier ''resource'' (growth_resource_identity g)\<rparr>
      in r\<lparr>growth_id := stable_identifier ''growth'' (growth_semantic_identity r)\<rparr>)"

definition maturing_entry :: entry_fact where
  "maturing_entry = \<lparr>entry_id = ''entry:1'', e_framework = ''spring_mvc'', e_protocol = ''http'',
     e_handler = \<lparr>h_callable = ''C.m'', h_file = ''A.java'', h_start_line = 4\<rparr>,
     e_registration = \<lparr>r_kind = ''annotation_mapping'', r_callable = ''C'', r_file = ''A.java'', r_start_line = 1\<rparr>,
     registration_pattern_id = [], route_or_event = ''/m'', auth_context = ''unknown'',
     attacker_inputs = [AttackerInput ''name'' ''String'' ''request_parameter''], materialization_phase = ''in_handler''\<rparr>"

definition maturing_row :: flow_row where
  "maturing_row = \<lparr>ar_source_file = ''A.java'', ar_source_line = 4, ar_sink_file = ''A.java'', ar_sink_line = 12,
     ar_target = ''key'', ar_source = ''name'', ar_sink = ''put(name, v)'', ar_call_path = ''C.m~D.put'',
     ar_phases = ''in_handler'', ar_flow_kind = ''data_flow'', ar_confidence = ''proven'',
     ar_coverage_status = ''complete'', ar_coverage_note = ''modeled''\<rparr>"

definition maturing_slice :: bounded_slice where
  "maturing_slice = sample_slice\<lparr>slice_body := (slice_body sample_slice)\<lparr>sp_growth_id := growth_id maturing_candidate\<rparr>\<rparr>"

definition maturing_inputs :: growth_inputs where
  "maturing_inputs = \<lparr>gi_entries = [(''entry:1'', maturing_entry)], gi_association_rows = [maturing_row],
     gi_flow_rows = [maturing_row], gi_security = (\<lambda>_. sample_security), gi_configuration = [],
     gi_repr = (\<lambda>_. ''repr''), gi_classify_auth = None, gi_slice = (\<lambda>_ _. Inr maturing_slice),
     gi_classify = (\<lambda>_. Inr sample_contract)\<rparr>"

lemma maturing_candidate_ok: "candidate_ok maturing_candidate"
  by (simp add: candidate_ok_def GrowthCandidate_def maturing_candidate_def Let_def checked_enum_def checked_string_def
      growth_kinds_def resource_dimensions_def escape_scopes_def growth_coverage_def good_string_def is_fact_id_def
      startswith_def fact_id_chars_def growth_resource_identity_def growth_semantic_identity_def max_string_bytes_def)

lemma maturing_inputs_ok: "inputs_ok maturing_inputs"
  by (simp add: inputs_ok_def entries_ok_def maturing_inputs_def maturing_entry_def maturing_row_def startswith_def)

lemma maturing_decides: "decides_entries maturing_inputs"
proof -
  obtain d where "verify_auth_contract (\<lambda>_. ''repr'') ''entry:1'' sample_auth sample_security (map sf_id sample_security) [] = Inr d"
    using verify_auth_contract_returns[OF sample_contract_facts(2,3,1,5,4)] by blast
  then show ?thesis
    using sample_derived by (simp add: decides_entries_def maturing_inputs_def entry_auth_decision_def is_ok_iff)
qed

lemma maturing_associates: "associates maturing_inputs maturing_candidate"
  using association_decides[of "gi_entries maturing_inputs" maturing_candidate "gi_association_rows maturing_inputs" "gi_flow_rows maturing_inputs"]
    maturing_inputs_ok maturing_candidate_ok
  by (auto simp: associates_def is_ok_iff inputs_ok_def patterns_clash_def maturing_inputs_def split: sum.splits)

lemma maturing_checks: "checks_growth maturing_inputs maturing_candidate"
proof -
  have "\<exists>r. verify_growth_contract maturing_candidate maturing_slice sample_contract (index_by fact_id sample_facts) = Inr r"
  proof -
    have "sp_growth_id (slice_body maturing_slice) = growth_id maturing_candidate" "startswith (slice_id maturing_slice) ''slice:''"
      by (simp_all add: maturing_slice_def sample_slice_def startswith_def)
    from verify_growth_result[OF this(1) candidate_okD(1)[OF maturing_candidate_ok] this(2)] show ?thesis by metis
  qed
  moreover have "sp_facts (slice_body maturing_slice) = sample_facts" by (simp add: maturing_slice_def sample_slice_def)
  moreover have "validate_contract_static_evidence sample_contract (map fact_id sample_facts) = Inr sample_contract"
    by (simp add: validate_contract_static_evidence_def sample_contract_def influence_ids_def sample_facts_def sample_fact_def)
  ultimately show ?thesis
    by (auto simp: checks_growth_def maturing_inputs_def check_growth_def is_ok_iff Let_def)
qed

theorem mature_candidates_total_witness:
  "\<exists>s. mature_candidates maturing_inputs [maturing_candidate] = Inr s \<and> length (gs_dispositions s) = 1"
  using mature_candidates_total[OF maturing_inputs_ok maturing_decides, of "[maturing_candidate]"]
    maturing_candidate_ok maturing_associates maturing_checks by simp


theorem candidate_association_sound_witness:
  "\<exists>links d. candidate_association [(''entry:1'', maturing_entry)] maturing_candidate [maturing_row] [maturing_row] = Inr (links, d)
     \<and> association_sound [(''entry:1'', maturing_entry)] maturing_candidate [maturing_row] [maturing_row] links d"
proof -
  have e: "entries_ok [(''entry:1'', maturing_entry)]" "\<forall>row \<in> set [maturing_row]. ar_coverage_note row \<noteq> []"
    by (simp_all add: entries_ok_def maturing_entry_def maturing_row_def startswith_def)
  from candidate_association_sound[OF e(1) maturing_candidate_ok e(2), of "[maturing_row]"] maturing_associates show ?thesis
    by (auto simp: associates_def is_ok_iff maturing_inputs_def)
qed

section \<open>The amplification class reaches the conclusion\<close>

lemma add_amplification_disposition:
  "add_amplification (disposition_to_dict d) m = (case reason_classes (map JStr (cd_reasons d)) of
      [c] \<Rightarrow> m(cd_growth_id d \<mapsto> c) | _ \<Rightarrow> m)"
  by (simp add: add_amplification_def disposition_to_dict_def disposition_identity_def members_def)

lemma lower_upper_char: "lower_char (upper_char c) = lower_char c"
proof -
  have "of_char (char_of (n::nat)) = n" if "n < 256" for n using that by simp
  then show ?thesis by (auto simp: lower_char_def upper_char_def Let_def)
qed

lemma lower_upper: "lower (upper s) = lower s"
  by (simp add: lower_def upper_def lower_upper_char)

lemma reason_classes_single:
  assumes "c \<in> set amplification_classes" "set reasons = R \<union> {amplification_prefix @ upper c}"
    "\<forall>r \<in> R. startswith r amplification_prefix \<longrightarrow> r = amplification_prefix @ upper c"
  shows "reason_classes (map JStr reasons) = [c]"
proof -
  have lu: "lower (upper c) = c" using assms(1)
    unfolding lower_upper by (auto simp: amplification_classes_def lower_def lower_char_def)
  let ?xs = "filter (\<lambda>c. c \<in> set amplification_classes)
     (List.map_filter (\<lambda>r. case r of JStr s \<Rightarrow> if startswith s amplification_prefix
          then Some (lower (removeprefix s amplification_prefix)) else None | _ \<Rightarrow> None) (map JStr reasons))"
  have "set ?xs = {c}"
    using assms lu by (auto simp: map_filter_def image_iff)
  then have "set (remdups ?xs) = {c}" "distinct (remdups ?xs)" by simp_all
  then have "remdups ?xs = [c]"
    by (rule distinct_singleton_list)
  then show ?thesis by (simp only: reason_classes_def)
qed

lemma fold_amplification_other:
  "growth \<notin> cd_growth_id ` set ds \<Longrightarrow> fold add_amplification (map disposition_to_dict ds) m growth = m growth"
  by (induction ds arbitrary: m) (auto simp: add_amplification_disposition split: list.splits)

text \<open>The amplification class of the relevance gate, written into the reason codes of a disposition as
  \<open>RELEVANCE_AMPLIFICATION_<CLASS>\<close>, is the class the conclusion stage reads back for the Growth, as long
  as no other reason code has that prefix and each Growth has one disposition.\<close>

theorem amplification_roundtrip:
  assumes "mature_disposition c a status rs (relevance_reasons a gate @ extra) evidence negatives = Inr d"
    and "rv_amplification gate \<in> set amplification_classes"
    and "\<forall>r \<in> set (cd_reasons a) \<union> set (rv_reasons gate) \<union> set extra. \<not> startswith r amplification_prefix"
    and "d \<in> set ds" "distinct (map cd_growth_id ds)"
  shows "conclusion_amplification_classes (map disposition_to_dict ds) (i, growth_id c) = rv_amplification gate"
proof -
  have g: "cd_growth_id d = growth_id c" by (rule mature_disposition_fields(2)[OF assms(1)])
  have "set (cd_reasons d) = (set (cd_reasons a) \<union> set (rv_reasons gate) \<union> set extra) \<union> {amplification_prefix @ upper (rv_amplification gate)}"
    using mature_disposition_fields(9)[OF assms(1)] by (auto simp: relevance_reasons_def amplification_prefix_def)
  then have r: "reason_classes (map JStr (cd_reasons d)) = [rv_amplification gate]"
    using assms(3) by (intro reason_classes_single[OF assms(2)]) auto
  obtain xs ys where ds: "ds = xs @ d # ys" using split_list[OF assms(4)] by blast
  then have "cd_growth_id d \<notin> cd_growth_id ` set ys" using assms(5) by simp
  then have "fold add_amplification (map disposition_to_dict ds) Map.empty (cd_growth_id d) = Some (rv_amplification gate)"
    using fold_amplification_other by (simp add: ds add_amplification_disposition r)
  then show ?thesis using g by (simp add: conclusion_amplification_classes_def)
qed

theorem amplification_roundtrip_witness:
  "\<exists>d. cd_growth_id d = ''growth:1''
     \<and> conclusion_amplification_classes [disposition_to_dict d] (''entry:1'', ''growth:1'') = ''superlinear''"
proof -
  let ?a = "\<lparr>cd_id = [], cd_growth_id = ''growth:1'', cd_status = ''inventory_unresolved'', cd_entry_id = [],
     cd_local_status = ''partial'', cd_association = ''missing'', cd_link_ids = [], cd_evidence = [''fact:o''],
     cd_negative_ids = [], cd_reasons = [''ASSOCIATION_ENTRY_COVERAGE_UNPROVEN'']\<rparr>"
  let ?g = "\<lparr>rv_status = ''unresolved'', rv_amplification = ''superlinear'', rv_reasons = [''RELEVANCE_FAMILY_UNMODELED'']\<rparr>"
  let ?d = "disposition_of ''growth:1'' ''inventory_unresolved'' [] ''partial'' ''missing'' [] [''fact:o''] []
    (usort (''ASSOCIATION_ENTRY_COVERAGE_UNPROVEN'' # relevance_reasons ?a ?g))"
  have "disposition_ok ?d"
    unfolding disposition_ok_def disposition_of_simps
    by (simp add: startswith_def disposition_values_def local_growth_values_def association_status_values_def
        is_negative_id_def eligible_status_def relevance_reasons_def)
  from disposition_create_ok(1)[OF this]
  have "mature_disposition sample_candidate ?a ''inventory_unresolved'' None (relevance_reasons ?a ?g @ []) [] [] = Inr ?d"
    by (simp add: mature_disposition_def Let_def sample_candidate_def)
  from amplification_roundtrip[OF this, of "[?d]" "''entry:1''"] show ?thesis
    by (intro exI[of _ ?d]) (simp add: amplification_classes_def amplification_prefix_def startswith_def sample_candidate_def)
qed

end
