(* ===== verification/Decoder.thy ===== *)
theory Decoder
  imports EntryLaws
begin

text \<open>
  \<open>dosweb/codeql/decoder.py\<close>: the contracts of the queries and the decoding of their results into rows.
  \<open>Path.resolve\<close> reads the file system: it is an argument, from the text of an absolute path to the parts
  of the resolved one, or nothing when it raises. Texts are UTF-8 already, so encoding never fails.
\<close>

section \<open>Query contracts\<close>

record query_spec =
  qs_name :: string
  qs_columns :: "string list"
  qs_types :: "(string \<times> string) list"
  qs_enums :: "(string \<times> string list) list"
  qs_paths :: "string list"
  qs_lines :: "string list"

definition column_types :: "string list \<Rightarrow> string list \<Rightarrow> string list \<Rightarrow> (string \<times> string) list" where
  "column_types columns integers booleans =
     map (\<lambda>c. (c, if c \<in> set integers then ''integer'' else if c \<in> set booleans then ''boolean'' else ''string'')) columns"

definition make_spec :: "string \<Rightarrow> string list \<Rightarrow> string list \<Rightarrow> string list \<Rightarrow> (string \<times> string list) list
    \<Rightarrow> string list \<Rightarrow> string list \<Rightarrow> query_spec" where
  "make_spec name columns integers booleans enums paths lines = \<lparr>qs_name = name, qs_columns = columns,
     qs_types = column_types columns integers booleans, qs_enums = enums, qs_paths = paths, qs_lines = lines\<rparr>"

definition entry_columns :: "string list" where
  "entry_columns = [''framework'', ''protocol'', ''handler_fqn'', ''handler_file'', ''handler_start_line'',
     ''registration_kind'', ''registration_fqn'', ''registration_file'', ''registration_start_line'',
     ''route_or_event'', ''auth_context'', ''attacker_input_name'', ''attacker_input_type'',
     ''attacker_input_kind'', ''materialization_phase'', ''coverage_status'', ''coverage_note'']"

definition growth_columns :: "string list" where
  "growth_columns = [''site_file'', ''site_start_line'', ''growth_kind'', ''operation'', ''resource_dimension'',
     ''receiver'', ''field_path'', ''demand_input_name'', ''demand_input_role'', ''escape_scope'',
     ''candidate_evidence'', ''coverage_status'', ''coverage_note'']"

definition interposition_columns :: "string list" where
  "interposition_columns = [''entry_file'', ''entry_start_line'', ''interposer_fqn'', ''interposer_file'',
     ''interposer_start_line'', ''registration_kind'', ''registration_fqn'', ''registration_file'',
     ''registration_start_line'', ''url_predicate_kind'', ''url_predicate_value'', ''order_status'',
     ''order_value'', ''action_fqn'', ''action_file'', ''action_start_line'', ''chain_file'',
     ''chain_start_line'', ''phase'', ''action_before_chain'', ''coverage_status'', ''coverage_note'']"

definition security_columns :: "string list" where
  "security_columns = [''handler_fqn'', ''handler_file'', ''handler_start_line'', ''route_or_event'', ''fact_file'',
     ''fact_start_line'', ''kind'', ''value'', ''coverage_status'', ''coverage_note'']"

definition flow_columns :: "string list" where
  "flow_columns = [''source_file'', ''source_start_line'', ''sink_file'', ''sink_start_line'', ''attacker_target'',
     ''attacker_source'', ''attacker_sink'', ''call_path'', ''phase_sequence'', ''flow_kind'',
     ''confidence'', ''coverage_status'', ''coverage_note'']"

definition guard_columns :: "string list" where
  "guard_columns = [''anchor_file'', ''anchor_start_line'', ''site_file'', ''site_start_line'', ''guard_kind'',
     ''resource_dimension'', ''scope'', ''behavior'', ''dominates_growth'',
     ''reject_path_reaches_growth'', ''configuration_key'', ''configuration_value'', ''representation'',
     ''phase'', ''covers_materialization'', ''authorization_only'', ''evidence'', ''coverage_status'',
     ''coverage_note'']"

definition bound_columns :: "string list" where
  "bound_columns = [''anchor_file'', ''anchor_start_line'', ''site_file'', ''site_start_line'', ''bound_kind'',
     ''resource_dimension'', ''scope'', ''behavior'', ''receiver'', ''field_path'', ''result_checked'',
     ''configuration_key'', ''configuration_value'', ''phase'', ''covers_flow'', ''request_encoding'',
     ''queue_resource'', ''product_bound'', ''evidence'', ''coverage_status'', ''coverage_note'']"

definition lifecycle_coverage_columns :: "string list" where
  "lifecycle_coverage_columns = [''anchor_file'', ''anchor_start_line'', ''family'', ''coverage_status'', ''coverage_note'']"

definition lifecycle_summary_columns :: "string list" where
  "lifecycle_summary_columns = [''anchor_file'', ''anchor_start_line'', ''family'', ''candidate_file'', ''candidate_start_line'',
     ''callsite_file'', ''callsite_start_line'', ''receiver_file'', ''receiver_start_line'',
     ''argument_index'', ''resource_dimension'', ''scope'', ''configuration_key'',
     ''configuration_value'', ''representation'', ''phase'', ''covers_materialization'',
     ''dominates_growth'', ''reject_path_reaches_growth'', ''evidence'', ''cfg_relation'',
     ''coverage_status'', ''coverage_note'']"

definition release_columns :: "string list" where
  "release_columns = [''anchor_file'', ''anchor_start_line'', ''site_file'', ''site_start_line'', ''release_kind'',
     ''resource_dimension'', ''scope'', ''receiver'', ''key_identity'', ''synchronous'',
     ''normal_path'', ''exceptional_path'', ''actual_reduction'', ''after_growth'', ''transfer_only'',
     ''async_kind'', ''evidence'', ''coverage_status'', ''coverage_note'']"

definition resource_dimension_values :: "string list" where
  "resource_dimension_values = [''entries'', ''bytes'', ''tasks'', ''connections'', ''objects'', ''unknown'']"

definition scope_values :: "string list" where
  "scope_values = [''request'', ''session'', ''connection'', ''instance'', ''global'', ''unknown'']"

definition coverage_values :: "string list" where
  "coverage_values = [''complete'', ''partial'', ''unsupported'']"

definition entry_spec :: query_spec where
  "entry_spec = make_spec ''entries'' entry_columns
     [''handler_start_line'', ''registration_start_line'']
     []
     [(''framework'', [''spring_mvc'', ''servlet'', ''netty'', ''mqtt'', ''jax_rs'', ''grpc'']),
      (''protocol'', [''http'', ''tcp'', ''mqtt'', ''grpc'']),
      (''registration_kind'', [''annotation_mapping'', ''static_registration'', ''pipeline_registration'',
       ''subscription_registration'', ''broker_registration'', ''dynamic_unresolved'']),
      (''auth_context'', [''unauthenticated'', ''low_privilege'', ''privileged'', ''unknown'']),
      (''attacker_input_kind'', [''request_body'', ''request_parameter'', ''path_parameter'', ''header'', ''model_attribute'',
       ''message_payload'', ''stream'', ''unknown'']),
      (''materialization_phase'', [''before_handler'', ''in_handler'', ''streaming'', ''unknown'']),
      (''coverage_status'', coverage_values)]
     [''handler_file'', ''registration_file'']
     [''handler_start_line'', ''registration_start_line'']"

definition growth_spec :: query_spec where
  "growth_spec = make_spec ''growth'' growth_columns
     [''site_start_line'']
     []
     [(''growth_kind'', [''input_materialization'', ''direct_allocation'', ''container_growth'', ''async_work_growth'']),
      (''resource_dimension'', resource_dimension_values),
      (''demand_input_role'', [''size'', ''key'', ''value'', ''iteration_count'', ''submission_count'', ''unknown'']),
      (''escape_scope'', [''request'', ''session'', ''instance'', ''global'', ''unknown'']),
      (''coverage_status'', coverage_values)]
     [''site_file'']
     [''site_start_line'']"

definition interposition_spec :: query_spec where
  "interposition_spec = make_spec ''entry_interposition'' interposition_columns
     [''entry_start_line'', ''interposer_start_line'', ''registration_start_line'',
     ''action_start_line'', ''chain_start_line'']
     [''action_before_chain'']
     [(''registration_kind'', [''filter_registration_bean'', ''servlet_filter'', ''once_per_request_filter'']),
      (''url_predicate_kind'', [''exact'', ''prefix'', ''servlet_pattern'', ''regex'', ''unknown'']),
      (''order_status'', [''known'', ''unknown'']),
      (''phase'', [''before_handler'', ''after_handler'', ''unknown'']),
      (''coverage_status'', [''complete'', ''partial''])]
     [''entry_file'', ''interposer_file'', ''registration_file'', ''action_file'', ''chain_file'']
     [''entry_start_line'', ''interposer_start_line'', ''registration_start_line'',
     ''action_start_line'', ''chain_start_line'']"

definition security_spec :: query_spec where
  "security_spec = make_spec ''entry_security'' security_columns
     [''handler_start_line'', ''fact_start_line'']
     []
     [(''kind'', [''annotation'', ''filter'', ''security_filter_chain'', ''servlet_constraint'', ''netty_gate'',
       ''mqtt_gate'', ''configuration'', ''deployment_gate'', ''dependency_coverage'']),
      (''coverage_status'', [''complete'', ''partial''])]
     [''handler_file'', ''fact_file'']
     [''handler_start_line'', ''fact_start_line'']"

definition flow_spec :: query_spec where
  "flow_spec = make_spec ''flow'' flow_columns
     [''source_start_line'', ''sink_start_line'']
     []
     [(''attacker_target'', [''size'', ''key'', ''value'', ''iteration_count'', ''submission_count'']),
      (''confidence'', [''proven'', ''partial'']),
      (''coverage_status'', coverage_values)]
     [''source_file'', ''sink_file'']
     [''source_start_line'', ''sink_start_line'']"

definition guard_spec :: query_spec where
  "guard_spec = make_spec ''guard'' guard_columns
     [''anchor_start_line'', ''site_start_line'']
     [''dominates_growth'', ''reject_path_reaches_growth'', ''covers_materialization'',
     ''authorization_only'']
     [(''guard_kind'', [''request_limit'', ''input_validation'', ''rate_limit'', ''configuration'']),
      (''resource_dimension'', resource_dimension_values),
      (''scope'', scope_values),
      (''behavior'', [''reject'', ''block'', ''unknown'']),
      (''coverage_status'', coverage_values)]
     [''anchor_file'', ''site_file'']
     [''anchor_start_line'', ''site_start_line'']"

definition bound_spec :: query_spec where
  "bound_spec = make_spec ''bound'' bound_columns
     [''anchor_start_line'', ''site_start_line'']
     [''result_checked'', ''covers_flow'', ''product_bound'']
     [(''bound_kind'', [''limit'', ''quota'', ''capacity'', ''backpressure'', ''rate'']),
      (''resource_dimension'', resource_dimension_values),
      (''scope'', scope_values),
      (''behavior'', [''reject'', ''block'', ''evict'', ''clamp'', ''unknown'']),
      (''coverage_status'', coverage_values)]
     [''anchor_file'', ''site_file'']
     [''anchor_start_line'', ''site_start_line'']"

definition lifecycle_coverage_spec :: query_spec where
  "lifecycle_coverage_spec = make_spec ''lifecycle_coverage'' lifecycle_coverage_columns
     [''anchor_start_line'']
     []
     [(''family'', [''guard'', ''bound'', ''release'']),
      (''coverage_status'', coverage_values)]
     [''anchor_file'']
     [''anchor_start_line'']"

definition lifecycle_summary_spec :: query_spec where
  "lifecycle_summary_spec = make_spec ''lifecycle_summary'' lifecycle_summary_columns
     [''anchor_start_line'', ''candidate_start_line'', ''callsite_start_line'', ''receiver_start_line'',
     ''argument_index'']
     [''covers_materialization'', ''dominates_growth'', ''reject_path_reaches_growth'']
     [(''family'', [''guard'', ''bound'', ''release'']),
      (''cfg_relation'', [''one_wrapper'', ''partial'']),
      (''coverage_status'', coverage_values)]
     [''anchor_file'', ''candidate_file'', ''callsite_file'', ''receiver_file'']
     [''anchor_start_line'', ''candidate_start_line'', ''callsite_start_line'', ''receiver_start_line'']"

definition release_spec :: query_spec where
  "release_spec = make_spec ''release'' release_columns
     [''anchor_start_line'', ''site_start_line'']
     [''synchronous'', ''normal_path'', ''exceptional_path'', ''actual_reduction'', ''after_growth'',
     ''transfer_only'']
     [(''release_kind'', [''remove'', ''clear'', ''evict'', ''close'', ''unknown'']),
      (''resource_dimension'', resource_dimension_values),
      (''scope'', scope_values),
      (''coverage_status'', coverage_values)]
     [''anchor_file'', ''site_file'']
     [''anchor_start_line'', ''site_start_line'']"


definition query_specs :: "query_spec list" where
  "query_specs = [entry_spec, growth_spec, interposition_spec, security_spec, flow_spec, guard_spec, bound_spec,
     lifecycle_coverage_spec, lifecycle_summary_spec, release_spec]"

definition find_spec :: "string \<Rightarrow> query_spec option" where
  "find_spec name = map_of (map (\<lambda>s. (qs_name s, s)) query_specs) name"

section \<open>Decoding\<close>

definition max_rows :: nat where
  "max_rows = 4096"

definition max_row_string :: nat where
  "max_row_string = 65536"

definition max_total_string :: nat where
  "max_total_string = 16 * 1024 * 1024"

definition max_line_number :: int where
  "max_line_number = 2 ^ 31 - 1"

definition decode_invalid :: "string \<Rightarrow> string \<Rightarrow> (string \<times> json) list \<Rightarrow> py_exc" where
  "decode_invalid reason query details = AnalyzerError ''CODEQL_RESULT_INVALID''
     ''Decoded CodeQL result violates its query contract.''
     ([(''reason'', JStr reason), (''query_name'', JStr (take 128 query))] @ details)"

record decode_source =
  ds_root :: string
  ds_sha256 :: string

definition is_sha256 :: "string \<Rightarrow> bool" where
  "is_sha256 s \<longleftrightarrow> length s = 64 \<and> list_all is_hex s"

definition normalized_root :: "(string \<Rightarrow> string list option) \<Rightarrow> decode_source \<Rightarrow> string \<Rightarrow> string list res" where
  "normalized_root resolve source query =
     (if \<not> is_sha256 (ds_sha256 source) then Inl (decode_invalid ''SOURCE_CONTEXT_INVALID'' query [])
      else case resolve (ds_root source) of None \<Rightarrow> Inl (decode_invalid ''SOURCE_CONTEXT_INVALID'' query [])
        | Some root \<Rightarrow> Inr root)"

definition place :: "nat \<Rightarrow> string \<Rightarrow> (string \<times> json) list" where
  "place row column = [(''row'', JInt (int row)), (''column'', JStr (take 256 column))]"

text \<open>An absolute path replaces the root, a relative one is appended; what the resolved path has beyond
  the root is kept.\<close>

definition full_path :: "string list \<Rightarrow> string \<Rightarrow> string" where
  "full_path root path = (if startswith path ''/'' then path else ''/'' @ join ''/'' (root @ [path]))"

definition bad_part :: "string \<Rightarrow> bool" where
  "bad_part p \<longleftrightarrow> p = [] \<or> p = ''.'' \<or> p = ''..''"

definition normalize_path :: "(string \<Rightarrow> string list option) \<Rightarrow> string list \<Rightarrow> string \<Rightarrow> string \<Rightarrow> string \<Rightarrow> nat \<Rightarrow> string res" where
  "normalize_path resolve root query path column row =
     (if path = [] \<or> CHR 0x00 \<in> set path then Inl (decode_invalid ''PATH_INVALID'' query (rev (place row column)))
      else case resolve (full_path root path) of
          None \<Rightarrow> Inl (decode_invalid ''PATH_OUTSIDE_SOURCE_ROOT'' query (rev (place row column)))
        | Some parts \<Rightarrow>
            if take (length root) parts \<noteq> root
            then Inl (decode_invalid ''PATH_OUTSIDE_SOURCE_ROOT'' query (rev (place row column)))
            else let rel = drop (length root) parts in
              if rel = [] \<or> list_ex bad_part rel then Inl (decode_invalid ''PATH_INVALID'' query (rev (place row column)))
              else Inr (join ''/'' rel))"

fun validate_type :: "string \<Rightarrow> json \<Rightarrow> bool" where
  "validate_type kind (JStr s) = (kind = ''string'')"
| "validate_type kind (JInt n) = (kind = ''integer'')"
| "validate_type kind (JBool b) = (kind = ''boolean'')"
| "validate_type kind v = False"

definition string_size :: "json \<Rightarrow> nat" where
  "string_size v = (case v of JStr s \<Rightarrow> length s | _ \<Rightarrow> 0)"

definition line_ok :: "json \<Rightarrow> bool" where
  "line_ok v = (case v of JInt n \<Rightarrow> 1 \<le> n \<and> n \<le> max_line_number | _ \<Rightarrow> True)"

text \<open>One value of a row: the bytes counted so far, and the value of the row decoded.\<close>

definition decode_value :: "(string \<Rightarrow> string list option) \<Rightarrow> string list \<Rightarrow> query_spec \<Rightarrow> nat \<Rightarrow> nat \<Rightarrow> string \<times> json
    \<Rightarrow> (nat \<times> json) res" where
  "decode_value resolve root spec row used cell =
     (let (column, v) = cell; query = qs_name spec; used' = used + string_size v in
      if \<not> (case map_of (qs_types spec) column of None \<Rightarrow> False | Some kind \<Rightarrow> validate_type kind v)
      then Inl (decode_invalid ''FIELD_TYPE'' query (place row column))
      else if string_size v > max_row_string \<or> used' > max_total_string
      then Inl (decode_invalid ''STRING_LIMIT'' query (place row column))
      else if column \<in> set (qs_lines spec) \<and> \<not> line_ok v
      then Inl (decode_invalid ''LINE_INVALID'' query (place row column))
      else if (case map_of (qs_enums spec) column of None \<Rightarrow> False | Some allowed \<Rightarrow> v \<notin> JStr ` set allowed)
      then Inl (decode_invalid ''ENUM_INVALID'' query (place row column))
      else if column \<in> set (qs_paths spec)
      then res_bind (normalize_path resolve root query (case v of JStr s \<Rightarrow> s | _ \<Rightarrow> []) column row) (\<lambda>p.
           Inr (used', JStr p))
      else Inr (used', v))"

fun decode_cells :: "(string \<Rightarrow> string list option) \<Rightarrow> string list \<Rightarrow> query_spec \<Rightarrow> nat \<Rightarrow> nat \<Rightarrow> (string \<times> json) list
    \<Rightarrow> (nat \<times> (string \<times> json) list) res" where
  "decode_cells resolve root spec row used [] = Inr (used, [])"
| "decode_cells resolve root spec row used (cell # cells) =
     res_bind (decode_value resolve root spec row used cell) (\<lambda>(used', v).
     res_bind (decode_cells resolve root spec row used' cells) (\<lambda>(used'', row_fields).
     Inr (used'', (fst cell, v) # row_fields)))"

definition removesuffix :: "string \<Rightarrow> string \<Rightarrow> string" where
  "removesuffix s p = (if endswith s p then take (length s - length p) s else s)"

text \<open>The locations that pair a path with its line.\<close>

definition location_fields :: "query_spec \<Rightarrow> (string \<times> json) list \<Rightarrow> (string \<times> json) list" where
  "location_fields spec row_fields = List.map_filter (\<lambda>column.
     (let prefix = removesuffix column ''_file'' in
      case (map_of row_fields column, map_of row_fields (prefix @ ''_start_line'')) of
        (Some file, Some line) \<Rightarrow> Some (prefix @ ''_location'', JObj [(''file'', file), (''start_line'', line)])
      | _ \<Rightarrow> None)) (qs_paths spec)"

definition decode_row :: "(string \<Rightarrow> string list option) \<Rightarrow> string list \<Rightarrow> string \<Rightarrow> query_spec \<Rightarrow> nat \<Rightarrow> nat \<Rightarrow> json
    \<Rightarrow> (nat \<times> (string \<times> json) list) res" where
  "decode_row resolve root sha spec row used v = (case v of
       JArr values \<Rightarrow>
         if length values \<noteq> length (qs_columns spec)
         then Inl (decode_invalid ''ROW_ARITY'' (qs_name spec) [(''row'', JInt (int row))])
         else res_bind (decode_cells resolve root spec row used (zip (qs_columns spec) values)) (\<lambda>(used', cells).
           let row_fields = cells @ [(''query_name'', JStr (qs_name spec)), (''query_sha256'', JStr sha)]
           in Inr (used', row_fields @ location_fields spec row_fields))
     | _ \<Rightarrow> Inl (decode_invalid ''ROW_ARITY'' (qs_name spec) [(''row'', JInt (int row))]))"

fun decode_all :: "(string \<Rightarrow> string list option) \<Rightarrow> string list \<Rightarrow> string \<Rightarrow> query_spec \<Rightarrow> nat \<Rightarrow> nat \<Rightarrow> json list
    \<Rightarrow> (string \<times> json) list list res" where
  "decode_all resolve root sha spec row used [] = Inr []"
| "decode_all resolve root sha spec row used (v # vs) =
     res_bind (decode_row resolve root sha spec row used v) (\<lambda>(used', row_fields).
     res_bind (decode_all resolve root sha spec (row + 1) used' vs) (\<lambda>facts. Inr (row_fields # facts)))"

definition decode_rows :: "(string \<Rightarrow> string list option) \<Rightarrow> string \<Rightarrow> string list \<Rightarrow> json list \<Rightarrow> decode_source
    \<Rightarrow> (string \<times> json) list list res" where
  "decode_rows resolve query columns rows source =
     (if length query > 128 then Inl (decode_invalid ''UNKNOWN_QUERY'' ''invalid'' [])
      else case find_spec query of
        None \<Rightarrow> Inl (decode_invalid ''UNKNOWN_QUERY'' query [])
      | Some spec \<Rightarrow>
          if columns \<noteq> qs_columns spec then Inl (decode_invalid ''COLUMN_MISMATCH'' query [])
          else if length rows > max_rows then Inl (decode_invalid ''ROWS_INVALID'' query [])
          else res_bind (normalized_root resolve source query) (\<lambda>root.
            decode_all resolve root (ds_sha256 source) spec 1 0 rows))"

definition column_name :: "json \<Rightarrow> string option" where
  "column_name v = (case v of
       JStr s \<Rightarrow> Some s
     | JObj kvs \<Rightarrow> if set (map fst kvs) \<subseteq> {''name'', ''kind''} then
           (case (map_of kvs ''name'', map_of kvs ''kind'') of (Some (JStr s), Some (JStr k)) \<Rightarrow> Some s | _ \<Rightarrow> None)
         else None
     | _ \<Rightarrow> None)"

definition decode_bqrs_json :: "(string \<Rightarrow> string list option) \<Rightarrow> string \<Rightarrow> json \<Rightarrow> decode_source
    \<Rightarrow> (string \<times> json) list list res" where
  "decode_bqrs_json resolve query payload source =
     (if length query > 128 then Inl (decode_invalid ''UNKNOWN_QUERY'' ''invalid'' [])
      else if find_spec query = None then Inl (decode_invalid ''UNKNOWN_QUERY'' query [])
      else case payload of
        JObj [(set_name, result)] \<Rightarrow>
          if set_name \<noteq> ''#select'' then Inl (decode_invalid ''RESULT_SET_MISMATCH'' query [])
          else (case result of
              JObj kvs \<Rightarrow>
                if set (map fst kvs) \<noteq> {''columns'', ''tuples''} then Inl (decode_invalid ''RESULT_SET_INVALID'' query [])
                else (case (map_of kvs ''columns'', map_of kvs ''tuples'') of
                    (Some (JArr columns), Some (JArr rows)) \<Rightarrow>
                      (if list_ex (\<lambda>c. column_name c = None) columns then Inl (decode_invalid ''RESULT_SET_INVALID'' query [])
                       else decode_rows resolve query (List.map_filter column_name columns) rows source)
                  | _ \<Rightarrow> Inl (decode_invalid ''RESULT_SET_INVALID'' query []))
            | _ \<Rightarrow> Inl (decode_invalid ''RESULT_SET_INVALID'' query []))
      | _ \<Rightarrow> Inl (decode_invalid ''RESULT_SET_MISMATCH'' query []))"

end
