(* ===== verification/DecoderLaws.thy ===== *)
theory DecoderLaws
  imports Decoder
begin

text \<open>The decoder accepts exactly the results that keep the contract of their query, and its rows are typed.\<close>

section \<open>The contracts\<close>

definition typed_column :: "query_spec \<Rightarrow> string \<Rightarrow> string \<Rightarrow> bool" where
  "typed_column spec kind column \<longleftrightarrow> map_of (qs_types spec) column = Some kind"

definition location_key :: "string \<Rightarrow> string" where
  "location_key column = removesuffix column ''_file'' @ ''_location''"

definition line_key :: "string \<Rightarrow> string" where
  "line_key column = removesuffix column ''_file'' @ ''_start_line''"

definition spec_ok :: "query_spec \<Rightarrow> bool" where
  "spec_ok spec \<longleftrightarrow> distinct (qs_columns spec) \<and> map fst (qs_types spec) = qs_columns spec
     \<and> list_all (\<lambda>(c, allowed). typed_column spec ''string'' c \<and> c \<notin> set (qs_paths spec)) (qs_enums spec)
     \<and> list_all (typed_column spec ''string'') (qs_paths spec) \<and> list_all (typed_column spec ''integer'') (qs_lines spec)
     \<and> list_all (\<lambda>c. c \<notin> set (qs_columns spec)) ([''query_name'', ''query_sha256''] @ map location_key (qs_paths spec))
     \<and> distinct (map location_key (qs_paths spec)) \<and> list_all (\<lambda>c. line_key c \<in> set (qs_lines spec)) (qs_paths spec)"

lemmas spec_rules = spec_ok_def typed_column_def make_spec_def column_types_def location_key_def line_key_def
  removesuffix_def endswith_def suffix_def

lemma spec_entry: "spec_ok entry_spec"
  by (simp add: spec_rules entry_spec_def entry_columns_def)

lemma spec_growth: "spec_ok growth_spec"
  by (simp add: spec_rules growth_spec_def growth_columns_def)

lemma spec_flow: "spec_ok flow_spec"
  by (simp add: spec_rules flow_spec_def flow_columns_def)

lemma spec_interposition: "spec_ok interposition_spec"
  by (simp add: spec_rules interposition_spec_def interposition_columns_def)

lemma spec_security: "spec_ok security_spec"
  by (simp add: spec_rules security_spec_def security_columns_def)

lemma spec_guard: "spec_ok guard_spec"
  by (simp add: spec_rules guard_spec_def guard_columns_def)

lemma spec_bound: "spec_ok bound_spec"
  by (simp add: spec_rules bound_spec_def bound_columns_def)

lemma spec_lifecycle_coverage: "spec_ok lifecycle_coverage_spec"
  by (simp add: spec_rules lifecycle_coverage_spec_def lifecycle_coverage_columns_def)

lemma spec_lifecycle_summary: "spec_ok lifecycle_summary_spec"
  by (simp add: spec_rules lifecycle_summary_spec_def lifecycle_summary_columns_def)

lemma spec_release: "spec_ok release_spec"
  by (simp add: spec_rules release_spec_def release_columns_def)

lemmas specs_ok = spec_entry spec_growth spec_interposition spec_security spec_flow spec_guard spec_bound
  spec_lifecycle_coverage spec_lifecycle_summary spec_release

lemma query_specs_ok: "spec \<in> set query_specs \<Longrightarrow> spec_ok spec"
  using specs_ok by (auto simp: query_specs_def)

lemma find_spec_Some:
  assumes "find_spec query = Some spec"
  shows "qs_name spec = query" "spec_ok spec"
  using map_of_SomeD[OF assms[unfolded find_spec_def]] query_specs_ok by auto

section \<open>What is accepted\<close>

text \<open>The part of a path below the root.\<close>

definition path_below :: "(string \<Rightarrow> string list option) \<Rightarrow> string list \<Rightarrow> string \<Rightarrow> string list \<Rightarrow> bool" where
  "path_below resolve root path rel \<longleftrightarrow> path \<noteq> [] \<and> CHR 0x00 \<notin> set path
     \<and> resolve (full_path root path) = Some (root @ rel) \<and> rel \<noteq> [] \<and> \<not> list_ex bad_part rel"

lemma normalize_path_Inr:
  "normalize_path resolve root query path column row = Inr p \<longleftrightarrow> (\<exists>rel. path_below resolve root path rel \<and> p = join ''/'' rel)"
proof -
  have split: "take (length root) parts = root \<longleftrightarrow> (\<exists>rel. parts = root @ rel)" for parts :: "string list"
    by (metis append_eq_conv_conj append_take_drop_id)
  have root: "drop (length root) (root @ rel) = rel" for rel :: "string list" by simp
  show ?thesis
  proof (cases "resolve (full_path root path)")
    case (Some parts)
    then show ?thesis
      by (cases "take (length root) parts = root")
        (auto simp: normalize_path_def path_below_def Let_def split[of parts] root)
  qed (auto simp: normalize_path_def path_below_def)
qed

definition cell_ok :: "(string \<Rightarrow> string list option) \<Rightarrow> string list \<Rightarrow> query_spec \<Rightarrow> string \<times> json \<Rightarrow> bool" where
  "cell_ok resolve root spec cell \<longleftrightarrow> (case cell of (column, v) \<Rightarrow>
     (\<exists>kind. typed_column spec kind column \<and> validate_type kind v) \<and> string_size v \<le> max_row_string
     \<and> (column \<in> set (qs_lines spec) \<longrightarrow> line_ok v)
     \<and> (\<forall>allowed. map_of (qs_enums spec) column = Some allowed \<longrightarrow> v \<in> JStr ` set allowed)
     \<and> (column \<in> set (qs_paths spec) \<longrightarrow> (\<exists>s rel. v = JStr s \<and> path_below resolve root s rel)))"

definition decoded_value :: "(string \<Rightarrow> string list option) \<Rightarrow> string list \<Rightarrow> query_spec \<Rightarrow> string \<Rightarrow> json \<Rightarrow> json" where
  "decoded_value resolve root spec column v =
     (if column \<in> set (qs_paths spec)
      then (case v of JStr s \<Rightarrow> JStr (join ''/'' (drop (length root) (the (resolve (full_path root s))))) | _ \<Rightarrow> v) else v)"

lemma decoded_path:
  assumes "column \<in> set (qs_paths spec)" "path_below resolve root s rel"
  shows "decoded_value resolve root spec column (JStr s) = JStr (join ''/'' rel)"
  using assms by (simp add: decoded_value_def path_below_def)

lemma decode_value_Inr:
  assumes "spec_ok spec"
  shows "decode_value resolve root spec row used (column, v) = Inr (used', w) \<longleftrightarrow>
     cell_ok resolve root spec (column, v) \<and> used + string_size v \<le> max_total_string \<and> used' = used + string_size v
     \<and> w = decoded_value resolve root spec column v"
proof -
  have ps: "\<exists>s. v = JStr s" if "column \<in> set (qs_paths spec)" "typed_column spec kind column" "validate_type kind v" for kind
    using that assms by (cases v) (auto simp: spec_ok_def list_all_iff typed_column_def)
  show ?thesis
  proof (cases "column \<in> set (qs_paths spec)")
    case True
    show ?thesis
    proof (cases "\<exists>kind. typed_column spec kind column \<and> validate_type kind v")
      case typed: True
      then obtain s where s: "v = JStr s" using ps True by blast
      show ?thesis
        using True typed decoded_path[OF True]
        by (auto simp: decode_value_def Let_def s cell_ok_def res_bind_Inr_iff normalize_path_Inr typed_column_def
            split: option.splits)
    next
      case False
      then show ?thesis by (auto simp: decode_value_def cell_ok_def typed_column_def Let_def split: option.splits)
    qed
  next
    case False
    then show ?thesis
      by (auto simp: decode_value_def Let_def cell_ok_def typed_column_def decoded_value_def split: option.splits)
  qed
qed

definition cells_bytes :: "(string \<times> json) list \<Rightarrow> nat" where
  "cells_bytes cells = sum_list (map (string_size \<circ> snd) cells)"

lemma decode_cells_Inr:
  assumes "spec_ok spec" "used \<le> max_total_string"
  shows "decode_cells resolve root spec row used cells = Inr (used', ws) \<longleftrightarrow>
     list_all (cell_ok resolve root spec) cells \<and> used + cells_bytes cells \<le> max_total_string
     \<and> used' = used + cells_bytes cells \<and> ws = map (\<lambda>(c, v). (c, decoded_value resolve root spec c v)) cells"
  using assms(2)
proof (induction cells arbitrary: used used' ws)
  case Nil
  then show ?case by (auto simp: cells_bytes_def)
next
  case (Cons cell cells)
  obtain c v where cv: "cell = (c, v)" by (cases cell)
  have b: "cells_bytes (cell # cells) = string_size v + cells_bytes cells" by (simp add: cells_bytes_def cv)
  show ?case
  proof (cases "cell_ok resolve root spec cell \<and> used + string_size v \<le> max_total_string")
    case True
    then have "decode_value resolve root spec row used cell = Inr (used + string_size v, decoded_value resolve root spec c v)"
      using decode_value_Inr[OF assms(1)] cv by auto
    then show ?thesis
      using Cons.IH[of "used + string_size v"] True b cv by (auto simp: res_bind_Inr_iff)
  next
    case False
    then have "\<not> (\<exists>y. decode_value resolve root spec row used cell = Inr y)"
      using decode_value_Inr[OF assms(1)] cv by auto
    then show ?thesis using False b by (auto simp: res_bind_Inr_iff)
  qed
qed

definition row_cells :: "query_spec \<Rightarrow> json \<Rightarrow> (string \<times> json) list" where
  "row_cells spec row = (case row of JArr values \<Rightarrow> zip (qs_columns spec) values | _ \<Rightarrow> [])"

definition row_ok :: "(string \<Rightarrow> string list option) \<Rightarrow> string list \<Rightarrow> query_spec \<Rightarrow> json \<Rightarrow> bool" where
  "row_ok resolve root spec row \<longleftrightarrow> (\<exists>values. row = JArr values \<and> length values = length (qs_columns spec))
     \<and> list_all (cell_ok resolve root spec) (row_cells spec row)"

definition decoded_row :: "(string \<Rightarrow> string list option) \<Rightarrow> string list \<Rightarrow> string \<Rightarrow> query_spec \<Rightarrow> json \<Rightarrow> (string \<times> json) list" where
  "decoded_row resolve root sha spec row =
     (let cells = map (\<lambda>(c, v). (c, decoded_value resolve root spec c v)) (row_cells spec row)
          @ [(''query_name'', JStr (qs_name spec)), (''query_sha256'', JStr sha)]
      in cells @ location_fields spec cells)"

lemma decode_row_Inr:
  assumes "spec_ok spec" "used \<le> max_total_string"
  shows "decode_row resolve root sha spec n used row = Inr (used', r) \<longleftrightarrow>
     row_ok resolve root spec row \<and> used + cells_bytes (row_cells spec row) \<le> max_total_string
     \<and> used' = used + cells_bytes (row_cells spec row) \<and> r = decoded_row resolve root sha spec row"
  using decode_cells_Inr[OF assms]
  by (cases row) (auto simp: decode_row_def row_ok_def row_cells_def decoded_row_def res_bind_Inr_iff Let_def)

definition rows_bytes :: "query_spec \<Rightarrow> json list \<Rightarrow> nat" where
  "rows_bytes spec rows = sum_list (map (cells_bytes \<circ> row_cells spec) rows)"

lemma decode_all_Inr:
  assumes "spec_ok spec" "used \<le> max_total_string"
  shows "decode_all resolve root sha spec n used rows = Inr rs \<longleftrightarrow>
     list_all (row_ok resolve root spec) rows \<and> used + rows_bytes spec rows \<le> max_total_string
     \<and> rs = map (decoded_row resolve root sha spec) rows"
  using assms(2)
proof (induction rows arbitrary: used n rs)
  case Nil
  then show ?case by (auto simp: rows_bytes_def)
next
  case (Cons row rows)
  let ?b = "cells_bytes (row_cells spec row)"
  have b: "rows_bytes spec (row # rows) = ?b + rows_bytes spec rows" by (simp add: rows_bytes_def)
  show ?case
  proof (cases "row_ok resolve root spec row \<and> used + ?b \<le> max_total_string")
    case True
    then have "decode_row resolve root sha spec n used row = Inr (used + ?b, decoded_row resolve root sha spec row)"
      using decode_row_Inr[OF assms(1) Cons.prems] by auto
    then show ?thesis using Cons.IH[of "used + ?b"] True b by (auto simp: res_bind_Inr_iff)
  next
    case False
    then have "\<not> (\<exists>y. decode_row resolve root sha spec n used row = Inr y)"
      using decode_row_Inr[OF assms(1) Cons.prems] by auto
    then show ?thesis using False b by (auto simp: res_bind_Inr_iff)
  qed
qed

definition accepted :: "(string \<Rightarrow> string list option) \<Rightarrow> string \<Rightarrow> string list \<Rightarrow> json list \<Rightarrow> decode_source
    \<Rightarrow> query_spec \<Rightarrow> string list \<Rightarrow> bool" where
  "accepted resolve query columns rows source spec root \<longleftrightarrow> length query \<le> 128 \<and> find_spec query = Some spec
     \<and> columns = qs_columns spec \<and> length rows \<le> max_rows \<and> is_sha256 (ds_sha256 source)
     \<and> resolve (ds_root source) = Some root \<and> list_all (row_ok resolve root spec) rows
     \<and> rows_bytes spec rows \<le> max_total_string"

lemma decode_rows_Inr:
  "decode_rows resolve query columns rows source = Inr rs \<longleftrightarrow>
     (\<exists>spec root. accepted resolve query columns rows source spec root
        \<and> rs = map (decoded_row resolve root (ds_sha256 source) spec) rows)"
proof (cases "find_spec query")
  case (Some spec)
  have "0 \<le> max_total_string" by simp
  note all = decode_all_Inr[OF find_spec_Some(2)[OF Some] this]
  show ?thesis
    by (auto simp: decode_rows_def accepted_def Some normalized_root_def all split: option.splits)
qed (auto simp: decode_rows_def accepted_def)

text \<open>C38. The decoder returns exactly for results of a known query with its columns, at most 4096 rows, at most
  16 MiB of text, and in every row one value per column of the declared type, within its size, line range and
  enumeration, and with a path below the source root; the rows it returns are those rows, in order.\<close>

theorem decode_rows_exact:
  "decode_rows resolve query columns rows source = Inr rs \<longleftrightarrow>
     (\<exists>spec root. accepted resolve query columns rows source spec root
        \<and> rs = map (decoded_row resolve root (ds_sha256 source) spec) rows)"
  by (rule decode_rows_Inr)

section \<open>Decoded rows are typed\<close>

definition proper_path :: "json \<Rightarrow> bool" where
  "proper_path v \<longleftrightarrow> (\<exists>rel. v = JStr (join ''/'' rel) \<and> rel \<noteq> [] \<and> \<not> list_ex bad_part rel)"

definition typed_field :: "query_spec \<Rightarrow> string \<Rightarrow> json \<Rightarrow> bool" where
  "typed_field spec column v \<longleftrightarrow> (\<exists>kind. typed_column spec kind column \<and> validate_type kind v)
     \<and> (column \<in> set (qs_lines spec) \<longrightarrow> (\<exists>n. v = JInt n \<and> 1 \<le> n \<and> n \<le> max_line_number))
     \<and> (\<forall>allowed. map_of (qs_enums spec) column = Some allowed \<longrightarrow> (\<exists>s \<in> set allowed. v = JStr s))
     \<and> (column \<in> set (qs_paths spec) \<longrightarrow> proper_path v)"

definition typed_row :: "query_spec \<Rightarrow> string \<Rightarrow> (string \<times> json) list \<Rightarrow> bool" where
  "typed_row spec sha r \<longleftrightarrow>
     list_all (\<lambda>c. \<exists>v. map_of r c = Some v \<and> typed_field spec c v) (qs_columns spec)
     \<and> map_of r ''query_name'' = Some (JStr (qs_name spec)) \<and> map_of r ''query_sha256'' = Some (JStr sha)
     \<and> list_all (\<lambda>c. map_of r (location_key c)
          = Some (JObj [(''file'', the (map_of r c)), (''start_line'', the (map_of r (line_key c)))])) (qs_paths spec)"

lemma cell_typed:
  assumes "cell_ok resolve root spec (c, v)" "spec_ok spec"
  shows "typed_field spec c (decoded_value resolve root spec c v)"
proof (cases "c \<in> set (qs_paths spec)")
  case True
  then obtain s rel where s: "v = JStr s" "path_below resolve root s rel" using assms(1) by (auto simp: cell_ok_def)
  have st: "typed_column spec ''string'' c" using True assms(2) by (auto simp: spec_ok_def list_all_iff)
  have "c \<notin> set (qs_lines spec)"
    using st assms(2) by (auto simp: spec_ok_def list_all_iff typed_column_def)
  moreover have "map_of (qs_enums spec) c = None"
    using True assms(2) by (auto simp: spec_ok_def list_all_iff map_of_eq_None_iff)
  moreover have "proper_path (JStr (join ''/'' rel))" using s(2) by (auto simp: proper_path_def path_below_def)
  ultimately show ?thesis using st decoded_path[OF True s(2)] s(1) by (auto simp: typed_field_def)
next
  case False
  then have d: "decoded_value resolve root spec c v = v" by (simp add: decoded_value_def)
  have "\<exists>n. v = JInt n \<and> 1 \<le> n \<and> n \<le> max_line_number" if "c \<in> set (qs_lines spec)"
  proof -
    have "validate_type ''integer'' v" "line_ok v"
      using that assms by (auto simp: cell_ok_def spec_ok_def list_all_iff typed_column_def)
    then show ?thesis by (cases v) (auto simp: line_ok_def)
  qed
  then show ?thesis using assms(1) False d by (auto simp: typed_field_def cell_ok_def)
qed

lemma map_of_cells:
  assumes "distinct (qs_columns spec)" "length values = length (qs_columns spec)" "c \<in> set (qs_columns spec)"
  shows "\<exists>v. (c, v) \<in> set (zip (qs_columns spec) values)
     \<and> map_of (map (\<lambda>(c, v). (c, f c v)) (zip (qs_columns spec) values)) c = Some (f c v)"
proof -
  obtain i where i: "i < length (qs_columns spec)" "c = qs_columns spec ! i" using assms(3) by (auto simp: in_set_conv_nth)
  let ?v = "values ! i"
  have "(c, ?v) \<in> set (zip (qs_columns spec) values)" using i assms(2) by (auto simp: set_zip)
  moreover have "map fst (map (\<lambda>(c, v). (c, f c v)) (zip (qs_columns spec) values)) = qs_columns spec"
    using assms(2) by (simp add: comp_def case_prod_beta map_fst_zip)
  ultimately show ?thesis using assms(1) by (intro exI[of _ ?v]) (force intro!: map_of_is_SomeI)
qed

lemma typed_column_in:
  assumes "spec_ok spec" "typed_column spec kind c"
  shows "c \<in> set (qs_columns spec)"
proof -
  have "c \<in> fst ` set (qs_types spec)"
    using map_of_SomeD[of "qs_types spec" c kind] assms(2) by (force simp: typed_column_def)
  then have "c \<in> set (map fst (qs_types spec))" by simp
  then show ?thesis using assms(1) by (simp only: spec_ok_def)
qed

lemma map_filter_total: "(\<And>p. p \<in> set xs \<Longrightarrow> g p = Some (h p)) \<Longrightarrow> List.map_filter g xs = map h xs"
  by (induction xs) (simp_all add: map_filter_simps)

lemma map_of_append_left: "k \<in> fst ` set xs \<Longrightarrow> map_of (xs @ ys) k = map_of xs k"
  by (induction xs) auto

lemma map_of_append_right: "k \<notin> fst ` set xs \<Longrightarrow> map_of (xs @ ys) k = map_of ys k"
  by (induction xs) auto

lemma row_typed:
  assumes "row_ok resolve root spec row" "spec_ok spec"
  shows "typed_row spec sha (decoded_row resolve root sha spec row)"
proof -
  obtain ws where v: "row = JArr ws" "length ws = length (qs_columns spec)"
    "list_all (cell_ok resolve root spec) (zip (qs_columns spec) ws)"
    using assms(1) by (auto simp: row_ok_def row_cells_def)
  let ?cells = "map (\<lambda>(c, v). (c, decoded_value resolve root spec c v)) (zip (qs_columns spec) ws)"
  let ?base = "?cells @ [(''query_name'', JStr (qs_name spec)), (''query_sha256'', JStr sha)]"
  let ?r = "?base @ location_fields spec ?base"
  note ok = assms(2)[unfolded spec_ok_def list_all_iff]
  have r: "decoded_row resolve root sha spec row = ?r" by (simp add: decoded_row_def row_cells_def v(1) Let_def)
  have "map fst ?cells = qs_columns spec" using v(2) by (simp add: comp_def case_prod_beta map_fst_zip)
  then have dom: "fst ` set ?cells = set (qs_columns spec)" by (metis list.set_map)
  have base: "map_of ?base c = map_of ?cells c" "\<exists>v. map_of ?cells c = Some v \<and> typed_field spec c v" if C: "c \<in> set (qs_columns spec)" for c
  proof -
    obtain w where w: "(c, w) \<in> set (zip (qs_columns spec) ws)" "map_of ?cells c = Some (decoded_value resolve root spec c w)"
      using map_of_cells[OF _ v(2) C, of "\<lambda>c v. decoded_value resolve root spec c v"] ok by blast
    have "typed_field spec c (decoded_value resolve root spec c w)"
      using cell_typed[OF _ assms(2)] w(1) v(3) by (auto simp: list_all_iff)
    then show "\<exists>v. map_of ?cells c = Some v \<and> typed_field spec c v" using w(2) by blast
    show "map_of ?base c = map_of ?cells c" using w(2) by simp
  qed
  have full: "map_of ?r k = map_of ?base k" if "k \<in> set (qs_columns spec) \<union> {''query_name'', ''query_sha256''}" for k
  proof -
    have "k \<in> fst ` set ?base" using that dom by auto
    then show ?thesis by (rule map_of_append_left)
  qed
  have cols: "set (qs_paths spec) \<subseteq> set (qs_columns spec)" "set (qs_lines spec) \<subseteq> set (qs_columns spec)"
    using ok typed_column_in[OF assms(2)] by blast+
  have lk: "line_key c \<in> set (qs_columns spec)" if "c \<in> set (qs_paths spec)" for c
    using that ok cols(2) by blast
  have present: "\<exists>v. map_of ?base c = Some v" if C: "c \<in> set (qs_columns spec)" for c
    using base(1)[OF C] base(2)[OF C] by (metis (no_types))
  have loc: "map_of (location_fields spec ?base) (location_key c)
      = Some (JObj [(''file'', the (map_of ?base c)), (''start_line'', the (map_of ?base (line_key c)))])" if c: "c \<in> set (qs_paths spec)" for c
  proof -
    have "location_fields spec ?base = map (\<lambda>p. (location_key p,
        JObj [(''file'', the (map_of ?base p)), (''start_line'', the (map_of ?base (line_key p)))])) (qs_paths spec)"
      unfolding location_fields_def
    proof (rule map_filter_total)
      fix p
      assume p: "p \<in> set (qs_paths spec)"
      then obtain x y where "map_of ?base p = Some x" "map_of ?base (line_key p) = Some y"
        using present cols(1) lk by blast
      then show "(let prefix = removesuffix p ''_file'' in
          (case (map_of ?base p, map_of ?base (prefix @ ''_start_line'')) of
            (Some file, Some line) \<Rightarrow> Some (prefix @ ''_location'', JObj [(''file'', file), (''start_line'', line)])
          | _ \<Rightarrow> None)) = Some (location_key p, JObj [(''file'', the (map_of ?base p)), (''start_line'', the (map_of ?base (line_key p)))])"
        by (simp only: Let_def location_key_def line_key_def prod.case option.case option.sel)
    qed
    moreover have "distinct (map location_key (qs_paths spec))" using ok by blast
    ultimately show ?thesis using c by (auto intro!: map_of_is_SomeI simp: comp_def)
  qed
  have right: "map_of ?r (location_key c) = map_of (location_fields spec ?base) (location_key c)" if c: "c \<in> set (qs_paths spec)" for c
  proof -
    have "location_key c \<in> set (map location_key (qs_paths spec))" using c by simp
    then have "location_key c \<notin> fst ` set ?cells" using dom ok by auto
    moreover have "location_key c \<noteq> ''query_name''" "location_key c \<noteq> ''query_sha256''"
      by (auto simp: location_key_def dest!: arg_cong[where f = rev])
    ultimately have "location_key c \<notin> fst ` set ?base" by auto
    then show ?thesis by (rule map_of_append_right)
  qed
  show ?thesis
    unfolding typed_row_def r list_all_iff
  proof (intro conjI ballI)
    fix c
    assume C: "c \<in> set (qs_columns spec)"
    have "map_of ?r c = map_of ?cells c" using full[of c] base(1)[OF C] C by simp
    then show "\<exists>v. map_of ?r c = Some v \<and> typed_field spec c v" using base(2)[OF C] by simp
  next
    have out: "''query_name'' \<notin> fst ` set ?cells" "''query_sha256'' \<notin> fst ` set ?cells" unfolding dom using ok by auto
    have "map_of ?base ''query_name'' = Some (JStr (qs_name spec))" "map_of ?base ''query_sha256'' = Some (JStr sha)"
      unfolding map_of_append_right[OF out(1)] map_of_append_right[OF out(2)] by simp_all
    then show "map_of ?r ''query_name'' = Some (JStr (qs_name spec))" "map_of ?r ''query_sha256'' = Some (JStr sha)"
      using full by simp_all
  next
    fix c
    assume c: "c \<in> set (qs_paths spec)"
    have "map_of ?r c = map_of ?base c" "map_of ?r (line_key c) = map_of ?base (line_key c)"
      using full lk[OF c] c cols(1) by blast+
    then show "map_of ?r (location_key c) = Some (JObj [(''file'', the (map_of ?r c)), (''start_line'', the (map_of ?r (line_key c)))])"
      using right[OF c] loc[OF c] by (simp only:)
  qed
qed


text \<open>A result in the form the query tool writes it, with plain or annotated columns.\<close>

lemma bqrs_columns: "List.map_filter column_name (map (\<lambda>(c, k). JObj [(''kind'', JStr k), (''name'', JStr c)]) cks) = map fst cks"
  by (induction cks) (auto simp: map_filter_simps column_name_def)

lemma decode_bqrs:
  assumes "length query \<le> 128" "find_spec query = Some spec"
  shows "decode_bqrs_json resolve query (JObj [(''#select'', JObj [(''columns'',
      JArr (map (\<lambda>(c, k). JObj [(''kind'', JStr k), (''name'', JStr c)]) cks)), (''tuples'', JArr rows)])]) source
    = decode_rows resolve query (map fst cks) rows source"
  using assms bqrs_columns[of cks]
  by (auto simp: decode_bqrs_json_def list_ex_iff column_name_def)

definition sample_rows :: "json list" where
  "sample_rows = [JArr [JStr ''A.java'', JInt 3, JStr ''guard'', JStr ''complete'', JStr ''modeled'']]"

definition sample_source :: decode_source where
  "sample_source = \<lparr>ds_root = ''/repo'', ds_sha256 = replicate 64 (CHR ''a'')\<rparr>"

definition sample_resolve :: "string \<Rightarrow> string list option" where
  "sample_resolve s = Some (filter (\<lambda>p. p \<noteq> []) (split_on (CHR ''/'') s))"

lemma sample_decoded:
  "\<exists>rs. decode_rows sample_resolve ''lifecycle_coverage'' lifecycle_coverage_columns sample_rows sample_source = Inr rs"
proof -
  have f: "find_spec ''lifecycle_coverage'' = Some lifecycle_coverage_spec"
    by (simp add: find_spec_def query_specs_def make_spec_def entry_spec_def growth_spec_def interposition_spec_def
        security_spec_def flow_spec_def guard_spec_def bound_spec_def lifecycle_coverage_spec_def)
  have s: "is_sha256 (ds_sha256 sample_source)" by (auto simp: is_sha256_def sample_source_def is_hex_def list_all_iff)
  have r: "sample_resolve (ds_root sample_source) = Some [''repo'']" by (simp add: sample_resolve_def sample_source_def)
  have c: "qs_columns lifecycle_coverage_spec = lifecycle_coverage_columns"
    by (simp add: lifecycle_coverage_spec_def make_spec_def)
  have p: "path_below sample_resolve [''repo''] ''A.java'' [''A.java'']"
    by (simp add: path_below_def full_path_def sample_resolve_def startswith_def bad_part_def)
  have "list_all (row_ok sample_resolve [''repo''] lifecycle_coverage_spec) sample_rows"
    unfolding sample_rows_def row_ok_def row_cells_def c cell_ok_def using p
    by (auto simp: lifecycle_coverage_columns_def lifecycle_coverage_spec_def make_spec_def column_types_def
        typed_column_def max_row_string_def string_size_def line_ok_def max_line_number_def coverage_values_def)
  moreover have "rows_bytes lifecycle_coverage_spec sample_rows \<le> max_total_string"
    by (simp add: rows_bytes_def cells_bytes_def row_cells_def sample_rows_def c lifecycle_coverage_columns_def
        string_size_def max_total_string_def)
  ultimately show ?thesis
    using f s r c by (auto simp: decode_rows_Inr accepted_def max_rows_def sample_rows_def)
qed


end
