(* ===== verification/Families.thy ===== *)
theory Families
  imports Certificates ReachabilityModel
begin

text \<open>
  \<open>dosweb/report/families.py\<close>: the families in which a report presents findings of one registration,
  resource, reachability and verdict. The record of the code is a record, its \<open>__post_init__\<close> the
  definition with its name, over the values a record may hold when it is read from disk.
\<close>

section \<open>Families\<close>

definition family_invalid :: "string \<Rightarrow> py_exc" where
  "family_invalid message = AnalyzerError ''ANALYSIS_FINDING_FAMILY_INVALID'' message []"

definition family_verdicts :: "string list" where
  "family_verdicts = [''static_vulnerable'', ''bounded_under_modeled_assumptions'', ''static_unknown'']"

definition family_priorities :: "string list" where
  "family_priorities = [''P0'', ''P1'', ''P2'', ''inventory'']"

definition family_reachability :: "string list" where
  "family_reachability = [''ordinary_attacker_reachable'', ''not_entry_reachable'', ''unknown'']"

definition amplification_rank :: "string \<Rightarrow> int" where
  "amplification_rank c = (case map_of [(''superlinear'', 6), (''large_single_request'', 5), (''queue_instability'', 4),
     (''concurrent_retention'', 3), (''high_cardinality_retention'', 2), (''low_amplification'', 1), (''unknown'', 0)] c of
       Some n \<Rightarrow> n | None \<Rightarrow> 0)"

definition family_amplification :: "string list" where
  "family_amplification = [''superlinear'', ''large_single_request'', ''concurrent_retention'', ''queue_instability'',
     ''high_cardinality_retention'', ''low_amplification'', ''unknown'']"

record finding_family =
  family_id :: string
  ff_verdict :: string
  ff_priority :: string
  ff_primary :: string
  ff_findings :: "string list"
  ff_certificates :: "string list"
  ff_entries :: "string list"
  ff_growths :: "string list"
  ff_resource :: string
  ff_reachability :: string
  ff_amplification :: string
  ff_reasons :: "string list"

definition family_identity :: "finding_family \<Rightarrow> (string \<times> json) list" where
  "family_identity f = [(''verdict'', JStr (ff_verdict f)), (''priority'', JStr (ff_priority f)),
     (''primary_finding_id'', JStr (ff_primary f)), (''member_finding_ids'', strs (ff_findings f)),
     (''member_certificate_ids'', strs (ff_certificates f)), (''entry_ids'', strs (ff_entries f)),
     (''growth_ids'', strs (ff_growths f)), (''resource_id'', JStr (ff_resource f)),
     (''reachability_status'', JStr (ff_reachability f)), (''amplification_class'', JStr (ff_amplification f)),
     (''reason_codes'', strs (ff_reasons f))]"

definition family_to_dict :: "finding_family \<Rightarrow> json" where
  "family_to_dict f = JObj ((''family_id'', JStr (family_id f)) # family_identity f)"

definition is_text :: "json \<Rightarrow> bool" where
  "is_text v = (case v of JStr _ \<Rightarrow> True | _ \<Rightarrow> False)"

definition prefixed :: "json \<Rightarrow> string \<Rightarrow> bool" where
  "prefixed v p = (is_text v \<and> startswith (str_of v) p)"

definition family_strings :: "json list \<Rightarrow> string \<Rightarrow> bool \<Rightarrow> string list res" where
  "family_strings vs field allow_empty =
     (if (\<not> allow_empty \<and> vs = []) \<or> list_ex (\<lambda>v. \<not> is_text v \<or> v = JStr []) vs
        \<or> usort (map str_of vs) \<noteq> map str_of vs
      then Inl (family_invalid (''Finding family '' @ field @ '' is malformed.'')) else Inr (map str_of vs))"

text \<open>A constant whose value may not be hashable.\<close>

definition family_literal :: "json \<Rightarrow> string list \<Rightarrow> string \<Rightarrow> unit res" where
  "family_literal v allowed message = res_bind (in_literals v allowed) (\<lambda>ok. require (family_invalid message) ok)"

definition FindingFamily :: "json \<Rightarrow> json \<Rightarrow> json \<Rightarrow> json \<Rightarrow> json list \<Rightarrow> json list \<Rightarrow> json list \<Rightarrow> json list \<Rightarrow> json
    \<Rightarrow> json \<Rightarrow> json \<Rightarrow> json list \<Rightarrow> finding_family res" where
  "FindingFamily fid verdict priority primary findings certificates entries growths resource reachability amplification reasons =
     res_bind (require (family_invalid ''Finding family identifier is malformed.'') (prefixed fid ''family:'')) (\<lambda>_.
     res_bind (family_literal verdict family_verdicts ''Finding family verdict or priority is malformed.'') (\<lambda>_.
     res_bind (family_literal priority family_priorities ''Finding family verdict or priority is malformed.'') (\<lambda>_.
     res_bind (family_literal reachability family_reachability ''Finding family reachability is malformed.'') (\<lambda>_.
     res_bind (family_literal amplification family_amplification ''Finding family amplification is malformed.'') (\<lambda>_.
     res_bind (family_strings findings ''member_finding_ids'' False) (\<lambda>fs.
     res_bind (family_strings certificates ''member_certificate_ids'' False) (\<lambda>cs.
     res_bind (family_strings entries ''entry_ids'' False) (\<lambda>es.
     res_bind (family_strings growths ''growth_ids'' False) (\<lambda>gs.
     res_bind (family_strings reasons ''reason_codes'' True) (\<lambda>rs.
     res_bind (require (family_invalid ''Finding family primary finding is not a member.'') (primary \<in> set findings)) (\<lambda>_.
     res_bind (require (family_invalid ''Finding family resource identifier is malformed.'') (prefixed resource ''resource:'')) (\<lambda>_.
     let f = \<lparr>family_id = str_of fid, ff_verdict = str_of verdict, ff_priority = str_of priority, ff_primary = str_of primary,
              ff_findings = fs, ff_certificates = cs, ff_entries = es, ff_growths = gs, ff_resource = str_of resource,
              ff_reachability = str_of reachability, ff_amplification = str_of amplification, ff_reasons = rs\<rparr>
     in res_bind (require (family_invalid ''Finding family identifier is not canonical.'')
          (family_id f = stable_identifier ''family'' (JObj (family_identity f)))) (\<lambda>_. Inr f)))))))))))))"

definition family_fields :: "string list" where
  "family_fields = [''family_id'', ''verdict'', ''priority'', ''primary_finding_id'', ''member_finding_ids'',
     ''member_certificate_ids'', ''entry_ids'', ''growth_ids'', ''resource_id'', ''reachability_status'',
     ''amplification_class'', ''reason_codes'']"

definition family_collections :: "string list" where
  "family_collections = [''member_finding_ids'', ''member_certificate_ids'', ''entry_ids'', ''growth_ids'', ''reason_codes'']"

definition array_of :: "json \<Rightarrow> json list" where
  "array_of v = (case v of JArr vs \<Rightarrow> vs | _ \<Rightarrow> [])"

definition is_array :: "json \<Rightarrow> bool" where
  "is_array v = (case v of JArr _ \<Rightarrow> True | _ \<Rightarrow> False)"

definition family_from_dict :: "json \<Rightarrow> finding_family res" where
  "family_from_dict v =
     (if \<not> has_fields v family_fields then Inl (family_invalid ''Finding family record is malformed.'')
      else if list_ex (\<lambda>k. \<not> is_array (get v k)) family_collections
      then Inl (family_invalid ''Finding family record collections are malformed.'')
      else FindingFamily (get v ''family_id'') (get v ''verdict'') (get v ''priority'') (get v ''primary_finding_id'')
        (array_of (get v ''member_finding_ids'')) (array_of (get v ''member_certificate_ids''))
        (array_of (get v ''entry_ids'')) (array_of (get v ''growth_ids'')) (get v ''resource_id'')
        (get v ''reachability_status'') (get v ''amplification_class'') (array_of (get v ''reason_codes'')))"

section \<open>Members\<close>

definition registration_identity :: "entry_fact \<Rightarrow> reachability_decision option \<Rightarrow> (string \<times> json) list res" where
  "registration_identity entry reachability =
     (if (case reachability of Some r \<Rightarrow> rd_entry_id r \<noteq> entry_id entry | None \<Rightarrow> False)
      then Inl (family_invalid ''Finding family reachability references another Entry.'')
      else Inr [(''framework'', JStr (e_framework entry)), (''protocol'', JStr (e_protocol entry)),
        (''registration'', registration_to_dict (e_registration entry)), (''handler'', handler_to_dict (e_handler entry)),
        (''auth_context'', JStr (case reachability of Some r \<Rightarrow> rd_context r | None \<Rightarrow> auth_context entry)),
        (''deployment_status'', JStr (case reachability of Some r \<Rightarrow> rd_deployment r | None \<Rightarrow> ''unknown''))])"

definition family_priority :: "string \<Rightarrow> string \<Rightarrow> string \<Rightarrow> string" where
  "family_priority verdict reachability amplification =
     (if reachability = ''not_entry_reachable'' then ''inventory''
      else if verdict = ''static_vulnerable'' \<and> reachability = ''ordinary_attacker_reachable'' then ''P0''
      else if verdict = ''static_unknown'' \<and> amplification \<notin> {''low_amplification'', ''unknown''} then ''P1''
      else if verdict \<in> {''static_unknown'', ''bounded_under_modeled_assumptions''} then ''P2''
      else ''inventory'')"

type_synonym family_member = "static_finding \<times> certificate \<times> string"

definition primary_key :: "family_member \<Rightarrow> bool \<times> nat \<times> bool \<times> nat \<times> int \<times> string" where
  "primary_key m = (case m of (f, c, a) \<Rightarrow> (ct_gaps c \<noteq> [], length (ct_gaps c), ct_unresolved c \<noteq> [],
     length (ct_unresolved c), - amplification_rank a, finding_id f))"

text \<open>One finding: its certificate, its amplification class and the identity of its group.\<close>

definition family_member :: "(string \<rightharpoonup> certificate) \<Rightarrow> (string \<rightharpoonup> entry_fact) \<Rightarrow> (string \<rightharpoonup> reachability_decision)
    \<Rightarrow> (string \<times> string \<rightharpoonup> string) \<Rightarrow> static_finding \<Rightarrow> ((string \<times> json) list \<times> family_member) res" where
  "family_member certificates entries reachability amplification f =
     res_bind (item certificates (fd_certificate_id f)) (\<lambda>c.
     if fd_entry_id f \<noteq> ct_entry_id c \<or> fd_growth_id f \<noteq> ct_growth_id c \<or> fd_verdict f \<noteq> ct_verdict c
       \<or> fd_reasons f \<noteq> ct_reasons c
     then Inl (family_invalid ''Finding family member disagrees with its certificate.'')
     else case entries (fd_entry_id f) of
       None \<Rightarrow> Inl (family_invalid ''Finding family member references an absent Entry.'')
     | Some entry \<Rightarrow>
         (let resource = get (ct_resource_point c) ''resource_id'';
              reach = reachability (entry_id entry);
              status = (case reach of Some r \<Rightarrow> rd_status r | None \<Rightarrow> ''unknown'');
              a = (case amplification (fd_entry_id f, fd_growth_id f) of Some a \<Rightarrow> a | None \<Rightarrow> ''unknown'')
          in if \<not> is_mapping (ct_resource_point c) \<or> \<not> prefixed resource ''resource:''
             then Inl (family_invalid ''Finding family member has no canonical resource.'')
             else if a \<notin> set family_amplification then Inl (family_invalid ''Finding family amplification is malformed.'')
             else res_bind (registration_identity entry reach) (\<lambda>registration.
               Inr (registration @ [(''resource_id'', resource), (''reachability_status'', JStr status),
                 (''verdict'', JStr (fd_verdict f))], (f, c, a)))))"

definition group_key :: "(string \<times> json) list \<Rightarrow> string" where
  "group_key identity = stable_identifier ''family_group'' (JObj identity)"

text \<open>The family of a group: the identity is that of its first member.\<close>

definition family_of_group :: "((string \<times> json) list \<times> family_member) list \<Rightarrow> finding_family res" where
  "family_of_group grouped =
     (let identity = fst (hd grouped); ordered = sort_key primary_key (map snd grouped);
          (primary, _, amplification) = hd ordered; verdict = fd_verdict primary;
          reachability = str_of (field_of identity ''reachability_status'');
          f = \<lparr>family_id = [], ff_verdict = verdict, ff_priority = family_priority verdict reachability amplification,
               ff_primary = finding_id primary, ff_findings = sort (map (finding_id \<circ> fst) ordered),
               ff_certificates = sort (map (certificate_id \<circ> fst \<circ> snd) ordered),
               ff_entries = usort (map (fd_entry_id \<circ> fst) ordered), ff_growths = usort (map (fd_growth_id \<circ> fst) ordered),
               ff_resource = str_of (field_of identity ''resource_id''), ff_reachability = reachability,
               ff_amplification = amplification, ff_reasons = usort (concat (map (fd_reasons \<circ> fst) ordered))\<rparr>
      in FindingFamily (JStr (stable_identifier ''family'' (JObj (family_identity f)))) (JStr (ff_verdict f))
           (JStr (ff_priority f)) (JStr (ff_primary f)) (map JStr (ff_findings f)) (map JStr (ff_certificates f))
           (map JStr (ff_entries f)) (map JStr (ff_growths f)) (JStr (ff_resource f)) (JStr (ff_reachability f))
           (JStr (ff_amplification f)) (map JStr (ff_reasons f)))"

definition build_finding_families :: "static_finding list \<Rightarrow> certificate list \<Rightarrow> (string \<rightharpoonup> entry_fact)
    \<Rightarrow> (string \<rightharpoonup> reachability_decision) \<Rightarrow> (string \<times> string \<rightharpoonup> string) \<Rightarrow> finding_family list res" where
  "build_finding_families findings certificates entries reachability amplification =
     (if \<not> distinct (map finding_id findings) \<or> \<not> distinct (map certificate_id certificates)
      then Inl (family_invalid ''Finding family inputs contain duplicate identifiers.'')
      else if set (map fd_certificate_id findings) \<noteq> set (map certificate_id certificates)
      then Inl (family_invalid ''Finding family findings and certificates are not a bijection.'')
      else res_bind (map_res (family_member (index_by certificate_id certificates) entries reachability amplification) findings)
        (\<lambda>ms. let groups = map snd (fold (\<lambda>m. group_append (group_key (fst m)) m) ms []) in
         res_bind (map_res family_of_group groups) (\<lambda>families. Inr (sort_key family_id families))))"

end
