(* ===== verification/FamiliesLaws.thy ===== *)
theory FamiliesLaws
  imports Families FlowLaws
begin

text \<open>Findings are partitioned into valid families of one verdict and reachability; records of families are read back.\<close>

section \<open>Valid families\<close>

definition good_strings :: "bool \<Rightarrow> string list \<Rightarrow> bool" where
  "good_strings allow_empty xs \<longleftrightarrow> (allow_empty \<or> xs \<noteq> []) \<and> [] \<notin> set xs \<and> sorted xs \<and> distinct xs"

definition family_ok :: "finding_family \<Rightarrow> bool" where
  "family_ok f \<longleftrightarrow> family_id f = stable_identifier ''family'' (JObj (family_identity f))
     \<and> ff_verdict f \<in> set family_verdicts \<and> ff_priority f \<in> set family_priorities
     \<and> ff_reachability f \<in> set family_reachability \<and> ff_amplification f \<in> set family_amplification
     \<and> good_strings False (ff_findings f) \<and> good_strings False (ff_certificates f)
     \<and> good_strings False (ff_entries f) \<and> good_strings False (ff_growths f) \<and> good_strings True (ff_reasons f)
     \<and> ff_primary f \<in> set (ff_findings f) \<and> startswith (ff_resource f) ''resource:''"

lemma str_of_text [simp]: "str_of (JStr s) = s"
  by (simp add: str_of_def)

lemma is_text_iff: "is_text v \<longleftrightarrow> v = JStr (str_of v)"
  by (cases v) (auto simp: is_text_def)

lemma family_strings_Inr:
  "family_strings vs field allow_empty = Inr xs \<longleftrightarrow> vs = map JStr xs \<and> good_strings allow_empty xs"
proof -
  have t: "\<not> list_ex (\<lambda>v. \<not> is_text v \<or> v = JStr []) vs \<longleftrightarrow> vs = map JStr (map str_of vs) \<and> [] \<notin> set (map str_of vs)"
    by (induction vs) (auto simp: is_text_iff)
  have m: "map str_of (map JStr xs) = xs" for xs by (induction xs) simp_all
  have "family_strings vs field allow_empty = Inr xs \<longleftrightarrow>
      \<not> list_ex (\<lambda>v. \<not> is_text v \<or> v = JStr []) vs \<and> (allow_empty \<or> vs \<noteq> []) \<and> xs = map str_of vs \<and> usort xs = xs"
    by (auto simp: family_strings_def)
  also have "\<dots> \<longleftrightarrow> vs = map JStr xs \<and> good_strings allow_empty xs"
    unfolding t usort_fixed_iff good_strings_def using m by auto
  finally show ?thesis .
qed

lemma family_literal_Inr: "family_literal v allowed m = Inr u \<longleftrightarrow> is_text v \<and> str_of v \<in> set allowed"
  by (cases v) (auto simp: family_literal_def in_literals_def hashable_def require_def is_text_def res_bind_Inr_iff)

lemma map_JStr_inj: "map JStr xs = map JStr ys \<longleftrightarrow> xs = ys"
  by (simp add: inj_map_eq_map inj_def)

lemma prefixed_iff: "prefixed v p \<longleftrightarrow> v = JStr (str_of v) \<and> startswith (str_of v) p"
  by (auto simp: prefixed_def is_text_iff)

lemma require_iff: "require e b = Inr u \<longleftrightarrow> b" for u :: unit
  by (simp add: require_def)

lemma FindingFamily_Inr:
  "FindingFamily fid verdict priority primary fs cs es gs resource reach amp rs = Inr f \<longleftrightarrow>
     family_ok f \<and> fid = JStr (family_id f) \<and> verdict = JStr (ff_verdict f) \<and> priority = JStr (ff_priority f)
     \<and> primary = JStr (ff_primary f) \<and> fs = map JStr (ff_findings f) \<and> cs = map JStr (ff_certificates f)
     \<and> es = map JStr (ff_entries f) \<and> gs = map JStr (ff_growths f) \<and> resource = JStr (ff_resource f)
     \<and> reach = JStr (ff_reachability f) \<and> amp = JStr (ff_amplification f) \<and> rs = map JStr (ff_reasons f)"
  (is "?l \<longleftrightarrow> ?r")
proof
  assume ?l
  then show ?r
    by (auto simp: FindingFamily_def Let_def res_bind_Inr_iff family_literal_Inr family_strings_Inr prefixed_iff
        require_iff family_ok_def is_text_iff family_identity_def)
next
  assume ?r
  moreover have "startswith (stable_identifier ''family'' v) ''family:''" for v
    using stable_identifier_prefix[of "''family''" v] by simp
  ultimately show ?l
    by (auto simp: FindingFamily_def Let_def res_bind_Inr_iff family_literal_Inr family_strings_Inr prefixed_iff
        require_iff family_ok_def is_text_iff family_identity_def map_JStr_inj)
qed

section \<open>Records\<close>

lemma family_from_own_dict:
  assumes "family_ok f"
  shows "family_from_dict (family_to_dict f) = Inr f"
proof -
  have "\<not> list_ex (\<lambda>k. \<not> is_array (get (family_to_dict f) k)) family_collections"
    by (simp add: family_collections_def family_to_dict_def family_identity_def get_def members_def field_of_def
        is_array_def strs_def)
  moreover have "has_fields (family_to_dict f) family_fields"
    by (simp add: has_fields_def family_to_dict_def family_identity_def family_fields_def)
  ultimately show ?thesis
    using assms by (simp add: family_from_dict_def FindingFamily_Inr)
      (simp add: family_to_dict_def family_identity_def get_def members_def field_of_def array_of_def strs_def)
qed

text \<open>A family is read back from its record, and whatever record is read gives a family whose own record says the
  same: the same fields with the same values.\<close>

theorem family_record_roundtrip:
  "(family_ok f \<longrightarrow> family_from_dict (family_to_dict f) = Inr f)
   \<and> (family_from_dict v = Inr f \<longrightarrow> family_ok f \<and> (\<forall>k \<in> set family_fields. get v k = get (family_to_dict f) k))"
proof -
  have arr: "is_array x \<Longrightarrow> array_of x = ys \<Longrightarrow> x = JArr ys" for x ys
    by (cases x) (auto simp: is_array_def array_of_def)
  have "family_ok f \<and> (\<forall>k \<in> set family_fields. get v k = get (family_to_dict f) k)" if "family_from_dict v = Inr f"
    using that unfolding family_from_dict_def
    by (auto simp: FindingFamily_Inr family_fields_def family_collections_def family_to_dict_def family_identity_def
        get_def[of "JObj _"] members_def[of "JObj _"] field_of_def strs_def split: if_split_asm dest: arr)
  then show ?thesis using family_from_own_dict by blast
qed

section \<open>Groups\<close>

definition groups_by :: "('a \<Rightarrow> 'k) \<Rightarrow> 'a list \<Rightarrow> ('k \<times> 'a list) list" where
  "groups_by key xs = fold (\<lambda>x. group_append (key x) x) xs []"

definition grouping :: "('a \<Rightarrow> 'k) \<Rightarrow> 'a multiset \<Rightarrow> ('k \<times> 'a list) list \<Rightarrow> bool" where
  "grouping key M gs \<longleftrightarrow> mset (concat (map snd gs)) = M \<and> distinct (map fst gs)
     \<and> (\<forall>(k, ys) \<in> set gs. ys \<noteq> [] \<and> (\<forall>y \<in> set ys. key y = k))"

lemma fst_group_append: "fst ` set (group_append k x gs) = insert k (fst ` set gs)"
  by (induction k x gs rule: group_append.induct) auto

lemma grouping_append:
  "grouping key M gs \<Longrightarrow> grouping key (add_mset x M) (group_append (key x) x gs)"
proof (induction "key x" x gs arbitrary: M rule: group_append.induct)
  case (2 x l xs gs)
  show ?case
  proof (cases "key x = l")
    case True
    then show ?thesis using 2(2) by (auto simp: grouping_def)
  next
    case False
    have "grouping key (M - mset xs) gs" using 2(2) by (auto simp: grouping_def)
    from 2(1)[OF False this] have ih: "grouping key (add_mset x (M - mset xs)) (group_append (key x) x gs)" .
    have "mset xs \<subseteq># M" using 2(2) by (auto simp: grouping_def)
    then have "mset xs + add_mset x (M - mset xs) = add_mset x M" by (simp add: subset_mset.add_diff_inverse)
    then show ?thesis using ih 2(2) False fst_group_append[of "key x" x gs]
      by (auto simp: grouping_def image_iff)
  qed
qed (auto simp: grouping_def)

lemma groups_by_grouping: "grouping key (mset xs) (groups_by key xs)"
proof -
  have "grouping key (M + mset xs) (fold (\<lambda>x. group_append (key x) x) xs gs)" if "grouping key M gs" for M gs
    using that
  proof (induction xs arbitrary: M gs)
    case (Cons x xs)
    from Cons.IH[OF grouping_append[OF Cons.prems, of x]] show ?case by simp
  qed simp
  from this[of "{#}" "[]"] show ?thesis by (simp add: groups_by_def grouping_def)
qed

lemma groups_byD:
  assumes "(k, ys) \<in> set (groups_by key xs)"
  shows "ys \<noteq> []" "\<And>y. y \<in> set ys \<Longrightarrow> key y = k" "set ys \<subseteq> set xs"
proof -
  note g = groups_by_grouping[of key xs, unfolded grouping_def]
  show "ys \<noteq> []" "\<And>y. y \<in> set ys \<Longrightarrow> key y = k" using g assms by auto
  have "set ys \<subseteq> set (concat (map snd (groups_by key xs)))" using assms by force
  also have "\<dots> = set xs" using g by (metis set_mset_mset)
  finally show "set ys \<subseteq> set xs" .
qed

section \<open>Members and their families\<close>

definition reach_status :: "(string \<rightharpoonup> reachability_decision) \<Rightarrow> string \<Rightarrow> string" where
  "reach_status reachability i = (case reachability i of Some r \<Rightarrow> rd_status r | None \<Rightarrow> ''unknown'')"

definition pair_class :: "(string \<times> string \<rightharpoonup> string) \<Rightarrow> static_finding \<Rightarrow> string" where
  "pair_class amplification f = (case amplification (fd_entry_id f, fd_growth_id f) of Some a \<Rightarrow> a | None \<Rightarrow> ''unknown'')"

lemma registration_identity_keys:
  assumes "registration_identity entry reach = Inr registration"
  shows "map_of (registration @ rest) k = (if k \<in> {''framework'', ''protocol'', ''registration'', ''handler'', ''auth_context'', ''deployment_status''}
      then map_of registration k else map_of rest k)"
  using assms by (auto simp: registration_identity_def split: if_split_asm option.splits)

lemma family_member_Inr:
  assumes "family_member certs entries reachability amplification f = Inr (identity, m)"
  shows "\<exists>c entry. m = (f, c, pair_class amplification f) \<and> certs (fd_certificate_id f) = Some c
     \<and> fd_verdict f = ct_verdict c \<and> fd_reasons f = ct_reasons c \<and> entries (fd_entry_id f) = Some entry
     \<and> field_of identity ''verdict'' = JStr (fd_verdict f)
     \<and> field_of identity ''reachability_status'' = JStr (reach_status reachability (entry_id entry))
     \<and> (\<exists>r. field_of identity ''resource_id'' = JStr r \<and> startswith r ''resource:'')
     \<and> pair_class amplification f \<in> set family_amplification"
proof -
  obtain c entry registration where c: "certs (fd_certificate_id f) = Some c" "entries (fd_entry_id f) = Some entry"
    "fd_verdict f = ct_verdict c" "fd_reasons f = ct_reasons c"
    and p: "prefixed (get (ct_resource_point c) ''resource_id'') ''resource:''" "pair_class amplification f \<in> set family_amplification"
    and r: "registration_identity entry (reachability (entry_id entry)) = Inr registration"
    and i: "identity = registration @ [(''resource_id'', get (ct_resource_point c) ''resource_id''),
        (''reachability_status'', JStr (reach_status reachability (entry_id entry))), (''verdict'', JStr (fd_verdict f))]"
    and m: "m = (f, c, pair_class amplification f)"
    using assms unfolding family_member_def Let_def pair_class_def[symmetric] reach_status_def[symmetric]
    by (auto simp: res_bind_Inr_iff item_def split: option.splits if_split_asm)
  have "field_of identity ''verdict'' = JStr (fd_verdict f)"
    "field_of identity ''reachability_status'' = JStr (reach_status reachability (entry_id entry))"
    "field_of identity ''resource_id'' = get (ct_resource_point c) ''resource_id''"
    unfolding i field_of_def by (simp_all add: registration_identity_keys[OF r] del: map_of_append)
  then show ?thesis using c p m by (auto simp: prefixed_iff)
qed

lemma hd_sort_key_min:
  assumes "xs \<noteq> []"
  shows "hd (sort_key key xs) \<in> set xs" "\<And>x. x \<in> set xs \<Longrightarrow> key (hd (sort_key key xs)) \<le> key x"
proof -
  obtain y ys where y: "sort_key key xs = y # ys" using assms by (metis length_0_conv length_sort list.exhaust)
  have "set xs = set (y # ys)" unfolding y[symmetric] by simp
  moreover have "sorted (map key (y # ys))" unfolding y[symmetric] by simp
  ultimately show "hd (sort_key key xs) \<in> set xs" "\<And>x. x \<in> set xs \<Longrightarrow> key (hd (sort_key key xs)) \<le> key x"
    by (auto simp: y)
qed

lemma family_of_group_Inr:
  assumes "family_of_group grouped = Inr F" "grouped \<noteq> []"
  shows "\<exists>p c a. (p, c, a) \<in> snd ` set grouped \<and> (\<forall>m \<in> snd ` set grouped. primary_key (p, c, a) \<le> primary_key m)
     \<and> family_ok F \<and> ff_primary F = finding_id p \<and> ff_verdict F = fd_verdict p \<and> ff_amplification F = a
     \<and> ff_reachability F = str_of (field_of (fst (hd grouped)) ''reachability_status'')
     \<and> ff_priority F = family_priority (ff_verdict F) (ff_reachability F) (ff_amplification F)
     \<and> mset (ff_findings F) = mset (map (finding_id \<circ> fst \<circ> snd) grouped)
     \<and> mset (ff_certificates F) = mset (map (certificate_id \<circ> fst \<circ> snd \<circ> snd) grouped)"
proof -
  let ?o = "sort_key primary_key (map snd grouped)"
  obtain p c a where h: "hd ?o = (p, c, a)" by (cases "hd ?o")
  have ne: "map snd grouped \<noteq> []" using assms(2) by simp
  have inm: "(p, c, a) \<in> snd ` set grouped" and minm: "\<forall>m \<in> snd ` set grouped. primary_key (p, c, a) \<le> primary_key m"
    using hd_sort_key_min(1)[OF ne, where key = primary_key] hd_sort_key_min(2)[OF ne, where key = primary_key] unfolding h by auto
  have mo: "mset (sort (map g ?o)) = mset (map (g \<circ> snd) grouped)" for g :: "family_member \<Rightarrow> string"
    by (simp add: image_mset.compositionality comp_def)
  have "family_ok F" "ff_primary F = finding_id p" "ff_verdict F = fd_verdict p" "ff_amplification F = a"
    "ff_reachability F = str_of (field_of (fst (hd grouped)) ''reachability_status'')"
    "ff_priority F = family_priority (fd_verdict p) (str_of (field_of (fst (hd grouped)) ''reachability_status'')) a"
    "ff_findings F = sort (map (finding_id \<circ> fst) ?o)" "ff_certificates F = sort (map (certificate_id \<circ> fst \<circ> snd) ?o)"
    using assms(1)[unfolded family_of_group_def Let_def h prod.case FindingFamily_Inr] by (auto simp: map_JStr_inj)
  then show ?thesis using inm minm mo[of "finding_id \<circ> fst"] mo[of "certificate_id \<circ> fst \<circ> snd"]
    by (intro exI[of _ p] exI[of _ c] exI[of _ a]) (simp add: comp_assoc)
qed

section \<open>The report\<close>

lemma build_Inr:
  assumes "build_finding_families findings certificates entries reachability amplification = Inr fs"
  obtains ms hs where "map_res (family_member (index_by certificate_id certificates) entries reachability amplification) findings = Inr ms"
    "map_res family_of_group (map snd (groups_by (group_key \<circ> fst) ms)) = Inr hs" "fs = sort_key family_id hs"
    "distinct (map finding_id findings)" "distinct (map certificate_id certificates)"
    "set (map fd_certificate_id findings) = set (map certificate_id certificates)"
  using assms unfolding build_finding_families_def Let_def groups_by_def
  by (auto simp: res_bind_Inr_iff comp_def split: if_split_asm)

lemma members_of_findings:
  assumes "map_res (family_member certs entries reachability amplification) findings = Inr ms"
  shows "map (fst \<circ> snd) ms = findings" "\<And>m. m \<in> set ms \<Longrightarrow> family_member certs entries reachability amplification (fst (snd m)) = Inr m"
proof -
  have rel: "list_all2 (\<lambda>f m. family_member certs entries reachability amplification f = Inr m) findings ms"
    by (rule map_res_Inr_D[OF assms])
  have one: "family_member certs entries reachability amplification f = Inr m \<Longrightarrow> fst (snd m) = f" for f m
    using family_member_Inr[of certs entries reachability amplification f "fst m" "snd m"] by auto
  show "map (fst \<circ> snd) ms = findings" using rel one by (induction rule: list_all2_induct) auto
  show "family_member certs entries reachability amplification (fst (snd m)) = Inr m" if m: "m \<in> set ms" for m
  proof -
    obtain i where i: "i < length ms" "m = ms ! i" using m by (auto simp: in_set_conv_nth)
    then have f: "family_member certs entries reachability amplification (findings ! i) = Inr m"
      using rel by (auto simp: list_all2_conv_all_nth)
    show ?thesis using f one[OF f] by simp
  qed
qed

lemma grouped_families:
  assumes "map_res family_of_group (map snd (groups_by key ms)) = Inr hs"
  shows "mset (concat (map ff_findings hs)) = mset (map (finding_id \<circ> fst \<circ> snd) ms)"
    "mset (concat (map ff_certificates hs)) = mset (map (certificate_id \<circ> fst \<circ> snd \<circ> snd) ms)"
    "\<And>F. F \<in> set hs \<Longrightarrow> \<exists>k ys. (k, ys) \<in> set (groups_by key ms) \<and> family_of_group ys = Inr F"
proof -
  let ?gs = "groups_by key ms"
  have rel: "list_all2 (\<lambda>ys F. family_of_group ys = Inr F) (map snd ?gs) hs" by (rule map_res_Inr_D[OF assms])
  have ne: "\<forall>ys \<in> set (map snd ?gs). ys \<noteq> []" using groups_byD(1)[of _ _ key ms] by auto
  have part: "mset (concat (map snd ?gs)) = mset ms" using groups_by_grouping[of key ms] by (simp add: grouping_def)
  have "mset (concat (map ff_findings hs)) = mset (concat (map (map (finding_id \<circ> fst \<circ> snd)) gs))
      \<and> mset (concat (map ff_certificates hs)) = mset (concat (map (map (certificate_id \<circ> fst \<circ> snd \<circ> snd)) gs))"
    if "list_all2 (\<lambda>ys F. family_of_group ys = Inr F) gs hs" "\<forall>ys \<in> set gs. ys \<noteq> []" for gs
    using that
  proof (induction rule: list_all2_induct)
    case (Cons ys gs F hs)
    have ys: "ys \<noteq> []" and gs: "\<forall>ys \<in> set gs. ys \<noteq> []" using Cons.prems by auto
    have "mset (ff_findings F) = mset (map (finding_id \<circ> fst \<circ> snd) ys)"
      "mset (ff_certificates F) = mset (map (certificate_id \<circ> fst \<circ> snd \<circ> snd) ys)"
      using family_of_group_Inr[OF Cons.hyps(1) ys] by blast+
    then show ?case using Cons.IH[OF gs] by (simp only: list.map concat.simps mset_append)
  qed simp
  from this[OF rel ne]
  have "mset (concat (map ff_findings hs)) = mset (map (finding_id \<circ> fst \<circ> snd) (concat (map snd ?gs)))"
    "mset (concat (map ff_certificates hs)) = mset (map (certificate_id \<circ> fst \<circ> snd \<circ> snd) (concat (map snd ?gs)))"
    by (simp_all add: map_concat comp_def)
  then show "mset (concat (map ff_findings hs)) = mset (map (finding_id \<circ> fst \<circ> snd) ms)"
    "mset (concat (map ff_certificates hs)) = mset (map (certificate_id \<circ> fst \<circ> snd \<circ> snd) ms)"
    unfolding mset_map part by simp_all
  show "\<exists>k ys. (k, ys) \<in> set ?gs \<and> family_of_group ys = Inr F" if F: "F \<in> set hs" for F
  proof -
    obtain i where i: "i < length hs" "F = hs ! i" using F by (auto simp: in_set_conv_nth)
    then have l: "i < length ?gs" and f: "family_of_group (snd (?gs ! i)) = Inr F"
      using rel by (auto simp: list_all2_conv_all_nth)
    have "(fst (?gs ! i), snd (?gs ! i)) \<in> set ?gs" using l by simp
    then show ?thesis using f by blast
  qed
qed

text \<open>What a family says of its primary finding.\<close>

definition primary_family :: "static_finding list \<Rightarrow> (string \<times> string \<rightharpoonup> string) \<Rightarrow> finding_family \<Rightarrow> bool" where
  "primary_family findings amplification F \<longleftrightarrow>
     (\<exists>p \<in> set findings. finding_id p = ff_primary F \<and> fd_verdict p = ff_verdict F \<and> pair_class amplification p = ff_amplification F)
     \<and> ff_priority F = family_priority (ff_verdict F) (ff_reachability F) (ff_amplification F)"


text \<open>The identities under which findings are grouped have different identifiers.\<close>

definition identities :: "static_finding list \<Rightarrow> certificate list \<Rightarrow> (string \<rightharpoonup> entry_fact) \<Rightarrow> (string \<rightharpoonup> reachability_decision)
    \<Rightarrow> (string \<times> string \<rightharpoonup> string) \<Rightarrow> (string \<times> json) list set" where
  "identities findings certificates entries reachability amplification =
     {i. \<exists>f \<in> set findings. \<exists>m. family_member (index_by certificate_id certificates) entries reachability amplification f = Inr (i, m)}"

text \<open>C33. The members of a family share its verdict and reachability, whatever the amplification of the others, as long as
  the identifiers of their groups do not collide: so each member of a \<open>P0\<close> family is a vulnerable finding of
  an entry that an ordinary attacker reaches.\<close>

theorem families_uniform:
  assumes "build_finding_families findings certificates entries reachability amplification = Inr fs"
    and "inj_on group_key (identities findings certificates entries reachability amplification)"
    and "F \<in> set fs" "f \<in> set findings" "finding_id f \<in> set (ff_findings F)"
  shows "fd_verdict f = ff_verdict F
    \<and> (\<exists>entry. entries (fd_entry_id f) = Some entry \<and> reach_status reachability (entry_id entry) = ff_reachability F)
    \<and> (ff_priority F = ''P0'' \<longrightarrow> fd_verdict f = ''static_vulnerable'' \<and> ff_reachability F = ''ordinary_attacker_reachable'')"
proof -
  obtain ms hs where ms: "map_res (family_member (index_by certificate_id certificates) entries reachability amplification) findings = Inr ms"
    and hs: "map_res family_of_group (map snd (groups_by (group_key \<circ> fst) ms)) = Inr hs" and fs: "fs = sort_key family_id hs"
    and dist: "distinct (map finding_id findings)"
    by (rule build_Inr[OF assms(1)])
  note mem = members_of_findings[OF ms]
  have ids: "fst m \<in> identities findings certificates entries reachability amplification" if "m \<in> set ms" for m
  proof -
    have f: "fst (snd m) \<in> set findings" using that mem(1) by force
    have "family_member (index_by certificate_id certificates) entries reachability amplification (fst (snd m)) = Inr (fst m, snd m)"
      using mem(2)[OF that] by simp
    then show ?thesis unfolding identities_def using f by blast
  qed
  have field_of_member: "field_of (fst m) ''verdict'' = JStr (fd_verdict (fst (snd m)))
      \<and> (\<exists>entry. entries (fd_entry_id (fst (snd m))) = Some entry
        \<and> field_of (fst m) ''reachability_status'' = JStr (reach_status reachability (entry_id entry)))" if "m \<in> set ms" for m
  proof -
    have "family_member (index_by certificate_id certificates) entries reachability amplification (fst (snd m)) = Inr (fst m, snd m)"
      using mem(2)[OF that] by simp
    from family_member_Inr[OF this] show ?thesis by blast
  qed
  have F: "F \<in> set hs" using assms(3) fs by simp
  obtain k ys where k: "(k, ys) \<in> set (groups_by (group_key \<circ> fst) ms)" "family_of_group ys = Inr F"
    using grouped_families(3)[OF hs F] by blast
  note g = groups_byD[OF k(1)]
  obtain p c a where p: "(p, c, a) \<in> snd ` set ys" "ff_verdict F = fd_verdict p"
    "ff_reachability F = str_of (field_of (fst (hd ys)) ''reachability_status'')"
    "ff_priority F = family_priority (ff_verdict F) (ff_reachability F) (ff_amplification F)"
    "mset (ff_findings F) = mset (map (finding_id \<circ> fst \<circ> snd) ys)"
    using family_of_group_Inr[OF k(2) g(1)] by blast
  have same: "fst m = fst (hd ys)" if "m \<in> set ys" for m
  proof -
    have "group_key (fst m) = group_key (fst (hd ys))" using g(2)[OF that] g(2)[OF hd_in_set[OF g(1)]] by simp
    moreover have "m \<in> set ms" "hd ys \<in> set ms" using that g(1,3) by auto
    ultimately show ?thesis using assms(2) ids by (meson inj_onD)
  qed
  have "finding_id f \<in> set (map (finding_id \<circ> fst \<circ> snd) ys)" using assms(5) p(5) by (metis set_mset_mset)
  then obtain m where m: "m \<in> set ys" "finding_id (fst (snd m)) = finding_id f" by auto
  have "fst (snd m) \<in> set findings" using m(1) g(3) mem(1) by force
  then have fm: "fst (snd m) = f" using m(2) assms(4) dist by (meson distinct_map inj_onD)
  have mm: "m \<in> set ms" using m(1) g(3) by blast
  obtain q where q: "q \<in> set ys" "snd q = (p, c, a)" using p(1) by auto
  have qq: "fst (snd q) = p" "q \<in> set ms" using q g(3) by auto
  have field: "field_of (fst (hd ys)) ''verdict'' = JStr (fd_verdict f)"
    "\<exists>entry. entries (fd_entry_id f) = Some entry \<and> field_of (fst (hd ys)) ''reachability_status'' = JStr (reach_status reachability (entry_id entry))"
    using field_of_member[OF mm] unfolding fm same[OF m(1)] by blast+
  have "field_of (fst (hd ys)) ''verdict'' = JStr (fd_verdict p)"
    using field_of_member[OF qq(2)] unfolding qq(1) same[OF q(1)] by blast
  then have v: "fd_verdict f = ff_verdict F" using field(1) p(2) by simp
  have "ff_priority F = ''P0'' \<longrightarrow> ff_verdict F = ''static_vulnerable'' \<and> ff_reachability F = ''ordinary_attacker_reachable''"
    unfolding p(4) family_priority_def by (simp split: if_splits)
  then show ?thesis using v field(2) p(3) by auto
qed

section \<open>A report of one finding\<close>

definition single_certificate :: certificate where
  "single_certificate = \<lparr>certificate_id = ''certificate:1'', ct_entry_id = ''entry:1'', ct_growth_id = ''verified_growth:1'',
     ct_inputs = [], ct_resource_point = JObj [(''resource_id'', JStr ''resource:1'')], ct_path_ids = [''flow:1''],
     ct_guard = JNull, ct_bound = JNull, ct_release = JNull, ct_assertions = [], ct_verdict = ''static_unknown'',
     ct_reasons = [''R''], ct_assumptions = [], ct_gaps = [], ct_unresolved = [], ct_follow_ups = []\<rparr>"

definition single_finding :: static_finding where
  "single_finding = \<lparr>finding_id = ''finding:1'', fd_certificate_id = ''certificate:1'', fd_entry_id = ''entry:1'',
     fd_growth_id = ''verified_growth:1'', fd_verdict = ''static_unknown'', fd_reasons = [''R'']\<rparr>"

definition single_family :: finding_family where
  "single_family = (let f = \<lparr>family_id = [], ff_verdict = ''static_unknown'', ff_priority = ''P2'', ff_primary = ''finding:1'',
       ff_findings = [''finding:1''], ff_certificates = [''certificate:1''], ff_entries = [''entry:1''],
       ff_growths = [''verified_growth:1''], ff_resource = ''resource:1'', ff_reachability = ''unknown'',
       ff_amplification = ''unknown'', ff_reasons = [''R'']\<rparr>
     in f\<lparr>family_id := stable_identifier ''family'' (JObj (family_identity f))\<rparr>)"

lemma single_family_ok: "family_ok single_family"
  by (simp add: family_ok_def single_family_def Let_def family_identity_def family_verdicts_def family_priorities_def
      family_reachability_def family_amplification_def good_strings_def startswith_def)

lemma single_member:
  "\<exists>i. family_member (index_by certificate_id [single_certificate]) [''entry:1'' \<mapsto> sample_entry] Map.empty Map.empty
      single_finding = Inr (i, single_finding, single_certificate, ''unknown'')
    \<and> field_of i ''reachability_status'' = JStr ''unknown'' \<and> field_of i ''resource_id'' = JStr ''resource:1''"
  by (simp add: family_member_def index_by_def item_def single_finding_def single_certificate_def sample_entry_def Let_def
      prefixed_def is_text_def get_def members_def field_of_def is_mapping_def startswith_def family_amplification_def
      registration_identity_def)

lemma usort_single [simp]: "usort [x] = [x]"
  by (simp add: usort_def)

lemma single_report:
  "build_finding_families [single_finding] [single_certificate] [''entry:1'' \<mapsto> sample_entry] Map.empty Map.empty = Inr [single_family]"
proof -
  obtain i where i: "family_member (index_by certificate_id [single_certificate]) [''entry:1'' \<mapsto> sample_entry] Map.empty Map.empty
      single_finding = Inr (i, single_finding, single_certificate, ''unknown'')"
    "field_of i ''reachability_status'' = JStr ''unknown''" "field_of i ''resource_id'' = JStr ''resource:1''"
    using single_member by blast
  have "family_of_group [(i, single_finding, single_certificate, ''unknown'')] = Inr single_family"
    unfolding family_of_group_def Let_def using single_family_ok i
    by (simp add: FindingFamily_Inr single_family_def Let_def single_finding_def single_certificate_def family_priority_def
        family_identity_def)
  then show ?thesis using i(1)
    by (simp add: build_finding_families_def) (simp add: single_finding_def single_certificate_def)
qed


theorem families_uniform_witness: "fd_verdict single_finding = ff_verdict single_family"
proof -
  have "inj_on group_key (identities [single_finding] [single_certificate] [''entry:1'' \<mapsto> sample_entry] Map.empty Map.empty)"
    using single_member by (auto simp: identities_def inj_on_def)
  from families_uniform[OF single_report this, of single_family single_finding] show ?thesis
    by (simp add: single_family_def single_finding_def Let_def)
qed

theorem family_record_roundtrip_witness:
  "family_from_dict (family_to_dict single_family) = Inr single_family"
  using family_record_roundtrip[of single_family] single_family_ok by blast

end
