(* ===== verification/ContractLaws.thy ===== *)
theory ContractLaws
  imports Contracts
begin

text \<open>
  What an accepted contract says is harmless text, and what it claims of the program is what the slice says.
\<close>

section \<open>Matches of the patterns\<close>

lemma match_ci_iff: "rx_matches (rx_fold c) w u v \<longleftrightarrow> (\<exists>x. u = [x] \<and> lower_char x = lower_char c)"
  by (auto simp: rx_fold_def intro: match_Cls elim: match_ClsE)

lemma match_word: "lower u = lower s \<Longrightarrow> rx_matches (rx_word s) w u v"
proof (induction s arbitrary: w u rule: rx_word.induct)
  case 1
  then show ?case by (simp add: lower_def match_Eps)
next
  case (2 c)
  then show ?case by (auto simp: lower_def match_ci_iff map_eq_Cons_conv)
next
  case (3 c d s)
  obtain x t where u: "u = x # t" "lower_char x = lower_char c" "lower t = lower (d # s)"
    using "3.prems" by (auto simp: lower_def map_eq_Cons_conv)
  have "rx_matches (rx_fold c) w [x] (t @ v)" using u(2) by (simp add: match_ci_iff)
  moreover have "rx_matches (rx_word (d # s)) (word_after w [x]) t v" by (rule "3.IH"[OF u(3)])
  ultimately have "rx_matches (Cat (rx_fold c) (rx_word (d # s))) w ([x] @ t) v" by (rule match_Cat)
  then show ?case by (simp add: u(1))
qed

lemma match_blanks: "list_all is_blank u \<Longrightarrow> rx_matches rx_blanks w u v"
proof (induction u arbitrary: w)
  case Nil
  show ?case by (simp add: rx_blanks_def match_Stop)
next
  case (Cons c u)
  then have "rx_matches rx_blanks (word_after w [c]) u v" by simp
  then have "rx_matches (Rep (Cls is_blank)) (word_after w [c]) u v" by (simp add: rx_blanks_def)
  moreover have "rx_matches (Cls is_blank) w [c] (u @ v)" using Cons.prems by (auto intro: match_Cls)
  ultimately have "rx_matches (Rep (Cls is_blank)) w ([c] @ u) v" by (intro match_Round) simp_all
  then show ?case by (simp add: rx_blanks_def)
qed

lemma match_one_of: "c \<in> set cs \<Longrightarrow> rx_matches (one_of cs) w [c] v"
  by (auto simp: one_of_def intro: match_Cls)

lemma match_choice: "r \<in> set rs \<Longrightarrow> rx_matches r w u v \<Longrightarrow> rx_matches (rx_choice rs) w u v"
  by (induction rs rule: rx_choice.induct) (auto intro: match_Left match_Right)

lemma match_opt: "u = [] \<or> rx_matches r w u v \<Longrightarrow> rx_matches (rx_opt r) w u v"
  by (auto simp: rx_opt_def intro: match_Left match_Right match_Eps)

lemma match_assignment:
  assumes "rx_matches label w l (b @ [c] @ v)" "list_all is_blank b" "c \<in> set '':=''"
  shows "rx_matches (rx_seq [label, rx_blanks, one_of '':='']) w (l @ b @ [c]) v"
proof -
  have "rx_matches rx_blanks (word_after w l) b ([c] @ v)" by (rule match_blanks[OF assms(2)])
  moreover have "rx_matches (one_of '':='') (word_after (word_after w l) b) [c] v" by (rule match_one_of[OF assms(3)])
  ultimately have "rx_matches (Cat rx_blanks (one_of '':='')) (word_after w l) (b @ [c]) v" by (rule match_Cat)
  then have "rx_matches (Cat label (Cat rx_blanks (one_of '':=''))) w (l @ (b @ [c])) v"
    using assms(1) by (intro match_Cat[of label w l "b @ [c]" v]) simp_all
  then show ?thesis by simp
qed

lemma lower_append: "lower (a @ b) = lower a @ lower b"
  by (simp add: lower_def)

lemma lower_split: "lower l = a @ b \<Longrightarrow> \<exists>u v. l = u @ v \<and> lower u = a \<and> lower v = b"
  by (auto simp: lower_def map_eq_append_conv)

lemma lower_char_fixed:
  assumes "lower_char x = c" "\<not> (97 \<le> (of_char c :: nat) \<and> (of_char c :: nat) \<le> 122)"
  shows "x = c"
proof (cases "65 \<le> (of_char x :: nat) \<and> (of_char x :: nat) \<le> 90")
  case True
  then have "c = char_of ((of_char x :: nat) + 32)" using assms(1) by (simp add: lower_char_def)
  then have "(of_char c :: nat) = of_char x + 32" using True by simp
  then show ?thesis using assms(2) True by simp
qed (use assms(1) in \<open>auto simp: lower_char_def Let_def\<close>)

lemma match_credential_label:
  assumes "lower l \<in> set credential_labels"
  shows "rx_matches credential_label w l v"
proof -
  have api: "rx_matches (rx_seq [rx_word ''api'', rx_opt (one_of ''_-''), rx_word ''key'']) w l v"
    if m: "lower l = ''api'' @ m @ ''key''" "m \<in> {[], ''_'', ''-''}" for m
  proof -
    have keep: "set m \<subseteq> set ''_-''" using m(2) by auto
    have low: "x = c" if "lower_char x = c" "c \<in> set ''_-''" for x c
      using lower_char_fixed[OF that(1)] that(2) by auto
    obtain a k where l: "l = a @ k" "lower a = ''api''" "lower k = m @ ''key''"
      using lower_split[OF m(1)] by blast
    obtain m' k' where k: "k = m' @ k'" "lower m' = m" "lower k' = ''key''"
      using lower_split[OF l(3)] by blast
    have "m' = [] \<or> (\<exists>c. m' = [c] \<and> c \<in> set ''_-'')"
      using k(2) m(2) low by (auto simp: lower_def)
    then have "rx_matches (rx_opt (one_of ''_-'')) (word_after w a) m' (k' @ v)"
      by (intro match_opt) (auto intro: match_one_of)
    moreover have "rx_matches (rx_word ''key'') (word_after (word_after w a) m') k' v"
      by (rule match_word) (subst k(3), simp add: lower_def lower_char_def)
    ultimately have "rx_matches (Cat (rx_opt (one_of ''_-'')) (rx_word ''key'')) (word_after w a) (m' @ k') v"
      by (rule match_Cat)
    note rest = this
    have "rx_matches (rx_word ''api'') w a ((m' @ k') @ v)"
      by (rule match_word) (subst l(2), simp add: lower_def lower_char_def)
    from match_Cat[OF this rest]
    have "rx_matches (Cat (rx_word ''api'') (Cat (rx_opt (one_of ''_-'')) (rx_word ''key''))) w (a @ (m' @ k')) v" .
    then show ?thesis by (simp add: l(1) k(1))
  qed
  have plain: "rx_matches credential_label w l v" if "lower l = lower x" "x \<in> {''password'', ''passwd'', ''secret'', ''token''}" for x
    unfolding credential_label_def using that by (intro match_choice[of "rx_word x"] match_word) auto
  have low: "lower x = x" if "x \<in> set credential_labels" for x
    using that by (auto simp: credential_labels_def lower_def lower_char_def)
  consider m where "lower l = ''api'' @ m @ ''key''" "m \<in> {[], ''_'', ''-''}"
    | x where "lower l = x" "x \<in> {''password'', ''passwd'', ''secret'', ''token''}"
    using assms by (fastforce simp: credential_labels_def)
  then show ?thesis
  proof cases
    case 1
    then show ?thesis unfolding credential_label_def using api by (intro match_choice) auto
  next
    case 2
    then show ?thesis using plain[of x] low[of x] by (auto simp: credential_labels_def)
  qed
qed

text \<open>Text without braces, lines and assignments of credentials.\<close>

definition harmless :: "string \<Rightarrow> bool" where
  "harmless s \<longleftrightarrow> s \<noteq> [] \<and> length s \<le> 4096
     \<and> set s \<inter> {CHR 0x00, CHR 0x0A, CHR 0x0D, CHR ''{'', CHR ''}'', CHR '';''} = {}
     \<and> \<not> (\<exists>a l b c v. s = a @ l @ b @ [c] @ v \<and> lower l \<in> set (''authorization'' # credential_labels)
          \<and> list_all is_blank b \<and> c \<in> set '':='')"

lemma contract_text_harmless:
  assumes "contract_text_ok s"
  shows "harmless s"
proof -
  have ne: "secret_patterns \<noteq> []" "source_patterns \<noteq> []" by (simp_all add: secret_patterns_def source_patterns_def)
  have no: "\<not> rx_search (rx_choice secret_patterns) s" "\<not> rx_search (rx_choice source_patterns) s"
    using assms by (simp_all add: contract_text_ok_def contract_secret_def contract_source_def)
  have secret: "\<not> rx_search r s" if "r \<in> set secret_patterns" for r
    using no(1) that unfolding search_choice[OF ne(1)] by blast
  have "one_of ''{};'' \<in> set source_patterns" by (simp add: source_patterns_def)
  then have "\<not> rx_search (one_of ''{};'') s" using no(2) unfolding search_choice[OF ne(2)] by blast
  then have braces: "set s \<inter> {CHR ''{'', CHR ''}'', CHR '';''} = {}" by (auto simp: search_one_of)
  have "False" if s: "s = a @ l @ b @ [c] @ v" "lower l \<in> set (''authorization'' # credential_labels)" "list_all is_blank b"
    "c \<in> set '':=''" for a l b c v
  proof -
    let ?w = "word_after False a"
    have s': "s = a @ (l @ b @ [c]) @ v" using s(1) by simp
    have "rx_matches (rx_word ''authorization'') ?w l (b @ [c] @ v) \<or> rx_matches credential_label ?w l (b @ [c] @ v)"
    proof (cases "lower l = ''authorization''")
      case True
      then have "lower l = lower ''authorization''" by (simp add: lower_def lower_char_def)
      then show ?thesis using match_word by blast
    next
      case False
      then show ?thesis using s(2) match_credential_label by simp
    qed
    then have "\<exists>r \<in> set secret_patterns. rx_matches r ?w (l @ b @ [c]) v"
    proof
      assume "rx_matches (rx_word ''authorization'') ?w l (b @ [c] @ v)"
      from match_assignment[OF this s(3,4)] show ?thesis unfolding secret_patterns_def by simp
    next
      assume "rx_matches credential_label ?w l (b @ [c] @ v)"
      from match_assignment[OF this s(3,4)] show ?thesis unfolding secret_patterns_def by simp
    qed
    then show False using secret s' unfolding search_iff by blast
  qed
  then have "\<not> (\<exists>a l b c v. s = a @ l @ b @ [c] @ v \<and> lower l \<in> set (''authorization'' # credential_labels)
      \<and> list_all is_blank b \<and> c \<in> set '':='')" by blast
  moreover have "s \<noteq> []" "length s \<le> 4096" "set s \<inter> {CHR 0x00, CHR 0x0A, CHR 0x0D, CHR ''{'', CHR ''}'', CHR '';''} = {}"
    using assms braces by (auto simp: contract_text_ok_def contract_text_bytes_def)
  ultimately show ?thesis unfolding harmless_def by blast
qed

section \<open>Accepted contracts\<close>

lemma GrowthContract_Inr: "GrowthContract c = Inr c' \<longleftrightarrow> c' = c \<and> GrowthContract c = Inr c"
  by (auto simp: GrowthContract_def)

definition accepted_contract :: "growth_contract \<Rightarrow> bool" where
  "accepted_contract c \<longleftrightarrow> gc_is_resource_growth c \<in> set contract_growth_values \<and> gc_growth_kind c \<in> set contract_kind_values
     \<and> gc_resource_dimension c \<in> set contract_dimension_values \<and> gc_resource_effect c \<in> set resource_effect_values
     \<and> gc_attacker_value_space c \<in> set value_space_values \<and> gc_amplification_class c \<in> set contract_amplification_values
     \<and> gc_requests_to_pressure c \<in> set request_pressure_values \<and> gc_retention_window c \<in> set retention_values
     \<and> gc_failure_mechanism c \<in> set failure_values \<and> gc_contract_status c \<in> set contract_status_values
     \<and> gc_rejection_reason c \<in> set rejection_values \<and> gc_confidence c \<in> set confidence_values
     \<and> length (gc_attacker_influence c) \<le> 16 \<and> length (gc_required_static_evidence c) \<le> 32
     \<and> list_all (\<lambda>i. is_id i ''fact:'') (gc_required_static_evidence c) \<and> list_all contract_text_ok (contract_texts c)
     \<and> contract_status_ok (gc_contract_status c) (gc_rejection_reason c) (gc_is_resource_growth c)"

lemma GrowthContract_ok: "GrowthContract c = Inr c \<longleftrightarrow> accepted_contract c"
proof -
  have "GrowthContract c = (if \<not> accepted_contract c then Inl (contract_invalid ''Invalid Growth Contract.'') else Inr c)"
    by (simp only: GrowthContract_def accepted_contract_def de_Morgan_conj not_le)
  then show ?thesis by simp
qed

text \<open>C20. The free text of an accepted contract is harmless: it has neither braces nor semicolons, line ends or NUL,
  and nowhere a credential label, in any case, that blanks and a colon or an equals sign follow.\<close>

theorem contract_text_safe:
  assumes "GrowthContract c = Inr c'" "s \<in> set (contract_texts c')"
  shows "harmless s"
proof -
  have "list_all contract_text_ok (contract_texts c')"
    using assms(1) by (auto simp: GrowthContract_def split: if_splits)
  then show ?thesis using assms(2) contract_text_harmless by (auto simp: list_all_iff)
qed

section \<open>Binding\<close>

lemma AttackerInfluence_Inr:
  "AttackerInfluence i = Inr i' \<longleftrightarrow> i' = i \<and> ai_target i \<in> set influence_targets \<and> is_id (ai_evidence_id i) ''fact:''"
  by (auto simp: AttackerInfluence_def)

lemma fact_values_sub: "f \<in> set (fact_values facts) \<Longrightarrow> f \<in> set facts"
  by (simp add: fact_values_def)

lemma fact_values_index: "f \<in> set (fact_values facts) \<longleftrightarrow> index_by fact_id facts (fact_id f) = Some f"
  using index_by_Some[of fact_id facts] by (auto simp: fact_values_def)

text \<open>What a slice states of an evidence: one target, and a flow that starts in or carries attacker input.\<close>

definition states_target :: "static_fact list \<Rightarrow> string \<Rightarrow> string \<Rightarrow> bool" where
  "states_target facts e target \<longleftrightarrow>
     (\<exists>f \<in> set (fact_values facts). static_fact.sf_kind f = ''attacker_target'' \<and> sf_value_ref f = Some e \<and> static_fact.sf_value f = Some target)"

definition carries_input :: "static_fact \<Rightarrow> bool" where
  "carries_input f \<longleftrightarrow> static_fact.sf_kind f \<in> {''flow'', ''driver_origin''} \<and> sf_relation f \<in> {''source'', ''flows_to''}"

definition sink_of :: "static_fact list \<Rightarrow> string \<times> string \<Rightarrow> bool" where
  "sink_of facts shape \<longleftrightarrow>
     (\<exists>f \<in> set (fact_values facts). sf_relation f = ''sink'' \<and> map_of sink_shape (static_fact.sf_kind f) = Some shape)"

text \<open>A contract that says of the program only what the slice says.\<close>

definition grounded :: "static_fact list \<Rightarrow> growth_contract \<Rightarrow> bool" where
  "grounded facts c \<longleftrightarrow>
     (\<forall>shape. sink_of facts shape \<longleftrightarrow> shape = (gc_growth_kind c, gc_resource_dimension c))
     \<and> list_all (\<lambda>i. (\<forall>target. states_target facts (ai_evidence_id i) target \<longleftrightarrow> target = ai_target i)
          \<and> (\<exists>f. index_by fact_id facts (ai_evidence_id i) = Some f \<and> carries_input f)) (gc_attacker_influence c)
     \<and> list_all (\<lambda>i. i \<in> set (map fact_id facts)) (gc_required_static_evidence c)"

lemma remdups_single_iff: "remdups xs = [x] \<longleftrightarrow> set xs = {x}"
  using distinct_singleton_list[of "remdups xs" x] by (metis distinct_remdups empty_set list.simps(15) set_remdups)

lemma slice_shapes_single:
  assumes "slice_shapes facts = [(kind, dimension)]"
  shows "sink_of facts shape \<longleftrightarrow> shape = (kind, dimension)"
proof -
  have "set (slice_shapes facts) = {(kind, dimension)}" unfolding assms by simp
  moreover have "shape \<in> set (slice_shapes facts) \<longleftrightarrow> sink_of facts shape"
    by (auto simp: slice_shapes_def sink_of_def set_map_filter_iff split: if_splits)
  ultimately show ?thesis by blast
qed

lemma set_influence_target: "target \<in> set (influence_target facts e) \<longleftrightarrow> states_target facts e target"
  by (auto simp: influence_target_def states_target_def set_map_filter_iff split: if_splits)

lemma bind_influence_Inr:
  assumes "bind_influence facts e = Inr i"
  shows "ai_evidence_id i = e \<and> AttackerInfluence i = Inr i \<and> (\<forall>target. states_target facts e target \<longleftrightarrow> target = ai_target i)
    \<and> (\<exists>f. index_by fact_id facts e = Some f \<and> carries_input f)"
proof -
  obtain target f where t: "influence_target facts e = [target]" "index_by fact_id facts e = Some f" "carries_input f"
    "AttackerInfluence \<lparr>ai_target = target, ai_evidence_id = e\<rparr> = Inr i"
    using assms by (auto simp: bind_influence_def carries_input_def split: list.splits option.splits if_splits)
  have i: "i = \<lparr>ai_target = target, ai_evidence_id = e\<rparr>" "AttackerInfluence i = Inr i"
    using t(4) by (auto simp: AttackerInfluence_Inr)
  have "states_target facts e x \<longleftrightarrow> x = target" for x
    unfolding set_influence_target[symmetric] t(1) by auto
  then show ?thesis using t i by simp
qed

text \<open>The fields of a contract that are the provider's to say.\<close>

definition as_provided :: "provider_contract \<Rightarrow> growth_contract \<Rightarrow> bool" where
  "as_provided p c \<longleftrightarrow> gc_is_resource_growth c = pc_is_resource_growth p \<and> gc_resource_effect c = pc_resource_effect p
     \<and> contract_texts c = [pc_attacker_variable p, pc_growth_unit p, pc_growth_function p, pc_concurrency_model p, pc_failure_signal p]
     \<and> gc_attacker_value_space c = pc_attacker_value_space p \<and> gc_amplification_class c = pc_amplification_class p
     \<and> gc_requests_to_pressure c = pc_requests_to_pressure p \<and> gc_retention_window c = pc_retention_window p
     \<and> gc_failure_mechanism c = pc_failure_mechanism p \<and> gc_contract_status c = pc_contract_status p
     \<and> gc_rejection_reason c = pc_rejection_reason p \<and> gc_confidence c = pc_confidence p"

lemma bind_Inr:
  assumes "bind_provider_growth_contract p bounded aliases = Inr c"
  shows "grounded (sp_facts (slice_body bounded)) c \<and> as_provided p c \<and> GrowthContract c = Inr c
    \<and> list_all (\<lambda>i. AttackerInfluence i = Inr i) (gc_attacker_influence c)
    \<and> map_res (restore_alias aliases) (pc_attacker_evidence p) = Inr (map ai_evidence_id (gc_attacker_influence c))
    \<and> map_res (restore_alias aliases) (pc_required_static_evidence p) = Inr (gc_required_static_evidence c)"
proof -
  let ?facts = "sp_facts (slice_body bounded)"
  obtain attacker required where a: "map_res (restore_alias aliases) (pc_attacker_evidence p) = Inr attacker"
    "map_res (restore_alias aliases) (pc_required_static_evidence p) = Inr required"
    and n: "\<not> list_ex (\<lambda>i. index_by fact_id ?facts i = None) (attacker @ required)"
    using assms by (auto simp: bind_provider_growth_contract_def Let_def res_bind_Inr_iff split: if_split_asm)
  have known: "\<forall>i \<in> set (attacker @ required). index_by fact_id ?facts i \<noteq> None"
    using n by (auto simp: list_ex_iff)
  obtain kind dimension influences where s: "slice_shapes ?facts = [(kind, dimension)]"
    "map_res (bind_influence ?facts) attacker = Inr influences"
    and c: "GrowthContract \<lparr>gc_is_resource_growth = pc_is_resource_growth p, gc_growth_kind = kind, gc_resource_dimension = dimension,
              gc_attacker_influence = influences, gc_resource_effect = pc_resource_effect p,
              gc_attacker_variable = pc_attacker_variable p, gc_attacker_value_space = pc_attacker_value_space p,
              gc_growth_unit = pc_growth_unit p, gc_growth_function = pc_growth_function p,
              gc_amplification_class = pc_amplification_class p, gc_requests_to_pressure = pc_requests_to_pressure p,
              gc_concurrency_model = pc_concurrency_model p, gc_retention_window = pc_retention_window p,
              gc_failure_mechanism = pc_failure_mechanism p, gc_failure_signal = pc_failure_signal p,
              gc_required_static_evidence = required, gc_contract_status = pc_contract_status p,
              gc_rejection_reason = pc_rejection_reason p, gc_confidence = pc_confidence p\<rparr> = Inr c"
    using assms a by (auto simp: bind_provider_growth_contract_def Let_def res_bind_Inr_iff split: if_splits list.splits)
  note e = GrowthContract_Inr[THEN iffD1, OF c]
  then have ok: "GrowthContract c = Inr c" using c by simp
  have f: "as_provided p c" "gc_growth_kind c = kind" "gc_resource_dimension c = dimension" "gc_attacker_influence c = influences"
    "gc_required_static_evidence c = required"
    using e by (simp_all add: as_provided_def contract_texts_def)
  have rel: "list_all2 (\<lambda>e i. bind_influence ?facts e = Inr i) attacker influences" by (rule map_res_Inr_D[OF s(2)])
  then have ids: "attacker = map ai_evidence_id influences"
    by (induction rule: list_all2_induct) (auto dest: bind_influence_Inr)
  have "list_all (\<lambda>i. AttackerInfluence i = Inr i \<and> (\<forall>target. states_target ?facts (ai_evidence_id i) target \<longleftrightarrow> target = ai_target i)
      \<and> (\<exists>f. index_by fact_id ?facts (ai_evidence_id i) = Some f \<and> carries_input f)) influences"
    using rel by (induction rule: list_all2_induct) (auto dest: bind_influence_Inr)
  moreover have "list_all (\<lambda>i. i \<in> set (map fact_id ?facts)) required"
    using known dom_index_by[of fact_id ?facts] by (auto simp: list_all_iff dom_def)
  ultimately show ?thesis
    using slice_shapes_single[OF s(1)] f a ids ok by (auto simp: grounded_def list_all_iff)
qed

text \<open>C8. Whatever the language model answers, a contract bound to a slice says of the program only what the slice
  says: its kind and dimension are those of the only sink, each influence cites a flow of attacker input with
  the one target stated of it, all evidence is in the slice, so the later check against the facts of the slice
  accepts it; the rest is the answer, unchanged.\<close>

theorem contract_grounded:
  assumes "bind_provider_growth_contract p bounded aliases = Inr c"
  shows "grounded (sp_facts (slice_body bounded)) c \<and> as_provided p c
    \<and> validate_contract_static_evidence c (map fact_id (sp_facts (slice_body bounded))) = Inr c"
proof -
  note b = bind_Inr[OF assms]
  let ?ids = "map fact_id (sp_facts (slice_body bounded))"
  have "ai_evidence_id i \<in> set ?ids" if mem: "i \<in> set (gc_attacker_influence c)" for i
  proof -
    obtain f where "index_by fact_id (sp_facts (slice_body bounded)) (ai_evidence_id i) = Some f"
      using b mem unfolding grounded_def list_all_iff by blast
    note f = index_by_Some[OF this, THEN conjunct1] index_by_Some[OF this, THEN conjunct2, symmetric]
    show ?thesis unfolding f(2) using f(1) by simp
  qed
  then have "list_all (\<lambda>i. i \<in> set ?ids) (influence_ids c)" by (auto simp: influence_ids_def list_all_iff)
  then show ?thesis using b by (simp add: grounded_def validate_contract_static_evidence_def)
qed

section \<open>Records\<close>

lemma contract_enum_own [simp]:
  "get payload name = JStr s \<Longrightarrow> contract_enum payload name allowed = (if s \<in> set allowed then Inr s else Inl contract_schema_error)"
  by (simp add: contract_enum_def)

lemma contract_text_own:
  "get payload name = JStr s \<Longrightarrow> contract_text_ok s \<Longrightarrow> contract_text payload name = Inr s"
  by (simp add: contract_text_def contract_text_ok_def contract_text_bytes_def)

lemma is_id_short: "is_id s p \<Longrightarrow> length s \<le> 256"
  by (simp add: is_id_def)

lemma read_influence_own:
  "AttackerInfluence i = Inr i \<Longrightarrow> read_influence (influence_to_dict i) = Inr i"
  using is_id_short[of "ai_evidence_id i"]
  by (auto simp: read_influence_def influence_to_dict_def has_fields_def get_def members_def field_of_def AttackerInfluence_Inr)

lemma map_res_read_influence:
  "list_all (\<lambda>i. AttackerInfluence i = Inr i) is \<Longrightarrow> map_res read_influence (map influence_to_dict is) = Inr is"
  by (induction "is") (simp_all add: read_influence_own)

lemma evidence_list_own:
  "list_all (\<lambda>i. is_id i p) xs \<Longrightarrow> length xs \<le> limit \<Longrightarrow> evidence_list (JArr (map JStr xs)) limit = Inr xs"
  using is_id_short[of _ p] by (fastforce simp: evidence_list_def list_ex_iff list_all_iff is_str_def str_of_def comp_def)

text \<open>C37. An accepted contract is read back from its record unchanged.\<close>

theorem growth_contract_roundtrip:
  assumes "GrowthContract c = Inr c" "list_all (\<lambda>i. AttackerInfluence i = Inr i) (gc_attacker_influence c)"
  shows "validate_growth_contract (JObj (contract_to_dict c)) = Inr c"
proof -
  let ?v = "JObj (contract_to_dict c)"
  have fields: "has_fields ?v contract_keys" by (auto simp: has_fields_def contract_to_dict_def contract_keys_def)
  have g: "get ?v ''is_resource_growth'' = JStr (gc_is_resource_growth c)" "get ?v ''growth_kind'' = JStr (gc_growth_kind c)"
    "get ?v ''resource_dimension'' = JStr (gc_resource_dimension c)" "get ?v ''confidence'' = JStr (gc_confidence c)"
    "get ?v ''resource_effect'' = JStr (gc_resource_effect c)" "get ?v ''attacker_value_space'' = JStr (gc_attacker_value_space c)"
    "get ?v ''amplification_class'' = JStr (gc_amplification_class c)" "get ?v ''requests_to_pressure'' = JStr (gc_requests_to_pressure c)"
    "get ?v ''retention_window'' = JStr (gc_retention_window c)" "get ?v ''failure_mechanism'' = JStr (gc_failure_mechanism c)"
    "get ?v ''contract_status'' = JStr (gc_contract_status c)" "get ?v ''rejection_reason'' = JStr (gc_rejection_reason c)"
    "get ?v ''attacker_influence'' = JArr (map influence_to_dict (gc_attacker_influence c))"
    "get ?v ''required_static_evidence'' = JArr (map JStr (gc_required_static_evidence c))"
    and t: "get ?v ''attacker_variable'' = JStr (gc_attacker_variable c)" "get ?v ''growth_unit'' = JStr (gc_growth_unit c)"
    "get ?v ''growth_function'' = JStr (gc_growth_function c)" "get ?v ''concurrency_model'' = JStr (gc_concurrency_model c)"
    "get ?v ''failure_signal'' = JStr (gc_failure_signal c)"
    by (simp_all add: get_def members_def field_of_def contract_to_dict_def)
  have ok: "gc_is_resource_growth c \<in> set contract_growth_values" "gc_growth_kind c \<in> set contract_kind_values"
    "gc_resource_dimension c \<in> set contract_dimension_values" "gc_resource_effect c \<in> set resource_effect_values"
    "gc_attacker_value_space c \<in> set value_space_values" "gc_amplification_class c \<in> set contract_amplification_values"
    "gc_requests_to_pressure c \<in> set request_pressure_values" "gc_retention_window c \<in> set retention_values"
    "gc_failure_mechanism c \<in> set failure_values" "gc_contract_status c \<in> set contract_status_values"
    "gc_rejection_reason c \<in> set rejection_values" "gc_confidence c \<in> set confidence_values"
    "length (gc_attacker_influence c) \<le> 16" "length (gc_required_static_evidence c) \<le> 32"
    "list_all (\<lambda>i. is_id i ''fact:'') (gc_required_static_evidence c)" "list_all contract_text_ok (contract_texts c)"
    using assms(1) unfolding GrowthContract_ok accepted_contract_def by blast+
  have texts: "contract_text ?v ''attacker_variable'' = Inr (gc_attacker_variable c)" "contract_text ?v ''growth_unit'' = Inr (gc_growth_unit c)"
    "contract_text ?v ''growth_function'' = Inr (gc_growth_function c)" "contract_text ?v ''concurrency_model'' = Inr (gc_concurrency_model c)"
    "contract_text ?v ''failure_signal'' = Inr (gc_failure_signal c)"
    using ok(16) by (simp_all add: contract_text_own[OF t(1)] contract_text_own[OF t(2)] contract_text_own[OF t(3)]
        contract_text_own[OF t(4)] contract_text_own[OF t(5)] contract_texts_def)
  have i: "read_influences (get ?v ''attacker_influence'') = Inr (gc_attacker_influence c)"
    using ok(13) map_res_read_influence[OF assms(2)] by (simp add: g read_influences_def)
  have e: "evidence_list (get ?v ''required_static_evidence'') 32 = Inr (gc_required_static_evidence c)"
    unfolding g using ok(14,15) by (intro evidence_list_own) simp_all
  show ?thesis
    unfolding validate_growth_contract_def using fields ok(1-12) assms(1)
    by (simp only: contract_enum_own[OF g(1)] contract_enum_own[OF g(2)] contract_enum_own[OF g(3)] contract_enum_own[OF g(4)]
        contract_enum_own[OF g(5)] contract_enum_own[OF g(6)] contract_enum_own[OF g(7)] contract_enum_own[OF g(8)]
        contract_enum_own[OF g(9)] contract_enum_own[OF g(10)] contract_enum_own[OF g(11)] contract_enum_own[OF g(12)]
        texts i e res_bind_simps if_True not_True_eq_False if_False) (cases c, simp)
qed

section \<open>A contract that is accepted\<close>

definition brief_contract :: growth_contract where
  "brief_contract = sample_contract\<lparr>gc_attacker_variable := ''n'', gc_growth_unit := ''n'', gc_concurrency_model := ''n'',
     gc_failure_signal := ''n''\<rparr>"

lemma short_text: "contract_text_ok ''n''"
  by code_simp

lemma brief_contract_accepted: "GrowthContract brief_contract = Inr brief_contract"
  using short_text
  by (simp add: GrowthContract_def contract_texts_def brief_contract_def sample_contract_def contract_growth_values_def contract_kind_values_def
      contract_dimension_values_def resource_effect_values_def value_space_values_def contract_amplification_values_def
      request_pressure_values_def retention_values_def failure_values_def contract_status_values_def rejection_values_def
      confidence_values_def contract_status_ok_def) code_simp

theorem contract_text_safe_witness: "harmless ''n''"
  by (rule contract_text_safe[OF brief_contract_accepted]) (simp add: contract_texts_def brief_contract_def)

lemma sample_influence: "list_all (\<lambda>i. AttackerInfluence i = Inr i) (gc_attacker_influence brief_contract)"
  by code_simp

theorem growth_contract_roundtrip_witness:
  "validate_growth_contract (JObj (contract_to_dict brief_contract)) = Inr brief_contract"
  by (rule growth_contract_roundtrip[OF brief_contract_accepted sample_influence])

definition binding_slice :: bounded_slice where
  "binding_slice = sample_slice\<lparr>slice_body := slice_body sample_slice\<lparr>sp_facts :=
     [sample_fact ''fact:s'' ''container_write'' ''sink'' ''entries'', sample_fact ''fact:o'' ''flow'' ''source'' ''request_body'',
      (sample_fact ''fact:t'' ''attacker_target'' ''source'' ''key'')\<lparr>sf_value_ref := Some ''fact:o''\<rparr>]\<rparr>\<rparr>"

definition sample_provider :: provider_contract where
  "sample_provider = \<lparr>pc_is_resource_growth = ''yes'', pc_attacker_evidence = [''fact:o''], pc_resource_effect = ''adds_entries'',
     pc_attacker_variable = ''n'', pc_attacker_value_space = ''unlimited'', pc_growth_unit = ''n'',
     pc_growth_function = ''n'', pc_amplification_class = ''high_cardinality_retention'', pc_requests_to_pressure = ''many'',
     pc_concurrency_model = ''n'', pc_retention_window = ''process'', pc_failure_mechanism = ''heap_exhaustion'',
     pc_failure_signal = ''n'', pc_required_static_evidence = [''fact:s''], pc_contract_status = ''dos_relevant'',
     pc_rejection_reason = ''none'', pc_confidence = ''high''\<rparr>"

lemma sample_bound:
  "bind_provider_growth_contract sample_provider binding_slice [] =
     GrowthContract (brief_contract\<lparr>gc_required_static_evidence := [''fact:s'']\<rparr>)"
  by (simp add: bind_provider_growth_contract_def Let_def restore_alias_def sample_provider_def binding_slice_def sample_slice_def
      sample_fact_def index_by_def slice_shapes_def fact_values_def sink_shape_def List.map_filter_def bind_influence_def
      influence_target_def AttackerInfluence_def influence_targets_def brief_contract_def sample_contract_def) code_simp

theorem contract_grounded_witness:
  "grounded (sp_facts (slice_body binding_slice)) (brief_contract\<lparr>gc_required_static_evidence := [''fact:s'']\<rparr>)"
proof -
  let ?c = "brief_contract\<lparr>gc_required_static_evidence := [''fact:s'']\<rparr>"
  have "is_id ''fact:s'' ''fact:''" by (simp add: is_id_def startswith_def split_once_def kind_chars_def fact_id_chars_def)
  then have "GrowthContract ?c = Inr ?c"
    using brief_contract_accepted unfolding GrowthContract_ok accepted_contract_def by (simp add: contract_texts_def)
  then have "bind_provider_growth_contract sample_provider binding_slice [] = Inr ?c" unfolding sample_bound .
  from contract_grounded[OF this] show ?thesis by blast
qed

end
