(* ===== verification/Schemas.thy ===== *)
theory Schemas
  imports Families Contracts
begin

text \<open>
  \<open>dosweb/artifacts/schemas.py\<close>: the schemas of the records that the stages write, and the two checks that run
  before anything is published: every record fits its schema, and every reference is to a known record. A
  record is a decoded JSON value, a set of known identifiers a list.
\<close>

section \<open>Kinds, references and schemas\<close>

datatype field_kind = Text | TextOrEmpty | Object | Array | NonemptyTexts | Truth | Number | Any

fun kind_name :: "field_kind \<Rightarrow> string" where
  "kind_name Text = ''string''"
| "kind_name TextOrEmpty = ''string_or_empty''"
| "kind_name Object = ''object''"
| "kind_name Array = ''list''"
| "kind_name NonemptyTexts = ''nonempty_string_list''"
| "kind_name Truth = ''bool''"
| "kind_name Number = ''int''"
| "kind_name Any = ''any''"

definition nonempty_text :: "json \<Rightarrow> bool" where
  "nonempty_text v = (case v of JStr s \<Rightarrow> s \<noteq> [] | _ \<Rightarrow> False)"

fun matches_kind :: "field_kind \<Rightarrow> json \<Rightarrow> bool" where
  "matches_kind Text v = nonempty_text v"
| "matches_kind TextOrEmpty v = is_str v"
| "matches_kind Object v = ReachabilityModel.is_mapping v"
| "matches_kind Array v = is_array v"
| "matches_kind NonemptyTexts v = (is_array v \<and> array_of v \<noteq> [] \<and> list_all nonempty_text (array_of v))"
| "matches_kind Truth v = (case v of JBool _ \<Rightarrow> True | _ \<Rightarrow> False)"
| "matches_kind Number v = (case v of JInt _ \<Rightarrow> True | _ \<Rightarrow> False)"
| "matches_kind Any v = (\<not> is_array v \<and> \<not> ReachabilityModel.is_mapping v)"

datatype nested_kind = PositiveNumber | Plain field_kind

fun matches_nested_kind :: "nested_kind \<Rightarrow> json \<Rightarrow> bool" where
  "matches_nested_kind PositiveNumber v = positive v"
| "matches_nested_kind (Plain k) v = matches_kind k v"

record reference_spec =
  rs_kind :: string
  rs_multiple :: bool
  rs_allow_empty :: bool

definition refer :: "string \<Rightarrow> reference_spec" where
  "refer k = \<lparr>rs_kind = k, rs_multiple = False, rs_allow_empty = False\<rparr>"

definition refer_many :: "string \<Rightarrow> bool \<Rightarrow> reference_spec" where
  "refer_many k allow_empty = \<lparr>rs_kind = k, rs_multiple = True, rs_allow_empty = allow_empty\<rparr>"

type_synonym validator = "json \<Rightarrow> string \<Rightarrow> nat \<Rightarrow> unit res"

record artifact_schema =
  as_id :: string
  as_required :: "string list"
  as_enums :: "(string \<times> string list) list"
  as_references :: "(string \<times> reference_spec) list"
  as_kinds :: "(string \<times> field_kind) list"
  as_validator :: "validator option"

definition make_schema :: "string \<Rightarrow> string list \<Rightarrow> (string \<times> string list) list \<Rightarrow> (string \<times> reference_spec) list
    \<Rightarrow> (string \<times> field_kind) list \<Rightarrow> validator option \<Rightarrow> artifact_schema" where
  "make_schema id_field required enums references kinds validate =
     \<lparr>as_id = id_field, as_required = required, as_enums = enums, as_references = references, as_kinds = kinds,
      as_validator = validate\<rparr>"

definition schema_error :: "string \<Rightarrow> string \<Rightarrow> string \<Rightarrow> nat \<Rightarrow> string option \<Rightarrow> py_exc" where
  "schema_error code message name line field = AnalyzerError code message
     ([(''artifact_name'', JStr name), (''line'', JInt (int line))]
       @ (case field of None \<Rightarrow> [] | Some f \<Rightarrow> [(''field'', JStr f)]))"

abbreviation invalid_record :: "string \<Rightarrow> string \<Rightarrow> nat \<Rightarrow> string option \<Rightarrow> py_exc" where
  "invalid_record \<equiv> schema_error ''ARTIFACT_INVALID_RECORD''"

abbreviation invalid_enum :: "string \<Rightarrow> string \<Rightarrow> nat \<Rightarrow> string option \<Rightarrow> py_exc" where
  "invalid_enum \<equiv> schema_error ''ARTIFACT_INVALID_ENUM''"

text \<open>Checks in order, the first failure wins.\<close>

definition check_each :: "('a \<Rightarrow> unit res) \<Rightarrow> 'a list \<Rightarrow> unit res" where
  "check_each f xs = fold_res (\<lambda>_. f) () xs"

definition texts_sorted :: "json \<Rightarrow> bool" where
  "texts_sorted v = (list_all nonempty_text (array_of v) \<and> map str_of (array_of v) = usort (map str_of (array_of v)))"

definition without :: "string \<Rightarrow> json \<Rightarrow> json" where
  "without key r = JObj (filter (\<lambda>kv. fst kv \<noteq> key) (members r))"

text \<open>The identifier of a record is that of its other fields.\<close>

definition identified_by :: "string \<Rightarrow> string \<Rightarrow> json \<Rightarrow> bool" where
  "identified_by key p r = (get r key = JStr (stable_identifier p (without key r)))"

section \<open>The values of enumerations\<close>

definition concrete_dimensions :: "string list" where
  "concrete_dimensions = [''entries'', ''bytes'', ''tasks'', ''connections'', ''objects'']"

definition schema_dimensions :: "string list" where
  "schema_dimensions = concrete_dimensions @ [''unknown'']"

definition schema_scopes :: "string list" where
  "schema_scopes = [''request'', ''session'', ''connection'', ''instance'', ''global'', ''unknown'']"

definition schema_growth_kinds :: "string list" where
  "schema_growth_kinds = [''input_materialization'', ''direct_allocation'', ''container_growth'', ''async_work_growth'']"

definition schema_flow_targets :: "string list" where
  "schema_flow_targets = [''size'', ''key'', ''value'', ''iteration_count'', ''submission_count'']"

definition id_prefixes :: "(string \<times> string) list" where
  "id_prefixes =
     [(''entry_id'', ''entry:''), (''growth_id'', ''growth:''), (''growth_contract_id'', ''contract:''),
      (''verified_growth_id'', ''verified_growth:''), (''path_id'', ''flow:''), (''guard_id'', ''guard:''),
      (''bound_id'', ''bound:''), (''release_id'', ''release:''), (''lifecycle_result_id'', ''lifecycle:''),
      (''finding_id'', ''finding:''), (''certificate_id'', ''certificate:''), (''config_id'', ''config:''),
      (''fact_id'', ''security:''), (''auth_contract_id'', ''auth_contract:''), (''decision_id'', ''reachability:''),
      (''audit_id'', ''llm_audit:''), (''link_id'', ''candidate_link:''), (''disposition_id'', ''disposition:''),
      (''evidence_id'', ''lifecycle-evidence:''), (''coverage_id'', ''lifecycle-coverage:''),
      (''summary_id'', ''lifecycle-summary:''), (''gap_id'', ''gap:''), (''interposition_id'', ''interposition:''),
      (''family_id'', ''family:''), (''negative_proof_id'', ''negative_proof:'')]"

definition max_artifact_id :: nat where
  "max_artifact_id = 256"

section \<open>Checks of single artifacts\<close>

definition validate_entry_gap :: validator where
  "validate_entry_gap r name line =
     (let file = str_of (get r ''handler_file'') in
      require (invalid_record ''Entry gap record is not safely source-backed.'' name line (Some ''handler_file''))
        (\<not> (int_of (get r ''handler_start_line'') \<le> 0 \<or> startswith file ''/'' \<or> CHR 0x5C \<in> set file
           \<or> ''..'' \<in> set (path_parts file) \<or> length file > 4096 \<or> length (str_of (get r ''route_or_event'')) > 4096
           \<or> length (str_of (get r ''coverage_note'')) > 1024)))"

definition safe_relative_java_path :: "string \<Rightarrow> bool" where
  "safe_relative_java_path s = (\<not> startswith s ''/'' \<and> CHR 0x5C \<notin> set s \<and> ''..'' \<notin> set (path_parts s))"

definition validate_source_location :: "bool \<Rightarrow> string \<Rightarrow> validator" where
  "validate_source_location callable field v name line =
     res_bind (require (invalid_record ''Interposition location is invalid.'' name line (Some field))
       (ReachabilityModel.is_mapping v)) (\<lambda>_.
     res_bind (require (invalid_record ''Interposition location fields are not exact.'' name line (Some field))
       (has_fields v ([''file'', ''start_line''] @ (if callable then [''callable''] else [])))) (\<lambda>_.
     res_bind (require (invalid_record ''Interposition location must be source-backed.'' name line (Some field))
       (is_str (get v ''file'') \<and> endswith (str_of (get v ''file'')) ''.java'' \<and> safe_relative_java_path (str_of (get v ''file''))
         \<and> matches_nested_kind PositiveNumber (get v ''start_line''))) (\<lambda>_.
     require (invalid_record ''Interposition callable is invalid.'' name line (Some field))
       (callable \<longrightarrow> is_str (get v ''callable'')))))"

definition interposition_kinds :: "string list" where
  "interposition_kinds = [''filter_registration_bean'', ''servlet_filter'', ''once_per_request_filter'']"

text \<open>A value with exactly these fields of which one is a literal; a test of the rest follows.\<close>

definition literal_object :: "py_exc \<Rightarrow> json \<Rightarrow> string list \<Rightarrow> string \<Rightarrow> string list \<Rightarrow> bool \<Rightarrow> unit res" where
  "literal_object error v keys key allowed rest =
     res_bind (require error (has_fields v keys)) (\<lambda>_.
     res_bind (in_literals (get v key) allowed) (\<lambda>ok. require error (ok \<and> rest)))"

definition validate_entry_interposition :: validator where
  "validate_entry_interposition r name line =
     res_bind (check_each (\<lambda>f. validate_source_location True f (get r f) name line) [''interposer'', ''action'']) (\<lambda>_.
     let g = get r ''registration''; url = get r ''url_predicate''; order = get r ''order'' in
     res_bind (literal_object (invalid_record ''Interposition registration is invalid.'' name line (Some ''registration'')) g
       [''kind'', ''callable'', ''file'', ''start_line''] ''kind'' interposition_kinds True) (\<lambda>_.
     res_bind (validate_source_location True ''registration'' (JObj [(''callable'', get g ''callable''), (''file'', get g ''file''),
       (''start_line'', get g ''start_line'')]) name line) (\<lambda>_.
     res_bind (validate_source_location False ''chain_call'' (get r ''chain_call'') name line) (\<lambda>_.
     res_bind (literal_object (invalid_record ''Interposition URL predicate is invalid.'' name line (Some ''url_predicate'')) url
       [''kind'', ''value''] ''kind'' [''exact'', ''prefix'', ''servlet_pattern'', ''regex'', ''unknown'']
       (nonempty_text (get url ''value''))) (\<lambda>_.
     res_bind (literal_object (invalid_record ''Interposition order is invalid.'' name line (Some ''order'')) order
       [''status'', ''value''] ''status'' [''known'', ''unknown''] (is_str (get order ''value''))) (\<lambda>_.
     require (invalid_record ''Complete interposition requires a proven pre-handler action.'' name line (Some ''coverage_status''))
       (get r ''coverage_status'' = JStr ''complete'' \<longrightarrow>
          get r ''phase'' = JStr ''before_handler'' \<and> truthy (get r ''action_before_chain''))))))))"

definition entry_parts :: "(string \<times> (string \<times> nested_kind) list) list" where
  "entry_parts =
     [(''handler'', [(''callable'', Plain Text), (''file'', Plain Text), (''start_line'', PositiveNumber)]),
      (''registration'', [(''kind'', Plain Text), (''callable'', Plain Text), (''file'', Plain Text),
         (''start_line'', PositiveNumber)])]"

definition allowed_registration_kinds :: "(string \<times> string list) list" where
  "allowed_registration_kinds =
     [(''spring_mvc'', [''annotation_mapping'', ''static_registration'']), (''servlet'', [''annotation_mapping'', ''static_registration'']),
      (''netty'', [''pipeline_registration'']), (''mqtt'', [''subscription_registration'', ''broker_registration'']),
      (''jax_rs'', [''annotation_mapping'', ''static_registration'']), (''grpc'', [''static_registration''])]"

definition validate_entry :: validator where
  "validate_entry r name line =
     res_bind (check_each (\<lambda>(part, specs).
         res_bind (require (invalid_record (''Entry '' @ part @ '' fields are not exact.'') name line (Some part))
           (has_fields (get r part) (map fst specs))) (\<lambda>_.
         check_each (\<lambda>(field, kind). require (invalid_record (''Entry '' @ part @ '' requires '' @ field @ ''.'') name line (Some part))
           (matches_nested_kind kind (get (get r part) field))) specs)) entry_parts) (\<lambda>_.
     let framework = str_of (get r ''framework''); kind = str_of (get (get r ''registration'') ''kind'') in
     res_bind (item (map_of allowed_registration_kinds) framework) (\<lambda>kinds.
     res_bind (require (invalid_enum ''Entry registration kind is invalid for its framework.'' name line (Some ''registration''))
       (kind \<in> set kinds)) (\<lambda>_.
     require (invalid_record ''Entry registration pattern identity does not match its exact framework and kind.'' name line
         (Some ''registration_pattern_id''))
       (str_of (get r ''registration_pattern_id'') \<in> set (registration_coverage_pattern_ids framework kind)))))"

definition valid_fact_id :: "json \<Rightarrow> bool" where
  "valid_fact_id v = (case v of JStr s \<Rightarrow> length s \<le> 256 \<and> is_fact_id s | _ \<Rightarrow> False)"

definition validate_demand :: validator where
  "validate_demand v name line =
     (let error = invalid_record ''Growth demand input is malformed.'' name line (Some ''demand_inputs'') in
      res_bind (require error (has_fields v [''name'', ''role''] \<and> matches_kind Text (get v ''name''))) (\<lambda>_.
      res_bind (in_literals (get v ''role'') (schema_flow_targets @ [''unknown''])) (require error)))"

definition validate_growth :: validator where
  "validate_growth r name line =
     (let point = get r ''resource_point''; site = get r ''site''; demands = array_of (get r ''demand_inputs'');
          evidence = array_of (get r ''candidate_evidence''); notes = array_of (get r ''coverage_notes'');
          dimension = get point ''dimension''
      in
      res_bind (require (invalid_record ''Growth resource_point requires dimension.'' name line (Some ''resource_point''))
        (''dimension'' \<in> set (map fst (members point)))) (\<lambda>_.
      res_bind (require (invalid_enum ''Growth resource_point dimension has an invalid value.'' name line (Some ''resource_point''))
        (is_str dimension \<and> str_of dimension \<in> set concrete_dimensions)) (\<lambda>_.
      res_bind (require (invalid_record ''Growth site, demand inputs, or evidence are malformed.'' name line None)
        (has_fields site [''file'', ''start_line''] \<and> matches_kind Text (get site ''file'')
          \<and> matches_nested_kind PositiveNumber (get site ''start_line'')
          \<and> demands \<noteq> [] \<and> length demands \<le> 64 \<and> evidence \<noteq> [] \<and> length evidence \<le> 64)) (\<lambda>_.
      res_bind (check_each (\<lambda>d. validate_demand d name line) demands) (\<lambda>_.
      res_bind (require (invalid_record ''Growth candidate evidence is malformed.'' name line (Some ''candidate_evidence''))
        (list_all valid_fact_id evidence)) (\<lambda>_.
      res_bind (require (invalid_record ''Growth coverage notes are malformed.'' name line (Some ''coverage_notes''))
        (notes \<noteq> [] \<and> length notes \<le> 64 \<and> list_all (\<lambda>n. nonempty_text n \<and> length (str_of n) \<le> 65536) notes)) (\<lambda>_.
      res_bind (require (invalid_record ''Growth resource_point fields are not exact.'' name line (Some ''resource_point''))
        (has_fields point [''resource_id'', ''dimension'', ''receiver'', ''field_path''])) (\<lambda>_.
      res_bind (check_each (\<lambda>f. require (invalid_record (''Growth resource_point requires '' @ f @ ''.'') name line (Some ''resource_point''))
        (f \<in> set (map fst (members point)) \<and> matches_kind Text (get point f))) [''resource_id'', ''receiver'', ''field_path'']) (\<lambda>_.
      require (invalid_record ''Growth resource identifier is malformed.'' name line (Some ''resource_point''))
        (get point ''resource_id'' = JStr (stable_identifier ''resource'' (JObj [(''dimension'', dimension),
           (''receiver'', get point ''receiver''), (''field_path'', get point ''field_path'')]))))))))))))"

definition growth_check_ok :: "string \<Rightarrow> json \<Rightarrow> bool" where
  "growth_check_ok status c \<longleftrightarrow> has_fields c [''name'', ''passed'', ''reason_code''] \<and> nonempty_text (get c ''name'')
     \<and> matches_kind Truth (get c ''passed'') \<and> (get c ''reason_code'' = JNull \<or> is_str (get c ''reason_code''))
     \<and> (status = ''verified'' \<longrightarrow> get c ''passed'' = JBool True)"

definition validate_verified_growth :: validator where
  "validate_verified_growth r name line =
     (let reasons = array_of (get r ''reason_codes''); checks = array_of (get r ''checks''); status = str_of (get r ''status'') in
      res_bind (require (invalid_record ''Verified Growth audit collections are malformed.'' name line None)
        (length reasons \<le> 32 \<and> length checks \<le> 32
          \<and> list_all (\<lambda>x. nonempty_text x \<and> length (str_of x) \<le> 128) reasons)) (\<lambda>_.
      res_bind (require (invalid_record ''Verified Growth status and reasons are inconsistent.'' name line (Some ''reason_codes''))
        (\<not> ((status = ''verified'' \<and> (reasons \<noteq> [] \<or> checks = [])) \<or> (status \<noteq> ''verified'' \<and> reasons = [])))) (\<lambda>_.
      check_each (\<lambda>c. require (invalid_record ''Verified Growth check is malformed.'' name line (Some ''checks''))
        (growth_check_ok status c)) checks)))"

definition unsafe_text :: rx where
  "unsafe_text = rx_choice (secret_patterns @ source_patterns)"

definition safe_text :: "json \<Rightarrow> bool" where
  "safe_text v \<longleftrightarrow> nonempty_text v \<and> length (str_of v) \<le> 4096 \<and> CHR 0x00 \<notin> set (str_of v)
     \<and> CHR 0x0A \<notin> set (str_of v) \<and> CHR 0x0D \<notin> set (str_of v) \<and> \<not> rx_search unsafe_text (str_of v)"

definition validate_influence :: validator where
  "validate_influence v name line =
     (let error = invalid_record ''Growth Contract attacker influence is malformed.'' name line (Some ''attacker_influence'') in
      literal_object error v [''target'', ''evidence_id''] ''target'' (schema_flow_targets @ [''unknown''])
        (valid_fact_id (get v ''evidence_id'')))"

text \<open>The code names this check \<open>_validate_growth_contract\<close>.\<close>

definition validate_contract_record :: validator where
  "validate_contract_record r name line =
     (let influences = array_of (get r ''attacker_influence''); required = array_of (get r ''required_static_evidence'');
          status = get r ''contract_status''; rejection = get r ''rejection_reason''
      in
      res_bind (require (invalid_record ''Growth Contract collections exceed their bounds.'' name line None)
        (length influences \<le> 16 \<and> length required \<le> 32)) (\<lambda>_.
      res_bind (check_each (\<lambda>i. validate_influence i name line) influences) (\<lambda>_.
      res_bind (require (invalid_record ''Growth Contract evidence references are malformed.'' name line (Some ''required_static_evidence''))
        (list_all valid_fact_id required)) (\<lambda>_.
      res_bind (require (invalid_record ''Growth Contract free text is unsafe or exceeds its bound.'' name line None)
        (list_all (\<lambda>f. safe_text (get r f))
          [''attacker_variable'', ''growth_unit'', ''growth_function'', ''concurrency_model'', ''failure_signal''])) (\<lambda>_.
      require (invalid_record ''Growth Contract status and rejection reason are inconsistent.'' name line None)
        (\<not> ((status = JStr ''growth_not_dos_relevant'' \<and> (rejection = JStr ''none'' \<or> rejection = JStr ''unknown''))
          \<or> (status = JStr ''dos_relevant'' \<and> rejection \<noteq> JStr ''none'')
          \<or> (status = JStr ''unknown'' \<and> \<not> (rejection = JStr ''unknown'' \<and> get r ''is_resource_growth'' = JStr ''unknown'')))))))))"

definition validate_flow_proof :: validator where
  "validate_flow_proof r name line =
     (let control = get r ''attacker_control''; calls = array_of (get r ''call_path''); phases = array_of (get r ''phase_sequence'') in
      res_bind (require (invalid_record ''Flow attacker_control fields are not exact.'' name line (Some ''attacker_control''))
        (has_fields control [''target'', ''source'', ''sink''])) (\<lambda>_.
      res_bind (check_each (\<lambda>f. require (invalid_record (''Flow attacker_control requires '' @ f @ ''.'') name line (Some ''attacker_control''))
        (f \<in> set (map fst (members control)) \<and> matches_kind Text (get control f) \<and> CHR 0x00 \<notin> set (str_of (get control f))
          \<and> length (str_of (get control f)) \<le> 65536)) [''target'', ''source'', ''sink'']) (\<lambda>_.
      res_bind (require (invalid_enum ''Flow attacker_control target has an invalid value.'' name line (Some ''attacker_control''))
        (str_of (get control ''target'') \<in> set schema_flow_targets)) (\<lambda>_.
      res_bind (require (invalid_record ''Flow paths or phases are malformed.'' name line None)
        (calls \<noteq> [] \<and> phases \<noteq> [] \<and> length calls \<le> 64 \<and> length phases \<le> 64
          \<and> list_all (\<lambda>x. nonempty_text x \<and> CHR 0x00 \<notin> set (str_of x) \<and> length (str_of x) \<le> 65536) (calls @ phases))) (\<lambda>_.
      require (invalid_record ''Flow proof identifier is malformed.'' name line (Some ''path_id''))
        (get r ''path_id'' = JStr (stable_identifier ''flow'' (JObj [(''entry_id'', get r ''entry_id''), (''growth_id'', get r ''growth_id''),
           (''attacker_control'', JObj (members control)), (''call_path'', JArr calls), (''phase_sequence'', JArr phases),
           (''confidence'', get r ''confidence'')]))))))))"

definition decision_specs :: "(string \<times> string list) list" where
  "decision_specs =
     [(''guard'', [''effective'', ''ineffective'', ''absent'', ''unknown'']),
      (''bound'', [''absent'', ''scope_mismatched'', ''dimension_mismatched'', ''possibly_over_budget'', ''effective'', ''unknown'']),
      (''release'', [''effective'', ''ineffective'', ''absent'', ''unknown''])]"

definition release_classifications :: "string list" where
  "release_classifications = [''synchronous_effective'', ''insufficient_path_coverage'', ''receiver_or_key_mismatched'',
     ''potential_async'', ''not_effective'', ''unknown'', ''absent'']"

definition decision_record_fields :: "string \<Rightarrow> string list" where
  "decision_record_fields part = [''status'', ''reason_codes'', ''checks'', ''evidence_ids'', ''unresolved_facts'', ''candidate_ids'']
     @ (if part = ''release'' then [''classification''] else [])"

definition decision_record_check_ok :: "json \<Rightarrow> bool" where
  "decision_record_check_ok c \<longleftrightarrow> has_fields c [''name'', ''passed'', ''reason_code'', ''evidence_ids'']
     \<and> matches_kind Text (get c ''name'') \<and> matches_kind Truth (get c ''passed'')
     \<and> (get c ''reason_code'' = JNull \<or> matches_kind Text (get c ''reason_code''))
     \<and> is_array (get c ''evidence_ids'') \<and> list_all nonempty_text (array_of (get c ''evidence_ids''))"

definition bounded_texts :: "json \<Rightarrow> bool" where
  "bounded_texts v \<longleftrightarrow> is_array v \<and> length (array_of v) \<le> 256
     \<and> list_all (\<lambda>x. nonempty_text x \<and> length (str_of x) \<le> 65536) (array_of v)"

definition validate_decision :: "json \<Rightarrow> string \<Rightarrow> nat \<Rightarrow> string \<times> string list \<Rightarrow> unit res" where
  "validate_decision r name line spec =
     (let part = fst spec; d = get r part in
      res_bind (literal_object (invalid_record ''Lifecycle decision is malformed.'' name line (Some part)) d
        (decision_record_fields part) ''status'' (snd spec) True) (\<lambda>_.
      res_bind (require (invalid_record ''Lifecycle decision summary is inconsistent.'' name line (Some part))
        (get d ''status'' = get r (part @ ''_decision''))) (\<lambda>_.
      res_bind (check_each (\<lambda>f. require (invalid_record ''Lifecycle decision collection is malformed.'' name line (Some part))
        (bounded_texts (get d f))) [''reason_codes'', ''evidence_ids'', ''unresolved_facts'', ''candidate_ids'']) (\<lambda>_.
      res_bind (require (invalid_record ''Lifecycle decision checks are malformed.'' name line (Some part))
        (is_array (get d ''checks'') \<and> length (array_of (get d ''checks'')) \<le> 256)) (\<lambda>_.
      res_bind (check_each (\<lambda>c. require (invalid_record ''Lifecycle decision check is malformed.'' name line (Some part))
        (decision_record_check_ok c)) (array_of (get d ''checks''))) (\<lambda>_.
      if part = ''release'' then res_bind (in_literals (get d ''classification'') release_classifications)
        (require (invalid_enum ''Release classification is invalid.'' name line (Some part)))
      else Inr ()))))))"

definition validate_lifecycle_result :: validator where
  "validate_lifecycle_result r name line =
     res_bind (check_each (validate_decision r name line) decision_specs) (\<lambda>_.
     res_bind (require (invalid_record ''Lifecycle result reasons are inconsistent.'' name line (Some ''reason_codes''))
       (array_of (get r ''reason_codes'') = map JStr (usort (concat (map (\<lambda>(part, _).
          map str_of (array_of (get (get r part) ''reason_codes''))) decision_specs))))) (\<lambda>_.
     require (invalid_record ''Lifecycle result identifier is malformed.'' name line (Some ''lifecycle_result_id''))
       (identified_by ''lifecycle_result_id'' ''lifecycle'' r)))"

definition deterministic_texts :: "json \<Rightarrow> bool" where
  "deterministic_texts v \<longleftrightarrow> is_array v \<and> array_of v \<noteq> [] \<and> texts_sorted v"

definition validate_candidate_entry_link :: validator where
  "validate_candidate_entry_link r name line =
     res_bind (check_each (\<lambda>f. require (invalid_record ''Candidate Entry link collections must be deterministic strings.'' name line (Some f))
       (deterministic_texts (get r f))) [''evidence_ids'', ''reason_codes'']) (\<lambda>_.
     require (invalid_record ''Candidate Entry link identifier is malformed.'' name line (Some ''link_id''))
       (identified_by ''link_id'' ''candidate_link'' r))"

definition cited_proofs :: "json \<Rightarrow> string list" where
  "cited_proofs v = filter (\<lambda>s. startswith s ''negative_proof:'') (map str_of (array_of v))"

definition validate_candidate_disposition :: validator where
  "validate_candidate_disposition r name line =
     (let links = array_of (get r ''link_ids''); proofs = array_of (get r ''negative_proof_ids''); cited = cited_proofs (get r ''evidence_ids'');
          status = str_of (get r ''status''); growth = str_of (get r ''local_growth_status'');
          association = str_of (get r ''association_status''); entry = get r ''canonical_entry_id''
      in
      res_bind (require (invalid_record ''Candidate disposition collections must be deterministic strings.'' name line None)
        (is_array (get r ''link_ids'') \<and> texts_sorted (get r ''link_ids'') \<and> deterministic_texts (get r ''evidence_ids'')
          \<and> is_array (get r ''negative_proof_ids'') \<and> texts_sorted (get r ''negative_proof_ids'')
          \<and> list_all (\<lambda>p. startswith (str_of p) ''negative_proof:'') proofs \<and> deterministic_texts (get r ''reason_codes''))) (\<lambda>_.
      res_bind (require (invalid_record ''Eligible candidate requires one canonical Entry link.'' name line (Some ''link_ids''))
        (status \<in> {''formal_eligible'', ''gap_eligible''} \<longrightarrow> length links = 1 \<and> prefixed entry ''entry:'')) (\<lambda>_.
      res_bind (require (invalid_record ''Formal candidate evidence is incomplete.'' name line (Some ''status''))
        (status = ''formal_eligible'' \<longrightarrow> growth = ''complete'' \<and> association = ''complete'' \<and> proofs = [])) (\<lambda>_.
      res_bind (require (invalid_record ''Gap candidate evidence is invalid.'' name line (Some ''status''))
        (status = ''gap_eligible'' \<longrightarrow> growth \<in> {''complete'', ''partial''} \<and> association \<in> {''complete'', ''partial''}
          \<and> \<not> (growth = ''complete'' \<and> association = ''complete'') \<and> proofs = [])) (\<lambda>_.
      res_bind (require (invalid_record ''Rejected candidate must cite deterministic negative proof records.'' name line (Some ''status''))
        (status = ''rejected'' \<longrightarrow> proofs \<noteq> [] \<and> set (map str_of proofs) = set cited)) (\<lambda>_.
      res_bind (require (invalid_record ''Non-rejected candidate cannot carry negative proof records.'' name line (Some ''status''))
        (status \<noteq> ''rejected'' \<longrightarrow> proofs = [] \<and> cited = [])) (\<lambda>_.
      require (invalid_record ''Candidate disposition identifier is malformed.'' name line (Some ''disposition_id''))
        (identified_by ''disposition_id'' ''disposition'' r))))))))"

definition validate_candidate_negative_proof :: validator where
  "validate_candidate_negative_proof r name line =
     res_bind (check_each (\<lambda>f. require (invalid_record ''Candidate negative proof collections must be deterministic strings.'' name line (Some f))
       (deterministic_texts (get r f))) [''evidence_ids'', ''reason_codes'']) (\<lambda>_.
     res_bind (require (invalid_record ''Candidate negative proof evidence must be source-backed Growth facts.'' name line (Some ''evidence_ids''))
       (list_all valid_fact_id (array_of (get r ''evidence_ids'')))) (\<lambda>_.
     require (invalid_record ''Candidate negative proof identifier is malformed.'' name line (Some ''negative_proof_id''))
       (identified_by ''negative_proof_id'' ''negative_proof'' r)))"

definition validate_finding_family :: validator where
  "validate_finding_family r name line =
     res_bind (check_each (\<lambda>f. require (invalid_record ''Finding family collections must be sorted unique strings.'' name line (Some f))
       (is_array (get r f) \<and> texts_sorted (get r f))) family_collections) (\<lambda>_.
     res_bind (require (invalid_record ''Finding family primary finding must be a member.'' name line (Some ''primary_finding_id''))
       (get r ''primary_finding_id'' \<in> set (array_of (get r ''member_finding_ids'')))) (\<lambda>_.
     res_bind (require (invalid_record ''Finding family resource identifier is malformed.'' name line (Some ''resource_id''))
       (prefixed (get r ''resource_id'') ''resource:'')) (\<lambda>_.
     require (invalid_record ''Finding family identifier is malformed.'' name line (Some ''family_id''))
       (identified_by ''family_id'' ''family'' r))))"

section \<open>The schemas\<close>

definition entry_facts_schema :: artifact_schema where
  "entry_facts_schema = make_schema ''entry_id''
     [''entry_id'', ''framework'', ''protocol'', ''handler'', ''registration'', ''registration_pattern_id'',
      ''route_or_event'', ''auth_context'', ''attacker_inputs'', ''materialization_phase'']
     [(''framework'', [''spring_mvc'', ''servlet'', ''netty'', ''mqtt'', ''jax_rs'', ''grpc'']),
      (''protocol'', [''http'', ''tcp'', ''mqtt'', ''grpc'']),
      (''auth_context'', [''unauthenticated'', ''low_privilege'', ''privileged'', ''unknown'']),
      (''materialization_phase'', [''before_handler'', ''in_handler'', ''streaming'', ''unknown''])]
     []
     [(''entry_id'', Text), (''framework'', Text), (''protocol'', Text), (''handler'', Object),
      (''registration'', Object), (''registration_pattern_id'', Text), (''route_or_event'', Text),
      (''auth_context'', Text), (''attacker_inputs'', Array), (''materialization_phase'', Text)]
     (Some validate_entry)"

definition modeled_configuration_schema :: artifact_schema where
  "modeled_configuration_schema = make_schema ''config_id''
     [''config_id'', ''key'', ''value'', ''source_file'', ''source_line'', ''profile'', ''provenance'',
      ''default_effective'', ''status'']
     [(''profile'', [''default'', ''unknown'']),
      (''provenance'', [''cli_override'', ''config_file'', ''extracted_default'', ''unknown'']),
      (''status'', [''known'', ''unknown''])]
     []
     [(''config_id'', Text), (''key'', Text), (''value'', Any), (''source_file'', TextOrEmpty),
      (''source_line'', Number), (''profile'', Text), (''provenance'', Text), (''default_effective'', Truth),
      (''status'', Text)]
     None"

definition entry_gap_facts_schema :: artifact_schema where
  "entry_gap_facts_schema = make_schema ''gap_id''
     [''gap_id'', ''framework'', ''protocol'', ''route_or_event'', ''handler_file'', ''handler_start_line'',
      ''coverage_status'', ''coverage_note'']
     [(''framework'', [''spring_mvc'', ''servlet'', ''netty'', ''mqtt'', ''jax_rs'', ''grpc'']),
      (''protocol'', [''http'', ''tcp'', ''mqtt'', ''grpc'']),
      (''coverage_status'', [''partial'', ''unsupported''])]
     []
     [(''gap_id'', Text), (''framework'', Text), (''protocol'', Text), (''route_or_event'', Text),
      (''handler_file'', Text), (''handler_start_line'', Number), (''coverage_status'', Text),
      (''coverage_note'', Text)]
     (Some validate_entry_gap)"

definition entry_interposition_facts_schema :: artifact_schema where
  "entry_interposition_facts_schema = make_schema ''interposition_id''
     [''interposition_id'', ''entry_id'', ''kind'', ''interposer'', ''registration'', ''url_predicate'',
      ''order'', ''action'', ''chain_call'', ''phase'', ''action_before_chain'', ''coverage_status'',
      ''coverage_note'']
     [(''kind'', [''filter_registration_bean'', ''servlet_filter'', ''once_per_request_filter'']),
      (''phase'', [''before_handler'', ''after_handler'', ''unknown'']),
      (''coverage_status'', [''complete'', ''partial''])]
     [(''entry_id'', refer ''entry_id'')]
     [(''interposition_id'', Text), (''entry_id'', Text), (''kind'', Text), (''interposer'', Object),
      (''registration'', Object), (''url_predicate'', Object), (''order'', Object), (''action'', Object),
      (''chain_call'', Object), (''phase'', Text), (''action_before_chain'', Truth),
      (''coverage_status'', Text), (''coverage_note'', Text)]
     (Some validate_entry_interposition)"

definition entry_security_facts_schema :: artifact_schema where
  "entry_security_facts_schema = make_schema ''fact_id''
     [''fact_id'', ''entry_id'', ''kind'', ''location'', ''line'', ''value'', ''coverage'']
     [
      (''kind'', [''annotation'', ''filter'', ''security_filter_chain'', ''servlet_constraint'', ''netty_gate'', ''mqtt_gate'', ''configuration'', ''deployment_gate'', ''dependency_coverage'']),
      (''coverage'', [''complete'', ''partial'', ''unsupported''])]
     [(''entry_id'', refer ''entry_id'')]
     [(''fact_id'', Text), (''entry_id'', Text), (''kind'', Text), (''location'', Text), (''line'', Number),
      (''value'', Text), (''coverage'', Text)]
     None"

definition auth_contracts_schema :: artifact_schema where
  "auth_contracts_schema = make_schema ''auth_contract_id''
     [''auth_contract_id'', ''entry_id'', ''auth_context'', ''evidence_ids'', ''assumptions'', ''confidence'']
     [(''auth_context'', [''unauthenticated'', ''low_privilege'', ''privileged'', ''unknown'']),
      (''confidence'', [''high'', ''medium'', ''low''])]
     [(''entry_id'', refer ''entry_id'')]
     [(''auth_contract_id'', Text), (''entry_id'', Text), (''auth_context'', Text), (''evidence_ids'', Array),
      (''assumptions'', Array), (''confidence'', Text)]
     None"

definition reachability_decisions_schema :: artifact_schema where
  "reachability_decisions_schema = make_schema ''decision_id''
     [''decision_id'', ''entry_id'', ''auth_contract_id'', ''auth_context'', ''deployment_status'', ''status'',
      ''evidence_ids'', ''reason_codes'']
     [(''auth_context'', [''unauthenticated'', ''low_privilege'', ''privileged'', ''unknown'']),
      (''deployment_status'', [''default_enabled'', ''default_disabled'', ''optional'', ''unknown'']),
      (''status'', [''ordinary_attacker_reachable'', ''not_entry_reachable'', ''unknown''])]
     [(''entry_id'', refer ''entry_id''), (''auth_contract_id'', refer ''auth_contract_id'')]
     [(''decision_id'', Text), (''entry_id'', Text), (''auth_contract_id'', Text), (''auth_context'', Text),
      (''deployment_status'', Text), (''status'', Text), (''evidence_ids'', Array), (''reason_codes'', Array)]
     None"

definition llm_audit_schema :: artifact_schema where
  "llm_audit_schema = make_schema ''audit_id''
     [''audit_id'', ''contract_kind'', ''request_id'', ''normalized_prompt'', ''response_schema'',
      ''raw_response'', ''parsed_response'', ''settings'', ''attestation'', ''cache_hit'']
     [(''contract_kind'', [''growth'', ''auth''])]
     []
     [(''audit_id'', Text), (''contract_kind'', Text), (''request_id'', TextOrEmpty),
      (''normalized_prompt'', Text), (''response_schema'', Object), (''raw_response'', Text),
      (''parsed_response'', Object), (''settings'', Object), (''attestation'', Object), (''cache_hit'', Truth)]
     None"

definition growth_candidates_schema :: artifact_schema where
  "growth_candidates_schema = make_schema ''growth_id''
     [''growth_id'', ''site'', ''kind'', ''operation'', ''resource_point'', ''demand_inputs'',
      ''escape_scope'', ''candidate_evidence'', ''coverage_status'', ''coverage_notes'']
     [(''kind'', schema_growth_kinds),
      (''escape_scope'', [''request'', ''session'', ''instance'', ''global'', ''unknown'']),
      (''coverage_status'', [''complete'', ''partial''])]
     []
     [(''growth_id'', Text), (''site'', Object), (''kind'', Text), (''operation'', Text),
      (''resource_point'', Object), (''demand_inputs'', Array), (''escape_scope'', Text),
      (''candidate_evidence'', Array), (''coverage_status'', Text), (''coverage_notes'', Array)]
     (Some validate_growth)"

definition candidate_entry_links_schema :: artifact_schema where
  "candidate_entry_links_schema = make_schema ''link_id''
     [''link_id'', ''growth_id'', ''entry_id'', ''status'', ''evidence_ids'', ''reason_codes'']
     [(''status'', [''complete'', ''partial''])]
     [(''growth_id'', refer ''growth_id''), (''entry_id'', refer ''entry_id'')]
     [(''link_id'', Text), (''growth_id'', Text), (''entry_id'', Text), (''status'', Text),
      (''evidence_ids'', Array), (''reason_codes'', Array)]
     (Some validate_candidate_entry_link)"

definition candidate_dispositions_schema :: artifact_schema where
  "candidate_dispositions_schema = make_schema ''disposition_id''
     [''disposition_id'', ''growth_id'', ''status'', ''canonical_entry_id'', ''local_growth_status'',
      ''association_status'', ''link_ids'', ''evidence_ids'', ''negative_proof_ids'', ''reason_codes'']
     [(''status'', [''formal_eligible'', ''gap_eligible'', ''rejected'', ''inventory_unresolved'']),
      (''local_growth_status'', [''complete'', ''partial'', ''rejected'', ''unknown'']),
      (''association_status'', [''complete'', ''partial'', ''missing'', ''ambiguous''])]
     [(''growth_id'', refer ''growth_id''), (''link_ids'', refer_many ''link_id'' True),
      (''negative_proof_ids'', refer_many ''negative_proof_id'' True)]
     [(''disposition_id'', Text), (''growth_id'', Text), (''status'', Text),
      (''canonical_entry_id'', TextOrEmpty), (''local_growth_status'', Text), (''association_status'', Text),
      (''link_ids'', Array), (''evidence_ids'', Array), (''negative_proof_ids'', Array),
      (''reason_codes'', Array)]
     (Some validate_candidate_disposition)"

definition candidate_negative_proofs_schema :: artifact_schema where
  "candidate_negative_proofs_schema = make_schema ''negative_proof_id''
     [''negative_proof_id'', ''growth_id'', ''kind'', ''evidence_ids'', ''reason_codes'']
     [
      (''kind'', [''server_controlled_source'', ''non_retained_owner'', ''finite_keyspace'', ''generated_or_test_only'', ''guaranteed_synchronous_cleanup'', ''effective_local_bound'', ''false_entry_growth_flow'', ''not_entry_reachable''])]
     [(''growth_id'', refer ''growth_id'')]
     [(''negative_proof_id'', Text), (''growth_id'', Text), (''kind'', Text), (''evidence_ids'', Array),
      (''reason_codes'', Array)]
     (Some validate_candidate_negative_proof)"

definition repeatability_decisions_schema :: artifact_schema where
  "repeatability_decisions_schema = make_schema ''decision_id''
     [''decision_id'', ''entry_id'', ''growth_id'', ''status'', ''evidence_ids'', ''reason_codes'']
     [(''status'', [''proven'', ''unknown'', ''not_applicable''])]
     [(''entry_id'', refer ''entry_id''), (''growth_id'', refer ''growth_id'')]
     [(''decision_id'', Text), (''entry_id'', Text), (''growth_id'', Text), (''status'', Text),
      (''evidence_ids'', Array), (''reason_codes'', Array)]
     None"

definition amplification_decisions_schema :: artifact_schema where
  "amplification_decisions_schema = make_schema ''decision_id''
     [''decision_id'', ''entry_id'', ''growth_id'', ''status'', ''evidence_ids'', ''reason_codes'']
     [(''status'', [''proven'', ''unknown'', ''not_applicable''])]
     [(''entry_id'', refer ''entry_id''), (''growth_id'', refer ''growth_id'')]
     [(''decision_id'', Text), (''entry_id'', Text), (''growth_id'', Text), (''status'', Text),
      (''evidence_ids'', Array), (''reason_codes'', Array)]
     None"

definition growth_contracts_schema :: artifact_schema where
  "growth_contracts_schema = make_schema ''growth_contract_id''
     [''growth_contract_id'', ''growth_id'', ''is_resource_growth'', ''growth_kind'', ''resource_dimension'',
      ''attacker_influence'', ''resource_effect'', ''attacker_variable'', ''attacker_value_space'',
      ''growth_unit'', ''growth_function'', ''amplification_class'', ''requests_to_pressure'',
      ''concurrency_model'', ''retention_window'', ''failure_mechanism'', ''failure_signal'',
      ''required_static_evidence'', ''contract_status'', ''rejection_reason'', ''confidence'']
     [(''is_resource_growth'', [''yes'', ''no'', ''unknown'']),
      (''growth_kind'', schema_growth_kinds @ [''unknown'']), (''resource_dimension'', schema_dimensions),
      (''resource_effect'', [''materializes_bytes'', ''allocates_objects'', ''adds_entries'', ''enqueues_tasks'', ''opens_connections'', ''unknown'']),
      (''attacker_value_space'', [''stream'', ''unlimited'', ''large'', ''limited'', ''server_controlled'', ''unknown'']),
      (''amplification_class'', [''superlinear'', ''large_single_request'', ''concurrent_retention'', ''queue_instability'', ''high_cardinality_retention'', ''low_amplification'', ''unknown'']),
      (''requests_to_pressure'', [''one'', ''few'', ''many'', ''implausible'', ''unknown'']),
      (''retention_window'', [''request'', ''session'', ''process'', ''until_release'', ''unknown'']),
      (''failure_mechanism'', [''heap_exhaustion'', ''gc_thrashing'', ''cpu_starvation'', ''thread_exhaustion'', ''connection_exhaustion'', ''queue_latency_collapse'', ''none'', ''unknown'']),
      (''contract_status'', [''dos_relevant'', ''growth_not_dos_relevant'', ''unknown'']),
      (''rejection_reason'', [''none'', ''request_local_bounded'', ''server_controlled'', ''fixed_cardinality'', ''effective_precondition'', ''low_amplification'', ''no_failure_mechanism'', ''unknown'']),
      (''confidence'', [''high'', ''medium'', ''low''])]
     [(''growth_id'', refer ''growth_id'')]
     [(''growth_contract_id'', Text), (''growth_id'', Text), (''is_resource_growth'', Text),
      (''growth_kind'', Text), (''resource_dimension'', Text), (''attacker_influence'', Array),
      (''resource_effect'', Text), (''attacker_variable'', Text), (''attacker_value_space'', Text),
      (''growth_unit'', Text), (''growth_function'', Text), (''amplification_class'', Text),
      (''requests_to_pressure'', Text), (''concurrency_model'', Text), (''retention_window'', Text),
      (''failure_mechanism'', Text), (''failure_signal'', Text), (''required_static_evidence'', Array),
      (''contract_status'', Text), (''rejection_reason'', Text), (''confidence'', Text)]
     (Some validate_contract_record)"

definition verified_growth_schema :: artifact_schema where
  "verified_growth_schema = make_schema ''verified_growth_id''
     [''verified_growth_id'', ''growth_id'', ''slice_id'', ''status'', ''reason_codes'', ''checks'']
     [(''status'', [''verified'', ''rejected'', ''unresolved''])]
     [(''growth_id'', refer ''growth_id'')]
     [(''verified_growth_id'', Text), (''growth_id'', Text), (''slice_id'', Text), (''status'', Text),
      (''reason_codes'', Array), (''checks'', Array)]
     (Some validate_verified_growth)"

definition flow_proofs_schema :: artifact_schema where
  "flow_proofs_schema = make_schema ''path_id''
     [''path_id'', ''entry_id'', ''growth_id'', ''attacker_control'', ''call_path'', ''phase_sequence'',
      ''confidence'', ''flow_kind'', ''coverage_status'', ''coverage_note'']
     [(''confidence'', [''proven'', ''partial'']),
      (''coverage_status'', [''complete'', ''partial'', ''unsupported''])]
     [(''entry_id'', refer ''entry_id''), (''growth_id'', refer ''growth_id'')]
     [(''path_id'', Text), (''entry_id'', Text), (''growth_id'', Text), (''attacker_control'', Object),
      (''call_path'', Array), (''phase_sequence'', Array), (''confidence'', Text), (''flow_kind'', Text),
      (''coverage_status'', Text), (''coverage_note'', Text)]
     (Some validate_flow_proof)"

definition guard_candidates_schema :: artifact_schema where
  "guard_candidates_schema = make_schema ''guard_id''
     [''guard_id'', ''site'', ''kind'', ''resource_dimension'', ''scope'', ''behavior'', ''dominates_growth'',
      ''reject_path_reaches_growth'', ''configuration_key'', ''configuration_value'', ''representation'',
      ''phase'', ''covers_materialization'', ''authorization_only'', ''evidence'', ''coverage_status'']
     [(''kind'', [''request_limit'', ''input_validation'', ''rate_limit'', ''configuration'']),
      (''resource_dimension'', schema_dimensions), (''scope'', schema_scopes),
      (''behavior'', [''reject'', ''block'', ''unknown'']), (''coverage_status'', [''complete'', ''partial''])]
     []
     [(''guard_id'', Text), (''site'', Object), (''kind'', Text), (''resource_dimension'', Text),
      (''scope'', Text), (''behavior'', Text), (''dominates_growth'', Truth),
      (''reject_path_reaches_growth'', Truth), (''configuration_key'', Text), (''configuration_value'', Text),
      (''representation'', Text), (''phase'', Text), (''covers_materialization'', Truth),
      (''authorization_only'', Truth), (''evidence'', Array), (''coverage_status'', Text)]
     None"

definition bound_candidates_schema :: artifact_schema where
  "bound_candidates_schema = make_schema ''bound_id''
     [''bound_id'', ''site'', ''kind'', ''resource_dimension'', ''scope'', ''behavior'', ''receiver'',
      ''field_path'', ''result_checked'', ''configuration_key'', ''configuration_value'', ''phase'',
      ''covers_flow'', ''request_encoding'', ''queue_resource'', ''product_bound'', ''evidence'',
      ''coverage_status'']
     [(''kind'', [''limit'', ''quota'', ''capacity'', ''backpressure'', ''rate'']),
      (''resource_dimension'', schema_dimensions), (''scope'', schema_scopes),
      (''behavior'', [''reject'', ''block'', ''evict'', ''clamp'', ''unknown'']),
      (''coverage_status'', [''complete'', ''partial''])]
     []
     [(''bound_id'', Text), (''site'', Object), (''kind'', Text), (''resource_dimension'', Text),
      (''scope'', Text), (''behavior'', Text), (''receiver'', Text), (''field_path'', Text),
      (''result_checked'', Truth), (''configuration_key'', Text), (''configuration_value'', Text),
      (''phase'', Text), (''covers_flow'', Truth), (''request_encoding'', Text), (''queue_resource'', Text),
      (''product_bound'', Truth), (''evidence'', Array), (''coverage_status'', Text)]
     None"

definition release_candidates_schema :: artifact_schema where
  "release_candidates_schema = make_schema ''release_id''
     [''release_id'', ''site'', ''kind'', ''resource_dimension'', ''scope'', ''receiver'', ''key_identity'',
      ''synchronous'', ''normal_path'', ''exceptional_path'', ''actual_reduction'', ''after_growth'',
      ''transfer_only'', ''async_kind'', ''evidence'', ''coverage_status'']
     [(''kind'', [''remove'', ''clear'', ''evict'', ''close'', ''unknown'']),
      (''resource_dimension'', schema_dimensions), (''scope'', schema_scopes),
      (''coverage_status'', [''complete'', ''partial''])]
     []
     [(''release_id'', Text), (''site'', Object), (''kind'', Text), (''resource_dimension'', Text),
      (''scope'', Text), (''receiver'', Text), (''key_identity'', Text), (''synchronous'', Truth),
      (''normal_path'', Truth), (''exceptional_path'', Truth), (''actual_reduction'', Truth),
      (''after_growth'', Truth), (''transfer_only'', Truth), (''async_kind'', Text), (''evidence'', Array),
      (''coverage_status'', Text)]
     None"

definition lifecycle_summaries_schema :: artifact_schema where
  "lifecycle_summaries_schema = make_schema ''summary_id''
     [''summary_id'', ''entry_id'', ''growth_id'', ''path_id'', ''family'', ''candidate_file'',
      ''candidate_start_line'', ''callsite_file'', ''callsite_start_line'', ''receiver_file'',
      ''receiver_start_line'', ''argument_index'', ''resource_dimension'', ''scope'', ''configuration_key'',
      ''configuration_value'', ''representation'', ''phase'', ''covers_materialization'', ''dominates_growth'',
      ''reject_path_reaches_growth'', ''evidence'', ''cfg_relation'', ''coverage_status'', ''coverage_note'']
     [(''family'', [''guard'', ''bound'', ''release'']), (''cfg_relation'', [''one_wrapper'', ''partial'']),
      (''coverage_status'', [''complete'', ''partial'', ''unsupported''])]
     [(''entry_id'', refer ''entry_id''), (''growth_id'', refer ''growth_id''),
      (''path_id'', refer ''path_id'')]
     [(''summary_id'', Text), (''entry_id'', Text), (''growth_id'', Text), (''path_id'', Text),
      (''family'', Text), (''candidate_file'', Text), (''candidate_start_line'', Number),
      (''callsite_file'', Text), (''callsite_start_line'', Number), (''receiver_file'', Text),
      (''receiver_start_line'', Number), (''argument_index'', Number), (''resource_dimension'', Text),
      (''scope'', Text), (''configuration_key'', Text), (''configuration_value'', Text),
      (''representation'', Text), (''phase'', Text), (''covers_materialization'', Truth),
      (''dominates_growth'', Truth), (''reject_path_reaches_growth'', Truth), (''evidence'', Text),
      (''cfg_relation'', Text), (''coverage_status'', Text), (''coverage_note'', Text)]
     None"

definition lifecycle_evidence_schema :: artifact_schema where
  "lifecycle_evidence_schema = make_schema ''evidence_id''
     [''evidence_id'', ''entry_id'', ''growth_id'', ''path_id'', ''family'', ''candidate_id'', ''growth_file'',
      ''growth_line'', ''candidate_file'', ''candidate_line'', ''resource_identity'', ''field_identity'',
      ''key_identity'', ''cfg_relation'', ''coverage_status'']
     [(''family'', [''guard'', ''bound'', ''release'']),
      (''cfg_relation'', [''same_cfg'', ''partial'', ''ambiguous'']),
      (''coverage_status'', [''complete'', ''partial'', ''unsupported''])]
     [(''entry_id'', refer ''entry_id''), (''growth_id'', refer ''growth_id''),
      (''path_id'', refer ''path_id'')]
     [(''evidence_id'', Text), (''entry_id'', Text), (''growth_id'', Text), (''path_id'', Text),
      (''family'', Text), (''candidate_id'', Text), (''growth_file'', Text), (''growth_line'', Number),
      (''candidate_file'', Text), (''candidate_line'', Number), (''resource_identity'', Text),
      (''field_identity'', Text), (''key_identity'', Text), (''cfg_relation'', Text),
      (''coverage_status'', Text)]
     None"

definition lifecycle_coverage_schema :: artifact_schema where
  "lifecycle_coverage_schema = make_schema ''coverage_id''
     [''coverage_id'', ''entry_id'', ''growth_id'', ''path_id'', ''family'', ''status'', ''reason'']
     [(''family'', [''guard'', ''bound'', ''release'']),
      (''status'', [''complete'', ''partial'', ''unsupported''])]
     [(''entry_id'', refer ''entry_id''), (''growth_id'', refer ''growth_id''),
      (''path_id'', refer ''path_id'')]
     [(''coverage_id'', Text), (''entry_id'', Text), (''growth_id'', Text), (''path_id'', Text),
      (''family'', Text), (''status'', Text), (''reason'', Text)]
     None"

definition lifecycle_results_schema :: artifact_schema where
  "lifecycle_results_schema = make_schema ''lifecycle_result_id''
     [''lifecycle_result_id'', ''entry_id'', ''growth_id'', ''path_id'', ''guard_decision'',
      ''bound_decision'', ''release_decision'', ''reason_codes'', ''guard'', ''bound'', ''release'']
     [(''guard_decision'', [''effective'', ''ineffective'', ''absent'', ''unknown'']),
      (''bound_decision'', [''absent'', ''scope_mismatched'', ''dimension_mismatched'', ''possibly_over_budget'', ''effective'', ''unknown'']),
      (''release_decision'', [''effective'', ''ineffective'', ''absent'', ''unknown''])]
     [(''entry_id'', refer ''entry_id''), (''growth_id'', refer ''growth_id''),
      (''path_id'', refer ''path_id'')]
     [(''lifecycle_result_id'', Text), (''entry_id'', Text), (''growth_id'', Text), (''path_id'', Text),
      (''guard_decision'', Text), (''bound_decision'', Text), (''release_decision'', Text),
      (''reason_codes'', Array), (''guard'', Object), (''bound'', Object), (''release'', Object)]
     (Some validate_lifecycle_result)"

definition static_findings_schema :: artifact_schema where
  "static_findings_schema = make_schema ''finding_id''
     [''finding_id'', ''certificate_id'', ''entry_id'', ''growth_id'', ''verdict'', ''reason_codes'']
     [(''verdict'', [''static_vulnerable'', ''bounded_under_modeled_assumptions'', ''static_unknown''])]
     [(''certificate_id'', refer ''certificate_id''), (''entry_id'', refer ''entry_id''),
      (''growth_id'', refer ''growth_id'')]
     [(''finding_id'', Text), (''certificate_id'', Text), (''entry_id'', Text), (''growth_id'', Text),
      (''verdict'', Text), (''reason_codes'', Array)]
     None"

definition finding_families_schema :: artifact_schema where
  "finding_families_schema = make_schema ''family_id''
     [''family_id'', ''verdict'', ''priority'', ''primary_finding_id'', ''member_finding_ids'',
      ''member_certificate_ids'', ''entry_ids'', ''growth_ids'', ''resource_id'', ''reachability_status'',
      ''amplification_class'', ''reason_codes'']
     [(''verdict'', [''static_vulnerable'', ''bounded_under_modeled_assumptions'', ''static_unknown'']),
      (''priority'', [''P0'', ''P1'', ''P2'', ''inventory'']),
      (''reachability_status'', [''ordinary_attacker_reachable'', ''not_entry_reachable'', ''unknown'']),
      (''amplification_class'', [''superlinear'', ''large_single_request'', ''concurrent_retention'', ''queue_instability'', ''high_cardinality_retention'', ''low_amplification'', ''unknown''])]
     [(''primary_finding_id'', refer ''finding_id''),
      (''member_finding_ids'', refer_many ''finding_id'' False),
      (''member_certificate_ids'', refer_many ''certificate_id'' False),
      (''entry_ids'', refer_many ''entry_id'' False), (''growth_ids'', refer_many ''growth_id'' False)]
     [(''family_id'', Text), (''verdict'', Text), (''priority'', Text), (''primary_finding_id'', Text),
      (''member_finding_ids'', NonemptyTexts), (''member_certificate_ids'', NonemptyTexts),
      (''entry_ids'', NonemptyTexts), (''growth_ids'', NonemptyTexts), (''resource_id'', Text),
      (''reachability_status'', Text), (''amplification_class'', Text), (''reason_codes'', Array)]
     (Some validate_finding_family)"

definition lifecycle_certificates_schema :: artifact_schema where
  "lifecycle_certificates_schema = make_schema ''certificate_id''
     [''certificate_id'', ''entry_id'', ''growth_id'', ''attacker_inputs'', ''resource_point'', ''path_ids'',
      ''guard_decision'', ''bound_decision'', ''release_decision'', ''assertions'', ''verdict'',
      ''reason_codes'', ''assumptions'', ''coverage_gaps'', ''unresolved_facts'',
      ''suggested_follow_up_measurements'']
     [(''verdict'', [''static_vulnerable'', ''bounded_under_modeled_assumptions'', ''static_unknown''])]
     [(''entry_id'', refer ''entry_id''), (''growth_id'', refer ''growth_id''),
      (''path_ids'', refer_many ''path_id'' False)]
     [(''certificate_id'', Text), (''entry_id'', Text), (''growth_id'', Text), (''attacker_inputs'', Array),
      (''resource_point'', Object), (''path_ids'', NonemptyTexts), (''guard_decision'', Object),
      (''bound_decision'', Object), (''release_decision'', Object), (''assertions'', Array),
      (''verdict'', Text), (''reason_codes'', Array), (''assumptions'', Array), (''coverage_gaps'', Array),
      (''unresolved_facts'', Array), (''suggested_follow_up_measurements'', Array)]
     None"


definition artifact_schemas :: "(string \<times> artifact_schema) list" where
  "artifact_schemas =
     [(''entry_facts'', entry_facts_schema), (''modeled_configuration'', modeled_configuration_schema),
      (''entry_gap_facts'', entry_gap_facts_schema), (''entry_interposition_facts'', entry_interposition_facts_schema),
      (''entry_security_facts'', entry_security_facts_schema), (''auth_contracts'', auth_contracts_schema),
      (''reachability_decisions'', reachability_decisions_schema), (''llm_audit'', llm_audit_schema),
      (''growth_candidates'', growth_candidates_schema), (''candidate_entry_links'', candidate_entry_links_schema),
      (''candidate_dispositions'', candidate_dispositions_schema),
      (''candidate_negative_proofs'', candidate_negative_proofs_schema),
      (''repeatability_decisions'', repeatability_decisions_schema),
      (''amplification_decisions'', amplification_decisions_schema), (''growth_contracts'', growth_contracts_schema),
      (''verified_growth'', verified_growth_schema), (''flow_proofs'', flow_proofs_schema),
      (''guard_candidates'', guard_candidates_schema), (''bound_candidates'', bound_candidates_schema),
      (''release_candidates'', release_candidates_schema), (''lifecycle_summaries'', lifecycle_summaries_schema),
      (''lifecycle_evidence'', lifecycle_evidence_schema), (''lifecycle_coverage'', lifecycle_coverage_schema),
      (''lifecycle_results'', lifecycle_results_schema), (''static_findings'', static_findings_schema),
      (''finding_families'', finding_families_schema), (''lifecycle_certificates'', lifecycle_certificates_schema)]"

definition schema_for :: "string \<Rightarrow> artifact_schema res" where
  "schema_for name = (case map_of artifact_schemas name of
       None \<Rightarrow> Inl (AnalyzerError ''ARTIFACT_UNKNOWN_SCHEMA'' (''Unknown artifact schema: '' @ name @ ''.'') [])
     | Some schema \<Rightarrow> Inr schema)"

section \<open>Records\<close>

definition check_fields :: "artifact_schema \<Rightarrow> string \<Rightarrow> nat \<Rightarrow> json \<Rightarrow> unit res" where
  "check_fields schema name line r =
     (let actual = map fst (members r);
          missing = usort (filter (\<lambda>f. f \<notin> set actual) (as_required schema));
          extra = usort (filter (\<lambda>f. f \<notin> set (as_required schema)) actual)
      in if missing = [] \<and> extra = [] then Inr ()
         else Inl (schema_error (if extra \<noteq> [] then ''ARTIFACT_INVALID_RECORD'' else ''ARTIFACT_REQUIRED_FIELD_MISSING'')
           ''Artifact record fields do not exactly match the schema.'' name line
           (Some (hd (if extra \<noteq> [] then extra else missing)))))"

definition artifact_id_ok :: "artifact_schema \<Rightarrow> json \<Rightarrow> bool" where
  "artifact_id_ok schema v =
     (case (v, map_of id_prefixes (as_id schema)) of
        (JStr s, Some p) \<Rightarrow> length s \<le> max_artifact_id \<and> startswith s p \<and> length s \<noteq> length p
          \<and> list_all (\<lambda>c. c \<in> set fact_id_chars) (drop (length p) s)
      | _ \<Rightarrow> False)"

text \<open>One record, with the identifiers of those before it; the result has its own.\<close>

definition check_record :: "artifact_schema \<Rightarrow> string \<Rightarrow> nat \<Rightarrow> string list \<Rightarrow> json \<Rightarrow> string list res" where
  "check_record schema name line seen r =
     res_bind (require (schema_error ''ARTIFACT_RECORD_NOT_OBJECT'' ''Artifact record must be an object.'' name line None)
       (ReachabilityModel.is_mapping r)) (\<lambda>_.
     res_bind (check_fields schema name line r) (\<lambda>_.
     res_bind (require (invalid_record ''Artifact identifier is malformed or duplicated.'' name line (Some (as_id schema)))
       (artifact_id_ok schema (get r (as_id schema)) \<and> str_of (get r (as_id schema)) \<notin> set seen)) (\<lambda>_.
     res_bind (check_each (\<lambda>(field, kind).
         require (invalid_record (''Artifact field '' @ field @ '' must be a '' @ kind_name kind @ ''.'') name line (Some field))
           (matches_kind kind (get r field))) (as_kinds schema)) (\<lambda>_.
     res_bind (check_each (\<lambda>(field, choices).
         require (invalid_enum (''Artifact field '' @ field @ '' has an invalid value.'') name line (Some field))
           (is_str (get r field) \<and> str_of (get r field) \<in> set choices)) (as_enums schema)) (\<lambda>_.
     res_bind (case as_validator schema of None \<Rightarrow> Inr () | Some validate \<Rightarrow> validate r name line) (\<lambda>_.
     Inr (str_of (get r (as_id schema)) # seen)))))))"

fun check_records :: "artifact_schema \<Rightarrow> string \<Rightarrow> nat \<Rightarrow> string list \<Rightarrow> json list \<Rightarrow> unit res" where
  "check_records schema name line seen [] = Inr ()"
| "check_records schema name line seen (r # rs) =
     res_bind (check_record schema name line seen r) (\<lambda>seen'. check_records schema name (line + 1) seen' rs)"

definition validate_records :: "string \<Rightarrow> json list \<Rightarrow> unit res" where
  "validate_records name rs = res_bind (schema_for name) (\<lambda>schema. check_records schema name 1 [] rs)"

section \<open>References\<close>

text \<open>The identifiers that are known upstream, by their kind, and what else is known of them.\<close>

record known_ids =
  kn_ids :: "string \<rightharpoonup> string list"
  kn_link_owner :: "(string \<rightharpoonup> string \<times> string \<times> string) option"
  kn_proof_growth :: "(string \<rightharpoonup> string) option"
  kn_growth_facts :: "(string \<rightharpoonup> string list) option"
  kn_entry_security :: "(string \<rightharpoonup> string list) option"

definition dangling :: "string \<Rightarrow> nat \<Rightarrow> string \<Rightarrow> json \<Rightarrow> py_exc" where
  "dangling name line field v = AnalyzerError ''ANALYSIS_DANGLING_FACT_REFERENCE''
     ''Artifact record references an absent upstream fact.''
     [(''artifact_name'', JStr name), (''line'', JInt (int line)), (''field'', JStr field), (''value'', v)]"

definition reference_values :: "reference_spec \<Rightarrow> string \<Rightarrow> nat \<Rightarrow> string \<Rightarrow> json \<Rightarrow> string list res" where
  "reference_values spec name line field v =
     (if rs_multiple spec
      then if \<not> is_array v \<or> (\<not> rs_allow_empty spec \<and> array_of v = []) \<or> \<not> list_all nonempty_text (array_of v)
           then Inl (invalid_record (''Artifact reference '' @ field @ '' must be a list of strings.'') name line (Some field))
           else Inr (map str_of (array_of v))
      else if \<not> nonempty_text v
           then Inl (invalid_record (''Artifact reference '' @ field @ '' must be a non-empty string.'') name line (Some field))
           else Inr [str_of v])"

definition known_in :: "string list option \<Rightarrow> string list \<Rightarrow> bool" where
  "known_in known ids = (case known of None \<Rightarrow> False | Some ks \<Rightarrow> list_all (\<lambda>i. i \<in> set ks) ids)"

definition check_disposition_references :: "known_ids \<Rightarrow> string \<Rightarrow> nat \<Rightarrow> json \<Rightarrow> unit res" where
  "check_disposition_references known name line r =
     (let entry = str_of (get r ''canonical_entry_id''); growth = str_of (get r ''growth_id'') in
      res_bind (require (dangling name line ''canonical_entry_id'' (get r ''canonical_entry_id''))
        (entry = [] \<or> known_in (kn_ids known ''entry_id'') [entry])) (\<lambda>_.
      res_bind (if str_of (get r ''status'') \<in> {''formal_eligible'', ''gap_eligible''}
        then case array_of (get r ''link_ids'') of
            [] \<Rightarrow> Inl PyIndexError
          | l # _ \<Rightarrow> require (dangling name line ''link_ids'' (get r ''link_ids''))
              (case kn_link_owner known of None \<Rightarrow> False
               | Some owner \<Rightarrow> owner (str_of l) = Some (growth, entry, str_of (get r ''association_status'')))
        else Inr ()) (\<lambda>_.
      require (dangling name line ''negative_proof_ids'' (get r ''negative_proof_ids''))
        (array_of (get r ''negative_proof_ids'') = []
          \<or> (case kn_proof_growth known of None \<Rightarrow> False
             | Some of_proof \<Rightarrow> list_all (\<lambda>p. of_proof (str_of p) = Some growth) (array_of (get r ''negative_proof_ids'')))))))"

definition check_proof_references :: "known_ids \<Rightarrow> string \<Rightarrow> nat \<Rightarrow> json \<Rightarrow> unit res" where
  "check_proof_references known name line r =
     require (dangling name line ''evidence_ids'' (get r ''evidence_ids''))
       (case kn_growth_facts known of None \<Rightarrow> False
        | Some facts \<Rightarrow> known_in (facts (str_of (get r ''growth_id''))) (map str_of (array_of (get r ''evidence_ids''))))"

definition check_auth_references :: "known_ids \<Rightarrow> string \<Rightarrow> nat \<Rightarrow> json \<Rightarrow> unit res" where
  "check_auth_references known name line r =
     require (dangling name line ''evidence_ids'' (get r ''evidence_ids''))
       (case (kn_ids known ''security_fact_ids'', kn_entry_security known) of
          (Some security, Some of_entry) \<Rightarrow>
            (case of_entry (str_of (get r ''entry_id'')) of None \<Rightarrow> False
             | Some own \<Rightarrow> list_all (\<lambda>v. is_str v \<and> str_of v \<in> set security \<and> str_of v \<in> set own)
                 (array_of (get r ''evidence_ids'')))
        | _ \<Rightarrow> False)"

definition check_contract_references :: "known_ids \<Rightarrow> string \<Rightarrow> nat \<Rightarrow> json \<Rightarrow> unit res" where
  "check_contract_references known name line r =
     require (dangling name line ''required_static_evidence'' (get r ''required_static_evidence''))
       (case (kn_ids known ''fact_id'', kn_growth_facts known) of
          (Some facts, Some of_growth) \<Rightarrow>
            (case of_growth (str_of (get r ''growth_id'')) of None \<Rightarrow> False
             | Some own \<Rightarrow> list_all (\<lambda>i. i \<in> set facts \<and> i \<in> set own)
                 (map (\<lambda>i. str_of (get i ''evidence_id'')) (array_of (get r ''attacker_influence''))
                   @ map str_of (array_of (get r ''required_static_evidence''))))
        | _ \<Rightarrow> False)"

definition check_references :: "known_ids \<Rightarrow> artifact_schema \<Rightarrow> string \<Rightarrow> nat \<Rightarrow> json \<Rightarrow> unit res" where
  "check_references known schema name line r =
     res_bind (if name = ''candidate_dispositions'' then check_disposition_references known name line r else Inr ()) (\<lambda>_.
     res_bind (if name = ''candidate_negative_proofs'' then check_proof_references known name line r else Inr ()) (\<lambda>_.
     res_bind (if name = ''auth_contracts'' then check_auth_references known name line r else Inr ()) (\<lambda>_.
     res_bind (if name = ''growth_contracts'' then check_contract_references known name line r else Inr ()) (\<lambda>_.
     check_each (\<lambda>(field, spec). res_bind (reference_values spec name line field (get r field)) (\<lambda>ids.
       require (dangling name line field (get r field)) (known_in (kn_ids known (rs_kind spec)) ids))) (as_references schema)))))"

definition validate_references :: "string \<Rightarrow> json list \<Rightarrow> known_ids \<Rightarrow> unit res" where
  "validate_references name rs known =
     res_bind (validate_records name rs) (\<lambda>_.
     res_bind (schema_for name) (\<lambda>schema.
     check_each (\<lambda>(line, r). check_references known schema name line r) (zip [1..<length rs + 1] rs)))"

end
