(* ===== verification/SchemaLaws.thy ===== *)
theory SchemaLaws
  imports Schemas
begin

text \<open>
  The checks of the artifact schemas read as predicates: a list of records passes exactly when each record fits
  its schema and no identifier occurs twice. The loop, its line numbers and its error reports disappear.
\<close>

section \<open>Checks that pass\<close>

lemma require_ok [simp]: "require e b = Inr u \<longleftrightarrow> b"
  by (cases u) (simp add: require_def)

lemma res_bind_unit: "res_bind (r :: unit res) k = Inr y \<longleftrightarrow> r = Inr () \<and> k () = Inr y"
  by (cases r) auto

lemma check_each_ok [simp]: "check_each f xs = Inr u \<longleftrightarrow> (\<forall>x \<in> set xs. f x = Inr ())"
  by (cases u, induction xs) (auto simp: check_each_def res_bind_unit)

lemma in_literals_ok: "res_bind (in_literals v allowed) k = Inr y \<longleftrightarrow> hashable v \<and> k (v \<in> JStr ` set allowed) = Inr y"
  by (simp add: in_literals_def)

lemma literal_hashable: "v \<in> JStr ` xs \<Longrightarrow> hashable v"
  by (auto simp: hashable_def)

lemma literal_object_ok [simp]:
  "literal_object e v keys key allowed rest = Inr u \<longleftrightarrow>
     has_fields v keys \<and> get v key \<in> JStr ` set allowed \<and> rest"
  by (auto simp: literal_object_def res_bind_unit in_literals_ok intro: literal_hashable)

lemma in_literals_require [simp]:
  "res_bind (in_literals v allowed) (require e) = Inr u \<longleftrightarrow> v \<in> JStr ` set allowed"
  by (auto simp: in_literals_ok intro: literal_hashable)

lemmas checks_ok = res_bind_unit

section \<open>What a validator accepts does not depend on the name and line it reports\<close>

definition impersonal :: "validator \<Rightarrow> bool" where
  "impersonal v \<longleftrightarrow> (\<forall>r name line. v r name line = Inr () \<longleftrightarrow> v r [] 0 = Inr ())"

lemma impersonalI: "(\<And>r name line. v r name line = Inr () \<longleftrightarrow> P r) \<Longrightarrow> impersonal v"
  by (simp add: impersonal_def)

definition source_location_ok :: "bool \<Rightarrow> json \<Rightarrow> bool" where
  "source_location_ok callable v \<longleftrightarrow> has_fields v ([''file'', ''start_line''] @ (if callable then [''callable''] else []))
     \<and> is_str (get v ''file'') \<and> endswith (str_of (get v ''file'')) ''.java'' \<and> safe_relative_java_path (str_of (get v ''file''))
     \<and> positive (get v ''start_line'') \<and> (callable \<longrightarrow> is_str (get v ''callable''))"

lemma validate_source_location_ok [simp]:
  "validate_source_location callable field v name line = Inr u \<longleftrightarrow> source_location_ok callable v"
  by (cases v) (auto simp: validate_source_location_def source_location_ok_def checks_ok has_fields_def ReachabilityModel.is_mapping_def)

lemma validate_demand_ok [simp]:
  "validate_demand v name line = Inr u \<longleftrightarrow> has_fields v [''name'', ''role''] \<and> nonempty_text (get v ''name'')
     \<and> get v ''role'' \<in> JStr ` set (schema_flow_targets @ [''unknown''])"
  by (cases u) (simp add: validate_demand_def checks_ok Let_def del: set_append)

lemma validate_influence_ok [simp]:
  "validate_influence v name line = Inr u \<longleftrightarrow> has_fields v [''target'', ''evidence_id'']
     \<and> get v ''target'' \<in> JStr ` set (schema_flow_targets @ [''unknown'']) \<and> valid_fact_id (get v ''evidence_id'')"
  by (simp add: validate_influence_def del: set_append)

definition decision_record_ok :: "json \<Rightarrow> string \<times> string list \<Rightarrow> bool" where
  "decision_record_ok r spec \<longleftrightarrow> (let part = fst spec; d = get r part in
     has_fields d (decision_record_fields part) \<and> get d ''status'' \<in> JStr ` set (snd spec)
     \<and> get d ''status'' = get r (part @ ''_decision'')
     \<and> list_all (\<lambda>f. bounded_texts (get d f)) [''reason_codes'', ''evidence_ids'', ''unresolved_facts'', ''candidate_ids'']
     \<and> is_array (get d ''checks'') \<and> length (array_of (get d ''checks'')) \<le> 256
     \<and> list_all decision_record_check_ok (array_of (get d ''checks''))
     \<and> (part = ''release'' \<longrightarrow> get d ''classification'' \<in> JStr ` set release_classifications))"

lemma validate_decision_ok [simp]: "validate_decision r name line spec = Inr u \<longleftrightarrow> decision_record_ok r spec"
  by (cases u) (simp add: validate_decision_def decision_record_ok_def checks_ok Let_def list_all_iff)

lemma impersonal_entry: "impersonal validate_entry"
  by (simp add: impersonal_def validate_entry_def checks_ok Let_def case_prod_beta res_bind_Inr_iff)

lemma impersonal_entry_gap: "impersonal validate_entry_gap"
  by (simp add: impersonal_def validate_entry_gap_def checks_ok Let_def case_prod_beta res_bind_Inr_iff)

lemma impersonal_growth: "impersonal validate_growth"
  by (simp add: impersonal_def validate_growth_def checks_ok Let_def case_prod_beta res_bind_Inr_iff)

lemma impersonal_verified_growth: "impersonal validate_verified_growth"
  by (simp add: impersonal_def validate_verified_growth_def checks_ok Let_def case_prod_beta res_bind_Inr_iff)

lemma impersonal_contract_record: "impersonal validate_contract_record"
  by (simp add: impersonal_def validate_contract_record_def checks_ok Let_def case_prod_beta res_bind_Inr_iff)

lemma impersonal_flow_proof: "impersonal validate_flow_proof"
  by (simp add: impersonal_def validate_flow_proof_def checks_ok Let_def case_prod_beta res_bind_Inr_iff)

lemma impersonal_candidate_entry_link: "impersonal validate_candidate_entry_link"
  by (simp add: impersonal_def validate_candidate_entry_link_def checks_ok Let_def case_prod_beta res_bind_Inr_iff)

lemma impersonal_candidate_disposition: "impersonal validate_candidate_disposition"
  by (simp add: impersonal_def validate_candidate_disposition_def checks_ok Let_def case_prod_beta res_bind_Inr_iff)

lemma impersonal_candidate_negative_proof: "impersonal validate_candidate_negative_proof"
  by (simp add: impersonal_def validate_candidate_negative_proof_def checks_ok Let_def case_prod_beta res_bind_Inr_iff)

lemma impersonal_finding_family: "impersonal validate_finding_family"
  by (simp add: impersonal_def validate_finding_family_def checks_ok Let_def case_prod_beta res_bind_Inr_iff)

lemma impersonal_entry_interposition: "impersonal validate_entry_interposition"
  by (simp add: impersonal_def validate_entry_interposition_def Let_def checks_ok)

lemma impersonal_lifecycle_result: "impersonal validate_lifecycle_result"
  by (simp add: impersonal_def validate_lifecycle_result_def checks_ok)

text \<open>So every schema judges a record by itself.\<close>

definition validated :: "artifact_schema \<Rightarrow> json \<Rightarrow> bool" where
  "validated schema r \<longleftrightarrow> (case as_validator schema of None \<Rightarrow> True | Some v \<Rightarrow> v r [] 0 = Inr ())"

definition impersonal_schema :: "artifact_schema \<Rightarrow> bool" where
  "impersonal_schema schema \<longleftrightarrow> (case as_validator schema of None \<Rightarrow> True | Some v \<Rightarrow> impersonal v)"

lemmas schema_defs = entry_facts_schema_def modeled_configuration_schema_def entry_gap_facts_schema_def
  entry_interposition_facts_schema_def entry_security_facts_schema_def auth_contracts_schema_def
  reachability_decisions_schema_def llm_audit_schema_def growth_candidates_schema_def candidate_entry_links_schema_def
  candidate_dispositions_schema_def candidate_negative_proofs_schema_def repeatability_decisions_schema_def
  amplification_decisions_schema_def growth_contracts_schema_def verified_growth_schema_def flow_proofs_schema_def
  guard_candidates_schema_def bound_candidates_schema_def release_candidates_schema_def lifecycle_summaries_schema_def
  lifecycle_evidence_schema_def lifecycle_coverage_schema_def lifecycle_results_schema_def static_findings_schema_def
  finding_families_schema_def lifecycle_certificates_schema_def

lemma impersonal_schemas: "list_all (\<lambda>(name, schema). impersonal_schema schema) artifact_schemas"
  by (simp add: artifact_schemas_def schema_defs make_schema_def impersonal_schema_def impersonal_entry impersonal_entry_gap
      impersonal_growth impersonal_verified_growth impersonal_contract_record impersonal_flow_proof impersonal_candidate_entry_link
      impersonal_candidate_disposition impersonal_candidate_negative_proof impersonal_finding_family impersonal_entry_interposition
      impersonal_lifecycle_result)

lemma schema_for_Inr: "schema_for name = Inr schema \<longleftrightarrow> map_of artifact_schemas name = Some schema"
  by (simp add: schema_for_def split: option.splits)

lemma schema_impersonal: "schema_for name = Inr schema \<Longrightarrow> impersonal_schema schema"
  using impersonal_schemas by (auto simp: schema_for_Inr list_all_iff dest!: map_of_SomeD)

section \<open>Records that fit a schema\<close>

definition fits :: "artifact_schema \<Rightarrow> json \<Rightarrow> bool" where
  "fits schema r \<longleftrightarrow> has_fields r (as_required schema) \<and> artifact_id_ok schema (get r (as_id schema))
     \<and> list_all (\<lambda>(field, kind). matches_kind kind (get r field)) (as_kinds schema)
     \<and> list_all (\<lambda>(field, choices). get r field \<in> JStr ` set choices) (as_enums schema) \<and> validated schema r"

definition record_id :: "artifact_schema \<Rightarrow> json \<Rightarrow> string" where
  "record_id schema r = str_of (get r (as_id schema))"

lemma check_fields_ok: "check_fields schema name line r = Inr u \<longleftrightarrow> set (map fst (members r)) = set (as_required schema)"
  by (auto simp: check_fields_def Let_def usort_Nil_iff filter_empty_conv)

lemma check_record_Inr:
  assumes "impersonal_schema schema"
  shows "check_record schema name line seen r = Inr seen' \<longleftrightarrow>
    fits schema r \<and> record_id schema r \<notin> set seen \<and> seen' = record_id schema r # seen"
proof -
  have v: "(case as_validator schema of None \<Rightarrow> Inr () | Some validate \<Rightarrow> validate r name line) = Inr () \<longleftrightarrow> validated schema r"
    using assms by (auto simp: impersonal_schema_def validated_def impersonal_def split: option.splits)
  have e: "is_str v \<and> str_of v \<in> set choices \<longleftrightarrow> v \<in> JStr ` set choices" for v choices
    by (cases v) (auto simp: is_str_def str_of_def)
  have f: "ReachabilityModel.is_mapping r \<and> set (map fst (members r)) = set (as_required schema) \<longleftrightarrow> has_fields r (as_required schema)"
    by (cases r) (auto simp: ReachabilityModel.is_mapping_def has_fields_def members_def)
  show ?thesis
    unfolding check_record_def fits_def record_id_def f[symmetric]
    by (auto simp: checks_ok check_fields_ok v e list_all_iff case_prod_beta)
qed

lemma check_records_ok:
  assumes "impersonal_schema schema"
  shows "check_records schema name line seen rs = Inr u \<longleftrightarrow>
    list_all (fits schema) rs \<and> distinct (map (record_id schema) rs) \<and> set (map (record_id schema) rs) \<inter> set seen = {}"
  by (cases u, induction rs arbitrary: line seen) (auto simp: res_bind_Inr_iff check_record_Inr[OF assms])


end
