(* ===== verification/GrowthStage.thy ===== *)
theory GrowthStage
  imports Schemas Maturation
begin

text \<open>
  The growth stage of \<open>dosweb/production.py\<close> as a whole (\<open>make_growth_executor\<close>): the check of the candidate
  records, the candidate loop, the closing checks of everything it wrote, and the output that is published. The
  audit records of the language model client are an argument.
\<close>

section \<open>The records of the loop as they are written\<close>

definition contract_identifier_of :: "string \<Rightarrow> growth_contract \<Rightarrow> string" where
  "contract_identifier_of growth c = stable_identifier ''contract'' (JObj ((''growth_id'', JStr growth) # contract_to_dict c))"

definition contract_record :: "string \<times> growth_contract \<Rightarrow> json" where
  "contract_record gc = JObj ([(''growth_contract_id'', JStr (contract_identifier_of (fst gc) (snd gc))), (''growth_id'', JStr (fst gc))]
     @ contract_to_dict (snd gc))"

definition auth_contract_record :: "string \<times> auth_contract \<times> reachability_decision \<Rightarrow> json" where
  "auth_contract_record a = (case a of (entry, contract, decision) \<Rightarrow>
     JObj ([(''auth_contract_id'', JStr (rd_contract_id decision)), (''entry_id'', JStr entry)] @ members (auth_to_dict contract)))"

definition auth_decision_record :: "string \<times> auth_contract \<times> reachability_decision \<Rightarrow> json" where
  "auth_decision_record a = decision_to_dict (snd (snd a))"

section \<open>What the references of the stage may name\<close>

text \<open>\<open>{key(x): value(x) for x in xs}\<close>\<close>

definition dict_of :: "('a \<Rightarrow> string) \<Rightarrow> ('a \<Rightarrow> 'b) \<Rightarrow> 'a list \<Rightarrow> (string \<rightharpoonup> 'b)" where
  "dict_of key val xs = map_of (rev (map (\<lambda>x. (key x, val x)) xs))"

definition known_for_proofs :: "growth_candidate list \<Rightarrow> known_ids" where
  "known_for_proofs cs =
     \<lparr>kn_ids = [''growth_id'' \<mapsto> map growth_id cs, ''fact_id'' \<mapsto> concat (map g_evidence cs)],
      kn_link_owner = None, kn_proof_growth = None, kn_growth_facts = Some (dict_of growth_id g_evidence cs),
      kn_entry_security = None\<rparr>"

definition known_for_dispositions :: "string list \<Rightarrow> growth_candidate list \<Rightarrow> growth_records \<Rightarrow> known_ids" where
  "known_for_dispositions entries cs s =
     \<lparr>kn_ids = [''growth_id'' \<mapsto> map growth_id cs, ''entry_id'' \<mapsto> entries, ''link_id'' \<mapsto> map el_id (gs_links s),
        ''negative_proof_id'' \<mapsto> map np_id (gs_negatives s)],
      kn_link_owner = Some (dict_of el_id (\<lambda>l. (el_growth_id l, el_entry_id l, el_status l)) (gs_links s)),
      kn_proof_growth = Some (dict_of np_id np_growth_id (gs_negatives s)), kn_growth_facts = None, kn_entry_security = None\<rparr>"

section \<open>The output\<close>

record stage_output =
  so_artifacts :: "(string \<times> json list) list"
  so_counts :: "(string \<times> nat) list"

definition count_status :: "string \<Rightarrow> growth_records \<Rightarrow> nat" where
  "count_status status s = length (filter (\<lambda>d. cd_status d = status) (gs_dispositions s))"

definition growth_output :: "growth_candidate list \<Rightarrow> growth_records \<Rightarrow> json list \<Rightarrow> stage_output" where
  "growth_output cs s audits =
     \<lparr>so_artifacts =
        [(''growth_candidates.jsonl'', map growth_to_dict cs), (''candidate_entry_links.jsonl'', map link_to_dict (gs_links s)),
         (''candidate_negative_proofs.jsonl'', map negative_to_dict (gs_negatives s)),
         (''candidate_dispositions.jsonl'', map disposition_to_dict (gs_dispositions s)),
         (''repeatability_decisions.jsonl'', map applicability_to_dict (gs_repeatability s)),
         (''amplification_decisions.jsonl'', map applicability_to_dict (gs_amplification s)),
         (''growth_contracts.jsonl'', map contract_record (gs_contracts s)),
         (''verified_growth.jsonl'', map (JObj \<circ> verified_growth_to_dict) (gs_verified s)),
         (''auth_contracts.jsonl'', map auth_contract_record (gs_auth s)),
         (''reachability_decisions.jsonl'', map auth_decision_record (gs_auth s)), (''llm_audit.private.jsonl'', audits)],
      so_counts =
        [(''candidate_count'', length cs), (''candidate_disposition_count'', length (gs_dispositions s)),
         (''formal_eligible_candidate_count'', count_status ''formal_eligible'' s),
         (''gap_eligible_candidate_count'', count_status ''gap_eligible'' s),
         (''negative_proof_count'', length (gs_negatives s)), (''mapped_candidate_count'', length (gs_verified s)),
         (''inventory_unresolved_candidate_count'', count_status ''inventory_unresolved'' s),
         (''auth_contract_count'', length (gs_auth s)), (''llm_audit_count'', length audits)]\<rparr>"

section \<open>The closing checks and the stage\<close>

definition finish_growth :: "string list \<Rightarrow> growth_candidate list \<Rightarrow> growth_records \<Rightarrow> json list \<Rightarrow> stage_output res" where
  "finish_growth entries cs s audits =
     res_bind (validate_records ''growth_contracts'' (map contract_record (gs_contracts s))) (\<lambda>_.
     res_bind (validate_records ''verified_growth'' (map (JObj \<circ> verified_growth_to_dict) (gs_verified s))) (\<lambda>_.
     res_bind (validate_records ''candidate_entry_links'' (map link_to_dict (gs_links s))) (\<lambda>_.
     res_bind (validate_references ''candidate_negative_proofs'' (map negative_to_dict (gs_negatives s)) (known_for_proofs cs)) (\<lambda>_.
     res_bind (validate_references ''candidate_dispositions'' (map disposition_to_dict (gs_dispositions s))
       (known_for_dispositions entries cs s)) (\<lambda>_.
     res_bind (validate_records ''repeatability_decisions'' (map applicability_to_dict (gs_repeatability s))) (\<lambda>_.
     res_bind (validate_records ''amplification_decisions'' (map applicability_to_dict (gs_amplification s))) (\<lambda>_.
     res_bind (validate_records ''auth_contracts'' (map auth_contract_record (gs_auth s))) (\<lambda>_.
     res_bind (validate_records ''reachability_decisions'' (map auth_decision_record (gs_auth s))) (\<lambda>_.
     res_bind (validate_records ''llm_audit'' audits) (\<lambda>_.
     Inr (growth_output cs s audits)))))))))))"

definition growth_stage :: "growth_inputs \<Rightarrow> growth_candidate list \<Rightarrow> json list \<Rightarrow> stage_output res" where
  "growth_stage gi cs audits =
     res_bind (validate_records ''growth_candidates'' (map growth_to_dict cs)) (\<lambda>_.
     res_bind (mature_candidates gi cs) (\<lambda>s.
     finish_growth (map fst (gi_entries gi)) cs s audits))"

end
