(* ===== verification/SchemaRecords.thy ===== *)
theory SchemaRecords
  imports SchemaLaws GrowthStage MaturationLaws ContractLaws
begin

text \<open>
  The records that the classes of the program write fit the schemas under which they are published. A class and
  its schema state the same contract twice, in the constructor and in the table; here they are shown to agree.
\<close>

section \<open>Reading a written record\<close>

lemmas reading = get_def field_of_def members_def has_fields_def is_array_def array_of_def is_str_def is_text_def str_of_def
  nonempty_text_def ReachabilityModel.is_mapping_def prefixed_def

lemma nonempty_text_JStr [simp]: "nonempty_text (JStr s) \<longleftrightarrow> s \<noteq> []"
  by (simp add: nonempty_text_def)

lemma get_JObj [simp]: "get (JObj ((k, v) # kvs)) key = (if key = k then v else get (JObj kvs) key)"
  by (simp add: get_def field_of_def members_def)

lemma array_simps [simp]: "is_array (JArr vs)" "array_of (JArr vs) = vs" "str_of (JStr s) = s" "is_str (JStr s)"
  by (simp_all add: is_array_def array_of_def str_of_def is_str_def)

lemma texts_sorted_strs [simp]: "texts_sorted (JArr (map JStr xs)) \<longleftrightarrow> [] \<notin> set xs \<and> usort xs = xs"
  by (auto simp: texts_sorted_def list_all_iff comp_def)

lemma deterministic_strs [simp]: "deterministic_texts (JArr (map JStr xs)) \<longleftrightarrow> xs \<noteq> [] \<and> [] \<notin> set xs \<and> usort xs = xs"
  by (auto simp: deterministic_texts_def)

lemma without_first [simp]: "k \<notin> set (map fst kvs) \<Longrightarrow> without k (JObj ((k, v) # kvs)) = JObj kvs"
  by (auto simp: without_def members_def filter_id_conv)

text \<open>A computed identifier has the form of its kind.\<close>

lemma hex_id_char: "is_hex c \<Longrightarrow> c \<in> set fact_id_chars"
  by (auto simp: is_hex_def fact_id_chars_def)

lemma artifact_id_hex:
  assumes "map_of id_prefixes (as_id schema) = Some p" "length p + length d \<le> 256" "d \<noteq> []" "list_all is_hex d"
  shows "artifact_id_ok schema (JStr (p @ d))"
  using assms hex_id_char by (auto simp: artifact_id_ok_def max_artifact_id_def startswith_def list_all_iff)

lemma artifact_id_stable:
  assumes "map_of id_prefixes (as_id schema) = Some (p @ '':'')" "length p \<le> 200"
  shows "artifact_id_ok schema (JStr (stable_identifier p v))"
proof -
  obtain d where "stable_identifier p v = (p @ '':'') @ d" "length d = 24" "list_all is_hex d"
    using stable_identifier_shape[of p v] by auto
  then show ?thesis using artifact_id_hex[OF assms(1), of d] assms(2) by force
qed

section \<open>The accounting of candidates\<close>

lemma link_fits:
  assumes "CandidateEntryLink l = Inr l"
  shows "fits candidate_entry_links_schema (link_to_dict l)" "record_id candidate_entry_links_schema (link_to_dict l) = el_id l"
proof -
  have l: "startswith (el_growth_id l) ''growth:''" "startswith (el_entry_id l) ''entry:''" "el_status l \<in> set association_values"
    "el_evidence l \<noteq> []" "[] \<notin> set (el_evidence l)" "usort (el_evidence l) = el_evidence l"
    "el_reasons l \<noteq> []" "[] \<notin> set (el_reasons l)" "usort (el_reasons l) = el_reasons l"
    "el_id l = stable_identifier ''candidate_link'' (JObj (link_identity l))"
    using assms by (auto simp: CandidateEntryLink_def res_bind_Inr_iff completeness_strings_Inr split: if_split_asm)
  have n: "el_growth_id l \<noteq> []" "el_entry_id l \<noteq> []" "el_status l \<noteq> []"
    using l(1-3) by (auto simp: startswith_def association_values_def)
  have i: "artifact_id_ok candidate_entry_links_schema (JStr (el_id l))"
    unfolding l(10) by (rule artifact_id_stable) (simp_all add: candidate_entry_links_schema_def make_schema_def id_prefixes_def)
  have v: "validated candidate_entry_links_schema (link_to_dict l)"
    using l by (simp add: validated_def candidate_entry_links_schema_def make_schema_def validate_candidate_entry_link_def checks_ok
        link_to_dict_def link_identity_def identified_by_def)
  show "fits candidate_entry_links_schema (link_to_dict l)"
    unfolding fits_def using i v l n
    by (simp add: candidate_entry_links_schema_def make_schema_def link_to_dict_def link_identity_def has_fields_def association_values_def)
  show "record_id candidate_entry_links_schema (link_to_dict l) = el_id l"
    by (simp add: record_id_def candidate_entry_links_schema_def make_schema_def link_to_dict_def)
qed

lemma negative_fits:
  assumes "CandidateNegativeProof n = Inr n" "\<forall>e \<in> set (np_evidence n). length e \<le> 256"
  shows "fits candidate_negative_proofs_schema (negative_to_dict n)"
    "record_id candidate_negative_proofs_schema (negative_to_dict n) = np_id n"
proof -
  have l: "startswith (np_growth_id n) ''growth:''" "np_kind n \<in> set negative_proof_kinds"
    "np_evidence n \<noteq> []" "[] \<notin> set (np_evidence n)" "usort (np_evidence n) = np_evidence n"
    "np_reasons n \<noteq> []" "[] \<notin> set (np_reasons n)" "usort (np_reasons n) = np_reasons n" "list_all is_fact_id (np_evidence n)"
    "np_id n = stable_identifier ''negative_proof'' (JObj (negative_identity n))"
    using assms(1) by (auto simp: CandidateNegativeProof_def res_bind_Inr_iff completeness_strings_Inr split: if_split_asm)
  have n: "np_growth_id n \<noteq> []" "np_kind n \<noteq> []"
    using l(1,2) by (auto simp: startswith_def negative_proof_kinds_def)
  have i: "artifact_id_ok candidate_negative_proofs_schema (JStr (np_id n))"
    unfolding l(10) by (rule artifact_id_stable) (simp_all add: candidate_negative_proofs_schema_def make_schema_def id_prefixes_def)
  have f: "list_all valid_fact_id (map JStr (np_evidence n))"
    using l(9) assms(2) by (simp add: list_all_iff valid_fact_id_def)
  have v: "validated candidate_negative_proofs_schema (negative_to_dict n)"
    using l f by (simp add: validated_def candidate_negative_proofs_schema_def make_schema_def validate_candidate_negative_proof_def
        checks_ok negative_to_dict_def negative_identity_def identified_by_def)
  show "fits candidate_negative_proofs_schema (negative_to_dict n)"
    unfolding fits_def using i v l n
    by (simp add: candidate_negative_proofs_schema_def make_schema_def negative_to_dict_def negative_identity_def has_fields_def
        negative_proof_kinds_def)
  show "record_id candidate_negative_proofs_schema (negative_to_dict n) = np_id n"
    by (simp add: record_id_def candidate_negative_proofs_schema_def make_schema_def negative_to_dict_def)
qed

lemma cited_proofs_strs [simp]: "cited_proofs (JArr (map JStr xs)) = filter is_negative_id xs"
  by (simp add: cited_proofs_def comp_def is_negative_id_def[abs_def])

lemma guard_Inr: "(if b then Inl e else r) = Inr y \<longleftrightarrow> \<not> b \<and> r = Inr y"
  by simp

lemma CandidateDisposition_parts:
  assumes "CandidateDisposition d = Inr d"
  shows "startswith (cd_growth_id d) ''growth:''" "cd_status d \<in> set disposition_values" "cd_local_status d \<in> set local_growth_values"
    "cd_association d \<in> set association_status_values" "cd_entry_id d = [] \<or> startswith (cd_entry_id d) ''entry:''"
    "[] \<notin> set (cd_link_ids d)" "usort (cd_link_ids d) = cd_link_ids d"
    "cd_evidence d \<noteq> []" "[] \<notin> set (cd_evidence d)" "usort (cd_evidence d) = cd_evidence d"
    "[] \<notin> set (cd_negative_ids d)" "usort (cd_negative_ids d) = cd_negative_ids d" "list_all is_negative_id (cd_negative_ids d)"
    "cd_reasons d \<noteq> []" "[] \<notin> set (cd_reasons d)" "usort (cd_reasons d) = cd_reasons d"
    "eligible_status (cd_status d) \<longrightarrow> length (cd_link_ids d) = 1 \<and> cd_entry_id d \<noteq> []"
    "cd_status d = ''formal_eligible'' \<longrightarrow> cd_local_status d = ''complete'' \<and> cd_association d = ''complete'' \<and> cd_negative_ids d = []"
    "cd_status d = ''gap_eligible'' \<longrightarrow> cd_local_status d \<in> {''complete'', ''partial''} \<and> cd_association d \<in> {''complete'', ''partial''}
        \<and> \<not> (cd_local_status d = ''complete'' \<and> cd_association d = ''complete'') \<and> cd_negative_ids d = []"
    "cd_status d = ''rejected'' \<longrightarrow> cd_negative_ids d \<noteq> [] \<and> set (cd_negative_ids d) = set (filter is_negative_id (cd_evidence d))"
    "cd_status d \<noteq> ''rejected'' \<longrightarrow> cd_negative_ids d = [] \<and> filter is_negative_id (cd_evidence d) = []"
    "cd_id d = stable_identifier ''disposition'' (JObj (disposition_identity d))"
proof -
  note d = assms[unfolded CandidateDisposition_def Let_def guard_Inr res_bind_Inr_iff completeness_strings_Inr]
  show "startswith (cd_growth_id d) ''growth:''" "cd_status d \<in> set disposition_values" "cd_local_status d \<in> set local_growth_values"
    "cd_association d \<in> set association_status_values" "cd_entry_id d = [] \<or> startswith (cd_entry_id d) ''entry:''"
    using d by blast+
  show "[] \<notin> set (cd_link_ids d)" "usort (cd_link_ids d) = cd_link_ids d"
    "cd_evidence d \<noteq> []" "[] \<notin> set (cd_evidence d)" "usort (cd_evidence d) = cd_evidence d"
    "[] \<notin> set (cd_negative_ids d)" "usort (cd_negative_ids d) = cd_negative_ids d" "list_all is_negative_id (cd_negative_ids d)"
    "cd_reasons d \<noteq> []" "[] \<notin> set (cd_reasons d)" "usort (cd_reasons d) = cd_reasons d"
    using d by blast+
  show "eligible_status (cd_status d) \<longrightarrow> length (cd_link_ids d) = 1 \<and> cd_entry_id d \<noteq> []"
    "cd_status d = ''formal_eligible'' \<longrightarrow> cd_local_status d = ''complete'' \<and> cd_association d = ''complete'' \<and> cd_negative_ids d = []"
    "cd_status d = ''gap_eligible'' \<longrightarrow> cd_local_status d \<in> {''complete'', ''partial''} \<and> cd_association d \<in> {''complete'', ''partial''}
        \<and> \<not> (cd_local_status d = ''complete'' \<and> cd_association d = ''complete'') \<and> cd_negative_ids d = []"
    "cd_status d = ''rejected'' \<longrightarrow> cd_negative_ids d \<noteq> [] \<and> set (cd_negative_ids d) = set (filter is_negative_id (cd_evidence d))"
    "cd_status d \<noteq> ''rejected'' \<longrightarrow> cd_negative_ids d = [] \<and> filter is_negative_id (cd_evidence d) = []"
    "cd_id d = stable_identifier ''disposition'' (JObj (disposition_identity d))"
    using d by blast+
qed

lemma disposition_fits:
  assumes "CandidateDisposition d = Inr d"
  shows "fits candidate_dispositions_schema (disposition_to_dict d)"
    "record_id candidate_dispositions_schema (disposition_to_dict d) = cd_id d"
proof -
  note l = CandidateDisposition_parts[OF assms]
  have n: "cd_growth_id d \<noteq> []" "cd_status d \<noteq> []" "cd_local_status d \<noteq> []" "cd_association d \<noteq> []"
    using l(1-4) by (auto simp: startswith_def disposition_values_def local_growth_values_def association_status_values_def)
  have i: "artifact_id_ok candidate_dispositions_schema (JStr (cd_id d))"
    unfolding l(22) by (rule artifact_id_stable) (simp_all add: candidate_dispositions_schema_def make_schema_def id_prefixes_def)
  have w: "without ''disposition_id'' (disposition_to_dict d) = JObj (disposition_identity d)"
    by (simp add: disposition_to_dict_def disposition_identity_def)
  have p: "startswith x ''negative_proof:''" if "x \<in> set (cd_negative_ids d)" for x
    using l(13) that by (auto simp: list_all_iff is_negative_id_def)
  have e: "cd_status d \<in> {''formal_eligible'', ''gap_eligible''} \<longrightarrow>
      length (cd_link_ids d) = 1 \<and> prefixed (JStr (cd_entry_id d)) ''entry:''"
    using l(5,17) by (auto simp: eligible_status_def prefixed_def is_text_def)
  have f: "array_of (get (disposition_to_dict d) ''link_ids'') = map JStr (cd_link_ids d)"
    "array_of (get (disposition_to_dict d) ''negative_proof_ids'') = map JStr (cd_negative_ids d)"
    "get (disposition_to_dict d) ''evidence_ids'' = JArr (map JStr (cd_evidence d))"
    "get (disposition_to_dict d) ''status'' = JStr (cd_status d)" "get (disposition_to_dict d) ''local_growth_status'' = JStr (cd_local_status d)"
    "get (disposition_to_dict d) ''association_status'' = JStr (cd_association d)"
    "get (disposition_to_dict d) ''canonical_entry_id'' = JStr (cd_entry_id d)"
    "get (disposition_to_dict d) ''link_ids'' = JArr (map JStr (cd_link_ids d))"
    "get (disposition_to_dict d) ''negative_proof_ids'' = JArr (map JStr (cd_negative_ids d))"
    "get (disposition_to_dict d) ''reason_codes'' = JArr (map JStr (cd_reasons d))"
    "get (disposition_to_dict d) ''disposition_id'' = JStr (cd_id d)"
    "get (disposition_to_dict d) ''growth_id'' = JStr (cd_growth_id d)"
    by (simp_all add: disposition_to_dict_def disposition_identity_def)
  have "validate_candidate_disposition (disposition_to_dict d) [] 0 = Inr ()"
    unfolding validate_candidate_disposition_def Let_def checks_ok require_ok f identified_by_def w array_simps cited_proofs_strs
      texts_sorted_strs deterministic_strs
  proof (intro conjI)
    show "list_all (\<lambda>p. startswith (str_of p) ''negative_proof:'') (map JStr (cd_negative_ids d))"
      using p by (simp add: list_all_iff)
    show "cd_status d \<in> {''formal_eligible'', ''gap_eligible''} \<longrightarrow>
        length (map JStr (cd_link_ids d)) = 1 \<and> prefixed (JStr (cd_entry_id d)) ''entry:''" using e by simp
    show "cd_status d = ''formal_eligible'' \<longrightarrow> cd_local_status d = ''complete'' \<and> cd_association d = ''complete''
        \<and> map JStr (cd_negative_ids d) = []" using l(18) by simp
    show "cd_status d = ''gap_eligible'' \<longrightarrow> cd_local_status d \<in> {''complete'', ''partial''} \<and> cd_association d \<in> {''complete'', ''partial''}
        \<and> \<not> (cd_local_status d = ''complete'' \<and> cd_association d = ''complete'') \<and> map JStr (cd_negative_ids d) = []"
      unfolding map_is_Nil_conv by (rule l(19))
    show "cd_status d = ''rejected'' \<longrightarrow> map JStr (cd_negative_ids d) \<noteq> []
        \<and> set (map str_of (map JStr (cd_negative_ids d))) = set (filter is_negative_id (cd_evidence d))"
      using l(20) by (simp add: comp_def)
    show "cd_status d \<noteq> ''rejected'' \<longrightarrow> map JStr (cd_negative_ids d) = [] \<and> filter is_negative_id (cd_evidence d) = []"
      unfolding map_is_Nil_conv by (rule l(21))
  qed (use l in \<open>simp_all only: simp_thms array_simps\<close>)
  then have v: "validated candidate_dispositions_schema (disposition_to_dict d)"
    by (simp add: validated_def candidate_dispositions_schema_def make_schema_def)
  show "fits candidate_dispositions_schema (disposition_to_dict d)"
    unfolding fits_def
  proof (intro conjI)
    show "has_fields (disposition_to_dict d) (as_required candidate_dispositions_schema)"
      by (simp add: candidate_dispositions_schema_def make_schema_def has_fields_def disposition_to_dict_def disposition_identity_def)
    show "artifact_id_ok candidate_dispositions_schema (get (disposition_to_dict d) (as_id candidate_dispositions_schema))"
      using i by (simp add: f candidate_dispositions_schema_def make_schema_def)
    show "list_all (\<lambda>(field, kind). matches_kind kind (get (disposition_to_dict d) field)) (as_kinds candidate_dispositions_schema)"
      using n l(22) by (simp add: candidate_dispositions_schema_def make_schema_def f)
    show "list_all (\<lambda>(field, choices). get (disposition_to_dict d) field \<in> JStr ` set choices) (as_enums candidate_dispositions_schema)"
      using l(2-4) by (simp add: candidate_dispositions_schema_def make_schema_def f disposition_values_def local_growth_values_def
          association_status_values_def)
  qed (fact v)
  show "record_id candidate_dispositions_schema (disposition_to_dict d) = cd_id d"
    by (simp add: record_id_def candidate_dispositions_schema_def make_schema_def f)
qed

lemma applicability_fits:
  assumes "ApplicabilityDecision a = Inr a" "schema = repeatability_decisions_schema \<or> schema = amplification_decisions_schema"
  shows "fits schema (applicability_to_dict a)" "record_id schema (applicability_to_dict a) = ap_id a"
proof -
  have same: "schema = repeatability_decisions_schema"
    using assms(2) by (auto simp: repeatability_decisions_schema_def amplification_decisions_schema_def)
  have l: "startswith (ap_growth_id a) ''growth:''" "startswith (ap_entry_id a) ''entry:''" "ap_status a \<in> set applicability_values"
    "ap_id a = applicability_id a"
    using assms(1)[unfolded ApplicabilityDecision_def guard_Inr res_bind_Inr_iff completeness_strings_Inr] by blast+
  have n: "ap_growth_id a \<noteq> []" "ap_entry_id a \<noteq> []" "ap_status a \<noteq> []" "ap_id a \<noteq> []"
    using l by (auto simp: startswith_def applicability_values_def applicability_id_def)
  have i: "artifact_id_ok repeatability_decisions_schema (JStr (ap_id a))"
    unfolding l(4) applicability_id_def
    by (rule artifact_id_stable) (simp_all add: repeatability_decisions_schema_def make_schema_def id_prefixes_def)
  show "fits schema (applicability_to_dict a)"
    unfolding fits_def same using i n l(3)
    by (simp add: repeatability_decisions_schema_def make_schema_def validated_def
        applicability_to_dict_def applicability_identity_def has_fields_def applicability_values_def)
  show "record_id schema (applicability_to_dict a) = ap_id a"
    by (simp add: same record_id_def repeatability_decisions_schema_def make_schema_def applicability_to_dict_def)
qed

section \<open>Contracts and verifications\<close>

lemma is_id_fact:
  assumes "is_id s ''fact:''"
  shows "valid_fact_id (JStr s)"
proof -
  obtain r where s: "s = ''fact:'' @ r" using assms by (auto simp: is_id_def startswith_def prefix_def)
  have "split_once CHR '':'' (''fact'' @ CHR '':'' # r) = Some (''fact'', r)" by (rule split_once_Some) simp
  then show ?thesis
    using assms unfolding s by (simp add: is_id_def valid_fact_id_def is_fact_id_def startswith_def)
qed

lemma AttackerInfluence_ok:
  "AttackerInfluence i = Inr i \<longleftrightarrow> ai_target i \<in> set influence_targets \<and> is_id (ai_evidence_id i) ''fact:''"
  by (simp add: AttackerInfluence_def)

lemma influence_fits:
  assumes "AttackerInfluence i = Inr i"
  shows "validate_influence (influence_to_dict i) name line = Inr ()"
proof -
  have "ai_target i \<in> set (schema_flow_targets @ [''unknown''])"
    using assms by (simp add: AttackerInfluence_ok schema_flow_targets_def influence_targets_def)
  moreover have "valid_fact_id (JStr (ai_evidence_id i))" using assms is_id_fact by (simp add: AttackerInfluence_ok)
  ultimately show ?thesis
    unfolding validate_influence_ok influence_to_dict_def by (simp add: has_fields_def del: set_append)
qed

lemma safe_text_contract: "contract_text_ok s \<Longrightarrow> safe_text (JStr s)"
proof -
  have "rx_search unsafe_text s \<longleftrightarrow> rx_search contract_secret s \<or> rx_search contract_source s"
  proof -
    have "secret_patterns \<noteq> []" "source_patterns \<noteq> []" by (simp_all add: secret_patterns_def source_patterns_def)
    then show ?thesis by (auto simp: unsafe_text_def contract_secret_def contract_source_def search_choice)
  qed
  then show "contract_text_ok s \<Longrightarrow> safe_text (JStr s)"
    by (simp add: contract_text_ok_def safe_text_def contract_text_bytes_def)
qed

lemma contract_parts:
  assumes "GrowthContract c = Inr c"
  shows "gc_is_resource_growth c \<in> set contract_growth_values" "gc_growth_kind c \<in> set contract_kind_values"
    "gc_resource_dimension c \<in> set contract_dimension_values" "gc_resource_effect c \<in> set resource_effect_values"
    "gc_attacker_value_space c \<in> set value_space_values" "gc_amplification_class c \<in> set contract_amplification_values"
    "gc_requests_to_pressure c \<in> set request_pressure_values" "gc_retention_window c \<in> set retention_values"
    "gc_failure_mechanism c \<in> set failure_values" "gc_contract_status c \<in> set contract_status_values"
    "gc_rejection_reason c \<in> set rejection_values" "gc_confidence c \<in> set confidence_values"
    "length (gc_attacker_influence c) \<le> 16" "length (gc_required_static_evidence c) \<le> 32"
    "list_all (\<lambda>i. is_id i ''fact:'') (gc_required_static_evidence c)" "list_all contract_text_ok (contract_texts c)"
    "contract_status_ok (gc_contract_status c) (gc_rejection_reason c) (gc_is_resource_growth c)"
  using assms unfolding GrowthContract_ok accepted_contract_def by simp_all

lemma contract_values_nonempty:
  "s \<in> set contract_growth_values \<union> set contract_kind_values \<union> set contract_dimension_values \<union> set resource_effect_values
     \<union> set value_space_values \<union> set contract_amplification_values \<union> set request_pressure_values \<union> set retention_values
     \<union> set failure_values \<union> set contract_status_values \<union> set rejection_values \<union> set confidence_values \<Longrightarrow> s \<noteq> []"
  by (auto simp: contract_growth_values_def contract_kind_values_def contract_dimension_values_def resource_effect_values_def
      value_space_values_def contract_amplification_values_def request_pressure_values_def retention_values_def
      failure_values_def contract_status_values_def rejection_values_def confidence_values_def)

lemma get_contract_record:
  "get (contract_record (g, c)) ''growth_contract_id'' = JStr (contract_identifier_of g c)"
  "get (contract_record (g, c)) ''growth_id'' = JStr g"
  "get (contract_record (g, c)) ''is_resource_growth'' = JStr (gc_is_resource_growth c)"
  "get (contract_record (g, c)) ''growth_kind'' = JStr (gc_growth_kind c)"
  "get (contract_record (g, c)) ''resource_dimension'' = JStr (gc_resource_dimension c)"
  "get (contract_record (g, c)) ''attacker_influence'' = JArr (map influence_to_dict (gc_attacker_influence c))"
  "get (contract_record (g, c)) ''resource_effect'' = JStr (gc_resource_effect c)"
  "get (contract_record (g, c)) ''attacker_variable'' = JStr (gc_attacker_variable c)"
  "get (contract_record (g, c)) ''attacker_value_space'' = JStr (gc_attacker_value_space c)"
  "get (contract_record (g, c)) ''growth_unit'' = JStr (gc_growth_unit c)"
  "get (contract_record (g, c)) ''growth_function'' = JStr (gc_growth_function c)"
  "get (contract_record (g, c)) ''amplification_class'' = JStr (gc_amplification_class c)"
  "get (contract_record (g, c)) ''requests_to_pressure'' = JStr (gc_requests_to_pressure c)"
  "get (contract_record (g, c)) ''concurrency_model'' = JStr (gc_concurrency_model c)"
  "get (contract_record (g, c)) ''retention_window'' = JStr (gc_retention_window c)"
  "get (contract_record (g, c)) ''failure_mechanism'' = JStr (gc_failure_mechanism c)"
  "get (contract_record (g, c)) ''failure_signal'' = JStr (gc_failure_signal c)"
  "get (contract_record (g, c)) ''required_static_evidence'' = JArr (map JStr (gc_required_static_evidence c))"
  "get (contract_record (g, c)) ''contract_status'' = JStr (gc_contract_status c)"
  "get (contract_record (g, c)) ''rejection_reason'' = JStr (gc_rejection_reason c)"
  "get (contract_record (g, c)) ''confidence'' = JStr (gc_confidence c)"
  by (simp_all add: contract_record_def contract_to_dict_def)

lemma contract_fits:
  assumes c: "GrowthContract c = Inr c" "list_all (\<lambda>i. AttackerInfluence i = Inr i) (gc_attacker_influence c)"
    and g: "startswith g ''growth:''"
  shows "fits growth_contracts_schema (contract_record (g, c))"
    "record_id growth_contracts_schema (contract_record (g, c)) = contract_identifier_of g c"
proof -
  note p = contract_parts[OF c(1)]
  have t: "safe_text (JStr s) \<and> s \<noteq> []" if "s \<in> set (contract_texts c)" for s
    using p(16) that safe_text_contract by (auto simp: list_all_iff contract_text_ok_def)
  note texts = t[of "gc_attacker_variable c"] t[of "gc_growth_unit c"] t[of "gc_growth_function c"] t[of "gc_concurrency_model c"]
    t[of "gc_failure_signal c"]
  have n: "g \<noteq> []" "contract_identifier_of g c \<noteq> []" using g by (auto simp: startswith_def contract_identifier_of_def)
  have ne: "gc_is_resource_growth c \<noteq> []" "gc_growth_kind c \<noteq> []" "gc_resource_dimension c \<noteq> []" "gc_resource_effect c \<noteq> []"
    "gc_attacker_value_space c \<noteq> []" "gc_amplification_class c \<noteq> []" "gc_requests_to_pressure c \<noteq> []" "gc_retention_window c \<noteq> []"
    "gc_failure_mechanism c \<noteq> []" "gc_contract_status c \<noteq> []" "gc_rejection_reason c \<noteq> []" "gc_confidence c \<noteq> []"
    using p(1-12) contract_values_nonempty by blast+
  have v: "validate_contract_record (contract_record (g, c)) [] 0 = Inr ()"
    unfolding validate_contract_record_def Let_def checks_ok require_ok check_each_ok get_contract_record array_simps
  proof (intro conjI)
    show "length (map influence_to_dict (gc_attacker_influence c)) \<le> 16" using p(13) by simp
    show "length (map JStr (gc_required_static_evidence c)) \<le> 32" using p(14) by simp
    show "\<forall>x \<in> set (map influence_to_dict (gc_attacker_influence c)). validate_influence x [] 0 = Inr ()"
      using c(2) influence_fits by (auto simp del: validate_influence_ok simp: list_all_iff)
    show "list_all valid_fact_id (map JStr (gc_required_static_evidence c))" using p(15) is_id_fact by (auto simp: list_all_iff)
    show "list_all (\<lambda>f. safe_text (get (contract_record (g, c)) f))
        [''attacker_variable'', ''growth_unit'', ''growth_function'', ''concurrency_model'', ''failure_signal'']"
      using texts by (simp add: get_contract_record contract_texts_def)
  qed (use p(17) in \<open>auto simp: contract_status_ok_def\<close>)
  show "fits growth_contracts_schema (contract_record (g, c))"
    unfolding fits_def
  proof (intro conjI)
    show "has_fields (contract_record (g, c)) (as_required growth_contracts_schema)"
      by (simp add: growth_contracts_schema_def make_schema_def has_fields_def contract_record_def contract_to_dict_def)
    have "artifact_id_ok growth_contracts_schema (JStr (stable_identifier ''contract'' (JObj ((''growth_id'', JStr g) # contract_to_dict c))))"
      by (rule artifact_id_stable) (simp_all add: growth_contracts_schema_def make_schema_def id_prefixes_def)
    then show "artifact_id_ok growth_contracts_schema (get (contract_record (g, c)) (as_id growth_contracts_schema))"
      by (simp add: get_contract_record contract_identifier_of_def growth_contracts_schema_def make_schema_def)
    show "list_all (\<lambda>(field, kind). matches_kind kind (get (contract_record (g, c)) field)) (as_kinds growth_contracts_schema)"
      using n ne texts by (simp add: growth_contracts_schema_def make_schema_def get_contract_record contract_texts_def)
    show "validated growth_contracts_schema (contract_record (g, c))"
      using v by (simp add: validated_def growth_contracts_schema_def make_schema_def)
  qed (use p(1-12) in \<open>simp add: growth_contracts_schema_def make_schema_def get_contract_record contract_growth_values_def
      contract_kind_values_def contract_dimension_values_def resource_effect_values_def value_space_values_def
      contract_amplification_values_def request_pressure_values_def retention_values_def failure_values_def
      contract_status_values_def rejection_values_def confidence_values_def schema_growth_kinds_def schema_dimensions_def
      concrete_dimensions_def\<close>)
  show "record_id growth_contracts_schema (contract_record (g, c)) = contract_identifier_of g c"
    by (simp add: record_id_def growth_contracts_schema_def make_schema_def get_contract_record)
qed

text \<open>A run of the gates reports at most as many checks as there are gates, and one of their reasons.\<close>

lemma run_gates_checks: "length (oc_checks (run_gates good gs cs)) \<le> length cs + length gs"
proof (induction gs arbitrary: cs)
  case (Cons g gs)
  show ?case using Cons[of "cs @ [ok_check (gate_name g)]"] by simp
qed simp

lemma run_gates_reasons: "oc_reasons (run_gates good gs cs) = [] \<or> (\<exists>g \<in> set gs. oc_reasons (run_gates good gs cs) = gate_reasons g)"
  by (induction gs arbitrary: cs) auto

lemma run_gates_named:
  assumes "\<forall>g \<in> set gs. gate_name g \<noteq> []" "\<forall>c \<in> set cs. check_name c \<noteq> []"
  shows "\<forall>c \<in> set (oc_checks (run_gates good gs cs)). check_name c \<noteq> []"
  using assms
proof (induction gs arbitrary: cs)
  case (Cons g gs)
  show ?case using Cons.IH[of "cs @ [ok_check (gate_name g)]"] Cons.prems by auto
qed simp

definition modest_gate :: "'st gate \<Rightarrow> bool" where
  "modest_gate g \<longleftrightarrow> gate_name g \<noteq> [] \<and> length (gate_reasons g) = 1 \<and> gate_reasons g \<noteq> [[]] \<and> length (hd (gate_reasons g)) \<le> 128"

lemma modest_growth_gate: "modest_gate (growth_gate n ok st r) \<longleftrightarrow> n \<noteq> [] \<and> r \<noteq> [] \<and> length r \<le> 128"
  by (simp add: modest_gate_def growth_gate_def)

lemma growth_gates_modest: "list_all modest_gate (growth_gates x)" "length (growth_gates x) = 17"
  unfolding growth_gates_defs Let_def case_prod_beta append.simps
  by (simp_all only: list.pred_inject modest_growth_gate simp_thms list.size list.simps split: if_split) simp_all

lemma verified_fits:
  assumes "verify_growth_contract c b contract index = Inr v"
  shows "fits verified_growth_schema (JObj (verified_growth_to_dict v))"
    "record_id verified_growth_schema (JObj (verified_growth_to_dict v)) = verified_growth_id v"
proof -
  define o' where "o' = run_gates Verified (growth_gates (c, b, contract, index)) []"
  define r where "r = \<lparr>verified_growth_id = [], vg_growth_id = growth_id c, vg_slice_id = slice_id b, vg_status = oc_status o',
      vg_reasons = oc_reasons o', vg_checks = oc_checks o', vg_candidate = Some c\<rparr>"
  have "VerifiedGrowthResult (r\<lparr>verified_growth_id := stable_identifier ''verified_growth'' (JObj (verified_growth_identity r))\<rparr>) = Inr v"
    using assms by (simp add: verify_growth_contract_def Let_def verified_growth_create_def o'_def r_def split: if_split_asm)
  then have v: "v = r\<lparr>verified_growth_id := stable_identifier ''verified_growth'' (JObj (verified_growth_identity r))\<rparr>"
    and p: "startswith (vg_growth_id v) ''growth:''" "startswith (vg_slice_id v) ''slice:''" "list_all (\<lambda>x. x \<noteq> []) (vg_reasons v)"
      "vg_status v = Verified \<longrightarrow> vg_reasons v = [] \<and> vg_checks v \<noteq> [] \<and> list_all passed (vg_checks v)"
      "vg_status v \<noteq> Verified \<longrightarrow> vg_reasons v \<noteq> []"
    by (auto simp: VerifiedGrowthResult_def split: if_split_asm)
  have modest: "\<forall>g \<in> set (growth_gates (c, b, contract, index)). modest_gate g" using growth_gates_modest(1) by (simp add: list_all_iff)
  have reasons: "length (vg_reasons v) \<le> 32" "list_all (\<lambda>x. length x \<le> 128) (vg_reasons v)"
    using run_gates_reasons[of Verified "growth_gates (c, b, contract, index)" "[]"] modest
    by (auto simp: v r_def o'_def modest_gate_def length_Suc_conv)
  have checks: "length (vg_checks v) \<le> 32"
    using run_gates_checks[of Verified "growth_gates (c, b, contract, index)" "[]"] growth_gates_modest(2)[of "(c, b, contract, index)"]
    by (simp add: v r_def o'_def)
  have named: "\<forall>k \<in> set (vg_checks v). check_name k \<noteq> []"
    using run_gates_named[of "growth_gates (c, b, contract, index)" "[]" Verified] modest by (auto simp: v r_def o'_def modest_gate_def)
  have st: "growth_status_name (vg_status v) = ''verified'' \<longleftrightarrow> vg_status v = Verified" by (cases "vg_status v") simp_all
  have ck: "growth_check_ok (growth_status_name (vg_status v)) (check_to_dict k)" if "k \<in> set (vg_checks v)" for k
    using named that p(4) st
    by (auto simp: growth_check_ok_def check_to_dict_def has_fields_def list_all_iff opt_str_def is_str_def split: option.splits)
  let ?r = "JObj (verified_growth_to_dict v)"
  have f: "get ?r ''verified_growth_id'' = JStr (verified_growth_id v)" "get ?r ''growth_id'' = JStr (vg_growth_id v)"
    "get ?r ''slice_id'' = JStr (vg_slice_id v)" "get ?r ''status'' = JStr (growth_status_name (vg_status v))"
    "get ?r ''reason_codes'' = JArr (map JStr (vg_reasons v))" "get ?r ''checks'' = JArr (map check_to_dict (vg_checks v))"
    by (simp_all add: verified_growth_to_dict_def verified_growth_identity_def)
  have "validate_verified_growth ?r [] 0 = Inr ()"
    unfolding validate_verified_growth_def Let_def checks_ok require_ok check_each_ok f array_simps st
  proof (intro conjI)
    show "\<not> (vg_status v = Verified \<and> (map JStr (vg_reasons v) \<noteq> [] \<or> map check_to_dict (vg_checks v) = [])
        \<or> vg_status v \<noteq> Verified \<and> map JStr (vg_reasons v) = [])" using p(4,5) by auto
    show "\<forall>x \<in> set (map check_to_dict (vg_checks v)). growth_check_ok (growth_status_name (vg_status v)) x" using ck by auto
  qed (use reasons checks p(3) in \<open>auto simp: list_all_iff\<close>)
  then have val: "validated verified_growth_schema ?r" by (simp add: validated_def verified_growth_schema_def make_schema_def)
  show "fits verified_growth_schema ?r"
    unfolding fits_def
  proof (intro conjI)
    show "has_fields ?r (as_required verified_growth_schema)"
      by (simp add: verified_growth_schema_def make_schema_def has_fields_def verified_growth_to_dict_def verified_growth_identity_def)
    have "artifact_id_ok verified_growth_schema (JStr (stable_identifier ''verified_growth'' x))" for x
      by (rule artifact_id_stable) (simp_all add: verified_growth_schema_def make_schema_def id_prefixes_def)
    moreover have "verified_growth_id v = stable_identifier ''verified_growth'' (JObj (verified_growth_identity r))" by (simp add: v)
    moreover have "as_id verified_growth_schema = ''verified_growth_id''" by (simp add: verified_growth_schema_def make_schema_def)
    ultimately show "artifact_id_ok verified_growth_schema (get ?r (as_id verified_growth_schema))" by (simp only: f)
    show "list_all (\<lambda>(field, kind). matches_kind kind (get ?r field)) (as_kinds verified_growth_schema)"
    proof -
      have "vg_growth_id v \<noteq> []" "vg_slice_id v \<noteq> []" "verified_growth_id v \<noteq> []" using p(1,2) v by (auto simp: startswith_def)
      moreover have "growth_status_name (vg_status v) \<noteq> []" by (cases "vg_status v") simp_all
      ultimately show ?thesis by (simp add: verified_growth_schema_def make_schema_def f)
    qed
    show "list_all (\<lambda>(field, choices). get ?r field \<in> JStr ` set choices) (as_enums verified_growth_schema)"
      by (cases "vg_status v") (simp_all add: verified_growth_schema_def make_schema_def f)
  qed (fact val)
  show "record_id verified_growth_schema ?r = verified_growth_id v"
    by (simp add: record_id_def verified_growth_schema_def make_schema_def f)
qed

section \<open>Decisions about entries\<close>

lemma auth_contract_fits:
  assumes "wf_contract c" "entry \<noteq> []" "rd_contract_id d = contract_identifier py_repr i c"
  shows "fits auth_contracts_schema (auth_contract_record (entry, c, d))"
    "record_id auth_contracts_schema (auth_contract_record (entry, c, d)) = rd_contract_id d"
proof -
  have r: "auth_contract_record (entry, c, d) = JObj ([(''auth_contract_id'', JStr (rd_contract_id d)), (''entry_id'', JStr entry),
      (''auth_context'', JStr (ac_context c)), (''evidence_ids'', JArr (map JStr (ac_evidence_ids c))),
      (''assumptions'', JArr (map JStr (ac_assumptions c))), (''confidence'', JStr (ac_confidence c))])"
    by (simp add: auth_contract_record_def auth_to_dict_def members_def)
  have i: "artifact_id_ok auth_contracts_schema (JStr (rd_contract_id d))"
    unfolding assms(3) contract_identifier_def
  proof (rule artifact_id_hex)
    show "map_of id_prefixes (as_id auth_contracts_schema) = Some ''auth_contract:''"
      by (simp add: auth_contracts_schema_def make_schema_def id_prefixes_def)
    show "list_all is_hex (sha256_hex (i @ py_repr (auth_to_dict c)))" by (rule sha256_hex_is_hex)
    have "length (sha256_hex (i @ py_repr (auth_to_dict c))) = 64" by simp
    then show "sha256_hex (i @ py_repr (auth_to_dict c)) \<noteq> []" by force
  qed simp
  have n: "rd_contract_id d \<noteq> []" "ac_context c \<noteq> []" "ac_confidence c \<noteq> []"
    using assms(1,3) by (auto simp: contract_identifier_def wf_contract_def auth_contexts_def)
  show "fits auth_contracts_schema (auth_contract_record (entry, c, d))"
    unfolding fits_def r using i n assms(1,2)
    by (simp add: auth_contracts_schema_def make_schema_def has_fields_def validated_def wf_contract_def auth_contexts_def)
  show "record_id auth_contracts_schema (auth_contract_record (entry, c, d)) = rd_contract_id d"
    by (simp add: r record_id_def auth_contracts_schema_def make_schema_def)
qed

lemma auth_decision_fits:
  assumes "wf_decision d" "identified d"
  shows "fits reachability_decisions_schema (decision_to_dict d)" "record_id reachability_decisions_schema (decision_to_dict d) = rd_id d"
proof -
  have i: "artifact_id_ok reachability_decisions_schema (JStr (rd_id d))"
    unfolding assms(2)[unfolded identified_def]
    by (rule artifact_id_stable) (simp_all add: reachability_decisions_schema_def make_schema_def id_prefixes_def)
  have e: "rd_context d \<in> set auth_contexts" "rd_deployment d \<in> set deployment_statuses" "rd_status d \<in> set reachability_statuses"
    "rd_entry_id d \<noteq> []" "rd_contract_id d \<noteq> []"
    using assms(1)[unfolded wf_decision_def text_field_def good_string_def] by blast+
  have "[] \<notin> set auth_contexts" "[] \<notin> set deployment_statuses" "[] \<notin> set reachability_statuses"
    by (simp_all add: auth_contexts_def deployment_statuses_def reachability_statuses_def)
  then have n: "rd_id d \<noteq> []" "rd_context d \<noteq> []" "rd_deployment d \<noteq> []" "rd_status d \<noteq> []"
    using e(1-3) assms(2) by (metis identified_def stable_identifier_nonempty)+
  show "fits reachability_decisions_schema (decision_to_dict d)"
    unfolding fits_def using i n e
    by (simp add: reachability_decisions_schema_def make_schema_def has_fields_def validated_def decision_to_dict_def
        decision_semantic_identity_def auth_contexts_def deployment_statuses_def reachability_statuses_def)
  show "record_id reachability_decisions_schema (decision_to_dict d) = rd_id d"
    by (simp add: decision_to_dict_def record_id_def reachability_decisions_schema_def make_schema_def)
qed

end
