(* ===== verification/StageLaws.thy ===== *)
theory StageLaws
  imports SchemaRecords
begin

text \<open>
  What the candidate loop of the growth stage adds: at most one record of each kind for a candidate, under the
  candidate's identifier, and an invariant of the records that the whole loop keeps.
\<close>

section \<open>What one candidate adds\<close>

definition at_most_one :: "('a \<Rightarrow> bool) \<Rightarrow> 'a list \<Rightarrow> bool" where
  "at_most_one P xs \<longleftrightarrow> length xs \<le> 1 \<and> list_all P xs"

lemma at_most_one_simps [simp]: "at_most_one P []" "at_most_one P [x] \<longleftrightarrow> P x"
  by (simp_all add: at_most_one_def)

text \<open>The disposition keeps the entry, the links and the association status it started from.\<close>

definition disposes :: "candidate_disposition \<Rightarrow> candidate_disposition \<Rightarrow> bool" where
  "disposes a d \<longleftrightarrow> cd_association d = cd_association a"

definition own_proof :: "growth_candidate \<Rightarrow> negative_proof \<Rightarrow> bool" where
  "own_proof c n \<longleftrightarrow> CandidateNegativeProof n = Inr n \<and> np_growth_id n = growth_id c \<and> np_evidence n = usort (g_evidence c)"

definition own_applicability :: "growth_candidate \<Rightarrow> applicability_decision \<Rightarrow> bool" where
  "own_applicability c x \<longleftrightarrow> ApplicabilityDecision x = Inr x \<and> ap_growth_id x = growth_id c"

definition own_contract :: "growth_inputs \<Rightarrow> growth_candidate \<Rightarrow> string \<times> growth_contract \<Rightarrow> bool" where
  "own_contract gi c gc \<longleftrightarrow> fst gc = growth_id c \<and> (\<exists>b. gi_classify gi b = Inr (snd gc))"

definition own_verification :: "growth_candidate \<Rightarrow> verified_growth \<Rightarrow> bool" where
  "own_verification c v \<longleftrightarrow> (\<exists>b k index. verify_growth_contract c b k index = Inr v) \<and> vg_growth_id v = growth_id c"

definition adds :: "growth_inputs \<Rightarrow> growth_candidate \<Rightarrow> entry_link list \<Rightarrow> candidate_disposition \<Rightarrow> growth_records \<Rightarrow> growth_records \<Rightarrow> bool" where
  "adds gi c links a s s' \<longleftrightarrow> gs_links s' = gs_links s @ links
     \<and> (\<exists>d. gs_dispositions s' = gs_dispositions s @ [d] \<and> disposes a d)
     \<and> (\<exists>ns. gs_negatives s' = gs_negatives s @ ns \<and> at_most_one (own_proof c) ns)
     \<and> (\<exists>xs. gs_repeatability s' = gs_repeatability s @ xs \<and> at_most_one (own_applicability c) xs)
     \<and> (\<exists>xs. gs_amplification s' = gs_amplification s @ xs \<and> at_most_one (own_applicability c) xs)
     \<and> (\<exists>ks. gs_contracts s' = gs_contracts s @ ks \<and> at_most_one (own_contract gi c) ks)
     \<and> (\<exists>vs. gs_verified s' = gs_verified s @ vs \<and> at_most_one (own_verification c) vs)
     \<and> fst ` set (gs_auth s') \<subseteq> fst ` set (gs_auth s) \<union> fst ` set (gi_entries gi)"

lemma negative_created_own:
  assumes "negative_create (growth_id c) kind (g_evidence c) reasons = Inr n"
  shows "own_proof c n"
proof -
  have "np_evidence n = usort (g_evidence c)" using assms by (simp add: negative_create_Inr Let_def)
  then show ?thesis using negative_created(2,3)[OF assms] by (simp add: own_proof_def)
qed

lemma negative_relevance_own: "negative_proof_for_relevance c rs = Inr n \<Longrightarrow> own_proof c n"
  by (auto simp: negative_proof_for_relevance_def negative_created_own split: list.splits)

lemma reject_shape:
  assumes "reject_candidate s c a negative reasons = Inr s'" "\<And>n. negative = Inr n \<Longrightarrow> own_proof c n"
  shows "\<exists>n d. s' = s\<lparr>gs_negatives := gs_negatives s @ [n], gs_dispositions := gs_dispositions s @ [d]\<rparr> \<and> own_proof c n \<and> disposes a d"
proof -
  obtain n d where n: "negative = Inr n" "mature_disposition c a ''rejected'' None reasons [] [np_id n] = Inr d"
    "s' = s\<lparr>gs_negatives := gs_negatives s @ [n], gs_dispositions := gs_dispositions s @ [d]\<rparr>"
    using assms(1) by (auto simp: reject_candidate_def res_bind_Inr_iff)
  show ?thesis using assms(2)[OF n(1)] mature_disposition_fields(6)[OF n(2)] n(3) by (auto simp: disposes_def)
qed

lemma reject_adds:
  assumes "reject_candidate s c a negative reasons = Inr s'" "\<And>n. negative = Inr n \<Longrightarrow> own_proof c n"
  shows "adds gi c [] a s s'"
  using reject_shape[OF assms] by (auto simp: adds_def)

lemma dispose_adds:
  assumes "mature_disposition c a st rs reasons evidence negatives = Inr d"
  shows "adds gi c [] a s (s\<lparr>gs_dispositions := gs_dispositions s @ [d]\<rparr>)"
  using mature_disposition_fields(6)[OF assms] by (simp add: adds_def disposes_def)

lemma applicability_created:
  assumes "applicability_create kind entry growth status evidence reasons = Inr x"
  shows "ApplicabilityDecision x = Inr x" "ap_growth_id x = growth"
proof -
  have i: "ApplicabilityDecision y = Inr z \<Longrightarrow> z = y" for y z
    by (auto simp: ApplicabilityDecision_def res_bind_Inr_iff split: if_split_asm)
  show "ApplicabilityDecision x = Inr x" using assms i by (auto simp: applicability_create_def Let_def)
  show "ap_growth_id x = growth" using assms by (simp add: applicability_create_Inr Let_def)
qed

lemma record_applicability_adds:
  assumes "record_applicability s e c l = Inr s'"
  shows "\<exists>r p. s' = s\<lparr>gs_repeatability := gs_repeatability s @ [r], gs_amplification := gs_amplification s @ [p]\<rparr>
    \<and> own_applicability c r \<and> own_applicability c p"
  using assms applicability_created
  by (auto simp: record_applicability_def res_bind_Inr_iff own_applicability_def split: prod.splits) blast

lemma decide_entry_adds:
  assumes "decide_entry gi s i = Inr (s', d)"
  shows "\<exists>new. s' = s\<lparr>gs_auth := gs_auth s @ new\<rparr> \<and> fst ` set new \<subseteq> {i}"
  using assms by (fastforce simp: decide_entry_def res_bind_Inr_iff split: option.splits prod.splits intro: exI[of _ "[]"])

lemma check_growth_adds:
  assumes "check_growth gi s e c = Inr (s', v)"
  shows "\<exists>k. s' = s\<lparr>gs_contracts := gs_contracts s @ [k], gs_verified := gs_verified s @ [v]\<rparr> \<and> own_contract gi c k \<and> own_verification c v"
proof -
  obtain b k where b: "gi_classify gi b = Inr k"
    "verify_growth_contract c b k (index_by fact_id (sp_facts (slice_body b))) = Inr v"
    "s' = s\<lparr>gs_contracts := gs_contracts s @ [(growth_id c, k)], gs_verified := gs_verified s @ [v]\<rparr>"
    using assms by (auto simp: check_growth_def res_bind_Inr_iff Let_def validate_contract_static_evidence_def split: if_split_asm)
  show ?thesis
    using b verified_created[OF b(2)] by (auto simp: own_contract_def own_verification_def)
qed

lemma mature_linked_adds:
  assumes m: "mature_linked gi s c a gate e l = Inr s'" and e: "entry_id e \<in> fst ` set (gi_entries gi)"
  shows "adds gi c [] a s s'"
proof -
  let ?status = "maturation_status a gate"
  obtain s1 s2 decision where s1: "record_applicability s e c l = Inr s1"
    and s2: "decide_entry gi s1 (entry_id e) = Inr (s2, decision)"
    using m by (auto simp: mature_linked_def Let_def res_bind_Inr_iff)
  obtain r p where r: "s1 = s\<lparr>gs_repeatability := gs_repeatability s @ [r], gs_amplification := gs_amplification s @ [p]\<rparr>"
    "own_applicability c r" "own_applicability c p" using record_applicability_adds[OF s1] by blast
  obtain new where n: "s2 = s1\<lparr>gs_auth := gs_auth s1 @ new\<rparr>" "fst ` set new \<subseteq> {entry_id e}" using decide_entry_adds[OF s2] by blast
  have known: "fst ` set (gs_auth s2) \<subseteq> fst ` set (gs_auth s) \<union> fst ` set (gi_entries gi)"
  proof -
    have g: "gs_auth s2 = gs_auth s @ new" using n(1) r(1) by simp
    have "fst ` set new \<subseteq> fst ` set (gi_entries gi)" 
      by (rule subset_trans[OF n(2)]) (simp only: insert_subset empty_subsetI e simp_thms)
    then show ?thesis unfolding g set_append image_Un by blast
  qed
  note rest = m[unfolded mature_linked_def Let_def s1 s2 res_bind_simps prod.case]
  show ?thesis
  proof (cases "rd_status decision = ''not_entry_reachable''")
    case True
    then have rej: "reject_candidate s2 c a
          (negative_create (growth_id c) ''not_entry_reachable'' (g_evidence c) [''NEGATIVE_NOT_ENTRY_REACHABLE''])
          (relevance_reasons a gate @ rd_reasons decision @ [''MATURATION_NOT_ENTRY_REACHABLE'']) = Inr s'"
      using rest by simp
    have own: "own_proof c n"
      if "negative_create (growth_id c) ''not_entry_reachable'' (g_evidence c) [''NEGATIVE_NOT_ENTRY_REACHABLE''] = Inr n" for n
      by (rule negative_created_own[OF that])
    obtain n d where "s' = s2\<lparr>gs_negatives := gs_negatives s2 @ [n], gs_dispositions := gs_dispositions s2 @ [d]\<rparr>"
      "own_proof c n" "disposes a d" using reject_shape[OF rej own] by blast
    then show ?thesis using known r(2,3) unfolding adds_def n(1) r(1) by simp
  next
    case False
    then have "res_bind (check_growth gi s2 e c) (\<lambda>(s, result).
        res_bind (mature_disposition c a ?status (Some (rv_status gate))
            (relevance_reasons a gate @ [maturation_reason ?status]) [verified_growth_id result] []) (\<lambda>d.
        Inr (s\<lparr>gs_dispositions := gs_dispositions s @ [d]\<rparr>))) = Inr s'"
      using rest by simp
    then obtain s3 v d where s3: "check_growth gi s2 e c = Inr (s3, v)"
      and d: "mature_disposition c a ?status (Some (rv_status gate))
            (relevance_reasons a gate @ [maturation_reason ?status]) [verified_growth_id v] [] = Inr d"
      and s': "s' = s3\<lparr>gs_dispositions := gs_dispositions s3 @ [d]\<rparr>"
      by (auto simp: res_bind_Inr_iff)
    obtain k where k: "s3 = s2\<lparr>gs_contracts := gs_contracts s2 @ [k], gs_verified := gs_verified s2 @ [v]\<rparr>"
      "own_contract gi c k" "own_verification c v" using check_growth_adds[OF s3] by blast
    have "disposes a d" using mature_disposition_fields(6)[OF d] by (simp add: disposes_def)
    then show ?thesis using known r(2,3) k(2,3) unfolding adds_def s' k(1) n(1) r(1) by simp
  qed
qed

lemma adds_links: "adds gi c [] a (s\<lparr>gs_links := gs_links s @ links\<rparr>) s' \<Longrightarrow> adds gi c links a s s'"
  by (simp add: adds_def)

lemma mature_candidate_adds:
  assumes m: "mature_candidate gi s c = Inr s'" and i: "inputs_ok gi"
  shows "\<exists>links a. candidate_association (gi_entries gi) c (gi_association_rows gi) (gi_flow_rows gi) = Inr (links, a)
    \<and> adds gi c links a s s'"
proof -
  obtain links a where la: "candidate_association (gi_entries gi) c (gi_association_rows gi) (gi_flow_rows gi) = Inr (links, a)"
    using m by (auto simp: mature_candidate_def res_bind_Inr_iff)
  let ?s = "s\<lparr>gs_links := gs_links s @ links\<rparr>"
  let ?entry = "case links of [l] \<Rightarrow> res_bind (item (map_of (gi_entries gi)) (el_entry_id l)) (\<lambda>e. Inr (Some e)) | _ \<Rightarrow> Inr None"
  note rest = m[unfolded mature_candidate_def la res_bind_simps prod.case Let_def]
  obtain entry gate where entry: "?entry = Inr entry" and g: "evaluate_candidate_relevance entry c links = Inr gate"
    using rest by (auto simp: res_bind_Inr_iff)
  note rest = rest[unfolded entry res_bind_simps g]
  let ?unresolved = "res_bind (mature_disposition c a ''inventory_unresolved'' None
      (relevance_reasons a gate @ [''MATURATION_INVENTORY_UNRESOLVED'']) [] []) (\<lambda>d. Inr (?s\<lparr>gs_dispositions := gs_dispositions ?s @ [d]\<rparr>))"
  have un: "adds gi c [] a ?s s'" if U: "?unresolved = Inr s'"
    using U dispose_adds[of c a _ _ _ _ _ _ gi ?s] by (auto simp: res_bind_Inr_iff)
  have "adds gi c [] a ?s s'"
  proof (cases "rv_status gate = ''rejected''")
    case True
    then have r: "reject_candidate ?s c a (negative_proof_for_relevance c (rv_reasons gate))
         (relevance_reasons a gate @ [''MATURATION_SOURCE_PROVEN_NEGATIVE'']) = Inr s'"
      using rest by simp
    show ?thesis by (rule reject_adds[OF r negative_relevance_own])
  next
    case nr: False
    show ?thesis
    proof (cases "rv_status gate = ''unresolved'' \<or> cd_status a = ''inventory_unresolved''")
      case True
      then show ?thesis using rest nr un by simp
    next
      case False
      show ?thesis
      proof (cases "\<exists>e l. entry = Some e \<and> links = [l]")
        case True
        then obtain e l where el: "entry = Some e" "links = [l]" by blast
        then have "item (map_of (gi_entries gi)) (el_entry_id l) = Inr e" using entry by (auto simp: res_bind_Inr_iff)
        then have me: "(el_entry_id l, e) \<in> set (gi_entries gi)" by (auto simp: item_def split: option.splits dest: map_of_SomeD)
        then have "entry_id e \<in> fst ` set (gi_entries gi)" using entries_okD(1)[OF _ me] i by (force simp: inputs_ok_def)
        moreover have "mature_linked gi ?s c a gate e l = Inr s'" using rest nr False el by simp
        ultimately show ?thesis by (intro mature_linked_adds)
      next
        case none: False
        then have "(case (entry, links) of (Some entry, [link]) \<Rightarrow> mature_linked gi ?s c a gate entry link | _ \<Rightarrow> ?unresolved) = ?unresolved"
          by (auto split: option.splits list.splits)
        then show ?thesis using rest nr False un by simp
      qed
    qed
  qed
  then show ?thesis using la adds_links by blast
qed

section \<open>Identifiers within an association\<close>

definition keyed_groups :: "('a \<Rightarrow> 'k) \<Rightarrow> ('k \<times> 'a list) list \<Rightarrow> bool" where
  "keyed_groups key gs \<longleftrightarrow> distinct (map fst gs) \<and> (\<forall>(k, ys) \<in> set gs. ys \<noteq> [] \<and> (\<forall>y \<in> set ys. key y = k))"

lemma group_append_keys: "fst ` set (group_append k x gs) = insert k (fst ` set gs)"
  by (induction k x gs rule: group_append.induct) auto

lemma keyed_group_append: "keyed_groups key gs \<Longrightarrow> keyed_groups key (group_append (key x) x gs)"
proof (induction "key x" x gs rule: group_append.induct)
  case (2 x l xs gs)
  show ?case
  proof (cases "key x = l")
    case True
    then show ?thesis using 2(2) by (auto simp: keyed_groups_def)
  next
    case False
    then show ?thesis using 2 group_append_keys[of "key x" x gs] by (auto simp: keyed_groups_def)
  qed
qed (simp add: keyed_groups_def)

lemma distinct_dict_values: "distinct (map key (dict_values key xs))"
proof -
  have f: "keyed_groups key gs \<Longrightarrow> keyed_groups key (fold (\<lambda>x. group_append (key x) x) xs gs)" for gs
    by (induction xs arbitrary: gs) (simp_all add: keyed_group_append)
  have "keyed_groups key []" by (simp add: keyed_groups_def)
  note k = f[OF this]
  have g: "map (key \<circ> (last \<circ> snd)) gs = map fst gs" if "keyed_groups key gs" for gs
    using that by (auto simp: keyed_groups_def)
  have "distinct (map fst (fold (\<lambda>x. group_append (key x) x) xs []))" using k by (simp only: keyed_groups_def)
  then show ?thesis unfolding dict_values_def map_map g[OF k] .
qed

lemma linked_association_ids:
  assumes "linked_association entries c linked = Inr (links, a)" "distinct (map el_id linked)"
  shows "distinct (map el_id links)"
proof -
  have "\<exists>l. links = [l]" if "canonicalized c i st rs = Inr (links, a)" for i st rs
    using that by (auto simp: canonicalized_def res_bind_Inr_iff)
  then have "links = linked \<or> links = [] \<or> (\<exists>l. links = [l])"
    using assms(1) by (auto simp: linked_association_def Let_def res_bind_Inr_iff split: if_split_asm)
  then show ?thesis using assms(2) by auto
qed

lemma map_res_length: "map_res f xs = Inr ys \<Longrightarrow> length ys = length xs"
  using map_res_Inr_D list_all2_lengthD by metis

lemma source_order_links_length: "source_order_links c rows matches = Inr (links, a) \<Longrightarrow> length links = length matches"
  by (auto simp: source_order_links_def Let_def res_bind_Inr_iff dest: map_res_length)

lemma source_order_ids:
  assumes "source_order_association entries c rows = Inr (links, a)"
  shows "length links \<le> 1"
  using assms source_order_links_length[of c rows _ links a]
  by (fastforce simp: source_order_association_def Let_def res_bind_Inr_iff split: if_split_asm sum.splits py_exc.splits)

lemma association_ids:
  assumes "candidate_association entries c rows flow_rows = Inr (links, a)"
  shows "distinct (map el_id links)"
proof -
  obtain linked where l: "query_links (map snd entries) c rows flow_rows = Inr linked"
    using assms by (auto simp: candidate_association_def res_bind_Inr_iff)
  show ?thesis
  proof (cases "linked = []")
    case True
    then have "length links \<le> 1" using assms l source_order_ids by (simp add: candidate_association_def)
    then show ?thesis by (cases links) auto
  next
    case False
    then show ?thesis using assms l linked_association_ids[OF _ distinct_dict_values] by (simp add: candidate_association_def)
  qed
qed

section \<open>Records with a key\<close>

text \<open>Per key the identifiers are distinct; identifiers that coincide belong to one key.\<close>

definition keyed :: "('a \<Rightarrow> string) \<Rightarrow> ('a \<Rightarrow> string) \<Rightarrow> 'a list \<Rightarrow> bool" where
  "keyed f g xs \<longleftrightarrow> (\<forall>k. distinct (map f (filter (\<lambda>x. g x = k) xs)))"

definition separate :: "('a \<Rightarrow> string) \<Rightarrow> ('a \<Rightarrow> string) \<Rightarrow> 'a list \<Rightarrow> bool" where
  "separate f g xs \<longleftrightarrow> (\<forall>x \<in> set xs. \<forall>y \<in> set xs. f x = f y \<longrightarrow> g x = g y)"

lemma keyed_append:
  assumes "keyed f g xs" "k \<notin> g ` set xs" "\<forall>y \<in> set ys. g y = k" "distinct (map f ys)"
  shows "keyed f g (xs @ ys)"
  unfolding keyed_def
proof
  fix j
  show "distinct (map f (filter (\<lambda>x. g x = j) (xs @ ys)))"
  proof (cases "j = k")
    case True
    then have "filter (\<lambda>x. g x = j) xs = []" "filter (\<lambda>x. g x = j) ys = ys"
      using assms(2,3) by (auto simp: filter_empty_conv filter_id_conv)
    then show ?thesis using assms(4) by simp
  next
    case False
    then have "filter (\<lambda>x. g x = j) ys = []" using assms(3) by (auto simp: filter_empty_conv)
    then show ?thesis using assms(1) by (simp add: keyed_def)
  qed
qed

lemma keyed_distinct: "keyed f g xs \<Longrightarrow> separate f g xs \<Longrightarrow> distinct (map f xs)"
proof (induction xs)
  case (Cons x xs)
  have "keyed f g xs"
    unfolding keyed_def
  proof
    fix k show "distinct (map f (filter (\<lambda>x. g x = k) xs))"
    proof -
      have "distinct (map f (filter (\<lambda>x. g x = k) (x # xs)))" using Cons.prems(1) by (simp only: keyed_def)
      then show ?thesis by (simp split: if_splits)
    qed
  qed
  moreover have "separate f g xs" using Cons.prems(2) unfolding separate_def by (meson list.set_intros(2))
  ultimately have "distinct (map f xs)" by (rule Cons.IH)
  moreover have "f x \<notin> f ` set xs"
  proof
    assume "f x \<in> f ` set xs"
    then obtain y where y: "y \<in> set xs" "f y = f x" by auto
    then have "g y = g x" using Cons.prems(2) unfolding separate_def by (meson list.set_intros)
    moreover have "distinct (map f (filter (\<lambda>z. g z = g x) (x # xs)))" using Cons.prems(1) by (simp only: keyed_def)
    moreover have "f y \<in> f ` {z \<in> set xs. g z = g x}" using y(1) \<open>g y = g x\<close> by blast
    ultimately show False using y(2) by simp
  qed
  ultimately show ?case by simp
qed simp

lemma distinct_separate: "distinct (map g xs) \<Longrightarrow> separate f g xs \<Longrightarrow> distinct (map f xs)"
  unfolding distinct_map separate_def inj_on_def by blast

text \<open>Records whose keys come from a set, each with a property.\<close>

definition kept :: "('a \<Rightarrow> bool) \<Rightarrow> ('a \<Rightarrow> string) \<Rightarrow> ('a \<Rightarrow> string) \<Rightarrow> string set \<Rightarrow> 'a list \<Rightarrow> bool" where
  "kept P f g D xs \<longleftrightarrow> keyed f g xs \<and> (\<forall>x \<in> set xs. P x \<and> g x \<in> D)"

lemma kept_Nil [simp]: "kept P f g D []"
  by (simp add: kept_def keyed_def)

lemma kept_append:
  assumes "kept P f g D xs" "k \<notin> D" "\<forall>y \<in> set ys. P y \<and> g y = k" "distinct (map f ys)"
  shows "kept P f g (insert k D) (xs @ ys)"
proof -
  have "k \<notin> g ` set xs" using assms(1,2) by (auto simp: kept_def)
  then have "keyed f g (xs @ ys)" using assms by (intro keyed_append) (auto simp: kept_def)
  then show ?thesis using assms(1,3) by (auto simp: kept_def)
qed

lemma kept_append_one:
  assumes "kept P f g D xs" "k \<notin> D" "at_most_one Q ys" "\<And>y. Q y \<Longrightarrow> P y \<and> g y = k"
  shows "kept P f g (insert k D) (xs @ ys)"
proof (rule kept_append[OF assms(1,2)])
  show "\<forall>y \<in> set ys. P y \<and> g y = k" using assms(3,4) by (auto simp: at_most_one_def list_all_iff)
  show "distinct (map f ys)" using assms(3) by (cases ys) (auto simp: at_most_one_def)
qed

lemma kept_mono: "kept P f g D xs \<Longrightarrow> (\<And>x. P x \<Longrightarrow> Q x) \<Longrightarrow> kept Q f g D xs"
  by (auto simp: kept_def)

lemma kept_distinct: "kept P f g D xs \<Longrightarrow> separate f g xs \<Longrightarrow> distinct (map f xs)"
  unfolding kept_def by (blast intro: keyed_distinct)

section \<open>The records of the loop\<close>

definition backed :: "growth_inputs \<Rightarrow> entry_link list \<Rightarrow> negative_proof list \<Rightarrow> candidate_disposition \<Rightarrow> bool" where
  "backed gi ls ns d \<longleftrightarrow> CandidateDisposition d = Inr d \<and> (cd_entry_id d = [] \<or> cd_entry_id d \<in> fst ` set (gi_entries gi))
     \<and> (eligible_status (cd_status d) \<longrightarrow> (\<exists>l \<in> set ls. cd_link_ids d = [el_id l] \<and> el_growth_id l = cd_growth_id d
          \<and> el_entry_id l = cd_entry_id d \<and> el_status l = cd_association d))
     \<and> set (cd_link_ids d) \<subseteq> el_id ` set ls
     \<and> (\<forall>p \<in> set (cd_negative_ids d). \<exists>n \<in> set ns. np_id n = p \<and> np_growth_id n = cd_growth_id d)"

lemma backed_mono: "backed gi ls ns d \<Longrightarrow> backed gi (ls @ ls') (ns @ ns') d"
  unfolding backed_def set_append by blast

definition stage_kept :: "growth_inputs \<Rightarrow> growth_candidate list \<Rightarrow> string set \<Rightarrow> growth_records \<Rightarrow> bool" where
  "stage_kept gi cs D s \<longleftrightarrow>
     kept (\<lambda>l. CandidateEntryLink l = Inr l \<and> el_entry_id l \<in> fst ` set (gi_entries gi)) el_id el_growth_id D (gs_links s)
     \<and> kept (\<lambda>n. \<exists>c \<in> set cs. own_proof c n) np_id np_growth_id D (gs_negatives s)
     \<and> kept (\<lambda>x. ApplicabilityDecision x = Inr x) ap_id ap_growth_id D (gs_repeatability s)
     \<and> kept (\<lambda>x. ApplicabilityDecision x = Inr x) ap_id ap_growth_id D (gs_amplification s)
     \<and> kept (\<lambda>k. \<exists>b. gi_classify gi b = Inr (snd k)) (\<lambda>k. contract_identifier_of (fst k) (snd k)) fst D (gs_contracts s)
     \<and> kept (\<lambda>v. \<exists>c b k index. verify_growth_contract c b k index = Inr v) verified_growth_id vg_growth_id D (gs_verified s)
     \<and> kept (backed gi (gs_links s) (gs_negatives s)) cd_id cd_growth_id D (gs_dispositions s)
     \<and> fst ` set (gs_auth s) \<subseteq> fst ` set (gi_entries gi)"

lemma stage_keptD:
  assumes "stage_kept gi cs D s"
  shows "kept (\<lambda>l. CandidateEntryLink l = Inr l \<and> el_entry_id l \<in> fst ` set (gi_entries gi)) el_id el_growth_id D (gs_links s)"
    "kept (\<lambda>n. \<exists>c \<in> set cs. own_proof c n) np_id np_growth_id D (gs_negatives s)"
    "kept (\<lambda>x. ApplicabilityDecision x = Inr x) ap_id ap_growth_id D (gs_repeatability s)"
    "kept (\<lambda>x. ApplicabilityDecision x = Inr x) ap_id ap_growth_id D (gs_amplification s)"
    "kept (\<lambda>k. \<exists>b. gi_classify gi b = Inr (snd k)) (\<lambda>k. contract_identifier_of (fst k) (snd k)) fst D (gs_contracts s)"
    "kept (\<lambda>v. \<exists>c b k index. verify_growth_contract c b k index = Inr v) verified_growth_id vg_growth_id D (gs_verified s)"
    "kept (backed gi (gs_links s) (gs_negatives s)) cd_id cd_growth_id D (gs_dispositions s)"
    "fst ` set (gs_auth s) \<subseteq> fst ` set (gi_entries gi)"
  using assms unfolding stage_kept_def by blast+

lemma stage_kept_none: "stage_kept gi cs {} no_records"
  by (simp add: stage_kept_def no_records_def)

lemma matured_backed:
  assumes m: "matured gi auth c (links, d, ns, vs)" and i: "inputs_ok gi"
    and a: "sound_in gi c links a" "disposes a d"
  shows "backed gi (ls @ links) (ks @ ns) d" "cd_growth_id d = growth_id c"
proof -
  have common: "CandidateDisposition d = Inr d" "cd_growth_id d = growth_id c" "cd_link_ids d = usort (map el_id links)"
    "cd_entry_id d = canonical_id links" "\<forall>l \<in> set links. valid_link (gi_entries gi) c l" using m by simp_all
  show "cd_growth_id d = growth_id c" by (fact common)
  have "cd_entry_id d = [] \<or> cd_entry_id d \<in> fst ` set (gi_entries gi)"
    using common(4,5) by (cases links; cases "tl links") (auto simp: canonical_id_def valid_link_def)
  moreover have "\<exists>l \<in> set links. cd_link_ids d = [el_id l] \<and> el_growth_id l = cd_growth_id d
      \<and> el_entry_id l = cd_entry_id d \<and> el_status l = cd_association d" if e: "eligible_status (cd_status d)"
  proof -
    have "eligibility_backed gi c auth links d ns vs" using m e by (auto simp: eligible_status_def)
    then obtain l where l: "links = [l]" by (auto simp: eligibility_backed_def)
    have "cd_association a = el_status l" using a(1) l by (simp add: sound_in_def association_sound_def)
    then show ?thesis using l common a(2) by (simp add: canonical_id_def valid_link_def disposes_def)
  qed
  moreover have "\<exists>n \<in> set ns. np_id n = p \<and> np_growth_id n = cd_growth_id d" if p: "p \<in> set (cd_negative_ids d)" for p
  proof (cases "cd_status d = ''rejected''")
    case True
    then have "rejection_backed c auth d ns vs" using m by simp
    then show ?thesis using p common(2) by (auto simp: rejection_backed_def)
  next
    case False
    then have "cd_negative_ids d = []" using CandidateDisposition_parts[OF common(1)] by blast
    then show ?thesis using p by simp
  qed
  moreover have "set (cd_link_ids d) = el_id ` set links" using common(3) by simp
  ultimately show "backed gi (ls @ links) (ks @ ns) d" using common(1) unfolding backed_def set_append by blast
qed

lemma mature_candidate_keeps:
  assumes m: "mature_candidate gi s c = Inr s'" and i: "inputs_ok gi" and c: "candidate_ok c" "c \<in> set cs"
    and ao: "auth_ok gi s" and k: "stage_kept gi cs D s" "growth_id c \<notin> D"
  shows "stage_kept gi cs (insert (growth_id c) D) s'"
proof -
  obtain links a where la: "candidate_association (gi_entries gi) c (gi_association_rows gi) (gi_flow_rows gi) = Inr (links, a)"
    and ad: "adds gi c links a s s'" using mature_candidate_adds[OF m i] by blast
  have sound: "sound_in gi c links a"
    using association_decides[of "gi_entries gi" c "gi_association_rows gi" "gi_flow_rows gi"] i c la
    by (simp add: inputs_ok_def sound_in_def)
  obtain d ns rs ams ks vs where parts: "gs_links s' = gs_links s @ links" "gs_dispositions s' = gs_dispositions s @ [d]"
    "disposes a d" "gs_negatives s' = gs_negatives s @ ns" "at_most_one (own_proof c) ns"
    "gs_repeatability s' = gs_repeatability s @ rs" "at_most_one (own_applicability c) rs"
    "gs_amplification s' = gs_amplification s @ ams" "at_most_one (own_applicability c) ams"
    "gs_contracts s' = gs_contracts s @ ks" "at_most_one (own_contract gi c) ks"
    "gs_verified s' = gs_verified s @ vs" "at_most_one (own_verification c) vs"
    "fst ` set (gs_auth s') \<subseteq> fst ` set (gs_auth s) \<union> fst ` set (gi_entries gi)"
    using ad unfolding adds_def by metis
  obtain out where "extends s out s'" "matured gi (gs_auth s') c out" using mature_candidate_outcome[OF m i c(1) ao] by blast
  then obtain ws where mat: "matured gi (gs_auth s') c (links, d, ns, ws)"
    by (cases out) (simp add: extends_def parts del: matured.simps)
  note kd = stage_keptD[OF k(1)]
  note bk = matured_backed[OF mat i sound parts(3)]
  have valid: "\<forall>l \<in> set links. valid_link (gi_entries gi) c l" using mat by simp
  show ?thesis
    unfolding stage_kept_def parts(1,2,4,6,8,10,12)
  proof (intro conjI)
    show "kept (\<lambda>l. CandidateEntryLink l = Inr l \<and> el_entry_id l \<in> fst ` set (gi_entries gi)) el_id el_growth_id
        (insert (growth_id c) D) (gs_links s @ links)"
      by (rule kept_append[OF kd(1) k(2) _ association_ids[OF la]]) (use valid in \<open>simp add: valid_link_def\<close>)
    show "kept (\<lambda>n. \<exists>c \<in> set cs. own_proof c n) np_id np_growth_id (insert (growth_id c) D) (gs_negatives s @ ns)"
      by (rule kept_append_one[OF kd(2) k(2) parts(5)]) (use c(2) in \<open>auto simp: own_proof_def\<close>)
    show "kept (\<lambda>x. ApplicabilityDecision x = Inr x) ap_id ap_growth_id (insert (growth_id c) D) (gs_repeatability s @ rs)"
      by (rule kept_append_one[OF kd(3) k(2) parts(7)]) (simp add: own_applicability_def)
    show "kept (\<lambda>x. ApplicabilityDecision x = Inr x) ap_id ap_growth_id (insert (growth_id c) D) (gs_amplification s @ ams)"
      by (rule kept_append_one[OF kd(4) k(2) parts(9)]) (simp add: own_applicability_def)
    show "kept (\<lambda>k. \<exists>b. gi_classify gi b = Inr (snd k)) (\<lambda>k. contract_identifier_of (fst k) (snd k)) fst
        (insert (growth_id c) D) (gs_contracts s @ ks)"
      by (rule kept_append_one[OF kd(5) k(2) parts(11)]) (simp add: own_contract_def)
    show "kept (\<lambda>v. \<exists>c b k index. verify_growth_contract c b k index = Inr v) verified_growth_id vg_growth_id
        (insert (growth_id c) D) (gs_verified s @ vs)"
      by (rule kept_append_one[OF kd(6) k(2) parts(13)]) (unfold own_verification_def, blast)
    have "kept (backed gi (gs_links s @ links) (gs_negatives s @ ns)) cd_id cd_growth_id D (gs_dispositions s)"
      by (rule kept_mono[OF kd(7) backed_mono])
    then show "kept (backed gi (gs_links s @ links) (gs_negatives s @ ns)) cd_id cd_growth_id (insert (growth_id c) D)
        (gs_dispositions s @ [d])"
      by (rule kept_append[OF _ k(2)]) (simp_all add: bk)
    show "fst ` set (gs_auth s') \<subseteq> fst ` set (gi_entries gi)" using kd(8) parts(14) by blast
  qed
qed

lemma mature_candidates_keep:
  assumes "fold_res (mature_candidate gi) s cs = Inr s'" "inputs_ok gi" "\<forall>c \<in> set cs. candidate_ok c" "set cs \<subseteq> set all"
    "auth_ok gi s" "stage_kept gi all D s" "distinct (map growth_id cs)" "D \<inter> growth_id ` set cs = {}"
  shows "stage_kept gi all (D \<union> growth_id ` set cs) s' \<and> auth_ok gi s'"
  using assms
proof (induction cs arbitrary: s D)
  case (Cons c cs)
  obtain s1 where s1: "mature_candidate gi s c = Inr s1" "fold_res (mature_candidate gi) s1 cs = Inr s'"
    using Cons.prems(1) by (auto simp: res_bind_Inr_iff)
  have c: "candidate_ok c" "c \<in> set all" "growth_id c \<notin> D" using Cons.prems by auto
  have k: "stage_kept gi all (insert (growth_id c) D) s1"
    by (rule mature_candidate_keeps[OF s1(1) Cons.prems(2) c(1,2) Cons.prems(5,6) c(3)])
  have ao: "auth_ok gi s1" using mature_candidate_outcome[OF s1(1) Cons.prems(2) c(1) Cons.prems(5)] by blast
  have rest: "\<forall>c \<in> set cs. candidate_ok c" "set cs \<subseteq> set all" "distinct (map growth_id cs)"
    "insert (growth_id c) D \<inter> growth_id ` set cs = {}" using Cons.prems(3,4,7,8) by auto
  have "insert (growth_id c) D \<union> growth_id ` set cs = D \<union> growth_id ` set (c # cs)" by auto
  then show ?case using Cons.IH[OF s1(2) Cons.prems(2) rest(1,2) ao k rest(3,4)] by (simp only:)
qed simp

end
