(* ===== verification/StagePublish.thy ===== *)
theory StagePublish
  imports StageLaws
begin

text \<open>
  The growth stage publishes whatever its candidate loop produces: the closing checks of the records against
  their schemas and of the references between them never fail, unless two different records have the same hash.
\<close>

section \<open>Records and references that pass\<close>

lemma records_accepted:
  assumes "map_of artifact_schemas name = Some schema" "\<forall>x \<in> set xs. fits schema (r x) \<and> record_id schema (r x) = f x"
    "distinct (map f xs)"
  shows "validate_records name (map r xs) = Inr ()"
proof -
  have i: "impersonal_schema schema" using assms(1) schema_impersonal schema_for_Inr by blast
  have "map (record_id schema) (map r xs) = map f xs" using assms(2) by simp
  then have "distinct (map (record_id schema) (map r xs))" by (simp only: assms(3))
  moreover have "list_all (fits schema) (map r xs)" using assms(2) by (simp add: list_all_iff)
  ultimately have "check_records schema name 1 [] (map r xs) = Inr ()" by (simp only: check_records_ok[OF i]) simp
  then show ?thesis using assms(1) by (simp add: validate_records_def schema_for_def)
qed

lemma records_fitting:
  assumes "map_of artifact_schemas name = Some schema" "validate_records name rs = Inr u"
  shows "list_all (fits schema) rs" "distinct (map (record_id schema) rs)"
proof -
  have i: "impersonal_schema schema" using assms(1) schema_impersonal schema_for_Inr by blast
  have "check_records schema name 1 [] rs = Inr u" using assms by (simp add: validate_records_def schema_for_def)
  then show "list_all (fits schema) rs" "distinct (map (record_id schema) rs)"
    by (simp_all add: check_records_ok[OF i])
qed

lemma references_accepted:
  assumes "map_of artifact_schemas name = Some schema" "validate_records name (map r xs) = Inr ()"
    "\<And>x line. x \<in> set xs \<Longrightarrow> check_references known schema name line (r x) = Inr ()"
  shows "validate_references name (map r xs) known = Inr ()"
proof -
  have "\<forall>p \<in> set (zip [1..<length (map r xs) + 1] (map r xs)). (\<lambda>(line, r). check_references known schema name line r) p = Inr ()"
  proof
    fix p assume p: "p \<in> set (zip [1..<length (map r xs) + 1] (map r xs))"
    obtain line y where ly: "p = (line, y)" by (cases p)
    have "y \<in> set (map r xs)" using p unfolding ly by (rule set_zip_rightD)
    then show "(\<lambda>(line, r). check_references known schema name line r) p = Inr ()" using assms(3) ly by auto
  qed
  then have "check_each (\<lambda>(line, r). check_references known schema name line r) (zip [1..<length (map r xs) + 1] (map r xs)) = Inr ()"
    by (simp only: check_each_ok)
  then show ?thesis unfolding validate_references_def by (simp only: assms(2) schema_for_def assms(1) res_bind_simps option.case)
qed

lemma dict_of_lookup: "distinct (map key xs) \<Longrightarrow> x \<in> set xs \<Longrightarrow> dict_of key val xs (key x) = Some (val x)"
  unfolding dict_of_def by (rule map_of_is_SomeI) (simp_all add: rev_map[symmetric] comp_def)

lemma stage_schemas:
  "map_of artifact_schemas ''growth_candidates'' = Some growth_candidates_schema"
  "map_of artifact_schemas ''candidate_entry_links'' = Some candidate_entry_links_schema"
  "map_of artifact_schemas ''candidate_dispositions'' = Some candidate_dispositions_schema"
  "map_of artifact_schemas ''candidate_negative_proofs'' = Some candidate_negative_proofs_schema"
  "map_of artifact_schemas ''repeatability_decisions'' = Some repeatability_decisions_schema"
  "map_of artifact_schemas ''amplification_decisions'' = Some amplification_decisions_schema"
  "map_of artifact_schemas ''growth_contracts'' = Some growth_contracts_schema"
  "map_of artifact_schemas ''verified_growth'' = Some verified_growth_schema"
  "map_of artifact_schemas ''auth_contracts'' = Some auth_contracts_schema"
  "map_of artifact_schemas ''reachability_decisions'' = Some reachability_decisions_schema"
  by (simp_all add: artifact_schemas_def)

lemma candidates_checked:
  assumes "validate_records ''growth_candidates'' (map growth_to_dict cs) = Inr u"
  shows "distinct (map growth_id cs)" "\<forall>c \<in> set cs. \<forall>e \<in> set (g_evidence c). length e \<le> 256"
proof -
  note f = records_fitting[OF stage_schemas(1) assms]
  have "record_id growth_candidates_schema (growth_to_dict c) = growth_id c" for c
    by (simp add: record_id_def growth_candidates_schema_def make_schema_def growth_to_dict_def)
  then show "distinct (map growth_id cs)" using f(2) by (simp add: comp_def)
  show "\<forall>c \<in> set cs. \<forall>e \<in> set (g_evidence c). length e \<le> 256"
  proof (intro ballI)
    fix c e assume c: "c \<in> set cs" "e \<in> set (g_evidence c)"
    have "fits growth_candidates_schema (growth_to_dict c)" using f(1) c(1) by (simp add: list_all_iff)
    then have "validate_growth (growth_to_dict c) [] 0 = Inr ()"
      by (simp add: fits_def validated_def growth_candidates_schema_def make_schema_def)
    note this[unfolded validate_growth_def Let_def checks_ok require_ok]
    then have "list_all valid_fact_id (array_of (get (growth_to_dict c) ''candidate_evidence''))" by blast
    moreover have "get (growth_to_dict c) ''candidate_evidence'' = JArr (map JStr (g_evidence c))"
      by (simp add: growth_to_dict_def growth_semantic_identity_def)
    ultimately show "length e \<le> 256" using c(2) by (simp add: list_all_iff valid_fact_id_def)
  qed
qed

lemma proof_references:
  assumes "distinct (map growth_id cs)" "c \<in> set cs" "own_proof c n" "growth_id c \<noteq> []"
  shows "check_references (known_for_proofs cs) candidate_negative_proofs_schema ''candidate_negative_proofs'' line (negative_to_dict n) = Inr ()"
proof -
  have g: "get (negative_to_dict n) ''growth_id'' = JStr (growth_id c)"
    "get (negative_to_dict n) ''evidence_ids'' = JArr (map JStr (usort (g_evidence c)))"
    using assms(3) by (simp_all add: negative_to_dict_def negative_identity_def own_proof_def)
  show ?thesis
    using assms(2,4) dict_of_lookup[OF assms(1,2), of g_evidence]
    by (simp add: check_references_def check_proof_references_def g candidate_negative_proofs_schema_def make_schema_def
        refer_def reference_values_def known_for_proofs_def known_in_def list_all_iff checks_ok)
qed

lemma disposition_references:
  assumes b: "backed gi (gs_links s) (gs_negatives s) d" and l: "distinct (map el_id (gs_links s))"
    and n: "distinct (map np_id (gs_negatives s))" and g: "cd_growth_id d \<in> growth_id ` set cs"
  shows "check_references (known_for_dispositions (map fst (gi_entries gi)) cs s) candidate_dispositions_schema
    ''candidate_dispositions'' line (disposition_to_dict d) = Inr ()"
proof -
  let ?known = "known_for_dispositions (map fst (gi_entries gi)) cs s" and ?r = "disposition_to_dict d"
  have fields: "get ?r ''growth_id'' = JStr (cd_growth_id d)" "get ?r ''canonical_entry_id'' = JStr (cd_entry_id d)"
    "get ?r ''status'' = JStr (cd_status d)" "get ?r ''association_status'' = JStr (cd_association d)"
    "get ?r ''link_ids'' = JArr (map JStr (cd_link_ids d))" "get ?r ''negative_proof_ids'' = JArr (map JStr (cd_negative_ids d))"
    by (simp_all add: disposition_to_dict_def disposition_identity_def)
  note d = b[unfolded backed_def]
  have cd: "CandidateDisposition d = Inr d" using d by blast
  note p = CandidateDisposition_parts[OF cd]
  have owner: "kn_link_owner ?known = Some (dict_of el_id (\<lambda>l. (el_growth_id l, el_entry_id l, el_status l)) (gs_links s))"
    and proofs: "kn_proof_growth ?known = Some (dict_of np_id np_growth_id (gs_negatives s))"
    by (simp_all add: known_for_dispositions_def)
  have e: "cd_entry_id d = [] \<or> known_in (kn_ids ?known ''entry_id'') [cd_entry_id d]"
    using d by (auto simp: known_in_def known_for_dispositions_def)
  have el: "\<exists>l :: entry_link. cd_link_ids d = [el_id l] \<and> dict_of el_id (\<lambda>l. (el_growth_id l, el_entry_id l, el_status l)) (gs_links s) (el_id l)
      = Some (cd_growth_id d, cd_entry_id d, cd_association d)" if es: "eligible_status (cd_status d)"
  proof -
    obtain k where k: "k \<in> set (gs_links s)" "cd_link_ids d = [el_id k]" "el_growth_id k = cd_growth_id d"
      "el_entry_id k = cd_entry_id d" "el_status k = cd_association d" using d es by blast
    have "dict_of el_id (\<lambda>l. (el_growth_id l, el_entry_id l, el_status l)) (gs_links s) (el_id k)
      = Some (cd_growth_id d, cd_entry_id d, cd_association d)" unfolding dict_of_lookup[OF l k(1)] k(3-5) by (rule refl)
    then show ?thesis using k(2) by blast
  qed
  have ng: "dict_of np_id np_growth_id (gs_negatives s) x = Some (cd_growth_id d)" if x: "x \<in> set (cd_negative_ids d)" for x
  proof -
    obtain k where "k \<in> set (gs_negatives s)" "np_id k = x" "np_growth_id k = cd_growth_id d" using d x by blast
    with dict_of_lookup[OF n, of k np_growth_id] show ?thesis by auto
  qed
  have links: "set (cd_link_ids d) \<subseteq> el_id ` set (gs_links s)" using d by blast
  have negs: "set (cd_negative_ids d) \<subseteq> np_id ` set (gs_negatives s)"
  proof
    fix x assume "x \<in> set (cd_negative_ids d)"
    then obtain k where "k \<in> set (gs_negatives s)" "np_id k = x" using d by blast
    then show "x \<in> np_id ` set (gs_negatives s)" by (metis imageI)
  qed
  have "check_disposition_references ?known ''candidate_dispositions'' line ?r = Inr ()"
  proof (cases "eligible_status (cd_status d)")
    case True
    then have es: "cd_status d \<in> {''formal_eligible'', ''gap_eligible''}" by (simp only: eligible_status_def)
    obtain l :: entry_link where l: "cd_link_ids d = [el_id l]" "dict_of el_id (\<lambda>l. (el_growth_id l, el_entry_id l, el_status l)) (gs_links s) (el_id l)
      = Some (cd_growth_id d, cd_entry_id d, cd_association d)" using el[OF True] by blast
    show ?thesis
      unfolding check_disposition_references_def Let_def fields array_simps owner proofs option.case l(1) list.map list.case if_P[OF es] checks_ok require_ok
      using e l(2) ng by (auto simp: list_all_iff)
  next
    case False
    then have es: "cd_status d \<notin> {''formal_eligible'', ''gap_eligible''}" by (simp only: eligible_status_def simp_thms)
    show ?thesis
      unfolding check_disposition_references_def Let_def fields array_simps owner proofs option.case if_not_P[OF es] checks_ok require_ok
      using e ng by (auto simp: list_all_iff)
  qed
  moreover have "list_all (\<lambda>x. x \<noteq> []) (cd_link_ids d)" "list_all (\<lambda>x. x \<noteq> []) (cd_negative_ids d)" "cd_growth_id d \<noteq> []"
    using p(1,6,11) by (auto simp: list_all_iff startswith_def)
  ultimately show ?thesis
    using g links negs
    by (simp add: check_references_def fields candidate_dispositions_schema_def make_schema_def refer_def refer_many_def
        reference_values_def known_for_dispositions_def known_in_def list_all_iff checks_ok subset_iff)
qed

section \<open>The stage publishes what its loop produced\<close>

text \<open>What the language model client returns has passed the constructors of the contracts.\<close>

definition answers_accepted :: "growth_inputs \<Rightarrow> bool" where
  "answers_accepted gi \<longleftrightarrow>
     (\<forall>b k. gi_classify gi b = Inr k \<longrightarrow> GrowthContract k = Inr k \<and> list_all (\<lambda>i. AttackerInfluence i = Inr i) (gc_attacker_influence k))
     \<and> (\<forall>classify i facts k. gi_classify_auth gi = Some classify \<longrightarrow> classify i facts = Inr (Some k) \<longrightarrow> wf_contract k)"

text \<open>Different records of an artifact have different hashes.\<close>

definition no_collisions :: "growth_records \<Rightarrow> bool" where
  "no_collisions s \<longleftrightarrow> separate el_id el_growth_id (gs_links s) \<and> separate np_id np_growth_id (gs_negatives s)
     \<and> separate cd_id cd_growth_id (gs_dispositions s) \<and> separate ap_id ap_growth_id (gs_repeatability s)
     \<and> separate ap_id ap_growth_id (gs_amplification s)
     \<and> separate (\<lambda>k. contract_identifier_of (fst k) (snd k)) fst (gs_contracts s)
     \<and> separate verified_growth_id vg_growth_id (gs_verified s)
     \<and> separate (\<lambda>a. rd_contract_id (snd (snd a))) fst (gs_auth s) \<and> separate (\<lambda>a. rd_id (snd (snd a))) fst (gs_auth s)"

lemma derived_contract_wf: "derive_auth_contract_from_facts i facts = Inr (Some k) \<Longrightarrow> wf_contract k"
  by (auto simp: derive_auth_contract_from_facts_def Let_def res_bind_Inr_iff AuthContract_Inr
      split: option.splits list.splits)

lemma entry_decided:
  assumes "entry_auth_decision r classify i facts configuration = Inr (c, d)"
    "\<And>f k. classify = Some f \<Longrightarrow> f i facts = Inr (Some k) \<Longrightarrow> wf_contract k"
  shows "wf_contract c" "wf_decision d" "identified d" "rd_contract_id d = contract_identifier r i c"
proof -
  have v: "wf_decision d \<and> identified d \<and> rd_contract_id d = contract_identifier r i k"
    if V: "verify_auth_contract r i k facts ids configuration = Inr d" for k ids
  proof -
    note n = verified_decision(1)[OF V]
    show ?thesis using verified_decision(6,7)[OF V] ReachabilityDecision_Inr(4)[OF V[unfolded verify_auth_contract_eq[OF n] Let_def]]
      by simp
  qed
  obtain derived where dv: "derive_auth_contract_from_facts i facts = Inr derived" using assms(1) by (auto simp: entry_auth_decision_def res_bind_Inr_iff)
  obtain auth where au: "(case derived of Some contract \<Rightarrow> Inr (Some contract)
       | None \<Rightarrow> (case classify of None \<Rightarrow> Inr None | Some f \<Rightarrow> f i facts)) = Inr auth"
    using assms(1) dv by (auto simp: entry_auth_decision_def res_bind_Inr_iff)
  note rest = assms(1)[unfolded entry_auth_decision_def dv res_bind_simps au]
  have "wf_contract c \<and> wf_decision d \<and> identified d \<and> rd_contract_id d = contract_identifier r i c"
  proof (cases auth)
    case None
    then obtain e x p s es rs j where u: "unavailable_contract = Inr c"
      "ReachabilityDecision e (JStr (contract_identifier r i c)) x p s es rs j = Inr d"
      using rest by (auto simp: res_bind_Inr_iff)
    then show ?thesis using ReachabilityDecision_Inr(1,2,4)[OF u(2)] by (simp add: unavailable_contract_def AuthContract_Inr)
  next
    case (Some k)
    then have "k = c" "verify_auth_contract r i c facts (map sf_id facts) configuration = Inr d" using rest by (auto simp: res_bind_Inr_iff)
    moreover have "wf_contract k" using au Some dv derived_contract_wf assms(2) by (auto split: option.splits)
    ultimately show ?thesis using v by blast
  qed
  then show "wf_contract c" "wf_decision d" "identified d" "rd_contract_id d = contract_identifier r i c" by blast+
qed

lemma auth_records:
  assumes "auth_ok gi s" "answers_accepted gi" "inputs_ok gi" "fst ` set (gs_auth s) \<subseteq> fst ` set (gi_entries gi)"
    and a: "a \<in> set (gs_auth s)"
  shows "fits auth_contracts_schema (auth_contract_record a)" "fits reachability_decisions_schema (auth_decision_record a)"
    "record_id auth_contracts_schema (auth_contract_record a) = rd_contract_id (snd (snd a))"
    "record_id reachability_decisions_schema (auth_decision_record a) = rd_id (snd (snd a))"
proof -
  obtain i c d where e: "a = (i, c, d)" by (cases a)
  have "entry_auth_decision (gi_repr gi) (gi_classify_auth gi) i (gi_security gi i) (gi_configuration gi) = Inr (c, d)"
    using assms(1) a e by (auto simp: auth_ok_def)
  note de = entry_decided[OF this]
  have acc: "wf_contract k" if "gi_classify_auth gi = Some f" "f i (gi_security gi i) = Inr (Some k)" for f k
    using assms(2) that unfolding answers_accepted_def by blast
  note dd = de[OF acc]
  have "i \<in> fst ` set (gi_entries gi)" using assms(4) a e by force
  then obtain en where "(i, en) \<in> set (gi_entries gi)" by auto
  then have "i \<noteq> []" using entries_okD(4) assms(3) by (auto simp: inputs_ok_def)
  then show "fits auth_contracts_schema (auth_contract_record a)" "fits reachability_decisions_schema (auth_decision_record a)"
    "record_id auth_contracts_schema (auth_contract_record a) = rd_contract_id (snd (snd a))"
    "record_id reachability_decisions_schema (auth_decision_record a) = rd_id (snd (snd a))"
    using auth_contract_fits[of c i d "gi_repr gi" i] auth_decision_fits[of d] dd by (simp_all add: e auth_decision_record_def)
qed

lemma separated:
  assumes "stage_kept gi cs D s" "no_collisions s" "auth_ok gi s"
  shows "distinct (map el_id (gs_links s))" "distinct (map np_id (gs_negatives s))" "distinct (map cd_id (gs_dispositions s))"
    "distinct (map ap_id (gs_repeatability s))" "distinct (map ap_id (gs_amplification s))"
    "distinct (map (\<lambda>k. contract_identifier_of (fst k) (snd k)) (gs_contracts s))"
    "distinct (map verified_growth_id (gs_verified s))"
    "distinct (map (\<lambda>a. rd_contract_id (snd (snd a))) (gs_auth s))" "distinct (map (\<lambda>a. rd_id (snd (snd a))) (gs_auth s))"
proof -
  note k = stage_keptD(1-7)[OF assms(1), THEN kept_distinct]
  have c: "separate el_id el_growth_id (gs_links s)" "separate np_id np_growth_id (gs_negatives s)"
    "separate ap_id ap_growth_id (gs_repeatability s)" "separate ap_id ap_growth_id (gs_amplification s)"
    "separate (\<lambda>k. contract_identifier_of (fst k) (snd k)) fst (gs_contracts s)"
    "separate verified_growth_id vg_growth_id (gs_verified s)" "separate cd_id cd_growth_id (gs_dispositions s)"
    using assms(2) unfolding no_collisions_def by blast+
  show "distinct (map el_id (gs_links s))" "distinct (map np_id (gs_negatives s))" "distinct (map cd_id (gs_dispositions s))"
    "distinct (map ap_id (gs_repeatability s))" "distinct (map ap_id (gs_amplification s))"
    "distinct (map (\<lambda>k. contract_identifier_of (fst k) (snd k)) (gs_contracts s))"
    "distinct (map verified_growth_id (gs_verified s))"
    by (rule k(1)[OF c(1)], rule k(2)[OF c(2)], rule k(7)[OF c(7)], rule k(3)[OF c(3)], rule k(4)[OF c(4)], rule k(5)[OF c(5)], rule k(6)[OF c(6)])
  have "distinct (map fst (gs_auth s))" using assms(3) by (simp add: auth_ok_def)
  note a = distinct_separate[OF this]
  show "distinct (map (\<lambda>a. rd_contract_id (snd (snd a))) (gs_auth s))" "distinct (map (\<lambda>a. rd_id (snd (snd a))) (gs_auth s))"
    using assms(2) unfolding no_collisions_def by (blast intro: a)+
qed

lemma finish_growth_accepts:
  assumes i: "inputs_ok gi" and c: "\<forall>c \<in> set cs. candidate_ok c" and v: "validate_records ''growth_candidates'' (map growth_to_dict cs) = Inr ()"
    and k: "stage_kept gi cs (growth_id ` set cs) s" and ao: "auth_ok gi s" and an: "answers_accepted gi" and nc: "no_collisions s"
    and au: "validate_records ''llm_audit'' audits = Inr ()"
  shows "finish_growth (map fst (gi_entries gi)) cs s audits = Inr (growth_output cs s audits)"
proof -
  note kd = stage_keptD[OF k, unfolded kept_def] and ds = separated[OF k nc ao] and cc = candidates_checked[OF v]
  have contracts: "validate_records ''growth_contracts'' (map contract_record (gs_contracts s)) = Inr ()"
  proof (rule records_accepted[OF stage_schemas(7) _ ds(6)], intro ballI)
    fix x assume x: "x \<in> set (gs_contracts s)"
    obtain b where "gi_classify gi b = Inr (snd x)" using kd(5) x by blast
    then have a: "GrowthContract (snd x) = Inr (snd x)" "list_all (\<lambda>i. AttackerInfluence i = Inr i) (gc_attacker_influence (snd x))"
      using an unfolding answers_accepted_def by blast+
    have "fst x \<in> growth_id ` set cs" using kd(5) x by blast
    then have "startswith (fst x) ''growth:''" using c candidate_okD(1) by auto
    from contract_fits[OF a this] show "fits growth_contracts_schema (contract_record x)
        \<and> record_id growth_contracts_schema (contract_record x) = contract_identifier_of (fst x) (snd x)" by simp
  qed
  have verified: "validate_records ''verified_growth'' (map (JObj \<circ> verified_growth_to_dict) (gs_verified s)) = Inr ()"
    by (rule records_accepted[OF stage_schemas(8) _ ds(7)]) (use kd(6) verified_fits in \<open>fastforce simp: comp_def\<close>)
  have links: "validate_records ''candidate_entry_links'' (map link_to_dict (gs_links s)) = Inr ()"
    by (rule records_accepted[OF stage_schemas(2) _ ds(1)]) (use kd(1) link_fits in blast)
  have negatives: "validate_records ''candidate_negative_proofs'' (map negative_to_dict (gs_negatives s)) = Inr ()"
  proof (rule records_accepted[OF stage_schemas(4) _ ds(2)], intro ballI)
    fix n assume n: "n \<in> set (gs_negatives s)"
    obtain g where g: "g \<in> set cs" "own_proof g n" using kd(2) n by blast
    have "\<forall>e \<in> set (np_evidence n). length e \<le> 256" using g cc(2) by (auto simp: own_proof_def)
    then show "fits candidate_negative_proofs_schema (negative_to_dict n)
        \<and> record_id candidate_negative_proofs_schema (negative_to_dict n) = np_id n"
      using negative_fits[of n] g(2) by (simp add: own_proof_def)
  qed
  have proofs: "validate_references ''candidate_negative_proofs'' (map negative_to_dict (gs_negatives s)) (known_for_proofs cs) = Inr ()"
  proof (rule references_accepted[OF stage_schemas(4) negatives])
    fix n line assume n: "n \<in> set (gs_negatives s)"
    obtain g where g: "g \<in> set cs" "own_proof g n" using kd(2) n by blast
    show "check_references (known_for_proofs cs) candidate_negative_proofs_schema ''candidate_negative_proofs'' line (negative_to_dict n) = Inr ()"
      by (rule proof_references[OF cc(1) g]) (use c g(1) candidate_okD(2) in blast)
  qed
  have dispositions: "validate_records ''candidate_dispositions'' (map disposition_to_dict (gs_dispositions s)) = Inr ()"
    by (rule records_accepted[OF stage_schemas(3) _ ds(3)]) (use kd(7) disposition_fits in \<open>unfold backed_def, blast\<close>)
  have references: "validate_references ''candidate_dispositions'' (map disposition_to_dict (gs_dispositions s))
      (known_for_dispositions (map fst (gi_entries gi)) cs s) = Inr ()"
    by (rule references_accepted[OF stage_schemas(3) dispositions], rule disposition_references[OF _ ds(1,2)]) (use kd(7) in blast)+
  have applicability: "validate_records ''repeatability_decisions'' (map applicability_to_dict (gs_repeatability s)) = Inr ()"
    "validate_records ''amplification_decisions'' (map applicability_to_dict (gs_amplification s)) = Inr ()"
    by (rule records_accepted[OF stage_schemas(5) _ ds(4)], use kd(3) applicability_fits in blast)
      (rule records_accepted[OF stage_schemas(6) _ ds(5)], use kd(4) applicability_fits in blast)
  note ar = auth_records[OF ao an i kd(8)]
  have auths: "validate_records ''auth_contracts'' (map auth_contract_record (gs_auth s)) = Inr ()"
    "validate_records ''reachability_decisions'' (map auth_decision_record (gs_auth s)) = Inr ()"
    by (rule records_accepted[OF stage_schemas(9) _ ds(8)], use ar in blast)
      (rule records_accepted[OF stage_schemas(10) _ ds(9)], use ar in blast)
  show ?thesis
    unfolding finish_growth_def by (simp only: contracts verified links proofs references applicability auths au res_bind_simps)
qed

text \<open>C6. The growth stage publishes whatever its candidate loop produced: when the loop returns, none of the closing
  checks of the growth contracts, verifications, links, negative proofs, dispositions, applicability decisions, entry
  contracts and reachability decisions fails, and no reference between them dangles; what is published is exactly the
  records of the loop. Assumed are only the input candidates' own check, the audit log of the client, that the client's
  answers have passed the constructors, and that different records have different hashes.\<close>

theorem growth_stage_publishes:
  assumes "inputs_ok gi" "list_all candidate_ok cs" "mature_candidates gi cs = Inr s"
    and "validate_records ''growth_candidates'' (map growth_to_dict cs) = Inr ()" "validate_records ''llm_audit'' audits = Inr ()"
    and "answers_accepted gi" "no_collisions s"
  shows "growth_stage gi cs audits = Inr (growth_output cs s audits)"
proof -
  have c: "\<forall>c \<in> set cs. candidate_ok c" using assms(2) by (simp add: list_all_iff)
  have ao: "auth_ok gi no_records" by (simp add: auth_ok_def no_records_def)
  have f: "fold_res (mature_candidate gi) no_records cs = Inr s" using assms(3) by (simp add: mature_candidates_def)
  have "stage_kept gi cs ({} \<union> growth_id ` set cs) s \<and> auth_ok gi s"
    by (rule mature_candidates_keep[OF f assms(1) c subset_refl ao stage_kept_none candidates_checked(1)[OF assms(4)]]) simp
  then have k: "stage_kept gi cs (growth_id ` set cs) s" "auth_ok gi s" by simp_all
  show ?thesis
    unfolding growth_stage_def
    by (simp only: assms(3,4) res_bind_simps finish_growth_accepts[OF assms(1) c assms(4) k assms(6,7,5)])
qed

section \<open>A run that publishes\<close>

definition publishing_inputs :: growth_inputs where
  "publishing_inputs = maturing_inputs\<lparr>gi_classify := \<lambda>_. Inr brief_contract\<rparr>"

lemma separate_single: "\<forall>x \<in> set xs. g x = k \<Longrightarrow> separate f g xs"
  by (simp add: separate_def)

lemma single_no_collisions:
  assumes "stage_kept gi cs {k} s" "fst ` set (gs_auth s) \<subseteq> {i}"
  shows "no_collisions s"
proof -
  note kd = stage_keptD(1-7)[OF assms(1), unfolded kept_def]
  have auth: "separate f fst (gs_auth s)" for f using assms(2) by (intro separate_single[of _ _ i]) blast
  have own: "separate f g xs" if "\<forall>x \<in> set xs. P x \<and> g x \<in> {k}" for P :: "'a \<Rightarrow> bool" and f g xs
    using that by (intro separate_single[of _ _ k]) blast
  show ?thesis
    unfolding no_collisions_def
    by (intro conjI auth) (rule own[OF conjunct2[OF kd(1)]] own[OF conjunct2[OF kd(2)]] own[OF conjunct2[OF kd(3)]]
      own[OF conjunct2[OF kd(4)]] own[OF conjunct2[OF kd(5)]] own[OF conjunct2[OF kd(6)]] own[OF conjunct2[OF kd(7)]])+
qed

lemma publishing_inputs_ok: "inputs_ok publishing_inputs"
  using maturing_inputs_ok by (simp add: inputs_ok_def publishing_inputs_def)

lemma publishing_matures: "\<exists>s. mature_candidates publishing_inputs [maturing_candidate] = Inr s"
proof -
  have d: "decides_entries publishing_inputs" using maturing_decides by (simp add: decides_entries_def publishing_inputs_def)
  have a: "associates publishing_inputs maturing_candidate" using maturing_associates by (simp add: associates_def publishing_inputs_def)
  have "\<exists>r. verify_growth_contract maturing_candidate maturing_slice brief_contract (index_by fact_id sample_facts) = Inr r"
  proof -
    have "sp_growth_id (slice_body maturing_slice) = growth_id maturing_candidate" "startswith (slice_id maturing_slice) ''slice:''"
      by (simp_all add: maturing_slice_def sample_slice_def startswith_def)
    from verify_growth_result[OF this(1) candidate_okD(1)[OF maturing_candidate_ok] this(2)] show ?thesis by metis
  qed
  moreover have "sp_facts (slice_body maturing_slice) = sample_facts" by (simp add: maturing_slice_def sample_slice_def)
  moreover have "validate_contract_static_evidence brief_contract (map fact_id sample_facts) = Inr brief_contract"
    by (simp add: validate_contract_static_evidence_def brief_contract_def sample_contract_def influence_ids_def sample_facts_def sample_fact_def)
  ultimately have k: "checks_growth publishing_inputs maturing_candidate"
    by (auto simp: checks_growth_def publishing_inputs_def maturing_inputs_def check_growth_def is_ok_iff Let_def)
  have ao: "auth_ok publishing_inputs no_records" by (simp add: auth_ok_def no_records_def)
  obtain s where "mature_candidate publishing_inputs no_records maturing_candidate = Inr s"
    using mature_candidate_ok[OF publishing_inputs_ok maturing_candidate_ok ao a d k] by blast
  then show ?thesis by (simp add: mature_candidates_def)
qed

lemma publishing_checked: "validate_records ''growth_candidates'' (map growth_to_dict [maturing_candidate]) = Inr ()"
proof (rule records_accepted[OF stage_schemas(1), where f = growth_id])
  let ?r = "growth_to_dict maturing_candidate"
  have id: "record_id growth_candidates_schema ?r = growth_id maturing_candidate"
    by (simp add: record_id_def growth_candidates_schema_def make_schema_def growth_to_dict_def)
  have g: "growth_id maturing_candidate = stable_identifier ''growth'' (growth_semantic_identity maturing_candidate)"
    by (simp add: maturing_candidate_def Let_def growth_semantic_identity_def)
  have "artifact_id_ok growth_candidates_schema (JStr (growth_id maturing_candidate))"
    unfolding g by (rule artifact_id_stable) (simp_all add: growth_candidates_schema_def make_schema_def id_prefixes_def)
  then have i: "artifact_id_ok growth_candidates_schema (get ?r (as_id growth_candidates_schema))"
    by (simp add: growth_to_dict_def growth_candidates_schema_def make_schema_def)
  have n: "growth_id maturing_candidate \<noteq> []" by (rule candidate_okD(2)[OF maturing_candidate_ok])
  have m: "g_kind maturing_candidate = ''container_growth''" "g_operation maturing_candidate = ''put''"
    "g_escape_scope maturing_candidate = ''global''" "g_coverage_status maturing_candidate = ''complete''"
    by (simp_all add: maturing_candidate_def Let_def)
  have v: "validate_growth ?r [] 0 = Inr ()"
    by (simp add: validate_growth_def Let_def checks_ok growth_to_dict_def maturing_candidate_def location_to_dict_def demand_to_dict_def
        members_def has_fields_def concrete_dimensions_def valid_fact_id_def is_fact_id_def startswith_def fact_id_chars_def
        growth_resource_identity_def schema_flow_targets_def) (simp add: positive_def image_iff)
  have "fits growth_candidates_schema ?r"
    unfolding fits_def
  proof (intro conjI i)
    show "has_fields ?r (as_required growth_candidates_schema)"
      by (simp add: growth_candidates_schema_def make_schema_def has_fields_def growth_to_dict_def)
    show "list_all (\<lambda>(field, kind). matches_kind kind (get ?r field)) (as_kinds growth_candidates_schema)"
      using n m by (simp add: growth_candidates_schema_def make_schema_def growth_to_dict_def location_to_dict_def ReachabilityModel.is_mapping_def)
    show "list_all (\<lambda>(field, choices). get ?r field \<in> JStr ` set choices) (as_enums growth_candidates_schema)"
      using m by (simp add: growth_candidates_schema_def make_schema_def growth_to_dict_def schema_growth_kinds_def)
    show "validated growth_candidates_schema ?r" using v by (simp add: validated_def growth_candidates_schema_def make_schema_def)
  qed
  then show "\<forall>c \<in> set [maturing_candidate]. fits growth_candidates_schema (growth_to_dict c)
      \<and> record_id growth_candidates_schema (growth_to_dict c) = growth_id c" using id by simp
qed simp

lemma publishing_answers: "answers_accepted publishing_inputs"
  using brief_contract_accepted sample_influence by (simp add: answers_accepted_def publishing_inputs_def maturing_inputs_def)

theorem growth_stage_publishes_witness:
  "\<exists>s. growth_stage publishing_inputs [maturing_candidate] [] = Inr (growth_output [maturing_candidate] s [])"
proof -
  obtain s where s: "mature_candidates publishing_inputs [maturing_candidate] = Inr s" using publishing_matures by blast
  have ao: "auth_ok publishing_inputs no_records" by (simp add: auth_ok_def no_records_def)
  have f: "fold_res (mature_candidate publishing_inputs) no_records [maturing_candidate] = Inr s" using s by (simp add: mature_candidates_def)
  have ok: "\<forall>c \<in> set [maturing_candidate]. candidate_ok c" using maturing_candidate_ok by simp
  have k: "stage_kept publishing_inputs [maturing_candidate] {growth_id maturing_candidate} s"
    using mature_candidates_keep[OF f publishing_inputs_ok ok subset_refl ao stage_kept_none] by simp
  have "fst ` set (gs_auth s) \<subseteq> {''entry:1''}" using stage_keptD(8)[OF k] by (simp add: publishing_inputs_def maturing_inputs_def)
  then have nc: "no_collisions s" by (rule single_no_collisions[OF k])
  have au: "validate_records ''llm_audit'' [] = Inr ()"
    using records_accepted[of "''llm_audit''" llm_audit_schema "[] :: json list" "\<lambda>r. r" "\<lambda>_. []"] by (simp add: artifact_schemas_def)
  have "list_all candidate_ok [maturing_candidate]" using maturing_candidate_ok by simp
  from growth_stage_publishes[OF publishing_inputs_ok this s publishing_checked au publishing_answers nc] show ?thesis by blast
qed

end
