(* ===== verification/PathEvidence.thy ===== *)
theory PathEvidence
  imports Schemas Lifecycle
begin

text \<open>
  \<open>dosweb/lifecycle/evidence.py\<close>: the coverage of a family on one path, the summaries of wrappers and the
  evidence that binds a candidate to a path. Their constructors take decoded values; the identifier is computed,
  and one that is supplied must be the computed one.
\<close>

section \<open>Shared checks\<close>

definition lifecycle_families :: "string list" where
  "lifecycle_families = [''guard'', ''bound'', ''release'']"

definition path_text_ok :: "json \<Rightarrow> bool" where
  "path_text_ok v = (case v of JStr s \<Rightarrow> s \<noteq> [] \<and> CHR 0x00 \<notin> set s \<and> length s \<le> 1024 | _ \<Rightarrow> False)"

definition path_text :: "json \<Rightarrow> string \<Rightarrow> unit res" where
  "path_text raw field = require (lifecycle_invalid (''Lifecycle '' @ field @ '' is invalid.'')) (path_text_ok (get raw field))"

definition whole_number :: "json \<Rightarrow> bool" where
  "whole_number v = (case v of JInt i \<Rightarrow> 0 \<le> i | _ \<Rightarrow> False)"

definition is_bool :: "json \<Rightarrow> bool" where
  "is_bool v = (case v of JBool _ \<Rightarrow> True | _ \<Rightarrow> False)"

definition bool_of :: "json \<Rightarrow> bool" where
  "bool_of v = (case v of JBool b \<Rightarrow> b | _ \<Rightarrow> False)"

text \<open>The fields of a record in the order of its identity, and that identity.\<close>

definition selected :: "json \<Rightarrow> string list \<Rightarrow> json" where
  "selected raw keys = JObj (map (\<lambda>k. (k, get raw k)) keys)"

section \<open>Coverage of a family\<close>

record family_coverage =
  fc_id :: string
  fc_entry_id :: string
  fc_growth_id :: string
  fc_path_id :: string
  fc_family :: string
  fc_status :: string
  fc_reason :: string

definition coverage_keys :: "string list" where
  "coverage_keys = [''entry_id'', ''growth_id'', ''path_id'', ''family'', ''status'', ''reason'']"

definition family_coverage_identity :: "family_coverage \<Rightarrow> (string \<times> json) list" where
  "family_coverage_identity c = [(''entry_id'', JStr (fc_entry_id c)), (''growth_id'', JStr (fc_growth_id c)),
     (''path_id'', JStr (fc_path_id c)), (''family'', JStr (fc_family c)), (''status'', JStr (fc_status c)),
     (''reason'', JStr (fc_reason c))]"

definition family_coverage_to_dict :: "family_coverage \<Rightarrow> json" where
  "family_coverage_to_dict c = JObj ((''coverage_id'', JStr (fc_id c)) # family_coverage_identity c)"

definition LifecycleCoverage :: "json \<Rightarrow> family_coverage res" where
  "LifecycleCoverage raw =
     (let expected = stable_identifier ''lifecycle-coverage'' (selected raw coverage_keys) in
      res_bind (literals (lifecycle_invalid ''Lifecycle coverage enum is invalid.'')
        [(get raw ''family'', lifecycle_families), (get raw ''status'', coverage_statuses)]) (\<lambda>_.
      res_bind (check_each (path_text raw) [''entry_id'', ''growth_id'', ''path_id'', ''reason'']) (\<lambda>_.
      res_bind (require (lifecycle_invalid ''Lifecycle coverage identifier is not canonical.'')
        (supplied_id_ok (get raw ''coverage_id'') expected)) (\<lambda>_.
      Inr \<lparr>fc_id = expected, fc_entry_id = str_of (get raw ''entry_id''), fc_growth_id = str_of (get raw ''growth_id''),
        fc_path_id = str_of (get raw ''path_id''), fc_family = str_of (get raw ''family''),
        fc_status = str_of (get raw ''status''), fc_reason = str_of (get raw ''reason'')\<rparr>))))"

definition family_coverage_from_dict :: "json \<Rightarrow> family_coverage res" where
  "family_coverage_from_dict raw =
     (if has_fields raw (''coverage_id'' # coverage_keys) then LifecycleCoverage raw
      else Inl (lifecycle_invalid ''Lifecycle coverage record is malformed.''))"

section \<open>Summaries of wrappers\<close>

text \<open>The columns of a summary row, which the record of a path repeats.\<close>

record summary_row =
  sr_family :: string
  sr_candidate_file :: string
  sr_candidate_line :: int
  sr_callsite_file :: string
  sr_callsite_line :: int
  sr_receiver_file :: string
  sr_receiver_line :: int
  sr_argument_index :: int
  sr_dimension :: string
  sr_scope :: string
  sr_config_key :: string
  sr_config_value :: string
  sr_representation :: string
  sr_phase :: string
  sr_covers_materialization :: bool
  sr_dominates_growth :: bool
  sr_reject_path_reaches_growth :: bool
  sr_evidence :: string
  sr_relation :: string
  sr_coverage_status :: string
  sr_coverage_note :: string

record path_summary =
  sm_id :: string
  sm_entry_id :: string
  sm_growth_id :: string
  sm_path_id :: string
  sm_row :: summary_row

definition summary_keys :: "string list" where
  "summary_keys = [''entry_id'', ''growth_id'', ''path_id'', ''family'', ''candidate_file'', ''candidate_start_line'',
     ''callsite_file'', ''callsite_start_line'', ''receiver_file'', ''receiver_start_line'', ''argument_index'',
     ''resource_dimension'', ''scope'', ''configuration_key'', ''configuration_value'', ''representation'', ''phase'',
     ''covers_materialization'', ''dominates_growth'', ''reject_path_reaches_growth'', ''evidence'', ''cfg_relation'',
     ''coverage_status'', ''coverage_note'']"

definition summary_texts :: "string list" where
  "summary_texts = [''entry_id'', ''growth_id'', ''path_id'', ''candidate_file'', ''callsite_file'', ''receiver_file'',
     ''resource_dimension'', ''scope'', ''configuration_key'', ''configuration_value'', ''representation'', ''phase'',
     ''evidence'', ''coverage_note'']"

definition summary_lines :: "string list" where
  "summary_lines = [''candidate_start_line'', ''callsite_start_line'', ''receiver_start_line'']"

definition summary_flags :: "string list" where
  "summary_flags = [''covers_materialization'', ''dominates_growth'', ''reject_path_reaches_growth'']"

definition path_summary_identity :: "path_summary \<Rightarrow> (string \<times> json) list" where
  "path_summary_identity m = (let r = sm_row m in
     [(''entry_id'', JStr (sm_entry_id m)), (''growth_id'', JStr (sm_growth_id m)), (''path_id'', JStr (sm_path_id m)),
      (''family'', JStr (sr_family r)), (''candidate_file'', JStr (sr_candidate_file r)),
      (''candidate_start_line'', JInt (sr_candidate_line r)), (''callsite_file'', JStr (sr_callsite_file r)),
      (''callsite_start_line'', JInt (sr_callsite_line r)), (''receiver_file'', JStr (sr_receiver_file r)),
      (''receiver_start_line'', JInt (sr_receiver_line r)), (''argument_index'', JInt (sr_argument_index r)),
      (''resource_dimension'', JStr (sr_dimension r)), (''scope'', JStr (sr_scope r)),
      (''configuration_key'', JStr (sr_config_key r)), (''configuration_value'', JStr (sr_config_value r)),
      (''representation'', JStr (sr_representation r)), (''phase'', JStr (sr_phase r)),
      (''covers_materialization'', JBool (sr_covers_materialization r)),
      (''dominates_growth'', JBool (sr_dominates_growth r)),
      (''reject_path_reaches_growth'', JBool (sr_reject_path_reaches_growth r)), (''evidence'', JStr (sr_evidence r)),
      (''cfg_relation'', JStr (sr_relation r)), (''coverage_status'', JStr (sr_coverage_status r)),
      (''coverage_note'', JStr (sr_coverage_note r))])"

definition path_summary_to_dict :: "path_summary \<Rightarrow> json" where
  "path_summary_to_dict m = JObj ((''summary_id'', JStr (sm_id m)) # path_summary_identity m)"

definition row_of :: "json \<Rightarrow> summary_row" where
  "row_of raw = \<lparr>sr_family = str_of (get raw ''family''), sr_candidate_file = str_of (get raw ''candidate_file''),
     sr_candidate_line = int_of (get raw ''candidate_start_line''), sr_callsite_file = str_of (get raw ''callsite_file''),
     sr_callsite_line = int_of (get raw ''callsite_start_line''), sr_receiver_file = str_of (get raw ''receiver_file''),
     sr_receiver_line = int_of (get raw ''receiver_start_line''), sr_argument_index = int_of (get raw ''argument_index''),
     sr_dimension = str_of (get raw ''resource_dimension''), sr_scope = str_of (get raw ''scope''),
     sr_config_key = str_of (get raw ''configuration_key''), sr_config_value = str_of (get raw ''configuration_value''),
     sr_representation = str_of (get raw ''representation''), sr_phase = str_of (get raw ''phase''),
     sr_covers_materialization = bool_of (get raw ''covers_materialization''),
     sr_dominates_growth = bool_of (get raw ''dominates_growth''),
     sr_reject_path_reaches_growth = bool_of (get raw ''reject_path_reaches_growth''),
     sr_evidence = str_of (get raw ''evidence''), sr_relation = str_of (get raw ''cfg_relation''),
     sr_coverage_status = str_of (get raw ''coverage_status''), sr_coverage_note = str_of (get raw ''coverage_note'')\<rparr>"

definition LifecycleSummary :: "json \<Rightarrow> path_summary res" where
  "LifecycleSummary raw =
     (let expected = stable_identifier ''lifecycle-summary'' (selected raw summary_keys) in
      res_bind (literals (lifecycle_invalid ''Lifecycle summary enum is invalid.'')
        [(get raw ''family'', lifecycle_families), (get raw ''cfg_relation'', [''one_wrapper'', ''partial'']),
         (get raw ''coverage_status'', coverage_statuses)]) (\<lambda>_.
      res_bind (check_each (path_text raw) summary_texts) (\<lambda>_.
      res_bind (require (lifecycle_invalid ''Lifecycle summary location is invalid.'')
        (list_all (\<lambda>k. whole_number (get raw k)) (summary_lines @ [''argument_index'']))) (\<lambda>_.
      res_bind (require (lifecycle_invalid ''Lifecycle summary CFG flags are invalid.'')
        (list_all (\<lambda>k. is_bool (get raw k)) summary_flags)) (\<lambda>_.
      res_bind (require (lifecycle_invalid ''Lifecycle summary source location is invalid.'')
        (list_all (\<lambda>k. 1 \<le> int_of (get raw k)) summary_lines)) (\<lambda>_.
      res_bind (require (lifecycle_invalid ''Lifecycle summary identifier is not canonical.'')
        (supplied_id_ok (get raw ''summary_id'') expected)) (\<lambda>_.
      Inr \<lparr>sm_id = expected, sm_entry_id = str_of (get raw ''entry_id''), sm_growth_id = str_of (get raw ''growth_id''),
        sm_path_id = str_of (get raw ''path_id''), sm_row = row_of raw\<rparr>)))))))"

definition path_summary_from_dict :: "json \<Rightarrow> path_summary res" where
  "path_summary_from_dict raw =
     (if has_fields raw (''summary_id'' # summary_keys) then LifecycleSummary raw
      else Inl (lifecycle_invalid ''Lifecycle summary record is malformed.''))"

section \<open>Evidence that binds a candidate to a path\<close>

record path_evidence =
  pe_id :: string
  pe_entry_id :: string
  pe_growth_id :: string
  pe_path_id :: string
  pe_family :: string
  pe_candidate_id :: string
  pe_growth_file :: string
  pe_growth_line :: int
  pe_candidate_file :: string
  pe_candidate_line :: int
  pe_resource :: string
  pe_field :: string
  pe_key :: string
  pe_relation :: string
  pe_coverage_status :: string

definition evidence_keys :: "string list" where
  "evidence_keys = [''entry_id'', ''growth_id'', ''path_id'', ''family'', ''candidate_id'', ''growth_file'', ''growth_line'',
     ''candidate_file'', ''candidate_line'', ''resource_identity'', ''field_identity'', ''key_identity'', ''cfg_relation'',
     ''coverage_status'']"

definition evidence_texts :: "string list" where
  "evidence_texts = [''entry_id'', ''growth_id'', ''path_id'', ''candidate_id'', ''growth_file'', ''candidate_file'',
     ''resource_identity'', ''field_identity'', ''key_identity'']"

definition path_evidence_identity :: "path_evidence \<Rightarrow> (string \<times> json) list" where
  "path_evidence_identity e = [(''entry_id'', JStr (pe_entry_id e)), (''growth_id'', JStr (pe_growth_id e)),
     (''path_id'', JStr (pe_path_id e)), (''family'', JStr (pe_family e)), (''candidate_id'', JStr (pe_candidate_id e)),
     (''growth_file'', JStr (pe_growth_file e)), (''growth_line'', JInt (pe_growth_line e)),
     (''candidate_file'', JStr (pe_candidate_file e)), (''candidate_line'', JInt (pe_candidate_line e)),
     (''resource_identity'', JStr (pe_resource e)), (''field_identity'', JStr (pe_field e)), (''key_identity'', JStr (pe_key e)),
     (''cfg_relation'', JStr (pe_relation e)), (''coverage_status'', JStr (pe_coverage_status e))]"

definition path_evidence_to_dict :: "path_evidence \<Rightarrow> json" where
  "path_evidence_to_dict e = JObj ((''evidence_id'', JStr (pe_id e)) # path_evidence_identity e)"

definition LifecycleEvidence :: "json \<Rightarrow> path_evidence res" where
  "LifecycleEvidence raw =
     (let expected = stable_identifier ''lifecycle-evidence'' (selected raw evidence_keys) in
      res_bind (literals (lifecycle_invalid ''Lifecycle evidence enum is invalid.'')
        [(get raw ''family'', lifecycle_families), (get raw ''cfg_relation'', [''same_cfg'', ''partial'', ''ambiguous'']),
         (get raw ''coverage_status'', coverage_statuses)]) (\<lambda>_.
      res_bind (check_each (path_text raw) evidence_texts) (\<lambda>_.
      res_bind (require (lifecycle_invalid ''Lifecycle evidence location is invalid.'')
        (list_all (\<lambda>k. positive (get raw k)) [''growth_line'', ''candidate_line''])) (\<lambda>_.
      res_bind (require (lifecycle_invalid ''Lifecycle evidence identifier is not canonical.'')
        (supplied_id_ok (get raw ''evidence_id'') expected)) (\<lambda>_.
      Inr \<lparr>pe_id = expected, pe_entry_id = str_of (get raw ''entry_id''), pe_growth_id = str_of (get raw ''growth_id''),
        pe_path_id = str_of (get raw ''path_id''), pe_family = str_of (get raw ''family''),
        pe_candidate_id = str_of (get raw ''candidate_id''), pe_growth_file = str_of (get raw ''growth_file''),
        pe_growth_line = int_of (get raw ''growth_line''), pe_candidate_file = str_of (get raw ''candidate_file''),
        pe_candidate_line = int_of (get raw ''candidate_line''), pe_resource = str_of (get raw ''resource_identity''),
        pe_field = str_of (get raw ''field_identity''), pe_key = str_of (get raw ''key_identity''),
        pe_relation = str_of (get raw ''cfg_relation''), pe_coverage_status = str_of (get raw ''coverage_status'')\<rparr>)))))"

definition path_evidence_from_dict :: "json \<Rightarrow> path_evidence res" where
  "path_evidence_from_dict raw =
     (if has_fields raw (''evidence_id'' # evidence_keys) then LifecycleEvidence raw
      else Inl (lifecycle_invalid ''Lifecycle evidence record is malformed.''))"

section \<open>Records that are read back\<close>

lemma path_text_Inr: "path_text raw k = Inr u \<longleftrightarrow> path_text_ok (get raw k)"
  by (cases u) (simp add: path_text_def require_def)

end
