(* ===== verification/LifecycleStage.thy ===== *)
theory LifecycleStage
  imports PathEvidence Conclude
begin

text \<open>
  The lifecycle stage of \<open>dosweb/production.py\<close> (\<open>make_lifecycle_executor\<close>): query rows become guard, bound and
  release candidates, each candidate is bound to the paths whose Growth it is anchored at, the decisions of each
  path are made over its candidates, and everything is checked and published. The decoded query rows, the verified
  flows, the facts of the earlier stages and the modeled configuration are arguments.
\<close>

section \<open>Query rows\<close>

text \<open>A row carries the file and line of the Growth it is anchored at. The values of a candidate row are the
  fields of the candidate; what stands in the identifier is not read.\<close>

type_synonym anchor = "string \<times> int"

record coverage_row =
  cw_family :: string
  cw_status :: string
  cw_note :: string

datatype lifecycle_row = GuardRow anchor guard_candidate | BoundRow anchor bound_candidate | ReleaseRow anchor release_candidate
  | CoverageRow anchor coverage_row | SummaryRow anchor summary_row | OtherRow

definition row_known :: "lifecycle_row \<Rightarrow> unit res" where
  "row_known r = require (AnalyzerError ''CODEQL_RESULT_INVALID'' ''Lifecycle query family is unknown.'' []) (r \<noteq> OtherRow)"

definition guard_rows :: "lifecycle_row list \<Rightarrow> (anchor \<times> guard_candidate) list" where
  "guard_rows rows = List.map_filter (\<lambda>r. case r of GuardRow a c \<Rightarrow> Some (a, c) | _ \<Rightarrow> None) rows"

definition bound_rows :: "lifecycle_row list \<Rightarrow> (anchor \<times> bound_candidate) list" where
  "bound_rows rows = List.map_filter (\<lambda>r. case r of BoundRow a c \<Rightarrow> Some (a, c) | _ \<Rightarrow> None) rows"

definition release_rows :: "lifecycle_row list \<Rightarrow> (anchor \<times> release_candidate) list" where
  "release_rows rows = List.map_filter (\<lambda>r. case r of ReleaseRow a c \<Rightarrow> Some (a, c) | _ \<Rightarrow> None) rows"

definition coverage_rows :: "lifecycle_row list \<Rightarrow> (anchor \<times> coverage_row) list" where
  "coverage_rows rows = List.map_filter (\<lambda>r. case r of CoverageRow a c \<Rightarrow> Some (a, c) | _ \<Rightarrow> None) rows"

definition summary_rows :: "lifecycle_row list \<Rightarrow> (anchor \<times> summary_row) list" where
  "summary_rows rows = List.map_filter (\<lambda>r. case r of SummaryRow a c \<Rightarrow> Some (a, c) | _ \<Rightarrow> None) rows"

section \<open>Candidates\<close>

text \<open>Identifiers paired with the anchors of their rows, and the candidates in the order of their identifiers;
  of rows with one identifier the last one counts.\<close>

definition last_by :: "('a \<Rightarrow> string) \<Rightarrow> 'a list \<Rightarrow> 'a list" where
  "last_by key xs = List.map_filter (map_of (rev (map (\<lambda>x. (key x, x)) xs))) (usort (map key xs))"

definition normalized :: "('a \<Rightarrow> 'a res) \<Rightarrow> ('a \<Rightarrow> string) \<Rightarrow> (anchor \<times> 'a) list \<Rightarrow> ('a list \<times> (string \<times> anchor) list) res" where
  "normalized create key rows =
     res_bind (map_res (\<lambda>(a, values). res_bind (create values) (\<lambda>c. Inr (a, c))) rows) (\<lambda>created.
     Inr (last_by key (map snd created), map (\<lambda>(a, c). (key c, a)) created))"

text \<open>\<open>from_dict\<close> of the record of a candidate: it is created again and must have the same identifier.\<close>

definition reread :: "('a \<Rightarrow> 'a res) \<Rightarrow> ('a \<Rightarrow> string) \<Rightarrow> string \<Rightarrow> 'a \<Rightarrow> 'a res" where
  "reread create key name c = res_bind (create c) (\<lambda>c'.
     if key c \<noteq> key c' then Inl (lifecycle_invalid (name @ '' candidate identifier is not canonical.'')) else Inr c')"

definition site_to_dict :: "string \<Rightarrow> int \<Rightarrow> string \<times> json" where
  "site_to_dict f line = (''site'', JObj [(''file'', JStr f), (''start_line'', JInt line)])"

definition guard_to_dict :: "guard_candidate \<Rightarrow> json" where
  "guard_to_dict c = JObj ([(''guard_id'', JStr (guard_id c)), site_to_dict (gd_site_file c) (gd_site_line c)]
     @ drop 2 (members (guard_identity c)))"

definition bound_to_dict :: "bound_candidate \<Rightarrow> json" where
  "bound_to_dict c = JObj ([(''bound_id'', JStr (bound_id c)), site_to_dict (bd_site_file c) (bd_site_line c)]
     @ drop 2 (members (bound_identity c)))"

definition release_to_dict :: "release_candidate \<Rightarrow> json" where
  "release_to_dict c = JObj ([(''release_id'', JStr (release_id c)), site_to_dict (rl_site_file c) (rl_site_line c)]
     @ drop 2 (members (release_identity c)))"

section \<open>What the binding reads of a candidate\<close>

record family_view =
  fw_id :: string
  fw_dimension :: string
  fw_receiver :: "string option"
  fw_field :: "string option"
  fw_key :: "string option"
  fw_site :: anchor
  fw_coverage :: string

definition guard_view :: "guard_candidate \<Rightarrow> family_view" where
  "guard_view c = \<lparr>fw_id = guard_id c, fw_dimension = gd_dimension c, fw_receiver = None, fw_field = None, fw_key = None,
     fw_site = (gd_site_file c, gd_site_line c), fw_coverage = gd_coverage_status c\<rparr>"

definition bound_view :: "bound_candidate \<Rightarrow> family_view" where
  "bound_view c = \<lparr>fw_id = bound_id c, fw_dimension = bd_dimension c, fw_receiver = Some (bd_receiver c),
     fw_field = Some (bd_field_path c), fw_key = None, fw_site = (bd_site_file c, bd_site_line c),
     fw_coverage = bd_coverage_status c\<rparr>"

definition release_view :: "release_candidate \<Rightarrow> family_view" where
  "release_view c = \<lparr>fw_id = release_id c, fw_dimension = rl_dimension c, fw_receiver = Some (rl_receiver c), fw_field = None,
     fw_key = Some (rl_key_identity c), fw_site = (rl_site_file c, rl_site_line c), fw_coverage = rl_coverage_status c\<rparr>"

definition growth_anchor :: "growth_candidate \<Rightarrow> anchor" where
  "growth_anchor g = (sl_file (g_site g), sl_line (g_site g))"

definition same_resource :: "string \<Rightarrow> growth_candidate \<Rightarrow> family_view \<Rightarrow> bool" where
  "same_resource family g v \<longleftrightarrow> (if family = ''guard'' then fw_dimension v = g_dimension g
     else (case fw_receiver v of None \<Rightarrow> g_receiver g | Some r \<Rightarrow> r) = g_receiver g)"

definition bound_to :: "string \<Rightarrow> growth_candidate \<Rightarrow> (string \<times> anchor) list \<Rightarrow> family_view \<Rightarrow> bool" where
  "bound_to family g anchors v \<longleftrightarrow> (fw_id v, growth_anchor g) \<in> set anchors \<and> same_resource family g v"

section \<open>Coverage and evidence of a family on a path\<close>

definition unproven_reason :: string where
  "unproven_reason = ''LIFECYCLE_CFG_OR_RESOURCE_ALIAS_UNPROVEN''"

definition family_status :: "family_view list \<Rightarrow> coverage_row list \<Rightarrow> string \<times> string" where
  "family_status local modeled =
     (if list_ex (\<lambda>v. fw_coverage v = ''complete'') local then (''complete'', ''LIFECYCLE_SAME_CALLABLE_RESOURCE_WITNESS'')
      else case filter (\<lambda>w. cw_status w = ''complete'') modeled of
          w # _ \<Rightarrow> (''complete'', cw_note w)
        | [] \<Rightarrow> if local \<noteq> [] then (''partial'', ''LIFECYCLE_CANDIDATE_PARTIAL'')
            else (case modeled of w # _ \<Rightarrow> (''partial'', cw_note w) | [] \<Rightarrow> (''partial'', unproven_reason)))"

definition modeled_rows :: "string \<Rightarrow> growth_candidate \<Rightarrow> lifecycle_row list \<Rightarrow> coverage_row list" where
  "modeled_rows family g rows = map snd (filter (\<lambda>(a, w). a = growth_anchor g \<and> cw_family w = family) (coverage_rows rows))"

text \<open>Entry, Growth and path of a record.\<close>

type_synonym path_ref = "string \<times> string \<times> string"

definition path_fields :: "path_ref \<Rightarrow> (string \<times> json) list" where
  "path_fields ref = (case ref of (e, g, p) \<Rightarrow> [(''entry_id'', JStr e), (''growth_id'', JStr g), (''path_id'', JStr p)])"

definition family_coverage_of :: "path_ref \<Rightarrow> string \<Rightarrow> string \<times> string \<Rightarrow> family_coverage res" where
  "family_coverage_of ref family sr = LifecycleCoverage (JObj (path_fields ref @ [(''family'', JStr family),
     (''status'', JStr (fst sr)), (''reason'', JStr (snd sr)), (''coverage_id'', JStr [])]))"

definition evidence_of :: "path_ref \<Rightarrow> growth_candidate \<Rightarrow> string \<Rightarrow> family_view \<Rightarrow> path_evidence res" where
  "evidence_of ref g family v =
     (let complete = fw_coverage v = ''complete'';
          receiver = (case fw_receiver v of None \<Rightarrow> g_receiver g | Some r \<Rightarrow> r);
          field = (case fw_field v of None \<Rightarrow> g_field_path g | Some f \<Rightarrow> if f = [] then g_field_path g else f)
      in LifecycleEvidence (JObj (path_fields ref @ [(''family'', JStr family), (''candidate_id'', JStr (fw_id v)),
        (''growth_file'', JStr (sl_file (g_site g))), (''growth_line'', JInt (sl_line (g_site g))),
        (''candidate_file'', JStr (fst (fw_site v))), (''candidate_line'', JInt (snd (fw_site v))),
        (''resource_identity'', JStr receiver), (''field_identity'', JStr field),
        (''key_identity'', JStr (case fw_key v of None \<Rightarrow> ''none'' | Some k \<Rightarrow> k)),
        (''cfg_relation'', JStr (if complete then ''same_cfg'' else ''partial'')),
        (''coverage_status'', JStr (if complete then ''complete'' else ''partial'')), (''evidence_id'', JStr [])])))"

text \<open>One family on one path: the bound candidates, the status, and the records.\<close>

definition bind_family :: "lifecycle_row list \<Rightarrow> path_ref \<Rightarrow> growth_candidate \<Rightarrow> string \<Rightarrow> (string \<times> anchor) list
    \<Rightarrow> ('a \<Rightarrow> family_view) \<Rightarrow> 'a list \<Rightarrow> ('a list \<times> string \<times> family_coverage \<times> path_evidence list) res" where
  "bind_family rows ref g family anchors view candidates =
     (let local = filter (\<lambda>c. bound_to family g anchors (view c)) candidates;
          status = family_status (map view local) (modeled_rows family g rows)
      in res_bind (family_coverage_of ref family status) (\<lambda>coverage.
         res_bind (map_res (\<lambda>c. evidence_of ref g family (view c)) local) (\<lambda>evidence.
         Inr (local, fst status, coverage, evidence))))"

section \<open>Summaries and the guards they promote\<close>

definition summary_to_raw :: "path_ref \<Rightarrow> summary_row \<Rightarrow> json" where
  "summary_to_raw ref r = (case ref of (e, g, p) \<Rightarrow>
     JObj (path_summary_identity \<lparr>sm_id = [], sm_entry_id = e, sm_growth_id = g, sm_path_id = p, sm_row = r\<rparr> @ [(''summary_id'', JStr [])]))"

definition promotable :: "growth_candidate \<Rightarrow> summary_row \<Rightarrow> bool" where
  "promotable g r \<longleftrightarrow> sr_family r = ''guard'' \<and> sr_coverage_status r = ''complete'' \<and> sr_relation r = ''one_wrapper''
     \<and> sr_covers_materialization r \<and> sr_dimension r = g_dimension g \<and> sr_scope r = g_escape_scope g
     \<and> sr_phase r \<in> {''before_growth'', ''inside_growth''}"

definition wrapper_guard :: "summary_row \<Rightarrow> guard_candidate res" where
  "wrapper_guard r = guard_create \<lparr>guard_id = [], gd_site_file = sr_candidate_file r, gd_site_line = sr_candidate_line r,
     gd_kind = ''input_validation'', gd_dimension = sr_dimension r, gd_scope = sr_scope r, gd_behavior = ''reject'',
     gd_dominates_growth = sr_dominates_growth r, gd_reject_path_reaches_growth = sr_reject_path_reaches_growth r,
     gd_config_key = sr_config_key r, gd_config_value = sr_config_value r, gd_representation = sr_representation r,
     gd_phase = sr_phase r, gd_covers_materialization = sr_covers_materialization r, gd_authorization_only = False,
     gd_evidence = [sr_evidence r], gd_coverage_status = ''complete''\<rparr>"

section \<open>One path\<close>

record lifecycle_state =
  ly_guards :: "guard_candidate list"
  ly_wrappers :: "string list"
  ly_anchors :: "(string \<times> anchor) list"
  ly_summaries :: "path_summary list"
  ly_coverage :: "family_coverage list"
  ly_evidence :: "path_evidence list"
  ly_records :: "(path_ref \<times> lifecycle_record) list"

definition add_summary :: "path_ref \<Rightarrow> growth_candidate \<Rightarrow> lifecycle_state \<Rightarrow> summary_row \<Rightarrow> lifecycle_state res" where
  "add_summary ref g s r =
     res_bind (LifecycleSummary (summary_to_raw ref r)) (\<lambda>m.
     let s = s\<lparr>ly_summaries := ly_summaries s @ [m]\<rparr> in
     if promotable g r then res_bind (wrapper_guard r) (\<lambda>w.
       let s = (if guard_id w \<in> set (ly_wrappers s) then s
                else s\<lparr>ly_guards := ly_guards s @ [w], ly_wrappers := ly_wrappers s @ [guard_id w]\<rparr>)
       in Inr (s\<lparr>ly_anchors := ly_anchors s @ [(guard_id w, growth_anchor g)]\<rparr>))
     else Inr s)"

text \<open>What the stage knows before the loop: the rows, the other two families with their anchors, and the facts.\<close>

record lifecycle_inputs =
  li_rows :: "lifecycle_row list"
  li_entries :: "string \<rightharpoonup> entry_fact"
  li_growth :: "string \<rightharpoonup> verified_growth"
  li_configuration :: modeled_configuration

definition bind_families :: "lifecycle_inputs \<Rightarrow> bound_candidate list \<times> (string \<times> anchor) list
    \<Rightarrow> release_candidate list \<times> (string \<times> anchor) list \<Rightarrow> path_ref \<Rightarrow> growth_candidate \<Rightarrow> lifecycle_state
    \<Rightarrow> (path_lifecycle \<times> family_coverage list \<times> path_evidence list) res" where
  "bind_families li bounds releases ref g s =
     res_bind (bind_family (li_rows li) ref g ''guard'' (ly_anchors s) guard_view (ly_guards s)) (\<lambda>(gs, gstatus, gcov, gev).
     res_bind (bind_family (li_rows li) ref g ''bound'' (snd bounds) bound_view (fst bounds)) (\<lambda>(bs, bstatus, bcov, bev).
     res_bind (bind_family (li_rows li) ref g ''release'' (snd releases) release_view (fst releases)) (\<lambda>(rs, rstatus, rcov, rev).
     Inr (\<lparr>pl_guards = gs, pl_bounds = bs, pl_releases = rs, pl_guard_coverage = gstatus, pl_bound_coverage = bstatus,
            pl_release_coverage = rstatus\<rparr>, [gcov, bcov, rcov], gev @ bev @ rev))))"

definition bind_path :: "lifecycle_inputs \<Rightarrow> bound_candidate list \<times> (string \<times> anchor) list
    \<Rightarrow> release_candidate list \<times> (string \<times> anchor) list \<Rightarrow> lifecycle_state \<Rightarrow> verified_flow \<Rightarrow> lifecycle_state res" where
  "bind_path li bounds releases s flow =
     res_bind (item (li_entries li) (vf_entry_id flow)) (\<lambda>entry.
     res_bind (item (li_growth li) (vf_growth_id flow)) (\<lambda>growth.
     case vg_candidate growth of
       None \<Rightarrow> Inl (AnalyzerError ''ANALYSIS_DANGLING_FACT_REFERENCE'' ''Lifecycle flow has no Growth anchor.'' [])
     | Some g \<Rightarrow>
       let ref = (entry_id entry, vg_growth_id growth, vf_path_id flow) in
       res_bind (fold_res (add_summary ref g) s (map snd (filter (\<lambda>(a, r). a = growth_anchor g) (summary_rows (li_rows li))))) (\<lambda>s.
       res_bind (bind_families li bounds releases ref g s) (\<lambda>(linked, coverage, evidence).
       res_bind (path_decisions entry growth flow linked (li_configuration li)) (\<lambda>d.
       Inr (s\<lparr>ly_coverage := ly_coverage s @ coverage, ly_evidence := ly_evidence s @ evidence,
              ly_records := ly_records s @ [(ref, d)]\<rparr>))))))"

section \<open>The records of decisions\<close>

text \<open>The checks are sorted, and at most 64 are kept.\<close>

definition check_key :: "decision_check \<Rightarrow> string \<times> bool \<times> string \<times> string list" where
  "check_key c = (dc_name c, \<not> dc_passed c, (case dc_reason c of None \<Rightarrow> [] | Some r \<Rightarrow> r), dc_evidence c)"

definition durable_checks :: "decision_check list \<Rightarrow> decision_check list" where
  "durable_checks cs = take 64 (sort_key check_key cs)"

text \<open>The decisions that the record keeps, and that the conclusion reads back.\<close>

definition durable :: "lifecycle_record \<Rightarrow> lifecycle_record" where
  "durable d = \<lparr>lr_guard = (lr_guard d)\<lparr>gdec_checks := durable_checks (gdec_checks (lr_guard d))\<rparr>,
     lr_bound = (lr_bound d)\<lparr>bdec_checks := durable_checks (bdec_checks (lr_bound d))\<rparr>,
     lr_release = (lr_release d)\<lparr>rdec_checks := durable_checks (rdec_checks (lr_release d))\<rparr>\<rparr>"

definition lifecycle_semantic :: "path_ref \<times> lifecycle_record \<Rightarrow> (string \<times> json) list" where
  "lifecycle_semantic rd = (let d = durable (snd rd) in path_fields (fst rd) @
     [(''guard_decision'', JStr (guard_status_text (gdec_status (lr_guard d)))),
      (''bound_decision'', JStr (bound_status_text (bdec_status (lr_bound d)))),
      (''release_decision'', JStr (release_status_text (rdec_status (lr_release d)))),
      (''reason_codes'', strs (usort (gdec_reasons (lr_guard d) @ bdec_reasons (lr_bound d) @ rdec_reasons (lr_release d)))),
      (''guard'', guard_decision_to_dict (lr_guard d)), (''bound'', bound_decision_to_dict (lr_bound d)),
      (''release'', release_decision_to_dict (lr_release d))])"

definition lifecycle_result_to_dict :: "path_ref \<times> lifecycle_record \<Rightarrow> json" where
  "lifecycle_result_to_dict rd = JObj ((''lifecycle_result_id'', JStr (stable_identifier ''lifecycle'' (JObj (lifecycle_semantic rd))))
     # lifecycle_semantic rd)"

section \<open>The stage\<close>

record lifecycle_output =
  lo_guards :: "guard_candidate list"
  lo_bounds :: "bound_candidate list"
  lo_releases :: "release_candidate list"
  lo_summaries :: "path_summary list"
  lo_evidence :: "path_evidence list"
  lo_coverage :: "family_coverage list"
  lo_records :: "(path_ref \<times> lifecycle_record) list"

definition lifecycle_loop :: "lifecycle_inputs \<Rightarrow> verified_flow list \<Rightarrow> (lifecycle_state \<times> bound_candidate list \<times> release_candidate list) res" where
  "lifecycle_loop li flows =
     res_bind (fold_res (\<lambda>_. row_known) () (li_rows li)) (\<lambda>_.
     res_bind (normalized guard_create guard_id (guard_rows (li_rows li))) (\<lambda>(guards, ganchors).
     res_bind (normalized bound_create bound_id (bound_rows (li_rows li))) (\<lambda>bounds.
     res_bind (normalized release_create release_id (release_rows (li_rows li))) (\<lambda>releases.
     res_bind (map_res (reread guard_create guard_id ''Guard'') guards) (\<lambda>guards.
     res_bind (map_res (reread bound_create bound_id ''Bound'') (fst bounds)) (\<lambda>bs.
     res_bind (map_res (reread release_create release_id ''Release'') (fst releases)) (\<lambda>rs.
     res_bind (fold_res (bind_path li (bs, snd bounds) (rs, snd releases))
       \<lparr>ly_guards = guards, ly_wrappers = [], ly_anchors = ganchors, ly_summaries = [], ly_coverage = [], ly_evidence = [],
         ly_records = []\<rparr> flows) (\<lambda>s.
     Inr (s, bs, rs)))))))))"

definition lifecycle_stage :: "lifecycle_inputs \<Rightarrow> verified_flow list \<Rightarrow> lifecycle_output res" where
  "lifecycle_stage li flows =
     res_bind (lifecycle_loop li flows) (\<lambda>(s, bs, rs).
     res_bind (validate_records ''guard_candidates'' (map guard_to_dict (ly_guards s))) (\<lambda>_.
     res_bind (validate_records ''bound_candidates'' (map bound_to_dict bs)) (\<lambda>_.
     res_bind (validate_records ''release_candidates'' (map release_to_dict rs)) (\<lambda>_.
     res_bind (validate_records ''lifecycle_evidence'' (map path_evidence_to_dict (ly_evidence s))) (\<lambda>_.
     res_bind (validate_records ''lifecycle_summaries'' (map path_summary_to_dict (ly_summaries s))) (\<lambda>_.
     res_bind (validate_records ''lifecycle_coverage'' (map family_coverage_to_dict (ly_coverage s))) (\<lambda>_.
     res_bind (validate_records ''lifecycle_results'' (map lifecycle_result_to_dict (ly_records s))) (\<lambda>_.
     Inr \<lparr>lo_guards = ly_guards s, lo_bounds = bs, lo_releases = rs, lo_summaries = ly_summaries s,
       lo_evidence = ly_evidence s, lo_coverage = ly_coverage s, lo_records = ly_records s\<rparr>))))))))"

end
