(* ===== verification/LifecycleStageLaws.thy ===== *)
theory LifecycleStageLaws
  imports LifecycleStage ConcludeLaws
begin

text \<open>
  What the lifecycle stage decides: the candidates of a path are exactly the rows anchored at its Growth, so its
  decisions are determined by those rows and do not depend on the other paths.
\<close>

section \<open>Candidates of rows\<close>

lemma last_by_facts:
  "set (last_by key xs) \<subseteq> set xs" "key ` set (last_by key xs) = key ` set xs"
proof -
  let ?m = "map_of (rev (map (\<lambda>x. (key x, x)) xs))"
  have lookup: "x \<in> set xs \<and> key x = k" if "?m k = Some x" for k x
    using map_of_SomeD[OF that] by auto
  have all: "\<exists>x. ?m k = Some x" if "k \<in> key ` set xs" for k
  proof -
    have "fst ` set (rev (map (\<lambda>x. (key x, x)) xs)) = key ` set xs" by force
    then show ?thesis using that map_of_eq_None_iff[of "rev (map (\<lambda>x. (key x, x)) xs)" k] by (metis not_None_eq)
  qed
  have s: "x \<in> set (last_by key xs) \<longleftrightarrow> (\<exists>k \<in> key ` set xs. ?m k = Some x)" for x
    by (simp add: last_by_def set_map_filter_iff)
  show "set (last_by key xs) \<subseteq> set xs" using s lookup by blast
  show "key ` set (last_by key xs) = key ` set xs"
  proof (intro subset_antisym image_subsetI)
    fix x assume "x \<in> set (last_by key xs)"
    then show "key x \<in> key ` set xs" using s lookup by blast
  next
    fix x assume x: "x \<in> set xs"
    obtain y where y: "?m (key x) = Some y" using all[of "key x"] x by blast
    then have "y \<in> set (last_by key xs)" "key y = key x" using s x lookup by blast+
    then show "key x \<in> key ` set (last_by key xs)" by (metis imageI)
  qed
qed

lemma map_res_set: "map_res f xs = Inr ys \<Longrightarrow> set ys = {y. \<exists>x \<in> set xs. f x = Inr y}"
proof -
  assume "map_res f xs = Inr ys"
  from map_res_Inr_D[OF this] show ?thesis by (induction rule: list_all2_induct) auto
qed

text \<open>The candidates that rows create, with their anchors.\<close>

definition created :: "('a \<Rightarrow> 'a res) \<Rightarrow> (anchor \<times> 'a) list \<Rightarrow> (anchor \<times> 'a) set" where
  "created create rows = {(a, c). \<exists>v. (a, v) \<in> set rows \<and> create v = Inr c}"

lemma normalized_facts:
  assumes "normalized create key rows = Inr (cs, anchors)"
  shows "set anchors = (\<lambda>(a, c). (key c, a)) ` created create rows" "set cs \<subseteq> snd ` created create rows"
    "key ` set cs = key ` snd ` created create rows"
proof -
  obtain ps where ps: "map_res (\<lambda>(a, values). res_bind (create values) (\<lambda>c. Inr (a, c))) rows = Inr ps"
    "cs = last_by key (map snd ps)" "anchors = map (\<lambda>(a, c). (key c, a)) ps"
    using assms by (auto simp: normalized_def res_bind_Inr_iff)
  have "set ps = created create rows"
    unfolding map_res_set[OF ps(1)] created_def by (auto simp: res_bind_Inr_iff split: prod.splits) blast
  then show "set anchors = (\<lambda>(a, c). (key c, a)) ` created create rows" "set cs \<subseteq> snd ` created create rows"
    "key ` set cs = key ` snd ` created create rows"
    using last_by_facts[of key "map snd ps"] by (simp_all add: ps(2,3))
qed

lemma evidence_again: "lifecycle_evidence es = Inr es' \<Longrightarrow> lifecycle_evidence es' = Inr es'"
proof -
  assume a: "lifecycle_evidence es = Inr es'"
  then have e: "es' = usort es" "es \<noteq> []" "length es \<le> 64" "\<not> list_ex (\<lambda>e. e = [] \<or> length e > 256) (usort es)"
    by (auto simp: lifecycle_evidence_def split: if_split_asm)
  have "length (usort es) \<le> length es" by (metis card_length distinct_card distinct_usort set_usort)
  then show ?thesis using e by (simp add: lifecycle_evidence_def)
qed

lemma guard_create_again: "guard_create v = Inr c \<Longrightarrow> guard_create c = Inr c"
  using evidence_again by (auto simp: guard_create_def res_bind_Inr_iff Let_def guard_identity_def)

lemma bound_create_again: "bound_create v = Inr c \<Longrightarrow> bound_create c = Inr c"
  using evidence_again by (auto simp: bound_create_def res_bind_Inr_iff Let_def bound_identity_def)

lemma release_create_again: "release_create v = Inr c \<Longrightarrow> release_create c = Inr c"
  using evidence_again by (auto simp: release_create_def res_bind_Inr_iff Let_def release_identity_def)

lemma reread_all:
  assumes "\<And>v c. create v = Inr c \<Longrightarrow> create c = Inr c" "set cs \<subseteq> snd ` created create rows"
  shows "map_res (reread create key name) cs = Inr cs"
proof -
  have "reread create key name c = Inr c" if "c \<in> set cs" for c
    using that assms by (fastforce simp: reread_def created_def)
  then show ?thesis by (induction cs) auto
qed

text \<open>Candidates with anchors, given by a list of candidates and a list of anchored identifiers.\<close>

definition holds :: "('a \<Rightarrow> string) \<Rightarrow> (anchor \<times> 'a) set \<Rightarrow> 'a list \<Rightarrow> (string \<times> anchor) list \<Rightarrow> bool" where
  "holds key C cs anchors \<longleftrightarrow> set anchors = (\<lambda>(a, c). (key c, a)) ` C \<and> set cs \<subseteq> snd ` C \<and> key ` set cs = key ` snd ` C"

lemma holds_member:
  assumes "holds key C cs anchors" "inj_on key (snd ` C)"
  shows "c \<in> set cs \<and> (key c, a) \<in> set anchors \<longleftrightarrow> (a, c) \<in> C"
proof -
  have anchors: "set anchors = (\<lambda>(a, c). (key c, a)) ` C" and cs: "set cs \<subseteq> snd ` C" "key ` set cs = key ` snd ` C"
    using assms(1) unfolding holds_def by blast+
  have same: "set cs = snd ` C" using inj_on_image_eq_iff[OF assms(2) cs(1) order_refl] cs(2) by blast
  show ?thesis
  proof
    assume l: "c \<in> set cs \<and> (key c, a) \<in> set anchors"
    then obtain c' where c': "(a, c') \<in> C" "key c' = key c" unfolding anchors by force
    have "c' = c" by (rule inj_onD[OF assms(2) c'(2)]) (use c'(1) l same in \<open>force+\<close>)
    then show "(a, c) \<in> C" using c'(1) by simp
  next
    assume r: "(a, c) \<in> C"
    then show "c \<in> set cs \<and> (key c, a) \<in> set anchors" unfolding same anchors by force
  qed
qed

lemma normalized_holds: "normalized create key rows = Inr (cs, anchors) \<Longrightarrow> holds key (created create rows) cs anchors"
  unfolding holds_def by (intro conjI normalized_facts)

lemma holds_add:
  assumes "holds key C cs anchors"
  shows "key c \<in> key ` snd ` C \<Longrightarrow> holds key (insert (a, c) C) cs (anchors @ [(key c, a)])"
    "holds key (insert (a, c) C) (cs @ [c]) (anchors @ [(key c, a)])"
proof -
  have anchors: "set anchors = (\<lambda>(a, c). (key c, a)) ` C" and cs: "set cs \<subseteq> snd ` C" "key ` set cs = key ` snd ` C"
    using assms unfolding holds_def by blast+
  have anchors': "set (anchors @ [(key c, a)]) = (\<lambda>(a, c). (key c, a)) ` insert (a, c) C" by (simp add: anchors)
  show "holds key (insert (a, c) C) (cs @ [c]) (anchors @ [(key c, a)])"
    unfolding holds_def using anchors' cs by auto
  assume "key c \<in> key ` snd ` C"
  then have "key ` snd ` insert (a, c) C = key ` snd ` C" by (simp add: insert_absorb)
  moreover have "set cs \<subseteq> snd ` insert (a, c) C" using cs(1) by (simp add: subset_insertI2)
  ultimately show "holds key (insert (a, c) C) cs (anchors @ [(key c, a)])"
    unfolding holds_def using anchors' cs(2) by simp
qed

section \<open>Promoted guards\<close>

definition promotions :: "lifecycle_inputs \<Rightarrow> growth_candidate \<Rightarrow> (anchor \<times> guard_candidate) set" where
  "promotions li g = {(growth_anchor g, w) | r w. (growth_anchor g, r) \<in> set (summary_rows (li_rows li))
     \<and> promotable g r \<and> wrapper_guard r = Inr w}"

definition guard_state :: "(anchor \<times> guard_candidate) set \<Rightarrow> (anchor \<times> guard_candidate) set \<Rightarrow> lifecycle_state \<Rightarrow> bool" where
  "guard_state G P s \<longleftrightarrow> holds guard_id (G \<union> P) (ly_guards s) (ly_anchors s) \<and> set (ly_wrappers s) = guard_id ` snd ` P"

lemma add_summary_state:
  assumes "add_summary ref g s r = Inr s'" "guard_state G P s"
  shows "guard_state G (P \<union> {(growth_anchor g, w) | w. promotable g r \<and> wrapper_guard r = Inr w}) s'"
    "ly_records s' = ly_records s" "ly_coverage s' = ly_coverage s" "ly_evidence s' = ly_evidence s"
proof -
  obtain m where m: "LifecycleSummary (summary_to_raw ref r) = Inr m" using assms(1) by (auto simp: add_summary_def res_bind_Inr_iff)
  note rest = assms(1)[unfolded add_summary_def m res_bind_simps Let_def]
  have "guard_state G (P \<union> {(growth_anchor g, w) | w. promotable g r \<and> wrapper_guard r = Inr w}) s'
    \<and> ly_records s' = ly_records s \<and> ly_coverage s' = ly_coverage s \<and> ly_evidence s' = ly_evidence s"
  proof (cases "promotable g r")
    case False
    then have "P \<union> {(growth_anchor g, w) | w. promotable g r \<and> wrapper_guard r = Inr w} = P" by blast
    moreover have "s' = s\<lparr>ly_summaries := ly_summaries s @ [m]\<rparr>" using rest False by simp
    ultimately show ?thesis using assms(2) by (simp add: guard_state_def)
  next
    case True
    then obtain w where w: "wrapper_guard r = Inr w" using rest by (auto simp: res_bind_Inr_iff)
    have P: "P \<union> {(growth_anchor g, w) | w. promotable g r \<and> wrapper_guard r = Inr w} = insert (growth_anchor g, w) P"
      using True w by auto
    have held: "holds guard_id (G \<union> P) (ly_guards s) (ly_anchors s)" and wrappers: "set (ly_wrappers s) = guard_id ` snd ` P"
      using assms(2) unfolding guard_state_def by blast+
    show ?thesis
    proof (cases "guard_id w \<in> set (ly_wrappers s)")
      case old: True
      then have "guard_id w \<in> guard_id ` snd ` (G \<union> P)" using wrappers by blast
      note holds_add(1)[OF held this, where a = "growth_anchor g"]
      moreover have "set (ly_wrappers s) = guard_id ` snd ` insert (growth_anchor g, w) P" using old wrappers by (simp add: insert_absorb)
      moreover have "s' = s\<lparr>ly_summaries := ly_summaries s @ [m], ly_anchors := ly_anchors s @ [(guard_id w, growth_anchor g)]\<rparr>"
        using rest True w old by simp
      ultimately show ?thesis unfolding P guard_state_def by simp
    next
      case new: False
      then have "s' = s\<lparr>ly_summaries := ly_summaries s @ [m], ly_guards := ly_guards s @ [w],
          ly_wrappers := ly_wrappers s @ [guard_id w], ly_anchors := ly_anchors s @ [(guard_id w, growth_anchor g)]\<rparr>"
        using rest True w by simp
      then show ?thesis using wrappers holds_add(2)[OF held, where c = w and a = "growth_anchor g"] unfolding P guard_state_def by simp
    qed
  qed
  then show "guard_state G (P \<union> {(growth_anchor g, w) | w. promotable g r \<and> wrapper_guard r = Inr w}) s'"
    "ly_records s' = ly_records s" "ly_coverage s' = ly_coverage s" "ly_evidence s' = ly_evidence s" by blast+
qed

lemma add_summaries_state:
  assumes "fold_res (add_summary ref g) s rs = Inr s'" "guard_state G P s"
  shows "guard_state G (P \<union> {(growth_anchor g, w) | r w. r \<in> set rs \<and> promotable g r \<and> wrapper_guard r = Inr w}) s'
    \<and> ly_records s' = ly_records s \<and> ly_coverage s' = ly_coverage s \<and> ly_evidence s' = ly_evidence s"
  using assms
proof (induction rs arbitrary: s P)
  case (Cons r rs)
  obtain s1 where s1: "add_summary ref g s r = Inr s1" "fold_res (add_summary ref g) s1 rs = Inr s'"
    using Cons.prems(1) by (auto simp: res_bind_Inr_iff)
  note st = add_summary_state[OF s1(1) Cons.prems(2)]
  have "P \<union> {(growth_anchor g, w) | w. promotable g r \<and> wrapper_guard r = Inr w}
      \<union> {(growth_anchor g, w) | r w. r \<in> set rs \<and> promotable g r \<and> wrapper_guard r = Inr w}
    = P \<union> {(growth_anchor g, w) | r' w. r' \<in> set (r # rs) \<and> promotable g r' \<and> wrapper_guard r' = Inr w}" by auto
  then show ?case using Cons.IH[OF s1(2) st(1)] st(2-4) by (simp only:)
qed simp

section \<open>Decisions of one path\<close>

lemma path_decisions_verified:
  assumes "path_decisions entry growth p linked configuration = Inr d" "satisfies_premise p" "vg_status growth = Verified"
  shows "evaluate_guard entry growth p (pl_guards linked) configuration (pl_guard_coverage linked) = Inr (lr_guard d)"
    "evaluate_path_bounds entry growth p (pl_bounds linked) configuration (pl_bound_coverage linked) = Inr (lr_bound d)"
    "evaluate_synchronous_release entry growth p (pl_releases linked) (pl_release_coverage linked) = Inr (lr_release d)"
  using assms by (auto simp: path_decisions_def res_bind_Inr_iff)

lemma guard_effective_iff:
  assumes "evaluate_guard entry growth p cs configuration coverage = Inr d" "vg_candidate growth = Some g"
  shows "gdec_status d = GuardEffective \<longleftrightarrow> (\<exists>c \<in> set cs. guard_protects g configuration c)"
proof -
  have "validate_context entry growth p = Inr g"
    using assms by (auto simp: evaluate_guard_def res_bind_Inr_iff validate_context_def split: if_split_asm option.splits)
  then show ?thesis
    using assms guard_status_cases[of g configuration "sort_key guard_id cs"]
    by (auto simp: evaluate_guard_def split: if_split_asm)
qed

lemma bound_effective_iff:
  assumes "evaluate_bound entry growth p cs configuration coverage = Inr d" "vg_candidate growth = Some g"
  shows "bdec_status d = BoundEffective \<longleftrightarrow> (\<exists>c \<in> set cs. bound_protects entry g configuration c)"
proof -
  have "validate_context entry growth p = Inr g"
    using assms by (auto simp: evaluate_bound_def res_bind_Inr_iff validate_context_def split: if_split_asm option.splits)
  then show ?thesis
    using assms decide_bounds_status(1)[of entry g configuration "sort_key bound_id cs"]
    by (auto simp: evaluate_bound_def split: if_split_asm)
qed

lemma release_effective_iff:
  assumes "evaluate_synchronous_release entry growth p cs coverage = Inr d" "vg_candidate growth = Some g"
  shows "rdec_status d = ReleaseEffective \<longleftrightarrow> (\<exists>c \<in> set cs. release_protects g c) \<and> (\<forall>c \<in> set cs. \<not> release_open c)"
    "rdec_status d \<noteq> ReleaseUnknown \<Longrightarrow> \<forall>c \<in> set cs. \<not> release_open c"
proof -
  have "validate_context entry growth p = Inr g"
    using assms by (auto simp: evaluate_synchronous_release_def res_bind_Inr_iff validate_context_def
        split: if_split_asm option.splits)
  then show "rdec_status d = ReleaseEffective \<longleftrightarrow> (\<exists>c \<in> set cs. release_protects g c) \<and> (\<forall>c \<in> set cs. \<not> release_open c)"
    "rdec_status d \<noteq> ReleaseUnknown \<Longrightarrow> \<forall>c \<in> set cs. \<not> release_open c"
    using assms decide_releases_status[of g "sort_key release_id cs"]
    by (auto simp: evaluate_synchronous_release_def split: if_split_asm)
qed

lemma path_bound_effective_iff:
  assumes "evaluate_path_bounds entry growth p cs configuration coverage = Inr d" "vg_candidate growth = Some g"
    "coverage \<in> set coverage_statuses"
  shows "bdec_status d = BoundEffective \<longleftrightarrow> (\<exists>c \<in> set cs. bound_protects entry g configuration c)"
  using assms(1) path_bounds_eq[OF assms(3)] bound_effective_iff[OF _ assms(2)] by simp

section \<open>One path\<close>

lemma wrapper_guard_fields: "wrapper_guard r = Inr w \<Longrightarrow> gd_dimension w = sr_dimension r \<and> gd_scope w = sr_scope r"
  by (auto simp: wrapper_guard_def guard_create_def res_bind_Inr_iff Let_def)

text \<open>A guard promoted for one Growth protects another one at the same anchor only if it is promoted for it too.\<close>

lemma promotions_protect:
  assumes "(growth_anchor g, c) \<in> promotions li g'" "guard_protects g configuration c"
  shows "(growth_anchor g, c) \<in> promotions li g"
  using assms wrapper_guard_fields unfolding promotions_def guard_protects_def promotable_def by fastforce

lemma family_status_known: "fst (family_status vs ws) \<in> set coverage_statuses"
  by (simp add: family_status_def coverage_statuses_def split: list.split)

lemma bind_family_Inr: "bind_family rows ref g family anchors view cs = Inr (local, status, coverage, evidence) \<Longrightarrow>
    local = filter (\<lambda>c. bound_to family g anchors (view c)) cs \<and> status \<in> set coverage_statuses"
  using family_status_known by (auto simp: bind_family_def Let_def res_bind_Inr_iff)

text \<open>The candidates of the rows at the anchor of a Growth.\<close>

definition row_guards :: "lifecycle_inputs \<Rightarrow> growth_candidate \<Rightarrow> guard_candidate set" where
  "row_guards li g = {c. (growth_anchor g, c) \<in> created guard_create (guard_rows (li_rows li)) \<union> promotions li g}"

definition row_bounds :: "lifecycle_inputs \<Rightarrow> growth_candidate \<Rightarrow> bound_candidate set" where
  "row_bounds li g = {c. (growth_anchor g, c) \<in> created bound_create (bound_rows (li_rows li)) \<and> bd_receiver c = g_receiver g}"

definition row_releases :: "lifecycle_inputs \<Rightarrow> growth_candidate \<Rightarrow> release_candidate set" where
  "row_releases li g = {c. (growth_anchor g, c) \<in> created release_create (release_rows (li_rows li)) \<and> rl_receiver c = g_receiver g}"

text \<open>Different candidates of one family have different identifiers.\<close>

definition ids_separate :: "lifecycle_inputs \<Rightarrow> bool" where
  "ids_separate li \<longleftrightarrow> inj_on guard_id (snd ` (created guard_create (guard_rows (li_rows li)) \<union> (\<Union>g. promotions li g)))
     \<and> inj_on bound_id (snd ` created bound_create (bound_rows (li_rows li)))
     \<and> inj_on release_id (snd ` created release_create (release_rows (li_rows li)))"

text \<open>The record of a path is decided by the rows at its anchor.\<close>

definition path_decided :: "lifecycle_inputs \<Rightarrow> verified_flow \<Rightarrow> path_ref \<times> lifecycle_record \<Rightarrow> bool" where
  "path_decided li flow rd \<longleftrightarrow> (\<exists>entry growth g. li_entries li (vf_entry_id flow) = Some entry
     \<and> li_growth li (vf_growth_id flow) = Some growth \<and> vg_candidate growth = Some g
     \<and> fst rd = (entry_id entry, vg_growth_id growth, vf_path_id flow)
     \<and> (''LIFECYCLE_PREMISE_UNRESOLVED'' \<in> set (gdec_reasons (lr_guard (snd rd)))
          \<longleftrightarrow> \<not> (satisfies_premise flow \<and> vg_status growth = Verified))
     \<and> (if satisfies_premise flow \<and> vg_status growth = Verified
        then (gdec_status (lr_guard (snd rd)) = GuardEffective
               \<longleftrightarrow> (\<exists>c \<in> row_guards li g. guard_protects g (li_configuration li) c))
           \<and> (bdec_status (lr_bound (snd rd)) = BoundEffective
               \<longleftrightarrow> (\<exists>c \<in> row_bounds li g. bound_protects entry g (li_configuration li) c))
           \<and> (rdec_status (lr_release (snd rd)) = ReleaseEffective
               \<longleftrightarrow> (\<exists>c \<in> row_releases li g. release_protects g c) \<and> (\<forall>c \<in> row_releases li g. \<not> release_open c))
           \<and> (rdec_status (lr_release (snd rd)) \<noteq> ReleaseUnknown \<longrightarrow> (\<forall>c \<in> row_releases li g. \<not> release_open c))
        else gdec_status (lr_guard (snd rd)) = GuardUnknown \<and> bdec_status (lr_bound (snd rd)) = BoundUnknown
           \<and> rdec_status (lr_release (snd rd)) = ReleaseUnknown))"

lemma bind_families_Inr:
  assumes "bind_families li bounds releases ref g s = Inr (linked, coverage, evidence)"
  shows "pl_guards linked = filter (\<lambda>c. bound_to ''guard'' g (ly_anchors s) (guard_view c)) (ly_guards s)"
    "pl_bounds linked = filter (\<lambda>c. bound_to ''bound'' g (snd bounds) (bound_view c)) (fst bounds)"
    "pl_releases linked = filter (\<lambda>c. bound_to ''release'' g (snd releases) (release_view c)) (fst releases)"
    "pl_bound_coverage linked \<in> set coverage_statuses"
  using assms by (auto simp: bind_families_def res_bind_Inr_iff dest!: bind_family_Inr)

lemma bind_path_Inr:
  assumes "bind_path li bounds releases s flow = Inr s'"
  obtains entry growth g s1 linked coverage evidence d where
    "li_entries li (vf_entry_id flow) = Some entry" "li_growth li (vf_growth_id flow) = Some growth" "vg_candidate growth = Some g"
    "fold_res (add_summary (entry_id entry, vg_growth_id growth, vf_path_id flow) g) s
       (map snd (filter (\<lambda>(a, r). a = growth_anchor g) (summary_rows (li_rows li)))) = Inr s1"
    "bind_families li bounds releases (entry_id entry, vg_growth_id growth, vf_path_id flow) g s1 = Inr (linked, coverage, evidence)"
    "path_decisions entry growth flow linked (li_configuration li) = Inr d"
    "s' = s1\<lparr>ly_coverage := ly_coverage s1 @ coverage, ly_evidence := ly_evidence s1 @ evidence,
       ly_records := ly_records s1 @ [((entry_id entry, vg_growth_id growth, vf_path_id flow), d)]\<rparr>"
  using assms unfolding bind_path_def item_def Let_def by (auto simp: res_bind_Inr_iff split: option.splits)

lemma promotions_of_rows: "{(growth_anchor g, w) | r w. r \<in> set (map snd (filter (\<lambda>(a, r). a = growth_anchor g) (summary_rows (li_rows li))))
    \<and> promotable g r \<and> wrapper_guard r = Inr w} = promotions li g"
  unfolding promotions_def by (auto simp: image_iff) force

lemma bound_candidates_eq:
  assumes "holds bound_id C cs anchors" "inj_on bound_id (snd ` C)"
  shows "set (filter (\<lambda>c. bound_to ''bound'' g anchors (bound_view c)) cs) = {c. (growth_anchor g, c) \<in> C \<and> bd_receiver c = g_receiver g}"
  using holds_member[OF assms, of _ "growth_anchor g"] by (auto simp: bound_to_def same_resource_def bound_view_def)

lemma release_candidates_eq:
  assumes "holds release_id C cs anchors" "inj_on release_id (snd ` C)"
  shows "set (filter (\<lambda>c. bound_to ''release'' g anchors (release_view c)) cs) = {c. (growth_anchor g, c) \<in> C \<and> rl_receiver c = g_receiver g}"
  using holds_member[OF assms, of _ "growth_anchor g"] by (auto simp: bound_to_def same_resource_def release_view_def)

lemma guard_candidates_eq:
  assumes "holds guard_id C cs anchors" "inj_on guard_id (snd ` C)"
  shows "set (filter (\<lambda>c. bound_to ''guard'' g anchors (guard_view c)) cs) = {c. (growth_anchor g, c) \<in> C \<and> gd_dimension c = g_dimension g}"
  using holds_member[OF assms, of _ "growth_anchor g"] by (auto simp: bound_to_def same_resource_def guard_view_def)

definition row_state :: "lifecycle_inputs \<Rightarrow> lifecycle_state \<Rightarrow> bool" where
  "row_state li s \<longleftrightarrow> (\<exists>S. guard_state (created guard_create (guard_rows (li_rows li))) (\<Union>g \<in> S. promotions li g) s)"

lemma guards_decided:
  assumes "guard_state (created guard_create (guard_rows (li_rows li))) (\<Union>g' \<in> insert g S. promotions li g') s" "ids_separate li"
  shows "(\<exists>c \<in> set (filter (\<lambda>c. bound_to ''guard'' g (ly_anchors s) (guard_view c)) (ly_guards s)). guard_protects g configuration c)
    \<longleftrightarrow> (\<exists>c \<in> row_guards li g. guard_protects g configuration c)"
proof -
  let ?G = "created guard_create (guard_rows (li_rows li))"
  let ?C = "?G \<union> (\<Union>g' \<in> insert g S. promotions li g')"
  have held: "holds guard_id ?C (ly_guards s) (ly_anchors s)" using assms(1) unfolding guard_state_def by blast
  have "inj_on guard_id (snd ` (?G \<union> (\<Union>g. promotions li g)))" using assms(2) unfolding ids_separate_def by blast
  then have "inj_on guard_id (snd ` ?C)" by (rule inj_on_subset) blast
  note candidates = guard_candidates_eq[OF held this, of g]
  have "(growth_anchor g, c) \<in> ?C \<longleftrightarrow> c \<in> row_guards li g" if "guard_protects g configuration c" for c
    using promotions_protect[OF _ that] unfolding row_guards_def by blast
  moreover have "gd_dimension c = g_dimension g" if "guard_protects g configuration c" for c
    using that unfolding guard_protects_def by blast
  ultimately show ?thesis unfolding candidates by blast
qed

text \<open>No guard gives the reason of an open premise.\<close>

lemma guard_reason_closed:
  assumes "evaluate_guard entry growth flow cs configuration coverage = Inr d"
  shows "''LIFECYCLE_PREMISE_UNRESOLVED'' \<notin> set (gdec_reasons d)"
proof -
  have "''LIFECYCLE_PREMISE_UNRESOLVED'' \<notin> set (config_reason ''GUARD_'' k v configuration)" for k v
    by (simp add: config_reason_def split: option.split cfg_value.split)
  then have "''LIFECYCLE_PREMISE_UNRESOLVED'' \<notin> set (guard_reasons g configuration c)" for g c
    by (simp add: guard_reasons_def)
  then show ?thesis using assms
    by (auto simp: evaluate_guard_def res_bind_Inr_iff decide_guards_def Let_def split: if_split_asm)
qed

lemma bind_path_state:
  assumes "bind_path li (bs, banchors) (rs, ranchors) s flow = Inr s'" "row_state li s" "ids_separate li"
    "holds bound_id (created bound_create (bound_rows (li_rows li))) bs banchors"
    "holds release_id (created release_create (release_rows (li_rows li))) rs ranchors"
  shows "row_state li s' \<and> (\<exists>rd. ly_records s' = ly_records s @ [rd] \<and> path_decided li flow rd)"
proof -
  let ?G = "created guard_create (guard_rows (li_rows li))"
  obtain S where S: "guard_state ?G (\<Union>g \<in> S. promotions li g) s" using assms(2) unfolding row_state_def by blast
  obtain entry growth g s1 linked coverage evidence d where
    facts: "li_entries li (vf_entry_id flow) = Some entry" "li_growth li (vf_growth_id flow) = Some growth" "vg_candidate growth = Some g"
    and s1: "fold_res (add_summary (entry_id entry, vg_growth_id growth, vf_path_id flow) g) s
       (map snd (filter (\<lambda>(a, r). a = growth_anchor g) (summary_rows (li_rows li)))) = Inr s1"
    and bf: "bind_families li (bs, banchors) (rs, ranchors) (entry_id entry, vg_growth_id growth, vf_path_id flow) g s1
       = Inr (linked, coverage, evidence)"
    and d: "path_decisions entry growth flow linked (li_configuration li) = Inr d"
    and s': "s' = s1\<lparr>ly_coverage := ly_coverage s1 @ coverage, ly_evidence := ly_evidence s1 @ evidence,
       ly_records := ly_records s1 @ [((entry_id entry, vg_growth_id growth, vf_path_id flow), d)]\<rparr>"
    by (rule bind_path_Inr[OF assms(1)])
  note linked = bind_families_Inr[OF bf, unfolded fst_conv snd_conv]
  have both: "(\<Union>g \<in> S. promotions li g) \<union> promotions li g = (\<Union>g' \<in> insert g S. promotions li g')" by blast
  from add_summaries_state[OF s1 S, unfolded promotions_of_rows both]
  have state: "guard_state ?G (\<Union>g' \<in> insert g S. promotions li g') s1" and records: "ly_records s1 = ly_records s" by blast+
  have bounds: "set (pl_bounds linked) = row_bounds li g" and releases: "set (pl_releases linked) = row_releases li g"
    using bound_candidates_eq[OF assms(4), of g] release_candidates_eq[OF assms(5), of g] assms(3) linked(2,3)
    unfolding ids_separate_def row_bounds_def row_releases_def by simp_all
  have "path_decided li flow ((entry_id entry, vg_growth_id growth, vf_path_id flow), d)"
  proof (cases "satisfies_premise flow \<and> vg_status growth = Verified")
    case True
    then have premise: "satisfies_premise flow" "vg_status growth = Verified" by blast+
    note decisions = path_decisions_verified[OF d premise]
    have "gdec_status (lr_guard d) = GuardEffective \<longleftrightarrow> (\<exists>c \<in> row_guards li g. guard_protects g (li_configuration li) c)"
      using guard_effective_iff[OF decisions(1) facts(3)] guards_decided[OF state assms(3)] linked(1) by simp
    moreover have "bdec_status (lr_bound d) = BoundEffective \<longleftrightarrow> (\<exists>c \<in> row_bounds li g. bound_protects entry g (li_configuration li) c)"
      using path_bound_effective_iff[OF decisions(2) facts(3) linked(4)] unfolding bounds .
    moreover note guard_reason_closed[OF decisions(1)]
    moreover note release_effective_iff[OF decisions(3) facts(3), unfolded releases]
    ultimately show ?thesis using facts True unfolding path_decided_def by auto
  next
    case False
    then have "gdec_status (lr_guard d) = GuardUnknown" "bdec_status (lr_bound d) = BoundUnknown" "rdec_status (lr_release d) = ReleaseUnknown"
      "''LIFECYCLE_PREMISE_UNRESOLVED'' \<in> set (gdec_reasons (lr_guard d))"
      using d by (auto simp: path_decisions_def Let_def)
    then show ?thesis using facts False unfolding path_decided_def by auto
  qed
  moreover have "row_state li s'" unfolding row_state_def
    by (rule exI[of _ "insert g S"]) (use state in \<open>simp add: s' guard_state_def\<close>)
  ultimately show ?thesis using records unfolding s' by simp
qed

lemma bind_paths_state:
  assumes "fold_res (bind_path li (bs, banchors) (rs, ranchors)) s flows = Inr s'" "row_state li s" "ids_separate li"
    "holds bound_id (created bound_create (bound_rows (li_rows li))) bs banchors"
    "holds release_id (created release_create (release_rows (li_rows li))) rs ranchors"
  shows "\<exists>rds. ly_records s' = ly_records s @ rds \<and> list_all2 (path_decided li) flows rds"
  using assms(1,2)
proof (induction flows arbitrary: s)
  case (Cons flow flows)
  obtain s1 where s1: "bind_path li (bs, banchors) (rs, ranchors) s flow = Inr s1"
    "fold_res (bind_path li (bs, banchors) (rs, ranchors)) s1 flows = Inr s'"
    using Cons.prems(1) by (auto simp: res_bind_Inr_iff)
  obtain rd where rd: "row_state li s1" "ly_records s1 = ly_records s @ [rd]" "path_decided li flow rd"
    using bind_path_state[OF s1(1) Cons.prems(2) assms(3-5)] by blast
  obtain rds where "ly_records s' = ly_records s1 @ rds" "list_all2 (path_decided li) flows rds"
    using Cons.IH[OF s1(2) rd(1)] by blast
  then have "ly_records s' = ly_records s @ rd # rds \<and> list_all2 (path_decided li) (flow # flows) (rd # rds)"
    using rd(2,3) by simp
  then show ?case by blast
qed simp

lemma loop_decided:
  assumes "lifecycle_loop li flows = Inr (s, bs, rs)" "ids_separate li"
  shows "list_all2 (path_decided li) flows (ly_records s)"
proof -
  obtain gs ganchors bs' banchors rs' ranchors where created:
    "normalized guard_create guard_id (guard_rows (li_rows li)) = Inr (gs, ganchors)"
    "normalized bound_create bound_id (bound_rows (li_rows li)) = Inr (bs', banchors)"
    "normalized release_create release_id (release_rows (li_rows li)) = Inr (rs', ranchors)"
    using assms(1) by (auto simp: lifecycle_loop_def res_bind_Inr_iff)
  note again = reread_all[OF guard_create_again normalized_facts(2)[OF created(1)]]
    reread_all[OF bound_create_again normalized_facts(2)[OF created(2)]]
    reread_all[OF release_create_again normalized_facts(2)[OF created(3)]]
  define s0 where "s0 = \<lparr>ly_guards = gs, ly_wrappers = [], ly_anchors = ganchors, ly_summaries = [], ly_coverage = [],
    ly_evidence = [], ly_records = []\<rparr>"
  have "fold_res (bind_path li (bs', banchors) (rs', ranchors)) s0 flows = Inr s"
    using assms(1) unfolding s0_def by (auto simp: lifecycle_loop_def res_bind_Inr_iff created again)
  moreover have "row_state li s0"
    using normalized_holds[OF created(1)] unfolding row_state_def guard_state_def s0_def by (intro exI[of _ "{}"]) simp
  ultimately show ?thesis
    using bind_paths_state[OF _ _ assms(2) normalized_holds[OF created(2)] normalized_holds[OF created(3)]] by (fastforce simp: s0_def)
qed

text \<open>C3. The lifecycle stage decides every path by the query rows at its Growth and by nothing else: in the order
  of the flows there is one record per path, under the identifiers of the path; where the flow is proven and the
  Growth verified its guard is effective exactly when some row at the anchor of the Growth, or a wrapper summary
  promoted there, protects, its bound exactly when some row there bounds the demand, its release exactly when some
  row of the receiver reduces it and none is open; on every other path all three are unknown, and only there the record gives the open premise as a reason. Rows at other anchors
  and guards promoted on earlier paths change none of it, provided that the identifiers tell candidates apart.\<close>

theorem lifecycle_decides:
  assumes "lifecycle_loop li flows = Inr (s, bs, rs)" "ids_separate li"
  shows "length (ly_records s) = length flows \<and> (\<forall>n < length flows. path_decided li (flows ! n) (ly_records s ! n))"
  using loop_decided[OF assms] by (simp add: list_all2_conv_all_nth)

section \<open>Instances\<close>

definition row_bound :: bound_candidate where
  "row_bound = sample_bound (stable_identifier ''bound'' (bound_identity (sample_bound [] ''cache''))) ''cache''"

lemma row_bound_created: "bound_create (sample_bound i ''cache'') = Inr row_bound"
  by (simp add: bound_create_def lifecycle_site_def lifecycle_evidence_def sample_bound_def row_bound_def bound_identity_def Let_def
    startswith_def path_parts_def)

lemma bound_rows_normalized:
  "normalized guard_create guard_id [] = Inr ([], [])" "normalized release_create release_id [] = Inr ([], [])"
  "normalized bound_create bound_id [((''A.java'', 3), sample_bound [] ''cache'')] = Inr ([row_bound], [(bound_id row_bound, (''A.java'', 3))])"
  "reread bound_create bound_id ''Bound'' row_bound = Inr row_bound"
  by (simp_all add: normalized_def last_by_def row_bound_created map_filter_simps reread_def usort_def insort_insert_key_def)
    (simp add: row_bound_def row_bound_created[unfolded row_bound_def])

lemmas path_record_simps = Let_def get_def members_def field_of_def literals.simps check_each_def in_literals_def path_text_def
  require_def supplied_id_ok_def hashable_def truthy_def

lemma family_coverage_exists:
  assumes "\<forall>x \<in> {fst ref, fst (snd ref), snd (snd ref), snd sr}. path_text_ok (JStr x)" "family \<in> set lifecycle_families"
    "fst sr \<in> set coverage_statuses"
  shows "\<exists>c. family_coverage_of ref family sr = Inr c"
  using assms by (cases ref) (simp add: family_coverage_of_def path_fields_def LifecycleCoverage_def path_record_simps image_iff)

lemma literals_hold: "\<forall>(v, allowed) \<in> set tests. \<exists>s \<in> set allowed. v = JStr s \<Longrightarrow> literals error tests = Inr ()"
  by (induction error tests rule: literals.induct) (auto simp: literals.simps in_literals_def hashable_def)

lemma LifecycleEvidence_exists:
  assumes "list_all (\<lambda>k. path_text_ok (get raw k)) evidence_texts" "list_all (\<lambda>k. positive (get raw k)) [''growth_line'', ''candidate_line'']"
    "\<exists>s \<in> set lifecycle_families. get raw ''family'' = JStr s" "\<exists>s \<in> set [''same_cfg'', ''partial'', ''ambiguous'']. get raw ''cfg_relation'' = JStr s"
    "\<exists>s \<in> set coverage_statuses. get raw ''coverage_status'' = JStr s" "get raw ''evidence_id'' = JStr []"
  shows "\<exists>x. LifecycleEvidence raw = Inr x"
proof -
  have checked: "check_each (path_text raw) ks = Inr ()" if "list_all (\<lambda>k. path_text_ok (get raw k)) ks" for ks
    using that unfolding check_each_def by (induction ks) (auto simp: path_text_def require_def)
  have "literals e [(get raw ''family'', lifecycle_families), (get raw ''cfg_relation'', [''same_cfg'', ''partial'', ''ambiguous'']),
      (get raw ''coverage_status'', coverage_statuses)] = Inr ()" for e
    by (rule literals_hold) (use assms(3-5) in simp)
  moreover have "check_each (path_text raw) evidence_texts = Inr ()"
    using assms(1) checked[of evidence_texts] by blast
  ultimately show ?thesis using assms(2,6) by (simp add: LifecycleEvidence_def Let_def require_def supplied_id_ok_def truthy_def)
qed

lemma evidence_exists:
  assumes "path_text_ok (JStr e)" "path_text_ok (JStr gi)" "path_text_ok (JStr p)" "path_text_ok (JStr (fw_id v))"
    "path_text_ok (JStr (sl_file (g_site g)))" "path_text_ok (JStr (fst (fw_site v)))"
    "path_text_ok (JStr (case fw_receiver v of None \<Rightarrow> g_receiver g | Some r \<Rightarrow> r))"
    "path_text_ok (JStr (case fw_field v of None \<Rightarrow> g_field_path g | Some f \<Rightarrow> if f = [] then g_field_path g else f))"
    "path_text_ok (JStr (case fw_key v of None \<Rightarrow> ''none'' | Some k \<Rightarrow> k))"
    "family \<in> set lifecycle_families" "1 \<le> sl_line (g_site g)" "1 \<le> snd (fw_site v)"
  shows "\<exists>x. evidence_of (e, gi, p) g family v = Inr x"
  unfolding evidence_of_def path_fields_def Let_def prod.case append.simps
  by (rule LifecycleEvidence_exists)
    (use assms in \<open>simp_all add: coverage_statuses_def get_def members_def field_of_def evidence_texts_def positive_def\<close>)

lemma stable_identifier_text: "path_text_ok (JStr (stable_identifier ''bound'' v))"
proof -
  obtain d where d: "stable_identifier ''bound'' v = ''bound'' @ '':'' @ d" "length d = 24" "list_all is_hex d"
    using stable_identifier_shape by blast
  have "\<not> is_hex (CHR 0x00)" by (simp add: is_hex_def)
  then have "CHR 0x00 \<notin> set d" using d(3) by (auto simp: list_all_iff)
  then show ?thesis using d(2) unfolding path_text_ok_def d(1) by simp
qed

text \<open>Rows that cover the three families at the sample Growth, and rows with a bound there.\<close>

definition covered :: "string \<Rightarrow> coverage_row" where
  "covered family = \<lparr>cw_family = family, cw_status = ''complete'', cw_note = ''LIFECYCLE_MODELED_DOMAIN''\<rparr>"

definition open_rows :: "lifecycle_row list" where
  "open_rows = map (\<lambda>f. CoverageRow (''A.java'', 3) (covered f)) [''guard'', ''bound'', ''release'']"

definition bound_sample_rows :: "lifecycle_row list" where
  "bound_sample_rows = [CoverageRow (''A.java'', 3) (covered ''guard''), BoundRow (''A.java'', 3) (sample_bound [] ''cache''),
     CoverageRow (''A.java'', 3) (covered ''release'')]"

definition traced_inputs :: "lifecycle_row list \<Rightarrow> lifecycle_inputs" where
  "traced_inputs rows = \<lparr>li_rows = rows, li_entries = [''entry:1'' \<mapsto> certified_entry], li_growth = [''growth:1'' \<mapsto> sample_growth],
     li_configuration = sample_configuration\<rparr>"

lemma sample_anchor: "growth_anchor sample_candidate = (''A.java'', 3)"
  by (simp add: growth_anchor_def) (simp add: sample_candidate_def)

lemma open_rows_read:
  "guard_rows open_rows = []" "bound_rows open_rows = []" "release_rows open_rows = []" "summary_rows open_rows = []"
  "fold_res (\<lambda>_. row_known) () open_rows = Inr ()"
  "family \<in> set lifecycle_families \<Longrightarrow> modeled_rows family sample_candidate open_rows = [covered family]"
  by (auto simp: open_rows_def guard_rows_def bound_rows_def release_rows_def summary_rows_def coverage_rows_def modeled_rows_def
    map_filter_simps row_known_def require_def sample_anchor lifecycle_families_def covered_def)

lemma bound_sample_rows_read:
  "guard_rows bound_sample_rows = []" "bound_rows bound_sample_rows = [((''A.java'', 3), sample_bound [] ''cache'')]"
  "release_rows bound_sample_rows = []" "summary_rows bound_sample_rows = []" "fold_res (\<lambda>_. row_known) () bound_sample_rows = Inr ()"
  "modeled_rows ''guard'' sample_candidate bound_sample_rows = [covered ''guard'']"
  "modeled_rows ''release'' sample_candidate bound_sample_rows = [covered ''release'']"
  "modeled_rows ''bound'' sample_candidate bound_sample_rows = []"
  by (auto simp: bound_sample_rows_def guard_rows_def bound_rows_def release_rows_def summary_rows_def coverage_rows_def modeled_rows_def
    map_filter_simps row_known_def require_def sample_anchor covered_def)

abbreviation start_state :: lifecycle_state where
  "start_state \<equiv> \<lparr>ly_guards = [], ly_wrappers = [], ly_anchors = [], ly_summaries = [], ly_coverage = [], ly_evidence = [], ly_records = []\<rparr>"

abbreviation sample_ref :: path_ref where
  "sample_ref \<equiv> (''entry:1'', ''growth:1'', ''flow:1'')"

lemma sample_texts:
  "path_text_ok (JStr ''entry:1'')" "path_text_ok (JStr ''growth:1'')" "path_text_ok (JStr ''flow:1'')"
  "path_text_ok (JStr ''A.java'')" "path_text_ok (JStr ''cache'')" "path_text_ok (JStr ''this.cache'')" "path_text_ok (JStr ''none'')"
  "path_text_ok (JStr ''LIFECYCLE_MODELED_DOMAIN'')" "path_text_ok (JStr ''LIFECYCLE_SAME_CALLABLE_RESOURCE_WITNESS'')"
  by (simp_all add: path_text_ok_def)

lemma covered_family:
  assumes "modeled_rows family sample_candidate rows = [covered family]" "family \<in> set lifecycle_families" "path_text_ok (JStr i)"
  shows "\<exists>c. bind_family rows (''entry:1'', ''growth:1'', i) sample_candidate family [] view [] = Inr ([], ''complete'', c, [])"
  using family_coverage_exists[of "(''entry:1'', ''growth:1'', i)" "(''complete'', ''LIFECYCLE_MODELED_DOMAIN'')" family] sample_texts assms(2,3)
  by (auto simp: bind_family_def family_status_def assms(1) covered_def coverage_statuses_def)

lemma traced_path:
  assumes "summary_rows rows = []" "modeled_rows ''guard'' sample_candidate rows = [covered ''guard'']"
    "modeled_rows ''release'' sample_candidate rows = [covered ''release'']"
    "vf_entry_id flow = ''entry:1''" "vf_growth_id flow = ''growth:1''" "path_text_ok (JStr (vf_path_id flow))"
    "bind_family rows (''entry:1'', ''growth:1'', vf_path_id flow) sample_candidate ''bound'' anchors bound_view bs
       = Inr (lb, ''complete'', coverage, evidence)"
    "path_decisions certified_entry sample_growth flow \<lparr>pl_guards = [], pl_bounds = lb, pl_releases = [],
       pl_guard_coverage = ''complete'', pl_bound_coverage = ''complete'', pl_release_coverage = ''complete''\<rparr> sample_configuration = Inr d"
    "ly_guards s = []" "ly_anchors s = []"
  shows "\<exists>s'. bind_path (traced_inputs rows) (bs, anchors) ([], []) s flow = Inr s' \<and> ly_guards s' = [] \<and> ly_anchors s' = []
    \<and> ly_records s' = ly_records s @ [((''entry:1'', ''growth:1'', vf_path_id flow), d)]"
proof -
  let ?ref = "(''entry:1'', ''growth:1'', vf_path_id flow)"
  obtain gcov rcov where families:
    "bind_family rows ?ref sample_candidate ''guard'' [] guard_view [] = Inr ([], ''complete'', gcov, [])"
    "bind_family rows ?ref sample_candidate ''release'' [] release_view [] = Inr ([], ''complete'', rcov, [])"
    using covered_family[OF assms(2) _ assms(6), of guard_view] covered_family[OF assms(3) _ assms(6), of release_view]
    by (auto simp: lifecycle_families_def)
  have linked: "bind_families (traced_inputs rows) (bs, anchors) ([], []) ?ref sample_candidate s
      = Inr (\<lparr>pl_guards = [], pl_bounds = lb, pl_releases = [], pl_guard_coverage = ''complete'',
          pl_bound_coverage = ''complete'', pl_release_coverage = ''complete''\<rparr>, [gcov, coverage, rcov], evidence)"
    by (simp add: bind_families_def families assms(7,9,10) traced_inputs_def)
  have facts: "li_entries (traced_inputs rows) (vf_entry_id flow) = Some certified_entry"
    "li_growth (traced_inputs rows) (vf_growth_id flow) = Some sample_growth" "vg_candidate sample_growth = Some sample_candidate"
    "(entry_id certified_entry, vg_growth_id sample_growth, vf_path_id flow) = ?ref"
    "li_configuration (traced_inputs rows) = sample_configuration" "li_rows (traced_inputs rows) = rows"
    by (simp_all add: traced_inputs_def assms(4,5) sample_entry_def sample_growth_def certified_entry_def)
  show ?thesis
    unfolding bind_path_def item_def facts option.case res_bind_simps Let_def assms(1) by (simp add: linked assms(8-10))
qed

lemma traced_loop:
  assumes "guard_rows rows = []" "release_rows rows = []" "fold_res (\<lambda>_. row_known) () rows = Inr ()"
    "normalized bound_create bound_id (bound_rows rows) = Inr (bs, anchors)" "map_res (reread bound_create bound_id ''Bound'') bs = Inr bs"
    "fold_res (bind_path (traced_inputs rows) (bs, anchors) ([], [])) start_state flows = Inr s"
  shows "lifecycle_loop (traced_inputs rows) flows = Inr (s, bs, [])"
proof -
  have rows: "li_rows (traced_inputs rows) = rows" by (simp add: traced_inputs_def)
  show ?thesis by (simp add: lifecycle_loop_def rows assms bound_rows_normalized(1,2))
qed

lemma sample_flow_ids: "vf_entry_id sample_verified_flow = ''entry:1''" "vf_growth_id sample_verified_flow = ''growth:1''"
  "vf_path_id sample_verified_flow = ''flow:1''"
  by (simp_all add: sample_verified_flow_def)

lemma certified_context: "validate_context certified_entry sample_growth sample_verified_flow = Inr sample_candidate"
  using sample_context by (simp add: validate_context_iff lifecycle_context_def certified_entry_def)

lemma certified_premise: "satisfies_premise sample_verified_flow" "vg_status sample_growth = Verified"
  using sample_context by (simp_all add: lifecycle_context_def)

lemma no_bound_rows: "normalized bound_create bound_id [] = Inr ([], [])"
  by (simp add: normalized_def last_by_def map_filter_simps)

text \<open>Nothing protects where the rows only report coverage.\<close>

lemma open_path: "\<exists>s. bind_path (traced_inputs open_rows) ([], []) ([], []) start_state sample_verified_flow = Inr s
    \<and> ly_guards s = [] \<and> ly_anchors s = [] \<and> ly_records s = [(sample_ref, \<lparr>lr_guard = no_guard, lr_bound = no_bound, lr_release = no_release\<rparr>)]"
proof -
  obtain c where "bind_family open_rows sample_ref sample_candidate ''bound'' [] bound_view [] = Inr ([], ''complete'', c, [])"
    using covered_family[OF open_rows_read(6), of "''bound''" "''flow:1''" bound_view] sample_texts by (auto simp: lifecycle_families_def)
  moreover have "path_decisions certified_entry sample_growth sample_verified_flow \<lparr>pl_guards = [], pl_bounds = [], pl_releases = [],
       pl_guard_coverage = ''complete'', pl_bound_coverage = ''complete'', pl_release_coverage = ''complete''\<rparr> sample_configuration
      = Inr \<lparr>lr_guard = no_guard, lr_bound = no_bound, lr_release = no_release\<rparr>"
    by (simp add: path_decisions_def certified_premise evaluate_guard_def evaluate_path_bounds_def evaluate_bound_def
      evaluate_synchronous_release_def certified_context coverage_statuses_def no_guard_def no_bound_def no_release_def)
  ultimately show ?thesis
    using traced_path[where rows = open_rows and flow = sample_verified_flow and bs = "[]" and anchors = "[]" and s = start_state] sample_texts
    by (simp add: open_rows_read lifecycle_families_def sample_flow_ids)
qed

lemma open_loop: "\<exists>s. lifecycle_loop (traced_inputs open_rows) [sample_verified_flow] = Inr (s, [], [])
    \<and> ly_records s = [(sample_ref, \<lparr>lr_guard = no_guard, lr_bound = no_bound, lr_release = no_release\<rparr>)]"
proof -
  obtain s where s: "bind_path (traced_inputs open_rows) ([], []) ([], []) start_state sample_verified_flow = Inr s"
    "ly_records s = [(sample_ref, \<lparr>lr_guard = no_guard, lr_bound = no_bound, lr_release = no_release\<rparr>)]" using open_path by blast
  have "lifecycle_loop (traced_inputs open_rows) [sample_verified_flow] = Inr (s, [], [])"
    by (rule traced_loop[where anchors = "[]"]) (simp_all add: open_rows_read no_bound_rows s(1))
  then show ?thesis using s(2) by blast
qed

definition row_bound_decision :: bound_decision where
  "row_bound_decision = decide_bounds certified_entry sample_candidate sample_configuration [row_bound]"

lemma row_bound_protects: "bound_protects certified_entry sample_candidate sample_configuration row_bound"
proof -
  have "limit_domain_of row_bound = None" by (simp add: limit_domain_of_def limit_domains_def sample_bound_def row_bound_def)
  then show ?thesis using sample_limit
    by (simp add: bound_protects_def bound_encoding_ok_def) (simp add: sample_bound_def sample_candidate_def row_bound_def)
qed

lemma row_bound_facts:
  "bdec_status row_bound_decision = BoundEffective" "bdec_evidence_ids row_bound_decision = [''bound'']"
  "bdec_candidate_ids row_bound_decision = [bound_id row_bound]" "bdec_unresolved row_bound_decision = []"
  "bdec_reasons row_bound_decision = []"
proof -
  have "bound_reasons certified_entry sample_candidate sample_configuration row_bound = []"
    using row_bound_protects by (simp only: bound_reasons_Nil)
  then have decision: "row_bound_decision = \<lparr>bdec_status = BoundEffective, bdec_reasons = [],
      bdec_checks = candidate_checks ''BOUND_'' ''bound_effective'' [] (bd_evidence row_bound),
      bdec_evidence_ids = all_evidence bd_evidence [row_bound], bdec_unresolved = usort (bound_unresolved sample_configuration row_bound),
      bdec_candidate_ids = [bound_id row_bound]\<rparr>"
    unfolding row_bound_decision_def by (subst decide_bounds_effective) simp_all
  have "bound_unresolved sample_configuration row_bound = []"
    using config_reason_Nil[of "''BOUND_''" "''max''" "''100''" sample_configuration] sample_limit
    by (simp add: bound_unresolved_def config_unresolved_def sample_bound_def row_bound_def)
  then show "bdec_status row_bound_decision = BoundEffective" "bdec_evidence_ids row_bound_decision = [''bound'']"
    "bdec_candidate_ids row_bound_decision = [bound_id row_bound]" "bdec_unresolved row_bound_decision = []"
    "bdec_reasons row_bound_decision = []"
    by (simp_all add: decision all_evidence_def) (simp_all add: sample_bound_def row_bound_def)
qed

lemma bound_loop: "\<exists>s. lifecycle_loop (traced_inputs bound_sample_rows) [sample_verified_flow] = Inr (s, [row_bound], [])
    \<and> ly_records s = [(sample_ref, \<lparr>lr_guard = no_guard, lr_bound = row_bound_decision, lr_release = no_release\<rparr>)]"
proof -
  have bound: "bound_to ''bound'' sample_candidate [(bound_id row_bound, (''A.java'', 3))] (bound_view row_bound)"
    by (simp add: bound_to_def sample_anchor same_resource_def bound_view_def row_bound_def sample_bound_def) (simp add: sample_candidate_def)
  obtain c where c: "family_coverage_of sample_ref ''bound'' (''complete'', ''LIFECYCLE_SAME_CALLABLE_RESOURCE_WITNESS'') = Inr c"
    using family_coverage_exists[of sample_ref "(''complete'', ''LIFECYCLE_SAME_CALLABLE_RESOURCE_WITNESS'')" "''bound''"] sample_texts
    by (auto simp: coverage_statuses_def lifecycle_families_def)
  obtain ev where ev: "evidence_of sample_ref sample_candidate ''bound'' (bound_view row_bound) = Inr ev"
    using evidence_exists[of "''entry:1''" "''growth:1''" "''flow:1''" "bound_view row_bound" sample_candidate "''bound''"] sample_texts
      stable_identifier_text by (auto simp: bound_view_def row_bound_def sample_bound_def sample_candidate_def lifecycle_families_def)
  have status: "family_status [bound_view row_bound] [] = (''complete'', ''LIFECYCLE_SAME_CALLABLE_RESOURCE_WITNESS'')"
    by (simp add: family_status_def bound_view_def row_bound_def sample_bound_def)
  have "bind_family bound_sample_rows sample_ref sample_candidate ''bound'' [(bound_id row_bound, (''A.java'', 3))] bound_view
      [row_bound] = Inr ([row_bound], ''complete'', c, [ev])"
    by (simp add: bind_family_def bound bound_sample_rows_read status c ev Let_def)
  moreover have "evaluate_path_bounds certified_entry sample_growth sample_verified_flow [row_bound] sample_configuration ''complete''
      = Inr row_bound_decision"
    by (simp add: path_bounds_eq evaluate_bound_def certified_context coverage_statuses_def row_bound_decision_def)
  then have "path_decisions certified_entry sample_growth sample_verified_flow \<lparr>pl_guards = [], pl_bounds = [row_bound], pl_releases = [],
       pl_guard_coverage = ''complete'', pl_bound_coverage = ''complete'', pl_release_coverage = ''complete''\<rparr> sample_configuration
      = Inr \<lparr>lr_guard = no_guard, lr_bound = row_bound_decision, lr_release = no_release\<rparr>"
    by (simp add: path_decisions_def certified_premise evaluate_guard_def evaluate_synchronous_release_def certified_context
      coverage_statuses_def no_guard_def no_release_def)
  ultimately obtain s where s: "bind_path (traced_inputs bound_sample_rows) ([row_bound], [(bound_id row_bound, (''A.java'', 3))]) ([], []) start_state
      sample_verified_flow = Inr s"
    "ly_records s = [(sample_ref, \<lparr>lr_guard = no_guard, lr_bound = row_bound_decision, lr_release = no_release\<rparr>)]"
    using traced_path[where rows = bound_sample_rows and flow = sample_verified_flow and bs = "[row_bound]"
        and anchors = "[(bound_id row_bound, (''A.java'', 3))]" and s = start_state] sample_texts
    by (simp add: bound_sample_rows_read sample_flow_ids) blast
  have "lifecycle_loop (traced_inputs bound_sample_rows) [sample_verified_flow] = Inr (s, [row_bound], [])"
    by (rule traced_loop[where anchors = "[(bound_id row_bound, (''A.java'', 3))]"]) (simp_all add: bound_sample_rows_read bound_rows_normalized s(1))
  then show ?thesis using s(2) by blast
qed

lemma traced_separate: "ids_separate (traced_inputs open_rows)" "ids_separate (traced_inputs bound_sample_rows)"
  by (simp_all add: ids_separate_def created_def open_rows_read bound_sample_rows_read promotions_def row_bound_created inj_on_def traced_inputs_def)

theorem lifecycle_decides_witness:
  "\<exists>s bs rs ref d. lifecycle_loop (traced_inputs bound_sample_rows) [sample_verified_flow] = Inr (s, bs, rs) \<and> ly_records s = [(ref, d)]
    \<and> bdec_status (lr_bound d) = BoundEffective"
proof -
  obtain s d where s: "lifecycle_loop (traced_inputs bound_sample_rows) [sample_verified_flow] = Inr (s, [row_bound], [])"
    "ly_records s = [(sample_ref, d)]" using bound_loop by blast
  have decided: "path_decided (traced_inputs bound_sample_rows) sample_verified_flow (sample_ref, d)"
    using lifecycle_decides[OF s(1) traced_separate(2)] by (simp add: s(2))
  have "row_bound \<in> row_bounds (traced_inputs bound_sample_rows) sample_candidate"
    by (simp add: row_bounds_def created_def bound_sample_rows_read sample_anchor row_bound_created traced_inputs_def)
      (simp add: sample_candidate_def row_bound_def sample_bound_def)
  moreover have "li_entries (traced_inputs bound_sample_rows) (vf_entry_id sample_verified_flow) = Some certified_entry"
    "li_growth (traced_inputs bound_sample_rows) (vf_growth_id sample_verified_flow) = Some sample_growth"
    "vg_candidate sample_growth = Some sample_candidate" "li_configuration (traced_inputs bound_sample_rows) = sample_configuration"
    by (simp_all add: traced_inputs_def sample_verified_flow_def sample_growth_def)
  ultimately have "bdec_status (lr_bound d) = BoundEffective"
    using decided certified_premise row_bound_protects unfolding path_decided_def by auto
  with s show ?thesis by blast
qed

end
