(* ===== verification/Spec2Isabelle.thy ===== *)
theory Spec2Isabelle
  imports ConcludeLaws ReachabilityLaws PipelineLaws MaturationLaws DecoderLaws FamiliesLaws ContractLaws StagePublish LifecycleStageLaws
begin

text \<open>
  This development models the decision core of the analyser under \<^verbatim>\<open>src/dosweb\<close>: the part that
  turns facts extracted from a Java web program (its entries, the places where it grows a resource, the
  flows between them and the guards, bounds and releases around them) into conclusions
  \<^verbatim>\<open>static_vulnerable\<close>, \<^verbatim>\<open>bounded_under_modeled_assumptions\<close> or \<^verbatim>\<open>static_unknown\<close>.

  The parts, in the order in which the program runs them:

  \<^item> \<^verbatim>\<open>Prelude\<close>, \<^verbatim>\<open>PyString\<close>: results (\<^verbatim>\<open>Inl\<close> a raised \<^verbatim>\<open>AnalyzerError\<close>, \<^verbatim>\<open>Inr\<close> a value), the
    sequencing of fallible steps, and the Python string operations the code uses.
  \<^item> \<^verbatim>\<open>Identifiers\<close>: \<^verbatim>\<open>errors.py\<close> and \<^verbatim>\<open>artifacts/identifiers.py\<close>. SHA-256, which the
    code takes from \<^verbatim>\<open>hashlib\<close>, is written out on 32-bit words, so identifiers are computed values.
  \<^item> \<^verbatim>\<open>EntryCoverage\<close>, \<^verbatim>\<open>EntryModel\<close>, \<^verbatim>\<open>EntryLaws\<close>: \<^verbatim>\<open>entries/coverage.py\<close> and \<^verbatim>\<open>entries/models.py\<close>; round
    trip of entry records, limits, routes.
  \<^item> \<^verbatim>\<open>Configuration\<close>: \<^verbatim>\<open>configuration/models.py\<close>, and the Python tests on JSON values that later theories share.
  \<^item> \<^verbatim>\<open>ReachabilityModel\<close>, \<^verbatim>\<open>Reachability\<close>, \<^verbatim>\<open>ReachabilityLaws\<close>: \<^verbatim>\<open>reachability/models.py\<close>, \<^verbatim>\<open>extract.py\<close>,
    \<^verbatim>\<open>verify.py\<close> and the part of \<^verbatim>\<open>production.py\<close> that decides an entry: whatever contract the language model
    returns, an entry counts as reachable only if its extracted facts say so.
  \<^item> \<^verbatim>\<open>Decoder\<close>, \<^verbatim>\<open>DecoderLaws\<close>: \<^verbatim>\<open>codeql/decoder.py\<close>, the contract of each query and the decoding of its
    result: exactly what is accepted, and the types of every decoded row.
  \<^item> \<^verbatim>\<open>GrowthModel\<close>, \<^verbatim>\<open>GrowthSlice\<close>, \<^verbatim>\<open>GrowthVerify\<close>: \<^verbatim>\<open>growth/slices.py\<close>, \<^verbatim>\<open>growth/models.py\<close>,
    \<^verbatim>\<open>growth/verify.py\<close>; a Growth is verified exactly when its contract is admitted and its evidence agrees.
  \<^item> \<^verbatim>\<open>CheckChain\<close>: the shape shared by both verifiers, a list of gates of which each has a name, a reason
    and a verdict, and the status the list determines.
  \<^item> \<^verbatim>\<open>FlowModel\<close>, \<^verbatim>\<open>FlowVerify\<close>, \<^verbatim>\<open>FlowLaws\<close>: \<^verbatim>\<open>flows/models.py\<close> and \<^verbatim>\<open>flows/verify.py\<close>.
  \<^item> \<^verbatim>\<open>Completeness\<close>, \<^verbatim>\<open>Relevance\<close>, \<^verbatim>\<open>RelevanceLaws\<close>: \<^verbatim>\<open>growth/completeness.py\<close>, the records that account for a
    candidate, and \<^verbatim>\<open>growth/relevance.py\<close>, the gate before the language model.
  \<^item> \<^verbatim>\<open>Association\<close>, \<^verbatim>\<open>AssociationLaws\<close>, \<^verbatim>\<open>Maturation\<close>, \<^verbatim>\<open>MaturationLaws\<close>: the candidate loop of the growth stage in
    \<^verbatim>\<open>production.py\<close>: a candidate is linked to entries, passes the gate, the decision of its entry and the check
    of its contract; each candidate ends in one justified disposition, and the loop fails only where the
    association or an outside answer does.
  \<^item> \<^verbatim>\<open>Regex\<close>: the regular expressions of Python that the code uses, as values with an executable matcher and an
    inductive relation it is proved equal to. Bytes from 128 on, which only characters outside ASCII have, count as letters.
  \<^item> \<^verbatim>\<open>Contracts\<close>, \<^verbatim>\<open>ContractLaws\<close>: \<^verbatim>\<open>growth/contracts.py\<close> and the contract classes of \<^verbatim>\<open>growth/models.py\<close>: how an
    answer of the language model becomes a contract. What it says of the program comes from the facts of the slice,
    and its free text carries neither code nor credentials. The text of the answer is read into JSON by an argument.
  \<^item> \<^verbatim>\<open>Schemas\<close>, \<^verbatim>\<open>SchemaLaws\<close>: \<^verbatim>\<open>artifacts/schemas.py\<close>, every schema table with its validator, the check of
    a list of records and of the references between artifacts. A list passes exactly when each record fits by itself and
    no identifier occurs twice. \<^verbatim>\<open>SchemaRecords\<close>: the records the classes of the growth stage write fit their schemas.
  \<^item> \<^verbatim>\<open>GrowthStage\<close>, \<^verbatim>\<open>StageLaws\<close>, \<^verbatim>\<open>StagePublish\<close>: the growth stage as a whole, with the closing checks and the output
    of \<^verbatim>\<open>make_growth_executor\<close>. The candidate loop keeps an invariant of its records from which every closing check
    follows, so the stage publishes what the loop returns. That different records have different hashes is a hypothesis.
  \<^item> \<^verbatim>\<open>Lifecycle\<close>, \<^verbatim>\<open>LifecycleLaws\<close>: \<^verbatim>\<open>lifecycle/guards.py\<close>, \<^verbatim>\<open>bounds.py\<close>, \<^verbatim>\<open>releases.py\<close>,
    \<^verbatim>\<open>framework_limits.py\<close>: which candidate protects, when a decision is effective, ineffective or unknown,
    and that the order of candidates is irrelevant.
  \<^item> \<^verbatim>\<open>Assertions\<close>, \<^verbatim>\<open>Verdicts\<close>: \<^verbatim>\<open>conclude/assertions.py\<close> and \<^verbatim>\<open>conclude/verdicts.py\<close>.
  \<^item> \<^verbatim>\<open>Certificates\<close>, \<^verbatim>\<open>CertificateLaws\<close>: \<^verbatim>\<open>lifecycle/certificates.py\<close>; the builder accepts exactly what
    the deriving functions produce.
  \<^item> \<^verbatim>\<open>Conclude\<close>, \<^verbatim>\<open>ConcludeLaws\<close>: the conclusion stage of \<^verbatim>\<open>production.py\<close>: eligible pairs, path
    bounds, the gate, and the certificates and findings of the stage.
  \<^item> \<^verbatim>\<open>PathEvidence\<close>: \<^verbatim>\<open>lifecycle/evidence.py\<close>, the records of a path. \<^verbatim>\<open>LifecycleStage\<close>,
    \<^verbatim>\<open>LifecycleStageLaws\<close>: the lifecycle stage of \<^verbatim>\<open>production.py\<close>, from query rows to the decisions of each path and
    their records. Through all the paths the stage keeps its guards, the promoted ones included, equal to those the rows
    give, so that the decisions of a path depend on the rows at its Growth only.
  \<^item> \<^verbatim>\<open>Families\<close>, \<^verbatim>\<open>FamiliesLaws\<close>: \<^verbatim>\<open>report/families.py\<close>, the partition of the findings into families for the
    report, their primary finding and priority.
  \<^item> \<^verbatim>\<open>Pipeline\<close>, \<^verbatim>\<open>PipelineRun\<close>: \<^verbatim>\<open>pipeline.py\<close>, the stage machine around all of this: paths, payloads,
    fingerprints, the reuse of a stage, its execution and publication, failure records, and a run.
    \<^verbatim>\<open>Payloads\<close>: payloads and paths keep their limits. \<^verbatim>\<open>Exchange\<close>: a calculus of specifications for operations
    with exceptions, and the exchange of files with its restoration. \<^verbatim>\<open>PublishLaws\<close>: a publication happens as a
    whole or not at all. \<^verbatim>\<open>PipelineLaws\<close>: a published stage can be reused, a failing stage is recorded, and a run
    that returns has completed every stage.
  \<^item> This theory: the lifecycle and the conclusion stage composed, that is what a published conclusion says of the
    query rows it rests on, and where the two stages do not fit together.

  Conventions. A dataclass is a \<^verbatim>\<open>record\<close>; the definition with the class's own name is its validating
  constructor (the code's \<^verbatim>\<open>__post_init__\<close>). An enumeration or \<^verbatim>\<open>Literal\<close> that the code compares is a
  \<^verbatim>\<open>datatype\<close>, a free text one a \<^verbatim>\<open>string\<close>. Strings are lists of characters standing for the UTF-8 bytes
  of the text, so that byte limits are lengths. A Python dictionary read by key is a partial function, a
  keyword record of a query row an association list. Integers are unbounded, as in Python. Tests
  \<^verbatim>\<open>isinstance(x, T)\<close> that the type of the model already guarantees are not repeated: the model speaks of
  decoded, well typed values. All recursion is structural, so no fuel is needed and every operation
  returns.

  The state of the pipeline (\<^verbatim>\<open>pipe_state\<close>) holds the files below the output root and in the temporary
  directory of a publication, as maps from paths to contents, the run document, and the local variables
  of \<^verbatim>\<open>_publish\<close> that its handler reads. An operation returns its result or exception with the state it
  leaves. Each operation on the file system may fail: the state lists which of the coming ones do, so the
  statements quantify over every place of a failure. Executors, preflight and finalizer are arguments.

  Not modelled. The CodeQL driver, the language model client, the cache, the batch runner and the command
  line are effects on processes, network and files; what they deliver (query results, contracts, modeled
  configuration) enters as arguments. The decoder takes the resolution of a path (symbolic links, the
  working directory) as an argument, the candidate loop the slice it cuts from source files, the answers of
  the language model and \<^verbatim>\<open>repr\<close>; its rows are the records the decoder's contract describes, and its audit
  records are an argument of the growth stage. Of the pipeline, the lock of the output directory, directories that
  stand in the place of files, and payloads that are not JSON values are left out. Reading and
  writing artifact files is left out as well; records are JSON values. Regular expressions for the redaction of secrets, Markdown
  output, benchmark evaluation and the selection of repositories decide nothing about a conclusion.
\<close>

section \<open>The formula behind a conclusion\<close>

text \<open>The conclusion stage reads what the lifecycle stage has published: the same facts, and the decision of each
  path as its record keeps it.\<close>

definition published_by :: "conclude_inputs \<Rightarrow> lifecycle_inputs \<Rightarrow> lifecycle_state \<Rightarrow> bool" where
  "published_by ci li s \<longleftrightarrow> ci_entries ci = li_entries li \<and> ci_growth ci = li_growth li
     \<and> list_all (\<lambda>(ref, d). ci_lifecycle ci (snd (snd ref)) = Some (durable d)) (ly_records s)"

lemma durable_status:
  "gdec_status (lr_guard (durable d)) = gdec_status (lr_guard d)" "bdec_status (lr_bound (durable d)) = bdec_status (lr_bound d)"
  "rdec_status (lr_release (durable d)) = rdec_status (lr_release d)"
  by (simp_all add: durable_def)

lemma traced_record:
  assumes "lifecycle_loop li flows = Inr (s, bs, rs)" "ids_separate li" "p \<in> set flows"
  obtains rd where "rd \<in> set (ly_records s)" "path_decided li p rd"
proof -
  note all = loop_decided[OF assms(1,2), unfolded list_all2_conv_all_nth]
  obtain n where "n < length flows" "flows ! n = p" using assms(3) by (auto simp: in_set_conv_nth)
  then show thesis using all that by (metis nth_mem)
qed

text \<open>The decision that the conclusion reads for a path is determined by the rows at the Growth of the path.\<close>

lemma traced_decision:
  assumes "lifecycle_loop li flows = Inr (s, bs, rs)" "ids_separate li" "published_by ci li s" "p \<in> set flows" "flow_pair p = (e, g)"
    "li_entries li e = Some entry" "li_growth li g = Some growth" "vg_candidate growth = Some candidate"
    "ci_lifecycle ci (vf_path_id p) = Some d" "satisfies_premise p" "vg_status growth = Verified"
  shows "gdec_status (lr_guard d) = GuardEffective \<longleftrightarrow> (\<exists>c \<in> row_guards li candidate. guard_protects candidate (li_configuration li) c)"
    "bdec_status (lr_bound d) = BoundEffective \<longleftrightarrow> (\<exists>c \<in> row_bounds li candidate. bound_protects entry candidate (li_configuration li) c)"
    "rdec_status (lr_release d) = ReleaseEffective \<longleftrightarrow> (\<exists>c \<in> row_releases li candidate. release_protects candidate c)
       \<and> (\<forall>c \<in> row_releases li candidate. \<not> release_open c)"
    "rdec_status (lr_release d) \<noteq> ReleaseUnknown \<Longrightarrow> \<forall>c \<in> row_releases li candidate. \<not> release_open c"
proof -
  obtain rd where rd: "rd \<in> set (ly_records s)" "path_decided li p rd" by (rule traced_record[OF assms(1,2,4)])
  have "vf_entry_id p = e" "vf_growth_id p = g" using assms(5) by (simp_all add: flow_pair_def)
  note decided = rd(2)[unfolded path_decided_def this assms(6,7) option.inject]
  have "snd (snd (fst rd)) = vf_path_id p" using decided by auto
  then have "d = durable (snd rd)" using assms(3,9) rd(1) by (auto simp: published_by_def list_all_iff)
  note statuses = durable_status[of "snd rd", folded this]
  show "gdec_status (lr_guard d) = GuardEffective \<longleftrightarrow> (\<exists>c \<in> row_guards li candidate. guard_protects candidate (li_configuration li) c)"
    "bdec_status (lr_bound d) = BoundEffective \<longleftrightarrow> (\<exists>c \<in> row_bounds li candidate. bound_protects entry candidate (li_configuration li) c)"
    "rdec_status (lr_release d) = ReleaseEffective \<longleftrightarrow> (\<exists>c \<in> row_releases li candidate. release_protects candidate c)
       \<and> (\<forall>c \<in> row_releases li candidate. \<not> release_open c)"
    "rdec_status (lr_release d) \<noteq> ReleaseUnknown \<Longrightarrow> \<forall>c \<in> row_releases li candidate. \<not> release_open c"
    using decided assms(8,10,11) unfolding statuses by auto
qed

text \<open>C1. The formula of the analysis, from the query rows to the verdict: when a pair is concluded vulnerable over
  what the lifecycle stage has published, its entry is covered and reachable by an ordinary attacker, its Growth is
  verified and every path proven, and some path carries an attacker-controlled demand that no query row stops: either
  one request suffices and no guard row, promoted wrapper or bound row at the Growth protects, or repeated requests
  accumulate and no bound row there protects and no release row there protects or is open.\<close>

theorem vulnerable_traced:
  assumes "lifecycle_loop li flows = Inr (s, bs, rs)" "ids_separate li" "published_by ci li s"
    "paths = filter (\<lambda>p. flow_pair p = (e, g)) flows" "conclude_pair ci (e, g) paths = Inr (c, f)"
    "li_entries li e = Some entry" "li_growth li g = Some growth" "vg_candidate growth = Some candidate"
    "fd_verdict f = ''static_vulnerable''"
  shows "pair_established ci (e, g) entry growth paths
    \<and> (\<exists>p \<in> set paths. satisfies_premise p
         \<and> (single_request_demand growth p (ci_amplification ci (e, g))
              \<and> (\<forall>x \<in> row_guards li candidate. \<not> guard_protects candidate (li_configuration li) x)
              \<and> (\<forall>x \<in> row_bounds li candidate. \<not> bound_protects entry candidate (li_configuration li) x)
            \<or> persistent_demand growth p (ci_repeatability ci (e, g))
              \<and> (\<forall>x \<in> row_bounds li candidate. \<not> bound_protects entry candidate (li_configuration li) x)
              \<and> (\<forall>x \<in> row_releases li candidate. \<not> release_protects candidate x \<and> \<not> release_open x)))"
proof -
  have known: "ci_entries ci e = Some entry" "ci_growth ci g = Some growth" using assms(3,6,7) by (simp_all add: published_by_def)
  note verdict = conclude_pair_verdict[OF assms(5) known]
  then have vulnerable: "ct_verdict c = verdict_text StaticVulnerable" using assms(9) by simp
  then have established: "pair_established ci (e, g) entry growth paths"
    using verdict by (simp add: verdict_name.name_inj)
  obtain p where p: "p \<in> set paths" "path_exposed ci (e, g) growth p" using verdict vulnerable by blast
  have premise: "satisfies_premise p" "vg_status growth = Verified"
    using established p(1) by (simp_all add: pair_established_def)
  from p(2) obtain d where d: "ci_lifecycle ci (vf_path_id p) = Some d"
    and exposed: "exposed_once growth p (lr_guard d) (lr_bound d) (pair_premises ci (e, g))
      \<or> exposed_repeatedly growth p (lr_bound d) (lr_release d) (pair_premises ci (e, g))"
    by (auto simp: path_exposed_def)
  have "p \<in> set flows" "flow_pair p = (e, g)" using p(1) assms(4) by simp_all
  note decided = traced_decision[OF assms(1-3) this assms(6-8) d premise]
  from exposed show ?thesis
  proof
    assume once: "exposed_once growth p (lr_guard d) (lr_bound d) (pair_premises ci (e, g))"
    then have "gdec_status (lr_guard d) \<noteq> GuardEffective" "bdec_status (lr_bound d) \<noteq> BoundEffective"
      "single_request_demand growth p (ci_amplification ci (e, g))"
      by (simp_all add: exposed_once_def pair_premises_def)
    then show ?thesis unfolding decided using established p(1) premise(1) by blast
  next
    assume repeated: "exposed_repeatedly growth p (lr_bound d) (lr_release d) (pair_premises ci (e, g))"
    then have "bdec_status (lr_bound d) \<noteq> BoundEffective" "rdec_status (lr_release d) \<noteq> ReleaseEffective"
      "rdec_status (lr_release d) \<noteq> ReleaseUnknown" "persistent_demand growth p (ci_repeatability ci (e, g))"
      by (simp_all add: exposed_repeatedly_def pair_premises_def)
    then show ?thesis using decided(4) established p(1) premise(1) unfolding decided(2,3) by blast
  qed
qed

text \<open>C2. Conversely a bounded conclusion is never given for lack of rows: some path carries a demand, and on every
  path a single-request demand meets a guard row, promoted wrapper or bound row at the Growth that protects, and a
  persistent demand meets a bound row there that protects or release rows of which one protects and none is open.\<close>

theorem bounded_traced:
  assumes "lifecycle_loop li flows = Inr (s, bs, rs)" "ids_separate li" "published_by ci li s"
    "paths = filter (\<lambda>p. flow_pair p = (e, g)) flows" "conclude_pair ci (e, g) paths = Inr (c, f)"
    "li_entries li e = Some entry" "li_growth li g = Some growth" "vg_candidate growth = Some candidate"
    "fd_verdict f = ''bounded_under_modeled_assumptions''"
  shows "pair_established ci (e, g) entry growth paths
    \<and> (\<exists>p \<in> set paths. single_request_demand growth p (ci_amplification ci (e, g))
         \<or> persistent_demand growth p (ci_repeatability ci (e, g)))
    \<and> (\<forall>p \<in> set paths.
         (single_request_demand growth p (ci_amplification ci (e, g)) \<longrightarrow>
            (\<exists>x \<in> row_guards li candidate. guard_protects candidate (li_configuration li) x)
          \<or> (\<exists>x \<in> row_bounds li candidate. bound_protects entry candidate (li_configuration li) x))
       \<and> (persistent_demand growth p (ci_repeatability ci (e, g)) \<longrightarrow>
            (\<exists>x \<in> row_bounds li candidate. bound_protects entry candidate (li_configuration li) x)
          \<or> (\<exists>x \<in> row_releases li candidate. release_protects candidate x)
            \<and> (\<forall>x \<in> row_releases li candidate. \<not> release_open x)))"
proof -
  have known: "ci_entries ci e = Some entry" "ci_growth ci g = Some growth" using assms(3,6,7) by (simp_all add: published_by_def)
  note verdict = conclude_pair_verdict[OF assms(5) known]
  then have bounded: "ct_verdict c = verdict_text BoundedUnderModel" using assms(9) by simp
  then have established: "pair_established ci (e, g) entry growth paths"
    using verdict by (simp add: verdict_name.name_inj)
  obtain d where d: "\<And>p. p \<in> set paths \<Longrightarrow> ci_lifecycle ci (vf_path_id p) = Some d"
      "\<And>p. p \<in> set paths \<Longrightarrow> demand_refuted growth d (pair_premises ci (e, g)) p"
    and some: "\<exists>p \<in> set paths. single_request_demand growth p (pr_amplification (pair_premises ci (e, g)))
         \<or> persistent_demand growth p (pr_repeatability (pair_premises ci (e, g)))"
    using conclude_pair_bounded[OF assms(5) known bounded] by blast
  have "(single_request_demand growth p (ci_amplification ci (e, g)) \<longrightarrow>
            (\<exists>x \<in> row_guards li candidate. guard_protects candidate (li_configuration li) x)
          \<or> (\<exists>x \<in> row_bounds li candidate. bound_protects entry candidate (li_configuration li) x))
       \<and> (persistent_demand growth p (ci_repeatability ci (e, g)) \<longrightarrow>
            (\<exists>x \<in> row_bounds li candidate. bound_protects entry candidate (li_configuration li) x)
          \<or> (\<exists>x \<in> row_releases li candidate. release_protects candidate x)
            \<and> (\<forall>x \<in> row_releases li candidate. \<not> release_open x))" if p: "p \<in> set paths" for p
  proof -
    have premise: "satisfies_premise p" "vg_status growth = Verified" using established p by (simp_all add: pair_established_def)
    have "p \<in> set flows" "flow_pair p = (e, g)" using p assms(4) by simp_all
    note decided = traced_decision[OF assms(1-3) this assms(6-8) d(1)[OF p] premise]
    show ?thesis
      using d(2)[OF p] unfolding demand_refuted_def decided(1-3) by (simp add: pair_premises_def)
  qed
  then show ?thesis
    using established some by (simp add: pair_premises_def)
qed

text \<open>The decision published for a path cites the open premise exactly where the premise is open.\<close>

lemma published_decision:
  assumes "lifecycle_loop li flows = Inr (s, bs, rs)" "ids_separate li" "published_by ci li s" "p \<in> set flows" "flow_pair p = (e, g)"
    "li_growth li g = Some growth"
  shows "\<exists>d. ci_lifecycle ci (vf_path_id p) = Some d \<and> (''LIFECYCLE_PREMISE_UNRESOLVED'' \<in> set (gdec_reasons (lr_guard d))
      \<longleftrightarrow> \<not> (satisfies_premise p \<and> vg_status growth = Verified))"
proof -
  obtain rd where rd: "rd \<in> set (ly_records s)" "path_decided li p rd" by (rule traced_record[OF assms(1,2,4)])
  have "vf_growth_id p = g" using assms(5) by (simp add: flow_pair_def)
  note decided = rd(2)[unfolded path_decided_def this assms(6) option.inject]
  then have "snd (snd (fst rd)) = vf_path_id p" by auto
  then have "ci_lifecycle ci (vf_path_id p) = Some (durable (snd rd))" using assms(3) rd(1) by (auto simp: published_by_def list_all_iff)
  then show ?thesis using decided by (auto simp: durable_def)
qed

text \<open>C23. A pair with a proven and an unproven path is not concluded: the lifecycle stage publishes unknown decisions for
  the unproven path, so the decisions of the paths of the pair differ, and the conclusion of the pair, with it the whole
  stage, fails as an invalid upstream artifact. The proof gate, which would make the verdict of such a pair unknown, is
  not reached.\<close>

theorem mixed_paths_refused:
  assumes "lifecycle_loop li flows = Inr (s, bs, rs)" "ids_separate li" "published_by ci li s"
    "paths = filter (\<lambda>p. flow_pair p = (e, g)) flows" "li_entries li e = Some entry" "li_growth li g = Some growth"
    "vg_status growth = Verified" "p \<in> set paths" "satisfies_premise p" "q \<in> set paths" "\<not> satisfies_premise q"
  shows "conclude_pair ci (e, g) paths = Inl (upstream_invalid ''Lifecycle decisions disagree across proven paths.'')"
proof -
  have decision: "\<exists>d. ci_lifecycle ci (vf_path_id x) = Some d \<and> (''LIFECYCLE_PREMISE_UNRESOLVED'' \<in> set (gdec_reasons (lr_guard d))
      \<longleftrightarrow> \<not> satisfies_premise x)" if "x \<in> set paths" for x
    using published_decision[OF assms(1-3) _ _ assms(6), of x e] that assms(4,7) by simp
  define ordered where "ordered = sort_key vf_path_id paths"
  have ordered: "set ordered = set paths" by (simp add: ordered_def)
  then obtain h t where ht: "ordered = h # t" using assms(8) by (cases ordered) auto
  obtain d where d: "ci_lifecycle ci (vf_path_id h) = Some d" using decision[of h] ordered ht by auto
  have "list_ex (\<lambda>flow. ci_lifecycle ci (vf_path_id flow) \<noteq> Some d) t"
  proof (rule ccontr)
    assume "\<not> ?thesis"
    then have "\<forall>x \<in> set paths. ci_lifecycle ci (vf_path_id x) = Some d" using d unfolding ordered[symmetric] ht by (auto simp: list_ex_iff)
    then show False using decision[OF assms(8)] decision[OF assms(10)] assms(8-11) by auto
  qed
  then show ?thesis
    using assms(3,5,6) by (simp add: conclude_pair_def Let_def ordered_def[symmetric] ht d published_by_def)
qed

section \<open>Instances\<close>

lemma traced_published:
  assumes "ly_records s = [(sample_ref, d)]" "length (gdec_checks (lr_guard d)) \<le> 1" "length (bdec_checks (lr_bound d)) \<le> 1"
    "length (rdec_checks (lr_release d)) \<le> 1"
  shows "published_by (sample_with d) (traced_inputs rows) s"
proof -
  have "durable_checks cs = cs" if "length cs \<le> 1" for cs
    using that by (cases cs) (auto simp: durable_checks_def)
  then have "durable d = d" using assms(2-4) by (simp add: durable_def)
  then show ?thesis by (simp add: published_by_def assms(1) sample_with_def traced_inputs_def)
qed

lemma traced_facts:
  "[sample_verified_flow] = filter (\<lambda>p. flow_pair p = (''entry:1'', ''growth:1'')) [sample_verified_flow]"
  "li_entries (traced_inputs rows) ''entry:1'' = Some certified_entry" "li_growth (traced_inputs rows) ''growth:1'' = Some sample_growth"
  "vg_candidate sample_growth = Some sample_candidate"
  by (simp_all add: sample_pairs traced_inputs_def sample_growth_def)

theorem vulnerable_traced_witness:
  "\<exists>s c f. lifecycle_loop (traced_inputs open_rows) [sample_verified_flow] = Inr (s, [], [])
    \<and> conclude_pair (sample_with \<lparr>lr_guard = no_guard, lr_bound = no_bound, lr_release = no_release\<rparr>)
      (''entry:1'', ''growth:1'') [sample_verified_flow] = Inr (c, f)
    \<and> fd_verdict f = ''static_vulnerable'' \<and> satisfies_premise sample_verified_flow"
proof -
  let ?d = "\<lparr>lr_guard = no_guard, lr_bound = no_bound, lr_release = no_release\<rparr>"
  obtain s where s: "lifecycle_loop (traced_inputs open_rows) [sample_verified_flow] = Inr (s, [], [])"
    "ly_records s = [(sample_ref, ?d)]" using open_loop by blast
  have "pair_ready (sample_with ?d) (''entry:1'', ''growth:1'') [sample_verified_flow]"
    by (rule sample_ready_with) (simp_all add: no_bound_def)
  then obtain c f where run: "conclude_pair (sample_with ?d) (''entry:1'', ''growth:1'') [sample_verified_flow] = Inr (c, f)"
    using conclude_pair_total by (metis surj_pair)
  have verdict: "fd_verdict f = ''static_vulnerable''"
    by (rule sample_conclusion(2)[OF run]) (simp_all add: no_bound_def)
  have "published_by (sample_with ?d) (traced_inputs open_rows) s"
    by (rule traced_published[OF s(2)]) (simp_all add: no_guard_def no_bound_def no_release_def)
  from vulnerable_traced[OF s(1) traced_separate(1) this traced_facts(1) run traced_facts(2-4) verdict]
  have "\<exists>p \<in> set [sample_verified_flow]. satisfies_premise p" by blast
  then show ?thesis using s(1) run verdict by simp
qed

theorem bounded_traced_witness:
  "\<exists>s c f. lifecycle_loop (traced_inputs bound_sample_rows) [sample_verified_flow] = Inr (s, [row_bound], [])
    \<and> conclude_pair (sample_with \<lparr>lr_guard = no_guard, lr_bound = row_bound_decision, lr_release = no_release\<rparr>)
      (''entry:1'', ''growth:1'') [sample_verified_flow] = Inr (c, f)
    \<and> fd_verdict f = ''bounded_under_modeled_assumptions'' \<and> vg_status sample_growth = Verified"
proof -
  let ?d = "\<lparr>lr_guard = no_guard, lr_bound = row_bound_decision, lr_release = no_release\<rparr>"
  obtain s where s: "lifecycle_loop (traced_inputs bound_sample_rows) [sample_verified_flow] = Inr (s, [row_bound], [])"
    "ly_records s = [(sample_ref, ?d)]" using bound_loop by blast
  obtain i where "bound_id row_bound = ''bound:'' @ i"
    using stable_identifier_shape[of "''bound''"] by (fastforce simp: row_bound_def sample_bound_def)
  then have "pair_ready (sample_with ?d) (''entry:1'', ''growth:1'') [sample_verified_flow]"
    by (intro sample_ready_with[where i = i]) (simp_all add: row_bound_facts)
  then obtain c f where run: "conclude_pair (sample_with ?d) (''entry:1'', ''growth:1'') [sample_verified_flow] = Inr (c, f)"
    using conclude_pair_total by (metis surj_pair)
  have verdict: "fd_verdict f = ''bounded_under_modeled_assumptions''"
    by (rule sample_conclusion(1)[OF run]) (simp_all add: row_bound_facts)
  have "length (bdec_checks row_bound_decision) \<le> 1"
    using row_bound_protects
    by (simp add: row_bound_decision_def decide_bounds_checks candidate_checks_def flip: bound_reasons_Nil)
  then have "published_by (sample_with ?d) (traced_inputs bound_sample_rows) s"
    by (intro traced_published[OF s(2)]) (simp_all add: no_guard_def no_release_def)
  from bounded_traced[OF s(1) traced_separate(2) this traced_facts(1) run traced_facts(2-4) verdict]
  have "pair_established (sample_with ?d) (''entry:1'', ''growth:1'') certified_entry sample_growth [sample_verified_flow]" by blast
  then have "vg_status sample_growth = Verified" by (simp add: pair_established_def)
  with s(1) run verdict show ?thesis by blast
qed

text \<open>A second path of the sample pair, which is not proven.\<close>

definition open_flow :: verified_flow where
  "open_flow = sample_verified_flow\<lparr>vf_path_id := ''flow:2'', vf_status := FlowPartial, vf_reasons := [''FLOW_CONFIDENCE'']\<rparr>"

definition open_decisions :: lifecycle_record where
  "open_decisions = (let reasons = [''FLOW_CONFIDENCE'', ''LIFECYCLE_PREMISE_UNRESOLVED''] in
     \<lparr>lr_guard = \<lparr>gdec_status = GuardUnknown, gdec_reasons = reasons, gdec_checks = [], gdec_evidence_ids = [],
        gdec_unresolved = reasons, gdec_candidate_ids = []\<rparr>,
      lr_bound = \<lparr>bdec_status = BoundUnknown, bdec_reasons = reasons, bdec_checks = [], bdec_evidence_ids = [],
        bdec_unresolved = reasons, bdec_candidate_ids = []\<rparr>,
      lr_release = \<lparr>rdec_status = ReleaseUnknown, rdec_class = ClassUnknown, rdec_reasons = reasons,
        rdec_checks = [], rdec_evidence_ids = [], rdec_unresolved = reasons, rdec_candidate_ids = []\<rparr>\<rparr>)"

theorem mixed_paths_refused_witness:
  "\<exists>s. lifecycle_loop (traced_inputs open_rows) [sample_verified_flow, open_flow] = Inr (s, [], []) \<and> length (ly_records s) = 2
    \<and> conclude_pair ((sample_with open_decisions)\<lparr>ci_lifecycle := [''flow:1'' \<mapsto> \<lparr>lr_guard = no_guard, lr_bound = no_bound,
        lr_release = no_release\<rparr>, ''flow:2'' \<mapsto> open_decisions]\<rparr>) (''entry:1'', ''growth:1'') [sample_verified_flow, open_flow]
      = Inl (upstream_invalid ''Lifecycle decisions disagree across proven paths.'')"
proof -
  let ?closed = "\<lparr>lr_guard = no_guard, lr_bound = no_bound, lr_release = no_release\<rparr>"
  let ?ci = "(sample_with open_decisions)\<lparr>ci_lifecycle := [''flow:1'' \<mapsto> ?closed, ''flow:2'' \<mapsto> open_decisions]\<rparr>"
  obtain s1 where s1: "bind_path (traced_inputs open_rows) ([], []) ([], []) start_state sample_verified_flow = Inr s1"
    "ly_guards s1 = []" "ly_anchors s1 = []" "ly_records s1 = [(sample_ref, ?closed)]"
    using open_path by blast
  have ids: "vf_entry_id open_flow = ''entry:1''" "vf_growth_id open_flow = ''growth:1''" "vf_path_id open_flow = ''flow:2''"
    "\<not> satisfies_premise open_flow"
    by (simp_all add: open_flow_def sample_verified_flow_def satisfies_premise_def)
  have known: "path_text_ok (JStr ''flow:2'')" by (simp add: path_text_ok_def)
  obtain c where c: "bind_family open_rows (''entry:1'', ''growth:1'', ''flow:2'') sample_candidate ''bound'' [] bound_view []
      = Inr ([], ''complete'', c, [])"
    using covered_family[OF open_rows_read(6) _ known, of "''bound''" bound_view] by (auto simp: lifecycle_families_def)
  have "usort [''FLOW_CONFIDENCE'', ''LIFECYCLE_PREMISE_UNRESOLVED''] = [''FLOW_CONFIDENCE'', ''LIFECYCLE_PREMISE_UNRESOLVED'']"
    by code_simp
  then have "path_decisions certified_entry sample_growth open_flow \<lparr>pl_guards = [], pl_bounds = [], pl_releases = [],
       pl_guard_coverage = ''complete'', pl_bound_coverage = ''complete'', pl_release_coverage = ''complete''\<rparr> sample_configuration
      = Inr open_decisions"
    by (simp add: path_decisions_def ids(4) open_decisions_def Let_def) (simp add: open_flow_def sample_growth_def)
  with c obtain s where s: "bind_path (traced_inputs open_rows) ([], []) ([], []) s1 open_flow = Inr s"
    "ly_records s = [(sample_ref, ?closed), ((''entry:1'', ''growth:1'', ''flow:2''), open_decisions)]"
    using traced_path[where rows = open_rows and flow = open_flow and bs = "[]" and anchors = "[]" and s = s1] known s1(2-4)
    by (auto simp: open_rows_read lifecycle_families_def ids)
  have loop: "lifecycle_loop (traced_inputs open_rows) [sample_verified_flow, open_flow] = Inr (s, [], [])"
    by (rule traced_loop[where anchors = "[]"]) (simp_all add: open_rows_read no_bound_rows s1(1) s(1))
  have "durable ?closed = ?closed" "durable open_decisions = open_decisions"
    by (simp_all add: durable_def durable_checks_def no_guard_def no_bound_def no_release_def open_decisions_def Let_def)
  then have published: "published_by ?ci (traced_inputs open_rows) s"
    by (simp add: published_by_def s(2)) (simp add: sample_with_def traced_inputs_def)
  have "[sample_verified_flow, open_flow] = filter (\<lambda>p. flow_pair p = (''entry:1'', ''growth:1'')) [sample_verified_flow, open_flow]"
    by (simp add: flow_pair_def ids sample_flow_ids)
  from mixed_paths_refused[OF loop traced_separate(1) published this traced_facts(2,3) certified_premise(2) _ certified_premise(1) _ ids(4)]
  show ?thesis using loop s(2) by simp
qed

end
